(* ===== verification/Py_Values.thy ===== *)
theory Py_Values
  imports Complex_Main "HOL-Library.AList" "HOL-Library.Sublist" "HOL-Library.Monad_Syntax"
begin

text \<open>
  The shared prelude: the Python values, dictionaries, numbers and strings the program
  passes between its parts, and the generic lemmas the component theories rest on.

  \<^item> \<open>pyval\<close> is a dynamically typed Python value (JSON-like: the program's snapshots,
    proposals, strategies and message bodies are such dictionaries). A dictionary is an
    association list in insertion order; \<open>dset\<close> is \<open>d[k] = v\<close>, \<open>dget\<close> is \<open>d.get(k)\<close>.
  \<^item> Python integers are \<open>int\<close>. Python floats are exact \<open>real\<close> numbers: binary64 rounding
    and the IEEE special values are not modelled, but the rounding the program asks for
    (\<open>round(x, n)\<close>, half to even) is \<open>py_round\<close>.
  \<^item> A Python exception is the left part of a sum: \<open>py_error + 'a\<close>.
  \<^item> Strings are UTF-8 byte strings; a Korean literal of the source is \<open>utf8\<close> of its code
    points.
\<close>

named_theorems py_simps \<open>evaluation rules of the Python primitives\<close>
named_theorems bound_intros \<open>bounds on rounded, clamped and trimmed results\<close>

section \<open>Errors\<close>

datatype py_error =
    TypeError | ValueError | KeyError | IndexError | ZeroDivisionError
  | AttributeError | OverflowError | QueueFull | QueueEmpty | RuntimeError

type_synonym 'a result = "py_error + 'a"

definition bindR :: "'e + 'a \<Rightarrow> ('a \<Rightarrow> 'e + 'b) \<Rightarrow> 'e + 'b" where
  "bindR r f = (case r of Inl e \<Rightarrow> Inl e | Inr x \<Rightarrow> f x)"

lemma bindR_simps [simp, py_simps]:
  "bindR (Inl e) f = Inl e" "bindR (Inr x) f = f x"
  by (simp_all add: bindR_def)

lemma bindR_Inr_iff: "bindR r f = Inr y \<longleftrightarrow> (\<exists>x. r = Inr x \<and> f x = Inr y)"
  by (cases r) auto

lemma bindR_split: "P (bindR r f) \<longleftrightarrow> (\<forall>e. r = Inl e \<longrightarrow> P (Inl e)) \<and> (\<forall>x. r = Inr x \<longrightarrow> P (f x))"
  by (cases r) auto

text \<open>\<open>try: ... except (TypeError, ValueError): default\<close>.\<close>

definition except_type_value :: "'a result \<Rightarrow> 'a \<Rightarrow> 'a result" where
  "except_type_value r dflt =
     (case r of Inr x \<Rightarrow> Inr x
      | Inl TypeError \<Rightarrow> Inr dflt
      | Inl ValueError \<Rightarrow> Inr dflt
      | Inl e \<Rightarrow> Inl e)"

fun mapR :: "('a \<Rightarrow> 'e + 'b) \<Rightarrow> 'a list \<Rightarrow> 'e + 'b list" where
  "mapR f [] = Inr []"
| "mapR f (x # xs) = bindR (f x) (\<lambda>y. bindR (mapR f xs) (\<lambda>ys. Inr (y # ys)))"

lemma mapR_Inr_length: "mapR f xs = Inr ys \<Longrightarrow> length ys = length xs"
  by (induction xs arbitrary: ys) (auto simp: bindR_Inr_iff)

lemma mapR_all_Inr: "(\<And>x. x \<in> set xs \<Longrightarrow> f x = Inr (g x)) \<Longrightarrow> mapR f xs = Inr (map g xs)"
  by (induction xs) auto

lemma mapR_Inr_map: "mapR f xs = Inr ys \<Longrightarrow> map f xs = map Inr ys"
  by (induction xs arbitrary: ys) (auto simp: bindR_Inr_iff)

section \<open>Strings\<close>

text \<open>UTF-8 encoding of code points below 0x10000.\<close>

definition utf8_char :: "nat \<Rightarrow> string" where
  "utf8_char c =
     (if c < 128 then [char_of c]
      else if c < 2048 then [char_of (192 + c div 64), char_of (128 + c mod 64)]
      else [char_of (224 + c div 4096), char_of (128 + c div 64 mod 64), char_of (128 + c mod 64)])"

definition utf8 :: "nat list \<Rightarrow> string" where
  "utf8 cs = concat (map utf8_char cs)"

definition is_digit :: "char \<Rightarrow> bool" where
  "is_digit c \<longleftrightarrow> 48 \<le> (of_char c :: nat) \<and> (of_char c :: nat) \<le> 57"

definition is_space :: "char \<Rightarrow> bool" where
  "is_space c \<longleftrightarrow> c \<in> {CHR 0x20, CHR 0x09, CHR 0x0A, CHR 0x0B, CHR 0x0C, CHR 0x0D}"

definition py_strip :: "string \<Rightarrow> string" where
  "py_strip s = rev (dropWhile is_space (rev (dropWhile is_space s)))"

text \<open>Case mapping of the ASCII letters; the bytes of a Korean character are unchanged.\<close>

definition lower_char :: "char \<Rightarrow> char" where
  "lower_char c = (let n = (of_char c :: nat) in if 65 \<le> n \<and> n \<le> 90 then char_of (n + 32) else c)"

definition upper_char :: "char \<Rightarrow> char" where
  "upper_char c = (let n = (of_char c :: nat) in if 97 \<le> n \<and> n \<le> 122 then char_of (n - 32) else c)"

definition py_lower :: "string \<Rightarrow> string" where "py_lower = map lower_char"
definition py_upper :: "string \<Rightarrow> string" where "py_upper = map upper_char"

text \<open>\<open>sub in s\<close> on strings.\<close>

definition py_in_str :: "string \<Rightarrow> string \<Rightarrow> bool" where
  "py_in_str sub s = list_ex (\<lambda>n. take (length sub) (drop n s) = sub) [0..<Suc (length s)]"

text \<open>The first \<open>n\<close> code points of a UTF-8 string (Python's \<open>s[:n]\<close>).\<close>

definition is_cont_byte :: "char \<Rightarrow> bool" where
  "is_cont_byte c \<longleftrightarrow> 128 \<le> (of_char c :: nat) \<and> (of_char c :: nat) < 192"

fun utf8_take :: "nat \<Rightarrow> string \<Rightarrow> string" where
  "utf8_take n [] = []"
| "utf8_take n (c # cs) =
     (if is_cont_byte c then c # utf8_take n cs
      else (case n of 0 \<Rightarrow> [] | Suc m \<Rightarrow> c # utf8_take m cs))"

text \<open>Evaluation of text literals.\<close>

lemmas text_eval = utf8_def utf8_char_def char_of_def of_char_def bit_0 py_lower_def lower_char_def
  py_in_str_def py_strip_def is_space_def Let_def

fun show_nat :: "nat \<Rightarrow> string" where
  "show_nat n = (if n < 10 then [char_of (48 + n)] else show_nat (n div 10) @ [char_of (48 + n mod 10)])"

declare show_nat.simps [simp del]

definition show_int :: "int \<Rightarrow> string" where
  "show_int i = (if i < 0 then CHR ''-'' # show_nat (nat (- i)) else show_nat (nat i))"

text \<open>\<open>f"{n:0wd}"\<close> for a natural number.\<close>

definition pad_nat :: "nat \<Rightarrow> nat \<Rightarrow> string" where
  "pad_nat w n = (let s = show_nat n in replicate (w - length s) (CHR ''0'') @ s)"

text \<open>\<open>sep.join(xs)\<close>.\<close>

fun py_join :: "string \<Rightarrow> string list \<Rightarrow> string" where
  "py_join sep [] = []"
| "py_join sep [x] = x"
| "py_join sep (x # y # ys) = x @ sep @ py_join sep (y # ys)"

fun digits_value :: "string \<Rightarrow> nat \<Rightarrow> nat" where
  "digits_value [] acc = acc"
| "digits_value (c # cs) acc = digits_value cs (10 * acc + (of_char c - 48))"

lemma digits_value_append: "digits_value (xs @ ys) acc = digits_value ys (digits_value xs acc)"
  by (induction xs arbitrary: acc) auto

lemma digits_value_show_nat: "digits_value (show_nat n) 0 = n"
proof (induction n rule: show_nat.induct)
  case (1 n)
  show ?case
  proof (cases "n < 10")
    case True
    then show ?thesis by (simp add: show_nat.simps [of n])
  next
    case False
    have "digits_value (show_nat n) 0 = 10 * (n div 10) + n mod 10"
      using False 1 by (simp add: show_nat.simps [of n] digits_value_append)
    then show ?thesis by simp
  qed
qed

lemma digits_value_zeros: "digits_value (replicate k (CHR ''0'') @ s) 0 = digits_value s 0"
  by (induction k) auto

lemma digits_value_pad_nat: "digits_value (pad_nat w n) 0 = n"
  by (simp add: pad_nat_def Let_def digits_value_zeros digits_value_show_nat)

lemma pad_nat_inj [simp]: "pad_nat w m = pad_nat w n \<longleftrightarrow> m = n"
  by (metis digits_value_pad_nat)

section \<open>Numbers\<close>

text \<open>Python's \<open>round\<close>: to the nearest, ties to the even neighbour.\<close>

definition round_half_even :: "real \<Rightarrow> int" where
  "round_half_even x =
     (let f = \<lfloor>x\<rfloor>; d = x - of_int f
      in if d < 1 / 2 then f else if d > 1 / 2 then f + 1 else if even f then f else f + 1)"

definition py_round :: "nat \<Rightarrow> real \<Rightarrow> real" where
  "py_round n x = of_int (round_half_even (x * 10 ^ n)) / 10 ^ n"

text \<open>\<open>int(x)\<close> of a float: truncation towards zero.\<close>

definition py_trunc :: "real \<Rightarrow> int" where
  "py_trunc x = (if x < 0 then - \<lfloor>- x\<rfloor> else \<lfloor>x\<rfloor>)"

definition list_avg :: "real list \<Rightarrow> real" where
  "list_avg xs = sum_list xs / of_nat (length xs)"

lemma round_half_even_of_int [simp]: "round_half_even (of_int i) = i"
  by (simp add: round_half_even_def Let_def)

lemma round_half_even_near: "\<bar>of_int (round_half_even x) - x\<bar> \<le> 1 / 2"
  unfolding round_half_even_def Let_def by (auto simp: abs_le_iff split: if_splits; linarith)

lemma round_half_even_mono: "x \<le> y \<Longrightarrow> round_half_even x \<le> round_half_even y"
proof -
  assume le: "x \<le> y"
  then have fl: "\<lfloor>x\<rfloor> \<le> \<lfloor>y\<rfloor>" by (rule floor_mono)
  show ?thesis
  proof (cases "\<lfloor>x\<rfloor> = \<lfloor>y\<rfloor>")
    case True
    with le show ?thesis unfolding round_half_even_def Let_def by auto
  next
    case False
    with fl have "\<lfloor>x\<rfloor> + 1 \<le> \<lfloor>y\<rfloor>" by linarith
    moreover have "round_half_even x \<le> \<lfloor>x\<rfloor> + 1" "\<lfloor>y\<rfloor> \<le> round_half_even y"
      unfolding round_half_even_def Let_def by auto
    ultimately show ?thesis by linarith
  qed
qed

lemma py_round_mono: "x \<le> y \<Longrightarrow> py_round n x \<le> py_round n y"
  by (simp add: py_round_def divide_right_mono round_half_even_mono mult_right_mono)

lemma py_round_of_int [simp]: "py_round n (of_int i) = of_int i"
proof -
  have "of_int i * 10 ^ n = (of_int (i * 10 ^ n) :: real)" by simp
  then show ?thesis unfolding py_round_def by (metis round_half_even_of_int nonzero_mult_div_cancel_right of_int_mult of_int_power of_int_numeral power_eq_0_iff zero_neq_numeral)
qed

lemma py_round_0 [simp]: "py_round n 0 = 0"
  using py_round_of_int [of n 0] by simp

lemma py_round_1 [simp]: "py_round n 1 = 1"
  using py_round_of_int [of n 1] by simp

lemma py_round_lower [bound_intros]: "of_int i \<le> x \<Longrightarrow> of_int i \<le> py_round n x"
  using py_round_mono [of "of_int i" x n] by simp

lemma py_round_upper [bound_intros]: "x \<le> of_int i \<Longrightarrow> py_round n x \<le> of_int i"
  using py_round_mono [of x "of_int i" n] by simp

lemma py_round_nonneg [bound_intros]: "0 \<le> x \<Longrightarrow> 0 \<le> py_round n x"
  using py_round_lower [of 0 x n] by simp

lemma py_round_le_1 [bound_intros]: "x \<le> 1 \<Longrightarrow> py_round n x \<le> 1"
  using py_round_upper [of x 1 n] by simp

lemma py_round_near: "\<bar>py_round n x - x\<bar> \<le> 1 / (2 * 10 ^ n)"
proof -
  have "py_round n x - x = (of_int (round_half_even (x * 10 ^ n)) - x * 10 ^ n) / 10 ^ n"
    by (simp add: py_round_def field_simps)
  moreover have "\<bar>(of_int (round_half_even (x * 10 ^ n)) - x * 10 ^ n) / 10 ^ n\<bar> \<le> (1 / 2) / (10 ^ n)"
    unfolding abs_divide
    using divide_right_mono [OF round_half_even_near, of "10 ^ n" "x * 10 ^ n"] by simp
  ultimately show ?thesis by (simp add: mult.commute)
qed

lemma list_avg_lower: "xs \<noteq> [] \<Longrightarrow> (\<And>x. x \<in> set xs \<Longrightarrow> a \<le> x) \<Longrightarrow> a \<le> list_avg xs"
proof -
  assume ne: "xs \<noteq> []" and all: "\<And>x. x \<in> set xs \<Longrightarrow> a \<le> x"
  have "a * of_nat (length xs) \<le> sum_list xs"
    using all by (induction xs) (auto simp: algebra_simps intro!: add_mono)
  with ne show ?thesis by (simp add: list_avg_def le_divide_eq)
qed

lemma list_avg_upper: "xs \<noteq> [] \<Longrightarrow> (\<And>x. x \<in> set xs \<Longrightarrow> x \<le> b) \<Longrightarrow> list_avg xs \<le> b"
proof -
  assume ne: "xs \<noteq> []" and all: "\<And>x. x \<in> set xs \<Longrightarrow> x \<le> b"
  have "sum_list xs \<le> b * of_nat (length xs)"
    using all by (induction xs) (auto simp: algebra_simps intro!: add_mono)
  with ne show ?thesis by (simp add: list_avg_def divide_le_eq)
qed

section \<open>Dynamic values and dictionaries\<close>

datatype pyval =
    PNone
  | PBool bool
  | PInt int
  | PFloat real
  | PStr string
  | PList "pyval list"
  | PDict "(string \<times> pyval) list"

type_synonym dict = "(string \<times> pyval) list"

definition dget :: "dict \<Rightarrow> string \<Rightarrow> pyval option" where
  "dget d k = map_of d k"

definition dget_or :: "dict \<Rightarrow> string \<Rightarrow> pyval \<Rightarrow> pyval" where
  "dget_or d k dflt = (case map_of d k of Some v \<Rightarrow> v | None \<Rightarrow> dflt)"

definition dset :: "string \<Rightarrow> pyval \<Rightarrow> dict \<Rightarrow> dict" where
  "dset k v d = AList.update k v d"

definition dsetdefault :: "string \<Rightarrow> pyval \<Rightarrow> dict \<Rightarrow> dict" where
  "dsetdefault k v d = (case map_of d k of Some _ \<Rightarrow> d | None \<Rightarrow> dset k v d)"

text \<open>\<open>{**a, **b}\<close>: the keys of \<open>b\<close> overwrite those of \<open>a\<close>.\<close>

definition dmerge :: "dict \<Rightarrow> dict \<Rightarrow> dict" where
  "dmerge a b = fold (\<lambda>(k, v). dset k v) b a"

lemma dget_dset [simp, py_simps]: "dget (dset k v d) k' = (if k' = k then Some v else dget d k')"
  by (simp add: dget_def dset_def update_conv')

lemma dget_or_dset [simp, py_simps]: "dget_or (dset k v d) k' w = (if k' = k then v else dget_or d k' w)"
  by (simp add: dget_or_def dset_def update_conv')

lemma dget_or_dget: "dget_or d k w = (case dget d k of Some v \<Rightarrow> v | None \<Rightarrow> w)"
  by (simp add: dget_or_def dget_def)

lemma dget_dsetdefault: "dget (dsetdefault k v d) k' =
    (if k' = k \<and> dget d k = None then Some v else dget d k')"
  by (auto simp: dsetdefault_def dget_def dset_def update_conv' split: option.splits)

lemma dget_dsetdefault_other [simp]: "k' \<noteq> k \<Longrightarrow> dget (dsetdefault k v d) k' = dget d k'"
  by (simp add: dget_dsetdefault)

lemma distinct_dset [simp]: "distinct (map fst d) \<Longrightarrow> distinct (map fst (dset k v d))"
  by (simp add: dset_def distinct_update)

lemma set_AList_update: "set (AList.update k v xs) \<subseteq> insert (k, v) (set xs)"
  by (induction xs) auto

fun py_truthy :: "pyval \<Rightarrow> bool" where
  "py_truthy PNone = False"
| "py_truthy (PBool b) = b"
| "py_truthy (PInt i) = (i \<noteq> 0)"
| "py_truthy (PFloat x) = (x \<noteq> 0)"
| "py_truthy (PStr s) = (s \<noteq> [])"
| "py_truthy (PList xs) = (xs \<noteq> [])"
| "py_truthy (PDict d) = (d \<noteq> [])"

text \<open>\<open>x or y\<close>.\<close>

definition py_or :: "pyval \<Rightarrow> pyval \<Rightarrow> pyval" where
  "py_or x y = (if py_truthy x then x else y)"

text \<open>\<open>d.get(k)\<close> as a value (\<open>None\<close> when the key is missing).\<close>

definition dget_none :: "dict \<Rightarrow> string \<Rightarrow> pyval" where
  "dget_none d k = dget_or d k PNone"

fun is_dict :: "pyval \<Rightarrow> bool" where
  "is_dict (PDict _) = True"
| "is_dict _ = False"

fun dict_or_empty :: "pyval \<Rightarrow> dict" where
  "dict_or_empty (PDict d) = d"
| "dict_or_empty _ = []"

fun list_or_empty :: "pyval \<Rightarrow> pyval list" where
  "list_or_empty (PList xs) = xs"
| "list_or_empty _ = []"

fun str_or_empty :: "pyval \<Rightarrow> string" where
  "str_or_empty (PStr s) = s"
| "str_or_empty _ = []"

subsection \<open>Conversions\<close>

fun split_digits :: "string \<Rightarrow> string \<times> string" where
  "split_digits [] = ([], [])"
| "split_digits (c # cs) =
     (if is_digit c then (let (ds, r) = split_digits cs in (c # ds, r)) else ([], c # cs))"

definition split_sign :: "string \<Rightarrow> bool \<times> string" where
  "split_sign s = (case s of
      [] \<Rightarrow> (False, [])
    | c # cs \<Rightarrow> if c = CHR ''-'' then (True, cs) else if c = CHR ''+'' then (False, cs) else (False, s))"

text \<open>The decimal literals \<open>[+-]digits[.digits][e[+-]digits]\<close> that \<open>float(str)\<close> accepts.\<close>

definition parse_exponent :: "string \<Rightarrow> int option" where
  "parse_exponent s = (case s of
      [] \<Rightarrow> Some 0
    | c # cs \<Rightarrow>
        (if c = CHR ''e'' \<or> c = CHR ''E'' then
           (let (neg, r) = split_sign cs; (ds, r') = split_digits r
            in if ds = [] \<or> r' \<noteq> [] then None
               else Some (if neg then - int (digits_value ds 0) else int (digits_value ds 0)))
         else None))"

definition parse_float :: "string \<Rightarrow> real option" where
  "parse_float s0 =
     (let (neg, s) = split_sign (py_strip s0);
          (ip, r1) = split_digits s;
          (fp, r2) = (case r1 of c # cs \<Rightarrow> if c = CHR ''.'' then split_digits cs else ([], r1) | [] \<Rightarrow> ([], []))
      in if ip = [] \<and> fp = [] then None
         else (case parse_exponent r2 of
             None \<Rightarrow> None
           | Some e \<Rightarrow>
               (let m = of_nat (digits_value (ip @ fp) 0) / 10 ^ length fp;
                    v = (if 0 \<le> e then m * 10 ^ nat e else m / 10 ^ nat (- e))
                in Some (if neg then - v else v))))"

definition parse_int :: "string \<Rightarrow> int option" where
  "parse_int s0 =
     (let (neg, s) = split_sign (py_strip s0); (ds, r) = split_digits s
      in if ds = [] \<or> r \<noteq> [] then None
         else Some (if neg then - int (digits_value ds 0) else int (digits_value ds 0)))"

text \<open>\<open>float(x)\<close>.\<close>

fun py_float :: "pyval \<Rightarrow> real result" where
  "py_float (PBool b) = Inr (if b then 1 else 0)"
| "py_float (PInt i) = Inr (of_int i)"
| "py_float (PFloat x) = Inr x"
| "py_float (PStr s) = (case parse_float s of Some x \<Rightarrow> Inr x | None \<Rightarrow> Inl ValueError)"
| "py_float _ = Inl TypeError"

text \<open>\<open>int(x)\<close>.\<close>

fun py_int :: "pyval \<Rightarrow> int result" where
  "py_int (PBool b) = Inr (if b then 1 else 0)"
| "py_int (PInt i) = Inr i"
| "py_int (PFloat x) = Inr (py_trunc x)"
| "py_int (PStr s) = (case parse_int s of Some i \<Rightarrow> Inr i | None \<Rightarrow> Inl ValueError)"
| "py_int _ = Inl TypeError"

text \<open>\<open>int(float(x))\<close>: the spelling \<open>inf\<close> converts to a float that has no integer part.\<close>

definition is_inf_text :: "string \<Rightarrow> bool" where
  "is_inf_text s0 \<longleftrightarrow> (let s = py_lower (snd (split_sign (py_strip s0))) in s = ''inf'' \<or> s = ''infinity'')"

definition py_int_float :: "pyval \<Rightarrow> int result" where
  "py_int_float v = (case v of
      PStr s \<Rightarrow> if is_inf_text s then Inl OverflowError else bindR (py_float v) (\<lambda>x. Inr (py_trunc x))
    | _ \<Rightarrow> bindR (py_float v) (\<lambda>x. Inr (py_trunc x)))"

text \<open>The operand of a numeric comparison or of arithmetic.\<close>

fun py_num :: "pyval \<Rightarrow> real result" where
  "py_num (PBool b) = Inr (if b then 1 else 0)"
| "py_num (PInt i) = Inr (of_int i)"
| "py_num (PFloat x) = Inr x"
| "py_num _ = Inl TypeError"

fun is_num :: "pyval \<Rightarrow> bool" where
  "is_num (PBool _) = True"
| "is_num (PInt _) = True"
| "is_num (PFloat _) = True"
| "is_num _ = False"

lemma py_num_total: "is_num v \<longleftrightarrow> (\<exists>x. py_num v = Inr x)"
  by (cases v) auto

lemma py_num_float: "py_num v = Inr x \<Longrightarrow> py_float v = Inr x"
  by (cases v) auto

lemma py_int_float_PInt [simp]: "py_int_float (PInt i) = Inr i"
  by (simp add: py_int_float_def py_trunc_def)

lemma py_int_float_PFloat [simp]: "py_int_float (PFloat x) = Inr (py_trunc x)"
  by (simp add: py_int_float_def)

section \<open>Lists\<close>

text \<open>\<open>xs[-n:]\<close> for \<open>n > 0\<close>.\<close>

definition last_n :: "nat \<Rightarrow> 'a list \<Rightarrow> 'a list" where
  "last_n n xs = drop (length xs - n) xs"

lemma length_last_n [simp]: "length (last_n n xs) = min n (length xs)"
  by (simp add: last_n_def)

lemma last_n_suffix: "suffix (last_n n xs) xs"
  by (simp add: last_n_def suffix_drop)

lemma last_n_all: "length xs \<le> n \<Longrightarrow> last_n n xs = xs"
  by (simp add: last_n_def)

lemma last_last_n: "0 < n \<Longrightarrow> xs \<noteq> [] \<Longrightarrow> last (last_n n xs) = last xs"
  by (simp add: last_n_def)

lemma last_n_eq_Nil [simp]: "last_n n xs = [] \<longleftrightarrow> n = 0 \<or> xs = []"
  unfolding last_n_def by (cases xs) (auto simp: drop_eq_Nil)

lemma last_n_map: "last_n n (map f xs) = map f (last_n n xs)"
  by (simp add: last_n_def drop_map)

lemma find_hit: "find P xs = Some x \<Longrightarrow> x \<in> set xs \<and> P x"
  by (induction xs) (auto split: if_splits)

lemma set_last_n: "set (last_n n xs) \<subseteq> set xs"
  by (simp add: last_n_def set_drop_subset)

text \<open>
  The bounded-log idiom of the program: append, and when the list is longer than \<open>cap\<close>
  keep its last \<open>keep\<close> entries.
\<close>

definition push_trim :: "nat \<Rightarrow> nat \<Rightarrow> 'a \<Rightarrow> 'a list \<Rightarrow> 'a list" where
  "push_trim cap keep x xs =
     (let ys = xs @ [x] in if cap < length ys then last_n keep ys else ys)"

lemma set_push_trim: "set (push_trim cap keep x xs) \<subseteq> insert x (set xs)"
  using set_last_n [of keep "xs @ [x]"] by (auto simp: push_trim_def Let_def)

lemma map_push_trim: "map f (push_trim cap keep x xs) = push_trim cap keep (f x) (map f xs)"
proof -
  have e: "map f xs @ [f x] = map f (xs @ [x])" by simp
  show ?thesis unfolding push_trim_def Let_def e length_map last_n_map by simp
qed

text \<open>\<open>max(lo, min(hi, x))\<close>.\<close>

definition clamp :: "'a::linorder \<Rightarrow> 'a \<Rightarrow> 'a \<Rightarrow> 'a" where
  "clamp lo hi x = max lo (min hi x)"

lemma clamp_lower [simp, bound_intros]: "lo \<le> clamp lo hi x"
  by (simp add: clamp_def)

lemma clamp_upper [bound_intros]: "lo \<le> hi \<Longrightarrow> clamp lo hi x \<le> hi"
  by (simp add: clamp_def)

lemma clamp_id: "lo \<le> x \<Longrightarrow> x \<le> hi \<Longrightarrow> clamp lo hi x = x"
  by (simp add: clamp_def)

lemma clamp_idem: "clamp lo hi (clamp lo hi x) = clamp lo hi x"
  by (simp add: clamp_def max_def min_def)

section \<open>Random draws\<close>

text \<open>
  The \<open>random\<close> module as a tape of draws read in program order: the uniform draws of
  \<open>random()\<close>, the standard normal draws behind \<open>gauss(mu, sigma)\<close> (which returns
  \<open>mu + z * sigma\<close>) and the draws behind \<open>randint\<close>. Every draw advances the position.
\<close>

record rng =
  unif_tape :: "nat \<Rightarrow> real"
  gauss_tape :: "nat \<Rightarrow> real"
  int_tape :: "nat \<Rightarrow> nat"
  rng_pos :: nat

definition rand_random :: "rng \<Rightarrow> real \<times> rng" where
  "rand_random r = (unif_tape r (rng_pos r), r\<lparr>rng_pos := Suc (rng_pos r)\<rparr>)"

definition rand_gauss :: "real \<Rightarrow> real \<Rightarrow> rng \<Rightarrow> real \<times> rng" where
  "rand_gauss mu sigma r = (mu + gauss_tape r (rng_pos r) * sigma, r\<lparr>rng_pos := Suc (rng_pos r)\<rparr>)"

definition rand_randint :: "int \<Rightarrow> int \<Rightarrow> rng \<Rightarrow> int \<times> rng" where
  "rand_randint a b r =
     (a + int (int_tape r (rng_pos r)) mod (b - a + 1), r\<lparr>rng_pos := Suc (rng_pos r)\<rparr>)"

lemma rand_randint_bounds:
  assumes "a \<le> b"
  shows "a \<le> fst (rand_randint a b r)" "fst (rand_randint a b r) \<le> b"
proof -
  have pos: "0 < b - a + 1" using assms by simp
  have "0 \<le> int (int_tape r (rng_pos r)) mod (b - a + 1)" using pos by (rule pos_mod_sign)
  moreover have "int (int_tape r (rng_pos r)) mod (b - a + 1) < b - a + 1" using pos by (rule pos_mod_bound)
  ultimately show "a \<le> fst (rand_randint a b r)" "fst (rand_randint a b r) \<le> b"
    unfolding rand_randint_def fst_conv by linarith+
qed

end
