(* ===== verification/Bounded_Log.thy ===== *)
theory Bounded_Log
  imports Py_Values
begin

text \<open>
  Two interfaces that several components provide.

  \<^item> \<open>bounded_log\<close>: the in-memory logs of the program (envelope log, dead letters,
    decisions, reasoning lines, sensor history, business events) append a record and drop
    the oldest ones when they grow over a limit. What a log promises is stated once: it
    never outgrows its limit, the newest record is always there, and after any number of
    appends it is a suffix of everything that was appended.
  \<^item> \<open>bounded_fifo\<close>: a queue with a capacity (Python's \<open>queue.Queue\<close>): a put either
    appends at the back or reports \<open>Full\<close>, a get takes from the front.
\<close>

section \<open>Logs that forget their oldest records\<close>

locale bounded_log =
  fixes push :: "'a \<Rightarrow> 'a list \<Rightarrow> 'a list"
    and cap :: nat
    and keep :: nat
  assumes push_room: "length xs < cap \<Longrightarrow> push x xs = xs @ [x]"
    and push_full: "cap \<le> length xs \<Longrightarrow> push x xs = last_n keep (xs @ [x])"
    and keep_range: "0 < keep" "keep \<le> cap"
begin

lemma push_bounded: "length (push x xs) \<le> cap"
proof (cases "length xs < cap")
  case True
  then show ?thesis by (simp add: push_room)
next
  case False
  then show ?thesis using keep_range by (simp add: push_full not_less)
qed

lemma push_suffix: "suffix (push x xs) (xs @ [x])"
  by (cases "length xs < cap") (auto simp only: push_room push_full not_less intro: last_n_suffix)

lemma push_not_empty: "push x xs \<noteq> []"
  using keep_range by (cases "length xs < cap") (simp_all add: push_room push_full not_less)

lemma push_last: "last (push x xs) = x"
  using keep_range
  by (cases "length xs < cap") (simp_all add: push_room push_full not_less last_last_n)

lemma push_set: "set (push x xs) \<subseteq> insert x (set xs)"
  using set_mono_suffix [OF push_suffix, of x xs] by auto

lemma push_keeps: "min keep (Suc (length xs)) \<le> length (push x xs)"
  by (cases "length xs < cap") (simp_all add: push_room push_full not_less)

definition push_all :: "'a list \<Rightarrow> 'a list \<Rightarrow> 'a list" where
  "push_all es xs = fold push es xs"

lemma push_all_simps [simp]:
  "push_all [] xs = xs" "push_all (e # es) xs = push_all es (push e xs)"
  by (simp_all add: push_all_def)

lemma push_all_suffix: "suffix (push_all es xs) (xs @ es)"
proof (induction es arbitrary: xs)
  case Nil
  then show ?case by simp
next
  case (Cons e es)
  have "suffix (push e xs @ es) ((xs @ [e]) @ es)"
    using push_suffix [of e xs] by (auto simp: suffix_def)
  with Cons.IH [of "push e xs"] show ?case by (auto intro: suffix_order.order_trans)
qed

lemma push_all_bounded: "length xs \<le> cap \<Longrightarrow> length (push_all es xs) \<le> cap"
  by (induction es arbitrary: xs) (simp_all add: push_bounded)

text \<open>Nothing among the \<open>keep\<close> newest records is ever forgotten.\<close>

lemma push_all_keeps: "min keep (length xs + length es) \<le> length (push_all es xs)"
proof (induction es arbitrary: xs)
  case Nil
  then show ?case by simp
next
  case (Cons e es)
  have "min keep (Suc (length xs) + length es) \<le> min keep (length (push e xs) + length es)"
    using push_keeps [of xs e] by auto
  also have "\<dots> \<le> length (push_all es (push e xs))" by (rule Cons.IH)
  finally show ?case by simp
qed

lemma push_all_recent: "last_n (min keep (length xs + length es)) (xs @ es)
    = last_n (min keep (length xs + length es)) (push_all es xs)"
proof -
  obtain pre where pre: "xs @ es = pre @ push_all es xs"
    using push_all_suffix [of es xs] by (auto simp: suffix_def)
  then have "last_n k (xs @ es) = last_n k (push_all es xs)" if "k \<le> length (push_all es xs)" for k
    using that by (simp add: last_n_def)
  then show ?thesis using push_all_keeps by blast
qed

end

text \<open>Every append of the program is \<open>push_trim\<close> with its two constants.\<close>

lemma bounded_log_push_trim: "0 < keep \<Longrightarrow> keep \<le> cap \<Longrightarrow> bounded_log (push_trim cap keep) cap keep"
  by unfold_locales (simp_all add: push_trim_def)

section \<open>Bounded queues\<close>

text \<open>\<open>queue.Queue\<close>: \<open>maxsize \<le> 0\<close> means unbounded.\<close>

definition q_full :: "int \<Rightarrow> 'a list \<Rightarrow> bool" where
  "q_full maxsize q \<longleftrightarrow> 0 < maxsize \<and> maxsize \<le> int (length q)"

definition q_put_nowait :: "int \<Rightarrow> 'a \<Rightarrow> 'a list \<Rightarrow> 'a list result" where
  "q_put_nowait maxsize x q = (if q_full maxsize q then Inl QueueFull else Inr (q @ [x]))"

definition q_get_nowait :: "'a list \<Rightarrow> ('a \<times> 'a list) result" where
  "q_get_nowait q = (case q of [] \<Rightarrow> Inl QueueEmpty | x # xs \<Rightarrow> Inr (x, xs))"

locale bounded_fifo =
  fixes put :: "'a \<Rightarrow> 'a list \<Rightarrow> 'a list result"
    and get :: "'a list \<Rightarrow> ('a \<times> 'a list) result"
    and full :: "'a list \<Rightarrow> bool"
  assumes put_ok: "\<not> full q \<Longrightarrow> put x q = Inr (q @ [x])"
    and put_full: "full q \<Longrightarrow> put x q = Inl QueueFull"
    and get_empty: "get [] = Inl QueueEmpty"
    and get_front: "get (x # q) = Inr (x, q)"
begin

fun drain :: "nat \<Rightarrow> 'a list \<Rightarrow> 'a list \<times> 'a list" where
  "drain 0 q = ([], q)"
| "drain (Suc n) q = (case get q of
      Inl _ \<Rightarrow> ([], q)
    | Inr (x, q') \<Rightarrow> (let (xs, r) = drain n q' in (x # xs, r)))"

lemma drain_all: "length q \<le> n \<Longrightarrow> drain n q = (q, [])"
proof (induction n arbitrary: q)
  case 0
  then show ?case by simp
next
  case (Suc n)
  then show ?case by (cases q) (simp_all add: get_empty get_front)
qed

lemma put_get_fifo: "put x q = Inr q' \<Longrightarrow> drain (length q') q' = (q @ [x], [])"
  using drain_all [of q' "length q'"] by (cases "full q") (simp_all add: put_ok put_full)

lemma put_Inr_iff: "put x q = Inr q' \<longleftrightarrow> \<not> full q \<and> q' = q @ [x]"
  by (cases "full q") (auto simp: put_ok put_full)

end

end
