(* ===== verification/Messages.thy ===== *)
theory Messages
  imports Py_Values
begin

text \<open>
  \<open>mas/messaging/message.py\<close>: the FIPA-ACL style message (\<open>Intent\<close>, \<open>MessageHeader\<close>,
  \<open>AgentMessage\<close>). Identifiers (\<open>uuid4\<close>) and the time stamp are supplied by the caller.
\<close>

datatype intent =
    CFP | PROPOSE | ACCEPT_PROPOSAL | REJECT_PROPOSAL
  | INFORM | REQUEST | ALERT | ACKNOWLEDGE | CONFIRM
  | DEMAND_CHANGE | STOCK_ALERT | PLAN_UPDATE
  | TOOL_CALL | TOOL_RESULT
  | ACCEPT_JOB | REJECT_JOB
  | STATUS_REPORT

fun intent_value :: "intent \<Rightarrow> string" where
  "intent_value CFP = ''CFP''"
| "intent_value PROPOSE = ''PROPOSE''"
| "intent_value ACCEPT_PROPOSAL = ''ACCEPT_PROPOSAL''"
| "intent_value REJECT_PROPOSAL = ''REJECT_PROPOSAL''"
| "intent_value INFORM = ''INFORM''"
| "intent_value REQUEST = ''REQUEST''"
| "intent_value ALERT = ''ALERT''"
| "intent_value ACKNOWLEDGE = ''ACKNOWLEDGE''"
| "intent_value CONFIRM = ''CONFIRM''"
| "intent_value DEMAND_CHANGE = ''DEMAND_CHANGE''"
| "intent_value STOCK_ALERT = ''STOCK_ALERT''"
| "intent_value PLAN_UPDATE = ''PLAN_UPDATE''"
| "intent_value TOOL_CALL = ''TOOL_CALL''"
| "intent_value TOOL_RESULT = ''TOOL_RESULT''"
| "intent_value ACCEPT_JOB = ''ACCEPT_JOB''"
| "intent_value REJECT_JOB = ''REJECT_JOB''"
| "intent_value STATUS_REPORT = ''STATUS_REPORT''"

lemma intent_value_inj [simp]: "intent_value i = intent_value j \<longleftrightarrow> i = j"
  by (cases i; cases j) simp_all

record message_header =
  h_sender :: string
  h_receiver :: string
  h_conversation_id :: string
  h_timestamp :: string
  h_message_id :: string
  h_protocol :: string

record agent_message =
  m_header :: message_header
  m_intent :: intent
  m_body :: dict


text \<open>
  \<open>AgentMessage.create\<close>: a missing or empty conversation id is replaced by a fresh one
  (\<open>conv_uuid\<close>); the header's default factories give the time stamp and the message id.
\<close>

definition create_message ::
  "string \<Rightarrow> string \<Rightarrow> intent \<Rightarrow> dict \<Rightarrow> string option \<Rightarrow> string \<Rightarrow> string \<Rightarrow> string \<Rightarrow> agent_message" where
  "create_message sender receiver intent body conversation_id conv_uuid timestamp msg_uuid =
    \<lparr> m_header = \<lparr> h_sender = sender, h_receiver = receiver,
        h_conversation_id = (case conversation_id of None \<Rightarrow> conv_uuid
                             | Some c \<Rightarrow> if c = [] then conv_uuid else c),
        h_timestamp = timestamp, h_message_id = msg_uuid, h_protocol = ''CNP'' \<rparr>,
      m_intent = intent, m_body = body \<rparr>"

text \<open>
  Reading a message back from its dictionary: the inverse of \<open>to_dict\<close>, used to state
  that serialisation loses nothing.
\<close>

definition intent_of_value :: "string \<Rightarrow> intent option" where
  "intent_of_value s = find (\<lambda>i. intent_value i = s)
     [CFP, PROPOSE, ACCEPT_PROPOSAL, REJECT_PROPOSAL, INFORM, REQUEST, ALERT, ACKNOWLEDGE,
      CONFIRM, DEMAND_CHANGE, STOCK_ALERT, PLAN_UPDATE, TOOL_CALL, TOOL_RESULT, ACCEPT_JOB,
      REJECT_JOB, STATUS_REPORT]"

lemma intent_of_value_inverse [simp]: "intent_of_value (intent_value i) = Some i"
  by (cases i) (simp_all add: intent_of_value_def)




end
