(* ===== verification/Broker.thy ===== *)
theory Broker
  imports Bounded_Log Messages "HOL-Library.List_Lexorder"
begin

text \<open>
  \<open>mas/messaging/broker.py\<close>: the in-process topic broker. An envelope is an object shared
  by the log, the queues and the dead letter list and mutated in place (\<open>delivered_at\<close>,
  \<open>retry_count\<close>, \<open>acked\<close>), so the broker holds a store of envelopes and the other
  containers hold addresses into it. The broker's reference to an agent is the agent's id
  with its inbox, the only part of the agent the broker writes (\<open>receive_message\<close>). A
  subscription set is a duplicate-free list (its iteration order is unspecified in
  Python). The wall clock is a tape of readings. While \<open>_enqueue\<close> sleeps before a retry
  other threads may run: their effect is the parameter \<open>interf\<close>.
\<close>

section \<open>Topics\<close>

datatype topic =
    T_EQUIPMENT | T_QUALITY | T_SUPPLY | T_DEMAND | T_INVENTORY | T_PLANNING
  | T_BROADCAST | T_ALERTS | T_CNP

fun topic_value :: "topic \<Rightarrow> string" where
  "topic_value T_EQUIPMENT = ''equipment''"
| "topic_value T_QUALITY = ''quality''"
| "topic_value T_SUPPLY = ''supply''"
| "topic_value T_DEMAND = ''demand''"
| "topic_value T_INVENTORY = ''inventory''"
| "topic_value T_PLANNING = ''planning''"
| "topic_value T_BROADCAST = ''broadcast''"
| "topic_value T_ALERTS = ''alerts''"
| "topic_value T_CNP = ''cnp''"

definition all_topics :: "topic list" where
  "all_topics = [T_EQUIPMENT, T_QUALITY, T_SUPPLY, T_DEMAND, T_INVENTORY, T_PLANNING,
     T_BROADCAST, T_ALERTS, T_CNP]"

fun INTENT_TOPIC_MAP :: "intent \<Rightarrow> topic option" where
  "INTENT_TOPIC_MAP CFP = Some T_CNP"
| "INTENT_TOPIC_MAP PROPOSE = Some T_CNP"
| "INTENT_TOPIC_MAP ACCEPT_PROPOSAL = Some T_CNP"
| "INTENT_TOPIC_MAP REJECT_PROPOSAL = Some T_CNP"
| "INTENT_TOPIC_MAP ALERT = Some T_ALERTS"
| "INTENT_TOPIC_MAP DEMAND_CHANGE = Some T_DEMAND"
| "INTENT_TOPIC_MAP STOCK_ALERT = Some T_INVENTORY"
| "INTENT_TOPIC_MAP PLAN_UPDATE = Some T_PLANNING"
| "INTENT_TOPIC_MAP INFORM = Some T_BROADCAST"
| "INTENT_TOPIC_MAP REQUEST = Some T_BROADCAST"
| "INTENT_TOPIC_MAP ACKNOWLEDGE = Some T_BROADCAST"
| "INTENT_TOPIC_MAP CONFIRM = Some T_BROADCAST"
| "INTENT_TOPIC_MAP TOOL_CALL = Some T_BROADCAST"
| "INTENT_TOPIC_MAP TOOL_RESULT = Some T_BROADCAST"
| "INTENT_TOPIC_MAP ACCEPT_JOB = Some T_CNP"
| "INTENT_TOPIC_MAP REJECT_JOB = Some T_CNP"
| "INTENT_TOPIC_MAP STATUS_REPORT = Some T_BROADCAST"

definition AGENT_IDS :: "string list" where
  "AGENT_IDS = [''EA'', ''QA'', ''SA'', ''DA'', ''IA'', ''PA'']"

definition AGENT_DEFAULT_TOPICS :: "(string \<times> topic) list" where
  "AGENT_DEFAULT_TOPICS =
     [(''EA'', T_EQUIPMENT), (''QA'', T_QUALITY), (''SA'', T_SUPPLY),
      (''DA'', T_DEMAND), (''IA'', T_INVENTORY), (''PA'', T_PLANNING)]"

text \<open>The module's import-time check (a failure raises \<open>RuntimeError\<close>).\<close>

definition check_default_topics :: "unit result" where
  "check_default_topics =
     (if set (map fst AGENT_DEFAULT_TOPICS) \<noteq> set AGENT_IDS then Inl RuntimeError else Inr ())"

section \<open>Envelopes and metrics\<close>

record envelope =
  e_message :: agent_message
  e_id :: string
  e_topic :: topic
  e_published_at :: real
  e_delivered_at :: "real option"
  e_acked :: bool
  e_retry_count :: nat
  e_max_retries :: nat

definition new_envelope :: "agent_message \<Rightarrow> topic \<Rightarrow> real \<Rightarrow> envelope" where
  "new_envelope m t now =
     \<lparr> e_message = m, e_id = h_message_id (m_header m), e_topic = t, e_published_at = now,
       e_delivered_at = None, e_acked = False, e_retry_count = 0, e_max_retries = 3 \<rparr>"

definition latency_ms :: "envelope \<Rightarrow> real option" where
  "latency_ms e = (case e_delivered_at e of
      None \<Rightarrow> None
    | Some t \<Rightarrow> if t = 0 then None else Some (py_round 2 ((t - e_published_at e) * 1000)))"

definition envelope_to_dict :: "envelope \<Rightarrow> dict" where
  "envelope_to_dict e =
     (let msg = e_message e in
      [(''envelope_id'', PStr (e_id e)),
       (''topic'', PStr (topic_value (e_topic e))),
       (''sender'', PStr (h_sender (m_header msg))),
       (''receiver'', PStr (h_receiver (m_header msg))),
       (''intent'', PStr (intent_value (m_intent msg))),
       (''timestamp'', PStr (h_timestamp (m_header msg))),
       (''summary'', dget_or (m_body msg) ''summary'' (PStr '''')),
       (''latency_ms'', (case latency_ms e of None \<Rightarrow> PNone | Some l \<Rightarrow> PFloat l)),
       (''retry_count'', PInt (int (e_retry_count e))),
       (''acked'', PBool (e_acked e))])"

record broker_metrics =
  total_published :: nat
  total_delivered :: nat
  total_acked :: nat
  total_dlq :: nat
  total_expired :: nat
  avg_latency_ms :: real
  peak_latency_ms :: real
  latencies :: "real list"
  start_time :: real

definition new_metrics :: "real \<Rightarrow> broker_metrics" where
  "new_metrics now =
     \<lparr> total_published = 0, total_delivered = 0, total_acked = 0, total_dlq = 0,
       total_expired = 0, avg_latency_ms = 0, peak_latency_ms = 0, latencies = [],
       start_time = now \<rparr>"

definition push_latency :: "real \<Rightarrow> real list \<Rightarrow> real list" where
  "push_latency = push_trim 500 250"

definition record_delivery :: "real \<Rightarrow> broker_metrics \<Rightarrow> broker_metrics" where
  "record_delivery l m =
     (let ls = push_latency l (latencies m)
      in m\<lparr> total_delivered := Suc (total_delivered m),
            latencies := ls,
            avg_latency_ms := py_round 2 (list_avg ls),
            peak_latency_ms := max (peak_latency_ms m) l \<rparr>)"

definition throughput_per_sec :: "real \<Rightarrow> broker_metrics \<Rightarrow> real" where
  "throughput_per_sec now m =
     py_round 2 (of_nat (total_published m) / max (now - start_time m) (1 / 1000))"

definition metrics_to_dict :: "real \<Rightarrow> broker_metrics \<Rightarrow> dict" where
  "metrics_to_dict now m =
     [(''total_published'', PInt (int (total_published m))),
      (''total_delivered'', PInt (int (total_delivered m))),
      (''total_acked'', PInt (int (total_acked m))),
      (''total_dlq'', PInt (int (total_dlq m))),
      (''avg_latency_ms'', PFloat (avg_latency_ms m)),
      (''peak_latency_ms'', PFloat (peak_latency_ms m)),
      (''throughput_msg_per_sec'', PFloat (throughput_per_sec now m)),
      (''pending'', PInt (int (total_published m) - int (total_acked m))),
      (''uptime_sec'', PFloat (py_round 1 (now - start_time m)))]"

section \<open>The broker\<close>

record broker =
  b_max_queue :: int
  b_queues :: "(string \<times> nat list) list"
  b_subs :: "topic \<Rightarrow> string list"
  b_refs :: "(string \<times> agent_message list) list"
  b_store :: "envelope list"
  b_log :: "nat list"
  b_dlq :: "nat list"
  b_metrics :: broker_metrics
  b_callbacks :: "nat list"
  b_notified :: "(nat \<times> nat) list"
  b_clock :: "nat \<Rightarrow> real"
  b_tick :: nat

definition MAX_ENVELOPE_LOG :: nat where "MAX_ENVELOPE_LOG = 2000"
definition MAX_DLQ :: nat where "MAX_DLQ = 500"

definition read_clock :: "broker \<Rightarrow> real \<times> broker" where
  "read_clock b = (b_clock b (b_tick b), b\<lparr>b_tick := Suc (b_tick b)\<rparr>)"

definition new_broker :: "int \<Rightarrow> (nat \<Rightarrow> real) \<Rightarrow> broker" where
  "new_broker max_queue_size clk =
     \<lparr> b_max_queue = max_queue_size, b_queues = [], b_subs = (\<lambda>_. []), b_refs = [],
       b_store = [], b_log = [], b_dlq = [], b_metrics = new_metrics (clk 0),
       b_callbacks = [], b_notified = [], b_clock = clk, b_tick = 1 \<rparr>"

definition set_add :: "'a \<Rightarrow> 'a list \<Rightarrow> 'a list" where
  "set_add x xs = (if x \<in> set xs then xs else xs @ [x])"

definition subscribe :: "string \<Rightarrow> topic \<Rightarrow> broker \<Rightarrow> broker" where
  "subscribe aid t b = b\<lparr>b_subs := (b_subs b)(t := set_add aid (b_subs b t))\<rparr>"

definition unsubscribe :: "string \<Rightarrow> topic \<Rightarrow> broker \<Rightarrow> broker" where
  "unsubscribe aid t b = b\<lparr>b_subs := (b_subs b)(t := removeAll aid (b_subs b t))\<rparr>"

definition register_topics :: "string \<Rightarrow> topic list \<Rightarrow> topic list" where
  "register_topics aid extra =
     [T_BROADCAST, T_ALERTS, T_CNP]
     @ (case map_of AGENT_DEFAULT_TOPICS aid of Some t \<Rightarrow> [t] | None \<Rightarrow> []) @ extra"

text \<open>Registering an agent installs a fresh queue and its reference, then subscribes it.\<close>

definition register :: "string \<Rightarrow> agent_message list \<Rightarrow> topic list \<Rightarrow> broker \<Rightarrow> broker" where
  "register aid inbox extra b =
     fold (subscribe aid) (register_topics aid extra)
       (b\<lparr> b_queues := AList.update aid [] (b_queues b),
           b_refs := AList.update aid inbox (b_refs b) \<rparr>)"

definition upd_envelope :: "nat \<Rightarrow> (envelope \<Rightarrow> envelope) \<Rightarrow> broker \<Rightarrow> broker" where
  "upd_envelope a f b = b\<lparr>b_store := (b_store b)[a := f (b_store b ! a)]\<rparr>"

definition set_queue :: "string \<Rightarrow> nat list \<Rightarrow> broker \<Rightarrow> broker" where
  "set_queue aid q b = b\<lparr>b_queues := AList.update aid q (b_queues b)\<rparr>"

text \<open>\<open>q.put_nowait(envelope)\<close> on the agent's queue.\<close>

definition put_nowait :: "string \<Rightarrow> nat \<Rightarrow> broker \<Rightarrow> broker result" where
  "put_nowait aid a b = (case map_of (b_queues b) aid of
      None \<Rightarrow> Inl KeyError
    | Some q \<Rightarrow> (case q_put_nowait (b_max_queue b) a q of
        Inl e \<Rightarrow> Inl e
      | Inr q' \<Rightarrow> Inr (set_queue aid q' b)))"

definition record_latency :: "nat \<Rightarrow> broker \<Rightarrow> broker" where
  "record_latency a b = (case latency_ms (b_store b ! a) of
      None \<Rightarrow> b
    | Some l \<Rightarrow> b\<lparr>b_metrics := record_delivery l (b_metrics b)\<rparr>)"

definition ref_receive :: "string \<Rightarrow> nat \<Rightarrow> broker \<Rightarrow> broker" where
  "ref_receive aid a b = (case map_of (b_refs b) aid of
      None \<Rightarrow> b
    | Some inbox \<Rightarrow> b\<lparr>b_refs := AList.update aid (inbox @ [e_message (b_store b ! a)]) (b_refs b)\<rparr>)"

text \<open>The \<open>except Full\<close> branch of \<open>_enqueue\<close>.\<close>

definition enqueue_retry :: "(broker \<Rightarrow> broker) \<Rightarrow> string \<Rightarrow> nat \<Rightarrow> broker \<Rightarrow> broker" where
  "enqueue_retry interf aid a b0 =
     (let b = upd_envelope a (\<lambda>e. e\<lparr>e_retry_count := Suc (e_retry_count e)\<rparr>) b0;
          e = b_store b ! a;
          b' = (if e_retry_count e < e_max_retries e
                then (let b1 = interf b in
                      case put_nowait aid a b1 of
                        Inr b2 \<Rightarrow> record_latency a b2
                      | Inl _ \<Rightarrow> b1)
                else b);
          e' = b_store b' ! a
      in if e_max_retries e' \<le> e_retry_count e'
         then b'\<lparr> b_dlq := b_dlq b' @ [a],
                  b_metrics := (b_metrics b')\<lparr>total_dlq := Suc (total_dlq (b_metrics b'))\<rparr> \<rparr>
         else b')"

definition enqueue :: "(broker \<Rightarrow> broker) \<Rightarrow> string \<Rightarrow> nat \<Rightarrow> broker \<Rightarrow> broker" where
  "enqueue interf aid a b =
     (case map_of (b_queues b) aid of
        None \<Rightarrow> b
      | Some _ \<Rightarrow>
          (let (now, b1) = read_clock b;
               b2 = upd_envelope a (\<lambda>e. e\<lparr>e_delivered_at := Some now\<rparr>) b1
           in case put_nowait aid a b2 of
                Inr b3 \<Rightarrow> ref_receive aid a (record_latency a b3)
              | Inl _ \<Rightarrow> enqueue_retry interf aid a b2))"

definition push_log :: "'a \<Rightarrow> 'a list \<Rightarrow> 'a list" where
  "push_log = push_trim MAX_ENVELOPE_LOG (MAX_ENVELOPE_LOG div 2)"

definition push_dlq :: "nat \<Rightarrow> nat list \<Rightarrow> nat list" where
  "push_dlq = push_trim MAX_DLQ (MAX_DLQ div 2)"

text \<open>The part of \<open>publish\<close> before routing: a new envelope, logged and counted.\<close>

definition publish_open :: "agent_message \<Rightarrow> topic option \<Rightarrow> broker \<Rightarrow> nat \<times> topic \<times> broker" where
  "publish_open msg topic b =
     (let t = (case topic of Some t \<Rightarrow> t
               | None \<Rightarrow> (case INTENT_TOPIC_MAP (m_intent msg) of Some t \<Rightarrow> t | None \<Rightarrow> T_BROADCAST));
          (now, b1) = read_clock b;
          a = length (b_store b1)
      in (a, t, b1\<lparr> b_store := b_store b1 @ [new_envelope msg t now],
                    b_log := push_log a (b_log b1),
                    b_metrics := (b_metrics b1)\<lparr>total_published := Suc (total_published (b_metrics b1))\<rparr> \<rparr>))"

definition dead_letter :: "nat \<Rightarrow> broker \<Rightarrow> broker" where
  "dead_letter a b = b\<lparr> b_dlq := push_dlq a (b_dlq b),
      b_metrics := (b_metrics b)\<lparr>total_dlq := Suc (total_dlq (b_metrics b))\<rparr> \<rparr>"

definition route_envelope :: "(broker \<Rightarrow> broker) \<Rightarrow> agent_message \<Rightarrow> nat \<Rightarrow> topic \<Rightarrow> broker \<Rightarrow> broker" where
  "route_envelope interf msg a t b =
     (let receiver = h_receiver (m_header msg) in
      if receiver = ''ALL'' then
        fold (\<lambda>aid b'. if aid \<noteq> h_sender (m_header msg) then enqueue interf aid a b' else b')
          (b_subs b t) b
      else if receiver \<in> set (map fst (b_queues b)) then enqueue interf receiver a b
      else dead_letter a b)"

definition notify :: "nat \<Rightarrow> broker \<Rightarrow> broker" where
  "notify a b = b\<lparr>b_notified := b_notified b @ map (\<lambda>cb. (cb, a)) (b_callbacks b)\<rparr>"

definition publish :: "(broker \<Rightarrow> broker) \<Rightarrow> agent_message \<Rightarrow> topic option \<Rightarrow> broker \<Rightarrow> nat \<times> broker" where
  "publish interf msg topic b =
     (let (a, t, b1) = publish_open msg topic b
      in (a, notify a (route_envelope interf msg a t b1)))"

definition deliver :: "(broker \<Rightarrow> broker) \<Rightarrow> agent_message \<Rightarrow> broker \<Rightarrow> broker" where
  "deliver interf msg b = snd (publish interf msg None b)"

section \<open>Consuming and acknowledging\<close>

definition consume :: "string \<Rightarrow> broker \<Rightarrow> nat option \<times> broker" where
  "consume aid b = (case map_of (b_queues b) aid of
      None \<Rightarrow> (None, b)
    | Some q \<Rightarrow> (case q_get_nowait q of
        Inl _ \<Rightarrow> (None, b)
      | Inr (a, q') \<Rightarrow> (Some a, set_queue aid q' b)))"

text \<open>\<open>while not q.empty(): result.append(q.get_nowait())\<close>.\<close>

function drain_queue :: "'a list \<Rightarrow> 'a list \<times> 'a list" where
  "drain_queue q = (case q_get_nowait q of
      Inl _ \<Rightarrow> ([], q)
    | Inr (a, q') \<Rightarrow> (let (as, r) = drain_queue q' in (a # as, r)))"
  by pat_completeness auto
termination
  by (relation "measure length") (auto simp: q_get_nowait_def split: list.splits)

declare drain_queue.simps [simp del]

definition consume_all :: "string \<Rightarrow> broker \<Rightarrow> nat list \<times> broker" where
  "consume_all aid b = (case map_of (b_queues b) aid of
      None \<Rightarrow> ([], b)
    | Some q \<Rightarrow> (let (as, r) = drain_queue q in (as, set_queue aid r b)))"

text \<open>\<open>acknowledge\<close>: the newest unacknowledged envelope of that id among the last 200.\<close>

definition acknowledge :: "string \<Rightarrow> broker \<Rightarrow> bool \<times> broker" where
  "acknowledge eid b =
     (let m = b_metrics b; m' = m\<lparr>total_acked := Suc (total_acked m)\<rparr> in
      case find (\<lambda>a. e_id (b_store b ! a) = eid \<and> \<not> e_acked (b_store b ! a))
             (rev (last_n 200 (b_log b))) of
        Some a \<Rightarrow> (True, (upd_envelope a (\<lambda>e. e\<lparr>e_acked := True\<rparr>) b)\<lparr>b_metrics := m'\<rparr>)
      | None \<Rightarrow> (False, b\<lparr>b_metrics := m'\<rparr>))"

definition on_message :: "nat \<Rightarrow> broker \<Rightarrow> broker" where
  "on_message cb b = b\<lparr>b_callbacks := b_callbacks b @ [cb]\<rparr>"

definition get_queue_depth :: "string \<Rightarrow> broker \<Rightarrow> nat" where
  "get_queue_depth aid b = (case map_of (b_queues b) aid of None \<Rightarrow> 0 | Some q \<Rightarrow> length q)"

definition get_all_depths :: "broker \<Rightarrow> (string \<times> nat) list" where
  "get_all_depths b = map (\<lambda>(aid, _). (aid, get_queue_depth aid b)) (b_queues b)"

definition message_log :: "broker \<Rightarrow> agent_message list" where
  "message_log b = map (\<lambda>a. e_message (b_store b ! a)) (b_log b)"

definition broker_status :: "real \<Rightarrow> broker \<Rightarrow> dict" where
  "broker_status now b =
     [(''agents_registered'', PList (map (\<lambda>(aid, _). PStr aid) (b_queues b))),
      (''queue_depths'', PDict (map (\<lambda>(aid, n). (aid, PInt (int n))) (get_all_depths b))),
      (''subscriptions'', PDict (map (\<lambda>t. (topic_value t, PList (map PStr (sort_key (map of_char :: string \<Rightarrow> nat list) (b_subs b t)))))
          (filter (\<lambda>t. b_subs b t \<noteq> []) all_topics))),
      (''metrics'', PDict (metrics_to_dict now (b_metrics b))),
      (''dlq_size'', PInt (int (length (b_dlq b)))),
      (''total_envelopes'', PInt (int (length (b_log b))))]"

section \<open>The interfaces the broker provides\<close>

interpretation env_log: bounded_log push_log 2000 1000
  unfolding push_log_def MAX_ENVELOPE_LOG_def by (simp add: bounded_log_push_trim)

interpretation dlq_log: bounded_log push_dlq 500 250
  unfolding push_dlq_def MAX_DLQ_def by (simp add: bounded_log_push_trim)

interpretation latency_log: bounded_log push_latency 500 250
  unfolding push_latency_def by (simp add: bounded_log_push_trim)

interpretation agent_queue: bounded_fifo "q_put_nowait m" q_get_nowait "q_full m" for m :: int
  by unfold_locales (simp_all add: q_put_nowait_def q_get_nowait_def)

lemma drain_queue_all: "drain_queue q = (q, [])"
proof (induction q)
  case Nil
  then show ?case by (simp add: drain_queue.simps [of "[]"] agent_queue.get_empty)
next
  case (Cons a q)
  then show ?case by (simp add: drain_queue.simps [of "a # q"] agent_queue.get_front)
qed

end
