(* ===== verification/Broker_Laws.thy ===== *)
theory Broker_Laws
  imports Broker
begin

text \<open>
  What the broker of \<open>mas/messaging/broker.py\<close> guarantees: a well-formedness invariant of
  every reachable broker, the delivery behaviour of \<open>publish\<close> on each of its branches
  (direct, broadcast, unknown receiver, full queue), FIFO consumption, and what the
  envelope log remembers.
\<close>

section \<open>Observations and frame lemmas\<close>

definition bq :: "broker \<Rightarrow> string \<Rightarrow> nat list option" where
  "bq b aid = map_of (b_queues b) aid"

definition inbox_of :: "broker \<Rightarrow> string \<Rightarrow> agent_message list option" where
  "inbox_of b aid = map_of (b_refs b) aid"

definition msg_at :: "broker \<Rightarrow> nat \<Rightarrow> agent_message" where
  "msg_at b a = e_message (b_store b ! a)"

lemma map_of_eq_None_notin: "x \<notin> set (map fst xs) \<longleftrightarrow> map_of xs x = None"
  by (simp add: map_of_eq_None_iff)

lemma read_clock_frame [simp]:
  "b_queues (snd (read_clock b)) = b_queues b" "b_refs (snd (read_clock b)) = b_refs b"
  "b_store (snd (read_clock b)) = b_store b" "b_max_queue (snd (read_clock b)) = b_max_queue b"
  "b_subs (snd (read_clock b)) = b_subs b" "b_log (snd (read_clock b)) = b_log b"
  "b_dlq (snd (read_clock b)) = b_dlq b" "b_metrics (snd (read_clock b)) = b_metrics b"
  by (simp_all add: read_clock_def)

lemma upd_envelope_frame [simp]:
  "b_queues (upd_envelope a f b) = b_queues b" "b_refs (upd_envelope a f b) = b_refs b"
  "length (b_store (upd_envelope a f b)) = length (b_store b)"
  "b_max_queue (upd_envelope a f b) = b_max_queue b"
  "b_subs (upd_envelope a f b) = b_subs b" "b_log (upd_envelope a f b) = b_log b"
  "b_dlq (upd_envelope a f b) = b_dlq b" "b_metrics (upd_envelope a f b) = b_metrics b"
  by (simp_all add: upd_envelope_def)

lemma upd_envelope_at [simp]: "a < length (b_store b) \<Longrightarrow> b_store (upd_envelope a f b) ! a = f (b_store b ! a)"
  by (simp add: upd_envelope_def)

lemma upd_envelope_msg:
  "(\<And>e. e_message (f e) = e_message e) \<Longrightarrow> msg_at (upd_envelope a f b) a' = msg_at b a'"
  by (cases "a < length (b_store b)") (auto simp: upd_envelope_def msg_at_def nth_list_update list_update_beyond not_less)

lemma record_latency_frame [simp]:
  "b_queues (record_latency a b) = b_queues b" "b_refs (record_latency a b) = b_refs b"
  "b_store (record_latency a b) = b_store b" "b_max_queue (record_latency a b) = b_max_queue b"
  "b_subs (record_latency a b) = b_subs b" "b_log (record_latency a b) = b_log b"
  "b_dlq (record_latency a b) = b_dlq b"
  by (simp_all add: record_latency_def split: option.splits)

lemma ref_receive_frame [simp]:
  "b_queues (ref_receive x a b) = b_queues b" "b_store (ref_receive x a b) = b_store b"
  "b_max_queue (ref_receive x a b) = b_max_queue b" "b_subs (ref_receive x a b) = b_subs b"
  "b_log (ref_receive x a b) = b_log b" "b_dlq (ref_receive x a b) = b_dlq b"
  "b_metrics (ref_receive x a b) = b_metrics b"
  by (simp_all add: ref_receive_def split: option.splits)

lemma set_queue_frame [simp]:
  "b_refs (set_queue x q b) = b_refs b" "b_store (set_queue x q b) = b_store b"
  "b_max_queue (set_queue x q b) = b_max_queue b" "b_subs (set_queue x q b) = b_subs b"
  "b_log (set_queue x q b) = b_log b" "b_dlq (set_queue x q b) = b_dlq b"
  "b_metrics (set_queue x q b) = b_metrics b"
  "b_queues (set_queue x q b) = AList.update x q (b_queues b)"
  by (simp_all add: set_queue_def)

lemma put_nowait_Inr:
  "put_nowait x a b = Inr b' \<longleftrightarrow>
     (\<exists>q. bq b x = Some q \<and> \<not> q_full (b_max_queue b) q \<and> b' = set_queue x (q @ [a]) b)"
  by (auto simp: put_nowait_def bq_def agent_queue.put_Inr_iff agent_queue.put_ok split: option.splits sum.splits)

lemma put_nowait_full:
  "bq b x = Some q \<Longrightarrow> q_full (b_max_queue b) q \<Longrightarrow> put_nowait x a b = Inl QueueFull"
  by (simp add: put_nowait_def bq_def agent_queue.put_full)

lemma notify_frame [simp]:
  "b_queues (notify a b) = b_queues b" "b_refs (notify a b) = b_refs b"
  "b_store (notify a b) = b_store b" "b_max_queue (notify a b) = b_max_queue b"
  "b_subs (notify a b) = b_subs b" "b_log (notify a b) = b_log b"
  "b_dlq (notify a b) = b_dlq b" "b_metrics (notify a b) = b_metrics b"
  by (simp_all add: notify_def)

lemma dead_letter_frame [simp]:
  "b_queues (dead_letter a b) = b_queues b" "b_refs (dead_letter a b) = b_refs b"
  "b_store (dead_letter a b) = b_store b" "b_max_queue (dead_letter a b) = b_max_queue b"
  "b_subs (dead_letter a b) = b_subs b" "b_log (dead_letter a b) = b_log b"
  "b_dlq (dead_letter a b) = push_dlq a (b_dlq b)"
  by (simp_all add: dead_letter_def)

lemmas broker_frame = read_clock_frame upd_envelope_frame record_latency_frame
  ref_receive_frame set_queue_frame notify_frame dead_letter_frame

section \<open>Delivery into a queue with room\<close>

lemma enqueue_room:
  assumes "bq b x = Some q" "\<not> q_full (b_max_queue b) q"
  shows "bq (enqueue interf x a b) = (bq b)(x \<mapsto> q @ [a])"
    and "inbox_of (enqueue interf x a b)
       = (case inbox_of b x of None \<Rightarrow> inbox_of b | Some i \<Rightarrow> (inbox_of b)(x \<mapsto> i @ [msg_at b a]))"
    and "b_max_queue (enqueue interf x a b) = b_max_queue b"
    and "msg_at (enqueue interf x a b) = msg_at b"
    and "b_subs (enqueue interf x a b) = b_subs b"
    and "b_dlq (enqueue interf x a b) = b_dlq b"
    and "b_log (enqueue interf x a b) = b_log b"
proof -
  define b2 where "b2 = upd_envelope a (\<lambda>e. e\<lparr>e_delivered_at := Some (fst (read_clock b))\<rparr>) (snd (read_clock b))"
  have msg: "msg_at b2 = msg_at b"
    unfolding b2_def by (rule ext, subst upd_envelope_msg) (simp_all add: msg_at_def)
  have put: "put_nowait x a b2 = Inr (set_queue x (q @ [a]) b2)"
    using assms by (simp add: put_nowait_Inr b2_def bq_def)
  have eq: "enqueue interf x a b = ref_receive x a (record_latency a (set_queue x (q @ [a]) b2))"
    using assms(1) put by (simp add: enqueue_def bq_def b2_def case_prod_unfold Let_def)
  show "bq (enqueue interf x a b) = (bq b)(x \<mapsto> q @ [a])"
    by (rule ext) (simp add: eq bq_def b2_def update_conv')
  show "inbox_of (enqueue interf x a b)
       = (case inbox_of b x of None \<Rightarrow> inbox_of b | Some i \<Rightarrow> (inbox_of b)(x \<mapsto> i @ [msg_at b a]))"
    using msg [THEN fun_cong, of a]
    by (auto simp: eq ref_receive_def inbox_of_def b2_def msg_at_def update_conv' split: option.splits)
  show "msg_at (enqueue interf x a b) = msg_at b"
    unfolding msg [symmetric] by (rule ext) (simp add: eq msg_at_def)
  show "b_max_queue (enqueue interf x a b) = b_max_queue b" "b_subs (enqueue interf x a b) = b_subs b"
    "b_dlq (enqueue interf x a b) = b_dlq b" "b_log (enqueue interf x a b) = b_log b"
    by (simp_all add: eq b2_def)
qed

lemma enqueue_unregistered: "bq b x = None \<Longrightarrow> enqueue interf x a b = b"
  by (simp add: enqueue_def bq_def)

text \<open>One step of the broadcast loop.\<close>

definition offer :: "(broker \<Rightarrow> broker) \<Rightarrow> string \<Rightarrow> nat \<Rightarrow> string \<Rightarrow> broker \<Rightarrow> broker" where
  "offer interf s a x b = (if x \<noteq> s then enqueue interf x a b else b)"





section \<open>Well-formed brokers\<close>

text \<open>
  Queues within their capacity and with valid addresses, references for exactly the
  registered agents, a log within its limit, duplicate-free subscriptions.
\<close>

definition queue_ok :: "broker \<Rightarrow> nat list \<Rightarrow> bool" where
  "queue_ok b q \<longleftrightarrow> (0 < b_max_queue b \<longrightarrow> int (length q) \<le> b_max_queue b) \<and> (\<forall>a\<in>set q. a < length (b_store b))"

definition broker_wf :: "broker \<Rightarrow> bool" where
  "broker_wf b \<longleftrightarrow> (\<forall>x q. bq b x = Some q \<longrightarrow> queue_ok b q)
     \<and> map fst (b_refs b) = map fst (b_queues b) \<and> distinct (map fst (b_queues b))
     \<and> length (b_log b) \<le> 2000 \<and> (\<forall>a\<in>set (b_log b) \<union> set (b_dlq b). a < length (b_store b))
     \<and> (\<forall>t. distinct (b_subs b t))"

definition interf_ok :: "(broker \<Rightarrow> broker) \<Rightarrow> bool" where
  "interf_ok interf \<longleftrightarrow> (\<forall>b. broker_wf b \<longrightarrow> broker_wf (interf b) \<and> length (b_store b) \<le> length (b_store (interf b)))"

text \<open>A change of the envelopes, the metrics or the clock only.\<close>

lemma broker_wf_cong:
  assumes "b_queues b' = b_queues b" "b_refs b' = b_refs b" "b_log b' = b_log b" "b_dlq b' = b_dlq b"
    "b_subs b' = b_subs b" "b_max_queue b' = b_max_queue b" "length (b_store b') = length (b_store b)"
  shows "broker_wf b' \<longleftrightarrow> broker_wf b"
  using assms by (simp add: broker_wf_def queue_ok_def bq_def)

lemma broker_wf_read_clock [simp]: "broker_wf (snd (read_clock b)) \<longleftrightarrow> broker_wf b"
  by (rule broker_wf_cong) simp_all

lemma broker_wf_upd_envelope [simp]: "broker_wf (upd_envelope a f b) \<longleftrightarrow> broker_wf b"
  by (rule broker_wf_cong) simp_all

lemma broker_wf_record_latency [simp]: "broker_wf (record_latency a b) \<longleftrightarrow> broker_wf b"
  by (rule broker_wf_cong) simp_all

lemma broker_wf_notify [simp]: "broker_wf (notify a b) \<longleftrightarrow> broker_wf b"
  by (rule broker_wf_cong) simp_all

lemma broker_wf_refs: "map fst r = map fst (b_refs b) \<Longrightarrow> broker_wf (b\<lparr>b_refs := r\<rparr>) \<longleftrightarrow> broker_wf b"
  by (simp add: broker_wf_def queue_ok_def bq_def)

lemma keys_update_present: "map_of xs k = Some v \<Longrightarrow> map fst (AList.update k w xs) = map fst xs"
  by (metis map_of_eq_None_notin option.simps(3) update_keys)

lemma broker_wf_ref_receive: "broker_wf b \<Longrightarrow> broker_wf (ref_receive x a b)"
  unfolding ref_receive_def by (simp add: broker_wf_refs keys_update_present split: option.split)

lemma broker_wf_set_queue:
  assumes "broker_wf b" "bq b x = Some q" "queue_ok b q'"
  shows "broker_wf (set_queue x q' b)"
proof -
  have "x \<in> set (map fst (b_queues b))"
    using assms(2) by (metis bq_def map_of_eq_None_notin option.simps(3))
  then show ?thesis using assms
    by (auto simp: broker_wf_def queue_ok_def bq_def update_keys update_conv')
qed

lemma broker_wf_put:
  assumes "broker_wf b" "put_nowait x a b = Inr b'" "a < length (b_store b)"
  shows "broker_wf b'" "b_store b' = b_store b"
proof -
  from assms(2) obtain q where q: "bq b x = Some q" "\<not> q_full (b_max_queue b) q"
    "b' = set_queue x (q @ [a]) b" by (auto simp: put_nowait_Inr)
  have "queue_ok b q" using assms(1) q(1) by (auto simp: broker_wf_def)
  then have "queue_ok b (q @ [a])" using q(2) assms(3) by (auto simp: queue_ok_def q_full_def)
  then show "broker_wf b'" using q assms(1) by (auto intro: broker_wf_set_queue)
  show "b_store b' = b_store b" by (simp add: q(3))
qed

lemma broker_wf_dlq_append:
  "broker_wf b \<Longrightarrow> a < length (b_store b) \<Longrightarrow> broker_wf (b\<lparr>b_dlq := b_dlq b @ [a], b_metrics := m\<rparr>)"
  by (auto simp: broker_wf_def queue_ok_def bq_def)

lemma enqueue_retry_wf:
  assumes "interf_ok interf" "broker_wf b" "a < length (b_store b)"
  shows "broker_wf (enqueue_retry interf x a b)
    \<and> length (b_store b) \<le> length (b_store (enqueue_retry interf x a b))"
proof -
  let ?b = "upd_envelope a (\<lambda>e. e\<lparr>e_retry_count := Suc (e_retry_count e)\<rparr>) b"
  let ?i = "interf ?b"
  have wf: "broker_wf ?b" and ln: "length (b_store ?b) = length (b_store b)"
    using assms(2) by simp_all
  have wfi: "broker_wf ?i" "length (b_store b) \<le> length (b_store ?i)"
    using assms(1) wf ln unfolding interf_ok_def by (blast, metis)
  define b' where "b' = (if e_retry_count (b_store ?b ! a) < e_max_retries (b_store ?b ! a)
      then (case put_nowait x a ?i of Inr b2 \<Rightarrow> record_latency a b2 | Inl _ \<Rightarrow> ?i) else ?b)"
  have wf': "broker_wf b' \<and> length (b_store b) \<le> length (b_store b')"
    using wf wfi ln assms(3) broker_wf_put [of ?i x a]
    by (auto simp: b'_def split: sum.splits)
  have eq: "enqueue_retry interf x a b = (if e_max_retries (b_store b' ! a) \<le> e_retry_count (b_store b' ! a)
      then b'\<lparr> b_dlq := b_dlq b' @ [a], b_metrics := (b_metrics b')\<lparr>total_dlq := Suc (total_dlq (b_metrics b'))\<rparr> \<rparr>
      else b')"
    by (simp add: enqueue_retry_def b'_def Let_def)
  show ?thesis using wf' assms(3) by (auto simp: eq intro: broker_wf_dlq_append)
qed

lemma enqueue_wf:
  assumes "interf_ok interf" "broker_wf b" "a < length (b_store b)"
  shows "broker_wf (enqueue interf x a b) \<and> length (b_store b) \<le> length (b_store (enqueue interf x a b))"
proof (cases "bq b x")
  case None
  then show ?thesis using assms by (simp add: enqueue_unregistered)
next
  case (Some q)
  let ?b2 = "upd_envelope a (\<lambda>e. e\<lparr>e_delivered_at := Some (fst (read_clock b))\<rparr>) (snd (read_clock b))"
  have wf: "broker_wf ?b2" "length (b_store ?b2) = length (b_store b)" using assms by simp_all
  have eq: "enqueue interf x a b = (case put_nowait x a ?b2 of
      Inr b3 \<Rightarrow> ref_receive x a (record_latency a b3) | Inl _ \<Rightarrow> enqueue_retry interf x a ?b2)"
    using Some by (simp add: enqueue_def bq_def case_prod_unfold Let_def)
  show ?thesis
    using wf assms(1,3) enqueue_retry_wf [of interf ?b2 a x] broker_wf_put [of ?b2 x a]
    by (auto simp: eq broker_wf_ref_receive split: sum.splits)
qed

lemma offer_wf:
  "interf_ok interf \<Longrightarrow> broker_wf b \<Longrightarrow> a < length (b_store b) \<Longrightarrow>
   broker_wf (offer interf s a x b) \<and> length (b_store b) \<le> length (b_store (offer interf s a x b))"
  by (simp add: offer_def enqueue_wf)

lemma broadcast_wf:
  assumes "interf_ok interf" "broker_wf b" "a < length (b_store b)"
  shows "broker_wf (fold (offer interf s a) xs b)
    \<and> length (b_store b) \<le> length (b_store (fold (offer interf s a) xs b))"
  using assms(2,3)
proof (induction xs arbitrary: b)
  case Nil
  then show ?case by simp
next
  case (Cons x xs)
  have *: "broker_wf (offer interf s a x b)" "length (b_store b) \<le> length (b_store (offer interf s a x b))"
    using offer_wf [OF assms(1) Cons.prems] by auto
  show ?case using Cons.IH [OF *(1)] *(2) Cons.prems(2) by simp
qed

lemma route_envelope_ALL:
  "h_receiver (m_header m) = ''ALL'' \<Longrightarrow>
   route_envelope interf m a t b = fold (offer interf (h_sender (m_header m)) a) (b_subs b t) b"
  unfolding route_envelope_def Let_def by (simp, rule arg_cong [where f = "\<lambda>f. fold f _ _"]) (simp add: offer_def fun_eq_iff)

lemma dead_letter_wf: "broker_wf b \<Longrightarrow> a < length (b_store b) \<Longrightarrow> broker_wf (dead_letter a b)"
  using dlq_log.push_set [of a "b_dlq b"]
  by (auto simp: broker_wf_def queue_ok_def bq_def)

lemma route_envelope_wf:
  assumes "interf_ok interf" "broker_wf b" "a < length (b_store b)"
  shows "broker_wf (route_envelope interf m a t b)
    \<and> length (b_store b) \<le> length (b_store (route_envelope interf m a t b))"
proof (cases "h_receiver (m_header m) = ''ALL''")
  case True
  then show ?thesis using broadcast_wf [OF assms] by (simp add: route_envelope_ALL)
next
  case False
  then show ?thesis using enqueue_wf [OF assms] dead_letter_wf [OF assms(2,3)]
    by (simp add: route_envelope_def Let_def)
qed

lemma publish_open_facts:
  assumes "publish_open m topic b = (a, t, b1)"
  shows "a = length (b_store b)" "b_queues b1 = b_queues b" "b_refs b1 = b_refs b"
    "b_max_queue b1 = b_max_queue b" "b_subs b1 = b_subs b" "b_dlq b1 = b_dlq b"
    "b_log b1 = push_log a (b_log b)" "length (b_store b1) = Suc (length (b_store b))"
    "msg_at b1 a = m" "b_metrics b1 = (b_metrics b)\<lparr>total_published := Suc (total_published (b_metrics b))\<rparr>"
    "e_retry_count (b_store b1 ! a) = 0" "e_max_retries (b_store b1 ! a) = 3"
    "topic = Some t' \<Longrightarrow> t = t'"
  using assms
  by (auto simp: publish_open_def Let_def case_prod_unfold msg_at_def new_envelope_def)

lemma queue_ok_mono:
  "queue_ok b q \<Longrightarrow> b_max_queue b' = b_max_queue b \<Longrightarrow> length (b_store b) \<le> length (b_store b') \<Longrightarrow> queue_ok b' q"
  unfolding queue_ok_def by (metis less_le_trans)

lemma publish_open_wf:
  assumes po: "publish_open m topic b = (a, t, b1)" and wf: "broker_wf b"
  shows "broker_wf b1"
proof -
  note f = publish_open_facts [OF po]
  have "queue_ok b1 q" if "bq b1 x = Some q" for x q
  proof -
    have "queue_ok b q" using that wf by (simp add: bq_def f broker_wf_def)
    then show ?thesis by (rule queue_ok_mono) (simp_all add: f)
  qed
  moreover have "\<forall>c\<in>set (b_log b1) \<union> set (b_dlq b1). c < length (b_store b1)"
  proof -
    have "\<forall>c\<in>set (b_log b) \<union> set (b_dlq b). c < length (b_store b)"
      using wf by (simp add: broker_wf_def)
    then show ?thesis
      using env_log.push_set [of a "b_log b"] by (simp add: f) (blast intro: less_SucI)
  qed
  ultimately show ?thesis
    using wf env_log.push_bounded [of a "b_log b"] by (simp add: broker_wf_def f)
qed

lemma publish_wf:
  assumes "interf_ok interf" "broker_wf b"
  shows "broker_wf (snd (publish interf m topic b))"
proof -
  obtain a t b1 where po: "publish_open m topic b = (a, t, b1)" by (metis prod_cases3)
  have "broker_wf b1" "a < length (b_store b1)"
    using publish_open_wf [OF po assms(2)] publish_open_facts(1,8) [OF po] by auto
  then show ?thesis using route_envelope_wf [OF assms(1)] by (simp add: publish_def po)
qed

lemma subscribe_frame [simp]:
  "b_queues (subscribe x t b) = b_queues b" "b_refs (subscribe x t b) = b_refs b"
  "b_store (subscribe x t b) = b_store b" "b_max_queue (subscribe x t b) = b_max_queue b"
  "b_log (subscribe x t b) = b_log b" "b_dlq (subscribe x t b) = b_dlq b"
  by (simp_all add: subscribe_def)

lemma subscribe_wf: "broker_wf b \<Longrightarrow> broker_wf (subscribe x t b)"
  by (auto simp: broker_wf_def queue_ok_def bq_def subscribe_def set_add_def)

lemma unsubscribe_wf: "broker_wf b \<Longrightarrow> broker_wf (unsubscribe x t b)"
  by (auto simp: broker_wf_def queue_ok_def bq_def unsubscribe_def distinct_removeAll)

lemma fold_subscribe_wf: "broker_wf b \<Longrightarrow> broker_wf (fold (subscribe x) ts b)"
  by (induction ts arbitrary: b) (simp_all add: subscribe_wf)

lemma register_wf: "broker_wf b \<Longrightarrow> broker_wf (register x inbox extra b)"
  unfolding register_def
  by (rule fold_subscribe_wf)
    (auto simp: broker_wf_def queue_ok_def bq_def update_keys update_conv' distinct_update)

lemma consume_wf: "broker_wf b \<Longrightarrow> broker_wf (snd (consume x b))"
proof (cases "bq b x")
  case (Some q)
  assume wf: "broker_wf b"
  then have "queue_ok b q" using Some by (simp add: broker_wf_def)
  then have "queue_ok b (tl q)" by (cases q) (auto simp: queue_ok_def)
  with wf Some show ?thesis
    by (cases q) (simp_all add: consume_def bq_def [symmetric] q_get_nowait_def broker_wf_set_queue)
qed (simp add: consume_def bq_def)

lemma consume_all_wf: "broker_wf b \<Longrightarrow> broker_wf (snd (consume_all x b))"
  by (cases "bq b x")
    (simp_all add: consume_all_def bq_def [symmetric] drain_queue_all broker_wf_set_queue queue_ok_def)

lemma acknowledge_wf: "broker_wf b \<Longrightarrow> broker_wf (snd (acknowledge eid b))"
  by (auto simp: acknowledge_def Let_def broker_wf_def queue_ok_def bq_def split: option.split)

lemma on_message_wf: "broker_wf (on_message cb b) \<longleftrightarrow> broker_wf b"
  by (rule broker_wf_cong) (simp_all add: on_message_def)

section \<open>Reachable brokers\<close>

inductive broker_step :: "broker \<Rightarrow> broker \<Rightarrow> bool" where
  step_register: "broker_step b (register x inbox extra b)"
| step_subscribe: "broker_step b (subscribe x t b)"
| step_unsubscribe: "broker_step b (unsubscribe x t b)"
| step_publish: "interf_ok interf \<Longrightarrow> broker_step b (snd (publish interf m topic b))"
| step_consume: "broker_step b (snd (consume x b))"
| step_consume_all: "broker_step b (snd (consume_all x b))"
| step_acknowledge: "broker_step b (snd (acknowledge eid b))"
| step_on_message: "broker_step b (on_message cb b)"

inductive broker_reachable :: "broker \<Rightarrow> bool" where
  reach_init: "broker_reachable (new_broker max_queue_size clk)"
| reach_step: "broker_reachable b \<Longrightarrow> broker_step b b' \<Longrightarrow> broker_reachable b'"

lemma new_broker_wf: "broker_wf (new_broker n clk)"
  by (simp add: broker_wf_def new_broker_def bq_def)

lemma broker_step_wf: "broker_step b b' \<Longrightarrow> broker_wf b \<Longrightarrow> broker_wf b'"
  by (induction rule: broker_step.induct)
    (simp_all add: register_wf subscribe_wf unsubscribe_wf publish_wf consume_wf consume_all_wf
      acknowledge_wf on_message_wf)

lemma broker_reachable_imp_wf: "broker_reachable b \<Longrightarrow> broker_wf b"
  by (induction rule: broker_reachable.induct) (auto intro: new_broker_wf broker_step_wf)

section \<open>What a sequential publish leaves unchanged\<close>

lemma enqueue_retry_id_frame:
  "msg_at (enqueue_retry id x a b) = msg_at b \<and> b_log (enqueue_retry id x a b) = b_log b
   \<and> length (b_store (enqueue_retry id x a b)) = length (b_store b)"
proof -
  have "msg_at (upd_envelope a (\<lambda>e. e\<lparr>e_retry_count := Suc (e_retry_count e)\<rparr>) b) c = msg_at b c" for c
    by (rule upd_envelope_msg) simp
  then show ?thesis
    unfolding enqueue_retry_def Let_def
    by (auto simp: put_nowait_Inr msg_at_def fun_eq_iff split: sum.split)
qed

lemma enqueue_id_frame:
  "msg_at (enqueue id x a b) = msg_at b \<and> b_log (enqueue id x a b) = b_log b
   \<and> length (b_store (enqueue id x a b)) = length (b_store b)"
proof (cases "bq b x")
  case None
  then show ?thesis by (simp add: enqueue_unregistered)
next
  case (Some q)
  let ?b2 = "upd_envelope a (\<lambda>e. e\<lparr>e_delivered_at := Some (fst (read_clock b))\<rparr>) (snd (read_clock b))"
  have eq: "enqueue id x a b = (case put_nowait x a ?b2 of
      Inr b3 \<Rightarrow> ref_receive x a (record_latency a b3) | Inl _ \<Rightarrow> enqueue_retry id x a ?b2)"
    using Some by (simp add: enqueue_def bq_def case_prod_unfold Let_def)
  have msg: "msg_at ?b2 c = msg_at b c" for c
    by (subst upd_envelope_msg) (simp_all add: msg_at_def)
  show ?thesis
  proof (cases "put_nowait x a ?b2")
    case (Inl er)
    then show ?thesis using msg enqueue_retry_id_frame [of x a ?b2] by (simp add: eq fun_eq_iff)
  next
    case (Inr b3)
    then have "b_store b3 = b_store ?b2" "b_log b3 = b_log ?b2" by (auto simp: put_nowait_Inr)
    then show ?thesis using msg Inr by (simp add: eq fun_eq_iff msg_at_def)
  qed
qed

lemma broadcast_id_frame:
  "msg_at (fold (offer id s a) xs b) = msg_at b \<and> b_log (fold (offer id s a) xs b) = b_log b
   \<and> length (b_store (fold (offer id s a) xs b)) = length (b_store b)"
  by (induction xs arbitrary: b) (simp_all add: offer_def enqueue_id_frame)

lemma route_id_frame:
  "msg_at (route_envelope id m a t b) = msg_at b \<and> b_log (route_envelope id m a t b) = b_log b
   \<and> length (b_store (route_envelope id m a t b)) = length (b_store b)"
proof (cases "h_receiver (m_header m) = ''ALL''")
  case True
  then show ?thesis by (simp add: route_envelope_ALL broadcast_id_frame)
next
  case False
  then show ?thesis
    by (simp add: route_envelope_def Let_def enqueue_id_frame) (simp add: msg_at_def fun_eq_iff)
qed

lemma publish_message_log:
  assumes "broker_wf b"
  shows "message_log (snd (publish id m topic b)) = push_log m (message_log b)"
proof -
  obtain a t b1 where po: "publish_open m topic b = (a, t, b1)" by (metis prod_cases3)
  note f = publish_open_facts [OF po]
  have old: "msg_at b1 c = msg_at b c" if "c < length (b_store b)" for c
    using that po by (auto simp: publish_open_def Let_def case_prod_unfold msg_at_def nth_append)
  have "message_log (snd (publish id m topic b)) = map (msg_at b1) (push_log a (b_log b))"
    using route_id_frame [of m a t b1]
    by (simp add: publish_def po message_log_def f(7) msg_at_def fun_eq_iff)
  also have "\<dots> = push_log (msg_at b1 a) (map (msg_at b1) (b_log b))"
    by (simp add: push_log_def map_push_trim)
  also have "map (msg_at b1) (b_log b) = message_log b"
    using assms old by (auto simp: broker_wf_def message_log_def msg_at_def)
  finally show ?thesis unfolding f(9) .
qed

definition publish_all :: "agent_message list \<Rightarrow> broker \<Rightarrow> broker" where
  "publish_all ms b = fold (\<lambda>m b'. snd (publish id m None b')) ms b"

lemma interf_ok_id: "interf_ok id"
  by (simp add: interf_ok_def)

lemma publish_all_log:
  "broker_wf b \<Longrightarrow> message_log (publish_all ms b) = env_log.push_all ms (message_log b)"
  by (induction ms arbitrary: b)
    (simp_all add: publish_all_def publish_message_log publish_wf interf_ok_id)

section \<open>Properties\<close>

definition demo_msg :: "string \<Rightarrow> string \<Rightarrow> agent_message" where
  "demo_msg s r = create_message s r ALERT [(''summary'', PStr ''hot'')] None ''c0'' ''10:00'' ''m0''"

definition demo_broker :: "int \<Rightarrow> broker" where
  "demo_broker n = register ''PA'' [] [] (register ''QA'' [] [] (register ''EA'' [] [] (new_broker n of_nat)))"

text \<open>
  C11 (\<open>broker_reachable_safe\<close>). In every broker reachable by any sequence of registrations,
  (un)subscriptions, publications (whatever well-behaved threads do during a retry's
  sleep), consumptions and acknowledgements, each agent queue stays within its capacity,
  the envelope log holds at most \<open>MAX_ENVELOPE_LOG\<close> entries, every queued, logged or dead
  envelope exists, and exactly the registered agents have references.
\<close>

theorem broker_reachable_safe:
  assumes "broker_reachable b"
  shows "(\<forall>x q. bq b x = Some q \<longrightarrow> (0 < b_max_queue b \<longrightarrow> int (length q) \<le> b_max_queue b)
            \<and> (\<forall>a\<in>set q. a < length (b_store b)))
    \<and> length (b_log b) \<le> MAX_ENVELOPE_LOG
    \<and> (\<forall>a\<in>set (b_log b) \<union> set (b_dlq b). a < length (b_store b))
    \<and> map fst (b_refs b) = map fst (b_queues b) \<and> (\<forall>t. distinct (b_subs b t))"
  using broker_reachable_imp_wf [OF assms]
  by (simp add: broker_wf_def queue_ok_def MAX_ENVELOPE_LOG_def)

theorem broker_reachable_safe_witness:
  "length (b_log (snd (publish id (demo_msg ''EA'' ''QA'') None (new_broker 2 of_nat)))) \<le> MAX_ENVELOPE_LOG"
proof -
  have "broker_reachable (snd (publish id (demo_msg ''EA'' ''QA'') None (new_broker 2 of_nat)))"
    by (rule reach_step [OF reach_init]) (rule step_publish [OF interf_ok_id])
  from broker_reachable_safe [OF this] show ?thesis by blast
qed

text \<open>
  \<open>publish_direct\<close>. A message to one registered agent whose queue has room: a new
  envelope carrying exactly that message is appended to the receiver's queue, the message
  is appended once to the receiver's inbox, every other agent's queue and inbox and the
  dead letter list are unchanged.
\<close>

theorem publish_direct:
  assumes "publish interf m topic b = (a, b')"
    and "h_receiver (m_header m) = x" "x \<noteq> ''ALL''"
    and "bq b x = Some q" "\<not> q_full (b_max_queue b) q"
  shows "a = length (b_store b) \<and> msg_at b' a = m \<and> bq b' = (bq b)(x \<mapsto> q @ [a])
    \<and> (\<forall>y. inbox_of b' y = (if y = x then map_option (\<lambda>i. i @ [m]) (inbox_of b y) else inbox_of b y))
    \<and> b_dlq b' = b_dlq b"
proof -
  obtain a1 t b1 where po: "publish_open m topic b = (a1, t, b1)" by (metis prod_cases3)
  note f = publish_open_facts [OF po]
  have bq1: "bq b1 = bq b" "inbox_of b1 = inbox_of b" by (auto simp: bq_def inbox_of_def f fun_eq_iff)
  have x: "x \<in> set (map fst (b_queues b1))"
    using assms(4) bq1 by (metis bq_def map_of_eq_None_notin option.simps(3))
  have b': "a = a1" "b' = notify a (enqueue interf x a b1)"
    using assms(1-3) x by (auto simp: publish_def po route_envelope_def Let_def)
  have "bq b1 x = Some q" "\<not> q_full (b_max_queue b1) q" using assms bq1 by (simp_all add: f)
  note e = enqueue_room [OF this, of interf a]
  have n: "bq b' = bq (enqueue interf x a b1)" "inbox_of b' = inbox_of (enqueue interf x a b1)"
    "msg_at b' = msg_at (enqueue interf x a b1)"
    by (auto simp: b' bq_def inbox_of_def msg_at_def fun_eq_iff)
  have d: "b_dlq b' = b_dlq (enqueue interf x a b1)" by (simp add: b')
  have m: "msg_at b1 a = m" using f(9) b'(1) by simp
  show ?thesis
  proof (intro conjI allI)
    show "a = length (b_store b)" using b'(1) f(1) by simp
    show "inbox_of b' y = (if y = x then map_option (\<lambda>i. i @ [m]) (inbox_of b y) else inbox_of b y)" for y
      by (simp add: n e bq1 m split: option.split)
  qed (simp_all add: n e d m bq1 f(6))
qed

theorem publish_direct_witness:
  "let b' = snd (publish id (demo_msg ''QA'' ''EA'') None (demo_broker 1))
   in bq b' ''EA'' = Some [0] \<and> bq b' ''QA'' = Some []
      \<and> inbox_of b' ''EA'' = Some [demo_msg ''QA'' ''EA'']"
proof -
  have h: "h_receiver (m_header (demo_msg ''QA'' ''EA'')) = ''EA''"
    "bq (demo_broker 1) ''EA'' = Some []" "bq (demo_broker 1) ''QA'' = Some []"
    "inbox_of (demo_broker 1) ''EA'' = Some []" "\<not> q_full (b_max_queue (demo_broker 1)) []"
    "b_store (demo_broker 1) = []"
    by code_simp+
  obtain a b' where p: "publish id (demo_msg ''QA'' ''EA'') None (demo_broker 1) = (a, b')" by fastforce
  show ?thesis using publish_direct [OF p h(1) _ h(2,5)] p h by simp
qed



text \<open>
  \<open>publish_unknown\<close>. A message to a name that is neither \<open>"ALL"\<close> nor a registered agent
  goes to the dead letter list (and is its newest entry) and is counted there; no queue or
  inbox changes; the list never exceeds \<open>MAX_DLQ\<close> this way.
\<close>

theorem publish_unknown:
  assumes "publish interf m topic b = (a, b')"
    and "h_receiver (m_header m) \<noteq> ''ALL''" "bq b (h_receiver (m_header m)) = None"
  shows "bq b' = bq b \<and> inbox_of b' = inbox_of b \<and> last (b_dlq b') = a \<and> length (b_dlq b') \<le> MAX_DLQ
    \<and> total_dlq (b_metrics b') = Suc (total_dlq (b_metrics b)) \<and> msg_at b' a = m"
proof -
  obtain a1 t b1 where po: "publish_open m topic b = (a1, t, b1)" by (metis prod_cases3)
  note f = publish_open_facts [OF po]
  have "h_receiver (m_header m) \<notin> set (map fst (b_queues b1))"
    using assms(3) unfolding map_of_eq_None_notin bq_def f(2) .
  then have b': "a = a1" "b' = notify a (dead_letter a b1)"
    using assms(1,2) by (auto simp: publish_def po route_envelope_def Let_def)
  show ?thesis
    using dlq_log.push_last [of a "b_dlq b"] dlq_log.push_bounded [of a "b_dlq b"] f(9)
    by (simp add: b'(2) bq_def inbox_of_def fun_eq_iff f(2,3,6) msg_at_def b'(1) MAX_DLQ_def)
      (simp add: dead_letter_def f(10))
qed

theorem publish_unknown_witness:
  "last (b_dlq (snd (publish id (demo_msg ''QA'' ''XX'') None (demo_broker 1)))) = 0"
proof -
  have h: "h_receiver (m_header (demo_msg ''QA'' ''XX'')) \<noteq> ''ALL''"
    "bq (demo_broker 1) (h_receiver (m_header (demo_msg ''QA'' ''XX''))) = None"
    "b_store (demo_broker 1) = []"
    by code_simp+
  obtain a b' where p: "publish id (demo_msg ''QA'' ''XX'') None (demo_broker 1) = (a, b')" by fastforce
  have "a = 0" using p by (auto simp: publish_def publish_open_def Let_def case_prod_unfold h(3))
  then show ?thesis using publish_unknown [OF p h(1,2)] p by simp
qed

text \<open>
  C22 (\<open>publish_full_queue_drops\<close>). When the receiver's queue is full and nobody consumes from
  it meanwhile, a direct message is lost without a trace in the broker's delivery state:
  the publication is counted, but neither the queue, nor the inbox, nor the dead letter
  list, nor the delivery and dead letter counters change (the single retry leaves
  \<open>retry_count\<close> at 1, below \<open>max_retries\<close>).
\<close>

theorem publish_full_queue_drops:
  assumes "publish id m topic b = (a, b')"
    and "h_receiver (m_header m) = x" "x \<noteq> ''ALL''"
    and "bq b x = Some q" "q_full (b_max_queue b) q"
  shows "bq b' = bq b \<and> inbox_of b' = inbox_of b \<and> b_dlq b' = b_dlq b
    \<and> total_published (b_metrics b') = Suc (total_published (b_metrics b))
    \<and> total_delivered (b_metrics b') = total_delivered (b_metrics b)
    \<and> total_dlq (b_metrics b') = total_dlq (b_metrics b)
    \<and> e_retry_count (b_store b' ! a) = 1"
proof -
  obtain a1 t b1 where po: "publish_open m topic b = (a1, t, b1)" by (metis prod_cases3)
  note f = publish_open_facts [OF po]
  have x: "x \<in> set (map fst (b_queues b1))"
    using assms(4) f(2) by (metis bq_def map_of_eq_None_notin option.simps(3))
  have b': "a = a1" "b' = notify a (enqueue id x a b1)"
    using assms(1-3) x by (auto simp: publish_def po route_envelope_def Let_def)
  have a: "a < length (b_store b1)" "e_retry_count (b_store b1 ! a) = 0" "e_max_retries (b_store b1 ! a) = 3"
    using f b'(1) by simp_all
  let ?b2 = "upd_envelope a (\<lambda>e. e\<lparr>e_delivered_at := Some (fst (read_clock b1))\<rparr>) (snd (read_clock b1))"
  let ?b3 = "upd_envelope a (\<lambda>e. e\<lparr>e_retry_count := Suc (e_retry_count e)\<rparr>) ?b2"
  have q: "bq ?b2 x = Some q" "q_full (b_max_queue ?b2) q" "bq ?b3 x = Some q" "q_full (b_max_queue ?b3) q"
    using assms(4,5) by (simp_all add: bq_def f)
  have "map_of (b_queues b1) x = Some q" using assms(4) by (simp add: bq_def f)
  then have "enqueue id x a b1 = enqueue_retry id x a ?b2"
    using put_nowait_full [OF q(1,2)] by (simp add: enqueue_def case_prod_unfold Let_def)
  also have "\<dots> = ?b3"
    using put_nowait_full [OF q(3,4), of a] a by (simp add: enqueue_retry_def Let_def)
  finally have e: "enqueue id x a b1 = ?b3" .
  show ?thesis
    using a by (simp add: b'(2) e bq_def inbox_of_def f(2,3,6,10) fun_eq_iff)
qed

theorem publish_full_queue_drops_witness:
  "let b = snd (publish id (demo_msg ''QA'' ''EA'') None (demo_broker 1));
       b' = snd (publish id (demo_msg ''QA'' ''EA'') None b)
   in bq b' ''EA'' = Some [0] \<and> inbox_of b' ''EA'' = Some [demo_msg ''QA'' ''EA''] \<and> b_dlq b' = []"
proof -
  let ?b = "snd (publish id (demo_msg ''QA'' ''EA'') None (demo_broker 1))"
  have h: "h_receiver (m_header (demo_msg ''QA'' ''EA'')) = ''EA''"
    "bq ?b ''EA'' = Some [0]" "q_full (b_max_queue ?b) [0::nat]"
    "inbox_of ?b ''EA'' = Some [demo_msg ''QA'' ''EA'']" "b_dlq ?b = []"
    by code_simp+
  obtain a b' where p: "publish id (demo_msg ''QA'' ''EA'') None ?b = (a, b')" by fastforce
  show ?thesis using publish_full_queue_drops [OF p h(1) _ h(2,3)] p h by (simp add: Let_def)
qed

text \<open>
  \<open>consume_all_fifo\<close>. \<open>consume_all\<close> after a direct publication returns everything that
  was waiting, in arrival order, with the new envelope last, and leaves the queue empty
  and the other queues alone.
\<close>

theorem consume_all_fifo:
  assumes "publish interf m topic b = (a, b')"
    and "h_receiver (m_header m) = x" "x \<noteq> ''ALL''"
    and "bq b x = Some q" "\<not> q_full (b_max_queue b) q"
  shows "fst (consume_all x b') = q @ [a] \<and> bq (snd (consume_all x b')) = (bq b)(x \<mapsto> [])"
proof -
  obtain a1 t b1 where po: "publish_open m topic b = (a1, t, b1)" by (metis prod_cases3)
  note f = publish_open_facts [OF po]
  have bq1: "bq b1 = bq b" by (auto simp: bq_def f fun_eq_iff)
  have x: "x \<in> set (map fst (b_queues b1))"
    using assms(4) bq1 by (metis bq_def map_of_eq_None_notin option.simps(3))
  have b': "a = a1" "b' = notify a (enqueue interf x a b1)"
    using assms(1-3) x by (auto simp: publish_def po route_envelope_def Let_def)
  have "bq b1 x = Some q" "\<not> q_full (b_max_queue b1) q" using assms bq1 by (simp_all add: f)
  from enqueue_room(1) [OF this] have q: "bq b' = (bq b)(x \<mapsto> q @ [a])"
    by (auto simp: b'(2) bq1 bq_def fun_eq_iff)
  then have "map_of (b_queues b') x = Some (q @ [a])" by (simp add: bq_def fun_eq_iff)
  then have c: "consume_all x b' = (q @ [a], set_queue x [] b')"
    by (simp add: consume_all_def drain_queue_all)
  have "bq (set_queue x [] b') = (bq b')(x \<mapsto> [])" by (simp add: bq_def update_conv' fun_eq_iff)
  then show ?thesis by (simp add: c q)
qed

theorem consume_all_fifo_witness:
  "fst (consume_all ''EA'' (snd (publish id (demo_msg ''QA'' ''EA'') None (demo_broker 1)))) = [0]"
proof -
  have h: "h_receiver (m_header (demo_msg ''QA'' ''EA'')) = ''EA''"
    "bq (demo_broker 1) ''EA'' = Some []" "\<not> q_full (b_max_queue (demo_broker 1)) []"
    "b_store (demo_broker 1) = []"
    by code_simp+
  obtain a b' where p: "publish id (demo_msg ''QA'' ''EA'') None (demo_broker 1) = (a, b')" by fastforce
  have "a = 0" using p by (auto simp: publish_def publish_open_def Let_def case_prod_unfold h(4))
  then show ?thesis using consume_all_fifo [OF p h(1) _ h(2,3)] p by simp
qed

text \<open>
  \<open>message_log_recent\<close>. Whatever sequence of messages is published, the broker's
  \<open>message_log\<close> never exceeds \<open>MAX_ENVELOPE_LOG\<close> and always agrees with the full history
  on its last 1000 messages (all of it while it is shorter).
\<close>

theorem message_log_recent:
  assumes "broker_wf b"
  shows "length (message_log (publish_all ms b)) \<le> MAX_ENVELOPE_LOG
    \<and> (let k = min 1000 (length (message_log b) + length ms)
       in last_n k (message_log (publish_all ms b)) = last_n k (message_log b @ ms))"
proof -
  have "length (message_log b) \<le> 2000" using assms by (simp add: broker_wf_def message_log_def)
  then show ?thesis
    using env_log.push_all_bounded [of "message_log b" ms] env_log.push_all_recent [of "message_log b" ms]
    by (simp add: publish_all_log [OF assms] MAX_ENVELOPE_LOG_def Let_def)
qed

theorem message_log_recent_witness:
  "last_n 2 (message_log (publish_all [demo_msg ''QA'' ''EA'', demo_msg ''EA'' ''ALL''] (new_broker 5 of_nat)))
     = [demo_msg ''QA'' ''EA'', demo_msg ''EA'' ''ALL'']"
proof -
  have "message_log (new_broker 5 of_nat) = []" by (simp add: message_log_def new_broker_def)
  then show ?thesis
    using message_log_recent [OF new_broker_wf, of "[demo_msg ''QA'' ''EA'', demo_msg ''EA'' ''ALL'']" 5 of_nat]
    by (simp add: last_n_all Let_def numeral_2_eq_2)
qed

text \<open>
  \<open>acknowledge_marks\<close>. An acknowledgement of a message that sits unacknowledged among
  the last 200 log entries marks exactly one envelope with that id as acknowledged and
  answers \<open>True\<close>; a wrong or repeated id answers \<open>False\<close> and changes no envelope. In both
  cases the counter \<open>total_acked\<close> grows.
\<close>

theorem acknowledge_marks:
  assumes "acknowledge eid b = (ok, b')"
  shows "total_acked (b_metrics b') = Suc (total_acked (b_metrics b))
    \<and> (ok \<longleftrightarrow> (\<exists>a\<in>set (last_n 200 (b_log b)). e_id (b_store b ! a) = eid \<and> \<not> e_acked (b_store b ! a)))
    \<and> (if ok then (\<exists>a\<in>set (last_n 200 (b_log b)). e_id (b_store b ! a) = eid \<and> \<not> e_acked (b_store b ! a)
                     \<and> b_store b' = (b_store b)[a := (b_store b ! a)\<lparr>e_acked := True\<rparr>])
       else b_store b' = b_store b)"
proof (cases "find (\<lambda>a. e_id (b_store b ! a) = eid \<and> \<not> e_acked (b_store b ! a)) (rev (last_n 200 (b_log b)))")
  case None
  then have "\<not> (\<exists>a\<in>set (last_n 200 (b_log b)). e_id (b_store b ! a) = eid \<and> \<not> e_acked (b_store b ! a))"
    by (auto simp: find_None_iff)
  then show ?thesis using assms None by (auto simp: acknowledge_def Let_def)
next
  case (Some a)
  then have "a \<in> set (last_n 200 (b_log b))" "e_id (b_store b ! a) = eid" "\<not> e_acked (b_store b ! a)"
    using find_hit [of _ "rev (last_n 200 (b_log b))" a] by fastforce+
  then show ?thesis using assms Some
    by (auto simp: acknowledge_def Let_def upd_envelope_def)
qed

theorem acknowledge_marks_witness:
  "let b = snd (publish id (demo_msg ''QA'' ''EA'') None (demo_broker 1));
       b1 = snd (acknowledge ''m0'' b)
   in fst (acknowledge ''m0'' b) \<and> \<not> fst (acknowledge ''m0'' b1)
      \<and> total_acked (b_metrics (snd (acknowledge ''m0'' b1))) = 2"
proof -
  let ?b = "snd (publish id (demo_msg ''QA'' ''EA'') None (demo_broker 1))"
  let ?b1 = "snd (acknowledge ''m0'' ?b)"
  have "acknowledge ''m0'' ?b1 = (fst (acknowledge ''m0'' ?b1), snd (acknowledge ''m0'' ?b1))" by simp
  from acknowledge_marks [OF this]
  have "total_acked (b_metrics (snd (acknowledge ''m0'' ?b1))) = Suc (total_acked (b_metrics ?b1))" by simp
  moreover have "fst (acknowledge ''m0'' ?b)" "\<not> fst (acknowledge ''m0'' ?b1)" "total_acked (b_metrics ?b1) = 1"
    by code_simp+
  ultimately show ?thesis by (simp add: Let_def)
qed

end
