(* ===== verification/Broker_Refinement.thy ===== *)
theory Broker_Refinement
  imports Broker_Laws
begin

text \<open>
  The mailbox of one agent as its client sees it: a bounded first-in first-out queue of
  messages. The broker, with its envelopes, logs, metrics and retries, implements it.
\<close>

section \<open>The abstract mailbox\<close>

definition fifo_put :: "int \<Rightarrow> 'm \<Rightarrow> 'm list \<Rightarrow> 'm list" where
  "fifo_put cap m q = (if 0 < cap \<and> cap \<le> int (length q) then q else q @ [m])"

fun fifo_get :: "'m list \<Rightarrow> 'm option \<times> 'm list" where
  "fifo_get [] = (None, [])"
| "fifo_get (m # q) = (Some m, q)"

definition waiting :: "broker \<Rightarrow> string \<Rightarrow> agent_message list option" where
  "waiting b x = map_option (map (msg_at b)) (bq b x)"

section \<open>The simulation\<close>

lemma enqueue_full:
  assumes "bq b x = Some q" "q_full (b_max_queue b) q"
  shows "bq (enqueue id x a b) = bq b"
proof -
  let ?b2 = "upd_envelope a (\<lambda>e. e\<lparr>e_delivered_at := Some (fst (read_clock b))\<rparr>) (snd (read_clock b))"
  have put: "put_nowait x a b' = Inl QueueFull" if "bq b' = bq b" "b_max_queue b' = b_max_queue b" for b'
    using assms that by (intro put_nowait_full [of _ _ q]) simp_all
  have b2: "bq ?b2 = bq b" "b_max_queue ?b2 = b_max_queue b" by (simp_all add: bq_def fun_eq_iff)
  have "enqueue id x a b = enqueue_retry id x a ?b2"
    using assms(1) put [OF b2] by (simp add: enqueue_def bq_def case_prod_unfold Let_def)
  moreover have "put_nowait x a (upd_envelope a g ?b2) = Inl QueueFull" for g
    by (rule put) (simp_all add: bq_def fun_eq_iff)
  ultimately show ?thesis by (simp add: enqueue_retry_def Let_def bq_def fun_eq_iff)
qed

lemma direct_publish_queue:
  assumes "h_receiver (m_header m) = x" "x \<noteq> ''ALL''" "bq b x = Some q"
  shows "bq (snd (publish id m topic b))
       = (if q_full (b_max_queue b) q then bq b else (bq b)(x \<mapsto> q @ [length (b_store b)]))"
    and "msg_at (snd (publish id m topic b)) (length (b_store b)) = m"
    and "c < length (b_store b) \<Longrightarrow> msg_at (snd (publish id m topic b)) c = msg_at b c"
proof -
  obtain a t b1 where po: "publish_open m topic b = (a, t, b1)" by (rule prod_cases3)
  note f = publish_open_facts [OF po]
  have bq1: "bq b1 = bq b" by (simp add: bq_def f fun_eq_iff)
  have "x \<in> set (map fst (b_queues b1))"
    using assms(3) bq1 by (metis bq_def map_of_eq_None_notin option.simps(3))
  then have b': "snd (publish id m topic b) = notify a (enqueue id x a b1)"
    using assms(1,2) by (simp add: publish_def po route_envelope_def Let_def)
  have n: "bq (notify e b2) = bq b2" "msg_at (notify e b2) = msg_at b2" for e b2
    by (simp_all add: bq_def msg_at_def fun_eq_iff)
  have "bq (enqueue id x a b1) = (if q_full (b_max_queue b) q then bq b else (bq b)(x \<mapsto> q @ [length (b_store b)]))"
    using enqueue_full [of b1 x q a] enqueue_room(1) [of b1 x q id a] assms(3) f(1,4) bq1 by simp
  then show "bq (snd (publish id m topic b))
       = (if q_full (b_max_queue b) q then bq b else (bq b)(x \<mapsto> q @ [length (b_store b)]))"
    by (simp add: b' n)
  show "msg_at (snd (publish id m topic b)) (length (b_store b)) = m"
    using enqueue_id_frame [of x a b1] f(1,9) by (simp add: b' n)
  assume "c < length (b_store b)"
  then have "msg_at b1 c = msg_at b c"
    using po by (auto simp: publish_open_def Let_def case_prod_unfold msg_at_def nth_append)
  then show "msg_at (snd (publish id m topic b)) c = msg_at b c"
    using enqueue_id_frame [of x a b1] by (simp add: b' n)
qed

lemma old_messages:
  assumes "broker_wf b" "h_receiver (m_header m) = x" "x \<noteq> ''ALL''" "bq b x = Some q" "bq b y = Some q'"
  shows "map (msg_at (snd (publish id m topic b))) q' = map (msg_at b) q'"
proof -
  have "\<forall>c\<in>set q'. c < length (b_store b)" using assms(1,5) by (auto simp: broker_wf_def queue_ok_def)
  then show ?thesis using direct_publish_queue(3) [OF assms(2-4)] by auto
qed

lemma publish_simulates:
  assumes "broker_wf b" "h_receiver (m_header m) = x" "x \<noteq> ''ALL''" "waiting b x = Some ms"
  shows "waiting (snd (publish id m topic b)) = (waiting b)(x \<mapsto> fifo_put (b_max_queue b) m ms)"
proof
  fix y
  obtain q where q: "bq b x = Some q" "ms = map (msg_at b) q" using assms(4) by (auto simp: waiting_def)
  note d = direct_publish_queue [OF assms(2,3) q(1), where topic = topic] and o = old_messages [OF assms(1-3) q(1), where topic = topic]
  show "waiting (snd (publish id m topic b)) y = ((waiting b)(x \<mapsto> fifo_put (b_max_queue b) m ms)) y"
  proof (cases "y = x")
    case True
    then show ?thesis using d(1,2) o [of x q] q by (simp add: waiting_def fifo_put_def q_full_def)
  next
    case False
    then have "bq (snd (publish id m topic b)) y = bq b y" by (simp add: d(1))
    then show ?thesis using False o [of y] q(1) by (cases "bq b y") (simp_all add: waiting_def)
  qed
qed

lemma waiting_set_queue: "waiting (set_queue x q b) = (waiting b)(x \<mapsto> map (msg_at b) q)"
proof -
  have m: "msg_at (set_queue x q b) = msg_at b" by (simp add: msg_at_def fun_eq_iff)
  show ?thesis unfolding waiting_def bq_def m by (rule ext) (simp add: update_conv')
qed

lemma consume_simulates:
  assumes "waiting b x = Some ms"
  shows "map_option (msg_at b) (fst (consume x b)) = fst (fifo_get ms)
     \<and> waiting (snd (consume x b)) = (waiting b)(x \<mapsto> snd (fifo_get ms))"
proof -
  obtain q where q: "map_of (b_queues b) x = Some q" "ms = map (msg_at b) q"
    using assms by (auto simp: waiting_def bq_def)
  show ?thesis
  proof (cases q)
    case Nil
    have "(waiting b)(x \<mapsto> []) = waiting b" using assms q Nil by (auto simp: fun_eq_iff)
    then show ?thesis using q Nil by (simp add: consume_def q_get_nowait_def)
  next
    case (Cons a r)
    then show ?thesis using q by (simp add: consume_def q_get_nowait_def waiting_set_queue)
  qed
qed

lemma consume_all_simulates:
  assumes "waiting b x = Some ms"
  shows "map (msg_at b) (fst (consume_all x b)) = ms \<and> waiting (snd (consume_all x b)) = (waiting b)(x \<mapsto> [])"
proof -
  obtain q where q: "map_of (b_queues b) x = Some q" "ms = map (msg_at b) q"
    using assms by (auto simp: waiting_def bq_def)
  then show ?thesis by (simp add: consume_all_def drain_queue_all waiting_set_queue)
qed

text \<open>
  C3 (\<open>broker_refines_mailbox\<close>): to the agents the broker is one bounded first-in first-out
  mailbox each. In every reachable broker, publishing to one registered agent is exactly
  one \<open>fifo_put\<close> on the receiver's mailbox (a put on a full one is lost) and touches no
  other; \<open>consume\<close> is exactly one \<open>fifo_get\<close>; \<open>consume_all\<close> returns the mailbox and
  empties it. Envelopes, logs, metrics, callbacks and the retry are invisible.
\<close>

theorem broker_refines_mailbox:
  assumes "broker_reachable b" "h_receiver (m_header m) = x" "x \<noteq> ''ALL''" "waiting b x = Some ms"
  shows "waiting (snd (publish id m topic b)) = (waiting b)(x \<mapsto> fifo_put (b_max_queue b) m ms)
     \<and> map_option (msg_at b) (fst (consume x b)) = fst (fifo_get ms)
     \<and> waiting (snd (consume x b)) = (waiting b)(x \<mapsto> snd (fifo_get ms))
     \<and> map (msg_at b) (fst (consume_all x b)) = ms
     \<and> waiting (snd (consume_all x b)) = (waiting b)(x \<mapsto> [])"
  using publish_simulates [OF broker_reachable_imp_wf [OF assms(1)] assms(2-4)]
    consume_simulates [OF assms(4)] consume_all_simulates [OF assms(4)] by blast

theorem broker_refines_mailbox_witness:
  "let b = register ''EA'' [] [] (new_broker 1 of_nat)
   in waiting (snd (publish id (demo_msg ''QA'' ''EA'') None b)) ''EA'' = Some [demo_msg ''QA'' ''EA'']"
proof -
  let ?b = "register ''EA'' [] [] (new_broker 1 of_nat)"
  have r: "broker_reachable ?b" by (rule reach_step [OF reach_init step_register])
  have h: "h_receiver (m_header (demo_msg ''QA'' ''EA'')) = ''EA''" "b_max_queue ?b = 1" by code_simp+
  have q: "bq ?b ''EA'' = Some []" by code_simp
  then have "waiting ?b ''EA'' = Some []" by (simp add: waiting_def)
  from broker_refines_mailbox [OF r h(1) _ this, of None] show ?thesis by (simp add: fifo_put_def h(2) Let_def)
qed

end
