(* ===== verification/Machines.thy ===== *)
theory Machines
  imports Bounded_Log
begin

text \<open>
  \<open>mas/domain/machines.py\<close>: tools, sensors and work centers. \<open>float("inf")\<close> thresholds and
  an infinite MTBF are \<open>None\<close>; the time stamp of a reading, which nothing reads, is left
  out. \<open>max_life\<close> of a tool is positive in every tool the program builds (\<open>tool_wf\<close>), so
  the divisions by it do not raise. Each \<open>random.gauss\<close> call is one \<open>rand_gauss\<close>, in the
  order of the source.
\<close>

section \<open>States\<close>

datatype machine_state = RUNNING | IDLE | SETUP | BREAKDOWN | MAINTENANCE | WARMUP

fun machine_state_value :: "machine_state \<Rightarrow> string" where
  "machine_state_value RUNNING = (utf8 [0xAC00, 0xB3D9])"
| "machine_state_value IDLE = (utf8 [0xB300, 0xAE30])"
| "machine_state_value SETUP = (utf8 [0xC14B, 0xC5C5])"
| "machine_state_value BREAKDOWN = (utf8 [0xACE0, 0xC7A5])"
| "machine_state_value MAINTENANCE = (utf8 [0xC815, 0xBE44])"
| "machine_state_value WARMUP = (utf8 [0xC6CC, 0xBC0D, 0xC5C5])"

datatype reading_status = R_NORMAL | R_WARNING | R_CRITICAL

record sensor_reading =
  r_name :: string
  r_value :: real
  r_unit :: string
  r_status :: reading_status

section \<open>Tool wear\<close>

datatype wear_region = EARLY_STABLE | LINEAR_WEAR | RAPID_WEAR

fun wear_region_value :: "wear_region \<Rightarrow> string" where
  "wear_region_value EARLY_STABLE = (utf8 [0xCD08, 0xAE30, 0xC548, 0xC815])"
| "wear_region_value LINEAR_WEAR = (utf8 [0xC120, 0xD615, 0xB9C8, 0xBAA8])"
| "wear_region_value RAPID_WEAR = (utf8 [0xAE09, 0xACA9, 0xB9C8, 0xBAA8])"

record tool_wear =
  t_current_life :: int
  t_max_life :: int
  t_wear_rate :: real
  t_region :: wear_region

definition new_tool :: "int \<Rightarrow> tool_wear" where
  "new_tool ml = \<lparr> t_current_life = 0, t_max_life = ml, t_wear_rate = 0, t_region = EARLY_STABLE \<rparr>"

definition tool_advance :: "int \<Rightarrow> tool_wear \<Rightarrow> rng \<Rightarrow> tool_wear \<times> rng" where
  "tool_advance cycles t r =
     (let life = t_current_life t + cycles;
          ratio = of_int life / of_int (t_max_life t)
      in let (rate, region, r') =
           (if ratio < 3 / 10 then
              (let (g, r1) = rand_gauss 0 (2 / 100) r in (2 / 10 + g, EARLY_STABLE, r1))
            else if ratio < 8 / 10 then
              (let (g, r1) = rand_gauss 0 (3 / 100) r
               in (5 / 10 + 3 / 10 * (ratio - 3 / 10) / (5 / 10) + g, LINEAR_WEAR, r1))
            else
              (let (g, r1) = rand_gauss 0 (5 / 100) r
               in (8 / 10 + 15 / 10 * (ratio - 8 / 10) / (2 / 10) + g, RAPID_WEAR, r1)))
      in (t\<lparr> t_current_life := life, t_wear_rate := max 0 (min rate (5 / 2)), t_region := region \<rparr>, r'))"

definition tool_remaining_pct :: "tool_wear \<Rightarrow> real" where
  "tool_remaining_pct t = max 0 (1 - of_int (t_current_life t) / of_int (t_max_life t)) * 100"

definition tool_needs_change :: "tool_wear \<Rightarrow> bool" where
  "tool_needs_change t \<longleftrightarrow> of_int (t_current_life t) \<ge> (of_int (t_max_life t) * (9 / 10) :: real)"

definition tool_reset :: "tool_wear \<Rightarrow> tool_wear" where
  "tool_reset t = t\<lparr> t_current_life := 0, t_wear_rate := 0, t_region := EARLY_STABLE \<rparr>"

section \<open>Sensors\<close>

record sensor =
  s_name :: string
  s_baseline :: real
  s_noise_std :: real
  s_unit :: string
  s_warn :: "real option"
  s_crit :: "real option"
  s_autocorr :: real
  s_drift_per_cycle :: real
  s_value :: real
  s_drift :: real
  s_warmup :: real
  s_history :: "real list"

definition new_sensor ::
  "string \<Rightarrow> real \<Rightarrow> real \<Rightarrow> string \<Rightarrow> real option \<Rightarrow> real option \<Rightarrow> real \<Rightarrow> real \<Rightarrow> sensor" where
  "new_sensor name baseline noise unit warn crit autocorr dpc =
     \<lparr> s_name = name, s_baseline = baseline, s_noise_std = noise, s_unit = unit, s_warn = warn,
       s_crit = crit, s_autocorr = autocorr, s_drift_per_cycle = dpc, s_value = baseline,
       s_drift = 0, s_warmup = 1, s_history = [] \<rparr>"

definition push_history :: "real \<Rightarrow> real list \<Rightarrow> real list" where
  "push_history = push_trim 100 100"

text \<open>\<open>abs(v) >= threshold\<close>, with an infinite threshold never reached.\<close>

definition reaches :: "real \<Rightarrow> real option \<Rightarrow> bool" where
  "reaches v th \<longleftrightarrow> (case th of None \<Rightarrow> False | Some x \<Rightarrow> x \<le> \<bar>v\<bar>)"

definition sensor_status :: "sensor \<Rightarrow> reading_status" where
  "sensor_status s =
     (if reaches (s_value s) (s_crit s) then R_CRITICAL
      else if reaches (s_value s) (s_warn s) then R_WARNING
      else R_NORMAL)"

definition sensor_read ::
  "real \<Rightarrow> real \<Rightarrow> real \<Rightarrow> bool \<Rightarrow> sensor \<Rightarrow> rng \<Rightarrow> sensor_reading \<times> sensor \<times> rng" where
  "sensor_read wear shift_factor ambient is_warmup s r =
     (let drift = s_drift s + s_drift_per_cycle s;
          wf = (if is_warmup then max (7 / 10) (s_warmup s - 5 / 100)
                else min 1 (s_warmup s + 2 / 100));
          ambient_effect = (ambient - 22) * (1 / 100);
          wear_effect = wear * (3 / 10);
          shift_noise = (shift_factor - 1) * s_noise_std s * (5 / 10);
          (innovation, r') = rand_gauss 0 (s_noise_std s * wf) r;
          target = s_baseline s + drift + ambient_effect + wear_effect + shift_noise + innovation;
          v = s_autocorr s * s_value s + (1 - s_autocorr s) * target;
          s' = s\<lparr> s_drift := drift, s_warmup := wf, s_value := v,
                  s_history := push_history v (s_history s) \<rparr>
      in (\<lparr> r_name = s_name s, r_value = py_round 3 v, r_unit = s_unit s, r_status = sensor_status s' \<rparr>,
          s', r'))"

definition sensor_ma :: "sensor \<Rightarrow> real" where
  "sensor_ma s = (if s_history s = [] then s_baseline s else list_avg (last_n 10 (s_history s)))"

text \<open>The least-squares slope of the last ten values.\<close>

definition sensor_slope :: "sensor \<Rightarrow> real" where
  "sensor_slope s =
     (if length (s_history s) < 5 then 0
      else (let recent = last_n 10 (s_history s);
                n = length recent;
                x_mean = (of_nat n - 1) / 2;
                y_mean = list_avg recent;
                num = (\<Sum>(i, y)\<leftarrow>enumerate 0 recent. (of_nat i - x_mean) * (y - y_mean));
                den = (\<Sum>i\<leftarrow>[0..<n]. (of_nat i - x_mean) ^ 2)
            in if den > 0 then num / den else 0))"

definition sensor_std :: "sensor \<Rightarrow> real" where
  "sensor_std s =
     (if length (s_history s) < 3 then 0
      else (let recent = last_n 20 (s_history s); m = list_avg recent
            in sqrt (list_avg (map (\<lambda>v. (v - m) ^ 2) recent))))"

definition inject_shock :: "real \<Rightarrow> sensor \<Rightarrow> sensor" where
  "inject_shock magnitude s = s\<lparr>s_drift := s_drift s + magnitude\<rparr>"

definition recover :: "real \<Rightarrow> sensor \<Rightarrow> sensor" where
  "recover amount s = s\<lparr>s_drift := max 0 (s_drift s - amount)\<rparr>"

definition reset_drift :: "sensor \<Rightarrow> sensor" where
  "reset_drift s = s\<lparr>s_drift := 0\<rparr>"

section \<open>Work centers\<close>

record work_center =
  wc_id :: string
  wc_name :: string
  wc_type :: string
  wc_cycle_time :: real
  wc_design_cycle_time :: real
  wc_sensors :: "(string \<times> sensor) list"
  wc_tool :: tool_wear
  wc_state :: machine_state
  wc_total_cycles :: nat
  wc_good :: nat
  wc_defect :: nat
  wc_planned_time :: real
  wc_run_time :: real
  wc_downtime :: real
  wc_setup_time :: real
  wc_idle_time :: real
  wc_failures :: nat
  wc_total_repair :: real
  wc_last_failure_cycle :: nat
  wc_uptime_since_repair :: nat
  wc_power_kw :: real
  wc_energy_kwh :: real
  wc_speed_pct :: int

definition new_work_center ::
  "string \<Rightarrow> string \<Rightarrow> string \<Rightarrow> real \<Rightarrow> (string \<times> sensor) list \<Rightarrow> tool_wear \<Rightarrow> work_center" where
  "new_work_center sid name ty ct sensors tool =
     \<lparr> wc_id = sid, wc_name = name, wc_type = ty, wc_cycle_time = ct, wc_design_cycle_time = ct,
       wc_sensors = sensors, wc_tool = tool, wc_state = IDLE, wc_total_cycles = 0, wc_good = 0,
       wc_defect = 0, wc_planned_time = 0, wc_run_time = 0, wc_downtime = 0, wc_setup_time = 0,
       wc_idle_time = 0, wc_failures = 0, wc_total_repair = 0, wc_last_failure_cycle = 0,
       wc_uptime_since_repair = 0, wc_power_kw = 0, wc_energy_kwh = 0, wc_speed_pct = 100 \<rparr>"

fun read_sensors ::
  "real \<Rightarrow> real \<Rightarrow> real \<Rightarrow> bool \<Rightarrow> (string \<times> sensor) list \<Rightarrow> rng
   \<Rightarrow> (string \<times> sensor_reading) list \<times> (string \<times> sensor) list \<times> rng" where
  "read_sensors wear sf amb wu [] r = ([], [], r)"
| "read_sensors wear sf amb wu ((name, s) # ss) r =
     (let (rd, s', r1) = sensor_read wear sf amb wu s r;
          (rds, ss', r2) = read_sensors wear sf amb wu ss r1
      in ((name, rd) # rds, (name, s') # ss', r2))"

definition power_base :: "string \<Rightarrow> real" where
  "power_base ty = (case map_of [(''PRESS'', 45), (''WELD'', 35), (''HEAT'', 80), (''CNC'', 25), (''ASSY'', 12)] ty of
      Some b \<Rightarrow> b | None \<Rightarrow> 20)"

definition calc_power :: "real \<Rightarrow> work_center \<Rightarrow> rng \<Rightarrow> real \<times> rng" where
  "calc_power wear w r =
     (let base = power_base (wc_type w);
          speed_factor = of_int (wc_speed_pct w) / 100;
          (g, r') = rand_gauss 0 (base * (2 / 100)) r
      in (base * speed_factor * (1 + wear * (1 / 10)) + g, r'))"

text \<open>\<open>execute_cycle\<close>: a stopped center (breakdown, maintenance, setup) reads nothing.\<close>

definition execute_cycle ::
  "real \<Rightarrow> real \<Rightarrow> work_center \<Rightarrow> rng \<Rightarrow> (string \<times> sensor_reading) list \<times> work_center \<times> rng" where
  "execute_cycle shift_factor ambient w r =
     (if wc_state w \<in> {BREAKDOWN, MAINTENANCE, SETUP} then ([], w, r)
      else
        (let is_warmup = (wc_state w = WARMUP);
             (tool, r1) = tool_advance 1 (wc_tool w) r;
             wear = t_wear_rate tool;
             (readings, sensors, r2) = read_sensors wear shift_factor ambient is_warmup (wc_sensors w) r1;
             actual_ct = wc_cycle_time w * (100 / of_int (max 40 (wc_speed_pct w)));
             w1 = w\<lparr> wc_state := RUNNING, wc_tool := tool, wc_sensors := sensors,
                     wc_run_time := wc_run_time w + actual_ct,
                     wc_planned_time := wc_planned_time w + wc_design_cycle_time w,
                     wc_total_cycles := Suc (wc_total_cycles w),
                     wc_uptime_since_repair := Suc (wc_uptime_since_repair w) \<rparr>;
             (p, r3) = calc_power wear w1 r2
         in (readings,
             w1\<lparr> wc_power_kw := p, wc_energy_kwh := wc_energy_kwh w1 + p * (actual_ct / 3600) \<rparr>,
             r3)))"

definition record_quality :: "bool \<Rightarrow> work_center \<Rightarrow> work_center" where
  "record_quality is_good w =
     (if is_good then w\<lparr>wc_good := Suc (wc_good w)\<rparr> else w\<lparr>wc_defect := Suc (wc_defect w)\<rparr>)"

definition trigger_breakdown :: "real \<Rightarrow> work_center \<Rightarrow> work_center" where
  "trigger_breakdown repair_time w =
     w\<lparr> wc_state := BREAKDOWN, wc_failures := Suc (wc_failures w),
        wc_total_repair := wc_total_repair w + repair_time,
        wc_downtime := wc_downtime w + repair_time,
        wc_last_failure_cycle := wc_total_cycles w, wc_uptime_since_repair := 0 \<rparr>"

definition complete_repair :: "work_center \<Rightarrow> work_center" where
  "complete_repair w = w\<lparr>wc_state := WARMUP\<rparr>"

definition start_setup :: "real \<Rightarrow> work_center \<Rightarrow> work_center" where
  "start_setup duration w = w\<lparr> wc_state := SETUP, wc_setup_time := wc_setup_time w + duration \<rparr>"

definition complete_setup :: "work_center \<Rightarrow> work_center" where
  "complete_setup w = w\<lparr> wc_state := WARMUP, wc_tool := tool_reset (wc_tool w) \<rparr>"

definition set_speed :: "int \<Rightarrow> work_center \<Rightarrow> work_center" where
  "set_speed pct w = w\<lparr>wc_speed_pct := max 40 (min 110 pct)\<rparr>"

record oee_figures =
  o_availability :: real
  o_performance :: real
  o_quality :: real
  o_oee :: real

definition wc_availability :: "work_center \<Rightarrow> real" where
  "wc_availability w = (if wc_planned_time w > 0 then wc_run_time w / wc_planned_time w else 1)"

definition wc_performance :: "work_center \<Rightarrow> real" where
  "wc_performance w =
     (if wc_run_time w > 0 then of_nat (wc_total_cycles w) * wc_design_cycle_time w / wc_run_time w else 1)"

definition wc_quality :: "work_center \<Rightarrow> real" where
  "wc_quality w = (if wc_total_cycles w > 0 then of_nat (wc_good w) / of_nat (wc_total_cycles w) else 1)"

definition wc_oee :: "work_center \<Rightarrow> oee_figures" where
  "wc_oee w =
     \<lparr> o_availability = py_round 4 (min 1 (wc_availability w)),
       o_performance = py_round 4 (min 1 (wc_performance w)),
       o_quality = py_round 4 (min 1 (wc_quality w)),
       o_oee = py_round 4 (min 1 (wc_availability w * wc_performance w * wc_quality w)) \<rparr>"

definition wc_mtbf :: "work_center \<Rightarrow> real option" where
  "wc_mtbf w = (if wc_failures w = 0 then None else Some (wc_run_time w / of_nat (wc_failures w)))"

definition wc_mttr :: "work_center \<Rightarrow> real" where
  "wc_mttr w = (if wc_failures w = 0 then 0 else wc_total_repair w / of_nat (wc_failures w))"

definition wc_yield_rate :: "work_center \<Rightarrow> real" where
  "wc_yield_rate w = (let total = wc_good w + wc_defect w
     in if total > 0 then of_nat (wc_good w) / of_nat total else 1)"

definition oee_to_dict :: "oee_figures \<Rightarrow> dict" where
  "oee_to_dict o' =
     [(''availability'', PFloat (o_availability o')), (''performance'', PFloat (o_performance o')),
      (''quality'', PFloat (o_quality o')), (''oee'', PFloat (o_oee o'))]"

definition wc_get_status :: "work_center \<Rightarrow> dict" where
  "wc_get_status w =
     [(''station_id'', PStr (wc_id w)), (''name'', PStr (wc_name w)), (''type'', PStr (wc_type w)),
      (''state'', PStr (machine_state_value (wc_state w))),
      (''speed_pct'', PInt (wc_speed_pct w)),
      (''total_cycles'', PInt (int (wc_total_cycles w))),
      (''tool_life_pct'', PFloat (py_round 1 (tool_remaining_pct (wc_tool w)))),
      (''tool_region'', PStr (wear_region_value (t_region (wc_tool w)))),
      (''oee'', PDict (oee_to_dict (wc_oee w))),
      (''mtbf'', (case wc_mtbf w of None \<Rightarrow> PNone | Some m \<Rightarrow> PFloat (py_round 1 m))),
      (''mttr'', PFloat (py_round 1 (wc_mttr w))),
      (''yield'', PFloat (py_round 4 (wc_yield_rate w))),
      (''power_kw'', PFloat (py_round 1 (wc_power_kw w))),
      (''energy_kwh'', PFloat (py_round 2 (wc_energy_kwh w)))]"

section \<open>The production line\<close>

definition create_blanking_press :: "string \<Rightarrow> work_center" where
  "create_blanking_press station_id =
     new_work_center station_id (utf8 [0xBE14, 0xB7AD, 0xD0B9, 0x20, 0xD504, 0xB808, 0xC2A4]) ''PRESS'' (9 / 2)
       [(''vibration'', new_sensor (utf8 [0xC9C4, 0xB3D9]) (21 / 10) (1 / 4) ''mm/s'' (Some (19 / 5)) (Some 5) (22 / 25) (3 / 1000)),
        (''tonnage'', new_sensor (utf8 [0xD504, 0xB808, 0xC2A4, 0xC555]) 150 3 ''ton'' (Some 170) (Some 180) (9 / 10) 0),
        (''oil_temp'', new_sensor (utf8 [0xC720, 0xC555, 0xC720, 0xC628]) 42 (6 / 5) (utf8 [0xB0, 0x43]) (Some 55) (Some 65) (23 / 25) 0),
        (''die_clearance'', new_sensor (utf8 [0xAE08, 0xD615, 0xAC04, 0xADF9]) (3 / 20) (1 / 125) ''mm'' (Some (11 / 50)) (Some (7 / 25)) (17 / 20) (1 / 5000)),
        (''noise_db'', new_sensor (utf8 [0xC18C, 0xC74C]) 85 2 ''dB'' (Some 95) (Some 105) (4 / 5) 0)]
       (new_tool 8000)"

definition create_forming_press :: "string \<Rightarrow> work_center" where
  "create_forming_press station_id =
     new_work_center station_id (utf8 [0xD3EC, 0xBC0D, 0x20, 0xD504, 0xB808, 0xC2A4]) ''PRESS'' 5
       [(''vibration'', new_sensor (utf8 [0xC9C4, 0xB3D9]) (9 / 5) (1 / 5) ''mm/s'' (Some (7 / 2)) (Some (24 / 5)) (87 / 100) (1 / 500)),
        (''tonnage'', new_sensor (utf8 [0xD504, 0xB808, 0xC2A4, 0xC555]) 120 (5 / 2) ''ton'' (Some 140) (Some 155) (91 / 100) 0),
        (''springback'', new_sensor (utf8 [0xC2A4, 0xD504, 0xB9C1, 0xBC31]) (4 / 5) (3 / 50) ''mm'' (Some (6 / 5)) (Some (3 / 2)) (83 / 100) (3 / 10000)),
        (''oil_temp'', new_sensor (utf8 [0xC720, 0xC555, 0xC720, 0xC628]) 40 1 (utf8 [0xB0, 0x43]) (Some 52) (Some 62) (23 / 25) 0),
        (''stroke_position'', new_sensor (utf8 [0xC2A4, 0xD2B8, 0xB85C, 0xD06C, 0xC704, 0xCE58]) 180 (3 / 10) ''mm'' (Some 182) (Some 184) (19 / 20) 0)]
       (new_tool 6000)"

definition create_spot_welder :: "string \<Rightarrow> work_center" where
  "create_spot_welder station_id =
     new_work_center station_id (utf8 [0xC2A4, 0xD31F, 0x20, 0xC6A9, 0xC811]) ''WELD'' 6
       [(''weld_current'', new_sensor (utf8 [0xC6A9, 0xC811, 0xC804, 0xB958]) 8500 120 ''A'' (Some 9200) (Some 9800) (43 / 50) 0),
        (''weld_force'', new_sensor (utf8 [0xAC00, 0xC555, 0xB825]) (16 / 5) (2 / 25) ''kN'' (Some (19 / 5)) (Some (21 / 5)) (22 / 25) 0),
        (''nugget_dia'', new_sensor (utf8 [0xB108, 0xAC9F, 0xC9C1, 0xACBD]) (11 / 2) (3 / 20) ''mm'' (Some (9 / 2)) (Some 4) (41 / 50) (- (1 / 1000))),
        (''electrode_tip'', new_sensor (utf8 [0xC804, 0xADF9, 0xD301, 0xB9C8, 0xBAA8]) 0 (1 / 50) ''mm'' (Some (4 / 5)) (Some (6 / 5)) (9 / 10) (1 / 200)),
        (''spatter_rate'', new_sensor (utf8 [0xC2A4, 0xD328, 0xD130, 0xC728]) 2 (4 / 5) ''%'' (Some 5) (Some 8) (3 / 4) 0)]
       (new_tool 3000)"

definition create_heat_treatment :: "string \<Rightarrow> work_center" where
  "create_heat_treatment station_id =
     new_work_center station_id (utf8 [0xC5F4, 0xCC98, 0xB9AC]) ''HEAT'' 15
       [(''furnace_temp'', new_sensor (utf8 [0xB178, 0xB0B4, 0xC628, 0xB3C4]) 850 5 (utf8 [0xB0, 0x43]) (Some 880) (Some 900) (19 / 20) (1 / 100)),
        (''quench_temp'', new_sensor (utf8 [0xB0C9, 0xAC01, 0xC218, 0xC628]) 35 (3 / 2) (utf8 [0xB0, 0x43]) (Some 45) (Some 55) (93 / 100) 0),
        (''hardness'', new_sensor (utf8 [0xACBD, 0xB3C4, 0x28, 0x48, 0x52, 0x43, 0x29]) 58 (4 / 5) ''HRC'' (Some 54) (Some 50) (22 / 25) 0),
        (''atmosphere'', new_sensor (utf8 [0xBD84, 0xC704, 0xAE30, 0xAC00, 0xC2A4]) (3 / 10) (1 / 20) ''%C'' (Some (1 / 2)) (Some (7 / 10)) (9 / 10) 0),
        (''energy_rate'', new_sensor (utf8 [0xC5D0, 0xB108, 0xC9C0, 0xC18C, 0xBE44]) 75 3 ''kW'' (Some 90) (Some 100) (17 / 20) 0)]
       (new_tool 15000)"

definition create_cnc_machine :: "string \<Rightarrow> work_center" where
  "create_cnc_machine station_id =
     new_work_center station_id (utf8 [0x43, 0x4E, 0x43, 0x20, 0xAC00, 0xACF5]) ''CNC'' 8
       [(''spindle_vib'', new_sensor (utf8 [0xC2A4, 0xD540, 0xB4E4, 0xC9C4, 0xB3D9]) (1 / 2) (2 / 25) ''mm/s'' (Some (6 / 5)) (Some 2) (43 / 50) (1 / 1000)),
        (''spindle_load'', new_sensor (utf8 [0xC2A4, 0xD540, 0xB4E4, 0xBD80, 0xD558]) 45 2 ''%'' (Some 75) (Some 90) (22 / 25) 0),
        (''coolant_temp'', new_sensor (utf8 [0xC808, 0xC0AD, 0xC720, 0xC628]) 24 (4 / 5) (utf8 [0xB0, 0x43]) (Some 30) (Some 35) (91 / 100) 0),
        (''surface_ra'', new_sensor (utf8 [0xD45C, 0xBA74, 0xAC70, 0xCE60, 0xAE30]) (8 / 5) (3 / 25) (utf8 [0x3BC, 0x6D]) (Some (5 / 2)) (Some (16 / 5)) (21 / 25) (1 / 500)),
        (''dimension_dev'', new_sensor (utf8 [0xCE58, 0xC218, 0xD3B8, 0xCC28]) 0 (1 / 200) ''mm'' (Some (3 / 100)) (Some (1 / 20)) (87 / 100) (1 / 10000))]
       (new_tool 2000)"

definition create_assembly_station :: "string \<Rightarrow> work_center" where
  "create_assembly_station station_id =
     new_work_center station_id (utf8 [0xC870, 0xB9BD, 0x2F, 0xAC80, 0xC0AC]) ''ASSY'' 10
       [(''torque'', new_sensor (utf8 [0xCCB4, 0xACB0, 0xD1A0, 0xD06C]) 25 (1 / 2) ''Nm'' (Some 28) (Some 32) (89 / 100) 0),
        (''force'', new_sensor (utf8 [0xC870, 0xB9BD, 0xC555, 0xC785, 0xB825]) (9 / 5) (3 / 50) ''kN'' (Some (11 / 5)) (Some (5 / 2)) (87 / 100) 0),
        (''vision_score'', new_sensor (utf8 [0xBE44, 0xC804, 0xC810, 0xC218]) 95 (3 / 2) (utf8 [0xC810]) (Some 88) (Some 80) (41 / 50) 0),
        (''leak_rate'', new_sensor (utf8 [0xAE30, 0xBC00, 0xAC80, 0xC0AC]) 0 (3 / 1000) ''cc/min'' (Some (1 / 100)) (Some (1 / 50)) (9 / 10) 0),
        (''final_weight'', new_sensor (utf8 [0xC911, 0xB7C9]) 2450 3 ''g'' (Some 2480) (Some 2500) (93 / 100) 0)]
       (new_tool 20000)"

definition create_production_line :: "work_center list" where
  "create_production_line =
     [create_blanking_press ''WC-01'', create_forming_press ''WC-02'', create_spot_welder ''WC-03'',
      create_heat_treatment ''WC-04'', create_cnc_machine ''WC-05'', create_assembly_station ''WC-06'']"

section \<open>The interface it provides\<close>

interpretation history_log: bounded_log push_history 100 100
  unfolding push_history_def by (simp add: bounded_log_push_trim)

end
