(* ===== verification/Plant_Data.thy ===== *)
theory Plant_Data
  imports Bounded_Log
begin

text \<open>
  \<open>mas/domain/business_events.py\<close> (the ring buffer of business events) and
  \<open>mas/domain/plant_data_model.py\<close> (identifiers, tags and quality flags added to sensor
  rows). The event ids (\<open>uuid4\<close>) and wall-clock stamps come from tapes of the store.
\<close>

section \<open>Business events\<close>

datatype business_event_type =
    FACTORY_TICK | WORK_STARTED | WORK_COMPLETE | INSPECTION_VERDICT
  | QUALITY_ESCALATION | STATION_STATE_CHANGE | MATERIAL_EVENT

fun event_type_value :: "business_event_type \<Rightarrow> string" where
  "event_type_value FACTORY_TICK = ''factory_tick''"
| "event_type_value WORK_STARTED = ''work_started''"
| "event_type_value WORK_COMPLETE = ''work_complete''"
| "event_type_value INSPECTION_VERDICT = ''inspection_verdict''"
| "event_type_value QUALITY_ESCALATION = ''quality_escalation''"
| "event_type_value STATION_STATE_CHANGE = ''station_state_change''"
| "event_type_value MATERIAL_EVENT = ''material_event''"

record business_event =
  ev_id :: string
  ev_type :: string
  ev_cycle :: int
  ev_sim_time :: real
  ev_wall_iso :: string
  ev_payload :: dict
  ev_station :: "string option"
  ev_lot :: "string option"
  ev_sku :: "string option"

definition opt_str :: "string option \<Rightarrow> pyval" where
  "opt_str x = (case x of None \<Rightarrow> PNone | Some s \<Rightarrow> PStr s)"

definition event_to_dict :: "business_event \<Rightarrow> dict" where
  "event_to_dict e =
     [(''event_id'', PStr (ev_id e)), (''event_type'', PStr (ev_type e)),
      (''logical_cycle'', PInt (ev_cycle e)), (''sim_time_sec'', PFloat (ev_sim_time e)),
      (''event_time_wall_iso'', PStr (ev_wall_iso e)), (''payload'', PDict (ev_payload e)),
      (''station_id'', opt_str (ev_station e)), (''lot_id'', opt_str (ev_lot e)),
      (''sku'', opt_str (ev_sku e))]"

record event_store =
  es_q :: "business_event list"
  es_maxlen :: nat
  es_uuid :: "nat \<Rightarrow> string"
  es_wall :: "nat \<Rightarrow> string"
  es_count :: nat

definition new_event_store :: "(nat \<Rightarrow> string) \<Rightarrow> (nat \<Rightarrow> string) \<Rightarrow> event_store" where
  "new_event_store uuids walls =
     \<lparr> es_q = [], es_maxlen = 2500, es_uuid = uuids, es_wall = walls, es_count = 0 \<rparr>"

text \<open>\<open>deque(maxlen=n).append\<close>.\<close>

definition deque_append :: "nat \<Rightarrow> 'a \<Rightarrow> 'a list \<Rightarrow> 'a list" where
  "deque_append n = push_trim n n"

definition emit ::
  "business_event_type \<Rightarrow> nat \<Rightarrow> real \<Rightarrow> dict \<Rightarrow> string option \<Rightarrow> string option \<Rightarrow> string option
   \<Rightarrow> event_store \<Rightarrow> event_store" where
  "emit et cyc t payload station lot sku s =
     (let ev = \<lparr> ev_id = es_uuid s (es_count s), ev_type = event_type_value et, ev_cycle = int cyc,
                 ev_sim_time = t, ev_wall_iso = es_wall s (es_count s), ev_payload = payload,
                 ev_station = station, ev_lot = lot, ev_sku = sku \<rparr>
      in s\<lparr> es_q := deque_append (es_maxlen s) ev (es_q s), es_count := Suc (es_count s) \<rparr>)"

definition events_tail :: "nat \<Rightarrow> event_store \<Rightarrow> dict list" where
  "events_tail n s = map event_to_dict (last_n n (es_q s))"

interpretation event_log: bounded_log "deque_append 2500" 2500 2500
  unfolding deque_append_def by (simp add: bounded_log_push_trim)

section \<open>Plant identifiers\<close>

definition PLANT_SCHEMA_VERSION :: string where "PLANT_SCHEMA_VERSION = ''2.0''"
definition DEFAULT_SITE_ID :: string where "DEFAULT_SITE_ID = ''SITE-KR-01''"
definition DEFAULT_PLANT_ID :: string where "DEFAULT_PLANT_ID = ''PLANT-BRAKE-MAIN''"
definition DEFAULT_LINE_ID :: string where "DEFAULT_LINE_ID = ''LINE-BRAKE-01''"
definition DEFAULT_CELL_ID :: string where "DEFAULT_CELL_ID = ''CELL-LINE-01''"

text \<open>The site and line keep their default values in every call of the program.\<close>

definition make_resource_id :: "string \<Rightarrow> string" where
  "make_resource_id station_id = DEFAULT_SITE_ID @ ''/'' @ DEFAULT_LINE_ID @ ''/'' @ station_id"

definition make_sensor_tag_id :: "string \<Rightarrow> string \<Rightarrow> string" where
  "make_sensor_tag_id station_id sensor_name =
     (let safe = map (\<lambda>c. if c = CHR '' '' then CHR ''_'' else c) sensor_name
      in DEFAULT_SITE_ID @ ''/'' @ DEFAULT_LINE_ID @ ''/'' @ station_id @ ''/'' @ safe)"

definition enrich_sensor_row :: "string \<Rightarrow> string \<Rightarrow> dict \<Rightarrow> nat \<Rightarrow> real \<Rightarrow> dict" where
  "enrich_sensor_row station_id sensor_name row cyc t =
     dset ''data_quality'' (PStr ''GOOD'')
       (dset ''observed_at_sim_sec'' (PFloat (py_round 3 t))
         (dset ''sample_seq'' (PInt (int cyc))
           (dset ''tag_id'' (PStr (make_sensor_tag_id station_id sensor_name)) row)))"

definition enrich_station_sensors :: "string \<Rightarrow> dict \<Rightarrow> nat \<Rightarrow> real \<Rightarrow> dict" where
  "enrich_station_sensors station_id sensors cyc t =
     map (\<lambda>(name, row). (name, PDict (enrich_sensor_row station_id name
            (case row of PDict d \<Rightarrow> d | v \<Rightarrow> [(''value'', v)]) cyc t))) sensors"

definition plant_header :: "real \<Rightarrow> nat \<Rightarrow> dict" where
  "plant_header t cyc =
     [(''schema_version'', PStr PLANT_SCHEMA_VERSION), (''site_id'', PStr DEFAULT_SITE_ID),
      (''plant_id'', PStr DEFAULT_PLANT_ID), (''line_id'', PStr DEFAULT_LINE_ID),
      (''cell_id'', PStr DEFAULT_CELL_ID), (''snapshot_kind'', PStr ''simulation''),
      (''sim_time_sec'', PFloat (py_round 3 t)), (''logical_clock_cycle'', PInt (int cyc))]"

end
