(* ===== verification/Factory.thy ===== *)
theory Factory
  imports Machines Plant_Data
begin

text \<open>
  \<open>mas/domain/environment.py\<close>: the factory simulation. The state is one record; the
  global \<open>random\<close> module is the tape \<open>rng\<close> threaded through every operation. The wall
  clock stamps of a product (\<open>start_time\<close>, \<open>end_time\<close>) and of the factory (\<open>start_ts\<close>),
  which nothing reads, are left out.
\<close>

section \<open>Shifts\<close>

datatype shift = DAY_A | DAY_B | NIGHT

fun shift_value :: "shift \<Rightarrow> string" where
  "shift_value DAY_A = (utf8 [0xC8FC, 0xAC04, 0x41])"
| "shift_value DAY_B = (utf8 [0xC8FC, 0xAC04, 0x42])"
| "shift_value NIGHT = (utf8 [0xC57C, 0xAC04])"

definition all_shifts :: "shift list" where
  "all_shifts = [DAY_A, DAY_B, NIGHT]"

record shift_info =
  si_shift :: shift
  si_skill :: real
  si_fatigue :: real
  si_hour :: nat

definition effective_factor :: "shift_info \<Rightarrow> real" where
  "effective_factor si = si_skill si * (1 + si_fatigue si * (of_nat (si_hour si) / 8))"

fun SHIFT_PROFILES :: "shift \<Rightarrow> real \<times> real" where
  "SHIFT_PROFILES DAY_A = (105 / 100, 3 / 100)"
| "SHIFT_PROFILES DAY_B = (95 / 100, 5 / 100)"
| "SHIFT_PROFILES NIGHT = (90 / 100, 8 / 100)"

record shift_manager =
  sm_idx :: nat
  sm_hour :: nat
  sm_cycle_count :: nat
  sm_changes :: nat

definition new_shift_manager :: shift_manager where
  "new_shift_manager = \<lparr> sm_idx = 0, sm_hour = 0, sm_cycle_count = 0, sm_changes = 0 \<rparr>"

definition shift_current :: "shift_manager \<Rightarrow> shift_info" where
  "shift_current m =
     (let s = all_shifts ! sm_idx m; (skill, fatigue) = SHIFT_PROFILES s
      in \<lparr> si_shift = s, si_skill = skill, si_fatigue = fatigue, si_hour = sm_hour m \<rparr>)"

text \<open>\<open>advance(cycles_per_hour=40)\<close>; \<open>int(count / 40)\<close> is the integer quotient.\<close>

definition shift_advance :: "shift_manager \<Rightarrow> shift_manager" where
  "shift_advance m =
     (let c = Suc (sm_cycle_count m); h = c div 40
      in if h \<ge> 8
         then \<lparr> sm_idx = (sm_idx m + 1) mod length all_shifts, sm_hour = 0, sm_cycle_count = 0,
                sm_changes = Suc (sm_changes m) \<rparr>
         else m\<lparr> sm_cycle_count := c, sm_hour := h \<rparr>)"

section \<open>Materials, orders, products, buffers\<close>

record material =
  mt_name :: string
  mt_stock :: int
  mt_safety_stock :: int
  mt_consumption :: real
  mt_lead_time :: real
  mt_unit_cost :: real
  mt_supplier :: string
  mt_on_order :: int

definition days_of_supply :: "material \<Rightarrow> real option" where
  "days_of_supply m = (let daily = mt_consumption m * 400
     in if daily > 0 then Some (of_int (mt_stock m) / daily) else None)"

definition needs_reorder :: "material \<Rightarrow> bool" where
  "needs_reorder m \<longleftrightarrow> of_int (mt_stock m) \<le> (of_int (mt_safety_stock m) * (3 / 2) :: real)"

datatype order_priority = URGENT | NORMAL_PRIO | LOW_PRIO

fun order_priority_value :: "order_priority \<Rightarrow> string" where
  "order_priority_value URGENT = (utf8 [0xAE34, 0xAE09])"
| "order_priority_value NORMAL_PRIO = (utf8 [0xC77C, 0xBC18])"
| "order_priority_value LOW_PRIO = (utf8 [0xC800])"

record customer_order =
  co_id :: string
  co_customer :: string
  co_part :: string
  co_quantity :: int
  co_due_date :: string
  co_priority :: order_priority
  co_delivered :: int

definition co_remaining :: "customer_order \<Rightarrow> int" where
  "co_remaining o' = max 0 (co_quantity o' - co_delivered o')"

definition co_is_complete :: "customer_order \<Rightarrow> bool" where
  "co_is_complete o' \<longleftrightarrow> co_delivered o' \<ge> co_quantity o'"

datatype product_status = IN_PROCESS | GOOD | REWORK | SCRAP | HOLD

fun product_status_value :: "product_status \<Rightarrow> string" where
  "product_status_value IN_PROCESS = (utf8 [0xAC00, 0xACF5, 0xC911])"
| "product_status_value GOOD = (utf8 [0xC591, 0xD488])"
| "product_status_value REWORK = (utf8 [0xC7AC, 0xC791, 0xC5C5])"
| "product_status_value SCRAP = (utf8 [0xD3D0, 0xAE30])"
| "product_status_value HOLD = (utf8 [0xBCF4, 0xB958])"

record product =
  p_serial :: string
  p_lot :: string
  p_current_station :: nat
  p_status :: product_status
  p_measurements :: "(string \<times> (string \<times> real) list) list"
  p_defect_codes :: "string list"

record wip_buffer =
  wb_from :: nat
  wb_to :: nat
  wb_items :: "product list"
  wb_max_capacity :: nat

definition wb_count :: "wip_buffer \<Rightarrow> nat" where
  "wb_count b = length (wb_items b)"

definition wb_utilization :: "wip_buffer \<Rightarrow> real" where
  "wb_utilization b = (if wb_max_capacity b > 0 then of_nat (wb_count b) / of_nat (wb_max_capacity b) else 0)"

definition wb_push :: "product \<Rightarrow> wip_buffer \<Rightarrow> wip_buffer" where
  "wb_push p b = (if wb_count b < wb_max_capacity b then b\<lparr>wb_items := wb_items b @ [p]\<rparr> else b)"

definition wb_pop :: "wip_buffer \<Rightarrow> product option \<times> wip_buffer" where
  "wb_pop b = (case wb_items b of [] \<Rightarrow> (None, b) | p # ps \<Rightarrow> (Some p, b\<lparr>wb_items := ps\<rparr>))"

section \<open>The factory\<close>

record factory =
  f_line :: "work_center list"
  f_wip :: "wip_buffer list"
  f_finished :: "product list"
  f_fg_stock :: int
  f_scrap :: nat
  f_rework :: nat
  f_total_produced :: nat
  f_shift :: shift_manager
  f_materials :: "(string \<times> material) list"
  f_orders :: "customer_order list"
  f_ambient :: real
  f_humidity :: real
  f_cycle :: nat
  f_sim_time :: real
  f_hourly_yield :: "real list"
  f_hourly_oee :: "real list"
  f_hourly_throughput :: "nat list"
  f_current_product :: "product option"
  f_product_counter :: nat
  f_lot_counter :: nat
  f_events :: event_store

definition new_material :: "string \<Rightarrow> int \<Rightarrow> int \<Rightarrow> real \<Rightarrow> real \<Rightarrow> real \<Rightarrow> string \<Rightarrow> material" where
  "new_material name stock safety cons lead cost supplier =
     \<lparr> mt_name = name, mt_stock = stock, mt_safety_stock = safety, mt_consumption = cons,
       mt_lead_time = lead, mt_unit_cost = cost, mt_supplier = supplier, mt_on_order = 0 \<rparr>"

definition initial_materials :: "(string \<times> material) list" where
  "initial_materials =
     [((utf8 [0xAC15, 0xD310]), new_material (utf8 [0x53, 0x50, 0x43, 0x43, 0x20, 0xAC15, 0xD310, 0x20, 0x32, 0x2E, 0x33, 0x74]) 5000 1000 1 3 2500 (utf8 [0xD3EC, 0xC2A4, 0xCF54])),
      ((utf8 [0xC6A9, 0xC811, 0xBD09]), new_material (utf8 [0xC6A9, 0xC811, 0xBD09, 0x20, 0x3A6, 0x31, 0x2E, 0x32]) 8000 2000 4 2 150 (utf8 [0xB300, 0xB3D9, 0xAE08, 0xC18D])),
      ((utf8 [0xBCFC, 0xD2B8]), new_material (utf8 [0x4D, 0x38, 0x20, 0xBCFC, 0xD2B8, 0x20, 0xC138, 0xD2B8]) 12000 3000 6 (3 / 2) 80 (utf8 [0xC0BC, 0xC131, 0xBCFC, 0xD2B8])),
      ((utf8 [0xB3C4, 0xC7A5]), new_material (utf8 [0xC804, 0xCC29, 0x20, 0xB3C4, 0xB8CC, 0x20, 0x31, 0x35, 0x4C]) 200 40 (5 / 100) 5 45000 ''KCC''),
      ((utf8 [0xC808, 0xC0AD, 0xC720]), new_material (utf8 [0xC218, 0xC6A9, 0xC131, 0x20, 0xC808, 0xC0AD, 0xC720]) 500 100 (2 / 100) 4 12000 (utf8 [0xD55C, 0xD654, 0xC194, 0xB8E8, 0xC158]))]"

definition order_customers :: "(string \<times> string) list" where
  "order_customers = [((utf8 [0xD604, 0xB300, 0xC790, 0xB3D9, 0xCC28]), ''HMC''), ((utf8 [0xAE30, 0xC544, 0xC790, 0xB3D9, 0xCC28]), ''KIA''),
     ((utf8 [0x47, 0x4D, 0xCF54, 0xB9AC, 0xC544]), ''GMK''), ((utf8 [0xB974, 0xB178, 0xCF54, 0xB9AC, 0xC544]), ''RNK'')]"

fun init_orders :: "nat \<Rightarrow> (string \<times> string) list \<Rightarrow> rng \<Rightarrow> customer_order list \<times> rng" where
  "init_orders i [] r = ([], r)"
| "init_orders i ((name, code) # cs) r =
     (let (qty, r1) = rand_randint 300 800 r;
          od = \<lparr> co_id = ''PO-'' @ code @ ''-'' @ pad_nat 4 2026 @ ''-'' @ pad_nat 3 (i + 1),
                co_customer = name, co_part = ''BRK-PAD-2026A'', co_quantity = qty,
                co_due_date = ''2026-04-'' @ pad_nat 2 (10 + i * 3),
                co_priority = (if i = 0 then URGENT else NORMAL_PRIO), co_delivered = 0 \<rparr>;
          (os, r2) = init_orders (Suc i) cs r1
      in (od # os, r2))"

definition new_factory :: "(nat \<Rightarrow> string) \<Rightarrow> (nat \<Rightarrow> string) \<Rightarrow> rng \<Rightarrow> factory \<times> rng" where
  "new_factory uuids walls r =
     (let (orders, r1) = init_orders 0 order_customers r;
          (ga, r2) = rand_gauss 0 1 r1;
          (gh, r3) = rand_gauss 0 5 r2
      in (\<lparr> f_line = create_production_line,
            f_wip = map (\<lambda>i. \<lparr> wb_from = i, wb_to = i + 1, wb_items = [], wb_max_capacity = 30 \<rparr>) [0..<5],
            f_finished = [], f_fg_stock = 0, f_scrap = 0, f_rework = 0, f_total_produced = 0,
            f_shift = new_shift_manager, f_materials = initial_materials, f_orders = orders,
            f_ambient = 22 + ga, f_humidity = 55 + gh, f_cycle = 0, f_sim_time = 0,
            f_hourly_yield = [], f_hourly_oee = [], f_hourly_throughput = [],
            f_current_product = None, f_product_counter = 0, f_lot_counter = 1,
            f_events = new_event_store uuids walls \<rparr>, r3))"

definition factory_emit ::
  "business_event_type \<Rightarrow> dict \<Rightarrow> string option \<Rightarrow> string option \<Rightarrow> factory \<Rightarrow> factory" where
  "factory_emit et payload station lot f =
     f\<lparr>f_events := emit et (f_cycle f) (f_sim_time f) payload station lot None (f_events f)\<rparr>"

section \<open>One cycle\<close>

definition update_ambient :: "factory \<Rightarrow> rng \<Rightarrow> factory \<times> rng" where
  "update_ambient f r =
     (let (ga, r1) = rand_gauss 0 (1 / 10) r; (gh, r2) = rand_gauss 0 (5 / 10) r1
      in (f\<lparr> f_ambient := max 15 (min 35 (f_ambient f + ga)),
             f_humidity := max 30 (min 80 (f_humidity f + gh)) \<rparr>, r2))"

definition defect_prob :: "work_center \<Rightarrow> (string \<times> sensor_reading) list \<Rightarrow> real" where
  "defect_prob w readings =
     (let bad = length (filter (\<lambda>(_, rd). r_status rd = R_CRITICAL) readings);
          warn = length (filter (\<lambda>(_, rd). r_status rd = R_WARNING) readings)
      in min (8 / 10) (of_nat bad * (4 / 10) + of_nat warn * (8 / 100)
                       + t_wear_rate (wc_tool w) * (5 / 100)))"

definition judge_quality :: "work_center \<Rightarrow> (string \<times> sensor_reading) list \<Rightarrow> rng \<Rightarrow> bool \<times> rng" where
  "judge_quality w readings r = (let (u, r1) = rand_random r in (u > defect_prob w readings, r1))"

text \<open>The rework-or-scrap decision for a product that failed its inspection.\<close>

definition reject_product :: "work_center \<Rightarrow> product \<Rightarrow> factory \<Rightarrow> rng \<Rightarrow> product \<times> factory \<times> rng" where
  "reject_product w p f r =
     (let (u, r1) = rand_random r;
          (p', f') =
            (if u < 3 / 10
             then (p\<lparr> p_status := REWORK, p_defect_codes := p_defect_codes p @ [wc_id w @ (utf8 [0x5F, 0xC7AC, 0xC791, 0xC5C5])] \<rparr>,
                   f\<lparr>f_rework := Suc (f_rework f)\<rparr>)
             else (p\<lparr> p_status := SCRAP, p_defect_codes := p_defect_codes p @ [wc_id w @ (utf8 [0x5F, 0xD3D0, 0xAE30])] \<rparr>,
                   f\<lparr>f_scrap := Suc (f_scrap f)\<rparr>))
      in (p', factory_emit QUALITY_ESCALATION
                [(''serial'', PStr (p_serial p')), (''status'', PStr (product_status_value (p_status p'))),
                 (''defect_codes'', PList (map PStr (p_defect_codes p')))]
                (Some (wc_id w)) (Some (p_lot p')) f', r1))"

record line_run =
  lr_product :: product
  lr_readings :: "(string \<times> (string \<times> sensor_reading) list) list"
  lr_factory :: factory
  lr_rng :: rng

definition hold_product :: "work_center \<Rightarrow> product \<Rightarrow> product" where
  "hold_product w p = p\<lparr> p_status := HOLD, p_defect_codes := p_defect_codes p @ [wc_id w @ (utf8 [0x5F, 0xC815, 0xC9C0])] \<rparr>"

text \<open>One station that is not down: execute, measure, judge, record, report.\<close>

definition station_pass :: "real \<Rightarrow> nat \<Rightarrow> work_center \<Rightarrow> line_run \<Rightarrow> bool \<times> work_center \<times> line_run" where
  "station_pass eff idx w st =
     (let f = lr_factory st;
          (readings, w1, r1) = execute_cycle eff (f_ambient f) w (lr_rng st);
          p = (lr_product st)\<lparr> p_measurements :=
                 AList.update (wc_id w) (map (\<lambda>(n, rd). (n, r_value rd)) readings) (p_measurements (lr_product st)),
               p_current_station := idx \<rparr>;
          (is_good, r2) = judge_quality w1 readings r1;
          f1 = factory_emit INSPECTION_VERDICT
                 [(''serial'', PStr (p_serial p)), (''station'', PStr (wc_id w)), (''pass'', PBool is_good)]
                 (Some (wc_id w)) (Some (p_lot p)) f
      in (is_good, record_quality is_good w1,
          \<lparr> lr_product = p, lr_readings = AList.update (wc_id w) readings (lr_readings st),
            lr_factory = f1, lr_rng = r2 \<rparr>))"

text \<open>The loop over the stations; the result's list is the line after the loop.\<close>

fun run_line :: "real \<Rightarrow> nat \<Rightarrow> work_center list \<Rightarrow> line_run \<Rightarrow> work_center list \<times> line_run" where
  "run_line eff idx [] st = ([], st)"
| "run_line eff idx (w # ws) st =
     (if wc_state w \<in> {BREAKDOWN, MAINTENANCE}
      then (w # ws, st\<lparr>lr_product := hold_product w (lr_product st)\<rparr>)
      else
        (let (is_good, w', st1) = station_pass eff idx w st in
         if \<not> is_good \<and> p_status (lr_product st1) = IN_PROCESS
         then (let (p, f, r) = reject_product w' (lr_product st1) (lr_factory st1) (lr_rng st1)
               in (w' # ws, st1\<lparr> lr_product := p, lr_factory := f, lr_rng := r \<rparr>))
         else (let (ws', st2) = run_line eff (Suc idx) ws st1 in (w' # ws', st2))))"

fun process_shipments :: "customer_order list \<Rightarrow> int \<Rightarrow> rng \<Rightarrow> customer_order list \<times> int \<times> rng" where
  "process_shipments [] fg r = ([], fg, r)"
| "process_shipments (od # os) fg r =
     (if co_is_complete od
      then (let (os', fg', r') = process_shipments os fg r in (od # os', fg', r'))
      else if fg > 0
      then (let (n, r1) = rand_randint 1 3 r;
                ship = min (min n fg) (co_remaining od);
                (os', fg', r') = process_shipments os (fg - ship) r1
            in (od\<lparr>co_delivered := co_delivered od + ship\<rparr> # os', fg', r'))
      else (let (os', fg', r') = process_shipments os fg r in (od # os', fg', r')))"

fun consume_materials :: "(string \<times> material) list \<Rightarrow> rng \<Rightarrow> (string \<times> material) list \<times> rng" where
  "consume_materials [] r = ([], r)"
| "consume_materials ((k, m) # ms) r =
     (let consumed = py_trunc (mt_consumption m);
          remainder = mt_consumption m - of_int consumed;
          (u, r1) = rand_random r;
          consumed' = (if u < remainder then consumed + 1 else consumed);
          (ms', r2) = consume_materials ms r1
      in ((k, m\<lparr>mt_stock := max 0 (mt_stock m - consumed')\<rparr>) # ms', r2))"

definition record_hourly :: "factory \<Rightarrow> factory" where
  "record_hourly f =
     (if f_cycle f mod 40 = 0
      then (let total = (\<Sum>s\<leftarrow>f_line f. wc_good s + wc_defect s);
                good = (\<Sum>s\<leftarrow>f_line f. wc_good s)
            in f\<lparr> f_hourly_yield := f_hourly_yield f @ [if total > 0 then of_nat good / of_nat total else 1],
                  f_hourly_oee := f_hourly_oee f @ [list_avg (map (\<lambda>s. o_oee (wc_oee s)) (f_line f))],
                  f_hourly_throughput := f_hourly_throughput f @ [f_total_produced f] \<rparr>)
      else f)"

text \<open>A product that passed all stations: counted, stocked, reported, orders shipped.\<close>

definition complete_product :: "product \<Rightarrow> factory \<Rightarrow> rng \<Rightarrow> product \<times> factory \<times> rng" where
  "complete_product p f r =
     (let p' = p\<lparr>p_status := GOOD\<rparr>;
          f1 = factory_emit WORK_COMPLETE
                 [(''serial'', PStr (p_serial p')), (''lot'', PStr (p_lot p')), (''status'', PStr ''GOOD'')]
                 None (Some (p_lot p'))
                 (f\<lparr> f_fg_stock := f_fg_stock f + 1, f_total_produced := Suc (f_total_produced f),
                     f_finished := f_finished f @ [p'] \<rparr>);
          (os, fg, r1) = process_shipments (f_orders f1) (f_fg_stock f1) r
      in (p', f1\<lparr> f_orders := os, f_fg_stock := fg \<rparr>, r1))"

text \<open>The start of a cycle: clock, shift, ambient, tick event, new product.\<close>

definition start_cycle :: "factory \<Rightarrow> rng \<Rightarrow> product \<times> shift_info \<times> factory \<times> rng" where
  "start_cycle f r =
     (let f1 = f\<lparr> f_cycle := Suc (f_cycle f), f_sim_time := f_sim_time f + wc_cycle_time (f_line f ! 0) \<rparr>;
          si = shift_current (f_shift f1);
          (f2, r1) = update_ambient (f1\<lparr>f_shift := shift_advance (f_shift f1)\<rparr>) r;
          f3 = factory_emit FACTORY_TICK [(''cycle'', PInt (int (f_cycle f2)))] None None f2;
          pc = Suc (f_product_counter f3);
          lc = (if pc mod 200 = 1 then Suc (f_lot_counter f3) else f_lot_counter f3);
          p = \<lparr> p_serial = ''SN-'' @ pad_nat 6 pc, p_lot = ''LOT-'' @ pad_nat 4 lc,
                p_current_station = 0, p_status = IN_PROCESS, p_measurements = [], p_defect_codes = [] \<rparr>
      in (p, si,
          factory_emit WORK_STARTED [(''serial'', PStr (p_serial p)), (''lot'', PStr (p_lot p))]
            None (Some (p_lot p)) (f3\<lparr> f_product_counter := pc, f_lot_counter := lc \<rparr>), r1))"

record cycle_result =
  cr_cycle :: nat
  cr_product :: product
  cr_readings :: "(string \<times> (string \<times> sensor_reading) list) list"
  cr_shift :: shift_info

definition factory_run_cycle :: "factory \<Rightarrow> rng \<Rightarrow> cycle_result \<times> factory \<times> rng" where
  "factory_run_cycle f0 r0 =
     (let (p0, si, f1, r1) = start_cycle f0 r0;
          (line, st) = run_line (effective_factor si) 0 (f_line f1)
             \<lparr> lr_product = p0, lr_readings = [], lr_factory = f1, lr_rng = r1 \<rparr>;
          f2 = (lr_factory st)\<lparr>f_line := line\<rparr>;
          (p, f3, r3) = (if p_status (lr_product st) = IN_PROCESS
                         then complete_product (lr_product st) f2 (lr_rng st)
                         else (lr_product st, f2, lr_rng st));
          (ms, r4) = consume_materials (f_materials f3) r3;
          f4 = record_hourly (f3\<lparr> f_materials := ms, f_current_product := Some p \<rparr>)
      in (\<lparr> cr_cycle = f_cycle f4, cr_product = p, cr_readings = lr_readings st, cr_shift = si \<rparr>, f4, r4))"

section \<open>Snapshot and KPIs\<close>

definition real_mod :: "real \<Rightarrow> real \<Rightarrow> real" where
  "real_mod x y = x - y * of_int \<lfloor>x / y\<rfloor>"

definition sim_clock :: "real \<Rightarrow> string" where
  "sim_clock t =
     (let hours = nat (py_trunc (t / 3600)); minutes = nat (py_trunc (real_mod t 3600 / 60));
          secs = nat (py_trunc (real_mod t 60))
      in pad_nat 2 (8 + hours) @ '':'' @ pad_nat 2 minutes @ '':'' @ pad_nat 2 secs)"

definition sensor_snapshot :: "sensor \<Rightarrow> dict" where
  "sensor_snapshot s =
     [(''value'', PFloat (s_value s)), (''ma'', PFloat (sensor_ma s)), (''slope'', PFloat (sensor_slope s)),
      (''std'', PFloat (sensor_std s)), (''unit'', PStr (s_unit s))]"

definition station_snapshot :: "factory \<Rightarrow> work_center \<Rightarrow> dict" where
  "station_snapshot f w =
     dset ''resource_id'' (PStr (make_resource_id (wc_id w)))
       (dset ''sensors'' (PDict (enrich_station_sensors (wc_id w)
            (map (\<lambda>(n, s). (n, PDict (sensor_snapshot s))) (wc_sensors w)) (f_cycle f) (f_sim_time f)))
         (wc_get_status w))"

definition material_snapshot :: "string \<Rightarrow> material \<Rightarrow> dict" where
  "material_snapshot name m =
     [(''sku'', PStr name), (''uom'', PStr ''EA''), (''stock'', PInt (mt_stock m)),
      (''safety_stock'', PInt (mt_safety_stock m)),
      (''days_supply'', (case days_of_supply m of None \<Rightarrow> PNone | Some d \<Rightarrow> PFloat (py_round 1 d))),
      (''needs_reorder'', PBool (needs_reorder m)), (''on_order'', PInt (mt_on_order m)),
      (''supplier_id'', PStr (mt_supplier m))]"

definition order_snapshot :: "customer_order \<Rightarrow> dict" where
  "order_snapshot od =
     [(''id'', PStr (co_id od)), (''customer'', PStr (co_customer od)), (''part'', PStr (co_part od)),
      (''qty'', PInt (co_quantity od)), (''delivered'', PInt (co_delivered od)),
      (''remaining'', PInt (co_remaining od)), (''priority'', PStr (order_priority_value (co_priority od))),
      (''due_date'', PStr (co_due_date od))]"

definition wip_snapshot :: "wip_buffer \<Rightarrow> dict" where
  "wip_snapshot b =
     [(''from'', PInt (int (wb_from b))), (''to'', PInt (int (wb_to b))),
      (''count'', PInt (int (wb_count b))), (''util'', PFloat (py_round 2 (wb_utilization b)))]"

definition line_avg_oee :: "factory \<Rightarrow> real" where
  "line_avg_oee f = list_avg (map (\<lambda>s. o_oee (wc_oee s)) (f_line f))"

definition get_snapshot :: "factory \<Rightarrow> dict" where
  "get_snapshot f =
     (let si = shift_current (f_shift f) in
      [(''plant'', PDict (plant_header (f_sim_time f) (f_cycle f))),
       (''cycle'', PInt (int (f_cycle f))),
       (''clock'', PStr (sim_clock (f_sim_time f))),
       (''shift'', PStr (shift_value (si_shift si))),
       (''shift_skill'', PFloat (py_round 3 (effective_factor si))),
       (''ambient_temp'', PFloat (py_round 1 (f_ambient f))),
       (''humidity'', PFloat (py_round 1 (f_humidity f))),
       (''stations'', PDict (map (\<lambda>w. (wc_id w, PDict (station_snapshot f w))) (f_line f))),
       (''fg_stock'', PInt (f_fg_stock f)),
       (''total_produced'', PInt (int (f_total_produced f))),
       (''scrap_count'', PInt (int (f_scrap f))),
       (''rework_count'', PInt (int (f_rework f))),
       (''total_demand'', PInt (sum_list (map co_remaining (f_orders f)))),
       (''total_delivered'', PInt (sum_list (map co_delivered (f_orders f)))),
       (''materials'', PDict (map (\<lambda>(k, m). (k, PDict (material_snapshot k m))) (f_materials f))),
       (''wip'', PList (map (\<lambda>b. PDict (wip_snapshot b)) (f_wip f))),
       (''line_oee'', PList (map (\<lambda>w. PDict (oee_to_dict (wc_oee w))) (f_line f))),
       (''avg_oee'', PFloat (py_round 4 (line_avg_oee f))),
       (''orders'', PList (map (\<lambda>od. PDict (order_snapshot od)) (f_orders f))),
       (''business_events'', PList (map PDict (events_tail 48 (f_events f))))])"

text \<open>\<open>min(self.line, key=...)\<close>: the first station of least OEE.\<close>

fun argmin_oee :: "work_center \<Rightarrow> work_center list \<Rightarrow> work_center" where
  "argmin_oee b [] = b"
| "argmin_oee b (w # ws) = argmin_oee (if o_oee (wc_oee w) < o_oee (wc_oee b) then w else b) ws"

definition bottleneck :: "factory \<Rightarrow> work_center" where
  "bottleneck f = argmin_oee (hd (f_line f)) (tl (f_line f))"

definition get_kpi_summary :: "factory \<Rightarrow> dict" where
  "get_kpi_summary f =
     (let total_items = (\<Sum>s\<leftarrow>f_line f. wc_good s + wc_defect s);
          total_good = (\<Sum>s\<leftarrow>f_line f. wc_good s);
          fpy = (if total_items > 0 then of_nat total_good / of_nat total_items else 1);
          total_energy = (\<Sum>s\<leftarrow>f_line f. wc_energy_kwh s);
          energy_per_unit = (if f_total_produced f > 0 then total_energy / of_nat (f_total_produced f) else 0);
          total_demand = (\<Sum>od\<leftarrow>f_orders f. co_quantity od);
          total_delivered = (\<Sum>od\<leftarrow>f_orders f. co_delivered od);
          on_time = (if total_demand > 0 then of_int total_delivered / of_int total_demand else 1)
      in [(''cycle'', PInt (int (f_cycle f))),
          (''total_produced'', PInt (int (f_total_produced f))),
          (''fg_stock'', PInt (f_fg_stock f)),
          (''scrap_count'', PInt (int (f_scrap f))),
          (''rework_count'', PInt (int (f_rework f))),
          (''fpy'', PFloat (py_round 4 fpy)),
          (''avg_oee'', PFloat (py_round 4 (line_avg_oee f))),
          (''bottleneck'', PStr (wc_id (bottleneck f))),
          (''bottleneck_oee'', PFloat (o_oee (wc_oee (bottleneck f)))),
          (''total_energy_kwh'', PFloat (py_round 1 total_energy)),
          (''energy_per_unit'', PFloat (py_round 3 energy_per_unit)),
          (''on_time_delivery'', PFloat (py_round 4 on_time)),
          (''station_oee'', PDict (map (\<lambda>w. (wc_id w, PDict (oee_to_dict (wc_oee w)))) (f_line f))),
          (''shift_changes'', PInt (int (sm_changes (f_shift f))))])"

end
