(* ===== verification/Machines_Laws.thy ===== *)
theory Machines_Laws
  imports Machines
begin

text \<open>
  Properties of \<open>mas/domain/machines.py\<close>: wear and sensor bounds, status classification,
  the inertness of a stopped work center, and the OEE figures of every work center the
  program can reach by its operations.
\<close>

section \<open>Tools and sensors\<close>

definition tool_wf :: "tool_wear \<Rightarrow> bool" where
  "tool_wf t \<longleftrightarrow> 0 < t_max_life t \<and> 0 \<le> t_current_life t \<and> 0 \<le> t_wear_rate t \<and> t_wear_rate t \<le> 5 / 2"

lemma tool_advance_fields:
  assumes "tool_advance c t r = (t', r')"
  shows "t_current_life t' = t_current_life t + c" "t_max_life t' = t_max_life t"
    "0 \<le> t_wear_rate t'" "t_wear_rate t' \<le> 5 / 2"
proof -
  show "t_current_life t' = t_current_life t + c" "t_max_life t' = t_max_life t"
    using assms by (auto simp: tool_advance_def Let_def case_prod_unfold)
  have "\<exists>x. t_wear_rate t' = max 0 (min x (5 / 2))"
    using assms by (fastforce simp: tool_advance_def Let_def case_prod_unfold)
  then show "0 \<le> t_wear_rate t'" "t_wear_rate t' \<le> 5 / 2" by auto
qed

lemma tool_advance_wf: "tool_wf t \<Longrightarrow> 0 \<le> c \<Longrightarrow> tool_advance c t r = (t', r') \<Longrightarrow> tool_wf t'"
  using tool_advance_fields [of c t r t' r'] by (simp add: tool_wf_def)

lemma tool_advance_region:
  assumes "tool_advance c t r = (t', r')"
  shows "t_region t' = (let ratio = of_int (t_current_life t') / of_int (t_max_life t') :: real in
     if ratio < 3 / 10 then EARLY_STABLE else if ratio < 8 / 10 then LINEAR_WEAR else RAPID_WEAR)"
  using assms by (auto simp: tool_advance_def Let_def case_prod_unfold split: if_splits)

lemma sensor_read_fields:
  assumes "sensor_read wear sf amb wu s r = (rd, s', r')"
  shows "s_history s' = push_history (s_value s') (s_history s)"
    "r_status rd = sensor_status s'" "r_value rd = py_round 3 (s_value s')" "r_name rd = s_name s"
    "s_crit s' = s_crit s" "s_warn s' = s_warn s" "s_baseline s' = s_baseline s"
    "s_autocorr s' = s_autocorr s" "rng_pos r' = Suc (rng_pos r)"
    "s_warmup s' = (if wu then max (7 / 10) (s_warmup s - 5 / 100) else min 1 (s_warmup s + 2 / 100))"
  using assms by (auto simp: sensor_read_def Let_def case_prod_unfold rand_gauss_def sensor_status_def)

lemma read_sensors_fields:
  "read_sensors wear sf amb wu ss r = (rds, ss', r') \<Longrightarrow>
     map fst rds = map fst ss \<and> map fst ss' = map fst ss \<and> rng_pos r' = rng_pos r + length ss"
proof (induction ss arbitrary: r rds ss' r')
  case Nil
  then show ?case by simp
next
  case (Cons a ss)
  obtain name s where a: "a = (name, s)" by fastforce
  obtain rd s1 r1 where 1: "sensor_read wear sf amb wu s r = (rd, s1, r1)" by (metis prod_cases3)
  obtain rds1 ss1 r2 where 2: "read_sensors wear sf amb wu ss r1 = (rds1, ss1, r2)" by (metis prod_cases3)
  show ?case
    using Cons.prems Cons.IH [OF 2] sensor_read_fields(9) [OF 1] by (simp add: a 1 2) auto
qed

section \<open>Reachable work centers\<close>

inductive wc_step :: "work_center \<Rightarrow> work_center \<Rightarrow> bool" where
  ws_cycle: "execute_cycle sf amb w r = (rds, w', r') \<Longrightarrow> wc_step w w'"
| ws_quality: "wc_step w (record_quality g w)"
| ws_breakdown: "wc_step w (trigger_breakdown t w)"
| ws_repair: "wc_step w (complete_repair w)"
| ws_setup: "wc_step w (start_setup t w)"
| ws_setup_done: "wc_step w (complete_setup w)"
| ws_speed: "wc_step w (set_speed p w)"
| ws_sensors: "map fst ss = map fst (wc_sensors w) \<Longrightarrow> wc_step w (w\<lparr>wc_sensors := ss\<rparr>)"
| ws_tool: "0 \<le> k \<Longrightarrow> wc_step w (w\<lparr>wc_tool := (wc_tool w)\<lparr>t_current_life := t_current_life (wc_tool w) + k\<rparr>\<rparr>)"

inductive wc_reachable :: "work_center \<Rightarrow> bool" where
  wr_new: "0 < ct \<Longrightarrow> 0 < ml \<Longrightarrow> wc_reachable (new_work_center sid name ty ct sensors (new_tool ml))"
| wr_step: "wc_reachable w \<Longrightarrow> wc_step w w' \<Longrightarrow> wc_reachable w'"

definition wc_wf :: "work_center \<Rightarrow> bool" where
  "wc_wf w \<longleftrightarrow> 0 < wc_cycle_time w \<and> wc_design_cycle_time w = wc_cycle_time w
     \<and> wc_planned_time w = of_nat (wc_total_cycles w) * wc_design_cycle_time w
     \<and> (wc_total_cycles w = 0 \<longrightarrow> wc_run_time w = 0) \<and> (0 < wc_total_cycles w \<longrightarrow> 0 < wc_run_time w)
     \<and> 40 \<le> wc_speed_pct w \<and> wc_speed_pct w \<le> 110 \<and> tool_wf (wc_tool w)"

lemma execute_cycle_stopped:
  "wc_state w \<in> {BREAKDOWN, MAINTENANCE, SETUP} \<Longrightarrow> execute_cycle sf amb w r = ([], w, r)"
  by (simp add: execute_cycle_def)

lemma execute_cycle_running:
  assumes "execute_cycle sf amb w r = (rds, w', r')" "wc_state w \<notin> {BREAKDOWN, MAINTENANCE, SETUP}"
  shows "wc_state w' = RUNNING" "map fst rds = map fst (wc_sensors w)"
    "map fst (wc_sensors w') = map fst (wc_sensors w)"
    "wc_run_time w' = wc_run_time w + wc_cycle_time w * (100 / of_int (max 40 (wc_speed_pct w)))"
    "wc_planned_time w' = wc_planned_time w + wc_design_cycle_time w"
    "wc_total_cycles w' = Suc (wc_total_cycles w)"
    "wc_cycle_time w' = wc_cycle_time w" "wc_design_cycle_time w' = wc_design_cycle_time w"
    "wc_speed_pct w' = wc_speed_pct w" "wc_id w' = wc_id w"
    "wc_good w' = wc_good w" "wc_defect w' = wc_defect w"
    "wc_tool w' = fst (tool_advance 1 (wc_tool w) r)"
    "wc_failures w' = wc_failures w" "wc_type w' = wc_type w"
proof -
  obtain t r1 where t: "tool_advance 1 (wc_tool w) r = (t, r1)" by fastforce
  obtain rds1 ss r2 where s: "read_sensors (t_wear_rate t) sf amb (wc_state w = WARMUP) (wc_sensors w) r1
      = (rds1, ss, r2)" by (metis prod_cases3)
  note * = assms t s read_sensors_fields [OF s]
  show "wc_state w' = RUNNING" "map fst rds = map fst (wc_sensors w)"
    "map fst (wc_sensors w') = map fst (wc_sensors w)"
    "wc_run_time w' = wc_run_time w + wc_cycle_time w * (100 / of_int (max 40 (wc_speed_pct w)))"
    "wc_planned_time w' = wc_planned_time w + wc_design_cycle_time w"
    "wc_total_cycles w' = Suc (wc_total_cycles w)"
    "wc_cycle_time w' = wc_cycle_time w" "wc_design_cycle_time w' = wc_design_cycle_time w"
    "wc_speed_pct w' = wc_speed_pct w" "wc_id w' = wc_id w"
    "wc_good w' = wc_good w" "wc_defect w' = wc_defect w"
    "wc_tool w' = fst (tool_advance 1 (wc_tool w) r)"
    "wc_failures w' = wc_failures w" "wc_type w' = wc_type w"
    using * by (auto simp: execute_cycle_def Let_def case_prod_unfold)
qed

lemmas execute_cycle_cases = execute_cycle_stopped execute_cycle_running

lemma execute_cycle_wf:
  assumes "execute_cycle sf amb w r = (rds, w', r')" "wc_wf w"
  shows "wc_wf w'"
proof (cases "wc_state w \<in> {BREAKDOWN, MAINTENANCE, SETUP}")
  case True
  then show ?thesis using assms execute_cycle_stopped by simp
next
  case False
  note e = execute_cycle_running [OF assms(1) False]
  obtain t r1 where t: "tool_advance 1 (wc_tool w) r = (t, r1)" by fastforce
  have tw: "tool_wf (wc_tool w')"
    using tool_advance_wf [OF _ _ t] assms(2) by (simp add: e t wc_wf_def)
  have ct: "0 < wc_cycle_time w * (100 / of_int (max 40 (wc_speed_pct w)))"
    using assms(2) by (simp add: wc_wf_def)
  have rt: "0 \<le> wc_run_time w" using assms(2) by (cases "wc_total_cycles w") (auto simp: wc_wf_def)
  from ct rt have "0 < wc_run_time w'" unfolding e by linarith
  then show ?thesis using assms(2) tw by (simp add: wc_wf_def e algebra_simps)
qed

lemma wc_step_wf: "wc_step w w' \<Longrightarrow> wc_wf w \<Longrightarrow> wc_wf w'"
proof (induction rule: wc_step.induct)
  case (ws_cycle sf amb w r rds w' r')
  then show ?case by (rule execute_cycle_wf)
qed (auto simp: wc_wf_def record_quality_def trigger_breakdown_def complete_repair_def start_setup_def
      complete_setup_def set_speed_def tool_reset_def tool_wf_def)

lemma wc_reachable_wf: "wc_reachable w \<Longrightarrow> wc_wf w"
proof (induction rule: wc_reachable.induct)
  case (wr_new ct ml sid name ty sensors)
  then show ?case by (simp add: wc_wf_def new_work_center_def tool_wf_def new_tool_def)
next
  case (wr_step w w')
  then show ?case by (blast intro: wc_step_wf)
qed

lemma wc_steps_reachable: "wc_step\<^sup>*\<^sup>* w w' \<Longrightarrow> wc_reachable w \<Longrightarrow> wc_reachable w'"
  by (induction rule: rtranclp_induct) (auto intro: wr_step)

lemma wf_availability_performance: "wc_wf w \<Longrightarrow> wc_availability w * wc_performance w = 1"
  by (cases "wc_total_cycles w") (auto simp: wc_wf_def wc_availability_def wc_performance_def)

lemma wc_quality_nonneg: "0 \<le> wc_quality w"
  by (simp add: wc_quality_def)

lemma unit_rounded: "0 \<le> x \<Longrightarrow> 0 \<le> py_round n (min 1 x) \<and> py_round n (min 1 x) \<le> 1"
  by (simp add: py_round_nonneg py_round_le_1)

lemma wc_oee_bounds:
  assumes "wc_wf w"
  shows "\<forall>x\<in>{o_availability (wc_oee w), o_performance (wc_oee w), o_quality (wc_oee w), o_oee (wc_oee w)}.
    0 \<le> x \<and> x \<le> 1"
proof -
  have nn: "0 \<le> wc_availability w" "0 \<le> wc_performance w"
    using assms by (cases "wc_total_cycles w"; force simp: wc_wf_def wc_availability_def wc_performance_def)+
  then have "0 \<le> wc_availability w * wc_performance w * wc_quality w"
    by (simp add: wc_quality_nonneg)
  with nn wc_quality_nonneg show ?thesis by (simp add: wc_oee_def unit_rounded)
qed

section \<open>Properties\<close>

definition demo_wc :: work_center where
  "demo_wc = new_work_center ''WC-01'' ''press'' ''PRESS'' 5
     [(''vibration'', new_sensor ''v'' 2 (1 / 4) ''mm/s'' (Some 4) (Some 5) (9 / 10) 0)] (new_tool 100)"

definition demo_rng :: rng where
  "demo_rng = \<lparr> unif_tape = (\<lambda>_. 1 / 2), gauss_tape = (\<lambda>_. 0), int_tape = (\<lambda>_. 0), rng_pos = 0 \<rparr>"

text \<open>
  C25 (\<open>oee_is_quality\<close>). In every work center reachable by any operations (cycles at any
  speed, breakdowns, repairs, setups, speed changes, sensor shocks, quality records), availability and
  performance cancel exactly, so the reported OEE is just the reported quality figure:
  neither downtime nor speed changes the OEE. All four figures lie between 0 and 1.
\<close>

theorem oee_is_quality:
  assumes "wc_reachable w"
  shows "o_oee (wc_oee w) = o_quality (wc_oee w)
    \<and> (\<forall>x\<in>{o_availability (wc_oee w), o_performance (wc_oee w), o_quality (wc_oee w), o_oee (wc_oee w)}.
         0 \<le> x \<and> x \<le> 1)"
proof -
  have wf: "wc_wf w" using assms by (rule wc_reachable_wf)
  have "o_oee (wc_oee w) = o_quality (wc_oee w)"
    using wf_availability_performance [OF wf] by (simp add: wc_oee_def)
  with wc_oee_bounds [OF wf] show ?thesis by blast
qed

theorem oee_is_quality_witness:
  "let w = trigger_breakdown 600 (record_quality True (fst (snd (execute_cycle 1 22 (set_speed 50 demo_wc) demo_rng))))
   in o_oee (wc_oee w) = o_quality (wc_oee w)"
proof -
  let ?e = "execute_cycle 1 22 (set_speed 50 demo_wc) demo_rng"
  have "wc_reachable demo_wc" unfolding demo_wc_def by (rule wr_new) simp_all
  then have "wc_reachable (set_speed 50 demo_wc)" by (rule wr_step) (rule ws_speed)
  then have "wc_reachable (fst (snd ?e))" by (rule wr_step) (rule ws_cycle [of _ _ _ _ "fst ?e" _ "snd (snd ?e)"], simp)
  then have "wc_reachable (record_quality True (fst (snd ?e)))" by (rule wr_step) (rule ws_quality)
  then have "wc_reachable (trigger_breakdown 600 (record_quality True (fst (snd ?e))))"
    by (rule wr_step) (rule ws_breakdown)
  from oee_is_quality [OF this] show ?thesis by (simp add: Let_def)
qed

text \<open>
  \<open>work_center_safe\<close>. In every reachable work center the speed stays between 40 and 110
  percent, the tool's wear rate between 0 and 2.5, and the planned time is exactly the
  number of cycles times the design cycle time.
\<close>

theorem work_center_safe:
  assumes "wc_reachable w"
  shows "40 \<le> wc_speed_pct w \<and> wc_speed_pct w \<le> 110
    \<and> 0 \<le> t_wear_rate (wc_tool w) \<and> t_wear_rate (wc_tool w) \<le> 5 / 2
    \<and> wc_planned_time w = of_nat (wc_total_cycles w) * wc_design_cycle_time w"
  using wc_reachable_wf [OF assms] by (simp add: wc_wf_def tool_wf_def)

theorem work_center_safe_witness: "wc_speed_pct (set_speed 500 demo_wc) \<le> 110"
proof -
  have "wc_reachable demo_wc" unfolding demo_wc_def by (rule wr_new) simp_all
  then have "wc_reachable (set_speed 500 demo_wc)" by (rule wr_step) (rule ws_speed)
  from work_center_safe [OF this] show ?thesis by blast
qed

text \<open>
  C24 (\<open>execute_cycle_behaviour\<close>). A center in breakdown, maintenance or setup reads nothing
  and changes nothing (not even the random tape); any other center ends up running, reads
  each of its sensors exactly once in order, wears its tool by one cycle, and spends
  \<open>100 / speed\<close> times its cycle time.
\<close>

theorem execute_cycle_behaviour:
  "execute_cycle sf amb w r = (rds, w', r') \<Longrightarrow>
   (if wc_state w \<in> {BREAKDOWN, MAINTENANCE, SETUP} then rds = [] \<and> w' = w \<and> r' = r
    else wc_state w' = RUNNING \<and> map fst rds = map fst (wc_sensors w)
      \<and> t_current_life (wc_tool w') = t_current_life (wc_tool w) + 1
      \<and> wc_total_cycles w' = Suc (wc_total_cycles w)
      \<and> wc_run_time w' = wc_run_time w + wc_cycle_time w * (100 / of_int (max 40 (wc_speed_pct w)))
      \<and> rng_pos r' = rng_pos r + length (wc_sensors w) + 2)"
proof -
  assume e: "execute_cycle sf amb w r = (rds, w', r')"
  show ?thesis
  proof (cases "wc_state w \<in> {BREAKDOWN, MAINTENANCE, SETUP}")
    case True
    then show ?thesis using e execute_cycle_stopped by simp
  next
    case False
    obtain t r1 where t: "tool_advance 1 (wc_tool w) r = (t, r1)" by fastforce
    have r1: "rng_pos r1 = Suc (rng_pos r)"
      using t by (auto simp: tool_advance_def Let_def case_prod_unfold rand_gauss_def split: if_splits)
    obtain rds1 ss r2 where s: "read_sensors (t_wear_rate t) sf amb (wc_state w = WARMUP) (wc_sensors w) r1
        = (rds1, ss, r2)" by (metis prod_cases3)
    have "rng_pos r' = Suc (rng_pos r2)"
      using e False t s by (auto simp: execute_cycle_def Let_def case_prod_unfold calc_power_def rand_gauss_def)
    with False r1 read_sensors_fields [OF s] tool_advance_fields(1) [OF t] show ?thesis
      using execute_cycle_running [OF e False] by (simp add: t)
  qed
qed

theorem execute_cycle_behaviour_witness:
  "fst (execute_cycle 1 22 (trigger_breakdown 600 demo_wc) demo_rng) = []"
proof -
  let ?e = "execute_cycle 1 22 (trigger_breakdown 600 demo_wc) demo_rng"
  have "?e = (fst ?e, fst (snd ?e), snd (snd ?e))" by simp
  from execute_cycle_behaviour [OF this] show ?thesis by (simp add: trigger_breakdown_def)
qed

text \<open>
  \<open>sensor_read_behaviour\<close>. A reading's status is CRITICAL exactly when the sensor's new
  value reaches the critical threshold in absolute value, WARNING exactly when it reaches
  only the warning threshold; the new value is the last entry of a history that never
  exceeds 100 values; the reported value is within 0.0005 of it.
\<close>

theorem sensor_read_behaviour:
  "sensor_read wear sf amb wu s r = (rd, s', r') \<Longrightarrow>
   (r_status rd = R_CRITICAL \<longleftrightarrow> reaches (s_value s') (s_crit s))
   \<and> (r_status rd = R_WARNING \<longleftrightarrow> reaches (s_value s') (s_warn s) \<and> \<not> reaches (s_value s') (s_crit s))
   \<and> last (s_history s') = s_value s' \<and> length (s_history s') \<le> 100
   \<and> \<bar>r_value rd - s_value s'\<bar> \<le> 1 / 2000"
proof -
  assume e: "sensor_read wear sf amb wu s r = (rd, s', r')"
  note f = sensor_read_fields [OF e]
  have "\<bar>r_value rd - s_value s'\<bar> \<le> 1 / 2000"
    using py_round_near [of 3 "s_value s'"] by (simp add: f)
  then show ?thesis
    by (simp add: f(1,2) sensor_status_def f(5,6) history_log.push_last history_log.push_bounded)
qed

theorem sensor_read_behaviour_witness:
  "r_status (fst (sensor_read 0 1 22 False (new_sensor ''v'' 6 1 ''mm/s'' (Some 4) (Some 5) (9 / 10) 0) demo_rng))
     = R_CRITICAL"
proof -
  let ?s = "new_sensor ''v'' 6 1 ''mm/s'' (Some 4) (Some 5) (9 / 10) 0"
  let ?e = "sensor_read 0 1 22 False ?s demo_rng"
  have e: "?e = (fst ?e, fst (snd ?e), snd (snd ?e))" by simp
  have "reaches (s_value (fst (snd ?e))) (s_crit ?s)"
    by (simp add: sensor_read_def new_sensor_def rand_gauss_def demo_rng_def reaches_def Let_def)
  with sensor_read_behaviour [OF e] show ?thesis by blast
qed



end
