(* ===== verification/Factory_Laws.thy ===== *)
theory Factory_Laws
  imports Factory Machines_Laws
begin

text \<open>
  Properties of the factory simulation: what one cycle does to the line and to the
  counters, conservation of products and stock over any run, shift rotation, and the
  bounds every run keeps.
\<close>

section \<open>Events, shipments, materials\<close>

definition es_ok :: "event_store \<Rightarrow> bool" where
  "es_ok s \<longleftrightarrow> es_maxlen s = 2500 \<and> length (es_q s) \<le> 2500"

lemma emit_ok [simp]: "es_ok s \<Longrightarrow> es_ok (emit et c t pl st lot sku s)"
  by (simp add: es_ok_def emit_def Let_def event_log.push_bounded)

lemma new_event_store_ok: "es_ok (new_event_store u w)"
  by (simp add: es_ok_def new_event_store_def)

definition order_ok :: "customer_order \<Rightarrow> bool" where
  "order_ok od \<longleftrightarrow> 0 \<le> co_delivered od \<and> co_delivered od \<le> co_quantity od"

lemma process_shipments_facts:
  "process_shipments os fg r = (os', fg', r') \<Longrightarrow> 0 \<le> fg \<Longrightarrow> \<forall>od\<in>set os. order_ok od \<Longrightarrow>
     0 \<le> fg' \<and> fg' \<le> fg \<and> fg' + sum_list (map co_delivered os') = fg + sum_list (map co_delivered os)
     \<and> (\<forall>od\<in>set os'. order_ok od) \<and> map co_quantity os' = map co_quantity os
     \<and> list_all2 (\<lambda>a b. co_delivered a \<le> co_delivered b) os os'"
proof (induction os arbitrary: fg r os' fg' r')
  case Nil
  then show ?case by simp
next
  case (Cons od os)
  show ?case
  proof (cases "\<not> co_is_complete od \<and> fg > 0")
    case True
    obtain n r1 where n: "rand_randint 1 3 r = (n, r1)" by fastforce
    have n1: "1 \<le> n" using rand_randint_bounds [of 1 3 r] n by simp
    define ship where "ship = min (min n fg) (co_remaining od)"
    obtain os1 fg1 r2 where ps: "process_shipments os (fg - ship) r1 = (os1, fg1, r2)"
      by (metis prod_cases3)
    have ok: "order_ok od" and oks: "\<forall>od\<in>set os. order_ok od" using Cons.prems(3) by simp_all
    have s: "0 \<le> ship" "ship \<le> fg" "ship \<le> co_quantity od - co_delivered od"
      using n1 True ok by (auto simp: ship_def co_remaining_def order_ok_def)
    have e: "os' = od\<lparr>co_delivered := co_delivered od + ship\<rparr> # os1" "fg' = fg1"
      using Cons.prems(1) True n ps by (auto simp: ship_def)
    have "0 \<le> fg - ship" using s(2) by simp
    from Cons.IH [OF ps this oks] show ?thesis
      unfolding e using s ok by (simp add: order_ok_def)
  next
    case False
    obtain os1 fg1 r2 where ps: "process_shipments os fg r = (os1, fg1, r2)" by (metis prod_cases3)
    have e: "os' = od # os1" "fg' = fg1" using Cons.prems(1) False ps by (auto split: if_splits)
    have oks: "\<forall>od\<in>set os. order_ok od" and ok: "order_ok od" using Cons.prems(3) by simp_all
    from Cons.IH [OF ps Cons.prems(2) oks] ok show ?thesis unfolding e by simp
  qed
qed

lemma consume_materials_facts:
  "consume_materials ms r = (ms', r') \<Longrightarrow>
     map fst ms' = map fst ms \<and> (\<forall>(k, m)\<in>set ms'. 0 \<le> mt_stock m)"
proof (induction ms arbitrary: r ms' r')
  case Nil
  then show ?case by simp
next
  case (Cons a ms)
  obtain k m where a: "a = (k, m)" by fastforce
  obtain u r1 where u: "rand_random r = (u, r1)" by fastforce
  obtain ms1 r2 where c: "consume_materials ms r1 = (ms1, r2)" by fastforce
  show ?case using Cons.prems Cons.IH [OF c] u c by (auto simp: a Let_def)
qed

section \<open>The line loop\<close>

definition line_frame :: "factory \<Rightarrow> factory \<Rightarrow> bool" where
  "line_frame f f' \<longleftrightarrow> f'\<lparr>f_events := f_events f, f_rework := f_rework f, f_scrap := f_scrap f\<rparr> = f
     \<and> (es_ok (f_events f) \<longrightarrow> es_ok (f_events f'))"

lemma line_frame_refl [simp]: "line_frame f f"
  by (simp add: line_frame_def)

lemma line_frame_trans: "line_frame f g \<Longrightarrow> line_frame g h \<Longrightarrow> line_frame f h"
  unfolding line_frame_def by (cases f; cases g; cases h) auto

lemma line_frame_fields:
  assumes "line_frame f f'"
  shows "f_line f' = f_line f" "f_wip f' = f_wip f" "f_finished f' = f_finished f"
    "f_fg_stock f' = f_fg_stock f" "f_total_produced f' = f_total_produced f" "f_shift f' = f_shift f"
    "f_materials f' = f_materials f" "f_orders f' = f_orders f" "f_ambient f' = f_ambient f"
    "f_humidity f' = f_humidity f" "f_cycle f' = f_cycle f" "f_sim_time f' = f_sim_time f"
    "f_product_counter f' = f_product_counter f" "f_lot_counter f' = f_lot_counter f"
    "es_ok (f_events f) \<Longrightarrow> es_ok (f_events f')"
  using assms unfolding line_frame_def by (cases f; cases f'; simp)+

lemma factory_emit_frame [simp]: "line_frame f (factory_emit et pl st lot f)"
  by (simp add: factory_emit_def line_frame_def)

lemma factory_emit_counts [simp]:
  "f_rework (factory_emit et pl st lot f) = f_rework f" "f_scrap (factory_emit et pl st lot f) = f_scrap f"
  by (simp_all add: factory_emit_def)

lemma station_pass_facts:
  assumes "station_pass eff idx w st = (g, w', st')"
  shows "p_status (lr_product st') = p_status (lr_product st)" "p_serial (lr_product st') = p_serial (lr_product st)"
    "line_frame (lr_factory st) (lr_factory st')" "f_rework (lr_factory st') = f_rework (lr_factory st)"
    "f_scrap (lr_factory st') = f_scrap (lr_factory st)"
    "wc_good w' = (if g then Suc (wc_good w) else wc_good w)"
    "wc_defect w' = (if g then wc_defect w else Suc (wc_defect w))" "wc_id w' = wc_id w"
    "wc_step\<^sup>*\<^sup>* w w'"
proof -
  obtain rds w1 r1 where e: "execute_cycle eff (f_ambient (lr_factory st)) w (lr_rng st) = (rds, w1, r1)"
    by (metis prod_cases3)
  have w1: "wc_good w1 = wc_good w" "wc_defect w1 = wc_defect w" "wc_id w1 = wc_id w"
    using e execute_cycle_stopped execute_cycle_running(10-12) [OF e]
    by (cases "wc_state w \<in> {BREAKDOWN, MAINTENANCE, SETUP}"; simp)+
  have w': "w' = record_quality g w1"
    using assms e by (auto simp: station_pass_def Let_def case_prod_unfold)
  show "p_status (lr_product st') = p_status (lr_product st)" "p_serial (lr_product st') = p_serial (lr_product st)"
    "line_frame (lr_factory st) (lr_factory st')" "f_rework (lr_factory st') = f_rework (lr_factory st)"
    "f_scrap (lr_factory st') = f_scrap (lr_factory st)"
    using assms e by (auto simp: station_pass_def Let_def case_prod_unfold)
  show "wc_good w' = (if g then Suc (wc_good w) else wc_good w)"
    "wc_defect w' = (if g then wc_defect w else Suc (wc_defect w))" "wc_id w' = wc_id w"
    by (simp_all add: w' w1 record_quality_def)
  show "wc_step\<^sup>*\<^sup>* w w'"
    unfolding w' by (meson ws_cycle [OF e] ws_quality rtranclp.rtrancl_refl rtranclp.rtrancl_into_rtrancl)
qed

lemma reject_product_facts:
  assumes "reject_product w p f r = (p', f', r')"
  shows "(p_status p' = REWORK \<and> f_rework f' = Suc (f_rework f) \<and> f_scrap f' = f_scrap f)
       \<or> (p_status p' = SCRAP \<and> f_scrap f' = Suc (f_scrap f) \<and> f_rework f' = f_rework f)"
    "line_frame f f'" "p_serial p' = p_serial p"
proof -
  have *: "line_frame f (factory_emit et pl st lot (f\<lparr>f_rework := n\<rparr>))"
    "line_frame f (factory_emit et pl st lot (f\<lparr>f_scrap := n\<rparr>))" for et pl st lot n
    by (simp_all add: factory_emit_def line_frame_def)
  show "(p_status p' = REWORK \<and> f_rework f' = Suc (f_rework f) \<and> f_scrap f' = f_scrap f)
       \<or> (p_status p' = SCRAP \<and> f_scrap f' = Suc (f_scrap f) \<and> f_rework f' = f_rework f)"
    "line_frame f f'" "p_serial p' = p_serial p"
    using assms * by (auto simp: reject_product_def Let_def case_prod_unfold split: if_splits)
qed

text \<open>How the loop ends, and what it did to the stations.\<close>

definition line_shape :: "work_center list \<Rightarrow> work_center list \<Rightarrow> product_status \<Rightarrow> nat \<Rightarrow> bool" where
  "line_shape ws ws' s k \<longleftrightarrow>
     length ws' = length ws \<and> k \<le> length ws
     \<and> (\<forall>i<k. wc_good (ws' ! i) = Suc (wc_good (ws ! i)) \<and> wc_defect (ws' ! i) = wc_defect (ws ! i))
     \<and> (case s of
          IN_PROCESS \<Rightarrow> k = length ws
        | HOLD \<Rightarrow> k < length ws \<and> wc_state (ws ! k) \<in> {BREAKDOWN, MAINTENANCE} \<and> drop k ws' = drop k ws
        | GOOD \<Rightarrow> False
        | _ \<Rightarrow> k < length ws \<and> wc_defect (ws' ! k) = Suc (wc_defect (ws ! k))
               \<and> wc_good (ws' ! k) = wc_good (ws ! k) \<and> drop (Suc k) ws' = drop (Suc k) ws)"

lemma line_shape_Cons:
  assumes "line_shape ws ws' s k" "wc_good w' = Suc (wc_good w)" "wc_defect w' = wc_defect w"
  shows "line_shape (w # ws) (w' # ws') s (Suc k)"
  using assms by (auto simp: line_shape_def less_Suc_eq_0_disj split: product_status.splits)

lemma run_line_facts:
  assumes "run_line eff idx ws st = (ws', st')" "p_status (lr_product st) = IN_PROCESS"
  shows "(\<exists>k. line_shape ws ws' (p_status (lr_product st')) k)
    \<and> line_frame (lr_factory st) (lr_factory st')
    \<and> f_rework (lr_factory st') = f_rework (lr_factory st) + (if p_status (lr_product st') = REWORK then 1 else 0)
    \<and> f_scrap (lr_factory st') = f_scrap (lr_factory st) + (if p_status (lr_product st') = SCRAP then 1 else 0)
    \<and> p_serial (lr_product st') = p_serial (lr_product st)
    \<and> map wc_id ws' = map wc_id ws \<and> list_all2 (wc_step\<^sup>*\<^sup>*) ws ws'"
  using assms
proof (induction ws arbitrary: idx st ws' st')
  case Nil
  then show ?case by (auto simp: line_shape_def)
next
  case (Cons w ws)
  have lrefl: "list_all2 (wc_step\<^sup>*\<^sup>*) ws ws" by (simp add: list_all2_refl)
  show ?case
  proof (cases "wc_state w \<in> {BREAKDOWN, MAINTENANCE}")
    case True
    then have "line_shape (w # ws) (w # ws) HOLD 0" by (simp add: line_shape_def)
    with True Cons.prems lrefl show ?thesis by (auto simp: hold_product_def)
  next
    case down: False
    obtain g w1 st1 where sp: "station_pass eff idx w st = (g, w1, st1)" by (metis prod_cases3)
    note s = station_pass_facts [OF sp]
    show ?thesis
    proof (cases g)
      case False
      obtain p f r where rj: "reject_product w1 (lr_product st1) (lr_factory st1) (lr_rng st1) = (p, f, r)"
        by (metis prod_cases3)
      have e: "ws' = w1 # ws" "st' = st1\<lparr> lr_product := p, lr_factory := f, lr_rng := r \<rparr>"
        using Cons.prems down sp False rj s(1) by auto
      have sh: "line_shape (w # ws) (w1 # ws) s 0" if "s = REWORK \<or> s = SCRAP" for s
        using that s(6,7) False by (auto simp: line_shape_def)
      show ?thesis
        using reject_product_facts [OF rj] s lrefl sh line_frame_trans [OF s(3)] by (auto simp: e)
    next
      case True
      obtain ws1 st2 where rl: "run_line eff (Suc idx) ws st1 = (ws1, st2)" by fastforce
      have e: "ws' = w1 # ws1" "st' = st2" using Cons.prems down sp True rl by auto
      have ip: "p_status (lr_product st1) = IN_PROCESS" using s(1) Cons.prems(2) by simp
      note IH = Cons.IH [OF rl ip]
      then obtain k where
        "line_shape ws ws1 (p_status (lr_product st2)) k" by auto
      then have "line_shape (w # ws) (w1 # ws1) (p_status (lr_product st2)) (Suc k)"
        using s(6,7) True by (simp add: line_shape_Cons)
      then show ?thesis
        using IH s line_frame_trans [OF s(3)] by (auto simp: e)
    qed
  qed
qed

section \<open>One whole cycle\<close>

lemma start_cycle_facts:
  assumes "start_cycle f r = (p, si, f', r')"
  shows "p_status p = IN_PROCESS" "p_serial p = ''SN-'' @ pad_nat 6 (Suc (f_product_counter f))"
    "f_line f' = f_line f" "f_wip f' = f_wip f" "f_finished f' = f_finished f" "f_fg_stock f' = f_fg_stock f"
    "f_scrap f' = f_scrap f" "f_rework f' = f_rework f" "f_total_produced f' = f_total_produced f"
    "f_shift f' = shift_advance (f_shift f)" "f_materials f' = f_materials f" "f_orders f' = f_orders f"
    "f_cycle f' = Suc (f_cycle f)" "f_product_counter f' = Suc (f_product_counter f)"
    "15 \<le> f_ambient f'" "f_ambient f' \<le> 35" "30 \<le> f_humidity f'" "f_humidity f' \<le> 80"
    "es_ok (f_events f) \<Longrightarrow> es_ok (f_events f')" "si = shift_current (f_shift f)"
  using assms
  by (auto simp: start_cycle_def update_ambient_def Let_def case_prod_unfold factory_emit_def)

lemma complete_product_facts:
  assumes "complete_product p f r = (p', f', r')" "0 \<le> f_fg_stock f" "\<forall>od\<in>set (f_orders f). order_ok od"
  shows "p_status p' = GOOD" "p_serial p' = p_serial p" "f_line f' = f_line f" "f_wip f' = f_wip f"
    "f_finished f' = f_finished f @ [p']" "f_total_produced f' = Suc (f_total_produced f)"
    "f_scrap f' = f_scrap f" "f_rework f' = f_rework f" "f_shift f' = f_shift f"
    "f_materials f' = f_materials f" "f_cycle f' = f_cycle f" "f_product_counter f' = f_product_counter f"
    "f_ambient f' = f_ambient f" "f_humidity f' = f_humidity f"
    "0 \<le> f_fg_stock f'" "f_fg_stock f' + sum_list (map co_delivered (f_orders f'))
       = f_fg_stock f + 1 + sum_list (map co_delivered (f_orders f))"
    "\<forall>od\<in>set (f_orders f'). order_ok od" "es_ok (f_events f) \<Longrightarrow> es_ok (f_events f')"
    "f_fg_stock f' \<le> f_fg_stock f + 1"
proof -
  obtain os fg r1 where ps: "process_shipments (f_orders f) (f_fg_stock f + 1) r = (os, fg, r1)"
    by (metis prod_cases3)
  have "0 \<le> f_fg_stock f + 1" using assms(2) by simp
  note sf = process_shipments_facts [OF ps this assms(3)]
  show "p_status p' = GOOD" "p_serial p' = p_serial p" "f_line f' = f_line f" "f_wip f' = f_wip f"
    "f_finished f' = f_finished f @ [p']" "f_total_produced f' = Suc (f_total_produced f)"
    "f_scrap f' = f_scrap f" "f_rework f' = f_rework f" "f_shift f' = f_shift f"
    "f_materials f' = f_materials f" "f_cycle f' = f_cycle f" "f_product_counter f' = f_product_counter f"
    "f_ambient f' = f_ambient f" "f_humidity f' = f_humidity f"
    "0 \<le> f_fg_stock f'" "f_fg_stock f' + sum_list (map co_delivered (f_orders f'))
       = f_fg_stock f + 1 + sum_list (map co_delivered (f_orders f))"
    "\<forall>od\<in>set (f_orders f'). order_ok od" "es_ok (f_events f) \<Longrightarrow> es_ok (f_events f')"
    "f_fg_stock f' \<le> f_fg_stock f + 1"
    using assms(1) ps sf
    by (auto simp: complete_product_def Let_def case_prod_unfold factory_emit_def)
qed

lemma record_hourly_frame [simp]:
  "f_line (record_hourly f) = f_line f" "f_wip (record_hourly f) = f_wip f"
  "f_finished (record_hourly f) = f_finished f" "f_fg_stock (record_hourly f) = f_fg_stock f"
  "f_scrap (record_hourly f) = f_scrap f" "f_rework (record_hourly f) = f_rework f"
  "f_total_produced (record_hourly f) = f_total_produced f" "f_shift (record_hourly f) = f_shift f"
  "f_materials (record_hourly f) = f_materials f" "f_orders (record_hourly f) = f_orders f"
  "f_ambient (record_hourly f) = f_ambient f" "f_humidity (record_hourly f) = f_humidity f"
  "f_cycle (record_hourly f) = f_cycle f" "f_product_counter (record_hourly f) = f_product_counter f"
  "f_events (record_hourly f) = f_events f" "f_current_product (record_hourly f) = f_current_product f"
  by (simp_all add: record_hourly_def Let_def)

text \<open>\<open>d\<close> good units have left the stock without going to an order; in a factory on its own there are none.\<close>

definition factory_bal :: "int \<Rightarrow> factory \<Rightarrow> bool" where
  "factory_bal d f \<longleftrightarrow> 0 \<le> f_fg_stock f
     \<and> f_fg_stock f + sum_list (map co_delivered (f_orders f)) + d = int (f_total_produced f)
     \<and> (\<forall>od\<in>set (f_orders f). order_ok od) \<and> f_product_counter f = f_cycle f
     \<and> f_total_produced f + f_scrap f + f_rework f \<le> f_cycle f
     \<and> length (f_finished f) = f_total_produced f \<and> (\<forall>(k, m)\<in>set (f_materials f). 0 \<le> mt_stock m)
     \<and> es_ok (f_events f) \<and> map wc_id (f_line f) = map wc_id create_production_line
     \<and> (\<forall>w\<in>set (f_line f). wc_reachable w) \<and> (\<forall>b\<in>set (f_wip f). wb_items b = [])"

abbreviation factory_inv :: "factory \<Rightarrow> bool" where
  "factory_inv \<equiv> factory_bal 0"

text \<open>
  The outcome of a cycle: the status of the product decides which counter moves and how
  far the loop went over the stations.
\<close>

definition cycle_outcome :: "factory \<Rightarrow> factory \<Rightarrow> product \<Rightarrow> bool" where
  "cycle_outcome f f' p \<longleftrightarrow>
     (case p_status p of
        IN_PROCESS \<Rightarrow> False
      | GOOD \<Rightarrow> line_shape (f_line f) (f_line f') IN_PROCESS (length (f_line f))
      | s \<Rightarrow> (\<exists>k. line_shape (f_line f) (f_line f') s k))
   \<and> f_total_produced f' = f_total_produced f + (if p_status p = GOOD then 1 else 0)
   \<and> f_rework f' = f_rework f + (if p_status p = REWORK then 1 else 0)
   \<and> f_scrap f' = f_scrap f + (if p_status p = SCRAP then 1 else 0)
   \<and> (p_status p \<noteq> GOOD \<longrightarrow> f_fg_stock f' = f_fg_stock f \<and> f_orders f' = f_orders f)"

lemma list_all2_reachable:
  "list_all2 (wc_step\<^sup>*\<^sup>*) ws ws' \<Longrightarrow> \<forall>w\<in>set ws. wc_reachable w \<Longrightarrow> \<forall>w\<in>set ws'. wc_reachable w"
  by (induction rule: list_all2_induct) (auto intro: wc_steps_reachable)

lemma factory_run_cycle_facts:
  assumes run: "factory_run_cycle f r = (c, f', r')" and inv: "factory_bal d f"
  shows "cycle_outcome f f' (cr_product c) \<and> factory_bal d f'
    \<and> f_fg_stock f' \<le> f_fg_stock f + (if p_status (cr_product c) = GOOD then 1 else 0)
    \<and> p_serial (cr_product c) = ''SN-'' @ pad_nat 6 (Suc (f_cycle f))
    \<and> f_cycle f' = Suc (f_cycle f) \<and> f_shift f' = shift_advance (f_shift f)
    \<and> 15 \<le> f_ambient f' \<and> f_ambient f' \<le> 35 \<and> 30 \<le> f_humidity f' \<and> f_humidity f' \<le> 80
    \<and> map fst (f_materials f') = map fst (f_materials f)"
proof -
  obtain p0 si f1 r1 where sc: "start_cycle f r = (p0, si, f1, r1)" by (metis prod_cases4)
  let ?st = "\<lparr> lr_product = p0, lr_readings = [], lr_factory = f1, lr_rng = r1 \<rparr>"
  obtain line st where rl: "run_line (effective_factor si) 0 (f_line f1) ?st = (line, st)" by fastforce
  note s = start_cycle_facts [OF sc]
  have "p_status (lr_product ?st) = IN_PROCESS" using s(1) by simp
  note l = run_line_facts [OF rl this, simplified]
  define f2 where "f2 = (lr_factory st)\<lparr>f_line := line\<rparr>"
  have fr: "line_frame f1 (lr_factory st)" using l by simp
  note lf = line_frame_fields [OF fr]
  have i: "0 \<le> f_fg_stock f" "f_product_counter f = f_cycle f"
    "f_fg_stock f + sum_list (map co_delivered (f_orders f)) + d = int (f_total_produced f)"
    "\<forall>od\<in>set (f_orders f). order_ok od" "es_ok (f_events f)"
    "f_total_produced f + f_scrap f + f_rework f \<le> f_cycle f" "length (f_finished f) = f_total_produced f"
    "map wc_id (f_line f) = map wc_id create_production_line" "\<forall>w\<in>set (f_line f). wc_reachable w"
    "\<forall>b\<in>set (f_wip f). wb_items b = []"
    using inv by (simp_all add: factory_bal_def)
  have line: "map wc_id line = map wc_id create_production_line" "\<forall>w\<in>set line. wc_reachable w"
    using l i(8,9) s(3) list_all2_reachable [of "f_line f" line] by auto
  have es: "es_ok (f_events (lr_factory st))" using lf(15) s(19) i(5) by simp
  show ?thesis
  proof (cases "p_status (lr_product st) = IN_PROCESS")
    case True
    obtain p f3 r3 where cp: "complete_product (lr_product st) f2 (lr_rng st) = (p, f3, r3)"
      by (metis prod_cases3)
    have f2: "0 \<le> f_fg_stock f2" "\<forall>od\<in>set (f_orders f2). order_ok od"
      using i lf s by (simp_all add: f2_def)
    note c = complete_product_facts [OF cp f2]
    obtain ms r4 where cm: "consume_materials (f_materials f3) r3 = (ms, r4)" by fastforce
    have e: "f' = record_hourly (f3\<lparr> f_materials := ms, f_current_product := Some p \<rparr>)"
      "cr_product c = p"
      using run by (auto simp: factory_run_cycle_def sc rl f2_def [symmetric] True cp cm)
    have "line_shape (f_line f) line IN_PROCESS (length (f_line f))"
      using l True s(3) by (auto simp: line_shape_def)
    then show ?thesis
      using c consume_materials_facts [OF cm] i s lf l True line es
      by (simp add: cycle_outcome_def e f2_def factory_bal_def)
  next
    case False
    obtain ms r4 where cm: "consume_materials (f_materials f2) (lr_rng st) = (ms, r4)" by fastforce
    have e: "f' = record_hourly (f2\<lparr> f_materials := ms, f_current_product := Some (lr_product st) \<rparr>)"
      "cr_product c = lr_product st"
      using run by (auto simp: factory_run_cycle_def sc rl f2_def [symmetric] False cm)
    obtain k where k: "line_shape (f_line f) line (p_status (lr_product st)) k" using l s(3) by auto
    then have ng: "p_status (lr_product st) \<noteq> GOOD" by (auto simp: line_shape_def)
    show ?thesis
      using k ng False consume_materials_facts [OF cm] i s lf l line es
      by (cases "p_status (lr_product st)") (auto simp add: cycle_outcome_def e f2_def factory_bal_def)
  qed
qed

text \<open>A single unit on the shelf is shipped whenever an order is open.\<close>

lemma process_shipments_empty: "process_shipments os 0 r = (os, 0, r)"
  by (induction os) simp_all

lemma process_shipments_one:
  "process_shipments os 1 r = (os', fg', r') \<Longrightarrow> \<forall>od\<in>set os. order_ok od \<Longrightarrow> \<exists>od\<in>set os. \<not> co_is_complete od \<Longrightarrow> fg' = 0"
proof (induction os arbitrary: r os' fg' r')
  case (Cons od os)
  show ?case
  proof (cases "co_is_complete od")
    case True
    obtain os2 fg2 r2 where 2: "process_shipments os 1 r = (os2, fg2, r2)" by (metis prod_cases3)
    have "fg2 = 0" by (rule Cons.IH [OF 2]) (use Cons.prems True in auto)
    then show ?thesis using Cons.prems(1) True by (simp add: 2)
  next
    case False
    have "1 \<le> fst (rand_randint 1 3 r)" by (rule rand_randint_bounds) simp
    then have "min (min (fst (rand_randint 1 3 r)) 1) (co_remaining od) = 1"
      using False by (simp add: co_is_complete_def co_remaining_def)
    then show ?thesis using Cons.prems(1) False by (simp add: case_prod_unfold Let_def process_shipments_empty)
  qed
qed simp

lemma good_unit_leaves:
  assumes run: "factory_run_cycle f r = (c, f', r')" and inv: "factory_bal d f" and shelf: "f_fg_stock f = 0"
    and open_order: "\<exists>od\<in>set (f_orders f). \<not> co_is_complete od"
  shows "f_fg_stock f' = 0"
proof (cases "p_status (cr_product c) = GOOD")
  case True
  obtain p0 si f1 r1 where sc: "start_cycle f r = (p0, si, f1, r1)" by (metis prod_cases4)
  let ?st = "\<lparr> lr_product = p0, lr_readings = [], lr_factory = f1, lr_rng = r1 \<rparr>"
  obtain line st where rl: "run_line (effective_factor si) 0 (f_line f1) ?st = (line, st)" by fastforce
  note s = start_cycle_facts [OF sc]
  have "p_status (lr_product ?st) = IN_PROCESS" using s(1) by simp
  note l = run_line_facts [OF rl this, simplified]
  have ip: "p_status (lr_product st) = IN_PROCESS"
  proof (rule ccontr)
    assume n: "p_status (lr_product st) \<noteq> IN_PROCESS"
    then have "cr_product c = lr_product st"
      using run by (auto simp: factory_run_cycle_def sc rl Let_def case_prod_unfold)
    moreover have "p_status (lr_product st) \<noteq> GOOD" using l by (auto simp: line_shape_def)
    ultimately show False using True by simp
  qed
  let ?f2 = "(lr_factory st)\<lparr>f_line := line\<rparr>"
  obtain p f3 r3 where cp: "complete_product (lr_product st) ?f2 (lr_rng st) = (p, f3, r3)" by (metis prod_cases3)
  have fr: "line_frame f1 (lr_factory st)" using l by simp
  note lf = line_frame_fields [OF fr]
  have f2: "f_fg_stock ?f2 = 0" "f_orders ?f2 = f_orders f" using lf s shelf by simp_all
  obtain os fg r5 where ps: "process_shipments (f_orders f) 1 (lr_rng st) = (os, fg, r5)" by (metis prod_cases3)
  have "fg = 0" by (rule process_shipments_one [OF ps _ open_order]) (use inv in \<open>simp add: factory_bal_def\<close>)
  then have "f_fg_stock f3 = 0"
    using cp ps f2 by (auto simp: complete_product_def Let_def case_prod_unfold factory_emit_def)
  then show ?thesis using run cp ip by (auto simp: factory_run_cycle_def sc rl Let_def case_prod_unfold)
next
  case False
  then show ?thesis using factory_run_cycle_facts [OF run inv] shelf by (simp add: cycle_outcome_def)
qed

section \<open>Reachable factories\<close>

text \<open>
  Besides its own cycles, a factory changes when the runtime or an agent works on a
  station (breakdown, repair, speed, sensor shock, tool wear), raises a material's stock,
  books a new order or changes the ambient temperature.
\<close>

inductive factory_step :: "factory \<Rightarrow> factory \<Rightarrow> bool" where
  fs_cycle: "factory_run_cycle f r = (c, f', r') \<Longrightarrow> factory_step f f'"
| fs_station: "i < length (f_line f) \<Longrightarrow> wc_step (f_line f ! i) w \<Longrightarrow> wc_id w = wc_id (f_line f ! i) \<Longrightarrow>
     factory_step f (f\<lparr>f_line := (f_line f)[i := w]\<rparr>)"
| fs_material: "0 \<le> mt_stock m \<Longrightarrow>
     factory_step f (f\<lparr>f_materials := AList.update k m (f_materials f)\<rparr>)"
| fs_materials: "\<forall>km\<in>set ms. 0 \<le> mt_stock (snd km) \<Longrightarrow> factory_step f (f\<lparr>f_materials := ms\<rparr>)"
| fs_order: "0 \<le> co_quantity od \<Longrightarrow> co_delivered od = 0 \<Longrightarrow> factory_step f (f\<lparr>f_orders := f_orders f @ [od]\<rparr>)"
| fs_ambient: "factory_step f (f\<lparr>f_ambient := t\<rparr>)"

inductive factory_reachable :: "factory \<Rightarrow> bool" where
  fr_new: "new_factory uuids walls r = (f, r') \<Longrightarrow> factory_reachable f"
| fr_step: "factory_reachable f \<Longrightarrow> factory_step f f' \<Longrightarrow> factory_reachable f'"

inductive_cases factory_stepE: "factory_step f f'"

lemma init_orders_ok: "init_orders i cs r = (os, r') \<Longrightarrow>
    (\<forall>od\<in>set os. order_ok od \<and> co_delivered od = 0 \<and> 300 \<le> co_quantity od \<and> co_quantity od \<le> 800)
    \<and> length os = length cs"
proof (induction cs arbitrary: i r os r')
  case Nil
  then show ?case by simp
next
  case (Cons a cs)
  obtain name code where a: "a = (name, code)" by fastforce
  obtain q r1 where q: "rand_randint 300 800 r = (q, r1)" by fastforce
  obtain os1 r2 where o: "init_orders (Suc i) cs r1 = (os1, r2)" by fastforce
  have "300 \<le> q" "q \<le> 800" using rand_randint_bounds [of 300 800 r] q by simp_all
  with Cons.IH [OF o] Cons.prems q o show ?case by (auto simp: a order_ok_def)
qed

lemma production_line_reachable: "\<forall>w\<in>set create_production_line. wc_reachable w"
  by (simp add: create_production_line_def create_blanking_press_def create_forming_press_def
      create_spot_welder_def create_heat_treatment_def create_cnc_machine_def create_assembly_station_def
      wr_new)

lemma delivered_zero: "\<forall>od\<in>set os. co_delivered od = 0 \<Longrightarrow> sum_list (map co_delivered os) = 0"
  by (induction os) auto

lemma new_factory_inv:
  assumes "new_factory uuids walls r = (f, r')"
  shows "factory_inv f" "f_cycle f = 0" "f_shift f = new_shift_manager"
proof -
  obtain os r1 where o: "init_orders 0 order_customers r = (os, r1)" by fastforce
  have ms: "\<forall>(k, m)\<in>set initial_materials. 0 \<le> mt_stock m"
    by (simp add: initial_materials_def new_material_def)
  show "factory_inv f" "f_cycle f = 0" "f_shift f = new_shift_manager"
    using assms o init_orders_ok [OF o] production_line_reachable new_event_store_ok ms
    by (auto simp: new_factory_def factory_bal_def case_prod_unfold Let_def delivered_zero)
qed

lemma map_update_id: "i < length xs \<Longrightarrow> g y = g (xs ! i) \<Longrightarrow> map g (xs[i := y]) = map g xs"
  by (metis list_update_id map_update)

lemma factory_step_inv: "factory_step f f' \<Longrightarrow> factory_bal d f \<Longrightarrow> factory_bal d f'"
proof (induction rule: factory_step.induct)
  case (fs_cycle f r c f' r')
  then show ?case using factory_run_cycle_facts by blast
next
  case (fs_station i f w)
  then have "wc_reachable w" by (auto simp: factory_bal_def intro: wr_step)
  with fs_station show ?case
    by (auto simp: factory_bal_def map_update_id dest!: set_update_subset_insert [THEN subsetD])
next
  case (fs_material m k f)
  then show ?case by (auto simp: factory_bal_def dest!: set_AList_update [THEN subsetD])
next
  case (fs_materials ms f)
  then show ?case by (auto simp: factory_bal_def)
next
  case (fs_order od f)
  then show ?case by (auto simp: factory_bal_def order_ok_def)
next
  case (fs_ambient f t)
  then show ?case by (simp add: factory_bal_def)
qed

lemma factory_reachable_inv: "factory_reachable f \<Longrightarrow> factory_inv f"
  by (induction rule: factory_reachable.induct) (blast intro: new_factory_inv factory_step_inv)+

lemma shift_advance_closed:
  "(shift_advance ^^ n) new_shift_manager =
     \<lparr> sm_idx = n div 320 mod 3, sm_hour = n mod 320 div 40, sm_cycle_count = n mod 320, sm_changes = n div 320 \<rparr>"
proof (induction n)
  case 0
  then show ?case by (simp add: new_shift_manager_def)
next
  case (Suc n)
  have st: "(shift_advance ^^ Suc n) new_shift_manager = shift_advance
     \<lparr> sm_idx = n div 320 mod 3, sm_hour = n mod 320 div 40, sm_cycle_count = n mod 320, sm_changes = n div 320 \<rparr>"
    by (simp only: funpow.simps o_apply Suc.IH)
  show ?case
  proof (cases "Suc n mod 320 = 0")
    case True
    then have "n mod 320 = 319" by (simp add: mod_Suc split: if_splits)
    moreover have "Suc n div 320 = Suc (n div 320)" using True by (simp add: div_Suc)
    ultimately have m: "n mod 320 = 319" "Suc n div 320 = Suc (n div 320)" by simp_all
    then show ?thesis using True unfolding st
      by (simp add: shift_advance_def Let_def all_shifts_def mod_Suc_eq)
  next
    case False
    then have m: "Suc n mod 320 = Suc (n mod 320)" "Suc n div 320 = n div 320"
      by (simp add: mod_Suc split: if_splits) (simp add: div_Suc False)
    have "Suc n mod 320 < 320" by simp
    then have "Suc (n mod 320) < 320" using m(1) by simp
    then have "Suc (n mod 320) div 40 < 8" by (simp add: less_mult_imp_div_less)
    with m show ?thesis unfolding st by (simp add: shift_advance_def Let_def)
  qed
qed

section \<open>Properties\<close>

definition demo_factory :: factory where
  "demo_factory = fst (new_factory (\<lambda>_. ''u'') (\<lambda>_. ''t'') demo_rng)"

lemma demo_factory_reachable: "factory_reachable demo_factory"
  unfolding demo_factory_def by (rule fr_new) (rule prod.collapse [symmetric])

text \<open>
  C8 (\<open>run_cycle_outcome\<close>). One production cycle from any reachable factory ends with a
  definite verdict for its product: GOOD exactly when every station passed it; HOLD with
  all stations before the stopped one passed and the stopped one and all later ones
  untouched; REWORK or SCRAP with one failing station, later ones untouched. Exactly the
  matching counter grows by one (none for HOLD), and only a GOOD product can change the
  stock and the orders.
\<close>

theorem run_cycle_outcome:
  assumes "factory_reachable f" "factory_run_cycle f r = (c, f', r')"
  shows "cycle_outcome f f' (cr_product c) \<and> f_cycle f' = Suc (f_cycle f)
    \<and> p_serial (cr_product c) = ''SN-'' @ pad_nat 6 (Suc (f_cycle f))"
  using factory_run_cycle_facts [OF assms(2) factory_reachable_inv [OF assms(1)]] by blast

theorem run_cycle_outcome_witness:
  "p_status (cr_product (fst (factory_run_cycle demo_factory demo_rng))) \<noteq> IN_PROCESS"
proof -
  let ?e = "factory_run_cycle demo_factory demo_rng"
  have "?e = (fst ?e, fst (snd ?e), snd (snd ?e))" by simp
  from run_cycle_outcome [OF demo_factory_reachable this] show ?thesis
    by (auto simp: cycle_outcome_def)
qed

text \<open>
  C5 (\<open>factory_conserves\<close>). In every reachable factory no unit is lost: finished stock plus
  everything delivered equals the number produced, which is the number of finished
  products; produced, scrapped and reworked products together never exceed the cycles;
  stock and materials are never negative, no order is over-delivered, at most 2500
  business events are kept, and the buffers between stations are always empty.
\<close>

theorem factory_conserves:
  assumes "factory_reachable f"
  shows "f_fg_stock f + sum_list (map co_delivered (f_orders f)) = int (f_total_produced f)
    \<and> length (f_finished f) = f_total_produced f
    \<and> f_total_produced f + f_scrap f + f_rework f \<le> f_cycle f
    \<and> 0 \<le> f_fg_stock f \<and> (\<forall>(k, m)\<in>set (f_materials f). 0 \<le> mt_stock m)
    \<and> (\<forall>od\<in>set (f_orders f). 0 \<le> co_delivered od \<and> co_delivered od \<le> co_quantity od)
    \<and> length (es_q (f_events f)) \<le> 2500 \<and> (\<forall>b\<in>set (f_wip f). wb_count b = 0)"
  using factory_reachable_inv [OF assms]
  by (simp add: factory_bal_def es_ok_def order_ok_def wb_count_def)

theorem factory_conserves_witness:
  "let f = fst (snd (factory_run_cycle demo_factory demo_rng))
   in f_fg_stock f + sum_list (map co_delivered (f_orders f)) = int (f_total_produced f)"
proof -
  let ?e = "factory_run_cycle demo_factory demo_rng"
  have "?e = (fst ?e, fst (snd ?e), snd (snd ?e))" by simp
  then have "factory_reachable (fst (snd ?e))" by (rule fr_step [OF demo_factory_reachable fs_cycle])
  from factory_conserves [OF this] show ?thesis by (simp add: Let_def)
qed

text \<open>
  \<open>shift_rotation\<close>. After any number of cycles the shift manager is in the state its
  arithmetic promises: a new shift every 320 cycles, in the order day A, day B, night,
  and the hour within the shift is the quotient by 40.
\<close>

theorem shift_rotation:
  "(shift_advance ^^ n) new_shift_manager =
     \<lparr> sm_idx = n div 320 mod 3, sm_hour = n mod 320 div 40, sm_cycle_count = n mod 320, sm_changes = n div 320 \<rparr>
   \<and> si_shift (shift_current ((shift_advance ^^ n) new_shift_manager)) = all_shifts ! (n div 320 mod 3)"
  using shift_advance_closed [of n]
  by (simp add: shift_current_def Let_def case_prod_unfold)

text \<open>
  \<open>factory_oee_is_yield\<close>. In every reachable factory the average OEE of the line is
  between 0 and 1 and is the average of the stations' quality figures alone.
\<close>

theorem factory_oee_is_yield:
  assumes "factory_reachable f"
  shows "0 \<le> line_avg_oee f \<and> line_avg_oee f \<le> 1
    \<and> line_avg_oee f = list_avg (map (\<lambda>w. o_quality (wc_oee w)) (f_line f))"
proof -
  have inv: "factory_inv f" using assms by (rule factory_reachable_inv)
  have wf: "\<forall>w\<in>set (f_line f). wc_wf w" using inv by (simp add: factory_bal_def wc_reachable_wf)
  have "length (map wc_id (f_line f)) = 6" using inv by (simp only: factory_bal_def) (simp add: create_production_line_def)
  then have ne: "f_line f \<noteq> []" by auto
  have "map (\<lambda>s. o_oee (wc_oee s)) (f_line f) = map (\<lambda>w. o_quality (wc_oee w)) (f_line f)"
    using wf wf_availability_performance by (simp add: wc_oee_def)
  then have "line_avg_oee f = list_avg (map (\<lambda>w. o_quality (wc_oee w)) (f_line f))"
    unfolding line_avg_oee_def by (rule arg_cong)
  moreover have "0 \<le> o_oee (wc_oee w)" "o_oee (wc_oee w) \<le> 1" if "w \<in> set (f_line f)" for w
    using wc_oee_bounds [of w] wf that by auto
  with ne have "0 \<le> line_avg_oee f" "line_avg_oee f \<le> 1"
    unfolding line_avg_oee_def by (auto intro!: list_avg_lower list_avg_upper)
  ultimately show ?thesis by blast
qed

theorem factory_oee_is_yield_witness: "line_avg_oee demo_factory \<le> 1"
  using factory_oee_is_yield [OF demo_factory_reachable] by simp

end
