(* ===== verification/Ledger.thy ===== *)
theory Ledger
  imports Py_Values
begin

text \<open>
  The contract shared by everything that hands units out: the finished goods warehouse
  and the customer orders. A withdrawal never hands out more than it has or was asked
  for, and what it hands out is exactly what the balance loses.
\<close>

locale stock_ledger =
  fixes balance :: "'s \<Rightarrow> int"
    and withdraw :: "int \<Rightarrow> 's \<Rightarrow> int \<times> 's"
    and ok :: "'s \<Rightarrow> bool"
  assumes withdraw_taken: "ok s \<Longrightarrow> 0 \<le> q \<Longrightarrow> 0 \<le> fst (withdraw q s) \<and> fst (withdraw q s) \<le> q"
    and withdraw_balance: "ok s \<Longrightarrow> 0 \<le> q \<Longrightarrow> balance (snd (withdraw q s)) = balance s - fst (withdraw q s)"
    and withdraw_ok: "ok s \<Longrightarrow> 0 \<le> q \<Longrightarrow> ok (snd (withdraw q s))"
    and ok_balance: "ok s \<Longrightarrow> 0 \<le> balance s"
begin

text \<open>A sequence of withdrawals and the total handed out.\<close>

fun withdraw_all :: "int list \<Rightarrow> 's \<Rightarrow> int \<times> 's" where
  "withdraw_all [] s = (0, s)"
| "withdraw_all (q # qs) s =
     (let (a, s1) = withdraw q s; (b, s2) = withdraw_all qs s1 in (a + b, s2))"

lemma withdraw_all_conserves:
  "ok s \<Longrightarrow> \<forall>q\<in>set qs. 0 \<le> q \<Longrightarrow>
     balance (snd (withdraw_all qs s)) + fst (withdraw_all qs s) = balance s
     \<and> 0 \<le> fst (withdraw_all qs s) \<and> ok (snd (withdraw_all qs s))"
proof (induction qs arbitrary: s)
  case Nil
  then show ?case by simp
next
  case (Cons q qs)
  then have q: "0 \<le> q" and s: "ok s" by simp_all
  from Cons.IH [OF withdraw_ok [OF s q]] Cons.prems(2)
  have "balance (snd (withdraw_all qs (snd (withdraw q s)))) + fst (withdraw_all qs (snd (withdraw q s)))
      = balance (snd (withdraw q s))
    \<and> 0 \<le> fst (withdraw_all qs (snd (withdraw q s))) \<and> ok (snd (withdraw_all qs (snd (withdraw q s))))"
    by simp
  then show ?case using withdraw_taken [OF s q] withdraw_balance [OF s q]
    by (auto simp: case_prod_unfold Let_def)
qed

lemma withdraw_all_bounded:
  "ok s \<Longrightarrow> \<forall>q\<in>set qs. 0 \<le> q \<Longrightarrow> fst (withdraw_all qs s) \<le> balance s"
  using withdraw_all_conserves [of s qs] ok_balance [of "snd (withdraw_all qs s)"] by simp

end

end
