(* ===== verification/Py_Text.thy ===== *)
theory Py_Text
  imports Py_Values "HOL-Library.List_Lexorder"
begin

text \<open>
  Python's text formatting: fixed-point and percentage fields of f-strings, \<open>str\<close> of
  scalar values. \<open>repr\<close> of a float is its exact decimal form (the program formats only
  values it has rounded to a few digits).
\<close>

definition fmt_fixed :: "nat \<Rightarrow> real \<Rightarrow> string" where
  "fmt_fixed n x =
     (let a = nat \<bar>round_half_even (x * 10 ^ n)\<bar>
      in (if x < 0 then ''-'' else '''') @ show_nat (a div 10 ^ n)
         @ (if n = 0 then '''' else ''.'' @ pad_nat n (a mod 10 ^ n)))"

definition fmt_pct :: "nat \<Rightarrow> real \<Rightarrow> string" where
  "fmt_pct n x = fmt_fixed n (x * 100) @ ''%''"

definition is_decimal :: "real \<Rightarrow> nat \<Rightarrow> bool" where
  "is_decimal x n \<longleftrightarrow> of_int \<lfloor>x * 10 ^ n\<rfloor> = x * 10 ^ n"

definition repr_float :: "real \<Rightarrow> string" where
  "repr_float x = (case find (is_decimal x) [1..<17] of Some n \<Rightarrow> fmt_fixed n x | None \<Rightarrow> fmt_fixed 17 x)"

text \<open>\<open>str(v)\<close> of a scalar; containers are never formatted by the modelled code.\<close>

fun py_str :: "pyval \<Rightarrow> string" where
  "py_str PNone = ''None''"
| "py_str (PBool b) = (if b then ''True'' else ''False'')"
| "py_str (PInt i) = show_int i"
| "py_str (PFloat x) = repr_float x"
| "py_str (PStr s) = s"
| "py_str (PList _) = ''[...]''"
| "py_str (PDict _) = ''{...}''"

text \<open>A fixed-point field \<open>f"{v:.nf}"\<close> of a dynamic value.\<close>

fun fmt_fixed_val :: "nat \<Rightarrow> pyval \<Rightarrow> string result" where
  "fmt_fixed_val n (PFloat x) = Inr (fmt_fixed n x)"
| "fmt_fixed_val n (PInt i) = Inr (fmt_fixed n (of_int i))"
| "fmt_fixed_val n (PBool b) = Inr (fmt_fixed n (if b then 1 else 0))"
| "fmt_fixed_val n (PStr s) = Inl ValueError"
| "fmt_fixed_val n _ = Inl TypeError"

text \<open>A percentage field \<open>f"{v:.n%}"\<close>.\<close>

definition fmt_pct_val :: "nat \<Rightarrow> pyval \<Rightarrow> string result" where
  "fmt_pct_val n v = bindR (fmt_fixed_val n v) (\<lambda>_. bindR (py_num v) (\<lambda>x. Inr (fmt_pct n x)))"

text \<open>An integer field \<open>f"{v:0wd}"\<close> and the \<open>max\<close> of two strings (by code points).\<close>

definition pad_int :: "nat \<Rightarrow> int \<Rightarrow> string" where
  "pad_int w i = (if i < 0 then CHR ''-'' # pad_nat (w - 1) (nat (- i)) else pad_nat w (nat i))"

fun int_field :: "pyval \<Rightarrow> int result" where
  "int_field (PInt i) = Inr i"
| "int_field (PBool b) = Inr (if b then 1 else 0)"
| "int_field (PFloat x) = Inl ValueError"
| "int_field _ = Inl TypeError"

definition str_less :: "string \<Rightarrow> string \<Rightarrow> bool" where
  "str_less a b \<longleftrightarrow> (map of_char a :: nat list) < map of_char b"

definition str_max :: "string \<Rightarrow> string \<Rightarrow> string" where
  "str_max a b = (if str_less a b then b else a)"

text \<open>Numeric fields of a dictionary: \<open>d.get(k, default)\<close> used as a number.\<close>

definition num_at :: "dict \<Rightarrow> string \<Rightarrow> real \<Rightarrow> real result" where
  "num_at d k dflt = py_num (dget_or d k (PFloat dflt))"

text \<open>\<open>d[k]\<close>.\<close>

definition item_at :: "dict \<Rightarrow> string \<Rightarrow> pyval result" where
  "item_at d k = (case dget d k of Some v \<Rightarrow> Inr v | None \<Rightarrow> Inl KeyError)"

text \<open>The receiver of a \<open>.get\<close> or \<open>.items()\<close> call: anything but a dictionary raises.\<close>

fun as_dict :: "pyval \<Rightarrow> dict result" where
  "as_dict (PDict d) = Inr d"
| "as_dict _ = Inl AttributeError"

definition dict_at :: "dict \<Rightarrow> string \<Rightarrow> dict result" where
  "dict_at d k = as_dict (dget_or d k (PDict []))"

text \<open>Iterating: only lists are iterated by the modelled code.\<close>

fun as_list :: "pyval \<Rightarrow> pyval list result" where
  "as_list (PList xs) = Inr xs"
| "as_list _ = Inl TypeError"

text \<open>A loop that carries a state and may raise.\<close>

fun foldR :: "('a \<Rightarrow> 's \<Rightarrow> 's result) \<Rightarrow> 'a list \<Rightarrow> 's \<Rightarrow> 's result" where
  "foldR f [] s = Inr s"
| "foldR f (x # xs) s = bindR (f x s) (foldR f xs)"

lemma foldR_append: "foldR f (xs @ ys) s = bindR (foldR f xs s) (foldR f ys)"
  by (induction xs arbitrary: s) (auto simp: bindR_def split: sum.split)

text \<open>Loop rule: an invariant that every successful step keeps.\<close>

lemma foldR_invariant:
  assumes "foldR f xs s = Inr s'" and "I s"
    and "\<And>x t t'. x \<in> set xs \<Longrightarrow> I t \<Longrightarrow> f x t = Inr t' \<Longrightarrow> I t'"
  shows "I s'"
  using assms by (induction xs arbitrary: s) (auto simp: bindR_Inr_iff)

end
