(* ===== verification/Business.thy ===== *)
theory Business
  imports Ledger Py_Text Factory
begin

text \<open>
  \<open>mas/domain/inventory.py\<close> (the finished goods warehouse and its dynamic safety stock),
  \<open>mas/domain/demand.py\<close> (customer orders and the demand forecast),
  \<open>mas/domain/production.py\<close> (measurements and production orders) and
  \<open>mas/domain/manufacturing_env.py\<close> (the scenario environment that ties a factory, a
  warehouse and a demand model together). \<open>math.sqrt\<close> and \<open>math.log\<close> are HOL's \<open>sqrt\<close>
  and \<open>ln\<close>.
\<close>

section \<open>Finished goods warehouse\<close>

record shipment_record =
  sr_cycle :: int
  sr_customer :: string
  sr_requested :: int
  sr_shipped :: int
  sr_shortfall :: int

record warehouse =
  wh_stock :: int
  wh_safety_stock :: int
  wh_service_level_target :: real
  wh_demand_std :: real
  wh_leadtime_mean :: real
  wh_leadtime_std :: real
  wh_avg_demand :: real
  wh_stock_history :: "int list"
  wh_ss_history :: "int list"
  wh_sl_history :: "real list"
  wh_shipments :: "shipment_record list"
  wh_total_requested :: int
  wh_total_shipped :: int

definition new_warehouse :: warehouse where
  "new_warehouse =
     \<lparr> wh_stock = 50, wh_safety_stock = 45, wh_service_level_target = 95 / 100, wh_demand_std = 1 / 2,
       wh_leadtime_mean = 3, wh_leadtime_std = 1 / 2, wh_avg_demand = 1, wh_stock_history = [],
       wh_ss_history = [], wh_sl_history = [], wh_shipments = [], wh_total_requested = 0,
       wh_total_shipped = 0 \<rparr>"

definition wh_receive :: "int \<Rightarrow> warehouse \<Rightarrow> warehouse" where
  "wh_receive qty w = w\<lparr>wh_stock := wh_stock w + qty\<rparr>"

definition wh_ship :: "string \<Rightarrow> int \<Rightarrow> int \<Rightarrow> warehouse \<Rightarrow> int \<times> warehouse" where
  "wh_ship customer qty cyc w =
     (let actual = min qty (wh_stock w); shortfall = qty - actual
      in (actual,
          w\<lparr> wh_stock := wh_stock w - actual,
             wh_total_requested := wh_total_requested w + qty,
             wh_total_shipped := wh_total_shipped w + actual,
             wh_shipments := wh_shipments w @
               [\<lparr> sr_cycle = cyc, sr_customer = customer, sr_requested = qty, sr_shipped = actual,
                  sr_shortfall = shortfall \<rparr>] \<rparr>))"

definition wh_service_level :: "warehouse \<Rightarrow> real" where
  "wh_service_level w = (if wh_total_requested w = 0 then 1
     else py_round 4 (of_int (wh_total_shipped w) / of_int (wh_total_requested w)))"

definition wh_stock_above_ss :: "warehouse \<Rightarrow> int" where
  "wh_stock_above_ss w = wh_stock w - wh_safety_stock w"

definition wh_ss_breach :: "warehouse \<Rightarrow> bool" where
  "wh_ss_breach w \<longleftrightarrow> wh_stock w < wh_safety_stock w"

definition z_score :: "real \<Rightarrow> real" where
  "z_score service_level =
     (let p = max (50 / 100) (min (999 / 1000) service_level);
          t = sqrt (- 2 * ln (1 - p));
          c0 = 2515517 / 1000000; c1 = 802853 / 1000000; c2 = 10328 / 1000000;
          d1 = 1432788 / 1000000; d2 = 189269 / 1000000; d3 = 1308 / 1000000;
          z = t - (c0 + c1 * t + c2 * t * t) / (1 + d1 * t + d2 * t * t + d3 * t * t * t)
      in py_round 4 z)"

definition ss_components :: "warehouse \<Rightarrow> real \<times> real" where
  "ss_components w = (wh_leadtime_mean w * wh_demand_std w ^ 2, wh_avg_demand w ^ 2 * wh_leadtime_std w ^ 2)"

definition recalculate_safety_stock :: "warehouse \<Rightarrow> dict \<times> warehouse" where
  "recalculate_safety_stock w =
     (let z = z_score (wh_service_level_target w);
          (dc, sc) = ss_components w;
          ss_raw = z * sqrt (dc + sc);
          new_ss = max 5 (round_half_even ss_raw)
      in ([(''old_ss'', PInt (wh_safety_stock w)), (''new_ss'', PInt new_ss),
           (''z_score'', PFloat (py_round 3 z)),
           (''demand_component'', PFloat (py_round 3 dc)), (''supply_component'', PFloat (py_round 3 sc)),
           (''formula_inputs'', PDict
              [(''service_level'', PFloat (wh_service_level_target w)),
               (''demand_std'', PFloat (py_round 3 (wh_demand_std w))),
               (''leadtime_mean'', PFloat (py_round 3 (wh_leadtime_mean w))),
               (''leadtime_std'', PFloat (py_round 3 (wh_leadtime_std w))),
               (''avg_demand'', PFloat (py_round 3 (wh_avg_demand w)))])],
          w\<lparr>wh_safety_stock := new_ss\<rparr>))"

definition wh_record_snapshot :: "warehouse \<Rightarrow> warehouse" where
  "wh_record_snapshot w = w\<lparr> wh_stock_history := wh_stock_history w @ [wh_stock w],
     wh_ss_history := wh_ss_history w @ [wh_safety_stock w],
     wh_sl_history := wh_sl_history w @ [wh_service_level w] \<rparr>"

definition wh_get_snapshot :: "warehouse \<Rightarrow> dict" where
  "wh_get_snapshot w =
     [(''stock'', PInt (wh_stock w)), (''safety_stock'', PInt (wh_safety_stock w)),
      (''service_level'', PFloat (wh_service_level w)), (''ss_breach'', PBool (wh_ss_breach w)),
      (''stock_above_ss'', PInt (wh_stock_above_ss w)),
      (''total_requested'', PInt (wh_total_requested w)), (''total_shipped'', PInt (wh_total_shipped w))]"

section \<open>Demand\<close>

datatype demand_priority = DP_NORMAL | DP_URGENT
datatype order_status = OPEN | PARTIAL | FULFILLED | LATE

record demand_order =
  do_id :: string
  do_customer :: string
  do_quantity :: int
  do_due_date :: string
  do_priority :: demand_priority
  do_fulfilled :: int
  do_status :: order_status

definition do_remaining :: "demand_order \<Rightarrow> int" where
  "do_remaining d = max 0 (do_quantity d - do_fulfilled d)"

definition do_fill_rate :: "demand_order \<Rightarrow> real" where
  "do_fill_rate d = py_round 1 (of_int (do_fulfilled d) / of_int (max (do_quantity d) 1) * 100)"

definition do_ship :: "int \<Rightarrow> demand_order \<Rightarrow> int \<times> demand_order" where
  "do_ship qty d =
     (let actual = min qty (do_remaining d);
          d1 = d\<lparr>do_fulfilled := do_fulfilled d + actual\<rparr>
      in (actual,
          if do_fulfilled d1 \<ge> do_quantity d1 then d1\<lparr>do_status := FULFILLED\<rparr>
          else if do_fulfilled d1 > 0 then d1\<lparr>do_status := PARTIAL\<rparr> else d1))"

record demand_event =
  de_trigger_cycle :: int
  de_type :: string
  de_order :: "demand_order option"
  de_description :: string

record demand_model =
  dm_orders :: "demand_order list"
  dm_events :: "demand_event list"
  dm_demand_history :: "real list"
  dm_forecast_history :: "real list"
  dm_forecast_errors :: "real list"
  dm_base_rate :: real

definition new_demand_model :: demand_model where
  "new_demand_model = \<lparr> dm_orders = [], dm_events = [], dm_demand_history = [], dm_forecast_history = [],
     dm_forecast_errors = [], dm_base_rate = 80 \<rparr>"

definition dm_total_demand :: "demand_model \<Rightarrow> int" where
  "dm_total_demand m = (\<Sum>d\<leftarrow>dm_orders m. do_quantity d)"

definition dm_total_remaining :: "demand_model \<Rightarrow> int" where
  "dm_total_remaining m = (\<Sum>d\<leftarrow>dm_orders m. do_remaining d)"

definition do_is_open :: "demand_order \<Rightarrow> bool" where
  "do_is_open d \<longleftrightarrow> do_status d \<in> {OPEN, PARTIAL}"

definition dm_open_orders :: "demand_model \<Rightarrow> demand_order list" where
  "dm_open_orders m = filter do_is_open (dm_orders m)"

definition dm_add_order :: "demand_order \<Rightarrow> demand_model \<Rightarrow> demand_model" where
  "dm_add_order d m = m\<lparr>dm_orders := dm_orders m @ [d]\<rparr>"

definition schedule_event :: "demand_event \<Rightarrow> demand_model \<Rightarrow> demand_model" where
  "schedule_event e m = m\<lparr>dm_events := dm_events m @ [e]\<rparr>"

definition trigger_event :: "demand_event \<Rightarrow> demand_model \<Rightarrow> demand_model" where
  "trigger_event e m = (if de_type e = ''new_order''
     then (case de_order e of Some d \<Rightarrow> dm_add_order d m | None \<Rightarrow> m) else m)"

definition check_events :: "int \<Rightarrow> demand_model \<Rightarrow> demand_event list \<times> demand_model" where
  "check_events cyc m =
     (let triggered = filter (\<lambda>e. de_trigger_cycle e = cyc) (dm_events m);
          m1 = m\<lparr>dm_events := filter (\<lambda>e. de_trigger_cycle e \<noteq> cyc) (dm_events m)\<rparr>
      in (triggered, fold trigger_event triggered m1))"

definition record_actual_demand :: "real \<Rightarrow> demand_model \<Rightarrow> demand_model" where
  "record_actual_demand q m = m\<lparr>dm_demand_history := dm_demand_history m @ [q]\<rparr>"

definition forecast_demand_rate :: "demand_model \<Rightarrow> real \<times> demand_model" where
  "forecast_demand_rate m =
     (if length (dm_demand_history m) < 3 then (dm_base_rate m / 80, m)
      else (let forecast = list_avg (last_n 5 (dm_demand_history m));
                m1 = m\<lparr>dm_forecast_history := dm_forecast_history m @ [forecast]\<rparr>
            in (forecast,
                if length (dm_demand_history m) \<ge> 5
                then m1\<lparr>dm_forecast_errors := dm_forecast_errors m @ [\<bar>last (dm_demand_history m) - forecast\<bar>]\<rparr>
                else m1)))"

definition dm_demand_std :: "demand_model \<Rightarrow> real" where
  "dm_demand_std m =
     (if length (dm_demand_history m) < 5 then 1 / 2
      else (let recent = last_n 10 (dm_demand_history m); mean = list_avg recent
            in max (1 / 10) (sqrt (list_avg (map (\<lambda>x. (x - mean) ^ 2) recent)))))"

definition dm_forecast_accuracy :: "demand_model \<Rightarrow> real" where
  "dm_forecast_accuracy m =
     (if dm_forecast_errors m = [] \<or> dm_forecast_history m = [] then 85 / 100
      else (let avg_error = list_avg (last_n 10 (dm_forecast_errors m));
                avg_forecast = list_avg (last_n 10 (dm_forecast_history m))
            in if avg_forecast < 1 / 100 then 85 / 100
               else (let mape = avg_error / max avg_forecast (1 / 100)
                     in py_round 3 (max (1 / 2) (min (99 / 100) (1 - mape))))))"

definition dm_avg_demand :: "demand_model \<Rightarrow> real" where
  "dm_avg_demand m = (if dm_demand_history m = [] then 1 else list_avg (last_n 10 (dm_demand_history m)))"

definition dm_get_snapshot :: "demand_model \<Rightarrow> dict" where
  "dm_get_snapshot m =
     [(''total_demand'', PInt (dm_total_demand m)), (''total_remaining'', PInt (dm_total_remaining m)),
      (''open_orders'', PInt (int (length (dm_open_orders m)))),
      (''demand_std'', PFloat (py_round 3 (dm_demand_std m))),
      (''forecast_accuracy'', PFloat (dm_forecast_accuracy m)),
      (''avg_demand_per_cycle'', PFloat (py_round 3 (dm_avg_demand m)))]"

section \<open>Measurements and production orders\<close>

record measurement =
  ms_name :: string
  ms_value :: real
  ms_unit :: string
  ms_nominal :: real
  ms_usl :: real
  ms_lsl :: real

definition ms_in_spec :: "measurement \<Rightarrow> bool" where
  "ms_in_spec m \<longleftrightarrow> ms_lsl m \<le> ms_value m \<and> ms_value m \<le> ms_usl m"

definition ms_deviation :: "measurement \<Rightarrow> real" where
  "ms_deviation m = py_round 4 (ms_value m - ms_nominal m)"

definition ms_margin_pct :: "measurement \<Rightarrow> real" where
  "ms_margin_pct m =
     (let tol = ms_usl m - ms_lsl m in
      if tol < 1 / 1000000000 then (if ms_in_spec m then 100 else 0)
      else (let nearest = min (ms_usl m - ms_value m) (ms_value m - ms_lsl m)
            in py_round 1 (max 0 (nearest / (tol / 2)) * 100)))"

record production_order =
  po_id :: string
  po_part_number :: string
  po_part_name :: string
  po_target_qty :: int
  po_material_spec :: string
  po_material_lot :: string
  po_customer :: string
  po_due_date :: string
  po_produced :: int
  po_good :: int
  po_defect :: int
  po_suspect :: int

definition po_completion_pct :: "production_order \<Rightarrow> real" where
  "po_completion_pct p = py_round 1 (of_int (po_produced p) / of_int (max (po_target_qty p) 1) * 100)"

definition po_yield_rate :: "production_order \<Rightarrow> real" where
  "po_yield_rate p = py_round 2 (of_int (po_good p) / of_int (max (po_produced p) 1) * 100)"

definition po_remaining :: "production_order \<Rightarrow> int" where
  "po_remaining p = max 0 (po_target_qty p - po_produced p)"

section \<open>The scenario environment\<close>

text \<open>The scenario parameters the environment reads.\<close>

record env_scenario =
  sc_warehouse_stock :: int
  sc_warehouse_safety_stock :: int
  sc_service_level_target :: real
  sc_demand_std :: real
  sc_leadtime_mean :: real
  sc_leadtime_std :: real
  sc_avg_demand_per_cycle :: real
  sc_material_steel_stock :: int
  sc_press_baselines :: "(string \<times> real) list"
  sc_shipment_interval :: int
  sc_shipment_batch_size :: int

record manufacturing_env =
  me_scenario :: env_scenario
  me_factory :: factory
  me_warehouse :: warehouse
  me_demand :: demand_model
  me_production_order :: "production_order option"

definition apply_scenario_materials :: "env_scenario \<Rightarrow> factory \<Rightarrow> factory" where
  "apply_scenario_materials sc f = (case map_of (f_materials f) (utf8 [0xAC15, 0xD310]) of
      Some m \<Rightarrow> f\<lparr>f_materials := AList.update (utf8 [0xAC15, 0xD310]) (m\<lparr>mt_stock := sc_material_steel_stock sc\<rparr>) (f_materials f)\<rparr>
    | None \<Rightarrow> f)"

definition apply_scenario_sensors :: "env_scenario \<Rightarrow> factory \<Rightarrow> factory" where
  "apply_scenario_sensors sc f = (case f_line f of
      [] \<Rightarrow> f
    | press # rest \<Rightarrow>
        f\<lparr>f_line := press\<lparr>wc_sensors := fold (\<lambda>(name, b) ss. case map_of ss name of
              Some s \<Rightarrow> AList.update name (s\<lparr> s_baseline := b, s_value := b \<rparr>) ss | None \<Rightarrow> ss)
            (sc_press_baselines sc) (wc_sensors press)\<rparr> # rest\<rparr>)"

definition new_manufacturing_env :: "env_scenario \<Rightarrow> (nat \<Rightarrow> string) \<Rightarrow> (nat \<Rightarrow> string) \<Rightarrow> rng \<Rightarrow> manufacturing_env \<times> rng" where
  "new_manufacturing_env sc uuids walls r =
     (let (f, r1) = new_factory uuids walls r
      in (\<lparr> me_scenario = sc,
            me_factory = apply_scenario_sensors sc (apply_scenario_materials sc f),
            me_warehouse = new_warehouse\<lparr> wh_stock := sc_warehouse_stock sc,
              wh_safety_stock := sc_warehouse_safety_stock sc,
              wh_service_level_target := sc_service_level_target sc, wh_demand_std := sc_demand_std sc,
              wh_leadtime_mean := sc_leadtime_mean sc, wh_leadtime_std := sc_leadtime_std sc,
              wh_avg_demand := sc_avg_demand_per_cycle sc \<rparr>,
            me_demand = new_demand_model, me_production_order = None \<rparr>, r1))"

definition on_good_finished_unit :: "manufacturing_env \<Rightarrow> manufacturing_env" where
  "on_good_finished_unit e =
     (let f = me_factory e
      in e\<lparr> me_warehouse := wh_receive 1 (me_warehouse e),
            me_factory := (if f_fg_stock f > 0 then f\<lparr>f_fg_stock := f_fg_stock f - 1\<rparr> else f) \<rparr>)"

text \<open>One order of the shipping loop; an order that is not open is passed over.\<close>

definition env_ship_order ::
  "env_scenario \<Rightarrow> int \<Rightarrow> demand_order \<Rightarrow> warehouse \<Rightarrow> demand_order \<times> warehouse" where
  "env_ship_order sc cyc d w =
     (if \<not> do_is_open d \<or> do_remaining d \<le> 0 then (d, w)
      else (let qty = min (sc_shipment_batch_size sc) (do_remaining d)
            in if qty \<le> 0 then (d, w)
               else (snd (do_ship qty d), snd (wh_ship (do_customer d) qty cyc w))))"

fun env_ship_loop ::
  "env_scenario \<Rightarrow> int \<Rightarrow> demand_order list \<Rightarrow> warehouse \<Rightarrow> demand_order list \<times> warehouse" where
  "env_ship_loop sc cyc [] w = ([], w)"
| "env_ship_loop sc cyc (d # ds) w =
     (let (d', w1) = env_ship_order sc cyc d w; (ds', w2) = env_ship_loop sc cyc ds w1 in (d' # ds', w2))"

definition env_process_shipments :: "int \<Rightarrow> manufacturing_env \<Rightarrow> manufacturing_env" where
  "env_process_shipments cyc e =
     (let interval = max 1 (sc_shipment_interval (me_scenario e)) in
      if cyc mod interval \<noteq> 0 then e
      else (let (ds, w) = env_ship_loop (me_scenario e) cyc (dm_orders (me_demand e)) (me_warehouse e)
            in e\<lparr> me_demand := (me_demand e)\<lparr>dm_orders := ds\<rparr>, me_warehouse := w \<rparr>))"

definition load_order :: "production_order \<Rightarrow> manufacturing_env \<Rightarrow> manufacturing_env" where
  "load_order p e = e\<lparr>me_production_order := Some p\<rparr>"

definition get_merged_snapshot :: "manufacturing_env \<Rightarrow> dict" where
  "get_merged_snapshot e =
     dset ''warehouse'' (PDict (wh_get_snapshot (me_warehouse e)))
       (dset ''fg_stock'' (PInt (wh_stock (me_warehouse e))) (get_snapshot (me_factory e)))"

section \<open>The ledgers\<close>

interpretation warehouse_ledger: stock_ledger wh_stock "\<lambda>q. wh_ship customer q cyc" "\<lambda>w. 0 \<le> wh_stock w"
  for customer cyc
  by unfold_locales (auto simp: wh_ship_def Let_def)

text \<open>An order hands out what it still has to receive: its balance is the open quantity.\<close>

interpretation order_ledger: stock_ledger do_remaining do_ship "\<lambda>d. do_fulfilled d \<le> do_quantity d"
  by unfold_locales (auto simp: do_ship_def do_remaining_def Let_def)

end
