(* ===== verification/Business_Laws.thy ===== *)
theory Business_Laws
  imports Business
begin

text \<open>
  Properties of the warehouse, the customer orders and the scenario environment: the
  warehouse's accounts under every sequence of its operations, what a shipping run
  credits to the orders against what leaves the warehouse, the events of the demand
  model and the bounds of its forecast figures.
\<close>

section \<open>The warehouse's accounts\<close>

inductive wh_step :: "warehouse \<Rightarrow> int \<Rightarrow> warehouse \<Rightarrow> bool" where
  wh_receive_step: "0 \<le> q \<Longrightarrow> wh_step w q (wh_receive q w)"
| wh_ship_step: "0 \<le> q \<Longrightarrow> wh_step w 0 (snd (wh_ship customer q cyc w))"
| wh_recalculate_step: "wh_step w 0 (snd (recalculate_safety_stock w))"
| wh_snapshot_step: "wh_step w 0 (wh_record_snapshot w)"
| wh_parameters_step: "wh_step w 0
    (w\<lparr>wh_demand_std := ds, wh_leadtime_mean := lm, wh_leadtime_std := ls, wh_avg_demand := ad\<rparr>)"

inductive wh_run :: "warehouse \<Rightarrow> int \<Rightarrow> warehouse \<Rightarrow> bool" where
  wh_run_refl: "wh_run w 0 w"
| wh_run_step: "wh_run w n w1 \<Longrightarrow> wh_step w1 q w2 \<Longrightarrow> wh_run w (n + q) w2"

definition wh_ok :: "warehouse \<Rightarrow> bool" where
  "wh_ok w \<longleftrightarrow> 0 \<le> wh_stock w \<and> 0 \<le> wh_total_shipped w
     \<and> wh_total_requested w - wh_total_shipped w = (\<Sum>s\<leftarrow>wh_shipments w. sr_shortfall s)
     \<and> (\<forall>s\<in>set (wh_shipments w). 0 \<le> sr_shipped s \<and> 0 \<le> sr_shortfall s
          \<and> sr_shipped s + sr_shortfall s = sr_requested s)
     \<and> (\<forall>x\<in>set (wh_sl_history w). 0 \<le> x \<and> x \<le> 1)"

lemma wh_ok_totals:
  assumes "wh_ok w" shows "wh_total_shipped w \<le> wh_total_requested w"
proof -
  have "0 \<le> (\<Sum>s\<leftarrow>wh_shipments w. sr_shortfall s)"
    using assms by (intro sum_list_nonneg) (auto simp: wh_ok_def)
  then show ?thesis using assms by (simp add: wh_ok_def)
qed

lemma wh_service_level_bounds:
  assumes "wh_ok w" shows "0 \<le> wh_service_level w" "wh_service_level w \<le> 1"
proof -
  have "0 \<le> wh_total_shipped w" "wh_total_shipped w \<le> wh_total_requested w"
    using assms wh_ok_totals by (auto simp: wh_ok_def)
  then show "0 \<le> wh_service_level w" "wh_service_level w \<le> 1"
    by (auto simp: wh_service_level_def divide_le_eq intro!: bound_intros)
qed

lemma wh_step_ok:
  assumes "wh_step w q w'" "wh_ok w"
  shows "wh_ok w' \<and> 0 \<le> q \<and> wh_stock w' + wh_total_shipped w' = wh_stock w + wh_total_shipped w + q"
  using assms(1)
proof (cases rule: wh_step.cases)
  case wh_receive_step
  then show ?thesis using assms(2) by (simp add: wh_receive_def wh_ok_def)
next
  case (wh_ship_step p customer cyc)
  then show ?thesis using assms(2) by (auto simp: wh_ship_def wh_ok_def Let_def)
next
  case wh_recalculate_step
  then show ?thesis using assms(2) by (simp add: recalculate_safety_stock_def wh_ok_def Let_def case_prod_unfold)
next
  case wh_snapshot_step
  then show ?thesis using assms(2) wh_service_level_bounds [OF assms(2)]
    by (auto simp: wh_record_snapshot_def wh_ok_def)
next
  case wh_parameters_step
  then show ?thesis using assms(2) by (simp add: wh_ok_def)
qed

lemma wh_run_ok:
  assumes "wh_run w n w'" "wh_ok w"
  shows "wh_ok w' \<and> 0 \<le> n \<and> wh_stock w' + wh_total_shipped w' = wh_stock w + wh_total_shipped w + n"
  using assms
proof (induction rule: wh_run.induct)
  case (wh_run_refl w)
  then show ?case by simp
next
  case (wh_run_step w n w1 q w2)
  then show ?case using wh_step_ok [OF wh_run_step.hyps(2)] by auto
qed

definition demo_warehouse :: warehouse where
  "demo_warehouse = snd (wh_ship ''H'' 60 2 (wh_receive 3 new_warehouse))"

lemma new_warehouse_ok: "wh_ok new_warehouse"
  by (simp add: new_warehouse_def wh_ok_def)

lemma demo_warehouse_run: "wh_run new_warehouse 3 demo_warehouse"
proof -
  have "wh_run new_warehouse (0 + 3) (wh_receive 3 new_warehouse)"
    by (rule wh_run_step [OF wh_run_refl]) (rule wh_receive_step, simp)
  then have "wh_run new_warehouse (0 + 3 + 0) demo_warehouse"
    unfolding demo_warehouse_def by (rule wh_run_step) (rule wh_ship_step, simp)
  then show ?thesis by simp
qed

text \<open>
  C18 (\<open>warehouse_accounts\<close>): whatever sequence of receipts, shipments, safety stock
  recalculations, parameter updates and history entries the warehouse goes through, its
  stock never goes negative, everything received is either still in stock or shipped, the
  requested and unshipped quantity is exactly the sum of the recorded shortfalls, and the
  service level is a fraction between 0 and 1.
\<close>

theorem warehouse_accounts:
  assumes "wh_run w0 received w" "wh_ok w0"
  shows "0 \<le> wh_stock w
    \<and> wh_stock w + wh_total_shipped w = wh_stock w0 + wh_total_shipped w0 + received
    \<and> wh_total_requested w = wh_total_shipped w + (\<Sum>s\<leftarrow>wh_shipments w. sr_shortfall s)
    \<and> wh_total_shipped w \<le> wh_total_requested w
    \<and> 0 \<le> wh_service_level w \<and> wh_service_level w \<le> 1"
proof -
  have ok: "wh_ok w" and s: "wh_stock w + wh_total_shipped w = wh_stock w0 + wh_total_shipped w0 + received"
    using wh_run_ok [OF assms] by auto
  show ?thesis using ok s wh_ok_totals [OF ok] wh_service_level_bounds [OF ok]
    by (simp add: wh_ok_def)
qed

theorem warehouse_accounts_witness:
  "0 \<le> wh_stock demo_warehouse
    \<and> wh_stock demo_warehouse + wh_total_shipped demo_warehouse
      = wh_stock new_warehouse + wh_total_shipped new_warehouse + 3
    \<and> wh_total_requested demo_warehouse
      = wh_total_shipped demo_warehouse + (\<Sum>s\<leftarrow>wh_shipments demo_warehouse. sr_shortfall s)
    \<and> wh_total_shipped demo_warehouse \<le> wh_total_requested demo_warehouse
    \<and> 0 \<le> wh_service_level demo_warehouse \<and> wh_service_level demo_warehouse \<le> 1"
  by (rule warehouse_accounts [OF demo_warehouse_run new_warehouse_ok])

text \<open>
  \<open>safety_stock_recalculated\<close>: a recalculation sets the safety stock to at least five
  units and otherwise to the formula's value rounded to the nearest unit, it reports the
  old and the new level, and it touches nothing else: no stock, no account and no
  parameter.
\<close>

theorem safety_stock_recalculated:
  "(let (report, w') = recalculate_safety_stock w;
        target = z_score (wh_service_level_target w) * sqrt (fst (ss_components w) + snd (ss_components w))
    in 5 \<le> wh_safety_stock w'
       \<and> (5 \<le> target \<longrightarrow> \<bar>of_int (wh_safety_stock w') - target\<bar> \<le> 1 / 2)
       \<and> (target \<le> 5 \<longrightarrow> wh_safety_stock w' = 5)
       \<and> dget report ''old_ss'' = Some (PInt (wh_safety_stock w))
       \<and> dget report ''new_ss'' = Some (PInt (wh_safety_stock w'))
       \<and> w'\<lparr>wh_safety_stock := wh_safety_stock w\<rparr> = w)"
proof -
  define t where "t = z_score (wh_service_level_target w) * sqrt (fst (ss_components w) + snd (ss_components w))"
  have w': "snd (recalculate_safety_stock w) = w\<lparr>wh_safety_stock := max 5 (round_half_even t)\<rparr>"
    by (simp add: recalculate_safety_stock_def t_def Let_def case_prod_unfold)
  have r: "dget (fst (recalculate_safety_stock w)) ''old_ss'' = Some (PInt (wh_safety_stock w))"
       "dget (fst (recalculate_safety_stock w)) ''new_ss'' = Some (PInt (max 5 (round_half_even t)))"
    by (simp_all add: recalculate_safety_stock_def t_def Let_def case_prod_unfold dget_def)
  have a: "5 \<le> t \<Longrightarrow> 5 \<le> round_half_even t" using round_half_even_mono [of 5 t] round_half_even_of_int [of 5] by simp
  have b: "t \<le> 5 \<Longrightarrow> round_half_even t \<le> 5" using round_half_even_mono [of t 5] round_half_even_of_int [of 5] by simp
  show ?thesis
    using a b r w' round_half_even_near [of t]
    by (auto simp: t_def [symmetric] case_prod_unfold Let_def)
qed

text \<open>A concrete instance of the two implications.\<close>

theorem safety_stock_recalculated_witness:
  "(let w = new_warehouse\<lparr> wh_demand_std := 0, wh_leadtime_std := 0 \<rparr>
    in wh_safety_stock (snd (recalculate_safety_stock w)) = 5)"
  using safety_stock_recalculated [of "new_warehouse\<lparr> wh_demand_std := 0, wh_leadtime_std := 0 \<rparr>"]
  by (simp add: case_prod_unfold Let_def ss_components_def new_warehouse_def)

section \<open>Shipping runs\<close>

definition fulfilled_sum :: "demand_order list \<Rightarrow> int" where
  "fulfilled_sum ds = (\<Sum>d\<leftarrow>ds. do_fulfilled d)"

definition do_ok :: "demand_order \<Rightarrow> bool" where
  "do_ok d \<longleftrightarrow> 0 \<le> do_fulfilled d \<and> do_fulfilled d \<le> do_quantity d
     \<and> (do_status d = FULFILLED \<longrightarrow> do_fulfilled d = do_quantity d)"

text \<open>The quantity a run asks the warehouse for on behalf of one order.\<close>

definition shipment_request :: "env_scenario \<Rightarrow> demand_order \<Rightarrow> int" where
  "shipment_request sc d =
     (if do_is_open d then max 0 (min (sc_shipment_batch_size sc) (do_remaining d)) else 0)"

lemma env_ship_order_eq:
  "env_ship_order sc cyc d w =
     (if shipment_request sc d = 0 then (d, w)
      else (snd (do_ship (shipment_request sc d) d), snd (wh_ship (do_customer d) (shipment_request sc d) cyc w)))"
  by (auto simp: env_ship_order_def shipment_request_def Let_def max_def)

lemma shipment_request_bounds: "0 \<le> shipment_request sc d" "shipment_request sc d \<le> do_remaining d"
  by (auto simp: shipment_request_def do_remaining_def)

lemma do_ship_request:
  "do_fulfilled (snd (do_ship (shipment_request sc d) d)) = do_fulfilled d + shipment_request sc d"
  "do_quantity (snd (do_ship (shipment_request sc d) d)) = do_quantity d"
  "do_id (snd (do_ship (shipment_request sc d) d)) = do_id d"
  using shipment_request_bounds (2) [of sc d] by (simp_all add: do_ship_def Let_def min_absorb1)

lemma env_ship_order_fulfilled:
  "do_fulfilled (fst (env_ship_order sc cyc d w)) = do_fulfilled d + shipment_request sc d"
  "do_quantity (fst (env_ship_order sc cyc d w)) = do_quantity d"
  "do_id (fst (env_ship_order sc cyc d w)) = do_id d"
  by (simp_all add: env_ship_order_eq do_ship_request)

lemma env_ship_order_warehouse:
  assumes "0 \<le> wh_stock w"
  shows "wh_total_requested (snd (env_ship_order sc cyc d w)) = wh_total_requested w + shipment_request sc d"
    and "wh_stock (snd (env_ship_order sc cyc d w)) = wh_stock w - min (shipment_request sc d) (wh_stock w)"
    and "wh_total_shipped (snd (env_ship_order sc cyc d w)) = wh_total_shipped w + min (shipment_request sc d) (wh_stock w)"
  using assms by (simp_all add: env_ship_order_eq wh_ship_def Let_def)

lemma env_ship_order_ok: "do_ok d \<Longrightarrow> do_ok (fst (env_ship_order sc cyc d w))"
  using shipment_request_bounds [of sc d]
  by (auto simp: env_ship_order_eq do_ok_def do_ship_def Let_def do_remaining_def shipment_request_def)

lemma env_ship_loop_simp [simp]:
  "fst (env_ship_loop sc cyc (d # ds) w)
     = fst (env_ship_order sc cyc d w) # fst (env_ship_loop sc cyc ds (snd (env_ship_order sc cyc d w)))"
  "snd (env_ship_loop sc cyc (d # ds) w) = snd (env_ship_loop sc cyc ds (snd (env_ship_order sc cyc d w)))"
  by (simp_all add: case_prod_unfold Let_def)

declare env_ship_loop.simps(2) [simp del]

text \<open>The orders' side of a run does not depend on the warehouse.\<close>

lemma env_ship_loop_orders:
  "map (\<lambda>d. (do_id d, do_quantity d, do_fulfilled d)) (fst (env_ship_loop sc cyc ds w))
     = map (\<lambda>d. (do_id d, do_quantity d, do_fulfilled d + shipment_request sc d)) ds"
  by (induction ds arbitrary: w) (simp_all add: env_ship_order_fulfilled)

lemma env_ship_loop_ok:
  "\<forall>d\<in>set ds. do_ok d \<Longrightarrow> \<forall>d\<in>set (fst (env_ship_loop sc cyc ds w)). do_ok d"
  by (induction ds arbitrary: w) (simp_all add: env_ship_order_ok)

lemma env_ship_loop_warehouse:
  assumes "0 \<le> wh_stock w"
  shows "wh_total_requested (snd (env_ship_loop sc cyc ds w))
           = wh_total_requested w + (\<Sum>d\<leftarrow>ds. shipment_request sc d)
    \<and> wh_stock (snd (env_ship_loop sc cyc ds w)) = wh_stock w - min (\<Sum>d\<leftarrow>ds. shipment_request sc d) (wh_stock w)
    \<and> wh_total_shipped (snd (env_ship_loop sc cyc ds w))
        = wh_total_shipped w + min (\<Sum>d\<leftarrow>ds. shipment_request sc d) (wh_stock w)"
  using assms
proof (induction ds arbitrary: w)
  case Nil
  then show ?case by simp
next
  case (Cons d ds)
  define q where "q = shipment_request sc d"
  define r where "r = (\<Sum>d\<leftarrow>ds. shipment_request sc d)"
  have q: "0 \<le> q" and r: "0 \<le> r"
    by (auto simp: q_def r_def shipment_request_bounds intro!: sum_list_nonneg)
  let ?w = "snd (env_ship_order sc cyc d w)"
  note w = env_ship_order_warehouse [OF Cons.prems, of sc cyc d, folded q_def]
  have "0 \<le> wh_stock ?w" using Cons.prems w(2) by simp
  note ih = Cons.IH [OF this, folded r_def]
  show ?case using ih w q r Cons.prems by (auto simp: q_def [symmetric] r_def [symmetric] min_def)
qed

definition requested_by :: "manufacturing_env \<Rightarrow> int" where
  "requested_by e = (\<Sum>d\<leftarrow>dm_orders (me_demand e). shipment_request (me_scenario e) d)"

definition demo_demand_order :: demand_order where
  "demo_demand_order = \<lparr> do_id = ''PO-1'', do_customer = ''H'', do_quantity = 30, do_due_date = ''D+1'',
     do_priority = DP_NORMAL, do_fulfilled = 0, do_status = OPEN \<rparr>"

definition demo_scenario :: env_scenario where
  "demo_scenario = \<lparr> sc_warehouse_stock = 4, sc_warehouse_safety_stock = 10, sc_service_level_target = 95 / 100,
     sc_demand_std = 1 / 2, sc_leadtime_mean = 3, sc_leadtime_std = 1 / 2, sc_avg_demand_per_cycle = 1,
     sc_material_steel_stock = 500, sc_press_baselines = [], sc_shipment_interval = 5,
     sc_shipment_batch_size = 10 \<rparr>"

definition demo_env :: "(nat \<Rightarrow> string) \<Rightarrow> (nat \<Rightarrow> string) \<Rightarrow> rng \<Rightarrow> manufacturing_env" where
  "demo_env uuids walls r =
     (let e = fst (new_manufacturing_env demo_scenario uuids walls r)
      in e\<lparr>me_demand := dm_add_order demo_demand_order (me_demand e)\<rparr>)"

lemma demo_env_facts:
  "me_scenario (demo_env u v r) = demo_scenario"
  "dm_orders (me_demand (demo_env u v r)) = [demo_demand_order]"
  "wh_stock (me_warehouse (demo_env u v r)) = 4"
  "requested_by (demo_env u v r) = 10"
  by (simp_all add: demo_env_def new_manufacturing_env_def Let_def case_prod_unfold demo_scenario_def
      dm_add_order_def new_demand_model_def requested_by_def shipment_request_def demo_demand_order_def
      do_is_open_def do_remaining_def)

text \<open>
  \<open>shipment_run_accounts\<close>: in a shipping cycle every open order asks for one batch, or
  for what it still has to receive when that is less. The orders are credited with
  exactly what they ask for, the warehouse hands out the smaller of that and its stock,
  and no order is credited beyond its quantity or marked fulfilled without it. The two
  sides therefore drift apart by the shortfall of every run.
\<close>

theorem shipment_run_accounts:
  assumes "0 \<le> wh_stock (me_warehouse e)"
    and "cyc mod max 1 (sc_shipment_interval (me_scenario e)) = 0"
    and "\<forall>d\<in>set (dm_orders (me_demand e)). do_ok d"
  shows "(let e' = env_process_shipments cyc e;
              credited = fulfilled_sum (dm_orders (me_demand e')) - fulfilled_sum (dm_orders (me_demand e));
              shipped = wh_total_shipped (me_warehouse e') - wh_total_shipped (me_warehouse e)
          in credited = requested_by e
             \<and> wh_total_requested (me_warehouse e') = wh_total_requested (me_warehouse e) + requested_by e
             \<and> shipped = min (requested_by e) (wh_stock (me_warehouse e))
             \<and> wh_stock (me_warehouse e') = wh_stock (me_warehouse e) - shipped
             \<and> (\<forall>d\<in>set (dm_orders (me_demand e')). do_ok d)
             \<and> credited - shipped = max 0 (requested_by e - wh_stock (me_warehouse e)))"
proof -
  let ?sc = "me_scenario e" and ?ds = "dm_orders (me_demand e)" and ?w = "me_warehouse e"
  have e': "dm_orders (me_demand (env_process_shipments cyc e)) = fst (env_ship_loop ?sc cyc ?ds ?w)"
      "me_warehouse (env_process_shipments cyc e) = snd (env_ship_loop ?sc cyc ?ds ?w)"
    using assms(2) by (simp_all add: env_process_shipments_def Let_def case_prod_unfold)
  have "map do_fulfilled (fst (env_ship_loop ?sc cyc ?ds ?w)) = map (\<lambda>d. do_fulfilled d + shipment_request ?sc d) ?ds"
    using arg_cong [OF env_ship_loop_orders, of "map (snd \<circ> snd)"] by (simp add: o_def)
  then have f: "fulfilled_sum (fst (env_ship_loop ?sc cyc ?ds ?w)) = fulfilled_sum ?ds + requested_by e"
    by (simp add: fulfilled_sum_def requested_by_def sum_list_addf)
  show ?thesis
    using env_ship_loop_warehouse [OF assms(1), of ?sc cyc ?ds] env_ship_loop_ok [OF assms(3), of ?sc cyc ?w] f
    by (simp add: e' requested_by_def [symmetric] Let_def)
qed

theorem shipment_run_accounts_witness:
  "(let e = demo_env (\<lambda>_. []) (\<lambda>_. []) \<lparr> unif_tape = \<lambda>_. 1 / 2, gauss_tape = \<lambda>_. 0, int_tape = \<lambda>_. 0, rng_pos = 0 \<rparr>;
        e' = env_process_shipments 5 e
    in fulfilled_sum (dm_orders (me_demand e')) - fulfilled_sum (dm_orders (me_demand e)) = 10
       \<and> wh_total_shipped (me_warehouse e') - wh_total_shipped (me_warehouse e) = 4)"
proof -
  define e where "e = demo_env (\<lambda>_. []) (\<lambda>_. []) \<lparr> unif_tape = \<lambda>_. 1 / 2, gauss_tape = \<lambda>_. 0, int_tape = \<lambda>_. 0, rng_pos = 0 \<rparr>"
  note facts = demo_env_facts [of "\<lambda>_. []" "\<lambda>_. []" "\<lparr> unif_tape = \<lambda>_. 1 / 2, gauss_tape = \<lambda>_. 0, int_tape = \<lambda>_. 0, rng_pos = 0 \<rparr>", folded e_def]
  have "do_ok demo_demand_order" by (simp add: do_ok_def demo_demand_order_def)
  then show ?thesis
    using shipment_run_accounts [of e 5] unfolding e_def [symmetric]
    by (simp add: facts demo_scenario_def Let_def)
qed

text \<open>
  C20 (\<open>empty_warehouse_fulfils_orders\<close>): with an empty warehouse a shipping run still credits
  the orders. Nothing leaves the warehouse, and yet an open order whose open quantity fits
  in one batch is marked fulfilled: the return value of the warehouse's \<open>ship\<close> is ignored.
\<close>

theorem empty_warehouse_fulfils_orders:
  assumes "wh_stock (me_warehouse e) = 0"
    and "cyc mod max 1 (sc_shipment_interval (me_scenario e)) = 0"
    and "i < length (dm_orders (me_demand e))"
    and "d = dm_orders (me_demand e) ! i"
    and "do_is_open d" "0 < do_remaining d" "do_remaining d \<le> sc_shipment_batch_size (me_scenario e)"
  shows "(let e' = env_process_shipments cyc e
          in wh_total_shipped (me_warehouse e') = wh_total_shipped (me_warehouse e)
             \<and> wh_stock (me_warehouse e') = 0
             \<and> do_fulfilled (dm_orders (me_demand e') ! i) = do_quantity d
             \<and> do_status (dm_orders (me_demand e') ! i) = FULFILLED)"
proof -
  let ?sc = "me_scenario e"
  have order: "fst (env_ship_loop ?sc cyc ds w) ! j = fst (env_ship_order ?sc cyc (ds ! j) (me_warehouse e))"
    if "j < length ds" for ds w j
    using that
  proof (induction ds arbitrary: w j)
    case Nil
    then show ?case by simp
  next
    case (Cons x ds)
    then show ?case by (cases j) (simp_all add: env_ship_order_eq)
  qed
  have req: "shipment_request ?sc d = do_remaining d"
    using assms(5-7) by (simp add: shipment_request_def)
  have "(\<Sum>x\<leftarrow>dm_orders (me_demand e). shipment_request ?sc x) \<ge> 0"
    by (auto simp: shipment_request_bounds intro!: sum_list_nonneg)
  then have w: "wh_total_shipped (snd (env_ship_loop ?sc cyc (dm_orders (me_demand e)) (me_warehouse e)))
      = wh_total_shipped (me_warehouse e)"
      "wh_stock (snd (env_ship_loop ?sc cyc (dm_orders (me_demand e)) (me_warehouse e))) = 0"
    using env_ship_loop_warehouse [of "me_warehouse e" ?sc cyc "dm_orders (me_demand e)"] assms(1) by auto
  show ?thesis
    using assms(2,3,6) w order [OF assms(3)] req
    by (auto simp: env_process_shipments_def Let_def case_prod_unfold assms(4) [symmetric] env_ship_order_eq
        do_ship_def do_remaining_def)
qed

theorem empty_warehouse_fulfils_orders_witness:
  "(let e0 = demo_env (\<lambda>_. []) (\<lambda>_. []) \<lparr> unif_tape = \<lambda>_. 1 / 2, gauss_tape = \<lambda>_. 0, int_tape = \<lambda>_. 0, rng_pos = 0 \<rparr>;
        e = e0\<lparr> me_warehouse := (me_warehouse e0)\<lparr>wh_stock := 0\<rparr>,
                me_demand := new_demand_model\<lparr>dm_orders := [demo_demand_order\<lparr>do_quantity := 7\<rparr>]\<rparr> \<rparr>;
        e' = env_process_shipments 5 e
    in wh_total_shipped (me_warehouse e') = wh_total_shipped (me_warehouse e)
       \<and> wh_stock (me_warehouse e') = 0
       \<and> do_fulfilled (dm_orders (me_demand e') ! 0) = 7
       \<and> do_status (dm_orders (me_demand e') ! 0) = FULFILLED)"
proof -
  define e0 where "e0 = demo_env (\<lambda>_. []) (\<lambda>_. []) \<lparr> unif_tape = \<lambda>_. 1 / 2, gauss_tape = \<lambda>_. 0, int_tape = \<lambda>_. 0, rng_pos = 0 \<rparr>"
  define e where "e = e0\<lparr> me_warehouse := (me_warehouse e0)\<lparr>wh_stock := 0\<rparr>,
                me_demand := new_demand_model\<lparr>dm_orders := [demo_demand_order\<lparr>do_quantity := 7\<rparr>]\<rparr> \<rparr>"
  have sc: "me_scenario e = demo_scenario" by (simp add: e_def e0_def demo_env_facts)
  have stock: "wh_stock (me_warehouse e) = 0" by (simp add: e_def)
  have orders: "dm_orders (me_demand e) = [demo_demand_order\<lparr>do_quantity := 7\<rparr>]" by (simp add: e_def)
  have order: "do_is_open (demo_demand_order\<lparr>do_quantity := 7\<rparr>)" "do_remaining (demo_demand_order\<lparr>do_quantity := 7\<rparr>) = 7"
    by (simp_all add: demo_demand_order_def do_is_open_def do_remaining_def)
  have a: "5 mod max 1 (sc_shipment_interval (me_scenario e)) = 0"
      "do_remaining (demo_demand_order\<lparr>do_quantity := 7\<rparr>) \<le> sc_shipment_batch_size (me_scenario e)"
    unfolding sc order by (simp_all add: demo_scenario_def)
  have b: "0 < length (dm_orders (me_demand e))"
      "demo_demand_order\<lparr>do_quantity := 7\<rparr> = dm_orders (me_demand e) ! 0"
    unfolding orders by simp_all
  have c: "0 < do_remaining (demo_demand_order\<lparr>do_quantity := 7\<rparr>)" unfolding order by simp
  have q: "do_quantity (demo_demand_order\<lparr>do_quantity := 7\<rparr>) = 7" by simp
  show ?thesis
    unfolding e0_def [symmetric] Let_def e_def [symmetric]
    by (rule empty_warehouse_fulfils_orders [OF stock a(1) b order(1) c a(2), unfolded Let_def q])
qed

section \<open>The demand model\<close>

lemma fold_trigger_event_events: "dm_events (fold trigger_event es m) = dm_events m"
  by (induction es arbitrary: m) (auto simp: trigger_event_def dm_add_order_def split: option.splits)

lemma fold_trigger_event_orders:
  "dm_orders (fold trigger_event es m)
     = dm_orders m @ concat (map (\<lambda>e. if de_type e = ''new_order'' then (case de_order e of Some d \<Rightarrow> [d] | None \<Rightarrow> []) else []) es)"
  by (induction es arbitrary: m) (auto simp: trigger_event_def dm_add_order_def split: option.splits)

text \<open>
  \<open>events_trigger_once\<close>: the events scheduled for a cycle are returned when that cycle is
  checked and never again; the others stay scheduled in their order, and each new-order
  event appends its order to the book, in schedule order.
\<close>

theorem events_trigger_once:
  "(let (now, m') = check_events cyc m
    in now = filter (\<lambda>e. de_trigger_cycle e = cyc) (dm_events m)
       \<and> dm_events m' = filter (\<lambda>e. de_trigger_cycle e \<noteq> cyc) (dm_events m)
       \<and> fst (check_events cyc m') = [] \<and> snd (check_events cyc m') = m'
       \<and> dm_orders m' = dm_orders m @ concat (map (\<lambda>e. if de_type e = ''new_order''
            then (case de_order e of Some d \<Rightarrow> [d] | None \<Rightarrow> []) else []) now))"
proof -
  have f: "filter (\<lambda>e. de_trigger_cycle e = cyc) (filter (\<lambda>e. de_trigger_cycle e \<noteq> cyc) es) = []" for es
    by (induction es) auto
  show ?thesis
    by (simp add: check_events_def Let_def case_prod_unfold fold_trigger_event_events
        fold_trigger_event_orders f)
qed

text \<open>
  \<open>forecast_bounds\<close>: whatever the demand history, the reported forecast accuracy lies
  between 50% and 99% and the demand deviation is at least 0.1.
\<close>

theorem forecast_bounds:
  "1 / 2 \<le> dm_forecast_accuracy m \<and> dm_forecast_accuracy m \<le> 99 / 100 \<and> 1 / 10 \<le> dm_demand_std m"
proof -
  have lo: "1 / 2 \<le> py_round 3 x" if "1 / 2 \<le> x" for x
  proof -
    have "py_round 3 (1 / 2) = 1 / 2" by (simp add: py_round_def round_half_even_def)
    then show ?thesis using py_round_mono [OF that, of 3] by simp
  qed
  have hi: "py_round 3 x \<le> 99 / 100" if "x \<le> 99 / 100" for x
  proof -
    have "py_round 3 (99 / 100) = 99 / 100" by (simp add: py_round_def round_half_even_def)
    then show ?thesis using py_round_mono [OF that, of 3] by simp
  qed
  have c: "dm_forecast_accuracy m = 85 / 100
      \<or> (\<exists>x. dm_forecast_accuracy m = py_round 3 (max (1 / 2) (min (99 / 100) x)))"
    unfolding dm_forecast_accuracy_def Let_def by metis
  have b: "1 / 2 \<le> py_round 3 (max (1 / 2) (min (99 / 100) x))" "py_round 3 (max (1 / 2) (min (99 / 100) x)) \<le> 99 / 100" for x
    by (rule lo, simp, rule hi, simp)
  have "1 / 2 \<le> dm_forecast_accuracy m \<and> dm_forecast_accuracy m \<le> 99 / 100"
    using c
  proof
    assume "dm_forecast_accuracy m = 85 / 100"
    then show ?thesis by simp
  next
    assume "\<exists>x. dm_forecast_accuracy m = py_round 3 (max (1 / 2) (min (99 / 100) x))"
    then show ?thesis using b by fastforce
  qed
  moreover have "1 / 10 \<le> dm_demand_std m"
  proof (cases "length (dm_demand_history m) < 5")
    case True
    then show ?thesis by (simp add: dm_demand_std_def)
  next
    case False
    then show ?thesis unfolding dm_demand_std_def Let_def by (simp only: if_False max.cobounded1)
  qed
  ultimately show ?thesis by simp
qed

end
