(* ===== verification/Cnp.thy ===== *)
theory Cnp
  imports Py_Text
begin

text \<open>
  The contract net: \<open>mas/protocol/cnp_session.py\<close> (session, hard constraints, strategy
  clamp), \<open>mas/protocol/cnp_comparison.py\<close> (the numeric comparison block of a proposal),
  \<open>mas/agents/planning_sub/\<close> (constraint penalty, evaluation, ranking, report) and the
  deterministic part of \<open>mas/intelligence/optimization_engine.py\<close>. Proposals and strategies
  are dictionaries.
\<close>

section \<open>Sessions\<close>

datatype cnp_state = CNP_IDLE | CFP_OPEN | COLLECTING | EVALUATING | COMPLETED | TIMEOUT | CANCELLED

definition PROTOCOL_VERSION :: string where "PROTOCOL_VERSION = ''cnp/1''"

record cnp_constraints =
  cc_speed_min_pct :: int
  cc_speed_max_pct :: int
  cc_deadline_sec :: real

definition default_constraints :: cnp_constraints where
  "default_constraints = \<lparr> cc_speed_min_pct = 40, cc_speed_max_pct = 100, cc_deadline_sec = 45 \<rparr>"

record cnp_session =
  cs_constraints :: cnp_constraints
  cs_state :: cnp_state
  cs_conversation_id :: string
  cs_started_at :: real
  cs_proposals :: "dict list"

definition new_session :: "cnp_constraints option \<Rightarrow> cnp_session" where
  "new_session c = \<lparr> cs_constraints = (case c of Some c \<Rightarrow> c | None \<Rightarrow> default_constraints),
     cs_state = CNP_IDLE, cs_conversation_id = '''', cs_started_at = 0, cs_proposals = [] \<rparr>"

text \<open>The fresh identifier and the time are read when the round begins.\<close>

definition begin_session :: "string \<Rightarrow> real \<Rightarrow> cnp_session \<Rightarrow> string \<times> cnp_session" where
  "begin_session uuid now s =
     (let cid = utf8_take 12 uuid
      in (cid, s\<lparr> cs_conversation_id := cid, cs_started_at := now, cs_state := CFP_OPEN, cs_proposals := [] \<rparr>))"

definition mark_collecting :: "cnp_session \<Rightarrow> cnp_session" where
  "mark_collecting s = s\<lparr>cs_state := COLLECTING\<rparr>"

definition mark_evaluating :: "cnp_session \<Rightarrow> cnp_session" where
  "mark_evaluating s = s\<lparr>cs_state := EVALUATING\<rparr>"

definition mark_completed :: "cnp_session \<Rightarrow> cnp_session" where
  "mark_completed s = s\<lparr>cs_state := COMPLETED\<rparr>"

definition mark_timeout :: "cnp_session \<Rightarrow> cnp_session" where
  "mark_timeout s = s\<lparr>cs_state := TIMEOUT\<rparr>"

definition is_expired :: "real \<Rightarrow> cnp_session \<Rightarrow> bool" where
  "is_expired now s \<longleftrightarrow> 0 < cs_started_at s \<and> cc_deadline_sec (cs_constraints s) < now - cs_started_at s"

text \<open>The speed a proposal asks for.\<close>

definition proposed_speed :: "dict \<Rightarrow> pyval" where
  "proposed_speed p = dget_or p ''speed_recommendation'' (dget_or p ''target_speed_pct'' (PInt 100))"

definition validate_proposal :: "cnp_session \<Rightarrow> dict \<Rightarrow> bool result" where
  "validate_proposal s p =
     except_type_value
       (bindR (py_int_float (proposed_speed p))
         (\<lambda>sp. Inr (cc_speed_min_pct (cs_constraints s) \<le> sp \<and> sp \<le> cc_speed_max_pct (cs_constraints s))))
       False"

text \<open>\<open>try: int(float(v)) except (TypeError, ValueError): 100\<close>.\<close>

definition speed_or_100 :: "pyval \<Rightarrow> int result" where
  "speed_or_100 v = except_type_value (py_int_float v) 100"

definition full_inspection :: "pyval \<Rightarrow> bool" where
  "full_inspection v \<longleftrightarrow> py_lower (py_str v) \<in> {''all'', ''full'', (utf8 [0xC804, 0xC218])}"

definition clamp_strategy :: "cnp_session \<Rightarrow> dict \<Rightarrow> dict result" where
  "clamp_strategy s strategy =
     bindR (speed_or_100 (dget_or strategy ''target_speed_pct'' (PInt 100))) (\<lambda>sp0.
       let sp = max (cc_speed_min_pct (cs_constraints s)) (min (cc_speed_max_pct (cs_constraints s)) sp0);
           st = dset ''conversation_id'' (PStr (cs_conversation_id s))
                 (dset ''protocol_version'' (PStr PROTOCOL_VERSION)
                   (dset ''constraints_applied'' (PBool True)
                     (dset ''target_speed_pct'' (PInt sp) strategy)))
       in Inr (dset ''approval_required''
             (PBool (sp < 70 \<or> full_inspection (dget_or st ''inspection_mode'' (PStr '''')))) st))"

definition constraints_dict :: "cnp_constraints \<Rightarrow> dict" where
  "constraints_dict c =
     [(''speed_min_pct'', PInt (cc_speed_min_pct c)), (''speed_max_pct'', PInt (cc_speed_max_pct c)),
      (''deadline_sec'', PFloat (cc_deadline_sec c))]"

definition to_cfp_body :: "string \<Rightarrow> cnp_session \<Rightarrow> dict" where
  "to_cfp_body situation s =
     [(''protocol_version'', PStr PROTOCOL_VERSION),
      (''conversation_id'', PStr (cs_conversation_id s)),
      (''constraints'', PDict (constraints_dict (cs_constraints s))),
      (''situation'', PStr situation),
      (''summary'', PStr (utf8 [0x43, 0x4E, 0x50, 0x20, 0xC785, 0xCC30, 0x20, 0xC694, 0xCCAD, 0x20, 0x28, 0x43, 0x46, 0x50, 0x29]))]"

section \<open>The comparison block\<close>

definition CNP_COMPARISON_SCHEMA_VERSION :: string where
  "CNP_COMPARISON_SCHEMA_VERSION = ''1.0''"

text \<open>\<open>_f\<close>: a float, or the default when the value does not convert.\<close>

definition float_default :: "pyval \<Rightarrow> real \<Rightarrow> pyval" where
  "float_default v dflt = PFloat (case except_type_value (py_float v) dflt of Inr x \<Rightarrow> x | Inl _ \<Rightarrow> dflt)"

definition comparison_inputs :: "dict \<Rightarrow> dict" where
  "comparison_inputs raw =
     dmerge (dict_or_empty (dget_none raw ''proposal_metrics'')) (dict_or_empty (dget_none raw ''comparison''))"

definition normalize_comparison_metrics :: "dict \<Rightarrow> dict" where
  "normalize_comparison_metrics raw =
     (let merged = comparison_inputs raw; g = dget_none merged in
      [(''candidate_action'', PStr (py_str
          (py_or (py_or (py_or (g ''candidate_action'') (dget_none raw ''proposal'')) (g ''action''))
             (PStr ''unspecified'')))),
       (''expected_effect'', float_default (py_or (g ''expected_effect'') (g ''expected_benefit'')) (1 / 2)),
       (''expected_cost'', float_default
          (py_or (py_or (g ''expected_cost'') (g ''cost_estimate'')) (g ''cost_estimate_norm'')) (1 / 2)),
       (''quality_risk'', float_default (g ''quality_risk'') (3 / 10)),
       (''delivery_impact'', float_default (g ''delivery_impact'') 0),
       (''material_impact'', float_default (g ''material_impact'') (1 / 5)),
       (''constraint_violation'', float_default
          (py_or (g ''constraint_violation'') (g ''constraint_violation_total'')) 0),
       (''confidence'', float_default
          (py_or (g ''confidence'') (g ''recommendation_confidence'')) (7 / 10)),
       (''schema_version'', PStr CNP_COMPARISON_SCHEMA_VERSION)])"

definition merge_into_proposal :: "dict \<Rightarrow> dict" where
  "merge_into_proposal p = dset ''comparison'' (PDict (normalize_comparison_metrics p)) p"

section \<open>Constraint penalty and evaluation\<close>

definition int_or :: "dict \<Rightarrow> string \<Rightarrow> int \<Rightarrow> int result" where
  "int_or d k dflt = py_int (py_or (dget_none d k) (PInt dflt))"

definition float_or :: "dict \<Rightarrow> string \<Rightarrow> real \<Rightarrow> real result" where
  "float_or d k dflt = py_float (py_or (dget_none d k) (PFloat dflt))"

definition score_against_constraints :: "dict \<Rightarrow> dict \<Rightarrow> (real \<times> string) result" where
  "score_against_constraints proposal constraints =
     bindR (py_int (py_or (py_or (dget_none proposal ''speed_recommendation'')
             (dget_none proposal ''target_speed_pct'')) (PInt 100))) (\<lambda>sp.
     bindR (int_or constraints ''speed_min_pct'' 40) (\<lambda>smin.
     bindR (int_or constraints ''speed_max_pct'' 100) (\<lambda>smax.
       let low = (if sp < smin then (2 / 5, [(utf8 [0xC18D, 0xB3C4, 0x3C]) @ show_int smin @ ''%'']) else (0, []));
           high = (if sp > smax then (2 / 5, [(utf8 [0xC18D, 0xB3C4, 0x3E]) @ show_int smax @ ''%'']) else (0, []));
           notes = snd low @ snd high
       in bindR (as_dict (py_or (dget_none proposal ''comparison'') (PDict []))) (\<lambda>comp.
          bindR (float_or comp ''constraint_violation'' 0) (\<lambda>v.
            Inr (min 1 (fst low + fst high + v * (1 / 5)),
                 if notes \<noteq> [] then py_join ''; '' notes else ''ok''))))))"

type_synonym kpi_weights = "(string \<times> real) list"

definition DEFAULT_KPI_WEIGHTS :: kpi_weights where
  "DEFAULT_KPI_WEIGHTS = [(''quality'', 30 / 100), (''delivery'', 25 / 100), (''cost'', 25 / 100), (''safety'', 20 / 100)]"

definition business_score :: "kpi_weights \<Rightarrow> dict \<Rightarrow> real result" where
  "business_score weights scores =
     foldR (\<lambda>(k, w) acc. bindR (py_float (dget_or scores k (PFloat 0))) (\<lambda>x. Inr (acc + x * w))) weights 0"

definition comparison_score :: "dict \<Rightarrow> real result" where
  "comparison_score comparison =
     bindR (float_or comparison ''expected_effect'' (1 / 2)) (\<lambda>eff.
     bindR (float_or comparison ''expected_cost'' (1 / 2)) (\<lambda>cost.
     bindR (float_or comparison ''quality_risk'' (3 / 10)) (\<lambda>risk.
     bindR (float_or comparison ''confidence'' (7 / 10)) (\<lambda>conf.
       Inr (eff * conf - 35 / 100 * cost - 25 / 100 * risk)))))"

definition constraint_penalty :: "dict \<Rightarrow> dict option \<Rightarrow> (real \<times> string) result" where
  "constraint_penalty out constraints = (case constraints of
      Some c \<Rightarrow> if c \<noteq> [] then score_against_constraints out c else Inr (0, ''ok'')
    | None \<Rightarrow> Inr (0, ''ok''))"

definition final_score :: "real \<Rightarrow> real \<Rightarrow> real \<Rightarrow> real" where
  "final_score business comparison penalty = 40 / 100 * business + 60 / 100 * comparison - 20 / 100 * penalty"

definition evaluate_proposal :: "dict option \<Rightarrow> kpi_weights option \<Rightarrow> dict \<Rightarrow> dict result" where
  "evaluate_proposal constraints weights_opt proposal =
     (let out = merge_into_proposal proposal;
          weights = (case weights_opt of Some w \<Rightarrow> if w \<noteq> [] then w else DEFAULT_KPI_WEIGHTS | None \<Rightarrow> DEFAULT_KPI_WEIGHTS);
          scores = dict_or_empty (dget_none out ''scores'');
          comparison = dict_or_empty (dget_none out ''comparison'')
      in bindR (business_score weights scores) (\<lambda>b.
         bindR (comparison_score comparison) (\<lambda>c.
         bindR (constraint_penalty out constraints) (\<lambda>(v, note).
           Inr (dset ''total_score'' (PFloat (py_round 4 (final_score b c v)))
               (dset ''constraint_status'' (PStr note)
               (dset ''constraint_penalty'' (PFloat (py_round 4 v))
               (dset ''comparison_score'' (PFloat (py_round 4 c))
               (dset ''business_score'' (PFloat (py_round 4 b)) out)))))))))"

section \<open>Ranking\<close>

text \<open>\<open>sorted(xs, key=key, reverse=True)\<close>: descending, equal keys keep their order.\<close>

definition sorted_desc :: "('a \<Rightarrow> 'k::linorder) \<Rightarrow> 'a list \<Rightarrow> 'a list" where
  "sorted_desc key xs = rev (sort_key key (rev xs))"

text \<open>The ranking key: tuples of scores, compared lexicographically.\<close>

datatype rank_key = RankKey (rk_total: real) (rk_comparison: real) (rk_business: real)

lemma rank_key_eq_iff:
  "a = b \<longleftrightarrow> rk_total a = rk_total b \<and> rk_comparison a = rk_comparison b \<and> rk_business a = rk_business b"
  by (cases a; cases b) simp

instantiation rank_key :: linorder
begin

definition less_rank_key :: "rank_key \<Rightarrow> rank_key \<Rightarrow> bool" where
  "less_rank_key a b \<longleftrightarrow> rk_total a < rk_total b
     \<or> rk_total a = rk_total b \<and> (rk_comparison a < rk_comparison b
        \<or> rk_comparison a = rk_comparison b \<and> rk_business a < rk_business b)"

definition less_eq_rank_key :: "rank_key \<Rightarrow> rank_key \<Rightarrow> bool" where
  "less_eq_rank_key a b \<longleftrightarrow> a = b \<or> a < b"

instance
  by standard (auto simp: less_eq_rank_key_def less_rank_key_def rank_key_eq_iff)

end

text \<open>A score read back from an evaluated proposal.\<close>

definition score_at :: "dict \<Rightarrow> string \<Rightarrow> real" where
  "score_at d k = (case py_num (dget_or d k (PInt 0)) of Inr x \<Rightarrow> x | Inl _ \<Rightarrow> 0)"

definition rank_key_of :: "dict \<Rightarrow> rank_key" where
  "rank_key_of d = RankKey (score_at d ''total_score'') (score_at d ''comparison_score'') (score_at d ''business_score'')"

fun dicts_of :: "pyval list \<Rightarrow> dict list" where
  "dicts_of [] = []"
| "dicts_of (PDict d # vs) = d # dicts_of vs"
| "dicts_of (_ # vs) = dicts_of vs"

definition rank_proposals_by_comparison :: "dict option \<Rightarrow> pyval list \<Rightarrow> dict list result" where
  "rank_proposals_by_comparison constraints proposals =
     bindR (mapR (evaluate_proposal constraints None) (dicts_of proposals))
       (\<lambda>enriched. Inr (sorted_desc rank_key_of enriched))"

section \<open>The report lines\<close>

definition build_pa_report_lines :: "dict \<Rightarrow> dict list \<Rightarrow> string list result" where
  "build_pa_report_lines strategy proposals =
     (let lines =
        [(utf8 [0xACB0, 0xC815, 0x3A, 0x20]) @ py_str (dget_or strategy ''decision'' (PStr ''n/a'')),
         (utf8 [0xBAA9, 0xD45C, 0xC18D, 0xB3C4, 0x3A, 0x20]) @ py_str (dget_or strategy ''target_speed_pct'' (PStr ''-'')) @ ''%'',
         (utf8 [0xAC80, 0xC0AC, 0xBAA8, 0xB4DC, 0x3A, 0x20]) @ py_str (dget_or strategy ''inspection_mode'' (PStr ''-'')),
         (utf8 [0xC81C, 0xC548, 0x20, 0xC218, 0x3A, 0x20]) @ show_nat (length proposals)];
          best = (case proposals of p # _ \<Rightarrow> p | [] \<Rightarrow> []);
          cv = dget_none best ''comparison''
      in if py_truthy cv then
           bindR (as_dict cv) (\<lambda>c.
           bindR (fmt_fixed_val 2 (dget_or c ''confidence'' (PInt 0))) (\<lambda>conf.
             Inr (lines @ [(utf8 [0xCD5C, 0xC6B0, 0xC120, 0x20, 0xB300, 0xC548, 0x3A, 0x20]) @ py_str (dget_or c ''candidate_action'' (PStr '''')) @ '' ''
                           @ (utf8 [0x28, 0xC2E0, 0xB8B0, 0xB3C4, 0x20]) @ conf @ '')''])))
         else Inr lines)"

section \<open>The numeric strategy\<close>

definition NUMERIC_KEYS :: "string list" where
  "NUMERIC_KEYS = [''target_speed_pct'', ''inspection_mode'', ''best_agent'', ''best_score'', ''decision'']"

definition total_score_or_0 :: "dict \<Rightarrow> real result" where
  "total_score_or_0 p = py_float (py_or (dget_or p ''total_score'' (PInt 0)) (PInt 0))"

definition numeric_mode :: "pyval \<Rightarrow> pyval" where
  "numeric_mode mode = (case mode of
      PStr s \<Rightarrow> (let m = py_lower (py_strip s) in
        if py_in_str (utf8 [0xAC15, 0xD654]) s \<or> py_in_str ''enhanced'' m then PStr ''enhanced''
        else if py_in_str (utf8 [0xD45C, 0xC900]) s \<or> py_in_str ''standard'' m then PStr ''standard''
        else PStr s)
    | v \<Rightarrow> v)"

definition cnp_numeric_strategy :: "dict list \<Rightarrow> dict result" where
  "cnp_numeric_strategy proposals =
     (if proposals = [] then Inr []
      else bindR (mapR (\<lambda>p. bindR (total_score_or_0 p) (\<lambda>k. Inr (k, p))) proposals) (\<lambda>keyed.
        let best = snd (hd (sorted_desc fst keyed));
            mode = numeric_mode (dget_or best ''inspection_mode'' (PStr ''standard''))
        in bindR (speed_or_100 (proposed_speed best)) (\<lambda>speed.
           bindR (total_score_or_0 best) (\<lambda>score.
             Inr [(''target_speed_pct'', PInt (max 40 (min 100 speed))),
                  (''inspection_mode'', if mode \<in> {PStr ''standard'', PStr ''enhanced''} then mode else PStr ''standard''),
                  (''best_agent'', dget_or best ''agent'' (PStr '''')),
                  (''best_score'', PFloat score),
                  (''decision'', PStr ''solver_first'')]))))"

definition merge_numeric_and_rationale :: "dict \<Rightarrow> dict option \<Rightarrow> dict" where
  "merge_numeric_and_rationale numeric llm_part =
     (case llm_part of
        Some (kv # kvs) \<Rightarrow>
          dsetdefault ''rationale'' (PList [PStr (utf8 [0xC194, 0xBC84, 0x20, 0xACB0, 0xC815, 0xC5D0, 0x20, 0xB300, 0xD55C, 0x20, 0xC11C, 0xC220, 0xC801, 0x20, 0xBCF4, 0xAC15])])
            (fold (\<lambda>(k, v) out. if k \<in> set NUMERIC_KEYS then out
                     else if k = ''target_speed_pct'' \<or> k = ''best_score'' then out
                     else dset k v out) (kv # kvs) numeric)
      | _ \<Rightarrow>
          dsetdefault ''expected_ss_impact'' (PStr (utf8 [0xBBF8, 0xD3C9, 0xAC00]))
            (dsetdefault ''risk_assessment'' (PStr (utf8 [0xC815, 0xBCF4, 0x20, 0xBD80, 0xC871, 0x20, 0x2014, 0x20, 0xBCF4, 0xC218, 0xC801, 0x20, 0xBAA8, 0xB2C8, 0xD130, 0xB9C1]))
              (dsetdefault ''rationale''
                (PList [PStr (utf8 [0xC194, 0xBC84, 0x20, 0xC120, 0xC815, 0x20, 0xACB0, 0xACFC, 0xC5D0, 0x20, 0xB530, 0xB978, 0x20, 0xADDC, 0xCE59, 0x20, 0xAE30, 0xBC18, 0x20, 0xADFC, 0xAC70, 0x28, 0x20, 0x4C, 0x4C, 0x4D, 0x20, 0xBBF8, 0xC0AC, 0xC6A9, 0x20, 0xB610, 0xB294, 0x20, 0xC2E4, 0xD328, 0x20, 0x29])]) numeric)))"

end
