(* ===== verification/Cnp_Laws.thy ===== *)
theory Cnp_Laws
  imports Cnp "HOL-Library.Multiset"
begin

text \<open>
  Properties of the contract net: the strategy clamp, the proposal ranking, the numeric
  strategy and what a language model's answer may change of it, and two scoring effects
  of the \<open>x or default\<close> idiom.
\<close>

section \<open>Rankings\<close>

text \<open>
  The contract of a ranking: what its clients (the planning agent and the numeric
  strategy) rely on when they take its first element.
\<close>

locale ranking =
  fixes key :: "'a \<Rightarrow> 'k::linorder"
    and rank :: "'a list \<Rightarrow> 'a list"
  assumes rank_mset: "mset (rank xs) = mset xs"
    and rank_descending: "sorted (map key (rev (rank xs)))"
    and rank_stable: "filter (\<lambda>x. key x = k) (rank xs) = filter (\<lambda>x. key x = k) xs"
begin

lemma rank_set: "set (rank xs) = set xs"
  using arg_cong [OF rank_mset, of set_mset] by simp

lemma rank_length: "length (rank xs) = length xs"
  using arg_cong [OF rank_mset, of size] by simp

lemma rank_nonempty: "rank xs = [] \<longleftrightarrow> xs = []"
  using rank_length [of xs] by auto

text \<open>The first element has the greatest key and is the first of the input that has it.\<close>

lemma rank_best:
  assumes "xs \<noteq> []"
  shows "hd (rank xs) \<in> set xs" "y \<in> set xs \<Longrightarrow> key y \<le> key (hd (rank xs))"
    "hd (rank xs) = hd (filter (\<lambda>x. key x = key (hd (rank xs))) xs)"
proof -
  obtain b bs where r: "rank xs = b # bs" using assms rank_nonempty by (cases "rank xs") auto
  then show "hd (rank xs) \<in> set xs" using rank_set [of xs] by auto
  have "\<forall>x\<in>set bs. key x \<le> key b"
    using rank_descending [of xs] r by (simp add: sorted_append)
  moreover assume "y \<in> set xs"
  ultimately show "key y \<le> key (hd (rank xs))" using rank_set [of xs] r by auto
next
  obtain b bs where r: "rank xs = b # bs" using assms rank_nonempty by (cases "rank xs") auto
  have "filter (\<lambda>x. key x = key b) xs = b # filter (\<lambda>x. key x = key b) bs"
    using rank_stable [of "key b" xs] r by simp
  then show "hd (rank xs) = hd (filter (\<lambda>x. key x = key (hd (rank xs))) xs)" using r by simp
qed

lemma rank_ordered: "i < j \<Longrightarrow> j < length xs \<Longrightarrow> key (rank xs ! j) \<le> key (rank xs ! i)"
proof -
  assume ij: "i < j" "j < length xs"
  let ?ys = "rev (rank xs)"
  have l: "length ?ys = length xs" by (simp add: rank_length)
  have "map key ?ys ! (length xs - Suc j) \<le> map key ?ys ! (length xs - Suc i)"
    using ij l by (intro sorted_nth_mono [OF rank_descending]) auto
  then show ?thesis using ij l by (simp add: rev_nth rank_length)
qed

end

lemma sorted_desc_ranking: "ranking key (sorted_desc key)"
proof
  show "mset (sorted_desc key xs) = mset xs" for xs by (simp add: sorted_desc_def)
  show "sorted (map key (rev (sorted_desc key xs)))" for xs by (simp add: sorted_desc_def)
  have "filter (\<lambda>y. key y = k) (sort_key key (rev xs)) = filter (\<lambda>y. key y = k) (rev xs)" for k xs
    by (rule sort_key_stable)
  then show "filter (\<lambda>x. key x = k) (sorted_desc key xs) = filter (\<lambda>x. key x = k) xs" for k xs
    by (simp add: sorted_desc_def flip: rev_filter)
qed

interpretation proposal_ranking: ranking rank_key_of "sorted_desc rank_key_of"
  by (rule sorted_desc_ranking)

interpretation numeric_ranking: ranking "fst :: real \<times> dict \<Rightarrow> real" "sorted_desc fst"
  by (rule sorted_desc_ranking)

text \<open>A list is its own evaluation, element by element.\<close>

lemma mapR_nth: "mapR f xs = Inr ys \<Longrightarrow> i < length xs \<Longrightarrow> f (xs ! i) = Inr (ys ! i)"
proof -
  assume a: "mapR f xs = Inr ys" "i < length xs"
  have "map f xs ! i = map Inr ys ! i" using mapR_Inr_map [OF a(1)] by simp
  then show ?thesis using a mapR_Inr_length [OF a(1)] by simp
qed

text \<open>
  C15 (\<open>ranking_picks_best\<close>): ranking the collected proposals evaluates every dictionary among
  them once and returns exactly these evaluations (none lost, none invented), ordered by
  descending total, comparison and business score; the winner's total score is the
  greatest, and among equals the proposal collected first wins.
\<close>

theorem ranking_picks_best:
  assumes "rank_proposals_by_comparison constraints proposals = Inr ranked"
    and "dicts_of proposals \<noteq> []"
  shows "\<exists>evaluated. map (evaluate_proposal constraints None) (dicts_of proposals) = map Inr evaluated
      \<and> mset ranked = mset evaluated
      \<and> (\<forall>i j. i < j \<and> j < length ranked \<longrightarrow> rank_key_of (ranked ! j) \<le> rank_key_of (ranked ! i))
      \<and> (\<forall>p\<in>set evaluated. score_at p ''total_score'' \<le> score_at (hd ranked) ''total_score'')
      \<and> hd ranked = hd (filter (\<lambda>p. rank_key_of p = rank_key_of (hd ranked)) evaluated)"
proof -
  obtain ev where ev: "mapR (evaluate_proposal constraints None) (dicts_of proposals) = Inr ev"
      and r: "ranked = sorted_desc rank_key_of ev"
    using assms(1) by (auto simp: rank_proposals_by_comparison_def bindR_Inr_iff)
  have ne: "ev \<noteq> []" using mapR_Inr_length [OF ev] assms(2) by auto
  have best: "score_at p ''total_score'' \<le> score_at (hd ranked) ''total_score''" if "p \<in> set ev" for p
    using proposal_ranking.rank_best(2) [OF ne that]
    by (auto simp: r rank_key_of_def less_eq_rank_key_def less_rank_key_def)
  show ?thesis
    using mapR_Inr_map [OF ev] best proposal_ranking.rank_mset [of ev] proposal_ranking.rank_ordered [of _ _ ev]
      proposal_ranking.rank_best(3) [OF ne]
    by (intro exI [of _ ev]) (auto simp: r proposal_ranking.rank_length)
qed

definition demo_proposals :: "pyval list" where
  "demo_proposals =
     [PDict [(''agent'', PStr ''SA''), (''proposal_metrics'', PDict [(''cost_estimate'', PFloat (1 / 2))])],
      PNone,
      PDict [(''agent'', PStr ''EA''), (''speed_recommendation'', PInt 80),
             (''scores'', PDict [(''quality'', PFloat (7 / 10)), (''safety'', PFloat (9 / 10))])]]"

lemmas evaluate_simps =
  evaluate_proposal_def merge_into_proposal_def normalize_comparison_metrics_def comparison_inputs_def
  business_score_def comparison_score_def constraint_penalty_def final_score_def DEFAULT_KPI_WEIGHTS_def
  float_or_def float_default_def except_type_value_def dget_none_def dget_or_def dmerge_def dset_def
  py_or_def Let_def

lemma demo_ranking:
  "\<exists>ranked. rank_proposals_by_comparison None demo_proposals = Inr ranked"
  unfolding rank_proposals_by_comparison_def demo_proposals_def
  by (simp add: evaluate_simps)

theorem ranking_picks_best_witness:
  "\<exists>ranked. rank_proposals_by_comparison None demo_proposals = Inr ranked
      \<and> length ranked = 2
      \<and> (\<forall>p\<in>set ranked. score_at p ''total_score'' \<le> score_at (hd ranked) ''total_score'')"
proof -
  obtain ranked where r: "rank_proposals_by_comparison None demo_proposals = Inr ranked"
    using demo_ranking by blast
  have d: "dicts_of demo_proposals \<noteq> []" "length (dicts_of demo_proposals) = 2"
    by (simp_all add: demo_proposals_def)
  obtain ev where ev: "map (evaluate_proposal None None) (dicts_of demo_proposals) = map Inr ev"
      "mset ranked = mset ev" "\<forall>p\<in>set ev. score_at p ''total_score'' \<le> score_at (hd ranked) ''total_score''"
    using ranking_picks_best [OF r d(1)] by blast
  have "length ev = 2" using ev(1) d(2) by (metis length_map)
  then have "length ranked = 2" using arg_cong [OF ev(2), of size] by simp
  moreover have "set ranked = set ev" using arg_cong [OF ev(2), of set_mset] by simp
  ultimately show ?thesis using r ev(3) by blast
qed

section \<open>The strategy clamp\<close>

definition inf_speed :: "pyval \<Rightarrow> bool" where
  "inf_speed v \<longleftrightarrow> (\<exists>s. v = PStr s \<and> is_inf_text s)"

lemma speed_or_100_cases:
  "(if inf_speed v then speed_or_100 v = Inl OverflowError else \<exists>i. speed_or_100 v = Inr i)"
  by (cases v) (auto simp: speed_or_100_def inf_speed_def py_int_float_def except_type_value_def
      split: option.splits)

text \<open>
  C16 (\<open>clamp_strategy_safe\<close>): whatever a strategy contains, the clamp succeeds with a target
  speed within the session's limits, stamps the conversation, asks for approval exactly
  when the speed is below 70% or the inspection mode is the full one, and leaves every
  other entry as it was. The only inputs it fails on are the spellings of an infinite
  speed, which escape the exception handler.
\<close>

theorem clamp_strategy_safe:
  assumes "cc_speed_min_pct (cs_constraints s) \<le> cc_speed_max_pct (cs_constraints s)"
  shows "if inf_speed (dget_or st ''target_speed_pct'' (PInt 100))
     then clamp_strategy s st = Inl OverflowError
     else \<exists>st' sp. clamp_strategy s st = Inr st'
        \<and> dget st' ''target_speed_pct'' = Some (PInt sp)
        \<and> cc_speed_min_pct (cs_constraints s) \<le> sp \<and> sp \<le> cc_speed_max_pct (cs_constraints s)
        \<and> dget st' ''conversation_id'' = Some (PStr (cs_conversation_id s))
        \<and> dget st' ''approval_required''
            = Some (PBool (sp < 70 \<or> full_inspection (dget_or st ''inspection_mode'' (PStr ''''))))
        \<and> (\<forall>k. k \<notin> {''target_speed_pct'', ''constraints_applied'', ''protocol_version'',
                    ''conversation_id'', ''approval_required''} \<longrightarrow> dget st' k = dget st k)
        \<and> clamp_strategy s st' = Inr st'"
proof (cases "inf_speed (dget_or st ''target_speed_pct'' (PInt 100))")
  case True
  then show ?thesis
    using speed_or_100_cases [of "dget_or st ''target_speed_pct'' (PInt 100)"] by (simp add: clamp_strategy_def)
next
  case False
  then obtain i where i: "speed_or_100 (dget_or st ''target_speed_pct'' (PInt 100)) = Inr i"
    using speed_or_100_cases [of "dget_or st ''target_speed_pct'' (PInt 100)"] by auto
  define sp where "sp = max (cc_speed_min_pct (cs_constraints s)) (min (cc_speed_max_pct (cs_constraints s)) i)"
  have sp: "cc_speed_min_pct (cs_constraints s) \<le> sp" "sp \<le> cc_speed_max_pct (cs_constraints s)"
    using assms by (auto simp: sp_def)
  have same: "speed_or_100 (PInt sp) = Inr sp"
      "max (cc_speed_min_pct (cs_constraints s)) (min (cc_speed_max_pct (cs_constraints s)) sp) = sp"
    using sp by (simp_all add: speed_or_100_def except_type_value_def)
  obtain st' where st': "clamp_strategy s st = Inr st'" and
      get: "\<And>k. dget st' k = (if k = ''approval_required''
         then Some (PBool (sp < 70 \<or> full_inspection (dget_or st ''inspection_mode'' (PStr ''''))))
         else if k = ''conversation_id'' then Some (PStr (cs_conversation_id s))
         else if k = ''protocol_version'' then Some (PStr PROTOCOL_VERSION)
         else if k = ''constraints_applied'' then Some (PBool True)
         else if k = ''target_speed_pct'' then Some (PInt sp) else dget st k)"
    using i by (simp add: clamp_strategy_def sp_def Let_def)
  have again: "dset k v st' = st'" if "dget st' k = Some v" for k v
    using that by (simp add: dset_def dget_def update_triv)
  have "clamp_strategy s st' = Inr st'"
    by (simp add: clamp_strategy_def dget_or_dget get same Let_def again del: max_less_iff_conj)
  then show ?thesis using False st' sp by (auto simp: get)
qed

definition demo_session :: cnp_session where
  "demo_session = snd (begin_session ''0a1b2c3d-4e5f-6789'' 100 (new_session None))"

theorem clamp_strategy_safe_witness:
  "\<exists>st' sp. clamp_strategy demo_session [(''target_speed_pct'', PStr ''25''), (''inspection_mode'', PStr ''FULL'')] = Inr st'
     \<and> dget st' ''target_speed_pct'' = Some (PInt sp) \<and> 40 \<le> sp \<and> sp \<le> 100
     \<and> dget st' ''approval_required'' = Some (PBool True)"
proof -
  have c: "cs_constraints demo_session = default_constraints"
    by (simp add: demo_session_def begin_session_def new_session_def Let_def)
  have l: "cc_speed_min_pct (cs_constraints demo_session) \<le> cc_speed_max_pct (cs_constraints demo_session)"
    by (simp add: c default_constraints_def)
  have n: "\<not> inf_speed (dget_or [(''target_speed_pct'', PStr ''25''), (''inspection_mode'', PStr ''FULL'')]
      ''target_speed_pct'' (PInt 100))"
    by (simp add: dget_or_def inf_speed_def) code_simp
  have f: "full_inspection (dget_or [(''target_speed_pct'', PStr ''25''), (''inspection_mode'', PStr ''FULL'')]
      ''inspection_mode'' (PStr ''''))"
    by (simp add: dget_or_def full_inspection_def text_eval)
  show ?thesis
    using clamp_strategy_safe [OF l, of "[(''target_speed_pct'', PStr ''25''), (''inspection_mode'', PStr ''FULL'')]"] n f
    unfolding c default_constraints_def by auto
qed

section \<open>The numeric strategy\<close>

text \<open>
  \<open>numeric_strategy_safe\<close>: the numbers of the optimisation layer are fixed by rule: a
  speed between 40 and 100, one of the two known inspection modes, and the agent and score
  of a proposal whose total score no other proposal exceeds, the first of its kind.
\<close>

theorem numeric_strategy_safe:
  assumes "cnp_numeric_strategy ps = Inr st" "ps \<noteq> []"
  shows "\<exists>best\<in>set ps. \<exists>sp score.
      dget st ''target_speed_pct'' = Some (PInt sp) \<and> 40 \<le> sp \<and> sp \<le> 100
      \<and> dget st ''inspection_mode'' \<in> {Some (PStr ''standard''), Some (PStr ''enhanced'')}
      \<and> dget st ''best_agent'' = Some (dget_or best ''agent'' (PStr ''''))
      \<and> dget st ''best_score'' = Some (PFloat score) \<and> total_score_or_0 best = Inr score
      \<and> (\<forall>p\<in>set ps. \<forall>x. total_score_or_0 p = Inr x \<longrightarrow> x \<le> score)
      \<and> best = hd (filter (\<lambda>p. total_score_or_0 p = Inr score) ps)"
proof -
  let ?f = "\<lambda>p. bindR (total_score_or_0 p) (\<lambda>k. Inr (k, p))"
  obtain ks where ks: "mapR ?f ps = Inr ks"
    using assms by (auto simp: cnp_numeric_strategy_def bindR_Inr_iff)
  have m: "map ?f ps = map Inr ks" by (rule mapR_Inr_map [OF ks])
  have ks2: "map snd ks = ps" "\<forall>(k, p)\<in>set ks. total_score_or_0 p = Inr k"
    using ks by (induction ps arbitrary: ks) (auto simp: bindR_Inr_iff)
  have ne: "ks \<noteq> []" using ks2(1) assms(2) by auto
  define kb where "kb = hd (sorted_desc fst ks)"
  note best = numeric_ranking.rank_best [OF ne, folded kb_def]
  have kb: "kb \<in> set ks" by (rule best(1))
  have score: "total_score_or_0 (snd kb) = Inr (fst kb)" using ks2(2) kb by (auto simp: case_prod_unfold)
  have max: "x \<le> fst kb" if "p \<in> set ps" "total_score_or_0 p = Inr x" for p x
  proof -
    have "p \<in> set (map snd ks)" using that(1) unfolding ks2(1) .
    then obtain k where k: "(k, p) \<in> set ks" by auto
    then have "total_score_or_0 p = Inr k" using ks2(2) by auto
    then show ?thesis using best(2) [OF k] that(2) by simp
  qed
  have first: "snd kb = hd (filter (\<lambda>p. total_score_or_0 p = Inr (fst kb)) ps)"
  proof -
    have f: "filter (\<lambda>p. total_score_or_0 p = Inr (fst kb)) ps = map snd (filter (\<lambda>x. fst x = fst kb) ks)"
      unfolding ks2(1) [symmetric] filter_map using ks2(2)
      by (intro arg_cong [of _ _ "map snd"] filter_cong) (auto simp: case_prod_unfold)
    have "filter (\<lambda>x. fst x = fst kb) ks \<noteq> []" using kb by (auto simp: filter_empty_conv)
    then have "hd (map snd (filter (\<lambda>x. fst x = fst kb) ks)) = snd (hd (filter (\<lambda>x. fst x = fst kb) ks))"
      by (rule hd_map)
    then show ?thesis unfolding f using best(3) by simp
  qed
  obtain sp where st: "dget st ''target_speed_pct'' = Some (PInt (max 40 (min 100 sp)))"
      "dget st ''inspection_mode'' \<in> {Some (PStr ''standard''), Some (PStr ''enhanced'')}"
      "dget st ''best_agent'' = Some (dget_or (snd kb) ''agent'' (PStr ''''))"
      "dget st ''best_score'' = Some (PFloat (fst kb))"
    using assms ks score by (auto simp: cnp_numeric_strategy_def bindR_Inr_iff Let_def kb_def [symmetric] dget_def)
  have "snd kb \<in> set ps" using kb ks2(1) by auto
  then show ?thesis using st score max first
    by (intro bexI [of _ "snd kb"] exI [of _ "max 40 (min 100 sp)"] exI [of _ "fst kb"]) auto
qed

theorem numeric_strategy_safe_witness:
  "\<exists>st sp. cnp_numeric_strategy [[(''agent'', PStr ''QA''), (''speed_recommendation'', PInt 20), (''total_score'', PFloat 1)]] = Inr st
     \<and> dget st ''target_speed_pct'' = Some (PInt sp) \<and> 40 \<le> sp \<and> sp \<le> 100"
proof -
  let ?ps = "[[(''agent'', PStr ''QA''), (''speed_recommendation'', PInt 20), (''total_score'', PFloat 1)]]"
  have "\<exists>st. cnp_numeric_strategy ?ps = Inr st"
    by (simp add: cnp_numeric_strategy_def total_score_or_0_def dget_or_def py_or_def proposed_speed_def
        speed_or_100_def except_type_value_def sorted_desc_def Let_def)
  then obtain st where "cnp_numeric_strategy ?ps = Inr st" by blast
  then show ?thesis using numeric_strategy_safe [of ?ps st] by auto
qed



text \<open>
  \<open>llm_cannot_override_numbers\<close>: whatever a language model returns, the merged strategy
  agrees with the solver on the five numeric keys (it neither changes nor adds one), takes
  every other key from the model's last word on it, and always carries a rationale.
\<close>

theorem llm_cannot_override_numbers:
  "(\<forall>k\<in>set NUMERIC_KEYS. dget (merge_numeric_and_rationale numeric llm) k = dget numeric k)
   \<and> (\<forall>k. k \<notin> set NUMERIC_KEYS \<longrightarrow> k \<noteq> ''rationale'' \<longrightarrow> llm \<noteq> None \<longrightarrow> the llm \<noteq> [] \<longrightarrow>
        dget (merge_numeric_and_rationale numeric llm) k
          = (case dget (rev (the llm)) k of Some v \<Rightarrow> Some v | None \<Rightarrow> dget numeric k))
   \<and> dget (merge_numeric_and_rationale numeric llm) ''rationale'' \<noteq> None"
proof -
  let ?step = "\<lambda>(k, v) out. if k \<in> set NUMERIC_KEYS then out
                     else if k = ''target_speed_pct'' \<or> k = ''best_score'' then out else dset k v out"
  have step: "dget (?step kv d) k = (if fst kv \<notin> set NUMERIC_KEYS \<and> k = fst kv then Some (snd kv) else dget d k)"
    for kv d k by (cases kv) (auto simp: NUMERIC_KEYS_def)
  have fold1: "dget (fold ?step kvs d) k = dget d k" if "k \<in> set NUMERIC_KEYS" for kvs d k
    using that by (induction kvs arbitrary: d) (auto simp: step simp del: split_paired_All)
  have rev_get: "dget (rev (kv # kvs)) k
      = (case dget (rev kvs) k of Some v \<Rightarrow> Some v | None \<Rightarrow> if fst kv = k then Some (snd kv) else None)" for kv kvs k
    by (cases kv) (simp add: dget_def map_add_def split: option.split)
  have fold2: "dget (fold ?step kvs d) k = (case dget (rev kvs) k of Some v \<Rightarrow> Some v | None \<Rightarrow> dget d k)"
    if "k \<notin> set NUMERIC_KEYS" for kvs d k
  proof (induction kvs arbitrary: d)
    case Nil
    then show ?case by (simp add: dget_def)
  next
    case (Cons kv kvs)
    have "dget (fold ?step (kv # kvs) d) k = dget (fold ?step kvs (?step kv d)) k" by simp
    also have "\<dots> = (case dget (rev kvs) k of Some v \<Rightarrow> Some v | None \<Rightarrow> dget (?step kv d) k)" by (rule Cons.IH)
    finally show ?case unfolding rev_get step using that by (auto split: option.split)
  qed
  have keys: "k \<notin> {''rationale'', ''risk_assessment'', ''expected_ss_impact''}" if "k \<in> set NUMERIC_KEYS" for k
    using that by (auto simp: NUMERIC_KEYS_def)
  show ?thesis
  proof (cases "llm = None \<or> llm = Some []")
    case True
    then obtain v w x where m: "merge_numeric_and_rationale numeric llm = dsetdefault ''expected_ss_impact'' v
        (dsetdefault ''risk_assessment'' w (dsetdefault ''rationale'' x numeric))"
      unfolding merge_numeric_and_rationale_def by fastforce
    have "dget (merge_numeric_and_rationale numeric llm) k = dget numeric k" if "k \<in> set NUMERIC_KEYS" for k
      using keys [OF that] by (simp add: m)
    moreover have "dget (merge_numeric_and_rationale numeric llm) ''rationale'' \<noteq> None"
      by (simp add: m dget_dsetdefault)
    ultimately show ?thesis using True by auto
  next
    case False
    then obtain kvs where l: "llm = Some kvs" "kvs \<noteq> []" by auto
    obtain v where m: "merge_numeric_and_rationale numeric llm = dsetdefault ''rationale'' v (fold ?step kvs numeric)"
      unfolding merge_numeric_and_rationale_def l(1) using l(2) by (cases kvs) simp_all
    have "dget (merge_numeric_and_rationale numeric llm) k = dget numeric k" if "k \<in> set NUMERIC_KEYS" for k
      using keys [OF that] fold1 [OF that] by (simp add: m)
    moreover have "dget (merge_numeric_and_rationale numeric llm) k
        = (case dget (rev (the llm)) k of Some v \<Rightarrow> Some v | None \<Rightarrow> dget numeric k)"
      if "k \<notin> set NUMERIC_KEYS" "k \<noteq> ''rationale''" for k
      unfolding m dget_dsetdefault_other [OF that(2)] unfolding l(1) option.sel by (rule fold2 [OF that(1)])
    moreover have "dget (merge_numeric_and_rationale numeric llm) ''rationale'' \<noteq> None"
      by (simp add: m dget_dsetdefault)
    ultimately show ?thesis by blast
  qed
qed

theorem llm_cannot_override_numbers_witness:
  "dget (merge_numeric_and_rationale [(''target_speed_pct'', PInt 80)]
      (Some [(''target_speed_pct'', PInt 100), (''decision'', PStr ''llm''), (''risk_assessment'', PStr ''low'')]))
      ''target_speed_pct'' = Some (PInt 80)
   \<and> dget (merge_numeric_and_rationale [(''target_speed_pct'', PInt 80)]
      (Some [(''target_speed_pct'', PInt 100), (''decision'', PStr ''llm''), (''risk_assessment'', PStr ''low'')]))
      ''risk_assessment'' = Some (PStr ''low'')"
  using llm_cannot_override_numbers [of "[(''target_speed_pct'', PInt 80)]"
      "Some [(''target_speed_pct'', PInt 100), (''decision'', PStr ''llm''), (''risk_assessment'', PStr ''low'')]"]
  by (simp add: NUMERIC_KEYS_def dget_def)

section \<open>Zero scores\<close>

text \<open>
  \<open>zero_risk_scores_as_default\<close>: the evaluator reads its inputs as \<open>value or default\<close>, so
  a zero is read as a missing value: a proposal of quality risk 0 gets the score of one of
  risk 0.3, strictly less than an otherwise equal proposal of any risk in between, and an
  expected cost of 0 is charged as a cost of one half.
\<close>

theorem zero_risk_scores_as_default:
  assumes "comparison_score (dset ''quality_risk'' (PFloat r) c) = Inr x" "0 < r" "r < 3 / 10"
  shows "\<exists>x0. comparison_score (dset ''quality_risk'' (PFloat 0) c) = Inr x0
      \<and> comparison_score (dset ''quality_risk'' (PFloat (3 / 10)) c) = Inr x0
      \<and> x0 = x - 25 / 100 * (3 / 10 - r) \<and> x0 < x
      \<and> comparison_score (dset ''expected_cost'' (PFloat 0) c)
          = comparison_score (dset ''expected_cost'' (PFloat (1 / 2)) c)"
proof -
  have r: "float_or (dset ''quality_risk'' (PFloat r) c) ''quality_risk'' (3 / 10) = Inr r"
      "float_or (dset ''quality_risk'' (PFloat 0) c) ''quality_risk'' (3 / 10) = Inr (3 / 10)"
      "float_or (dset ''quality_risk'' (PFloat (3 / 10)) c) ''quality_risk'' (3 / 10) = Inr (3 / 10)"
    using assms(2) by (simp_all add: float_or_def py_or_def dget_none_def)
  have o: "float_or (dset ''quality_risk'' v c) k d = float_or c k d" if "k \<noteq> ''quality_risk''" for v k d
    using that by (simp add: float_or_def dget_none_def)
  have cost: "float_or (dset ''expected_cost'' (PFloat 0) c) ''expected_cost'' (1 / 2)
        = float_or (dset ''expected_cost'' (PFloat (1 / 2)) c) ''expected_cost'' (1 / 2)"
    by (simp add: float_or_def py_or_def dget_none_def)
  have o2: "float_or (dset ''expected_cost'' v c) k d = float_or c k d" if "k \<noteq> ''expected_cost''" for v k d
    using that by (simp add: float_or_def dget_none_def)
  obtain eff co conf where e: "float_or c ''expected_effect'' (1 / 2) = Inr eff"
      "float_or c ''expected_cost'' (1 / 2) = Inr co" "float_or c ''confidence'' (7 / 10) = Inr conf"
      "x = eff * conf - 35 / 100 * co - 25 / 100 * r"
    using assms(1) by (auto simp: comparison_score_def bindR_Inr_iff o r)
  show ?thesis using assms(2,3) e
    by (simp add: comparison_score_def o o2 r cost) (simp add: field_simps)
qed

theorem zero_risk_scores_as_default_witness:
  "\<exists>x x0. comparison_score (dset ''quality_risk'' (PFloat (1 / 10)) []) = Inr x
     \<and> comparison_score (dset ''quality_risk'' (PFloat 0) []) = Inr x0 \<and> x0 < x"
proof -
  have "comparison_score (dset ''quality_risk'' (PFloat (1 / 10)) [])
      = Inr (1 / 2 * (7 / 10) - 35 / 100 * (1 / 2) - 25 / 100 * (1 / 10))"
    by (simp add: comparison_score_def float_or_def dget_none_def dget_or_def dset_def py_or_def)
  then obtain x where x: "comparison_score (dset ''quality_risk'' (PFloat (1 / 10)) []) = Inr x" by blast
  show ?thesis using zero_risk_scores_as_default [OF x] x by auto
qed

end
