(* ===== verification/Signals.thy ===== *)
theory Signals
  imports Py_Text
begin

text \<open>
  \<open>mas/intelligence/snapshot_enrichment.py\<close> (the flat fields the decision router reads),
  \<open>mas/intelligence/domain_inference.py\<close> (rule-based risk bands) and the context the
  optimisation layer hands to the language model (\<open>build_llm_context\<close>).
\<close>

section \<open>Enrichment\<close>

text \<open>\<open>d.get(key) or {}\<close>, on which \<open>.get\<close> is called next.\<close>

definition sub_dict :: "dict \<Rightarrow> string \<Rightarrow> dict result" where
  "sub_dict d k = as_dict (py_or (dget_none d k) (PDict []))"

definition sensor_num :: "dict \<Rightarrow> real" where
  "sensor_num d =
     (case dget_or d ''value'' (dget_none d ''ma'') of
        PNone \<Rightarrow> 0
      | v \<Rightarrow> (case py_float v of Inr x \<Rightarrow> x | Inl _ \<Rightarrow> 0))"

definition sensor_figure :: "pyval \<Rightarrow> real result" where
  "sensor_figure v = (case v of PDict d \<Rightarrow> Inr (sensor_num d) | _ \<Rightarrow> py_float (py_or v (PInt 0)))"

fun min_supply_hours :: "real \<Rightarrow> dict \<Rightarrow> real" where
  "min_supply_hours h [] = h"
| "min_supply_hours h ((_, mv) # ms) =
     min_supply_hours
       (case mv of PDict m \<Rightarrow> (case dget_none m ''days_supply'' of
            PNone \<Rightarrow> h
          | ds \<Rightarrow> (case py_float ds of Inr x \<Rightarrow> min h (x * 24) | Inl _ \<Rightarrow> h))
        | _ \<Rightarrow> h) ms"

definition press_sensors :: "dict \<Rightarrow> dict result" where
  "press_sensors snap =
     bindR (sub_dict snap ''stations'') (\<lambda>stations.
     bindR (sub_dict stations ''WC-01'') (\<lambda>wc01.
       sub_dict wc01 ''sensors''))"

definition enrich_snapshot_for_router :: "dict \<Rightarrow> dict result" where
  "enrich_snapshot_for_router snap =
     bindR (press_sensors snap) (\<lambda>sensors.
     bindR (sensor_figure (dget_none sensors ''vibration'')) (\<lambda>vib.
     bindR (sensor_figure (dget_none sensors ''oil_temp'')) (\<lambda>oil.
     bindR (sub_dict snap ''materials'') (\<lambda>mats.
       let min_h = min_supply_hours 999 mats
       in Inr (dset ''material_buffer_hours'' (PFloat (if min_h < 999 then min_h else 99))
             (dset ''oil_temp'' (PFloat oil) (dset ''vibration'' (PFloat vib) snap)))))))"

section \<open>Risk bands\<close>

definition defect_risk_band :: "real \<Rightarrow> real \<Rightarrow> string" where
  "defect_risk_band vib vib_ma =
     (if vib \<ge> 45 / 10 \<or> vib_ma \<ge> 42 / 10 then ''HIGH''
      else if vib \<ge> 35 / 10 \<or> vib_ma \<ge> 33 / 10 then ''MEDIUM'' else ''LOW'')"

definition rul_band :: "real \<Rightarrow> real \<Rightarrow> string" where
  "rul_band oil vib = (if oil \<ge> 75 \<or> vib \<ge> 5 then ''RED'' else if oil \<ge> 60 \<or> vib \<ge> 4 then ''YELLOW'' else ''GREEN'')"

definition infer_domain_signals :: "dict \<Rightarrow> dict result" where
  "infer_domain_signals snap =
     bindR (enrich_snapshot_for_router snap) (\<lambda>e.
     bindR (py_float (py_or (dget_none e ''vibration'') (PInt 0))) (\<lambda>vib.
     bindR (py_float (py_or (dget_none e ''oil_temp'') (PInt 0))) (\<lambda>oil.
     bindR (press_sensors snap) (\<lambda>sens.
     bindR (py_float (py_or (dget_or (dict_or_empty (dget_none sens ''vibration'')) ''ma'' (PFloat vib)) (PInt 0))) (\<lambda>vib_ma.
       Inr [(''defect_risk_band'', PStr (defect_risk_band vib vib_ma)), (''rul_band'', PStr (rul_band oil vib)),
            (''vibration_peak'', PFloat (py_round 3 vib)), (''vibration_ma'', PFloat (py_round 3 vib_ma)),
            (''inference_backend'', PStr ''rules_v1'')])))))"

section \<open>The language model's context\<close>

definition float_get_or :: "dict \<Rightarrow> string \<Rightarrow> pyval \<Rightarrow> pyval \<Rightarrow> real result" where
  "float_get_or d k dflt alt = py_float (py_or (dget_or d k dflt) alt)"

definition llm_warehouse :: "dict \<Rightarrow> pyval" where
  "llm_warehouse snap = (case dget_none snap ''warehouse'' of
      PDict w \<Rightarrow> PDict w
    | _ \<Rightarrow> PDict [(''stock'', dget_or snap ''fg_stock'' (PInt 0)),
                 (''safety_stock'', dget_or snap ''fg_safety_stock'' (PInt 0)),
                 (''service_level'', dget_or snap ''service_level'' (PFloat (95 / 100)))])"

definition llm_vibration :: "dict \<Rightarrow> dict \<Rightarrow> dict result" where
  "llm_vibration sens ctx = (case dget_none sens ''vibration'' of
      PDict vib \<Rightarrow>
        bindR (float_get_or vib ''ma'' (dget_or ctx ''vibration'' (PInt 0)) (PInt 0)) (\<lambda>ma.
        bindR (float_get_or vib ''slope'' (PInt 0) (PInt 0)) (\<lambda>slope.
          Inr (dset ''vibration_slope'' (PFloat slope) (dset ''vibration_ma'' (PFloat ma) ctx))))
    | _ \<Rightarrow> Inr (dsetdefault ''vibration_slope'' (PFloat 0)
               (dsetdefault ''vibration_ma'' (dget_or ctx ''vibration'' (PInt 0)) ctx)))"

definition llm_quality_cpk :: "dict \<Rightarrow> dict" where
  "llm_quality_cpk stations = concat (map (\<lambda>(sid, dv). case dv of
      PDict d \<Rightarrow> (case dget d ''cpk'' of Some c \<Rightarrow> [(sid, c)] | None \<Rightarrow> []) | _ \<Rightarrow> []) stations)"

definition build_llm_context :: "dict \<Rightarrow> dict result" where
  "build_llm_context snap =
     bindR (enrich_snapshot_for_router snap) (\<lambda>ctx0.
       let ctx1 = dset ''warehouse'' (llm_warehouse snap) ctx0 in
     bindR (sub_dict snap ''stations'') (\<lambda>stations.
     bindR (sub_dict stations ''WC-01'') (\<lambda>wc01.
     bindR (sub_dict wc01 ''sensors'') (\<lambda>sens.
     bindR (llm_vibration sens ctx1) (\<lambda>ctx2.
     bindR (float_get_or wc01 ''speed_pct'' (dget_or wc01 ''line_speed_pct'' (PInt 100)) (PInt 100)) (\<lambda>speed.
       let ctx3 = dset ''line_speed_pct'' (PFloat speed) ctx2;
           q = llm_quality_cpk stations;
           ctx4 = (if q \<noteq> [] then dset ''quality_cpk'' (PDict q) ctx3 else dsetdefault ''quality_cpk'' (PDict []) ctx3)
       in bindR (float_get_or snap ''predicted_yield'' (PFloat (95 / 100)) (PFloat (95 / 100))) (\<lambda>yield.
          bindR (float_get_or snap ''capacity_factor'' (PFloat 1) (PFloat 1)) (\<lambda>capacity.
          bindR (infer_domain_signals snap) (\<lambda>signals.
            Inr (dset ''domain_signals'' (PDict signals) (dset ''capacity_factor'' (PFloat capacity)
                (dset ''predicted_yield'' (PFloat yield) ctx4))))))))))))"

section \<open>The fields the router reads\<close>

lemma enriched_fields:
  assumes "enrich_snapshot_for_router snap = Inr e"
  shows "\<exists>vib oil buf. dget e ''vibration'' = Some (PFloat vib) \<and> dget e ''oil_temp'' = Some (PFloat oil)
     \<and> dget e ''material_buffer_hours'' = Some (PFloat buf) \<and> buf < 999"
  using assms by (auto simp: enrich_snapshot_for_router_def bindR_Inr_iff Let_def)

end
