(* ===== verification/Llm.thy ===== *)
theory Llm
  imports Cnp Signals Bounded_Log
begin

text \<open>
  \<open>mas/intelligence/llm.py\<close> and \<open>mas/intelligence/prompt_registry.py\<close>: the language model
  client with its usage counters and logs, and the three requests built on it. The remote
  service is a parameter: a function of the prompt's identifier and of the arguments its
  template is filled with, answering with token usage and a text, or failing with the text
  of an exception. The JSON reader is the parameter \<open>loads\<close>. The wording of the templates
  and the character counts of the audit entries are not modelled; the conversions of the
  arguments, which can raise, are.
\<close>

section \<open>State\<close>

definition PROMPT_SUITE_VERSION :: string where "PROMPT_SUITE_VERSION = ''2026.04.07''"

definition PROMPT_IDS :: dict where
  "PROMPT_IDS = [(''pa_system'', PStr ''pa_system_v1''), (''strategy_user'', PStr ''strategy_user_v1''),
     (''situation_user'', PStr ''situation_user_v1''), (''cnp_rationale_user'', PStr ''cnp_rationale_v1'')]"

definition prompt_metadata :: dict where
  "prompt_metadata = [(''suite'', PStr PROMPT_SUITE_VERSION), (''ids'', PDict PROMPT_IDS)]"

record token_usage =
  tu_prompt :: nat
  tu_completion :: nat
  tu_total :: nat
  tu_calls :: nat
  tu_errors :: nat

record llm =
  lc_model :: string
  lc_domain_model :: "string option"
  lc_enabled :: bool
  lc_fallback_reason :: string
  lc_usage :: token_usage
  lc_call_log :: "dict list"
  lc_audit_log :: "dict list"

text \<open>
  The constructor: an explicit key or the environment's, whether the client library is
  installed, and whether its constructor raised (with which text).
\<close>

definition new_llm :: "string option \<Rightarrow> string \<Rightarrow> bool \<Rightarrow> string option \<Rightarrow> string \<Rightarrow> string option \<Rightarrow> llm" where
  "new_llm api_key env_key has_openai ctor_error model domain_model =
     (let key = (case api_key of Some k \<Rightarrow> if k \<noteq> [] then k else env_key | None \<Rightarrow> env_key);
          base = \<lparr> lc_model = model,
             lc_domain_model = (case domain_model of Some m \<Rightarrow> if py_strip m \<noteq> [] then Some (py_strip m) else None | None \<Rightarrow> None),
             lc_enabled = False, lc_fallback_reason = '''',
             lc_usage = \<lparr> tu_prompt = 0, tu_completion = 0, tu_total = 0, tu_calls = 0, tu_errors = 0 \<rparr>,
             lc_call_log = [], lc_audit_log = [] \<rparr>
      in if key = [] then base\<lparr>lc_fallback_reason := (utf8 [0x4F, 0x50, 0x45, 0x4E, 0x41, 0x49, 0x5F, 0x41, 0x50, 0x49, 0x5F, 0x4B, 0x45, 0x59, 0x20, 0xBBF8, 0xC124, 0xC815])\<rparr>
         else if \<not> has_openai then base\<lparr>lc_fallback_reason := (utf8 [0x6F, 0x70, 0x65, 0x6E, 0x61, 0x69, 0x20, 0xD328, 0xD0A4, 0xC9C0, 0x20, 0xBBF8, 0xC124, 0xCE58, 0x20, 0x28, 0x70, 0x69, 0x70, 0x20, 0x69, 0x6E, 0x73, 0x74, 0x61, 0x6C, 0x6C, 0x20, 0x6F, 0x70, 0x65, 0x6E, 0x61, 0x69, 0x29])\<rparr>
         else (case ctor_error of None \<Rightarrow> base\<lparr>lc_enabled := True\<rparr> | Some e \<Rightarrow> base\<lparr>lc_fallback_reason := e\<rparr>))"

section \<open>The remote call\<close>

record usage =
  us_prompt :: nat
  us_completion :: nat
  us_total :: nat

datatype reply = Reply "usage option" string | Failed string

record call_clock =
  ck_t0 :: real
  ck_audit :: real
  ck_t1 :: real

definition push_audit :: "dict \<Rightarrow> dict list \<Rightarrow> dict list" where
  "push_audit = push_trim 300 150"

definition push_call :: "dict \<Rightarrow> dict list \<Rightarrow> dict list" where
  "push_call = push_trim 200 100"

definition audit :: "string \<Rightarrow> real \<Rightarrow> dict \<Rightarrow> llm \<Rightarrow> llm" where
  "audit kind ts meta c =
     c\<lparr>lc_audit_log := push_audit (dmerge [(''kind'', PStr kind), (''ts'', PFloat ts)] meta) (lc_audit_log c)\<rparr>"

definition count_usage :: "usage option \<Rightarrow> llm \<Rightarrow> llm" where
  "count_usage u c =
     (let t = lc_usage c;
          t1 = (case u of None \<Rightarrow> t | Some u \<Rightarrow> t\<lparr> tu_prompt := tu_prompt t + us_prompt u,
                  tu_completion := tu_completion t + us_completion u, tu_total := tu_total t + us_total u \<rparr>)
      in c\<lparr>lc_usage := t1\<lparr>tu_calls := Suc (tu_calls t1)\<rparr>\<rparr>)"

definition elapsed :: "call_clock \<Rightarrow> real" where
  "elapsed k = py_round 2 (ck_t1 k - ck_t0 k)"

definition record_failure :: "string \<Rightarrow> call_clock \<Rightarrow> llm \<Rightarrow> llm" where
  "record_failure e k c = c\<lparr> lc_usage := (lc_usage c)\<lparr>tu_errors := Suc (tu_errors (lc_usage c))\<rparr>,
     lc_call_log := lc_call_log c @ [[(''error'', PStr e), (''elapsed_sec'', PFloat (elapsed k))]] \<rparr>"

definition usage_prompt :: "usage option \<Rightarrow> nat" where
  "usage_prompt u = (case u of None \<Rightarrow> 0 | Some u \<Rightarrow> us_prompt u)"

definition llm_call ::
  "(string \<Rightarrow> string + pyval) \<Rightarrow> reply \<Rightarrow> call_clock \<Rightarrow> dict \<Rightarrow> llm \<Rightarrow> pyval option \<times> llm" where
  "llm_call loads r k log_extra c =
     (if \<not> lc_enabled c then (None, c)
      else case r of
          Failed e \<Rightarrow> (None, record_failure e k c)
        | Reply u content \<Rightarrow>
            (let c1 = count_usage u c in
             case loads content of
               Inl e \<Rightarrow> (None, record_failure e k c1)
             | Inr v \<Rightarrow>
                 (let c2 = audit ''chat_completion_json'' (ck_audit k)
                        [(''model'', PStr (lc_model c)),
                         (''response_keys'', PList (case v of PDict d \<Rightarrow> map (\<lambda>(key, _). PStr key) d | _ \<Rightarrow> [])),
                         (''allowed_surface'', PStr ''strategy_rationale_only'')] c1;
                      entry = dmerge [(''model'', PStr (lc_model c)), (''prompt_tokens'', PInt (int (usage_prompt u))),
                        (''completion_tokens'', PInt (case u of None \<Rightarrow> 0 | Some u \<Rightarrow> int (us_completion u))),
                        (''elapsed_sec'', PFloat (elapsed k)), (''prompt_suite'', PStr PROMPT_SUITE_VERSION)] log_extra
                  in (Some v, c2\<lparr>lc_call_log := push_call entry (lc_call_log c2)\<rparr>))))"

definition complete_text :: "reply \<Rightarrow> call_clock \<Rightarrow> llm \<Rightarrow> string option \<times> llm" where
  "complete_text r k c =
     (if \<not> lc_enabled c then (None, c)
      else case r of
          Failed e \<Rightarrow> (None, record_failure e k c)
        | Reply u raw \<Rightarrow>
            (let content = py_strip raw; c1 = count_usage u c;
                 c2 = audit ''chat_completion_text'' (ck_audit k)
                   [(''model'', PStr (lc_model c)), (''response_chars'', PInt (int (length (filter (\<lambda>ch. \<not> is_cont_byte ch) content)))),
                    (''allowed_surface'', PStr ''monitoring_qa'')] c1;
                 entry = [(''model'', PStr (lc_model c)), (''prompt_tokens'', PInt (int (usage_prompt u))),
                   (''elapsed_sec'', PFloat (elapsed k)), (''prompt_id'', PStr ''monitoring_qa_v1'')]
             in (if content \<noteq> [] then Some content else None, c2\<lparr>lc_call_log := push_call entry (lc_call_log c2)\<rparr>)))"

section \<open>The requests\<close>

text \<open>The remote service sees the prompt's identifier and the arguments of its template.\<close>

type_synonym remote = "string \<Rightarrow> dict \<Rightarrow> reply"

definition proposal_line :: "dict \<Rightarrow> pyval" where
  "proposal_line p = PList [dget_or p ''agent'' (PStr ''?''), dget_or p ''summary'' (dget_or p ''proposal'' (PStr '''')),
     dget_or p ''scores'' (PDict [])]"

definition domain_signals_of :: "dict \<Rightarrow> pyval result" where
  "domain_signals_of context = (let v = dget_none context ''domain_signals'' in
     if py_truthy v then Inr v else bindR (infer_domain_signals context) (\<lambda>d. Inr (PDict d)))"

definition rationale_arguments :: "dict \<Rightarrow> dict list \<Rightarrow> dict \<Rightarrow> dict result" where
  "rationale_arguments context proposals numeric =
     bindR (dict_at context ''warehouse'') (\<lambda>wh.
     bindR (domain_signals_of context) (\<lambda>ds.
     bindR (float_get_or context ''vibration'' (PInt 0) (PInt 0)) (\<lambda>vib.
     bindR (float_get_or context ''vibration_ma'' (PInt 0) (PInt 0)) (\<lambda>ma.
     bindR (float_get_or context ''oil_temp'' (PInt 0) (PInt 0)) (\<lambda>oil.
     bindR (float_get_or context ''line_speed_pct'' (PInt 100) (PInt 100)) (\<lambda>speed.
     bindR (float_get_or wh ''service_level'' (PFloat 1) (PFloat 1)) (\<lambda>sl.
       Inr [(''numeric_json'', PDict numeric), (''vibration'', PFloat vib), (''vibration_ma'', PFloat ma),
            (''oil_temp'', PFloat oil), (''line_speed_pct'', PFloat speed), (''stock'', dget_or wh ''stock'' (PInt 0)),
            (''safety_stock'', dget_or wh ''safety_stock'' (PInt 0)), (''service_level'', PFloat sl),
            (''domain_json'', ds), (''proposals_text'', PList (map proposal_line proposals))])))))))"

definition rationalize_cnp_decision ::
  "remote \<Rightarrow> (string \<Rightarrow> string + pyval) \<Rightarrow> call_clock \<Rightarrow> dict \<Rightarrow> dict list \<Rightarrow> dict \<Rightarrow> llm \<Rightarrow> (pyval option \<times> llm) result" where
  "rationalize_cnp_decision remote loads k context proposals numeric c =
     bindR (rationale_arguments context proposals numeric) (\<lambda>args.
       Inr (llm_call loads (remote ''cnp_rationale_v1'' args) k [(''prompt_id'', PStr ''cnp_rationale_v1'')] c))"

text \<open>The client's state survives a raise inside the request (the first component).\<close>

definition llm_evaluate ::
  "remote \<Rightarrow> (string \<Rightarrow> string + pyval) \<Rightarrow> call_clock \<Rightarrow> dict \<Rightarrow> dict list \<Rightarrow> llm \<Rightarrow> dict option result \<times> llm" where
  "llm_evaluate remote loads k context proposals c =
     (if proposals = [] then (Inr None, c)
      else case cnp_numeric_strategy proposals of
          Inl e \<Rightarrow> (Inl e, c)
        | Inr numeric \<Rightarrow>
            if numeric = [] then (Inr None, c)
            else (case (if lc_enabled c then rationalize_cnp_decision remote loads k context proposals numeric c
                        else Inr (None, c)) of
                Inl e \<Rightarrow> (Inl e, c)
              | Inr (rat, c1) \<Rightarrow>
                  (bindR (case rat of None \<Rightarrow> Inr None
                           | Some v \<Rightarrow> if py_truthy v then bindR (as_dict v) (\<lambda>d. Inr (Some d)) else Inr None) (\<lambda>part.
                     Inr (Some (dset ''prompt_suite_version'' (PStr PROMPT_SUITE_VERSION)
                       (dset ''decision'' (PStr (if lc_enabled c \<and> part \<noteq> None then ''hybrid_solver_llm'' else ''solver_only''))
                         (merge_numeric_and_rationale numeric part))))),
                   c1)))"

definition alert_line :: "dict \<Rightarrow> pyval" where
  "alert_line a = PList [dget_or a ''sender'' (PStr ''?''), dget_or a ''type'' (PStr ''''), dget_or a ''summary'' (PStr '''')]"

definition situation_arguments :: "dict \<Rightarrow> dict list \<Rightarrow> string \<Rightarrow> dict result" where
  "situation_arguments env alerts agent_id =
     bindR (dict_at env ''warehouse'') (\<lambda>wh.
     bindR (domain_signals_of env) (\<lambda>ds.
     bindR (fmt_fixed_val 2 (dget_or env ''vibration'' (PInt 0))) (\<lambda>vib.
     bindR (fmt_fixed_val 2 (dget_or env ''vibration_ma'' (PInt 0))) (\<lambda>ma.
     bindR (fmt_fixed_val 1 (dget_or env ''oil_temp'' (PInt 0))) (\<lambda>oil.
     bindR (fmt_pct_val 1 (dget_or wh ''service_level'' (PFloat 1))) (\<lambda>sl.
       Inr [(''vibration'', PStr vib), (''vibration_ma'', PStr ma), (''oil_temp'', PStr oil),
            (''stock'', dget_or wh ''stock'' (PInt 0)), (''safety_stock'', dget_or wh ''safety_stock'' (PInt 0)),
            (''service_level'', PStr sl), (''alerts_text'', PList (map alert_line alerts)),
            (''domain'', ds), (''agent_id'', PStr agent_id)]))))))"

definition analyze_situation ::
  "remote \<Rightarrow> (string \<Rightarrow> string + pyval) \<Rightarrow> call_clock \<Rightarrow> dict \<Rightarrow> dict list \<Rightarrow> string \<Rightarrow> llm \<Rightarrow> (pyval option \<times> llm) result" where
  "analyze_situation remote loads k env alerts agent_id c =
     bindR (situation_arguments env alerts agent_id) (\<lambda>args.
       Inr (llm_call loads (remote ''situation_user_v1'' args) k
         [(''prompt_id'', PStr ''situation_user_v1''), (''router_agent'', PStr agent_id)] c))"

definition usage_dict :: "token_usage \<Rightarrow> dict" where
  "usage_dict t = [(''prompt_tokens'', PInt (int (tu_prompt t))), (''completion_tokens'', PInt (int (tu_completion t))),
     (''total_tokens'', PInt (int (tu_total t))), (''calls'', PInt (int (tu_calls t))), (''errors'', PInt (int (tu_errors t)))]"

definition llm_status :: "llm \<Rightarrow> dict" where
  "llm_status c =
     [(''enabled'', PBool (lc_enabled c)), (''orchestrator_model'', PStr (lc_model c)),
      (''domain_model'', (case lc_domain_model c of None \<Rightarrow> PNone | Some m \<Rightarrow> PStr m)), (''model'', PStr (lc_model c)),
      (''prompt_suite'', PDict prompt_metadata),
      (''mode'', PStr (if lc_enabled c then ''LLM ('' @ lc_model c @ '')'' else ''Rule-based ('' @ lc_fallback_reason c @ '')'')),
      (''token_usage'', PDict (usage_dict (lc_usage c))), (''call_count'', PInt (int (length (lc_call_log c)))),
      (''recent_calls'', PList (map PDict (last_n 5 (lc_call_log c))))]"

section \<open>The logs\<close>

interpretation audit_trail: bounded_log push_audit 300 150
  unfolding push_audit_def by (simp add: bounded_log_push_trim)

interpretation call_trail: bounded_log push_call 200 100
  unfolding push_call_def by (simp add: bounded_log_push_trim)

end
