(* ===== verification/Agent_Base.thy ===== *)
theory Agent_Base
  imports Broker Py_Text
begin

text \<open>
  \<open>mas/agents/base_agent.py\<close>: what the six agents inherit. An agent is a record that each
  concrete agent extends with its own fields; its inbox is the one the broker's reference
  to it holds (\<open>b_refs\<close>), so \<open>receive_message\<close> is the broker's \<open>ref_receive\<close>. The
  identifiers and time stamps of the messages an agent creates come from two tapes,
  indexed by the number of messages sent. \<open>sense\<close>, \<open>reason\<close> and \<open>act\<close> are the abstract
  methods: arguments of \<open>run_cycle\<close> and the \<open>fixes\<close> of the locale that states what every
  agent promises about them.
\<close>

section \<open>State\<close>

datatype agent_state = AG_IDLE | AG_SENSING | AG_REASONING | AG_ACTING | AG_NEGOTIATING | AG_ERROR

fun agent_state_value :: "agent_state \<Rightarrow> string" where
  "agent_state_value AG_IDLE = (utf8 [0xB300, 0xAE30])"
| "agent_state_value AG_SENSING = (utf8 [0xAC10, 0xC9C0])"
| "agent_state_value AG_REASONING = (utf8 [0xD310, 0xB2E8])"
| "agent_state_value AG_ACTING = (utf8 [0xC2E4, 0xD589])"
| "agent_state_value AG_NEGOTIATING = (utf8 [0xD611, 0xC0C1])"
| "agent_state_value AG_ERROR = (utf8 [0xC624, 0xB958])"

record 'd base_agent =
  ag_id :: string
  ag_name :: string
  ag_state :: agent_state
  ag_outbox :: "agent_message list"
  ag_reasoning_log :: "string list"
  ag_snapshot :: "dict option"
  ag_decisions :: "'d list"
  ag_cycle_count :: nat
  ag_uuid :: "nat \<Rightarrow> string"
  ag_now :: "nat \<Rightarrow> string"

definition new_base_agent :: "string \<Rightarrow> string \<Rightarrow> (nat \<Rightarrow> string) \<Rightarrow> (nat \<Rightarrow> string) \<Rightarrow> 'd base_agent" where
  "new_base_agent aid name uuids now =
     \<lparr> ag_id = aid, ag_name = name, ag_state = AG_IDLE, ag_outbox = [], ag_reasoning_log = [],
       ag_snapshot = None, ag_decisions = [], ag_cycle_count = 0, ag_uuid = uuids, ag_now = now \<rparr>"

text \<open>An agent's methods work on the agent and the broker it is connected to, if any.\<close>

type_synonym 'a wired = "'a \<times> broker option"

definition with_agent :: "('a \<Rightarrow> 'a) \<Rightarrow> 'a wired \<Rightarrow> 'a wired" where
  "with_agent f s = (f (fst s), snd s)"

section \<open>Operations\<close>

definition push_reasoning :: "string \<Rightarrow> string list \<Rightarrow> string list" where
  "push_reasoning = push_trim 50 50"

definition push_decision :: "'d \<Rightarrow> 'd list \<Rightarrow> 'd list" where
  "push_decision = push_trim 100 100"

definition log_reasoning ::
  "string \<Rightarrow> ('d, 'z) base_agent_scheme wired \<Rightarrow> ('d, 'z) base_agent_scheme wired" where
  "log_reasoning text = with_agent (\<lambda>a. a\<lparr>ag_reasoning_log := push_reasoning text (ag_reasoning_log a)\<rparr>)"

definition next_message ::
  "string \<Rightarrow> intent \<Rightarrow> dict \<Rightarrow> ('d, 'z) base_agent_scheme \<Rightarrow> agent_message" where
  "next_message receiver it body a =
     (let n = length (ag_outbox a)
      in create_message (ag_id a) receiver it body None (ag_uuid a (2 * n)) (ag_now a n) (ag_uuid a (2 * n + 1)))"

definition send_message ::
  "(broker \<Rightarrow> broker) \<Rightarrow> string \<Rightarrow> intent \<Rightarrow> dict \<Rightarrow> ('d, 'z) base_agent_scheme wired
   \<Rightarrow> ('d, 'z) base_agent_scheme wired" where
  "send_message interf receiver it body s =
     (let msg = next_message receiver it body (fst s)
      in ((fst s)\<lparr>ag_outbox := ag_outbox (fst s) @ [msg]\<rparr>, map_option (deliver interf msg) (snd s)))"

definition agent_inbox :: "('d, 'z) base_agent_scheme wired \<Rightarrow> agent_message list" where
  "agent_inbox s = (case snd s of None \<Rightarrow> []
     | Some b \<Rightarrow> (case map_of (b_refs b) (ag_id (fst s)) of None \<Rightarrow> [] | Some ms \<Rightarrow> ms))"

definition pop_inbox ::
  "('d, 'z) base_agent_scheme wired \<Rightarrow> agent_message list \<times> ('d, 'z) base_agent_scheme wired" where
  "pop_inbox s = (agent_inbox s,
     (fst s, map_option (\<lambda>b. case map_of (b_refs b) (ag_id (fst s)) of None \<Rightarrow> b
        | Some _ \<Rightarrow> b\<lparr>b_refs := AList.update (ag_id (fst s)) [] (b_refs b)\<rparr>) (snd s)))"

definition set_agent_state ::
  "agent_state \<Rightarrow> ('d, 'z) base_agent_scheme wired \<Rightarrow> ('d, 'z) base_agent_scheme wired" where
  "set_agent_state st = with_agent (\<lambda>a. a\<lparr>ag_state := st\<rparr>)"

definition begin_cycle ::
  "dict \<Rightarrow> ('d, 'z) base_agent_scheme wired \<Rightarrow> ('d, 'z) base_agent_scheme wired" where
  "begin_cycle snap = with_agent (\<lambda>a. a\<lparr> ag_snapshot := Some snap, ag_cycle_count := Suc (ag_cycle_count a) \<rparr>)"

definition store_decision ::
  "'d option \<Rightarrow> ('d, 'z) base_agent_scheme wired \<Rightarrow> ('d, 'z) base_agent_scheme wired" where
  "store_decision d = (case d of None \<Rightarrow> id
     | Some d \<Rightarrow> with_agent (\<lambda>a. a\<lparr>ag_decisions := push_decision d (ag_decisions a)\<rparr>))"

definition run_cycle ::
  "(dict \<Rightarrow> ('d, 'z) base_agent_scheme wired \<Rightarrow> ('o \<times> ('d, 'z) base_agent_scheme wired) result)
   \<Rightarrow> ('o \<Rightarrow> ('d, 'z) base_agent_scheme wired \<Rightarrow> ('d option \<times> ('d, 'z) base_agent_scheme wired) result)
   \<Rightarrow> ('d option \<Rightarrow> ('d, 'z) base_agent_scheme wired \<Rightarrow> (string list \<times> ('d, 'z) base_agent_scheme wired) result)
   \<Rightarrow> dict \<Rightarrow> ('d, 'z) base_agent_scheme wired \<Rightarrow> ('d option \<times> ('d, 'z) base_agent_scheme wired) result" where
  "run_cycle sense reason act snap s =
     bindR (sense snap (set_agent_state AG_SENSING (begin_cycle snap s))) (\<lambda>(obs, s1).
     bindR (reason obs (set_agent_state AG_REASONING s1)) (\<lambda>(d, s2).
     bindR (act d (set_agent_state AG_ACTING (store_decision d s2))) (\<lambda>(_, s3).
       Inr (d, set_agent_state AG_IDLE s3))))"

definition base_agent_status ::
  "('d \<Rightarrow> dict) \<Rightarrow> ('d, 'z) base_agent_scheme wired \<Rightarrow> dict" where
  "base_agent_status to_dict s = (let a = fst s in
     [(''agent_id'', PStr (ag_id a)), (''name'', PStr (ag_name a)),
      (''state'', PStr (agent_state_value (ag_state a))),
      (''cycle_count'', PInt (int (ag_cycle_count a))),
      (''inbox_size'', PInt (int (length (agent_inbox s)))),
      (''recent_decisions'', PList (map (\<lambda>d. PDict (to_dict d)) (last_n 8 (ag_decisions a)))),
      (''recent_reasoning'', PList (map PStr (last_n 6 (ag_reasoning_log a)))),
      (''last_reasoning'', PStr (if ag_reasoning_log a \<noteq> [] then last (ag_reasoning_log a) else '''')),
      (''decisions_total'', PInt (int (length (ag_decisions a))))])"

section \<open>Alerts\<close>

text \<open>The alerts of a decision, and the loop of \<open>act\<close> that sends them.\<close>

record alert =
  al_target :: string
  al_severity :: string
  al_message :: string

definition alert_dict :: "alert \<Rightarrow> dict" where
  "alert_dict al = [(''target'', PStr (al_target al)), (''severity'', PStr (al_severity al)),
     (''message'', PStr (al_message al))]"

fun send_alerts ::
  "(broker \<Rightarrow> broker) \<Rightarrow> (alert \<Rightarrow> dict) \<Rightarrow> alert list \<Rightarrow> ('d, 'z) base_agent_scheme wired
   \<Rightarrow> ('d, 'z) base_agent_scheme wired" where
  "send_alerts interf body [] s = s"
| "send_alerts interf body (al # als) s =
     send_alerts interf body als (send_message interf (al_target al) ALERT (body al) s)"

section \<open>Value histories\<close>

text \<open>
  The per-key histories of the agents (a dictionary of lists): append, and keep the last
  \<open>n\<close> values of that key.
\<close>

type_synonym 'v series = "(string \<times> 'v list) list"

definition series_get :: "string \<Rightarrow> 'v series \<Rightarrow> 'v list" where
  "series_get key st = (case map_of st key of None \<Rightarrow> [] | Some xs \<Rightarrow> xs)"

definition series_push :: "nat \<Rightarrow> string \<Rightarrow> 'v \<Rightarrow> 'v series \<Rightarrow> 'v series" where
  "series_push n key v st = AList.update key (push_trim n n v (series_get key st)) st"

lemma series_get_push [simp]:
  "series_get k (series_push n key v st) = (if k = key then push_trim n n v (series_get key st) else series_get k st)"
  by (simp add: series_get_def series_push_def update_conv')

section \<open>The interfaces\<close>

interpretation reasoning_log: bounded_log push_reasoning 50 50
  unfolding push_reasoning_def by (simp add: bounded_log_push_trim)

interpretation decision_log: bounded_log "push_decision :: 'd \<Rightarrow> 'd list \<Rightarrow> 'd list" 100 100
  unfolding push_decision_def by (simp add: bounded_log_push_trim)

text \<open>The part of an agent that only \<open>run_cycle\<close> and \<open>send_message\<close> may change.\<close>

definition same_base :: "('d, 'z) base_agent_scheme wired \<Rightarrow> ('d, 'z) base_agent_scheme wired \<Rightarrow> bool" where
  "same_base s s' \<longleftrightarrow> ag_id (fst s') = ag_id (fst s) \<and> ag_decisions (fst s') = ag_decisions (fst s)
     \<and> ag_cycle_count (fst s') = ag_cycle_count (fst s) \<and> ag_state (fst s') = ag_state (fst s)
     \<and> (length (ag_reasoning_log (fst s)) \<le> 50 \<longrightarrow> length (ag_reasoning_log (fst s')) \<le> 50)"

definition quiet :: "('d, 'z) base_agent_scheme wired \<Rightarrow> ('d, 'z) base_agent_scheme wired \<Rightarrow> bool" where
  "quiet s s' \<longleftrightarrow> same_base s s' \<and> ag_outbox (fst s') = ag_outbox (fst s)"

text \<open>Messages sent to the planning agent with intent \<open>ALERT\<close>.\<close>

definition pa_alert :: "string \<Rightarrow> agent_message \<Rightarrow> bool" where
  "pa_alert aid m \<longleftrightarrow> h_sender (m_header m) = aid \<and> h_receiver (m_header m) = ''PA'' \<and> m_intent m = ALERT"

definition sends_alerts :: "nat \<Rightarrow> ('d, 'z) base_agent_scheme wired \<Rightarrow> ('d, 'z) base_agent_scheme wired \<Rightarrow> bool" where
  "sends_alerts n s s' \<longleftrightarrow> same_base s s'
     \<and> (\<exists>ms. ag_outbox (fst s') = ag_outbox (fst s) @ ms \<and> length ms = n \<and> (\<forall>m\<in>set ms. pa_alert (ag_id (fst s)) m))"

lemma quiet_refl [simp]: "quiet s s"
  by (simp add: quiet_def same_base_def)

lemma quiet_trans: "quiet s t \<Longrightarrow> quiet t u \<Longrightarrow> quiet s u"
  by (simp add: quiet_def same_base_def)

lemma quiet_log [simp]: "quiet s (log_reasoning x s)"
  using reasoning_log.push_bounded [of x "ag_reasoning_log (fst s)"]
  by (simp add: quiet_def same_base_def log_reasoning_def with_agent_def)

lemma quiet_log_trans: "quiet s t \<Longrightarrow> quiet s (log_reasoning x t)"
  by (rule quiet_trans [OF _ quiet_log])

lemma quiet_pop_inbox [simp]: "quiet s (snd (pop_inbox s))"
  by (simp add: quiet_def same_base_def pop_inbox_def)

lemma foldR_quiet:
  assumes "foldR f xs (x, s) = Inr (x', s')"
    and "\<And>y t u t' u'. y \<in> set xs \<Longrightarrow> f y (t, u) = Inr (t', u') \<Longrightarrow> quiet u u'"
  shows "quiet s s'"
  using assms
proof (induction xs arbitrary: x s)
  case Nil
  then show ?case by simp
next
  case (Cons y ys)
  obtain t u where tu: "f y (x, s) = Inr (t, u)" "foldR f ys (t, u) = Inr (x', s')"
    using Cons.prems(1) by (auto simp: bindR_Inr_iff)
  have "quiet s u" by (rule Cons.prems(2) [OF _ tu(1)]) simp
  moreover have "quiet u s'"
  proof (rule Cons.IH [OF tu(2)])
    fix z a b a' b'
    assume "z \<in> set ys" "f z (a, b) = Inr (a', b')"
    then show "quiet b b'" by (intro Cons.prems(2) [of z a b a']) simp_all
  qed
  ultimately show ?case by (rule quiet_trans)
qed

lemma send_alerts_sends:
  assumes "\<forall>al\<in>set als. al_target al = ''PA''"
  shows "sends_alerts (length als) s (send_alerts interf body als s)"
  using assms
proof (induction als arbitrary: s)
  case Nil
  then show ?case by (simp add: sends_alerts_def same_base_def)
next
  case (Cons al als)
  let ?s1 = "send_message interf (al_target al) ALERT (body al) s"
  obtain ms where ms: "ag_outbox (fst (send_alerts interf body als ?s1)) = ag_outbox (fst ?s1) @ ms"
      "length ms = length als" "\<forall>m\<in>set ms. pa_alert (ag_id (fst ?s1)) m"
    using Cons.IH [of ?s1] Cons.prems by (auto simp: sends_alerts_def)
  let ?m = "next_message (al_target al) ALERT (body al) (fst s)"
  have o: "ag_outbox (fst ?s1) = ag_outbox (fst s) @ [?m]" "ag_id (fst ?s1) = ag_id (fst s)"
      "same_base s ?s1"
    by (simp_all add: send_message_def Let_def same_base_def)
  have m: "pa_alert (ag_id (fst s)) ?m"
    using Cons.prems by (simp add: pa_alert_def next_message_def create_message_def Let_def)
  have "same_base s (send_alerts interf body (al # als) s)"
    using Cons.IH [of ?s1] Cons.prems o(3) by (simp add: sends_alerts_def same_base_def)
  then show ?case using ms m o by (auto simp: sends_alerts_def intro!: exI [of _ "?m # ms"])
qed

lemma send_alerts_bodies:
  "\<exists>ms. ag_outbox (fst (send_alerts interf body als s)) = ag_outbox (fst s) @ ms \<and> map m_body ms = map body als"
proof (induction als arbitrary: s)
  case Nil
  then show ?case by simp
next
  case (Cons al als)
  let ?m = "next_message (al_target al) ALERT (body al) (fst s)"
  obtain ms where "ag_outbox (fst (send_alerts interf body (al # als) s)) = ag_outbox (fst s) @ [?m] @ ms"
      "map m_body ms = map body als"
    using Cons.IH [of "send_message interf (al_target al) ALERT (body al) s"]
    by (auto simp: send_message_def Let_def)
  then show ?case by (auto simp: next_message_def create_message_def Let_def intro!: exI [of _ "?m # ms"])
qed

lemma send_alerts_more [simp]:
  "base_agent.more (fst (send_alerts interf body als s)) = base_agent.more (fst s)"
  by (induction als arbitrary: s) (simp_all add: send_message_def Let_def)

text \<open>
  The contract of a concrete agent: sensing and reasoning send nothing and touch none of the
  base fields (but for bounded logging); acting sends one alert to the planning agent for
  every alert of the decision, and nothing without a decision.
\<close>

locale agent_loop =
  fixes sense :: "dict \<Rightarrow> ('d, 'z) base_agent_scheme wired \<Rightarrow> ('o \<times> ('d, 'z) base_agent_scheme wired) result"
    and reason :: "'o \<Rightarrow> ('d, 'z) base_agent_scheme wired \<Rightarrow> ('d option \<times> ('d, 'z) base_agent_scheme wired) result"
    and act :: "'d option \<Rightarrow> ('d, 'z) base_agent_scheme wired \<Rightarrow> (string list \<times> ('d, 'z) base_agent_scheme wired) result"
    and alerts :: "'d \<Rightarrow> nat"
  assumes sense_quiet: "sense snap s = Inr (obs, s') \<Longrightarrow> quiet s s'"
    and reason_quiet: "reason obs s = Inr (r, s') \<Longrightarrow> quiet s s'"
    and act_none: "act None s = Inr (as, s') \<Longrightarrow> sends_alerts 0 s s'"
    and act_some: "reason obs t = Inr (Some d, t') \<Longrightarrow> act (Some d) s = Inr (as, s') \<Longrightarrow> sends_alerts (alerts d) s s'"
begin

lemma run_cycle_contract:
  assumes "run_cycle sense reason act snap s = Inr (d, s')"
    and "length (ag_decisions (fst s)) \<le> 100" "length (ag_reasoning_log (fst s)) \<le> 50"
  shows "ag_state (fst s') = AG_IDLE"
    and "ag_cycle_count (fst s') = Suc (ag_cycle_count (fst s))"
    and "ag_decisions (fst s') = (case d of None \<Rightarrow> ag_decisions (fst s) | Some d \<Rightarrow> push_decision d (ag_decisions (fst s)))"
    and "length (ag_decisions (fst s')) \<le> 100" "length (ag_reasoning_log (fst s')) \<le> 50"
    and "\<exists>ms. ag_outbox (fst s') = ag_outbox (fst s) @ ms
          \<and> length ms = (case d of None \<Rightarrow> 0 | Some d \<Rightarrow> alerts d)
          \<and> (\<forall>m\<in>set ms. pa_alert (ag_id (fst s)) m)"
proof -
  obtain obs s1 s2 as s3 where
      e1: "sense snap (set_agent_state AG_SENSING (begin_cycle snap s)) = Inr (obs, s1)" and
      e2: "reason obs (set_agent_state AG_REASONING s1) = Inr (d, s2)" and
      e3: "act d (set_agent_state AG_ACTING (store_decision d s2)) = Inr (as, s3)" and
      s': "s' = set_agent_state AG_IDLE s3"
    using assms(1) by (auto simp: run_cycle_def bindR_Inr_iff)
  note q1 = sense_quiet [OF e1] and q2 = reason_quiet [OF e2]
  have a: "sends_alerts (case d of None \<Rightarrow> 0 | Some d \<Rightarrow> alerts d) (set_agent_state AG_ACTING (store_decision d s2)) s3"
  proof (cases d)
    case None
    then show ?thesis using act_none e3 by simp
  next
    case (Some x)
    then show ?thesis using act_some e2 e3 by simp
  qed
  note simps = quiet_def same_base_def set_agent_state_def begin_cycle_def store_decision_def with_agent_def sends_alerts_def
  have o: "ag_outbox (fst s2) = ag_outbox (fst s)" "ag_id (fst s2) = ag_id (fst s)"
      "ag_decisions (fst s2) = ag_decisions (fst s)" "ag_cycle_count (fst s2) = Suc (ag_cycle_count (fst s))"
      "length (ag_reasoning_log (fst s2)) \<le> 50"
    using q1 q2 assms(3) by (simp_all add: simps)
  show "ag_state (fst s') = AG_IDLE" by (simp add: s' simps)
  show "ag_cycle_count (fst s') = Suc (ag_cycle_count (fst s))"
    using a o by (cases d) (simp_all add: s' simps)
  show dec: "ag_decisions (fst s') = (case d of None \<Rightarrow> ag_decisions (fst s) | Some d \<Rightarrow> push_decision d (ag_decisions (fst s)))"
    using a o by (cases d) (simp_all add: s' simps)
  show "length (ag_decisions (fst s')) \<le> 100"
    using assms(2) decision_log.push_bounded by (cases d) (simp_all add: dec)
  show "length (ag_reasoning_log (fst s')) \<le> 50"
    using a o by (cases d) (simp_all add: s' simps)
  show "\<exists>ms. ag_outbox (fst s') = ag_outbox (fst s) @ ms
          \<and> length ms = (case d of None \<Rightarrow> 0 | Some d \<Rightarrow> alerts d)
          \<and> (\<forall>m\<in>set ms. pa_alert (ag_id (fst s)) m)"
    using a o by (cases d) (auto simp: s' simps)
qed

end

end
