(* ===== verification/Supply_Agent.thy ===== *)
theory Supply_Agent
  imports Agent_Base
begin

text \<open>
  \<open>mas/agents/supply_agent.py\<close>: the supply agent watches the stock of the materials and asks
  for regular or emergency reorders. Observations and decisions, dictionaries of fixed keys
  in the code, are records; the figures it only passes on stay dynamic values.
\<close>

record material_obs =
  mo_material :: string
  mo_stock :: pyval
  mo_safety_stock :: pyval
  mo_days_supply :: pyval
  mo_rate :: real
  mo_status :: string

record supply_obs =
  so_status :: "(string \<times> material_obs) list"
  so_shortages :: "material_obs list"
  so_reorder_needed :: "material_obs list"

record reorder =
  ro_material :: string
  ro_type :: string
  ro_reason :: string

record supply_decision =
  sd_reorders :: "reorder list"
  sd_alerts :: "alert list"
  sd_priority :: string

record supply_agent = "supply_decision base_agent" +
  sa_history :: "real series"
  sa_reorder_log :: "reorder list"
  sa_supplier_scores :: "(string \<times> real) list"
  sa_sub_views :: dict

definition new_supply_agent :: "(nat \<Rightarrow> string) \<Rightarrow> (nat \<Rightarrow> string) \<Rightarrow> supply_agent" where
  "new_supply_agent uuids now = base_agent.extend (new_base_agent ''SA'' (utf8 [0xC790, 0xC7AC, 0x20, 0xC5D0, 0xC774, 0xC804, 0xD2B8]) uuids now)
     (supply_agent.fields [] [] [] [])"

section \<open>Sense\<close>

definition calc_consumption_rate :: "string \<Rightarrow> supply_agent \<Rightarrow> real" where
  "calc_consumption_rate name a =
     (let h = series_get name (sa_history a);
          diffs = map (\<lambda>(x, y). x - y) (filter (\<lambda>(x, y). x > y) (zip h (tl h)))
      in if length h < 3 then 0 else if diffs \<noteq> [] then list_avg diffs else 0)"

definition material_class :: "real \<Rightarrow> real \<Rightarrow> pyval \<Rightarrow> pyval \<Rightarrow> string result" where
  "material_class stock ss dos needs =
     (if stock \<le> ss * (1 / 2) then Inr (utf8 [0xC704, 0xD5D8])
      else if py_truthy needs \<or> stock \<le> ss then Inr (utf8 [0xBD80, 0xC871])
      else bindR (py_num dos) (\<lambda>d. Inr (if d < 3 then (utf8 [0xC8FC, 0xC758]) else (utf8 [0xCDA9, 0xBD84]))))"

definition sa_sense_material ::
  "string \<times> pyval \<Rightarrow> supply_obs \<times> supply_agent wired \<Rightarrow> (supply_obs \<times> supply_agent wired) result" where
  "sa_sense_material nm os = (case nm of (name, mdata) \<Rightarrow> case os of (obs, s) \<Rightarrow>
     bindR (as_dict mdata) (\<lambda>md.
       let stock_v = dget_or md ''stock'' (PInt 0);
           ss_v = dget_or md ''safety_stock'' (PInt 0);
           dos = dget_or md ''days_supply'' (PInt 999);
           needs = dget_or md ''needs_reorder'' (PBool False)
       in bindR (py_num stock_v) (\<lambda>stock.
          bindR (py_num ss_v) (\<lambda>ss.
            let s1 = with_agent (\<lambda>a. a\<lparr>sa_history := series_push 100 name stock (sa_history a)\<rparr>) s;
                rate = py_round 1 (calc_consumption_rate name (fst s1))
            in bindR (material_class stock ss dos needs) (\<lambda>status.
                 let e = \<lparr> mo_material = name, mo_stock = stock_v, mo_safety_stock = ss_v,
                           mo_days_supply = dos, mo_rate = rate, mo_status = status \<rparr>
                 in Inr (obs\<lparr> so_status := AList.update name e (so_status obs),
                              so_shortages := so_shortages obs @ (if status = (utf8 [0xC704, 0xD5D8]) then [e] else []),
                              so_reorder_needed := so_reorder_needed obs @ (if status = (utf8 [0xBD80, 0xC871]) then [e] else []) \<rparr>,
                         s1))))))"

definition sa_views :: "supply_obs \<Rightarrow> supply_agent \<Rightarrow> dict" where
  "sa_views obs a =
     [(''SA-ROP'', PDict [(''role_ko'', PStr (utf8 [0x52, 0x4F, 0x50, 0xB7, 0xBC1C, 0xC8FC])),
        (''shortages_n'', PInt (int (length (so_shortages obs)))),
        (''reorder_queue_n'', PInt (int (length (so_reorder_needed obs))))]),
      (''SA-STOCK'', PDict [(''role_ko'', PStr (utf8 [0xC7AC, 0xACE0, 0xB7, 0xC77C, 0xC218])),
        (''materials_n'', PInt (int (length (so_status obs)))),
        (''recent_reorders_n'', PInt (int (length (sa_reorder_log a))))])]"

definition sa_sense :: "dict \<Rightarrow> supply_agent wired \<Rightarrow> (supply_obs \<times> supply_agent wired) result" where
  "sa_sense snap s =
     bindR (dict_at snap ''materials'') (\<lambda>materials.
     bindR (foldR sa_sense_material materials
             (\<lparr> so_status = [], so_shortages = [], so_reorder_needed = [] \<rparr>, s)) (\<lambda>(obs, s1).
       Inr (obs, with_agent (\<lambda>a. a\<lparr>sa_sub_views := sa_views obs a\<rparr>) s1)))"

section \<open>Reason\<close>

definition sa_reason_shortage ::
  "material_obs \<Rightarrow> supply_decision \<times> supply_agent wired \<Rightarrow> supply_decision \<times> supply_agent wired" where
  "sa_reason_shortage m ds = (case ds of (d, s) \<Rightarrow>
     (d\<lparr> sd_priority := ''CRITICAL'',
         sd_reorders := sd_reorders d @ [\<lparr> ro_material = mo_material m, ro_type = (utf8 [0xAE34, 0xAE09, 0xBC1C, 0xC8FC]),
           ro_reason = (utf8 [0xC7AC, 0xACE0, 0x20]) @ py_str (mo_stock m) @ (utf8 [0xAC1C, 0x20, 0x3C, 0x20, 0xC548, 0xC804, 0xC7AC, 0xACE0, 0x20, 0x35, 0x30, 0x25]) \<rparr>],
         sd_alerts := sd_alerts d @ [\<lparr> al_target = ''PA'', al_severity = ''CRITICAL'',
           al_message = (utf8 [0xC790, 0xC7AC, 0x20, 0xBD80, 0xC871, 0x20, 0xC704, 0xD5D8, 0x3A, 0x20]) @ mo_material m @ (utf8 [0x20, 0x28, 0xC7AC, 0xACE0, 0x20]) @ py_str (mo_stock m)
             @ (utf8 [0x2C, 0x20, 0xC548, 0xC804, 0xC7AC, 0xACE0, 0x20]) @ py_str (mo_safety_stock m) @ '')'' \<rparr>] \<rparr>,
      log_reasoning ((utf8 [0x5B, 0xAE34, 0xAE09, 0x5D, 0x20]) @ mo_material m @ (utf8 [0x20, 0xC7AC, 0xACE0, 0x20, 0xBD80, 0xC871, 0x20, 0x2192, 0x20, 0xAE34, 0xAE09, 0xBC1C, 0xC8FC])) s))"

definition sa_reason_reorder ::
  "material_obs \<Rightarrow> supply_decision \<times> supply_agent wired \<Rightarrow> (supply_decision \<times> supply_agent wired) result" where
  "sa_reason_reorder m ds = (case ds of (d, s) \<Rightarrow>
     bindR (fmt_fixed_val 1 (mo_days_supply m)) (\<lambda>days.
       Inr (d\<lparr> sd_priority := (if sd_priority d \<noteq> ''CRITICAL'' then ''MEDIUM'' else sd_priority d),
               sd_reorders := sd_reorders d @ [\<lparr> ro_material = mo_material m, ro_type = (utf8 [0xC815, 0xAE30, 0xBC1C, 0xC8FC]),
                 ro_reason = (utf8 [0xC794, 0xC5EC, 0x20]) @ days @ (utf8 [0xC77C, 0xBD84]) \<rparr>] \<rparr>,
            log_reasoning ((utf8 [0x5B, 0xBC1C, 0xC8FC, 0x5D, 0x20]) @ mo_material m @ (utf8 [0x20, 0x2014, 0x20, 0xC794, 0xC5EC, 0x20]) @ days @ (utf8 [0xC77C, 0x2C, 0x20, 0xC18C, 0xBAA8, 0xC728, 0x20])
              @ repr_float (mo_rate m) @ ''/cycle'') s)))"

definition sa_reason ::
  "supply_obs \<Rightarrow> supply_agent wired \<Rightarrow> (supply_decision option \<times> supply_agent wired) result" where
  "sa_reason obs s =
     bindR (foldR sa_reason_reorder (so_reorder_needed obs)
             (fold sa_reason_shortage (so_shortages obs)
               (\<lparr> sd_reorders = [], sd_alerts = [], sd_priority = ''LOW'' \<rparr>, s))) (\<lambda>(d, s1).
       if sd_reorders d = [] \<and> sd_alerts d = [] then
         (let safe = length (filter (\<lambda>(_, m). mo_status m = (utf8 [0xCDA9, 0xBD84])) (so_status obs))
          in Inr (None, log_reasoning ((utf8 [0xC790, 0xC7AC, 0x20, 0xC548, 0xC815, 0x3A, 0x20]) @ show_nat safe @ ''/''
                   @ show_nat (length (so_status obs)) @ (utf8 [0x20, 0xCDA9, 0xBD84])) s1))
       else Inr (Some d, s1))"

section \<open>Act and bid\<close>

definition reorder_dict :: "reorder \<Rightarrow> dict" where
  "reorder_dict r = [(''material'', PStr (ro_material r)), (''type'', PStr (ro_type r)), (''reason'', PStr (ro_reason r))]"

definition supply_decision_dict :: "supply_decision \<Rightarrow> dict" where
  "supply_decision_dict d =
     [(''type'', PStr ''supply_assessment''), (''reorders'', PList (map (\<lambda>r. PDict (reorder_dict r)) (sd_reorders d))),
      (''alerts'', PList (map (\<lambda>al. PDict (alert_dict al)) (sd_alerts d))), (''priority'', PStr (sd_priority d))]"

definition sa_alert_body :: "supply_agent \<Rightarrow> supply_decision \<Rightarrow> alert \<Rightarrow> dict" where
  "sa_alert_body a d al =
     [(''source'', PStr (ag_id a)), (''severity'', PStr (al_severity al)), (''summary'', PStr (al_message al)),
      (''reorder_list'', PList (map (\<lambda>r. PDict (reorder_dict r)) (sd_reorders d)))]"

definition sa_act ::
  "(broker \<Rightarrow> broker) \<Rightarrow> supply_decision option \<Rightarrow> supply_agent wired \<Rightarrow> (string list \<times> supply_agent wired) result" where
  "sa_act interf dec s = (case dec of
      None \<Rightarrow> Inr ([], s)
    | Some d \<Rightarrow> Inr
        (map (\<lambda>al. (utf8 [0xACBD, 0xBCF4, 0x3A, 0x20]) @ al_message al) (sd_alerts d)
           @ map (\<lambda>r. (utf8 [0xBC1C, 0xC8FC, 0x3A, 0x20]) @ ro_material r @ '' ('' @ ro_type r @ '')'') (sd_reorders d),
         with_agent (\<lambda>a. a\<lparr>sa_reorder_log := sa_reorder_log a @ sd_reorders d\<rparr>)
           (send_alerts interf (sa_alert_body (fst s) d) (sd_alerts d) s)))"

definition sa_handle_cfp :: "supply_agent \<Rightarrow> dict" where
  "sa_handle_cfp a =
     (let critical = filter (\<lambda>r. ro_type r = (utf8 [0xAE34, 0xAE09, 0xBC1C, 0xC8FC])) (last_n 5 (sa_reorder_log a));
          viol = (if critical \<noteq> [] then 1 else if sa_reorder_log a \<noteq> [] then 2 / 5 else 0);
          cost_est = min 1 (1 / 5 * of_nat (length critical) + 1 / 20 * of_nat (length (last_n 10 (sa_reorder_log a))))
      in [(''agent'', PStr (ag_id a)), (''proposal'', PStr (utf8 [0xC790, 0xC7AC, 0x20, 0xAD00, 0xC810, 0x20, 0xB300, 0xC751])),
          (''critical_materials'', PList (map (\<lambda>r. PDict (reorder_dict r)) critical)),
          (''reorder_pending'', PInt (int (length (sa_reorder_log a)))),
          (''scores'', PDict [(''quality'', PFloat (1 / 2)), (''delivery'', PFloat (4 / 5)),
             (''cost'', PFloat (3 / 5)), (''safety'', PFloat (3 / 5))]),
          (''proposal_metrics'', PDict [(''cost_estimate'', PFloat (py_round 4 cost_est)),
             (''constraint_violation_total'', PFloat viol),
             (''critical_material_n'', PInt (int (length critical)))])])"

definition sa_execute_accepted :: "dict \<Rightarrow> supply_agent wired \<Rightarrow> supply_agent wired result" where
  "sa_execute_accepted proposal s = Inr (log_reasoning (utf8 [0xC790, 0xC7AC, 0x20, 0xB300, 0xC751, 0x20, 0xC2E4, 0xD589, 0x20, 0xC644, 0xB8CC]) s)"

definition sa_status :: "supply_agent wired \<Rightarrow> dict" where
  "sa_status s = dset ''sub_agent_views'' (PDict (sa_sub_views (fst s))) (base_agent_status supply_decision_dict s)"

section \<open>The agent's contract\<close>

lemma sa_sense_quiet: "sa_sense snap s = Inr (obs, s') \<Longrightarrow> quiet s s'"
proof -
  assume a: "sa_sense snap s = Inr (obs, s')"
  obtain ms s1 where f: "foldR sa_sense_material ms (\<lparr> so_status = [], so_shortages = [], so_reorder_needed = [] \<rparr>, s) = Inr (obs, s1)"
      and s': "s' = with_agent (\<lambda>a. a\<lparr>sa_sub_views := sa_views obs a\<rparr>) s1"
    using a by (auto simp: sa_sense_def bindR_Inr_iff)
  have "quiet s s1"
    by (rule foldR_quiet [OF f])
      (auto simp: sa_sense_material_def bindR_Inr_iff Let_def quiet_def same_base_def with_agent_def split: prod.splits)
  then show ?thesis by (auto simp: s' quiet_def same_base_def with_agent_def)
qed

lemma sa_shortages_fold:
  "fold sa_reason_shortage ms (d, s) = (d', s') \<Longrightarrow>
     quiet s s' \<and> length (sd_alerts d') = length (sd_alerts d) + length ms
     \<and> map ro_material (sd_reorders d') = map ro_material (sd_reorders d) @ map mo_material ms
     \<and> (\<forall>al\<in>set (sd_alerts d'). al \<in> set (sd_alerts d) \<or> al_target al = ''PA'' \<and> al_severity al = ''CRITICAL'')
     \<and> sd_priority d' = (if ms = [] then sd_priority d else ''CRITICAL'')"
proof (induction ms arbitrary: d s)
  case Nil
  then show ?case by simp
next
  case (Cons m ms)
  obtain d1 s1 where 1: "sa_reason_shortage m (d, s) = (d1, s1)" by (rule prod.exhaust)
  have q: "quiet s s1" using 1 by (auto simp: sa_reason_shortage_def)
  have "fold sa_reason_shortage ms (d1, s1) = (d', s')" using Cons.prems 1 by simp
  from Cons.IH [OF this] quiet_trans [OF q, of s'] 1 show ?case
    by (auto simp: sa_reason_shortage_def)
qed

lemma sa_reorders_fold:
  "foldR sa_reason_reorder ms (d, s) = Inr (d', s') \<Longrightarrow>
     quiet s s' \<and> sd_alerts d' = sd_alerts d
     \<and> map ro_material (sd_reorders d') = map ro_material (sd_reorders d) @ map mo_material ms
     \<and> sd_priority d' = (if ms = [] \<or> sd_priority d = ''CRITICAL'' then sd_priority d else ''MEDIUM'')"
proof (induction ms arbitrary: d s)
  case Nil
  then show ?case by simp
next
  case (Cons m ms)
  obtain d1 s1 where 1: "sa_reason_reorder m (d, s) = Inr (d1, s1)" "foldR sa_reason_reorder ms (d1, s1) = Inr (d', s')"
    using Cons.prems by (auto simp: bindR_Inr_iff)
  have q: "quiet s s1" using 1(1) by (auto simp: sa_reason_reorder_def bindR_Inr_iff)
  from Cons.IH [OF 1(2)] quiet_trans [OF q, of s'] 1(1) show ?case
    by (auto simp: sa_reason_reorder_def bindR_Inr_iff split: if_splits)
qed

text \<open>What \<open>reason\<close> decides, in terms of the observation.\<close>

lemma sa_reason_result:
  assumes "sa_reason obs s = Inr (dec, s')"
  shows "quiet s s'"
    and "dec = None \<longleftrightarrow> so_shortages obs = [] \<and> so_reorder_needed obs = []"
    and "dec = Some d \<Longrightarrow> map ro_material (sd_reorders d) = map mo_material (so_shortages obs @ so_reorder_needed obs)
      \<and> length (sd_alerts d) = length (so_shortages obs)
      \<and> (\<forall>al\<in>set (sd_alerts d). al_target al = ''PA'' \<and> al_severity al = ''CRITICAL'')
      \<and> sd_priority d = (if so_shortages obs \<noteq> [] then ''CRITICAL'' else ''MEDIUM'')"
proof -
  let ?d0 = "\<lparr> sd_reorders = [], sd_alerts = [], sd_priority = ''LOW'' \<rparr>"
  obtain d1 s1 where 1: "fold sa_reason_shortage (so_shortages obs) (?d0, s) = (d1, s1)" by (rule prod.exhaust)
  obtain d2 s2 where 2: "foldR sa_reason_reorder (so_reorder_needed obs) (d1, s1) = Inr (d2, s2)"
    using assms 1 by (auto simp: sa_reason_def bindR_Inr_iff)
  note r = sa_shortages_fold [OF 1] sa_reorders_fold [OF 2]
  have q: "quiet s s2" using r quiet_trans by blast
  have n: "sd_reorders d2 = [] \<and> sd_alerts d2 = [] \<longleftrightarrow> so_shortages obs = [] \<and> so_reorder_needed obs = []"
    using r by (auto dest: arg_cong [of _ _ "\<lambda>xs. xs = []"] simp del: map_append)
  show "quiet s s'" using assms 1 2 q
    by (auto simp: sa_reason_def bindR_Inr_iff quiet_log_trans split: if_splits)
  show "dec = None \<longleftrightarrow> so_shortages obs = [] \<and> so_reorder_needed obs = []"
    using assms 1 2 n by (auto simp: sa_reason_def split: if_splits)
  assume "dec = Some d"
  then have "d = d2" "\<not> (sd_reorders d2 = [] \<and> sd_alerts d2 = [])"
    using assms 1 2 by (auto simp: sa_reason_def split: if_splits)
  then show "map ro_material (sd_reorders d) = map mo_material (so_shortages obs @ so_reorder_needed obs)
      \<and> length (sd_alerts d) = length (so_shortages obs)
      \<and> (\<forall>al\<in>set (sd_alerts d). al_target al = ''PA'' \<and> al_severity al = ''CRITICAL'')
      \<and> sd_priority d = (if so_shortages obs \<noteq> [] then ''CRITICAL'' else ''MEDIUM'')"
    using r n by auto
qed

interpretation supply_loop: agent_loop sa_sense sa_reason "sa_act interf" "\<lambda>d. length (sd_alerts d)"
  for interf
proof
  show "quiet s s'" if "sa_sense snap s = Inr (obs, s')" for snap s obs s' by (rule sa_sense_quiet [OF that])
  show "quiet s s'" if "sa_reason obs s = Inr (r, s')" for obs s r s' by (rule sa_reason_result(1) [OF that])
  show "sends_alerts 0 s s'" if "sa_act interf None s = Inr (as, s')" for s as s'
    using that by (simp add: sa_act_def sends_alerts_def same_base_def)
  show "sends_alerts (length (sd_alerts d)) s s'"
    if "sa_reason obs t = Inr (Some d, t')" "sa_act interf (Some d) s = Inr (as, s')" for obs t d t' s as s'
    using sa_reason_result(3) [OF that(1) refl] that(2)
      send_alerts_sends [of "sd_alerts d" s interf "sa_alert_body (fst s) d"]
    by (auto simp: sa_act_def sends_alerts_def same_base_def with_agent_def)
qed

end
