(* ===== verification/Demand_Agent.thy ===== *)
theory Demand_Agent
  imports Agent_Base
begin

text \<open>
  \<open>mas/agents/demand_agent.py\<close>: the demand agent weighs the open orders against the stock
  and the capacity.
\<close>

record order_risk =
  rk_order :: pyval
  rk_customer :: pyval
  rk_remaining :: pyval
  rk_fg_available :: pyval

record demand_obs =
  dn_total_demand :: real
  dn_total_delivered :: real
  dn_urgent :: "dict list"
  dn_at_risk :: "order_risk list"
  dn_on_time_rate :: real
  dn_capacity_utilization :: real

record schedule_change =
  sh_order :: pyval
  sh_customer :: pyval
  sh_remaining :: pyval

record demand_decision =
  dd_schedule_changes :: "schedule_change list"
  dd_alerts :: "alert list"
  dd_priority :: string

record demand_agent = "demand_decision base_agent" +
  da_delivery_history :: "dict list"
  da_demand_forecast :: real
  da_capacity_util :: real
  da_sub_views :: dict

definition new_demand_agent :: "(nat \<Rightarrow> string) \<Rightarrow> (nat \<Rightarrow> string) \<Rightarrow> demand_agent" where
  "new_demand_agent uuids now = base_agent.extend (new_base_agent ''DA'' (utf8 [0xC218, 0xC694, 0x20, 0xC5D0, 0xC774, 0xC804, 0xD2B8]) uuids now)
     (demand_agent.fields [] 0 0 [])"

section \<open>Sense\<close>

definition da_sense_order :: "pyval \<Rightarrow> pyval \<Rightarrow> demand_obs \<Rightarrow> demand_obs result" where
  "da_sense_order fg_stock o_v obs =
     bindR (as_dict o_v) (\<lambda>o_d.
     bindR (py_num (dget_or o_d ''qty'' (PInt 0))) (\<lambda>qty.
     bindR (py_num (dget_or o_d ''delivered'' (PInt 0))) (\<lambda>delivered.
       let remaining_v = dget_or o_d ''remaining'' (PInt 0)
       in bindR (py_num remaining_v) (\<lambda>remaining.
          let obs1 = obs\<lparr> dn_total_demand := dn_total_demand obs + qty,
                          dn_total_delivered := dn_total_delivered obs + delivered,
                          dn_urgent := dn_urgent obs
                            @ (if dget_none o_d ''priority'' = PStr (utf8 [0xAE34, 0xAE09]) \<and> remaining > 0 then [o_d] else []) \<rparr>
          in if remaining > 0
             then bindR (py_num fg_stock) (\<lambda>fg.
                    if fg < remaining * (3 / 10)
                    then bindR (item_at o_d ''id'') (\<lambda>oid.
                         bindR (item_at o_d ''customer'') (\<lambda>customer.
                           Inr (obs1\<lparr>dn_at_risk := dn_at_risk obs1 @
                             [\<lparr> rk_order = oid, rk_customer = customer, rk_remaining = remaining_v,
                                rk_fg_available = fg_stock \<rparr>]\<rparr>)))
                    else Inr obs1)
             else Inr obs1))))"

definition capacity_utilization :: "real \<Rightarrow> real \<Rightarrow> real \<Rightarrow> nat \<Rightarrow> real" where
  "capacity_utilization total_produced cycle total_demand n_orders =
     (let daily_capacity = total_produced / max 1 cycle * 480;
          daily_demand = (if n_orders \<noteq> 0 then total_demand / of_nat (max 1 n_orders) else 0)
      in min (3 / 2) (daily_demand / max 1 daily_capacity))"

definition da_views :: "demand_obs \<Rightarrow> dict" where
  "da_views obs =
     [(''DA-SCHED'', PDict [(''role_ko'', PStr (utf8 [0xB0A9, 0xAE30, 0xB7, 0xC8FC, 0xBB38])),
        (''urgent_n'', PInt (int (length (dn_urgent obs)))),
        (''at_risk_n'', PInt (int (length (dn_at_risk obs)))),
        (''on_time_rate'', PFloat (py_round 4 (dn_on_time_rate obs)))]),
      (''DA-CAP'', PDict [(''role_ko'', PStr (utf8 [0xC218, 0xC694, 0xB7, 0xCE90, 0xD30C, 0x20, 0xADE0, 0xD615])),
        (''capacity_utilization'', PFloat (py_round 4 (dn_capacity_utilization obs)))])]"

definition empty_demand_obs :: demand_obs where
  "empty_demand_obs = \<lparr> dn_total_demand = 0, dn_total_delivered = 0, dn_urgent = [], dn_at_risk = [],
     dn_on_time_rate = 1, dn_capacity_utilization = 0 \<rparr>"

definition da_sense :: "dict \<Rightarrow> demand_agent wired \<Rightarrow> (demand_obs \<times> demand_agent wired) result" where
  "da_sense snap s =
     bindR (as_list (dget_or snap ''orders'' (PList []))) (\<lambda>orders.
     bindR (foldR (da_sense_order (dget_or snap ''fg_stock'' (PInt 0))) orders empty_demand_obs) (\<lambda>obs1.
       let obs2 = (if dn_total_demand obs1 > 0
                   then obs1\<lparr>dn_on_time_rate := dn_total_delivered obs1 / dn_total_demand obs1\<rparr> else obs1)
       in bindR (num_at snap ''cycle'' 0) (\<lambda>cyc.
          bindR (if cyc > 0
                 then bindR (num_at snap ''total_produced'' 0) (\<lambda>tp.
                   Inr (obs2\<lparr>dn_capacity_utilization :=
                     capacity_utilization tp cyc (dn_total_demand obs2) (length orders)\<rparr>))
                 else Inr obs2) (\<lambda>obs3.
            Inr (obs3, with_agent (\<lambda>a. a\<lparr> da_capacity_util := dn_capacity_utilization obs3,
                                         da_sub_views := da_views obs3 \<rparr>) s)))))"

section \<open>Reason\<close>

definition da_alert :: "string \<Rightarrow> string \<Rightarrow> alert" where
  "da_alert severity message = \<lparr> al_target = ''PA'', al_severity = severity, al_message = message \<rparr>"

definition da_reason_risk ::
  "order_risk \<Rightarrow> demand_decision \<times> demand_agent wired \<Rightarrow> demand_decision \<times> demand_agent wired" where
  "da_reason_risk k ds = (case ds of (d, s) \<Rightarrow>
     (d\<lparr> dd_priority := ''HIGH'',
         dd_alerts := dd_alerts d @ [da_alert ''HIGH''
           ((utf8 [0xB0A9, 0xAE30, 0x20, 0xC704, 0xD5D8, 0x3A, 0x20]) @ py_str (rk_customer k) @ (utf8 [0x20, 0x2014, 0x20, 0xC794, 0xC5EC, 0x20]) @ py_str (rk_remaining k)
            @ (utf8 [0xAC1C, 0x2C, 0x20, 0xC7AC, 0xACE0, 0x20]) @ py_str (rk_fg_available k) @ (utf8 [0xAC1C]))] \<rparr>,
      log_reasoning ((utf8 [0x5B, 0xB0A9, 0xAE30, 0xC704, 0xD5D8, 0x5D, 0x20]) @ py_str (rk_customer k) @ (utf8 [0x3A, 0x20, 0xC794, 0xC5EC, 0xC8FC, 0xBB38, 0x20]) @ py_str (rk_remaining k)
        @ (utf8 [0xAC1C, 0x20, 0x3E, 0x20, 0xC7AC, 0xACE0, 0x20]) @ py_str (rk_fg_available k) @ (utf8 [0xAC1C])) s))"

definition da_schedule_change :: "dict \<Rightarrow> schedule_change result" where
  "da_schedule_change u =
     bindR (item_at u ''id'') (\<lambda>oid. bindR (item_at u ''customer'') (\<lambda>c. bindR (item_at u ''remaining'') (\<lambda>rem.
       Inr \<lparr> sh_order = oid, sh_customer = c, sh_remaining = rem \<rparr>)))"

definition da_reason_rates ::
  "demand_obs \<Rightarrow> demand_decision \<times> demand_agent wired \<Rightarrow> demand_decision \<times> demand_agent wired" where
  "da_reason_rates obs ds =
     (let late = dn_on_time_rate obs < 85 / 100; over = dn_capacity_utilization obs > 11 / 10;
          ds1 = (if late then
             ((fst ds)\<lparr> dd_priority := ''CRITICAL'',
                dd_alerts := dd_alerts (fst ds) @ [da_alert ''CRITICAL''
                  ((utf8 [0xB0A9, 0xAE30, 0x20, 0xC900, 0xC218, 0xC728, 0x20, 0xC800, 0xD558, 0x3A, 0x20]) @ fmt_pct 1 (dn_on_time_rate obs) @ (utf8 [0x20, 0x28, 0xBAA9, 0xD45C, 0x20, 0x39, 0x35, 0x25, 0x29]))] \<rparr>,
              log_reasoning ((utf8 [0x5B, 0xAE34, 0xAE09, 0x5D, 0x20, 0xB0A9, 0xAE30, 0x20, 0xC900, 0xC218, 0xC728, 0x20]) @ fmt_pct 1 (dn_on_time_rate obs) @ (utf8 [0x20, 0x2014, 0x20, 0xC0DD, 0xC0B0, 0x20, 0xC99D, 0xB300, 0x20, 0xD544, 0xC694])) (snd ds))
             else ds)
      in if over then
           ((fst ds1)\<lparr>dd_alerts := dd_alerts (fst ds1) @ [da_alert ''MEDIUM''
               ((utf8 [0xC218, 0xC694, 0x20, 0xCD08, 0xACFC, 0x3A, 0x20, 0xC0DD, 0xC0B0, 0xB2A5, 0xB825, 0x20, 0xB300, 0xBE44, 0x20]) @ fmt_pct 0 (dn_capacity_utilization obs))]\<rparr>,
            log_reasoning ((utf8 [0xC218, 0xC694, 0x20, 0x3E, 0x20, 0xC0DD, 0xC0B0, 0xB2A5, 0xB825, 0x3A, 0x20]) @ fmt_pct 0 (dn_capacity_utilization obs)) (snd ds1))
         else ds1)"

definition da_reason ::
  "demand_obs \<Rightarrow> demand_agent wired \<Rightarrow> (demand_decision option \<times> demand_agent wired) result" where
  "da_reason obs s =
     (let (d1, s1) = fold da_reason_risk (dn_at_risk obs)
                       (\<lparr> dd_schedule_changes = [], dd_alerts = [], dd_priority = ''LOW'' \<rparr>, s)
      in bindR (mapR da_schedule_change (dn_urgent obs)) (\<lambda>cs.
         let (d, s2) = da_reason_rates obs (d1\<lparr>dd_schedule_changes := cs\<rparr>, s1)
         in if dd_alerts d = [] \<and> dd_schedule_changes d = []
            then Inr (None, log_reasoning ((utf8 [0xC218, 0xC694, 0x20, 0xC548, 0xC815, 0x3A, 0x20, 0xB0A9, 0xAE30, 0xC728, 0x20]) @ fmt_pct 1 (dn_on_time_rate obs)
                   @ (utf8 [0x2C, 0x20, 0xAC00, 0xB3D9, 0xB960, 0x20]) @ fmt_pct 0 (dn_capacity_utilization obs)) s2)
            else Inr (Some d, s2)))"

section \<open>Act and bid\<close>

definition schedule_change_dict :: "schedule_change \<Rightarrow> dict" where
  "schedule_change_dict c = [(''order'', sh_order c), (''action'', PStr (utf8 [0xC6B0, 0xC120, 0xC0DD, 0xC0B0])),
     (''customer'', sh_customer c), (''remaining'', sh_remaining c)]"

definition demand_decision_dict :: "demand_decision \<Rightarrow> dict" where
  "demand_decision_dict d =
     [(''type'', PStr ''demand_assessment''),
      (''schedule_changes'', PList (map (\<lambda>c. PDict (schedule_change_dict c)) (dd_schedule_changes d))),
      (''alerts'', PList (map (\<lambda>al. PDict (alert_dict al)) (dd_alerts d))), (''priority'', PStr (dd_priority d))]"

definition da_alert_body :: "demand_agent \<Rightarrow> alert \<Rightarrow> dict" where
  "da_alert_body a al =
     [(''source'', PStr (ag_id a)), (''severity'', PStr (al_severity al)), (''summary'', PStr (al_message al)),
      (''on_time_rate'', PFloat (da_capacity_util a))]"

definition da_act ::
  "(broker \<Rightarrow> broker) \<Rightarrow> demand_decision option \<Rightarrow> demand_agent wired \<Rightarrow> (string list \<times> demand_agent wired) result" where
  "da_act interf dec s = (case dec of
      None \<Rightarrow> Inr ([], s)
    | Some d \<Rightarrow> Inr (map (\<lambda>al. (utf8 [0xACBD, 0xBCF4, 0x3A, 0x20]) @ al_message al) (dd_alerts d),
        send_alerts interf (da_alert_body (fst s)) (dd_alerts d) s))"

definition da_handle_cfp :: "demand_agent \<Rightarrow> dict" where
  "da_handle_cfp a =
     (let cu = da_capacity_util a;
          viol = (if cu > 11 / 10 then 1 else if cu > 1 then 1 / 2 else 0);
          cost_est = (if cu > 1 then max 0 (min 1 (cu - 1)) else 0)
      in [(''agent'', PStr (ag_id a)), (''proposal'', PStr (utf8 [0xC218, 0xC694, 0x20, 0xAD00, 0xC810, 0x20, 0xB300, 0xC751])),
          (''speed_recommendation'', PInt (if cu > 1 then 110 else 100)),
          (''delivery_risk'', PBool (cu > 9 / 10)),
          (''scores'', PDict [(''quality'', PFloat (1 / 2)), (''delivery'', PFloat (9 / 10)),
             (''cost'', PFloat (3 / 5)), (''safety'', PFloat (1 / 2))]),
          (''proposal_metrics'', PDict [(''cost_estimate'', PFloat (py_round 4 cost_est)),
             (''constraint_violation_total'', PFloat viol),
             (''capacity_utilization'', PFloat (py_round 4 cu))])])"

definition da_execute_accepted :: "dict \<Rightarrow> demand_agent wired \<Rightarrow> demand_agent wired result" where
  "da_execute_accepted proposal s = Inr (log_reasoning (utf8 [0xC218, 0xC694, 0x20, 0xB300, 0xC751, 0x20, 0xC2E4, 0xD589, 0x20, 0xC644, 0xB8CC]) s)"

definition da_status :: "demand_agent wired \<Rightarrow> dict" where
  "da_status s = dset ''sub_agent_views'' (PDict (da_sub_views (fst s))) (base_agent_status demand_decision_dict s)"

section \<open>The agent's contract\<close>

lemma da_sense_quiet: "da_sense snap s = Inr (obs, s') \<Longrightarrow> quiet s s'"
  by (auto simp: da_sense_def bindR_Inr_iff Let_def quiet_def same_base_def with_agent_def)

lemma da_risks_fold:
  "fold da_reason_risk ks (d, s) = (d', s') \<Longrightarrow>
     quiet s s' \<and> length (dd_alerts d') = length (dd_alerts d) + length ks
     \<and> (\<forall>al\<in>set (dd_alerts d'). al \<in> set (dd_alerts d) \<or> al_target al = ''PA'' \<and> al_severity al = ''HIGH'')
     \<and> dd_priority d' = (if ks = [] then dd_priority d else ''HIGH'')
     \<and> dd_schedule_changes d' = dd_schedule_changes d"
proof (induction ks arbitrary: d s)
  case Nil
  then show ?case by simp
next
  case (Cons k ks)
  obtain d1 s1 where 1: "da_reason_risk k (d, s) = (d1, s1)" by (rule prod.exhaust)
  have q: "quiet s s1" using 1 by (auto simp: da_reason_risk_def)
  have "fold da_reason_risk ks (d1, s1) = (d', s')" using Cons.prems 1 by simp
  from Cons.IH [OF this] quiet_trans [OF q, of s'] 1 show ?case
    by (auto simp: da_reason_risk_def da_alert_def)
qed

lemma da_rates_step:
  assumes "da_reason_rates obs (d, s) = (d', s')"
  shows "quiet s s'" "dd_schedule_changes d' = dd_schedule_changes d"
    "length (dd_alerts d') = length (dd_alerts d) + (if dn_on_time_rate obs < 85 / 100 then 1 else 0)
       + (if dn_capacity_utilization obs > 11 / 10 then 1 else 0)"
    "\<forall>al\<in>set (dd_alerts d'). al \<in> set (dd_alerts d) \<or> al_target al = ''PA''"
    "dd_priority d' = (if dn_on_time_rate obs < 85 / 100 then ''CRITICAL'' else dd_priority d)"
    "dn_on_time_rate obs < 85 / 100 \<Longrightarrow> \<exists>al\<in>set (dd_alerts d'). al_severity al = ''CRITICAL''"
  using assms by (auto simp: da_reason_rates_def Let_def da_alert_def quiet_log_trans split: if_splits)

lemma da_reason_result:
  assumes "da_reason obs s = Inr (dec, s')"
  shows "quiet s s'"
    and "dec = None \<longleftrightarrow> dn_at_risk obs = [] \<and> dn_urgent obs = [] \<and> 85 / 100 \<le> dn_on_time_rate obs
           \<and> dn_capacity_utilization obs \<le> 11 / 10"
    and "dec = Some d \<Longrightarrow> (\<forall>al\<in>set (dd_alerts d). al_target al = ''PA'')
      \<and> length (dd_alerts d) = length (dn_at_risk obs) + (if dn_on_time_rate obs < 85 / 100 then 1 else 0)
          + (if dn_capacity_utilization obs > 11 / 10 then 1 else 0)
      \<and> length (dd_schedule_changes d) = length (dn_urgent obs)
      \<and> dd_priority d = (if dn_on_time_rate obs < 85 / 100 then ''CRITICAL''
          else if dn_at_risk obs \<noteq> [] then ''HIGH'' else ''LOW'')
      \<and> (dn_on_time_rate obs < 85 / 100 \<longrightarrow> (\<exists>al\<in>set (dd_alerts d). al_severity al = ''CRITICAL''))"
proof -
  let ?d0 = "\<lparr> dd_schedule_changes = [], dd_alerts = [], dd_priority = ''LOW'' \<rparr>"
  obtain d1 s1 where 1: "fold da_reason_risk (dn_at_risk obs) (?d0, s) = (d1, s1)" by (rule prod.exhaust)
  obtain cs where cs: "mapR da_schedule_change (dn_urgent obs) = Inr cs"
    using assms 1 by (auto simp: da_reason_def bindR_Inr_iff)
  obtain d2 s2 where 2: "da_reason_rates obs (d1\<lparr>dd_schedule_changes := cs\<rparr>, s1) = (d2, s2)" by (rule prod.exhaust)
  note r = da_risks_fold [OF 1] da_rates_step [OF 2] mapR_Inr_length [OF cs]
  have q: "quiet s s2" using r(1,2) quiet_trans by blast
  have dec: "(if dd_alerts d2 = [] \<and> dd_schedule_changes d2 = [] then dec = None \<and> quiet s2 s' else dec = Some d2 \<and> s' = s2)"
    using assms by (auto simp: da_reason_def 1 2 cs split: if_splits)
  then show "quiet s s'" using q quiet_trans [OF q, of s'] by (auto split: if_splits)
  have l: "length (dd_alerts d2) = length (dn_at_risk obs) + (if dn_on_time_rate obs < 85 / 100 then 1 else 0)
          + (if dn_capacity_utilization obs > 11 / 10 then 1 else 0)"
      "length (dd_schedule_changes d2) = length (dn_urgent obs)"
    using r by simp_all
  show "dec = None \<longleftrightarrow> dn_at_risk obs = [] \<and> dn_urgent obs = [] \<and> 85 / 100 \<le> dn_on_time_rate obs
           \<and> dn_capacity_utilization obs \<le> 11 / 10"
    using dec l by (auto split: if_splits)
  assume "dec = Some d"
  then have "d = d2" using dec by (auto split: if_splits)
  then show "(\<forall>al\<in>set (dd_alerts d). al_target al = ''PA'')
      \<and> length (dd_alerts d) = length (dn_at_risk obs) + (if dn_on_time_rate obs < 85 / 100 then 1 else 0)
          + (if dn_capacity_utilization obs > 11 / 10 then 1 else 0)
      \<and> length (dd_schedule_changes d) = length (dn_urgent obs)
      \<and> dd_priority d = (if dn_on_time_rate obs < 85 / 100 then ''CRITICAL''
          else if dn_at_risk obs \<noteq> [] then ''HIGH'' else ''LOW'')
      \<and> (dn_on_time_rate obs < 85 / 100 \<longrightarrow> (\<exists>al\<in>set (dd_alerts d). al_severity al = ''CRITICAL''))"
    using l r by (auto split: if_splits)
qed

interpretation demand_loop: agent_loop da_sense da_reason "da_act interf" "\<lambda>d. length (dd_alerts d)"
  for interf
proof
  show "quiet s s'" if "da_sense snap s = Inr (obs, s')" for snap s obs s' by (rule da_sense_quiet [OF that])
  show "quiet s s'" if "da_reason obs s = Inr (r, s')" for obs s r s' by (rule da_reason_result(1) [OF that])
  show "sends_alerts 0 s s'" if "da_act interf None s = Inr (as, s')" for s as s'
    using that by (simp add: da_act_def sends_alerts_def same_base_def)
  show "sends_alerts (length (dd_alerts d)) s s'"
    if "da_reason obs t = Inr (Some d, t')" "da_act interf (Some d) s = Inr (as, s')" for obs t d t' s as s'
    using da_reason_result(3) [OF that(1) refl] that(2)
      send_alerts_sends [of "dd_alerts d" s interf "da_alert_body (fst s)"]
    by (auto simp: da_act_def)
qed

end
