(* ===== verification/Inventory_Agent.thy ===== *)
theory Inventory_Agent
  imports Agent_Base
begin

text \<open>
  \<open>mas/agents/inventory_agent.py\<close>: the inventory agent watches the buffers between the
  stations, the bottleneck and the scrap rate.
\<close>

definition WIP_WARN_UTIL :: real where "WIP_WARN_UTIL = 8 / 10"
definition WIP_OVERLOAD_UTIL :: real where "WIP_OVERLOAD_UTIL = 9 / 10"
definition BOTTLENECK_OEE_THRESHOLD :: real where "BOTTLENECK_OEE_THRESHOLD = 65 / 100"
definition SCRAP_RATE_THRESHOLD :: real where "SCRAP_RATE_THRESHOLD = 5 / 100"

record wip_alert =
  wa_buffer :: string
  wa_count :: pyval
  wa_util :: pyval
  wa_status :: string

record inventory_obs =
  io_wip_levels :: "(string \<times> pyval \<times> pyval) list"
  io_bottleneck :: "string option"
  io_fg_stock :: pyval
  io_throughput :: pyval
  io_scrap_rate :: real
  io_station_utilization :: "(string \<times> real) list"
  io_wip_alerts :: "wip_alert list"

record wip_action =
  wx_buffer :: string
  wx_reason :: string

record inventory_decision =
  id_wip_actions :: "wip_action list"
  id_alerts :: "alert list"
  id_priority :: string

record inventory_agent = "inventory_decision base_agent" +
  ia_wip_history :: "pyval series"
  ia_throughput_history :: "real list"
  ia_bottleneck_station :: "string option"
  ia_sub_views :: dict
  ia_last_scrap_rate :: real
  ia_last_wip_alert_n :: nat

definition new_inventory_agent :: "(nat \<Rightarrow> string) \<Rightarrow> (nat \<Rightarrow> string) \<Rightarrow> inventory_agent" where
  "new_inventory_agent uuids now = base_agent.extend (new_base_agent ''IA'' (utf8 [0xC7AC, 0xACE0, 0x20, 0xC5D0, 0xC774, 0xC804, 0xD2B8]) uuids now)
     (inventory_agent.fields [] [] None [] 0 0)"

section \<open>Sense\<close>

definition ia_sense_buffer ::
  "pyval \<Rightarrow> inventory_obs \<times> inventory_agent wired \<Rightarrow> (inventory_obs \<times> inventory_agent wired) result" where
  "ia_sense_buffer w_v os = (case os of (obs, s) \<Rightarrow>
     bindR (as_dict w_v) (\<lambda>w.
     bindR (bindR (item_at w ''from'') int_field) (\<lambda>f.
     bindR (bindR (item_at w ''to'') int_field) (\<lambda>t.
       let key = ''WC-'' @ pad_int 2 (f + 1) @ (utf8 [0x2192, 0x57, 0x43, 0x2D]) @ pad_int 2 (t + 1);
           count = dget_or w ''count'' (PInt 0);
           util_v = dget_or w ''util'' (PInt 0);
           s1 = with_agent (\<lambda>a. a\<lparr>ia_wip_history := series_push 100 key count (ia_wip_history a)\<rparr>) s
       in bindR (py_num util_v) (\<lambda>util.
            Inr (obs\<lparr> io_wip_levels := AList.update key (count, util_v) (io_wip_levels obs),
                      io_wip_alerts := io_wip_alerts obs
                        @ (if util > WIP_WARN_UTIL
                           then [\<lparr> wa_buffer = key, wa_count = count, wa_util = util_v,
                                   wa_status = (if util > WIP_OVERLOAD_UTIL then (utf8 [0xACFC, 0xC801]) else (utf8 [0xC8FC, 0xC758])) \<rparr>]
                           else []) \<rparr>, s1))))))"

text \<open>The scan for the station of least OEE: its utilization table, minimum and argument.\<close>

definition ia_sense_station ::
  "string \<times> pyval \<Rightarrow> (string \<times> real) list \<times> real \<times> string option \<Rightarrow> ((string \<times> real) list \<times> real \<times> string option) result" where
  "ia_sense_station st acc = (case st of (sid, sdata) \<Rightarrow> case acc of (tab, min_oee, bn) \<Rightarrow>
     bindR (as_dict sdata) (\<lambda>d.
     bindR (dict_at d ''oee'') (\<lambda>oee_d.
     bindR (num_at oee_d ''oee'' 1) (\<lambda>oee.
       Inr (AList.update sid oee tab, if oee < min_oee then (oee, Some sid) else (min_oee, bn))))))"

definition opt_str :: "string option \<Rightarrow> pyval" where
  "opt_str x = (case x of None \<Rightarrow> PNone | Some s \<Rightarrow> PStr s)"

definition ia_views :: "inventory_obs \<Rightarrow> dict" where
  "ia_views obs =
     [(''IA-WIP'', PDict [(''role_ko'', PStr (utf8 [0x57, 0x49, 0x50, 0xB7, 0xBCD1, 0xBAA9])), (''bottleneck'', opt_str (io_bottleneck obs)),
        (''wip_alerts_n'', PInt (int (length (io_wip_alerts obs))))]),
      (''IA-SCRAP'', PDict [(''role_ko'', PStr (utf8 [0xD3D0, 0xAE30, 0xB7, 0xC644, 0xC81C, 0xD488])),
        (''scrap_rate'', PFloat (py_round 4 (io_scrap_rate obs))), (''fg_stock'', io_fg_stock obs),
        (''throughput'', io_throughput obs)])]"

definition ia_sense :: "dict \<Rightarrow> inventory_agent wired \<Rightarrow> (inventory_obs \<times> inventory_agent wired) result" where
  "ia_sense snap s =
     bindR (num_at snap ''scrap_count'' 0) (\<lambda>scrap.
     bindR (num_at snap ''total_produced'' 0) (\<lambda>total.
     bindR (as_list (dget_or snap ''wip'' (PList []))) (\<lambda>wip.
     bindR (foldR ia_sense_buffer wip
             (\<lparr> io_wip_levels = [], io_bottleneck = None, io_fg_stock = dget_or snap ''fg_stock'' (PInt 0),
                io_throughput = dget_or snap ''total_produced'' (PInt 0),
                io_scrap_rate = scrap / max 1 (total + scrap), io_station_utilization = [],
                io_wip_alerts = [] \<rparr>, s)) (\<lambda>(obs1, s1).
     bindR (dict_at snap ''stations'') (\<lambda>stations.
     bindR (foldR ia_sense_station stations ([], 1, None)) (\<lambda>(tab, _, bn).
       let obs = obs1\<lparr> io_station_utilization := tab, io_bottleneck := bn \<rparr>
       in Inr (obs, with_agent (\<lambda>a. a\<lparr> ia_bottleneck_station := bn,
                 ia_throughput_history := ia_throughput_history a @ [total], ia_sub_views := ia_views obs,
                 ia_last_scrap_rate := io_scrap_rate obs,
                 ia_last_wip_alert_n := length (io_wip_alerts obs) \<rparr>) s1)))))))"

section \<open>Reason\<close>

definition ia_alert :: "string \<Rightarrow> string \<Rightarrow> alert" where
  "ia_alert severity message = \<lparr> al_target = ''PA'', al_severity = severity, al_message = message \<rparr>"

definition ia_reason_wip ::
  "wip_alert \<Rightarrow> inventory_decision \<times> inventory_agent wired \<Rightarrow> (inventory_decision \<times> inventory_agent wired) result" where
  "ia_reason_wip wa ds = (case ds of (d, s) \<Rightarrow>
     (if wa_status wa = (utf8 [0xACFC, 0xC801]) then
        bindR (fmt_pct_val 0 (wa_util wa)) (\<lambda>util.
          let what = py_str (wa_count wa) @ (utf8 [0xAC1C, 0x2C, 0x20]) @ util @ '')'' in
          Inr (d\<lparr> id_priority := ''HIGH'',
                  id_wip_actions := id_wip_actions d @ [\<lparr> wx_buffer = wa_buffer wa, wx_reason = (utf8 [0x57, 0x49, 0x50, 0x20, 0xACFC, 0xC801, 0x20, 0x28]) @ what \<rparr>],
                  id_alerts := id_alerts d @ [ia_alert ''HIGH'' ((utf8 [0x57, 0x49, 0x50, 0x20, 0xACFC, 0xC801, 0x3A, 0x20]) @ wa_buffer wa @ '' ('' @ what)] \<rparr>,
               log_reasoning ((utf8 [0x5B, 0x57, 0x49, 0x50, 0x5D, 0x20]) @ wa_buffer wa @ (utf8 [0x20, 0xACFC, 0xC801, 0x20, 0x2192, 0x20, 0xC804, 0xACF5, 0xC815, 0x20, 0xC18D, 0xB3C4, 0xC870, 0xC808, 0x20, 0xD544, 0xC694])) s))
      else Inr (d, s)))"

text \<open>\<open>decision["priority"] = max(decision["priority"], "MEDIUM")\<close> compares strings.\<close>

definition ia_reason_bottleneck ::
  "inventory_obs \<Rightarrow> inventory_decision \<times> inventory_agent wired \<Rightarrow> inventory_decision \<times> inventory_agent wired" where
  "ia_reason_bottleneck obs ds = (case io_bottleneck obs of
      None \<Rightarrow> ds
    | Some bn \<Rightarrow>
        (let oee = (case map_of (io_station_utilization obs) bn of Some x \<Rightarrow> x | None \<Rightarrow> 1) in
         if bn \<noteq> [] \<and> oee < BOTTLENECK_OEE_THRESHOLD then
           ((fst ds)\<lparr> id_priority := str_max (id_priority (fst ds)) ''MEDIUM'',
              id_alerts := id_alerts (fst ds) @ [ia_alert ''MEDIUM'' ((utf8 [0xBCD1, 0xBAA9, 0xACF5, 0xC815, 0x3A, 0x20]) @ bn @ '' (OEE '' @ fmt_pct 1 oee @ '')'')] \<rparr>,
            log_reasoning ((utf8 [0x5B, 0xBCD1, 0xBAA9, 0x5D, 0x20]) @ bn @ '' OEE='' @ fmt_pct 1 oee @ (utf8 [0x20, 0x2014, 0x20, 0xAC1C, 0xC120, 0x20, 0xD544, 0xC694])) (snd ds))
         else ds))"

definition ia_reason_scrap ::
  "inventory_obs \<Rightarrow> inventory_decision \<times> inventory_agent wired \<Rightarrow> inventory_decision \<times> inventory_agent wired" where
  "ia_reason_scrap obs ds =
     (if io_scrap_rate obs > SCRAP_RATE_THRESHOLD then
        ((fst ds)\<lparr>id_alerts := id_alerts (fst ds) @ [ia_alert ''MEDIUM'' ((utf8 [0xD3D0, 0xAE30, 0xC728, 0x20, 0xC0C1, 0xC2B9, 0x3A, 0x20]) @ fmt_pct 1 (io_scrap_rate obs))]\<rparr>,
         log_reasoning ((utf8 [0x5B, 0xD3D0, 0xAE30, 0x5D, 0x20, 0xD3D0, 0xAE30, 0xC728, 0x20]) @ fmt_pct 1 (io_scrap_rate obs) @ (utf8 [0x20, 0x3E, 0x20, 0x35, 0x25, 0x20, 0xAE30, 0xC900])) (snd ds))
      else ds)"

definition ia_reason ::
  "inventory_obs \<Rightarrow> inventory_agent wired \<Rightarrow> (inventory_decision option \<times> inventory_agent wired) result" where
  "ia_reason obs s =
     bindR (foldR ia_reason_wip (io_wip_alerts obs)
             (\<lparr> id_wip_actions = [], id_alerts = [], id_priority = ''LOW'' \<rparr>, s)) (\<lambda>ds.
       let (d, s2) = ia_reason_scrap obs (ia_reason_bottleneck obs ds)
       in if id_wip_actions d = [] \<and> id_alerts d = []
          then Inr (None, log_reasoning ((utf8 [0xBB3C, 0xB958, 0x20, 0xC548, 0xC815, 0x3A, 0x20, 0xBCD1, 0xBAA9, 0x3D])
                 @ (case io_bottleneck obs of Some bn \<Rightarrow> if bn \<noteq> [] then bn else (utf8 [0xC5C6, 0xC74C]) | None \<Rightarrow> (utf8 [0xC5C6, 0xC74C]))
                 @ '', FG='' @ py_str (io_fg_stock obs) @ (utf8 [0xAC1C, 0x2C, 0x20, 0xD3D0, 0xAE30, 0xC728, 0x3D]) @ fmt_pct 1 (io_scrap_rate obs)) s2)
          else Inr (Some d, s2))"

section \<open>Act and bid\<close>

definition wip_action_dict :: "wip_action \<Rightarrow> dict" where
  "wip_action_dict w = [(''buffer'', PStr (wx_buffer w)), (''action'', PStr (utf8 [0xC18D, 0xB3C4, 0xC870, 0xC808])), (''reason'', PStr (wx_reason w))]"

definition inventory_decision_dict :: "inventory_decision \<Rightarrow> dict" where
  "inventory_decision_dict d =
     [(''type'', PStr ''inventory_assessment''),
      (''wip_actions'', PList (map (\<lambda>w. PDict (wip_action_dict w)) (id_wip_actions d))),
      (''alerts'', PList (map (\<lambda>al. PDict (alert_dict al)) (id_alerts d))), (''priority'', PStr (id_priority d))]"

definition ia_alert_body :: "inventory_agent \<Rightarrow> alert \<Rightarrow> dict" where
  "ia_alert_body a al =
     [(''source'', PStr (ag_id a)), (''severity'', PStr (al_severity al)), (''summary'', PStr (al_message al)),
      (''bottleneck'', opt_str (ia_bottleneck_station a))]"

definition ia_act ::
  "(broker \<Rightarrow> broker) \<Rightarrow> inventory_decision option \<Rightarrow> inventory_agent wired \<Rightarrow> (string list \<times> inventory_agent wired) result" where
  "ia_act interf dec s = (case dec of
      None \<Rightarrow> Inr ([], s)
    | Some d \<Rightarrow> Inr (map (\<lambda>al. (utf8 [0xACBD, 0xBCF4, 0x3A, 0x20]) @ al_message al) (id_alerts d),
        send_alerts interf (ia_alert_body (fst s)) (id_alerts d) s))"

definition ia_handle_cfp :: "inventory_agent \<Rightarrow> dict" where
  "ia_handle_cfp a =
     (let th = ia_throughput_history a;
          trend_up = length th > 2 \<and> last th > th ! (length th - 2);
          has_bn = (case ia_bottleneck_station a of Some bn \<Rightarrow> bn \<noteq> [] | None \<Rightarrow> False);
          viol = min 1 (35 / 100 * of_nat (ia_last_wip_alert_n a) + (if has_bn then 45 / 100 else 0));
          cost_est = min 1 (ia_last_scrap_rate a * 8 + (if trend_up then 12 / 100 else 0))
      in [(''agent'', PStr (ag_id a)), (''proposal'', PStr (utf8 [0xBB3C, 0xB958, 0x20, 0xAD00, 0xC810, 0x20, 0xB300, 0xC751])),
          (''bottleneck'', opt_str (ia_bottleneck_station a)),
          (''throughput_trend'', PStr (if trend_up then (utf8 [0xC0C1, 0xC2B9]) else (utf8 [0xC815, 0xCCB4]))),
          (''scores'', PDict [(''quality'', PFloat (3 / 5)), (''delivery'', PFloat (7 / 10)),
             (''cost'', PFloat (7 / 10)), (''safety'', PFloat (1 / 2))]),
          (''proposal_metrics'', PDict [(''cost_estimate'', PFloat (py_round 4 cost_est)),
             (''constraint_violation_total'', PFloat viol),
             (''bottleneck_station'', opt_str (ia_bottleneck_station a))])])"

definition ia_execute_accepted :: "dict \<Rightarrow> inventory_agent wired \<Rightarrow> inventory_agent wired result" where
  "ia_execute_accepted proposal s = Inr (log_reasoning (utf8 [0xBB3C, 0xB958, 0x20, 0xB300, 0xC751, 0x20, 0xC2E4, 0xD589, 0x20, 0xC644, 0xB8CC]) s)"

definition ia_status :: "inventory_agent wired \<Rightarrow> dict" where
  "ia_status s = dset ''sub_agent_views'' (PDict (ia_sub_views (fst s))) (base_agent_status inventory_decision_dict s)"

section \<open>The agent's contract\<close>

lemma ia_sense_quiet: "ia_sense snap s = Inr (obs, s') \<Longrightarrow> quiet s s'"
proof -
  assume "ia_sense snap s = Inr (obs, s')"
  then obtain wip obs0 obs1 s1 where f: "foldR ia_sense_buffer wip (obs0, s) = Inr (obs1, s1)"
      and s': "quiet s1 s'"
    by (auto simp: ia_sense_def bindR_Inr_iff Let_def quiet_def same_base_def with_agent_def)
  have "quiet s s1"
    by (rule foldR_quiet [OF f])
      (auto simp: ia_sense_buffer_def bindR_Inr_iff Let_def quiet_def same_base_def with_agent_def)
  then show ?thesis using s' by (rule quiet_trans)
qed

definition over_capacity :: "wip_alert \<Rightarrow> bool" where
  "over_capacity wa \<longleftrightarrow> wa_status wa = (utf8 [0xACFC, 0xC801])"

definition slow_bottleneck :: "inventory_obs \<Rightarrow> bool" where
  "slow_bottleneck obs \<longleftrightarrow> (case io_bottleneck obs of None \<Rightarrow> False
     | Some bn \<Rightarrow> bn \<noteq> [] \<and> (case map_of (io_station_utilization obs) bn of Some x \<Rightarrow> x | None \<Rightarrow> 1) < BOTTLENECK_OEE_THRESHOLD)"

lemma ia_wip_step:
  assumes "ia_reason_wip wa (d, s) = Inr (d1, s1)"
  shows "quiet s s1"
    and "over_capacity wa \<Longrightarrow> \<exists>al w. id_alerts d1 = id_alerts d @ [al] \<and> al_target al = ''PA'' \<and> al_severity al = ''HIGH''
      \<and> id_wip_actions d1 = id_wip_actions d @ [w] \<and> id_priority d1 = ''HIGH''"
    and "\<not> over_capacity wa \<Longrightarrow> d1 = d"
  using assms by (auto simp: ia_reason_wip_def bindR_Inr_iff Let_def ia_alert_def over_capacity_def split: if_split_asm)

lemma ia_wip_fold:
  "foldR ia_reason_wip was (d, s) = Inr (d', s') \<Longrightarrow>
     quiet s s' \<and> length (id_alerts d') = length (id_alerts d) + length (filter over_capacity was)
     \<and> length (id_wip_actions d') = length (id_wip_actions d) + length (filter over_capacity was)
     \<and> (\<forall>al\<in>set (id_alerts d'). al \<in> set (id_alerts d) \<or> al_target al = ''PA'')
     \<and> (filter over_capacity was \<noteq> [] \<longrightarrow> (\<exists>al\<in>set (id_alerts d'). al_severity al = ''HIGH''))
     \<and> id_priority d' = (if filter over_capacity was = [] then id_priority d else ''HIGH'')
     \<and> set (id_alerts d) \<subseteq> set (id_alerts d')"
proof (induction was arbitrary: d s)
  case Nil
  then show ?case by simp
next
  case (Cons wa was)
  obtain d1 s1 where 1: "ia_reason_wip wa (d, s) = Inr (d1, s1)" "foldR ia_reason_wip was (d1, s1) = Inr (d', s')"
    using Cons.prems by (auto simp: bindR_Inr_iff)
  note q = ia_wip_step(1) [OF 1(1)]
  note ih = Cons.IH [OF 1(2)]
  show ?case
  proof (cases "over_capacity wa")
    case True
    then obtain al w where "id_alerts d1 = id_alerts d @ [al]" "al_target al = ''PA''" "al_severity al = ''HIGH''"
        "id_wip_actions d1 = id_wip_actions d @ [w]" "id_priority d1 = ''HIGH''"
      using ia_wip_step(2) [OF 1(1)] by blast
    then show ?thesis using ih True quiet_trans [OF q, of s'] by auto
  next
    case False
    then show ?thesis using ih ia_wip_step(3) [OF 1(1)] quiet_trans [OF q, of s'] by auto
  qed
qed

lemma str_max_priority:
  "str_max ''LOW'' ''MEDIUM'' = ''MEDIUM''" "str_max ''HIGH'' ''MEDIUM'' = ''MEDIUM''"
  by (simp_all add: str_max_def str_less_def of_char_def)

lemma ia_bottleneck_step:
  assumes "ia_reason_bottleneck obs (d, s) = (d', s')"
  shows "quiet s s'" "id_wip_actions d' = id_wip_actions d"
    "length (id_alerts d') = length (id_alerts d) + (if slow_bottleneck obs then 1 else 0)"
    "\<forall>al\<in>set (id_alerts d'). al \<in> set (id_alerts d) \<or> al_target al = ''PA''"
    "set (id_alerts d) \<subseteq> set (id_alerts d')"
    "id_priority d' = (if slow_bottleneck obs then str_max (id_priority d) ''MEDIUM'' else id_priority d)"
  using assms by (auto simp: ia_reason_bottleneck_def slow_bottleneck_def Let_def ia_alert_def
      split: option.split_asm if_split_asm)

lemma ia_scrap_step:
  assumes "ia_reason_scrap obs (d, s) = (d', s')"
  shows "quiet s s'" "id_wip_actions d' = id_wip_actions d"
    "length (id_alerts d') = length (id_alerts d) + (if io_scrap_rate obs > SCRAP_RATE_THRESHOLD then 1 else 0)"
    "\<forall>al\<in>set (id_alerts d'). al \<in> set (id_alerts d) \<or> al_target al = ''PA''"
    "set (id_alerts d) \<subseteq> set (id_alerts d')"
    "id_priority d' = id_priority d"
  using assms by (auto simp: ia_reason_scrap_def ia_alert_def split: if_splits)

lemma ia_reason_result:
  assumes "ia_reason obs s = Inr (dec, s')"
  defines "n \<equiv> length (filter over_capacity (io_wip_alerts obs))"
  shows "quiet s s'"
    and "dec = None \<longleftrightarrow> n = 0 \<and> \<not> slow_bottleneck obs \<and> io_scrap_rate obs \<le> SCRAP_RATE_THRESHOLD"
    and "dec = Some d \<Longrightarrow> (\<forall>al\<in>set (id_alerts d). al_target al = ''PA'')
      \<and> length (id_wip_actions d) = n
      \<and> length (id_alerts d) = n + (if slow_bottleneck obs then 1 else 0)
          + (if io_scrap_rate obs > SCRAP_RATE_THRESHOLD then 1 else 0)
      \<and> (n > 0 \<longrightarrow> (\<exists>al\<in>set (id_alerts d). al_severity al = ''HIGH''))
      \<and> id_priority d = (if slow_bottleneck obs then ''MEDIUM'' else if n > 0 then ''HIGH'' else ''LOW'')"
proof -
  let ?d0 = "\<lparr> id_wip_actions = [], id_alerts = [], id_priority = ''LOW'' \<rparr>"
  obtain d1 s1 where 1: "foldR ia_reason_wip (io_wip_alerts obs) (?d0, s) = Inr (d1, s1)"
    using assms(1) by (auto simp: ia_reason_def bindR_Inr_iff)
  obtain d2 s2 where 2: "ia_reason_bottleneck obs (d1, s1) = (d2, s2)" by (rule prod.exhaust)
  obtain d3 s3 where 3: "ia_reason_scrap obs (d2, s2) = (d3, s3)" by (rule prod.exhaust)
  note r = ia_wip_fold [OF 1] ia_bottleneck_step [OF 2] ia_scrap_step [OF 3]
  have q: "quiet s s3" using quiet_trans [OF quiet_trans [of s s1 s2], of s3] r by blast
  have dec: "(if id_wip_actions d3 = [] \<and> id_alerts d3 = [] then dec = None \<and> quiet s3 s' else dec = Some d3 \<and> s' = s3)"
    using assms(1) by (auto simp: ia_reason_def 1 2 3 split: if_splits)
  then show "quiet s s'" using q quiet_trans [OF q, of s'] by (auto split: if_splits)
  have l: "length (id_alerts d3) = n + (if slow_bottleneck obs then 1 else 0)
        + (if io_scrap_rate obs > SCRAP_RATE_THRESHOLD then 1 else 0)" "length (id_wip_actions d3) = n"
    using r by (simp_all add: n_def)
  show "dec = None \<longleftrightarrow> n = 0 \<and> \<not> slow_bottleneck obs \<and> io_scrap_rate obs \<le> SCRAP_RATE_THRESHOLD"
    using dec l by (auto split: if_splits)
  have pri: "id_priority d3 = (if slow_bottleneck obs then ''MEDIUM'' else if n > 0 then ''HIGH'' else ''LOW'')"
    using r(1,7,13) by (auto simp: n_def str_max_priority)
  have tgt: "\<forall>al\<in>set (id_alerts d3). al_target al = ''PA''" using r(1,5,11) by fastforce
  have high: "n > 0 \<longrightarrow> (\<exists>al\<in>set (id_alerts d3). al_severity al = ''HIGH'')"
    using r(1,6,12) by (auto simp: n_def)
  assume "dec = Some d"
  then have "d = d3" using dec by (auto split: if_splits)
  then show "(\<forall>al\<in>set (id_alerts d). al_target al = ''PA'')
      \<and> length (id_wip_actions d) = n
      \<and> length (id_alerts d) = n + (if slow_bottleneck obs then 1 else 0)
          + (if io_scrap_rate obs > SCRAP_RATE_THRESHOLD then 1 else 0)
      \<and> (n > 0 \<longrightarrow> (\<exists>al\<in>set (id_alerts d). al_severity al = ''HIGH''))
      \<and> id_priority d = (if slow_bottleneck obs then ''MEDIUM'' else if n > 0 then ''HIGH'' else ''LOW'')"
    using l pri tgt high by simp
qed

interpretation inventory_loop: agent_loop ia_sense ia_reason "ia_act interf" "\<lambda>d. length (id_alerts d)"
  for interf
proof
  show "quiet s s'" if "ia_sense snap s = Inr (obs, s')" for snap s obs s' by (rule ia_sense_quiet [OF that])
  show "quiet s s'" if "ia_reason obs s = Inr (r, s')" for obs s r s' by (rule ia_reason_result(1) [OF that])
  show "sends_alerts 0 s s'" if "ia_act interf None s = Inr (as, s')" for s as s'
    using that by (simp add: ia_act_def sends_alerts_def same_base_def)
  show "sends_alerts (length (id_alerts d)) s s'"
    if "ia_reason obs t = Inr (Some d, t')" "ia_act interf (Some d) s = Inr (as, s')" for obs t d t' s as s'
    using ia_reason_result(3) [OF that(1) refl] that(2)
      send_alerts_sends [of "id_alerts d" s interf "ia_alert_body (fst s)"]
    by (auto simp: ia_act_def)
qed

end
