(* ===== verification/Equipment_Models.thy ===== *)
theory Equipment_Models
  imports Agent_Base
begin

text \<open>
  \<open>mas/agents/equipment_sub/\<close> (raw anomaly score, remaining useful life) and
  \<open>mas/intelligence/equipment_predictive_models.py\<close> (the predictive-maintenance profile of
  each station type). An infinite mean time between failures is \<open>None\<close>.
\<close>

section \<open>Profiles\<close>

record pm_profile =
  pp_model_id :: string
  pp_name_kr :: string
  pp_primary :: "string list"
  pp_secondary :: "string list"
  pp_sensitivity :: real
  pp_rul_scale :: real
  pp_focus :: string

definition EQUIPMENT_PM_MODELS :: "(string \<times> pm_profile) list" where
  "EQUIPMENT_PM_MODELS =
     [(''PRESS'', \<lparr> pp_model_id = ''pm-press-vib-hyd-v1'', pp_name_kr = (utf8 [0xD504, 0xB808, 0xC2A4, 0x20, 0xC9C4, 0xB3D9, 0xB7, 0xC720, 0xC555, 0x20, 0xC608, 0xC9C0]),
         pp_primary = [''vibration'', ''oil_temp'', ''tonnage''],
         pp_secondary = [''die_clearance'', ''noise_db'', ''springback'', ''stroke_position''],
         pp_sensitivity = 105 / 100, pp_rul_scale = 1, pp_focus = (utf8 [0xBCA0, 0xC5B4, 0xB9C1, 0xB7, 0xC720, 0xC555, 0x20, 0xD38C, 0xD504, 0xB7, 0xAE08, 0xD615, 0x20, 0xB9C8, 0xBAA8]) \<rparr>),
      (''WELD'', \<lparr> pp_model_id = ''pm-weld-nugget-v2'', pp_name_kr = (utf8 [0xC2A4, 0xD31F, 0xC6A9, 0xC811, 0x20, 0xB108, 0xAC9F, 0xB7, 0xC804, 0xADF9, 0x20, 0xC608, 0xC9C0]),
         pp_primary = [''weld_current'', ''weld_force'', ''nugget_dia''],
         pp_secondary = [''electrode_tip'', ''spatter_rate''],
         pp_sensitivity = 112 / 100, pp_rul_scale = 92 / 100, pp_focus = (utf8 [0xC804, 0xADF9, 0x20, 0xB9C8, 0xBAA8, 0xB7, 0xC804, 0xB958, 0x20, 0xB4DC, 0xB9AC, 0xD504, 0xD2B8]) \<rparr>),
      (''HEAT'', \<lparr> pp_model_id = ''pm-furnace-soak-v1'', pp_name_kr = (utf8 [0xC5F4, 0xCC98, 0xB9AC, 0x20, 0xB178, 0xB7, 0xACBD, 0xB3C4, 0x20, 0xC608, 0xC9C0]),
         pp_primary = [''furnace_temp'', ''hardness'', ''quench_temp''],
         pp_secondary = [''atmosphere'', ''energy_rate''],
         pp_sensitivity = 98 / 100, pp_rul_scale = 108 / 100, pp_focus = (utf8 [0xB178, 0xCCB4, 0xB7, 0xB0C9, 0xAC01, 0xB7, 0xBD84, 0xC704, 0xAE30, 0x20, 0xAC00, 0xC2A4]) \<rparr>),
      (''CNC'', \<lparr> pp_model_id = ''pm-cnc-spindle-v1'', pp_name_kr = (utf8 [0x43, 0x4E, 0x43, 0x20, 0xC2A4, 0xD540, 0xB4E4, 0xB7, 0xC9C4, 0xB3D9, 0x20, 0xC608, 0xC9C0]),
         pp_primary = [''spindle_vib'', ''spindle_load'', ''surface_ra''],
         pp_secondary = [''coolant_temp'', ''dimension_dev''],
         pp_sensitivity = 108 / 100, pp_rul_scale = 95 / 100, pp_focus = (utf8 [0xC2A4, 0xD540, 0xB4E4, 0xB7, 0xACF5, 0xAD6C, 0xB7, 0xD45C, 0xBA74, 0x20, 0xAC70, 0xCE60, 0xAE30]) \<rparr>),
      (''ASSY'', \<lparr> pp_model_id = ''pm-assy-torque-vision-v1'', pp_name_kr = (utf8 [0xC870, 0xB9BD, 0x20, 0xD1A0, 0xD06C, 0xB7, 0xBE44, 0xC804, 0x20, 0xC608, 0xC9C0]),
         pp_primary = [''torque'', ''vision_score'', ''force''],
         pp_secondary = [''leak_rate'', ''final_weight''],
         pp_sensitivity = 1, pp_rul_scale = 102 / 100, pp_focus = (utf8 [0xCCB4, 0xACB0, 0xB7, 0xBE44, 0xC804, 0xB7, 0xAE30, 0xBC00]) \<rparr>)]"

text \<open>An unknown type falls back to the press profile.\<close>

definition profile_for_station_type :: "string \<Rightarrow> pm_profile" where
  "profile_for_station_type station_type =
     (let st = py_upper (if station_type = [] then ''PRESS'' else station_type)
      in case map_of EQUIPMENT_PM_MODELS st of
           Some p \<Rightarrow> p
         | None \<Rightarrow> the (map_of EQUIPMENT_PM_MODELS ''PRESS''))"

definition scale_anomaly_for_type :: "string \<Rightarrow> string \<Rightarrow> real \<Rightarrow> real" where
  "scale_anomaly_for_type station_type sensor_name base_score =
     (let p = profile_for_station_type station_type;
          boost = (if sensor_name \<in> set (pp_primary p) then 112 / 100
                   else if sensor_name \<in> set (pp_secondary p) then 1 else 88 / 100)
      in min 1 (base_score * pp_sensitivity p * boost))"

definition scale_rul_hours :: "string \<Rightarrow> real \<Rightarrow> real" where
  "scale_rul_hours station_type base_hours =
     max (1 / 2) (base_hours * pp_rul_scale (profile_for_station_type station_type))"

definition model_catalog :: "dict list" where
  "model_catalog = map (\<lambda>(st, p). [(''station_type'', PStr st), (''model_id'', PStr (pp_model_id p)),
     (''name_kr'', PStr (pp_name_kr p)), (''focus'', PStr (pp_focus p))]) EQUIPMENT_PM_MODELS"

section \<open>Anomaly and remaining life\<close>

definition trim_history :: "nat \<Rightarrow> string \<Rightarrow> real \<Rightarrow> real series \<Rightarrow> real series" where
  "trim_history maxlen key val store = series_push maxlen key val store"

definition increasing_steps :: "real list \<Rightarrow> nat" where
  "increasing_steps xs = length (filter (\<lambda>(x, y). y > x) (zip xs (tl xs)))"

definition trend_score :: "real list \<Rightarrow> real" where
  "trend_score history =
     (if length history \<ge> 10
      then (let inc = increasing_steps (last_n 10 history)
            in if inc \<ge> 8 then 4 / 10 else if inc \<ge> 6 then 2 / 10 else 0)
      else 0)"

definition compute_raw_anomaly :: "real \<Rightarrow> real \<Rightarrow> real \<Rightarrow> real list \<Rightarrow> real" where
  "compute_raw_anomaly value ma std history =
     (if std < 1 / 1000 then 0
      else (let z = \<bar>value - ma\<bar> / max std (1 / 1000)
            in min 1 (z / 3 * (6 / 10) + trend_score history)))"

definition estimate_rul_hours :: "string \<Rightarrow> real \<Rightarrow> real option \<Rightarrow> string \<Rightarrow> real" where
  "estimate_rul_hours station_id health_score mtbf_sec station_type =
     (let base = (case mtbf_sec of
          None \<Rightarrow> 100
        | Some m \<Rightarrow> if m \<le> 0 then 100 else m / 3600 * (health_score / 100))
      in scale_rul_hours station_type base)"

section \<open>Bounds\<close>

lemma profile_in_catalog:
  "\<exists>k. (k, profile_for_station_type st) \<in> set EQUIPMENT_PM_MODELS"
proof -
  have "map_of EQUIPMENT_PM_MODELS ''PRESS'' \<noteq> None" by (simp add: EQUIPMENT_PM_MODELS_def)
  then obtain p where p: "map_of EQUIPMENT_PM_MODELS ''PRESS'' = Some p" by blast
  show ?thesis
  proof (cases "map_of EQUIPMENT_PM_MODELS (py_upper (if st = [] then ''PRESS'' else st))")
    case None
    then have "profile_for_station_type st = p" by (simp add: profile_for_station_type_def p)
    then show ?thesis using map_of_SomeD [OF p] by blast
  next
    case (Some q)
    then have "profile_for_station_type st = q" by (simp add: profile_for_station_type_def)
    then show ?thesis using map_of_SomeD [OF Some] by blast
  qed
qed

lemma profile_ranges:
  "98 / 100 \<le> pp_sensitivity (profile_for_station_type st)" "pp_sensitivity (profile_for_station_type st) \<le> 112 / 100"
  "92 / 100 \<le> pp_rul_scale (profile_for_station_type st)" "pp_rul_scale (profile_for_station_type st) \<le> 108 / 100"
proof -
  have "\<forall>(k, p)\<in>set EQUIPMENT_PM_MODELS. 98 / 100 \<le> pp_sensitivity p \<and> pp_sensitivity p \<le> 112 / 100
      \<and> 92 / 100 \<le> pp_rul_scale p \<and> pp_rul_scale p \<le> 108 / 100"
    by (simp add: EQUIPMENT_PM_MODELS_def)
  then show "98 / 100 \<le> pp_sensitivity (profile_for_station_type st)"
      "pp_sensitivity (profile_for_station_type st) \<le> 112 / 100"
      "92 / 100 \<le> pp_rul_scale (profile_for_station_type st)"
      "pp_rul_scale (profile_for_station_type st) \<le> 108 / 100"
    using profile_in_catalog [of st] by fastforce+
qed

lemma raw_anomaly_bounds: "0 \<le> compute_raw_anomaly v ma std h" "compute_raw_anomaly v ma std h \<le> 1"
proof -
  have "0 \<le> trend_score h" by (simp add: trend_score_def Let_def)
  then show "0 \<le> compute_raw_anomaly v ma std h" "compute_raw_anomaly v ma std h \<le> 1"
    by (simp_all add: compute_raw_anomaly_def Let_def)
qed

lemma scale_anomaly_bounds:
  assumes "0 \<le> x" shows "0 \<le> scale_anomaly_for_type st sn x" "scale_anomaly_for_type st sn x \<le> 1"
  using assms profile_ranges(1) [of st] by (simp_all add: scale_anomaly_for_type_def Let_def)

lemma scale_rul_lower: "1 / 2 \<le> scale_rul_hours st h"
  unfolding scale_rul_hours_def by (rule max.cobounded1)

end
