(* ===== verification/Equipment_Agent.thy ===== *)
theory Equipment_Agent
  imports Equipment_Models Cnp
begin

text \<open>
  \<open>mas/agents/equipment_agent.py\<close>: predictive maintenance. The sensor figures and the tool
  life of a station are read as numbers (a figure that is not one raises).
\<close>

definition ANOMALY_ALARM_THRESHOLD :: real where "ANOMALY_ALARM_THRESHOLD = 7 / 10"
definition ANOMALY_CRITICAL_THRESHOLD :: real where "ANOMALY_CRITICAL_THRESHOLD = 9 / 10"
definition SLOPE_ALERT_THRESHOLD :: real where "SLOPE_ALERT_THRESHOLD = 5 / 100"
definition TOOL_WARN_PCT :: real where "TOOL_WARN_PCT = 15"
definition TOOL_URGENT_PCT :: real where "TOOL_URGENT_PCT = 5"
definition HEALTH_PENALTY_PER_ANOMALY :: real where "HEALTH_PENALTY_PER_ANOMALY = 30"
definition HEALTH_PENALTY_PER_TOOL_PCT :: real where "HEALTH_PENALTY_PER_TOOL_PCT = 3"
definition SPEED_CRITICAL_PCT :: int where "SPEED_CRITICAL_PCT = 60"
definition SPEED_WARNING_PCT :: int where "SPEED_WARNING_PCT = 80"
definition RUL_LOW_HOURS :: real where "RUL_LOW_HOURS = 4"
definition RUL_CNP_HOURS :: real where "RUL_CNP_HOURS = 8"
definition TREND_HISTORY_MAXLEN :: nat where "TREND_HISTORY_MAXLEN = 200"

lemmas ea_thresholds = ANOMALY_ALARM_THRESHOLD_def ANOMALY_CRITICAL_THRESHOLD_def SLOPE_ALERT_THRESHOLD_def
  TOOL_WARN_PCT_def TOOL_URGENT_PCT_def HEALTH_PENALTY_PER_ANOMALY_def HEALTH_PENALTY_PER_TOOL_PCT_def
  SPEED_CRITICAL_PCT_def SPEED_WARNING_PCT_def RUL_LOW_HOURS_def RUL_CNP_HOURS_def TREND_HISTORY_MAXLEN_def

record equipment_alarm =
  lm_station :: string
  lm_sensor :: string
  lm_value :: real
  lm_anomaly :: real
  lm_trend :: string

record tool_warning =
  tw_station :: string
  tw_life_pct :: real
  tw_region :: pyval
  tw_urgency :: string

record trend_alert =
  ta_station :: string
  ta_sensor :: string
  ta_slope :: real
  ta_direction :: string

record station_health =
  eh_score :: real
  eh_state :: pyval
  eh_oee :: pyval
  eh_rul_hours :: real
  eh_tool_life_pct :: real
  eh_station_type :: string
  eh_model_id :: string
  eh_model_name :: string
  eh_max_anomaly :: real
  eh_worst_sensor :: string

record equipment_obs =
  eo_station_health :: "(string \<times> station_health) list"
  eo_alarms :: "equipment_alarm list"
  eo_tool_warnings :: "tool_warning list"
  eo_trend_alerts :: "trend_alert list"
  eo_kpi_by_station_ctx :: "pyval option"
  eo_business_events_tail :: pyval

record maintenance_action =
  mx_station :: string
  mx_action :: string
  mx_reason :: string

record speed_adjustment =
  sx_station :: string
  sx_target_pct :: int

record equipment_decision =
  ed_maintenance :: "maintenance_action list"
  ed_speed :: "speed_adjustment list"
  ed_alerts :: "alert list"
  ed_priority :: string

record equipment_agent = "equipment_decision base_agent" +
  ea_trend_history :: "real series"
  ea_alarm_state :: "(string \<times> string) list"
  ea_rul_estimates :: "(string \<times> real) list"
  ea_maintenance_queue :: "maintenance_action list"
  ea_anomaly_scores :: "(string \<times> real) list"
  ea_by_station :: dict

definition new_equipment_agent :: "(nat \<Rightarrow> string) \<Rightarrow> (nat \<Rightarrow> string) \<Rightarrow> equipment_agent" where
  "new_equipment_agent uuids now = base_agent.extend (new_base_agent ''EA'' (utf8 [0xC124, 0xBE44, 0x20, 0xC5D0, 0xC774, 0xC804, 0xD2B8]) uuids now)
     (equipment_agent.fields [] [] [] [] [] [])"

section \<open>Sense\<close>

text \<open>The running figures of one station: health score, greatest anomaly, its sensor.\<close>

record station_scan =
  ek_health :: real
  ek_max_anomaly :: real
  ek_worst :: string

definition ea_sense_sensor ::
  "string \<Rightarrow> string \<Rightarrow> string \<times> pyval \<Rightarrow> (station_scan \<times> equipment_obs) \<times> equipment_agent wired
   \<Rightarrow> ((station_scan \<times> equipment_obs) \<times> equipment_agent wired) result" where
  "ea_sense_sensor sid stype sensor acc = (case sensor of (sname, sinfo_v) \<Rightarrow> case acc of ((k, obs), s) \<Rightarrow>
     bindR (as_dict sinfo_v) (\<lambda>sinfo.
     bindR (num_at sinfo ''value'' 0) (\<lambda>val.
     bindR (num_at sinfo ''ma'' val) (\<lambda>ma.
     bindR (num_at sinfo ''slope'' 0) (\<lambda>slope.
     bindR (num_at sinfo ''std'' 0) (\<lambda>std_dev.
       let key = sid @ ''.'' @ sname;
           hist = trim_history TREND_HISTORY_MAXLEN key val (ea_trend_history (fst s));
           raw_an = compute_raw_anomaly val ma std_dev (series_get key hist);
           anomaly = scale_anomaly_for_type stype sname raw_an;
           s1 = with_agent (\<lambda>a. a\<lparr> ea_trend_history := hist,
                  ea_anomaly_scores := AList.update key anomaly (ea_anomaly_scores a) \<rparr>) s;
           k1 = (if anomaly > ek_max_anomaly k then k\<lparr> ek_max_anomaly := anomaly, ek_worst := sname \<rparr> else k);
           (k2, obs1) = (if anomaly > ANOMALY_ALARM_THRESHOLD
              then (k1\<lparr>ek_health := ek_health k1 - anomaly * HEALTH_PENALTY_PER_ANOMALY\<rparr>,
                    obs\<lparr>eo_alarms := eo_alarms obs @ [\<lparr> lm_station = sid, lm_sensor = sname, lm_value = val,
                      lm_anomaly = py_round 2 anomaly, lm_trend = (if slope > 0 then (utf8 [0xC0C1, 0xC2B9]) else (utf8 [0xD558, 0xAC15])) \<rparr>]\<rparr>)
              else (k1, obs));
           obs2 = (if \<bar>slope\<bar> > SLOPE_ALERT_THRESHOLD
              then obs1\<lparr>eo_trend_alerts := eo_trend_alerts obs1 @ [\<lparr> ta_station = sid, ta_sensor = sname,
                      ta_slope = py_round 4 slope, ta_direction = (if slope > 0 then (utf8 [0xC545, 0xD654]) else (utf8 [0xAC1C, 0xC120])) \<rparr>]\<rparr>
              else obs1)
       in Inr ((k2, obs2), s1)))))))"

definition station_type_of :: "dict \<Rightarrow> string result" where
  "station_type_of d = (case py_or (dget_none d ''type'') (PStr ''PRESS'') of
      PStr t \<Rightarrow> Inr (py_upper (py_strip t))
    | _ \<Rightarrow> Inl AttributeError)"

definition mtbf_seconds :: "dict \<Rightarrow> real option result" where
  "mtbf_seconds d = (case dget d ''mtbf'' of
      None \<Rightarrow> Inr None
    | Some PNone \<Rightarrow> Inr None
    | Some v \<Rightarrow> except_type_value (bindR (py_float v) (\<lambda>x. Inr (Some x))) None)"

definition ea_sense_station ::
  "string \<times> pyval \<Rightarrow> equipment_obs \<times> equipment_agent wired \<Rightarrow> (equipment_obs \<times> equipment_agent wired) result" where
  "ea_sense_station st os = (case st of (sid, sdata_v) \<Rightarrow> case os of (obs, s) \<Rightarrow>
     bindR (as_dict sdata_v) (\<lambda>sdata.
     bindR (dict_at sdata ''sensors'') (\<lambda>sensors.
     bindR (station_type_of sdata) (\<lambda>stype.
     bindR (foldR (ea_sense_sensor sid stype) sensors
             ((\<lparr> ek_health = 100, ek_max_anomaly = 0, ek_worst = '''' \<rparr>, obs), s)) (\<lambda>((k, obs1), s1).
     bindR (num_at sdata ''tool_life_pct'' 100) (\<lambda>tool_life.
       let prof = profile_for_station_type stype;
           obs2 = (if tool_life < TOOL_WARN_PCT
             then obs1\<lparr>eo_tool_warnings := eo_tool_warnings obs1 @ [\<lparr> tw_station = sid, tw_life_pct = tool_life,
                    tw_region = dget_or sdata ''tool_region'' (PStr ''''),
                    tw_urgency = (if tool_life < TOOL_URGENT_PCT then (utf8 [0xAE34, 0xAE09]) else (utf8 [0xC8FC, 0xC758])) \<rparr>]\<rparr>
             else obs1);
           health = (if tool_life < TOOL_WARN_PCT
             then ek_health k - (TOOL_WARN_PCT - tool_life) * HEALTH_PENALTY_PER_TOOL_PCT else ek_health k)
       in bindR (mtbf_seconds sdata) (\<lambda>mtbf.
            let rul = estimate_rul_hours sid health mtbf stype;
                score = py_round 1 (max 0 health);
                worst = (if ek_worst k \<noteq> [] then ek_worst k else ''-'');
                h = \<lparr> eh_score = score, eh_state = dget_or sdata ''state'' (PStr ''''),
                      eh_oee = dget_or sdata ''oee'' (PDict []), eh_rul_hours = py_round 1 rul,
                      eh_tool_life_pct = tool_life, eh_station_type = stype,
                      eh_model_id = pp_model_id prof, eh_model_name = pp_name_kr prof,
                      eh_max_anomaly = py_round 3 (ek_max_anomaly k), eh_worst_sensor = worst \<rparr>;
                view = [(''station_type'', PStr stype), (''model_id'', PStr (pp_model_id prof)),
                        (''model_name_kr'', PStr (pp_name_kr prof)), (''focus'', PStr (pp_focus prof)),
                        (''health_score'', PFloat score), (''rul_hours'', PFloat (py_round 1 rul)),
                        (''max_anomaly'', PFloat (py_round 3 (ek_max_anomaly k))), (''worst_sensor'', PStr worst)]
            in Inr (obs2\<lparr>eo_station_health := AList.update sid h (eo_station_health obs2)\<rparr>,
                    with_agent (\<lambda>a. a\<lparr> ea_rul_estimates := AList.update sid rul (ea_rul_estimates a),
                                       ea_by_station := dset sid (PDict view) (ea_by_station a) \<rparr>) s1))))))))"

definition kpi_context :: "dict \<Rightarrow> pyval option result" where
  "kpi_context snap = (case dget_none snap ''manufacturing_context'' of
      PDict mc \<Rightarrow> bindR (as_dict (py_or (dget_none mc ''kpi_slices'') (PDict [])))
                   (\<lambda>k. Inr (Some (py_or (dget_none k ''by_station'') (PDict []))))
    | _ \<Rightarrow> Inr None)"

definition empty_equipment_obs :: equipment_obs where
  "empty_equipment_obs = \<lparr> eo_station_health = [], eo_alarms = [], eo_tool_warnings = [], eo_trend_alerts = [],
     eo_kpi_by_station_ctx = None, eo_business_events_tail = PList [] \<rparr>"

definition ea_sense :: "dict \<Rightarrow> equipment_agent wired \<Rightarrow> (equipment_obs \<times> equipment_agent wired) result" where
  "ea_sense snap s =
     bindR (dict_at snap ''stations'') (\<lambda>stations.
     bindR (foldR ea_sense_station stations
             (empty_equipment_obs, with_agent (\<lambda>a. a\<lparr>ea_by_station := []\<rparr>) s)) (\<lambda>(obs, s1).
     bindR (kpi_context snap) (\<lambda>ctx.
       Inr (obs\<lparr> eo_kpi_by_station_ctx := ctx,
                 eo_business_events_tail := py_or (dget_none snap ''business_events'') (PList []) \<rparr>, s1))))"

section \<open>Reason\<close>

definition ea_reason_alarm ::
  "equipment_alarm \<Rightarrow> equipment_decision \<times> equipment_agent wired \<Rightarrow> equipment_decision \<times> equipment_agent wired" where
  "ea_reason_alarm al ds = (case ds of (d, s) \<Rightarrow>
     (let sid = lm_station al in
      if lm_anomaly al > ANOMALY_CRITICAL_THRESHOLD then
        (d\<lparr> ed_maintenance := ed_maintenance d @ [\<lparr> mx_station = sid, mx_action = (utf8 [0xBE44, 0xC0C1, 0xC815, 0xBE44]),
              mx_reason = lm_sensor al @ (utf8 [0x20, 0xC774, 0xC0C1, 0x20, 0xAC10, 0xC9C0, 0x20, 0x28, 0x73, 0x63, 0x6F, 0x72, 0x65, 0x3A, 0x20]) @ repr_float (lm_anomaly al) @ '')'' \<rparr>],
            ed_speed := ed_speed d @ [\<lparr> sx_station = sid, sx_target_pct = SPEED_CRITICAL_PCT \<rparr>],
            ed_priority := ''CRITICAL'',
            ed_alerts := ed_alerts d @ [\<lparr> al_target = ''PA'', al_severity = ''CRITICAL'',
              al_message = sid @ (utf8 [0x20, 0xBE44, 0xC0C1, 0x3A, 0x20]) @ lm_sensor al @ (utf8 [0x20, 0xC774, 0xC0C1, 0x28]) @ fmt_fixed 2 (lm_value al) @ '')'' \<rparr>] \<rparr>,
         log_reasoning ((utf8 [0x5B, 0xBE44, 0xC0C1, 0x5D, 0x20]) @ sid @ '' '' @ lm_sensor al @ (utf8 [0x20, 0xC774, 0xC0C1, 0xD0D0, 0xC9C0, 0x20, 0xC810, 0xC218, 0x20]) @ repr_float (lm_anomaly al)) s)
      else if lm_anomaly al > ANOMALY_ALARM_THRESHOLD then
        (d\<lparr> ed_speed := ed_speed d @ [\<lparr> sx_station = sid, sx_target_pct = SPEED_WARNING_PCT \<rparr>],
            ed_priority := (if ed_priority d \<noteq> ''CRITICAL'' then ''HIGH'' else ed_priority d) \<rparr>,
         log_reasoning ((utf8 [0x5B, 0xACBD, 0xACE0, 0x5D, 0x20]) @ sid @ '' '' @ lm_sensor al @ (utf8 [0x20, 0xC8FC, 0xC758, 0x20, 0xD544, 0xC694])) s)
      else (d, s)))"

definition ea_reason_tool ::
  "tool_warning \<Rightarrow> equipment_decision \<times> equipment_agent wired \<Rightarrow> equipment_decision \<times> equipment_agent wired" where
  "ea_reason_tool tw ds = (case ds of (d, s) \<Rightarrow>
     (if tw_urgency tw = (utf8 [0xAE34, 0xAE09]) then
        (d\<lparr> ed_maintenance := ed_maintenance d @ [\<lparr> mx_station = tw_station tw, mx_action = (utf8 [0xACF5, 0xAD6C, 0xAD50, 0xCCB4]),
              mx_reason = (utf8 [0xC794, 0xC5EC, 0xC218, 0xBA85, 0x20]) @ fmt_fixed 0 (tw_life_pct tw) @ ''% ('' @ py_str (tw_region tw) @ '')'' \<rparr>],
            ed_alerts := ed_alerts d @ [\<lparr> al_target = ''PA'', al_severity = ''HIGH'',
              al_message = tw_station tw @ (utf8 [0x20, 0xACF5, 0xAD6C, 0xAD50, 0xCCB4, 0x20, 0xD544, 0xC694, 0x20, 0x28, 0xC794, 0xC5EC, 0x20]) @ fmt_fixed 0 (tw_life_pct tw) @ ''%)'' \<rparr>] \<rparr>,
         log_reasoning ((utf8 [0x5B, 0xACF5, 0xAD6C, 0x5D, 0x20]) @ tw_station tw @ (utf8 [0x20, 0xAD50, 0xCCB4, 0x20, 0xD544, 0xC694, 0x20, 0x2014, 0x20, 0xAE09, 0xACA9, 0xB9C8, 0xBAA8, 0x20, 0xAD6C, 0xAC04])) s)
      else (d, s)))"

definition ea_reason_health ::
  "string \<times> station_health \<Rightarrow> equipment_decision \<times> equipment_agent wired \<Rightarrow> equipment_decision \<times> equipment_agent wired" where
  "ea_reason_health h ds = (case ds of (d, s) \<Rightarrow>
     (if eh_rul_hours (snd h) < RUL_LOW_HOURS then
        (d\<lparr>ed_priority := (if ed_priority d = ''LOW'' then ''MEDIUM'' else ed_priority d)\<rparr>,
         log_reasoning ((utf8 [0x52, 0x55, 0x4C, 0x20, 0xACBD, 0xACE0, 0x3A, 0x20, 0xC608, 0xC0C1, 0x20, 0xC794, 0xC5EC, 0xC218, 0xBA85, 0x20]) @ fmt_fixed 1 (eh_rul_hours (snd h)) @ ''h'') s)
      else (d, s)))"

text \<open>The assessment before the final test: what the three loops collect.\<close>

definition ea_assess ::
  "equipment_obs \<Rightarrow> equipment_agent wired \<Rightarrow> equipment_decision \<times> equipment_agent wired" where
  "ea_assess obs s =
     fold ea_reason_health (eo_station_health obs)
       (fold ea_reason_tool (eo_tool_warnings obs)
         (fold ea_reason_alarm (eo_alarms obs)
           (\<lparr> ed_maintenance = [], ed_speed = [], ed_alerts = [], ed_priority = ''LOW'' \<rparr>, s)))"

definition ea_reason ::
  "equipment_obs \<Rightarrow> equipment_agent wired \<Rightarrow> (equipment_decision option \<times> equipment_agent wired) result" where
  "ea_reason obs s =
     (let (d, s1) = ea_assess obs s
      in if ed_maintenance d = [] \<and> ed_alerts d = []
         then Inr (None, log_reasoning (utf8 [0xC804, 0x20, 0xACF5, 0xC815, 0x20, 0xC815, 0xC0C1, 0x20, 0xAC00, 0xB3D9, 0x20, 0xC911]) s1)
         else Inr (Some d, s1))"

section \<open>Act and bid\<close>

definition maintenance_dict :: "maintenance_action \<Rightarrow> dict" where
  "maintenance_dict m = [(''station'', PStr (mx_station m)), (''action'', PStr (mx_action m)), (''reason'', PStr (mx_reason m))]"

definition equipment_decision_dict :: "equipment_decision \<Rightarrow> dict" where
  "equipment_decision_dict d =
     [(''type'', PStr ''equipment_assessment''),
      (''maintenance_actions'', PList (map (\<lambda>m. PDict (maintenance_dict m)) (ed_maintenance d))),
      (''speed_adjustments'', PList (map (\<lambda>x. PDict [(''station'', PStr (sx_station x)),
         (''target_pct'', PInt (sx_target_pct x))]) (ed_speed d))),
      (''alerts_to_send'', PList (map (\<lambda>al. PDict (alert_dict al)) (ed_alerts d))), (''priority'', PStr (ed_priority d))]"

definition rul_dict :: "equipment_agent \<Rightarrow> dict" where
  "rul_dict a = map (\<lambda>(sid, r). (sid, PFloat r)) (ea_rul_estimates a)"

definition ea_alert_body :: "equipment_agent \<Rightarrow> alert \<Rightarrow> dict" where
  "ea_alert_body a al =
     [(''source'', PStr (ag_id a)), (''severity'', PStr (al_severity al)), (''summary'', PStr (al_message al)),
      (''rul_estimates'', PDict (rul_dict a))]"

definition ea_act ::
  "(broker \<Rightarrow> broker) \<Rightarrow> equipment_decision option \<Rightarrow> equipment_agent wired \<Rightarrow> (string list \<times> equipment_agent wired) result" where
  "ea_act interf dec s = (case dec of
      None \<Rightarrow> Inr ([], s)
    | Some d \<Rightarrow> Inr
        (map (\<lambda>al. (utf8 [0xACBD, 0xBCF4, 0x20, 0xC804, 0xC1A1, 0x3A, 0x20]) @ al_message al) (ed_alerts d)
           @ map (\<lambda>m. (utf8 [0xC815, 0xBE44, 0xC694, 0xCCAD, 0x3A, 0x20]) @ mx_station m @ (utf8 [0x20, 0x2014, 0x20]) @ mx_action m) (ed_maintenance d),
         with_agent (\<lambda>a. a\<lparr>ea_maintenance_queue := ed_maintenance d\<rparr>)
           (send_alerts interf (ea_alert_body (fst s)) (ed_alerts d) s)))"

text \<open>\<open>min(items, key=value)\<close>: the first entry of least value.\<close>

fun min_entry :: "string \<times> real \<Rightarrow> (string \<times> real) list \<Rightarrow> string \<times> real" where
  "min_entry b [] = b"
| "min_entry b (x # xs) = min_entry (if snd x < snd b then x else b) xs"

definition worst_rul :: "equipment_agent \<Rightarrow> real" where
  "worst_rul a = (case ea_rul_estimates a of [] \<Rightarrow> 999 | x # xs \<Rightarrow> snd (min_entry x xs))"

definition ea_handle_cfp :: "equipment_agent \<Rightarrow> dict" where
  "ea_handle_cfp a =
     (let wr = worst_rul a;
          cost_est = max 0 (min 1 (1 - min wr 120 / 120));
          viol = (if wr < RUL_LOW_HOURS then 1 else if wr < RUL_CNP_HOURS then 1 / 2 else 0)
      in merge_into_proposal
         [(''agent'', PStr (ag_id a)), (''proposal'', PStr (utf8 [0xC124, 0xBE44, 0x20, 0xAD00, 0xC810, 0x20, 0xB300, 0xC751])),
          (''speed_recommendation'', PInt (if wr < RUL_CNP_HOURS then SPEED_WARNING_PCT else 100)),
          (''maintenance_needed'', PList (map (\<lambda>m. PDict (maintenance_dict m)) (ea_maintenance_queue a))),
          (''health_summary'', PDict (map (\<lambda>(sid, r). (sid, PFloat (py_round 1 r))) (ea_rul_estimates a))),
          (''scores'', PDict [(''quality'', PFloat (7 / 10)), (''delivery'', PFloat (6 / 10)),
             (''cost'', PFloat (5 / 10)), (''safety'', PFloat (9 / 10))]),
          (''proposal_metrics'', PDict [(''cost_estimate'', PFloat (py_round 4 cost_est)),
             (''constraint_violation_total'', PFloat viol),
             (''rul_worst_hours'', PFloat (py_round 2 wr)),
             (''expected_effect'', PFloat (py_round 4 (1 - cost_est))),
             (''quality_risk'', PFloat (35 / 100)), (''delivery_impact'', PFloat (1 / 10)),
             (''material_impact'', PFloat (15 / 100)), (''confidence'', PFloat (75 / 100))])])"

definition ea_execute_accepted :: "dict \<Rightarrow> equipment_agent wired \<Rightarrow> equipment_agent wired result" where
  "ea_execute_accepted proposal s =
     bindR (as_list (dget_or proposal ''maintenance_needed'' (PList []))) (\<lambda>ms.
       foldR (\<lambda>m_v s. bindR (as_dict m_v) (\<lambda>m.
          bindR (item_at m ''station'') (\<lambda>st. bindR (item_at m ''action'') (\<lambda>ac.
            Inr (log_reasoning ((utf8 [0xC815, 0xBE44, 0x20, 0xC2E4, 0xD589, 0x3A, 0x20]) @ py_str st @ (utf8 [0x20, 0x2014, 0x20]) @ py_str ac) s))))) ms s)"

definition ea_status :: "equipment_agent wired \<Rightarrow> dict" where
  "ea_status s = (let a = fst s in
     dset ''sub_agent_views'' (PDict
        [(''EA-AD'', PDict [(''role_ko'', PStr (utf8 [0xC774, 0xC0C1, 0x20, 0xAC10, 0xC9C0])),
           (''max_anomaly_by_station'', PDict (concat (map (\<lambda>(sid, v). case v of
              PDict d \<Rightarrow> [(sid, (case dget_or d ''max_anomaly'' (PFloat 0) of PFloat x \<Rightarrow> PFloat (py_round 4 x) | w \<Rightarrow> w))]
            | _ \<Rightarrow> []) (ea_by_station a))))]),
         (''EA-RUL'', PDict [(''role_ko'', PStr (utf8 [0x52, 0x55, 0x4C, 0x20, 0xCD94, 0xC815])),
           (''rul_hours_by_station'', PDict (map (\<lambda>(k, v). (k, PFloat (py_round 2 v))) (ea_rul_estimates a)))])])
       (dset ''rul_estimates'' (PDict (rul_dict a))
         (dset ''pm_model_catalog'' (PList (map PDict model_catalog))
           (dset ''equipment_by_station'' (PDict (ea_by_station a))
             (base_agent_status equipment_decision_dict s)))))"

section \<open>The agent's contract\<close>

definition critical_alarm :: "equipment_alarm \<Rightarrow> bool" where
  "critical_alarm al \<longleftrightarrow> lm_anomaly al > ANOMALY_CRITICAL_THRESHOLD"

definition warning_alarm :: "equipment_alarm \<Rightarrow> bool" where
  "warning_alarm al \<longleftrightarrow> ANOMALY_ALARM_THRESHOLD < lm_anomaly al \<and> \<not> critical_alarm al"

definition urgent_tool :: "tool_warning \<Rightarrow> bool" where
  "urgent_tool tw \<longleftrightarrow> tw_urgency tw = (utf8 [0xAE34, 0xAE09])"

lemma ea_alarm_step:
  assumes "ea_reason_alarm al (d, s) = (d1, s1)"
  shows "quiet s s1"
    and "critical_alarm al \<Longrightarrow> \<exists>a m. ed_alerts d1 = ed_alerts d @ [a] \<and> al_target a = ''PA'' \<and> al_severity a = ''CRITICAL''
      \<and> ed_maintenance d1 = ed_maintenance d @ [m] \<and> ed_priority d1 = ''CRITICAL'' \<and> length (ed_speed d1) = Suc (length (ed_speed d))"
    and "warning_alarm al \<Longrightarrow> ed_alerts d1 = ed_alerts d \<and> ed_maintenance d1 = ed_maintenance d
      \<and> ed_priority d1 = (if ed_priority d \<noteq> ''CRITICAL'' then ''HIGH'' else ''CRITICAL'')
      \<and> ed_speed d1 = ed_speed d @ [\<lparr> sx_station = lm_station al, sx_target_pct = SPEED_WARNING_PCT \<rparr>]"
    and "\<not> critical_alarm al \<Longrightarrow> \<not> warning_alarm al \<Longrightarrow> d1 = d"
  using assms by (auto simp: ea_reason_alarm_def critical_alarm_def warning_alarm_def Let_def ea_thresholds split: if_split_asm)

lemma ea_tool_step:
  assumes "ea_reason_tool tw (d, s) = (d1, s1)"
  shows "quiet s s1" "ed_speed d1 = ed_speed d" "ed_priority d1 = ed_priority d"
    and "urgent_tool tw \<Longrightarrow> \<exists>a m. ed_alerts d1 = ed_alerts d @ [a] \<and> al_target a = ''PA'' \<and> al_severity a = ''HIGH''
      \<and> ed_maintenance d1 = ed_maintenance d @ [m]"
    and "\<not> urgent_tool tw \<Longrightarrow> d1 = d"
  using assms by (auto simp: ea_reason_tool_def urgent_tool_def split: if_split_asm)

lemma ea_health_step:
  assumes "ea_reason_health h (d, s) = (d1, s1)"
  shows "quiet s s1" "ed_alerts d1 = ed_alerts d" "ed_maintenance d1 = ed_maintenance d" "ed_speed d1 = ed_speed d"
    "ed_priority d1 = (if ed_priority d = ''LOW'' \<and> eh_rul_hours (snd h) < RUL_LOW_HOURS then ''MEDIUM'' else ed_priority d)"
  using assms by (auto simp: ea_reason_health_def split: if_split_asm)

lemma ea_alarms_fold:
  "fold ea_reason_alarm als (d, s) = (d', s') \<Longrightarrow>
     quiet s s' \<and> length (ed_alerts d') = length (ed_alerts d) + length (filter critical_alarm als)
     \<and> length (ed_maintenance d') = length (ed_maintenance d) + length (filter critical_alarm als)
     \<and> (\<forall>a\<in>set (ed_alerts d'). a \<in> set (ed_alerts d) \<or> al_target a = ''PA'')
     \<and> length (ed_speed d') = length (ed_speed d) + length (filter (\<lambda>x. critical_alarm x \<or> warning_alarm x) als)
     \<and> ed_priority d' = (if filter critical_alarm als \<noteq> [] \<or> ed_priority d = ''CRITICAL'' then ''CRITICAL''
          else if filter warning_alarm als \<noteq> [] then ''HIGH'' else ed_priority d)"
proof (induction als arbitrary: d s)
  case Nil
  then show ?case by simp
next
  case (Cons al als)
  obtain d1 s1 where 1: "ea_reason_alarm al (d, s) = (d1, s1)" by (rule prod.exhaust)
  have "fold ea_reason_alarm als (d1, s1) = (d', s')" using Cons.prems 1 by simp
  note ih = Cons.IH [OF this] and step = ea_alarm_step [OF 1]
  note q = quiet_trans [OF step(1), of s']
  have excl: "warning_alarm al \<Longrightarrow> \<not> critical_alarm al" by (simp add: warning_alarm_def)
  consider (c) "critical_alarm al" | (w) "warning_alarm al" | (n) "\<not> critical_alarm al" "\<not> warning_alarm al" by blast
  then show ?case
  proof cases
    case c
    obtain a m where "ed_alerts d1 = ed_alerts d @ [a]" "al_target a = ''PA''"
      "ed_maintenance d1 = ed_maintenance d @ [m]" "ed_priority d1 = ''CRITICAL''" "length (ed_speed d1) = Suc (length (ed_speed d))"
      using step(2) [OF c] by blast
    then show ?thesis using ih q c by auto
  next
    case w
    then show ?thesis using ih q step(3) [OF w] excl by auto
  next
    case n
    then show ?thesis using ih q step(4) [OF n] by auto
  qed
qed

lemma ea_tools_fold:
  "fold ea_reason_tool tws (d, s) = (d', s') \<Longrightarrow>
     quiet s s' \<and> length (ed_alerts d') = length (ed_alerts d) + length (filter urgent_tool tws)
     \<and> length (ed_maintenance d') = length (ed_maintenance d) + length (filter urgent_tool tws)
     \<and> (\<forall>a\<in>set (ed_alerts d'). a \<in> set (ed_alerts d) \<or> al_target a = ''PA'')
     \<and> ed_speed d' = ed_speed d \<and> ed_priority d' = ed_priority d"
proof (induction tws arbitrary: d s)
  case Nil
  then show ?case by simp
next
  case (Cons tw tws)
  obtain d1 s1 where 1: "ea_reason_tool tw (d, s) = (d1, s1)" by (rule prod.exhaust)
  have "fold ea_reason_tool tws (d1, s1) = (d', s')" using Cons.prems 1 by simp
  note ih = Cons.IH [OF this] and step = ea_tool_step [OF 1]
  note q = quiet_trans [OF step(1), of s']
  show ?case
  proof (cases "urgent_tool tw")
    case True
    obtain a m where "ed_alerts d1 = ed_alerts d @ [a]" "al_target a = ''PA''" "ed_maintenance d1 = ed_maintenance d @ [m]"
      using step(4) [OF True] by blast
    then show ?thesis using ih q True step(2,3) by auto
  next
    case False
    then show ?thesis using ih q step(5) [OF False] by auto
  qed
qed

lemma ea_health_fold:
  "fold ea_reason_health hs (d, s) = (d', s') \<Longrightarrow>
     quiet s s' \<and> ed_alerts d' = ed_alerts d \<and> ed_maintenance d' = ed_maintenance d \<and> ed_speed d' = ed_speed d
     \<and> ed_priority d' = (if ed_priority d = ''LOW'' \<and> (\<exists>h\<in>set hs. eh_rul_hours (snd h) < RUL_LOW_HOURS)
          then ''MEDIUM'' else ed_priority d)"
proof (induction hs arbitrary: d s)
  case Nil
  then show ?case by simp
next
  case (Cons h hs)
  obtain d1 s1 where 1: "ea_reason_health h (d, s) = (d1, s1)" by (rule prod.exhaust)
  have "fold ea_reason_health hs (d1, s1) = (d', s')" using Cons.prems 1 by simp
  note ih = Cons.IH [OF this] and step = ea_health_step [OF 1]
  have q: "quiet s s'" using ih quiet_trans [OF step(1), of s'] by simp
  show ?case
  proof (cases "eh_rul_hours (snd h) < RUL_LOW_HOURS")
    case True
    then show ?thesis using ih q step(2-5) by (cases "ed_priority d = ''LOW''") simp_all
  next
    case False
    then show ?thesis using ih q step(2-5) by simp
  qed
qed

text \<open>What the assessment collects, in terms of the observation.\<close>

lemma ea_assess_result:
  assumes "ea_assess obs s = (d, s')"
  defines "crit \<equiv> filter critical_alarm (eo_alarms obs)" and "urgent \<equiv> filter urgent_tool (eo_tool_warnings obs)"
    and "warn \<equiv> filter warning_alarm (eo_alarms obs)"
  shows "quiet s s'"
    "length (ed_alerts d) = length crit + length urgent" "length (ed_maintenance d) = length crit + length urgent"
    "\<forall>a\<in>set (ed_alerts d). al_target a = ''PA''"
    "length (ed_speed d) = length (filter (\<lambda>x. critical_alarm x \<or> warning_alarm x) (eo_alarms obs))"
    "crit \<noteq> [] \<Longrightarrow> ed_priority d = ''CRITICAL''"
    "crit = [] \<Longrightarrow> warn \<noteq> [] \<Longrightarrow> ed_priority d = ''HIGH''"
    "crit = [] \<Longrightarrow> warn = [] \<Longrightarrow> ed_priority d
       = (if \<exists>h\<in>set (eo_station_health obs). eh_rul_hours (snd h) < RUL_LOW_HOURS then ''MEDIUM'' else ''LOW'')"
proof -
  let ?d0 = "\<lparr> ed_maintenance = [], ed_speed = [], ed_alerts = [], ed_priority = ''LOW'' \<rparr>"
  obtain d1 s1 where 1: "fold ea_reason_alarm (eo_alarms obs) (?d0, s) = (d1, s1)" by (rule prod.exhaust)
  obtain d2 s2 where 2: "fold ea_reason_tool (eo_tool_warnings obs) (d1, s1) = (d2, s2)" by (rule prod.exhaust)
  have 3: "fold ea_reason_health (eo_station_health obs) (d2, s2) = (d, s')"
    using assms(1) by (simp add: ea_assess_def 1 2)
  note r = ea_alarms_fold [OF 1] ea_tools_fold [OF 2] ea_health_fold [OF 3]
  show "quiet s s'" using quiet_trans [OF quiet_trans [of s s1 s2], of s'] r by blast
  show "length (ed_alerts d) = length crit + length urgent" "length (ed_maintenance d) = length crit + length urgent"
      "length (ed_speed d) = length (filter (\<lambda>x. critical_alarm x \<or> warning_alarm x) (eo_alarms obs))"
    using r by (simp_all add: crit_def urgent_def)
  show "\<forall>a\<in>set (ed_alerts d). al_target a = ''PA''" using r by fastforce
  show "crit \<noteq> [] \<Longrightarrow> ed_priority d = ''CRITICAL''" "crit = [] \<Longrightarrow> warn \<noteq> [] \<Longrightarrow> ed_priority d = ''HIGH''"
      "crit = [] \<Longrightarrow> warn = [] \<Longrightarrow> ed_priority d
       = (if \<exists>h\<in>set (eo_station_health obs). eh_rul_hours (snd h) < RUL_LOW_HOURS then ''MEDIUM'' else ''LOW'')"
    using r by (simp_all add: crit_def warn_def)
qed

lemma ea_reason_result:
  assumes "ea_reason obs s = Inr (dec, s')"
  shows "quiet s s'"
    and "dec = None \<longleftrightarrow> filter critical_alarm (eo_alarms obs) = [] \<and> filter urgent_tool (eo_tool_warnings obs) = []"
    and "dec = Some d \<Longrightarrow> d = fst (ea_assess obs s)"
proof -
  obtain d1 s1 where 1: "ea_assess obs s = (d1, s1)" by (rule prod.exhaust)
  note r = ea_assess_result [OF 1]
  have dec: "(if ed_maintenance d1 = [] \<and> ed_alerts d1 = [] then dec = None \<and> quiet s1 s' else dec = Some d1 \<and> s' = s1)"
    using assms by (auto simp: ea_reason_def 1 split: if_splits)
  then show "quiet s s'" using r(1) quiet_trans [OF r(1), of s'] by (auto split: if_splits)
  have "ed_maintenance d1 = [] \<and> ed_alerts d1 = []
      \<longleftrightarrow> filter critical_alarm (eo_alarms obs) = [] \<and> filter urgent_tool (eo_tool_warnings obs) = []"
    using r(2,3) by (metis add_is_0 length_0_conv)
  then show "dec = None \<longleftrightarrow> filter critical_alarm (eo_alarms obs) = [] \<and> filter urgent_tool (eo_tool_warnings obs) = []"
    using dec by (auto split: if_splits)
  show "d = fst (ea_assess obs s)" if "dec = Some d" using dec that 1 by (auto split: if_splits)
qed

lemma ea_sense_quiet: "ea_sense snap s = Inr (obs, s') \<Longrightarrow> quiet s s'"
proof -
  have sensors: "quiet t t'" if "foldR (ea_sense_sensor sid stype) xs (x, t) = Inr (x', t')" for sid stype xs x x' t t'
    by (rule foldR_quiet [OF that])
      (auto simp: ea_sense_sensor_def bindR_Inr_iff Let_def quiet_def same_base_def with_agent_def case_prod_unfold)
  have station: "quiet t t'" if st: "ea_sense_station y (x, t) = Inr (x', t')" for y x x' t t'
  proof -
    obtain sid stype xs k0 k1 t1 where f: "foldR (ea_sense_sensor sid stype) xs (k0, t) = Inr (k1, t1)"
        and t': "quiet t1 t'"
      using st by (cases y) (auto simp: ea_sense_station_def bindR_Inr_iff Let_def quiet_def same_base_def with_agent_def)
    show ?thesis using sensors [OF f] t' by (rule quiet_trans)
  qed
  assume "ea_sense snap s = Inr (obs, s')"
  then obtain stations o1 where
      f: "foldR ea_sense_station stations (empty_equipment_obs, with_agent (\<lambda>a. a\<lparr>ea_by_station := []\<rparr>) s) = Inr (o1, s')"
    by (auto simp: ea_sense_def bindR_Inr_iff)
  have "quiet (with_agent (\<lambda>a. a\<lparr>ea_by_station := []\<rparr>) s) s'"
    by (rule foldR_quiet [OF f]) (rule station)
  moreover have "quiet s (with_agent (\<lambda>a. a\<lparr>ea_by_station := []\<rparr>) s)"
    by (simp add: quiet_def same_base_def with_agent_def)
  ultimately show ?thesis using quiet_trans by blast
qed

interpretation equipment_loop: agent_loop ea_sense ea_reason "ea_act interf" "\<lambda>d. length (ed_alerts d)"
  for interf
proof
  show "quiet s s'" if "ea_sense snap s = Inr (obs, s')" for snap s obs s' by (rule ea_sense_quiet [OF that])
  show "quiet s s'" if "ea_reason obs s = Inr (r, s')" for obs s r s' by (rule ea_reason_result(1) [OF that])
  show "sends_alerts 0 s s'" if "ea_act interf None s = Inr (as, s')" for s as s'
    using that by (simp add: ea_act_def sends_alerts_def same_base_def)
  show "sends_alerts (length (ed_alerts d)) s s'"
    if "ea_reason obs t = Inr (Some d, t')" "ea_act interf (Some d) s = Inr (as, s')" for obs t d t' s as s'
  proof -
    have "\<forall>a\<in>set (ed_alerts d). al_target a = ''PA''"
      using ea_reason_result(3) [OF that(1) refl] ea_assess_result(4) [of obs t d "snd (ea_assess obs t)"] by simp
    then show ?thesis
      using that(2) send_alerts_sends [of "ed_alerts d" s interf "ea_alert_body (fst s)"]
      by (auto simp: ea_act_def sends_alerts_def same_base_def with_agent_def)
  qed
qed

end
