(* ===== verification/Quality_Agent.thy ===== *)
theory Quality_Agent
  imports Agent_Base Cnp
begin

text \<open>
  \<open>mas/agents/quality_agent.py\<close> with \<open>mas/agents/qa_sub/\<close>: statistical process control over
  the sensor histories. The figures of the stations are read as numbers.
\<close>

definition CPK_GOOD :: real where "CPK_GOOD = 133 / 100"
definition CPK_WARNING :: real where "CPK_WARNING = 1"
definition QUALITY_RATE_RISK :: real where "QUALITY_RATE_RISK = 90 / 100"
definition RISK_STATIONS_WARN :: nat where "RISK_STATIONS_WARN = 1"
definition RISK_STATIONS_BAD :: nat where "RISK_STATIONS_BAD = 3"
definition CPK_TREND_THRESHOLD :: real where "CPK_TREND_THRESHOLD = 1 / 10"
definition MEASUREMENT_HISTORY_LEN :: nat where "MEASUREMENT_HISTORY_LEN = 200"
definition CPK_HISTORY_LEN :: nat where "CPK_HISTORY_LEN = 50"

text \<open>The specification limits: lower and upper, by station and sensor name.\<close>

definition spec_limits :: "(string \<times> real \<times> real) list" where
  "spec_limits =
     [((utf8 [0x57, 0x43, 0x2D, 0x30, 0x31, 0x2E, 0xC9C4, 0xB3D9]), 0, 5), ((utf8 [0x57, 0x43, 0x2D, 0x30, 0x31, 0x2E, 0xAE08, 0xD615, 0xAC04, 0xADF9]), 8 / 100, 28 / 100), ((utf8 [0x57, 0x43, 0x2D, 0x30, 0x32, 0x2E, 0xC2A4, 0xD504, 0xB9C1, 0xBC31]), 0, 15 / 10),
      ((utf8 [0x57, 0x43, 0x2D, 0x30, 0x33, 0x2E, 0xB108, 0xAC9F, 0xC9C1, 0xACBD]), 45 / 10, 7), ((utf8 [0x57, 0x43, 0x2D, 0x30, 0x34, 0x2E, 0xACBD, 0xB3C4, 0x28, 0x48, 0x52, 0x43, 0x29]), 52, 64), ((utf8 [0x57, 0x43, 0x2D, 0x30, 0x35, 0x2E, 0xCE58, 0xC218, 0xD3B8, 0xCC28]), - 5 / 100, 5 / 100),
      ((utf8 [0x57, 0x43, 0x2D, 0x30, 0x35, 0x2E, 0xD45C, 0xBA74, 0xAC70, 0xCE60, 0xAE30]), 0, 32 / 10), ((utf8 [0x57, 0x43, 0x2D, 0x30, 0x36, 0x2E, 0xCCB4, 0xACB0, 0xD1A0, 0xD06C]), 20, 30), ((utf8 [0x57, 0x43, 0x2D, 0x30, 0x36, 0x2E, 0xBE44, 0xC804, 0xC810, 0xC218]), 85, 100)]"

record cpk_info =
  ci_cpk :: real
  ci_trend :: string
  ci_status :: string

record spc_violation =
  sv_station :: string
  sv_sensor :: string
  sv_rule :: string
  sv_key :: string

record quality_risk =
  qr_station :: string
  qr_quality_rate :: real
  qr_name :: pyval

record quality_obs =
  qo_cpk_status :: "(string \<times> cpk_info) list"
  qo_spc_violations :: "spc_violation list"
  qo_defect_trend :: string
  qo_yield_by_station :: "(string \<times> real) list"
  qo_risk_stations :: "quality_risk list"
  qo_events :: pyval
  qo_sub_spc :: dict
  qo_sub_vision :: dict

record quality_action =
  qx_station :: string
  qx_reason :: string

record quality_decision =
  qd_inspection_mode :: string
  qd_alerts :: "alert list"
  qd_actions :: "quality_action list"
  qd_priority :: string

record quality_agent = "quality_decision base_agent" +
  qa_measurements :: "real series"
  qa_cpk_history :: "real series"
  qa_inspection_mode :: string
  qa_sub_views :: dict

definition new_quality_agent :: "(nat \<Rightarrow> string) \<Rightarrow> (nat \<Rightarrow> string) \<Rightarrow> quality_agent" where
  "new_quality_agent uuids now = base_agent.extend (new_base_agent ''QA'' (utf8 [0xD488, 0xC9C8, 0x20, 0xC5D0, 0xC774, 0xC804, 0xD2B8]) uuids now)
     (quality_agent.fields [] [] (utf8 [0xD45C, 0xC900]) [])"

section \<open>Statistics\<close>

definition list_std :: "real list \<Rightarrow> real" where
  "list_std xs = sqrt (list_avg (map (\<lambda>x. (x - list_avg xs) ^ 2) xs))"

definition calc_cpk :: "string \<Rightarrow> quality_agent \<Rightarrow> real" where
  "calc_cpk key a =
     (let data = series_get key (qa_measurements a) in
      if length data < 10 then 2
      else (let recent = last_n 30 data; mean = list_avg recent; std = list_std recent
            in if std < 1 / 10000 then 2
               else (case map_of spec_limits key of
                   Some (lsl, usl) \<Rightarrow> min ((usl - mean) / (3 * std)) ((mean - lsl) / (3 * std))
                 | None \<Rightarrow> min 2 ((mean - 0) / (3 * std)))))"

definition cpk_trend :: "string \<Rightarrow> quality_agent \<Rightarrow> string" where
  "cpk_trend key a =
     (let history = series_get key (qa_cpk_history a) in
      if length history < 5 then (utf8 [0xC548, 0xC815])
      else (let recent = last_n 10 history; h = length recent div 2;
                first_half = sum_list (take h recent) / of_nat h;
                second_half = sum_list (drop h recent) / of_nat (length recent - h);
                diff = second_half - first_half
            in if diff < - CPK_TREND_THRESHOLD then (utf8 [0xD558, 0xAC15])
               else if diff > CPK_TREND_THRESHOLD then (utf8 [0xC0C1, 0xC2B9]) else (utf8 [0xC548, 0xC815])))"

definition check_run_rules :: "string \<Rightarrow> quality_agent \<Rightarrow> string list" where
  "check_run_rules key a =
     (let data = series_get key (qa_measurements a) in
      if length data < 9 then []
      else (let recent = last_n 9 data; window = last_n 30 data;
                mean = list_avg window; std = list_std window;
                diffs = map (\<lambda>(x, y). y - x) (zip recent (tl recent))
            in if std < 1 / 10000 then []
               else (if list_all (\<lambda>x. x - mean > 0) (last_n 7 recent) \<or> list_all (\<lambda>x. x - mean < 0) (last_n 7 recent)
                     then [(utf8 [0xADDC, 0xCE59, 0x32, 0x3A, 0x20, 0xC5F0, 0xC18D, 0x20, 0x37, 0xC810, 0x20, 0xD55C, 0xCABD])] else [])
                  @ (if list_all (\<lambda>d. d > 0) (last_n 6 diffs) \<or> list_all (\<lambda>d. d < 0) (last_n 6 diffs)
                     then [(utf8 [0xADDC, 0xCE59, 0x33, 0x3A, 0x20, 0xC5F0, 0xC18D, 0x20, 0x36, 0xC810, 0x20, 0xC99D, 0xAC00, 0x2F, 0xAC10, 0xC18C])] else [])
                  @ (if length (filter (\<lambda>x. \<bar>x - mean\<bar> > 2 * std) recent) \<ge> 2
                     then [(utf8 [0xADDC, 0xCE59, 0x34, 0x3A, 0x20, 0x33, 0xC810, 0x20, 0xC911, 0x20, 0x32, 0xC810, 0x20, 0x32, 0x3C3, 0x20, 0xBC16])] else [])))"

section \<open>Sub-modules\<close>

text \<open>
  \<open>summarize_spc\<close> takes the minimum of the status dictionaries themselves: of one it is
  that dictionary, of two or more it compares dictionaries, which raises.
\<close>

definition cpk_info_dict :: "cpk_info \<Rightarrow> dict" where
  "cpk_info_dict c = [(''cpk'', PFloat (ci_cpk c)), (''trend'', PStr (ci_trend c)), (''status'', PStr (ci_status c))]"

definition min_of_dicts :: "dict list \<Rightarrow> pyval result" where
  "min_of_dicts ds = (case ds of [] \<Rightarrow> Inr PNone | [d] \<Rightarrow> Inr (PDict d) | _ \<Rightarrow> Inl TypeError)"

definition summarize_spc :: "(string \<times> cpk_info) list \<Rightarrow> dict result" where
  "summarize_spc cpk =
     bindR (min_of_dicts (map (\<lambda>(_, c). cpk_info_dict c) cpk)) (\<lambda>worst.
       Inr [(''role'', PStr ''QA-SPC''), (''tracked_keys_n'', PInt (int (length cpk))),
            (''sample_keys'', PList (map (\<lambda>(k, _). PStr k) (take 12 cpk))), (''worst_cpk'', worst)])"

definition vision_channel_stub :: "dict \<Rightarrow> dict" where
  "vision_channel_stub stations =
     [(''role'', PStr ''QA-VISION''),
      (''stations_with_vision_hint'', PList (map (\<lambda>(sid, _). PStr sid)
         (filter (\<lambda>(_, d). case d of PDict d \<Rightarrow> py_truthy (dget_none d ''sensors'') | _ \<Rightarrow> False) stations)))]"

section \<open>Sense\<close>

definition cpk_status_text :: "real \<Rightarrow> string" where
  "cpk_status_text cpk = (if cpk \<ge> CPK_GOOD then (utf8 [0xC591, 0xD638]) else if cpk \<ge> CPK_WARNING then (utf8 [0xC8FC, 0xC758]) else (utf8 [0xC704, 0xD5D8]))"

definition qa_sense_sensor ::
  "string \<Rightarrow> string \<times> pyval \<Rightarrow> quality_obs \<times> quality_agent wired \<Rightarrow> (quality_obs \<times> quality_agent wired) result" where
  "qa_sense_sensor sid sensor os = (case sensor of (sname, sinfo_v) \<Rightarrow> case os of (obs, s) \<Rightarrow>
     bindR (as_dict sinfo_v) (\<lambda>sinfo.
     bindR (num_at sinfo ''value'' 0) (\<lambda>val.
       let key = sid @ ''.'' @ sname;
           s1 = with_agent (\<lambda>a. a\<lparr>qa_measurements := series_push MEASUREMENT_HISTORY_LEN key val (qa_measurements a)\<rparr>) s;
           (obs1, s2) = (if map_of spec_limits key \<noteq> None then
              (let cpk = calc_cpk key (fst s1);
                   s2 = with_agent (\<lambda>a. a\<lparr>qa_cpk_history := series_push CPK_HISTORY_LEN key cpk (qa_cpk_history a)\<rparr>) s1
               in (obs\<lparr>qo_cpk_status := AList.update key \<lparr> ci_cpk = py_round 3 cpk, ci_trend = cpk_trend key (fst s2),
                         ci_status = cpk_status_text cpk \<rparr> (qo_cpk_status obs)\<rparr>, s2))
              else (obs, s1));
           violations = map (\<lambda>v. \<lparr> sv_station = sid, sv_sensor = sname, sv_rule = v, sv_key = key \<rparr>)
                          (check_run_rules key (fst s2))
       in Inr (obs1\<lparr>qo_spc_violations := qo_spc_violations obs1 @ violations\<rparr>, s2))))"

definition qa_sense_station ::
  "string \<times> pyval \<Rightarrow> quality_obs \<times> quality_agent wired \<Rightarrow> (quality_obs \<times> quality_agent wired) result" where
  "qa_sense_station st os = (case st of (sid, sdata_v) \<Rightarrow> case os of (obs, s) \<Rightarrow>
     bindR (as_dict sdata_v) (\<lambda>sdata.
     bindR (dict_at sdata ''sensors'') (\<lambda>sensors.
     bindR (dict_at sdata ''oee'') (\<lambda>oee.
     bindR (num_at oee ''quality'' 1) (\<lambda>quality_rate.
     bindR (foldR (qa_sense_sensor sid) sensors
             (obs\<lparr>qo_yield_by_station := AList.update sid (py_round 1 (quality_rate * 100)) (qo_yield_by_station obs)\<rparr>, s))
       (\<lambda>(obs1, s1).
         Inr (if quality_rate < QUALITY_RATE_RISK
              then obs1\<lparr>qo_risk_stations := qo_risk_stations obs1 @ [\<lparr> qr_station = sid,
                     qr_quality_rate = py_round 3 quality_rate, qr_name = dget_or sdata ''name'' (PStr sid) \<rparr>]\<rparr>
              else obs1, s1)))))))"

definition min_list_or :: "real \<Rightarrow> real list \<Rightarrow> real" where
  "min_list_or dflt xs = (case xs of [] \<Rightarrow> dflt | x # ys \<Rightarrow> fold min ys x)"

definition qa_views :: "quality_obs \<Rightarrow> quality_agent \<Rightarrow> dict" where
  "qa_views obs a =
     (let vision = filter (\<lambda>(k, _). py_in_str (utf8 [0xBE44, 0xC804]) k) (qo_cpk_status obs);
          cpks = map (\<lambda>(_, c). ci_cpk c)
      in [(''QA-SPC'', PDict [(''role_ko'', PStr (utf8 [0x53, 0x50, 0x43, 0xB7, 0x43, 0x70, 0x6B])),
             (''min_cpk'', PFloat (py_round 3 (min_list_or 2 (cpks (qo_cpk_status obs))))),
             (''spc_violations_n'', PInt (int (length (qo_spc_violations obs)))),
             (''defect_trend'', PStr (qo_defect_trend obs))]),
          (''QA-VISION'', PDict [(''role_ko'', PStr (utf8 [0xBE44, 0xC804, 0xB7, 0xCE58, 0xC218])),
             (''channels'', PList (map (\<lambda>(k, _). PStr k) (take 12 vision))),
             (''min_cpk_vision'', if vision = [] then PNone else PFloat (py_round 3 (min_list_or 2 (cpks vision))))]),
          (''QA-RISK'', PDict [(''role_ko'', PStr (utf8 [0xACF5, 0xC815, 0x20, 0xD488, 0xC9C8, 0x20, 0xB9AC, 0xC2A4, 0xD06C])),
             (''risk_stations_n'', PInt (int (length (qo_risk_stations obs)))),
             (''inspection_mode'', PStr (qa_inspection_mode a))])])"

definition defect_trend :: "nat \<Rightarrow> string" where
  "defect_trend risk_count = (if risk_count \<ge> RISK_STATIONS_BAD then (utf8 [0xC545, 0xD654])
     else if risk_count \<ge> RISK_STATIONS_WARN then (utf8 [0xC8FC, 0xC758]) else (utf8 [0xC548, 0xC815]))"

definition empty_quality_obs :: "pyval \<Rightarrow> quality_obs" where
  "empty_quality_obs events = \<lparr> qo_cpk_status = [], qo_spc_violations = [], qo_defect_trend = (utf8 [0xC548, 0xC815]),
     qo_yield_by_station = [], qo_risk_stations = [], qo_events = events, qo_sub_spc = [], qo_sub_vision = [] \<rparr>"

definition qa_sense :: "dict \<Rightarrow> quality_agent wired \<Rightarrow> (quality_obs \<times> quality_agent wired) result" where
  "qa_sense snap s =
     bindR (dict_at snap ''stations'') (\<lambda>stations.
     bindR (foldR qa_sense_station stations
             (empty_quality_obs (py_or (dget_none snap ''business_events'') (PList [])), s)) (\<lambda>(obs1, s1).
       let obs2 = obs1\<lparr>qo_defect_trend := defect_trend (length (qo_risk_stations obs1))\<rparr>
       in bindR (summarize_spc (qo_cpk_status obs2)) (\<lambda>spc.
            let obs = obs2\<lparr> qo_sub_spc := spc, qo_sub_vision := vision_channel_stub stations \<rparr>
            in Inr (obs, with_agent (\<lambda>a. a\<lparr>qa_sub_views := qa_views obs a\<rparr>) s1))))"

section \<open>Reason\<close>

definition qa_alert :: "string \<Rightarrow> string \<Rightarrow> alert" where
  "qa_alert severity message = \<lparr> al_target = ''PA'', al_severity = severity, al_message = message \<rparr>"

definition critical_cpk :: "string \<times> cpk_info \<Rightarrow> bool" where
  "critical_cpk kc \<longleftrightarrow> ci_status (snd kc) = (utf8 [0xC704, 0xD5D8]) \<or> ci_status (snd kc) = (utf8 [0xC8FC, 0xC758]) \<and> ci_trend (snd kc) = (utf8 [0xD558, 0xAC15])"

definition set_mode :: "string \<Rightarrow> quality_agent wired \<Rightarrow> quality_agent wired" where
  "set_mode mode = with_agent (\<lambda>a. a\<lparr>qa_inspection_mode := mode\<rparr>)"

definition qa_reason_cpk ::
  "string \<times> cpk_info \<Rightarrow> quality_decision \<times> quality_agent wired \<Rightarrow> quality_decision \<times> quality_agent wired" where
  "qa_reason_cpk kc ds = (case kc of (key, c) \<Rightarrow> case ds of (d, s) \<Rightarrow>
     (d\<lparr>qd_alerts := qd_alerts d @ [qa_alert ''HIGH''
          ((utf8 [0x43, 0x70, 0x6B, 0x20, 0xC704, 0xD5D8, 0x3A, 0x20]) @ key @ '' = '' @ fmt_fixed 2 (ci_cpk c) @ '' ('' @ ci_trend c @ '')'')]\<rparr>,
      log_reasoning (''[SPC] '' @ key @ '' Cpk='' @ fmt_fixed 2 (ci_cpk c) @ (utf8 [0x20, 0x2192, 0x20, 0xAC15, 0xD654, 0x20, 0xAC80, 0xC0AC])) s))"

definition qa_reason_violation ::
  "spc_violation \<Rightarrow> quality_decision \<times> quality_agent wired \<Rightarrow> quality_decision \<times> quality_agent wired" where
  "qa_reason_violation v ds = (case ds of (d, s) \<Rightarrow>
     (d\<lparr> qd_alerts := qd_alerts d @ [qa_alert ''MEDIUM''
           ((utf8 [0xAD00, 0xB9AC, 0xB3C4, 0x20, 0xC704, 0xBC18, 0x3A, 0x20]) @ sv_station v @ '' '' @ sv_sensor v @ (utf8 [0x20, 0x2014, 0x20]) @ sv_rule v)],
         qd_priority := (if qd_priority d = ''LOW'' then ''MEDIUM'' else qd_priority d) \<rparr>,
      log_reasoning ((utf8 [0x5B, 0x53, 0x50, 0x43, 0xADDC, 0xCE59, 0x5D, 0x20]) @ sv_station v @ ''.'' @ sv_sensor v @ '': '' @ sv_rule v) s))"

definition qa_action :: "quality_risk \<Rightarrow> quality_action" where
  "qa_action k = \<lparr> qx_station = qr_station k,
     qx_reason = (utf8 [0xC218, 0xC728, 0x20]) @ fmt_pct 1 (qr_quality_rate k) @ (utf8 [0x20, 0x2014, 0x20, 0xC804, 0xC218, 0xAC80, 0xC0AC, 0x20, 0xAD8C, 0xC7A5]) \<rparr>"

definition qa_reason_cpks ::
  "quality_obs \<Rightarrow> quality_decision \<times> quality_agent wired \<Rightarrow> quality_decision \<times> quality_agent wired" where
  "qa_reason_cpks obs ds =
     (let crit = filter critical_cpk (qo_cpk_status obs)
      in if crit = [] then ds
         else fold qa_reason_cpk crit
           ((fst ds)\<lparr> qd_priority := ''HIGH'', qd_inspection_mode := (utf8 [0xAC15, 0xD654]) \<rparr>, set_mode (utf8 [0xAC15, 0xD654]) (snd ds)))"

definition qa_reason_trend ::
  "quality_obs \<Rightarrow> quality_decision \<times> quality_agent wired \<Rightarrow> quality_decision \<times> quality_agent wired" where
  "qa_reason_trend obs ds =
     (if qo_defect_trend obs = (utf8 [0xC545, 0xD654]) then
        ((fst ds)\<lparr> qd_inspection_mode := (utf8 [0xC804, 0xC218]), qd_priority := ''CRITICAL'',
           qd_alerts := qd_alerts (fst ds) @ [qa_alert ''CRITICAL''
             ((utf8 [0xD488, 0xC9C8, 0x20, 0xC545, 0xD654, 0x20, 0xCD94, 0xC138, 0x20, 0x2014, 0x20, 0xC804, 0xC218, 0xAC80, 0xC0AC, 0x20, 0xC804, 0xD658, 0x20, 0x28]) @ show_nat (length (qo_risk_stations obs)) @ (utf8 [0xAC1C, 0x20, 0xACF5, 0xC815, 0x29]))] \<rparr>,
         log_reasoning (utf8 [0x5B, 0xAE34, 0xAE09, 0x5D, 0x20, 0xB2E4, 0xC218, 0x20, 0xACF5, 0xC815, 0x20, 0xD488, 0xC9C8, 0x20, 0xC545, 0xD654, 0x20, 0x2192, 0x20, 0xC804, 0xC218, 0xAC80, 0xC0AC, 0x20, 0xC804, 0xD658]) (set_mode (utf8 [0xC804, 0xC218]) (snd ds)))
      else ds)"

definition qa_assess ::
  "quality_obs \<Rightarrow> quality_agent wired \<Rightarrow> quality_decision \<times> quality_agent wired" where
  "qa_assess obs s =
     (let d0 = \<lparr> qd_inspection_mode = qa_inspection_mode (fst s), qd_alerts = [], qd_actions = [], qd_priority = ''LOW'' \<rparr>;
          ds1 = fold qa_reason_violation (qo_spc_violations obs) (qa_reason_cpks obs (d0, s));
          ds2 = ((fst ds1)\<lparr>qd_actions := map qa_action (qo_risk_stations obs)\<rparr>, snd ds1)
      in qa_reason_trend obs ds2)"

definition qa_reason ::
  "quality_obs \<Rightarrow> quality_agent wired \<Rightarrow> (quality_decision option \<times> quality_agent wired) result" where
  "qa_reason obs s =
     (let (d, s1) = qa_assess obs s in
      if qd_alerts d = [] \<and> qd_actions d = [] then
        (let best_cpk = min_list_or 2 (map (\<lambda>(_, c). ci_cpk c) (qo_cpk_status obs));
             s2 = log_reasoning ((utf8 [0xD488, 0xC9C8, 0x20, 0xC548, 0xC815, 0x3A, 0x20, 0xCD5C, 0xC800, 0x20, 0x43, 0x70, 0x6B, 0x3D]) @ fmt_fixed 2 best_cpk @ (utf8 [0x2C, 0x20, 0xAC80, 0xC0AC, 0x3D])
                    @ qa_inspection_mode (fst s1)) s1
         in Inr (None, if qa_inspection_mode (fst s2) \<noteq> (utf8 [0xD45C, 0xC900]) \<and> best_cpk \<ge> CPK_GOOD
                       then set_mode (utf8 [0xD45C, 0xC900]) s2 else s2))
      else Inr (Some d, s1))"

section \<open>Act and bid\<close>

definition quality_decision_dict :: "quality_decision \<Rightarrow> dict" where
  "quality_decision_dict d =
     [(''type'', PStr ''quality_assessment''), (''inspection_mode'', PStr (qd_inspection_mode d)),
      (''alerts'', PList (map (\<lambda>al. PDict (alert_dict al)) (qd_alerts d))),
      (''actions'', PList (map (\<lambda>x. PDict [(''action'', PStr (utf8 [0xD488, 0xC9C8, 0xAC15, 0xD654])), (''station'', PStr (qx_station x)),
         (''reason'', PStr (qx_reason x))]) (qd_actions d))), (''priority'', PStr (qd_priority d))]"

definition qa_alert_body :: "quality_agent \<Rightarrow> alert \<Rightarrow> dict" where
  "qa_alert_body a al =
     [(''source'', PStr (ag_id a)), (''severity'', PStr (al_severity al)), (''summary'', PStr (al_message al)),
      (''inspection_mode'', PStr (qa_inspection_mode a)),
      (''cpk_summary'', PDict (map (\<lambda>(k, v). (k, if v \<noteq> [] then PFloat (last v) else PInt 0)) (qa_cpk_history a)))]"

definition qa_act ::
  "(broker \<Rightarrow> broker) \<Rightarrow> quality_decision option \<Rightarrow> quality_agent wired \<Rightarrow> (string list \<times> quality_agent wired) result" where
  "qa_act interf dec s = (case dec of
      None \<Rightarrow> Inr ([], s)
    | Some d \<Rightarrow> Inr (map (\<lambda>al. (utf8 [0xACBD, 0xBCF4, 0x3A, 0x20]) @ al_message al) (qd_alerts d),
        send_alerts interf (qa_alert_body (fst s)) (qd_alerts d) s))"

definition worst_cpk :: "quality_agent \<Rightarrow> real" where
  "worst_cpk a = min_list_or 2 (map (\<lambda>(_, h). last h) (filter (\<lambda>(_, h). h \<noteq> []) (qa_cpk_history a)))"

definition qa_handle_cfp :: "quality_agent \<Rightarrow> dict" where
  "qa_handle_cfp a =
     (let w = worst_cpk a;
          cost_est = (if w < CPK_GOOD then max 0 (min 1 ((CPK_GOOD - w) / CPK_GOOD)) else 0);
          viol = (if w < CPK_WARNING then 1 else if w < CPK_GOOD then 1 / 2 else 0)
      in merge_into_proposal
         [(''agent'', PStr (ag_id a)), (''proposal'', PStr (utf8 [0xD488, 0xC9C8, 0x20, 0xAD00, 0xC810, 0x20, 0xB300, 0xC751])),
          (''inspection_mode'', PStr (if w < CPK_WARNING then (utf8 [0xC804, 0xC218]) else (utf8 [0xAC15, 0xD654]))),
          (''speed_recommendation'', PInt (if w < CPK_WARNING then 70 else 90)),
          (''cpk_summary'', PDict (map (\<lambda>(k, v). (k, PFloat (py_round 2 (last v))))
             (filter (\<lambda>(_, v). v \<noteq> []) (qa_cpk_history a)))),
          (''scores'', PDict [(''quality'', PFloat (9 / 10)), (''delivery'', PFloat (5 / 10)),
             (''cost'', PFloat (4 / 10)), (''safety'', PFloat (8 / 10))]),
          (''proposal_metrics'', PDict [(''cost_estimate'', PFloat (py_round 4 cost_est)),
             (''constraint_violation_total'', PFloat viol), (''worst_cpk'', PFloat (py_round 3 w)),
             (''expected_effect'', PFloat (py_round 4 (1 / 2 + 1 / 2 * (w / max CPK_GOOD (1 / 100))))),
             (''quality_risk'', PFloat (py_round 4 (1 - min 1 (w / CPK_GOOD)))),
             (''delivery_impact'', PFloat (2 / 10)), (''material_impact'', PFloat (1 / 10)),
             (''confidence'', PFloat (82 / 100))])])"

definition qa_execute_accepted :: "dict \<Rightarrow> quality_agent wired \<Rightarrow> quality_agent wired result" where
  "qa_execute_accepted proposal s =
     (case dget_or proposal ''inspection_mode'' (PStr (qa_inspection_mode (fst s))) of
        PStr mode \<Rightarrow> Inr (log_reasoning ((utf8 [0xAC80, 0xC0AC, 0x20, 0xBAA8, 0xB4DC, 0x20, 0xBCC0, 0xACBD, 0x3A, 0x20]) @ mode) (set_mode mode s))
      | _ \<Rightarrow> Inl TypeError)"

definition qa_status :: "quality_agent wired \<Rightarrow> dict" where
  "qa_status s = dset ''inspection_mode'' (PStr (qa_inspection_mode (fst s)))
     (dset ''sub_agent_views'' (PDict (qa_sub_views (fst s))) (base_agent_status quality_decision_dict s))"

section \<open>The agent's contract\<close>

lemma quiet_set_mode [simp]: "quiet s (set_mode m s)"
  by (simp add: quiet_def same_base_def set_mode_def with_agent_def)

lemma quiet_measurements: "quiet s (with_agent (\<lambda>a. a\<lparr>qa_measurements := f a\<rparr>) s)"
  by (simp add: quiet_def same_base_def with_agent_def)

lemma quiet_cpk_history: "quiet s (with_agent (\<lambda>a. a\<lparr>qa_cpk_history := f a\<rparr>) s)"
  by (simp add: quiet_def same_base_def with_agent_def)

lemma qa_sensor_quiet:
  assumes "qa_sense_sensor sid y (x, s) = Inr (x', s')" shows "quiet s s'"
proof -
  obtain sname sinfo_v where y: "y = (sname, sinfo_v)" by (rule prod.exhaust)
  let ?key = "sid @ ''.'' @ sname"
  let ?m = "\<lambda>val. with_agent (\<lambda>a. a\<lparr>qa_measurements := series_push MEASUREMENT_HISTORY_LEN ?key val (qa_measurements a)\<rparr>) s"
  show ?thesis
  proof (cases "map_of spec_limits ?key = None")
    case True
    then obtain val where "s' = ?m val"
      using assms unfolding y qa_sense_sensor_def prod.case Let_def by (auto simp: bindR_Inr_iff)
    then show ?thesis using quiet_measurements by simp
  next
    case False
    then have "\<exists>val. s' = with_agent (\<lambda>a. a\<lparr>qa_cpk_history := series_push CPK_HISTORY_LEN ?key
        (calc_cpk ?key (fst (?m val))) (qa_cpk_history a)\<rparr>) (?m val)"
      using assms unfolding y qa_sense_sensor_def prod.case Let_def
      by (simp add: bindR_Inr_iff case_prod_unfold) blast
    then show ?thesis by (elim exE) (simp only: quiet_trans [OF quiet_measurements quiet_cpk_history])
  qed
qed

lemma qa_sense_quiet: "qa_sense snap s = Inr (obs, s') \<Longrightarrow> quiet s s'"
proof -
  have sensors: "quiet t t'" if "foldR (qa_sense_sensor sid) xs (x, t) = Inr (x', t')" for sid xs x x' t t'
    by (rule foldR_quiet [OF that]) (rule qa_sensor_quiet)
  have station: "quiet t t'" if "qa_sense_station y (x, t) = Inr (x', t')" for y x x' t t'
    using that by (cases y) (auto simp: qa_sense_station_def bindR_Inr_iff split: if_splits intro: sensors)
  assume "qa_sense snap s = Inr (obs, s')"
  then obtain stations o0 o1 s1 where f: "foldR qa_sense_station stations (o0, s) = Inr (o1, s1)" and s': "quiet s1 s'"
    by (auto simp: qa_sense_def bindR_Inr_iff Let_def quiet_def same_base_def with_agent_def)
  have "quiet s s1" by (rule foldR_quiet [OF f]) (rule station)
  then show ?thesis using s' by (rule quiet_trans)
qed

lemma qa_cpk_fold:
  "fold qa_reason_cpk kcs (d, s) = (d', s') \<Longrightarrow>
     quiet s s' \<and> length (qd_alerts d') = length (qd_alerts d) + length kcs
     \<and> (\<forall>al\<in>set (qd_alerts d'). al \<in> set (qd_alerts d) \<or> al_target al = ''PA'')
     \<and> qd_priority d' = qd_priority d \<and> qd_inspection_mode d' = qd_inspection_mode d
     \<and> qa_inspection_mode (fst s') = qa_inspection_mode (fst s)"
proof (induction kcs arbitrary: d s)
  case Nil
  then show ?case by simp
next
  case (Cons kc kcs)
  obtain d1 s1 where 1: "qa_reason_cpk kc (d, s) = (d1, s1)" by (rule prod.exhaust)
  have st: "quiet s s1" "\<exists>al. qd_alerts d1 = qd_alerts d @ [al] \<and> al_target al = ''PA''"
      "qd_priority d1 = qd_priority d" "qd_inspection_mode d1 = qd_inspection_mode d"
      "qa_inspection_mode (fst s1) = qa_inspection_mode (fst s)"
    using 1 by (auto simp: qa_reason_cpk_def qa_alert_def case_prod_unfold)
      (auto simp: log_reasoning_def with_agent_def)
  have "fold qa_reason_cpk kcs (d1, s1) = (d', s')" using Cons.prems 1 by simp
  from Cons.IH [OF this] st quiet_trans [OF st(1), of s'] show ?case by auto
qed

lemma qa_violation_fold:
  "fold qa_reason_violation vs (d, s) = (d', s') \<Longrightarrow>
     quiet s s' \<and> length (qd_alerts d') = length (qd_alerts d) + length vs
     \<and> (\<forall>al\<in>set (qd_alerts d'). al \<in> set (qd_alerts d) \<or> al_target al = ''PA'')
     \<and> qd_priority d' = (if vs \<noteq> [] \<and> qd_priority d = ''LOW'' then ''MEDIUM'' else qd_priority d)
     \<and> qd_inspection_mode d' = qd_inspection_mode d
     \<and> qa_inspection_mode (fst s') = qa_inspection_mode (fst s)"
proof (induction vs arbitrary: d s)
  case Nil
  then show ?case by simp
next
  case (Cons v vs)
  obtain d1 s1 where 1: "qa_reason_violation v (d, s) = (d1, s1)" by (rule prod.exhaust)
  have st: "quiet s s1" "\<exists>al. qd_alerts d1 = qd_alerts d @ [al] \<and> al_target al = ''PA''"
      "qd_priority d1 = (if qd_priority d = ''LOW'' then ''MEDIUM'' else qd_priority d)"
      "qd_inspection_mode d1 = qd_inspection_mode d"
      "qa_inspection_mode (fst s1) = qa_inspection_mode (fst s)"
    using 1 by (auto simp: qa_reason_violation_def qa_alert_def)
      (auto simp: log_reasoning_def with_agent_def)
  obtain al where al: "qd_alerts d1 = qd_alerts d @ [al]" "al_target al = ''PA''" using st(2) by blast
  have "fold qa_reason_violation vs (d1, s1) = (d', s')" using Cons.prems 1 by simp
  note ih = Cons.IH [OF this]
  have "quiet s s'" using ih quiet_trans [OF st(1), of s'] by simp
  moreover have "qd_priority d' = (if qd_priority d = ''LOW'' then ''MEDIUM'' else qd_priority d)"
    using ih st(3) by (cases "qd_priority d = ''LOW''") simp_all
  moreover have "\<forall>al\<in>set (qd_alerts d'). al \<in> set (qd_alerts d1) \<or> al_target al = ''PA''" using ih by blast
  then have "\<forall>al\<in>set (qd_alerts d'). al \<in> set (qd_alerts d) \<or> al_target al = ''PA''" using al by auto
  ultimately show ?case using ih st(4,5) al by simp
qed

lemma qa_assess_result:
  assumes "qa_assess obs s = (d, s')"
  defines "crit \<equiv> filter critical_cpk (qo_cpk_status obs)" and "bad \<equiv> qo_defect_trend obs = (utf8 [0xC545, 0xD654])"
  shows "quiet s s'"
    "length (qd_alerts d) = length crit + length (qo_spc_violations obs) + (if bad then 1 else 0)"
    "\<forall>al\<in>set (qd_alerts d). al_target al = ''PA''"
    "qd_actions d = map qa_action (qo_risk_stations obs)"
    "qa_inspection_mode (fst s') = (if bad then (utf8 [0xC804, 0xC218]) else if crit \<noteq> [] then (utf8 [0xAC15, 0xD654]) else qa_inspection_mode (fst s))"
    "qd_inspection_mode d = qa_inspection_mode (fst s')"
    "qd_priority d = (if bad then ''CRITICAL'' else if crit \<noteq> [] then ''HIGH''
       else if qo_spc_violations obs \<noteq> [] then ''MEDIUM'' else ''LOW'')"
proof -
  let ?d0 = "\<lparr> qd_inspection_mode = qa_inspection_mode (fst s), qd_alerts = [], qd_actions = [], qd_priority = ''LOW'' \<rparr>"
  obtain d1 s1 where 1: "qa_reason_cpks obs (?d0, s) = (d1, s1)" by (rule prod.exhaust)
  have c: "quiet s s1 \<and> length (qd_alerts d1) = length crit \<and> (\<forall>al\<in>set (qd_alerts d1). al_target al = ''PA'')
      \<and> qd_priority d1 = (if crit \<noteq> [] then ''HIGH'' else ''LOW'')
      \<and> qa_inspection_mode (fst s1) = (if crit \<noteq> [] then (utf8 [0xAC15, 0xD654]) else qa_inspection_mode (fst s))
      \<and> qd_inspection_mode d1 = qa_inspection_mode (fst s1)"
  proof (cases "crit = []")
    case True
    then show ?thesis using 1 by (auto simp: qa_reason_cpks_def crit_def)
  next
    case False
    then have "fold qa_reason_cpk crit (?d0\<lparr> qd_priority := ''HIGH'', qd_inspection_mode := (utf8 [0xAC15, 0xD654]) \<rparr>, set_mode (utf8 [0xAC15, 0xD654]) s) = (d1, s1)"
      using 1 by (simp add: qa_reason_cpks_def crit_def Let_def)
    from qa_cpk_fold [OF this] False quiet_trans [OF quiet_set_mode [of s "(utf8 [0xAC15, 0xD654])"], of s1] show ?thesis
      by (auto simp: set_mode_def with_agent_def)
  qed
  obtain d2 s2 where 2: "fold qa_reason_violation (qo_spc_violations obs) (d1, s1) = (d2, s2)" by (rule prod.exhaust)
  note v = qa_violation_fold [OF 2]
  have e: "(d, s') = qa_reason_trend obs (d2\<lparr>qd_actions := map qa_action (qo_risk_stations obs)\<rparr>, s2)"
    using assms(1) by (simp add: qa_assess_def 1 2 Let_def)
  have q2: "quiet s s2" using c v quiet_trans by blast
  have tgt: "\<forall>al\<in>set (qd_alerts d2). al_target al = ''PA''" using c v by blast
  have m: "qa_inspection_mode (fst (log_reasoning x (set_mode y s2))) = y" for x y
    by (simp add: log_reasoning_def set_mode_def with_agent_def)
  have ql: "quiet s2 (log_reasoning x (set_mode y s2))" for x y
    by (rule quiet_log_trans) simp
  note e = e [unfolded qa_reason_trend_def fst_conv snd_conv, folded bad_def]
  show "quiet s s'" using e q2 quiet_trans [OF q2 ql] by (auto split: if_splits)
  show "length (qd_alerts d) = length crit + length (qo_spc_violations obs) + (if bad then 1 else 0)"
    using e c v by (auto split: if_splits)
  show "\<forall>al\<in>set (qd_alerts d). al_target al = ''PA''" using e tgt by (auto simp: qa_alert_def split: if_splits)
  show "qd_actions d = map qa_action (qo_risk_stations obs)" using e by (auto split: if_splits)
  show "qa_inspection_mode (fst s') = (if bad then (utf8 [0xC804, 0xC218]) else if crit \<noteq> [] then (utf8 [0xAC15, 0xD654]) else qa_inspection_mode (fst s))"
    using e c v m by (cases bad) simp_all
  show "qd_inspection_mode d = qa_inspection_mode (fst s')"
    using e c v m by (cases bad) simp_all
  show "qd_priority d = (if bad then ''CRITICAL'' else if crit \<noteq> [] then ''HIGH''
       else if qo_spc_violations obs \<noteq> [] then ''MEDIUM'' else ''LOW'')"
    using e c v by (cases bad; cases "crit = []") simp_all
qed

lemma qa_reason_result:
  assumes "qa_reason obs s = Inr (dec, s')"
  shows "quiet s s'"
    and "dec = None \<longleftrightarrow> filter critical_cpk (qo_cpk_status obs) = [] \<and> qo_spc_violations obs = []
           \<and> qo_defect_trend obs \<noteq> (utf8 [0xC545, 0xD654]) \<and> qo_risk_stations obs = []"
    and "dec = Some d \<Longrightarrow> d = fst (qa_assess obs s) \<and> s' = snd (qa_assess obs s)"
proof -
  obtain d1 s1 where 1: "qa_assess obs s = (d1, s1)" by (rule prod.exhaust)
  note r = qa_assess_result [OF 1]
  have l: "quiet s1 (log_reasoning x s1)" "quiet s1 (set_mode y (log_reasoning x s1))" for x y
    by simp (rule quiet_trans [OF quiet_log quiet_set_mode])
  have dec: "(if qd_alerts d1 = [] \<and> qd_actions d1 = [] then dec = None \<and> quiet s1 s' else dec = Some d1 \<and> s' = s1)"
    using assms l by (auto simp: qa_reason_def 1 Let_def split: if_splits)
  then show "quiet s s'" using r(1) quiet_trans [OF r(1), of s'] by (auto split: if_splits)
  have "qd_alerts d1 = [] \<longleftrightarrow> filter critical_cpk (qo_cpk_status obs) = [] \<and> qo_spc_violations obs = []
           \<and> qo_defect_trend obs \<noteq> (utf8 [0xC545, 0xD654])"
    unfolding length_0_conv [symmetric] r(2) by simp
  then show "dec = None \<longleftrightarrow> filter critical_cpk (qo_cpk_status obs) = [] \<and> qo_spc_violations obs = []
           \<and> qo_defect_trend obs \<noteq> (utf8 [0xC545, 0xD654]) \<and> qo_risk_stations obs = []"
    using dec r(4) by (auto split: if_splits)
  show "d = fst (qa_assess obs s) \<and> s' = snd (qa_assess obs s)" if "dec = Some d"
    using dec that 1 by (auto split: if_splits)
qed

interpretation quality_loop: agent_loop qa_sense qa_reason "qa_act interf" "\<lambda>d. length (qd_alerts d)"
  for interf
proof
  show "quiet s s'" if "qa_sense snap s = Inr (obs, s')" for snap s obs s' by (rule qa_sense_quiet [OF that])
  show "quiet s s'" if "qa_reason obs s = Inr (r, s')" for obs s r s' by (rule qa_reason_result(1) [OF that])
  show "sends_alerts 0 s s'" if "qa_act interf None s = Inr (as, s')" for s as s'
    using that by (simp add: qa_act_def sends_alerts_def same_base_def)
  show "sends_alerts (length (qd_alerts d)) s s'"
    if "qa_reason obs t = Inr (Some d, t')" "qa_act interf (Some d) s = Inr (as, s')" for obs t d t' s as s'
    using qa_reason_result(3) [OF that(1) refl] qa_assess_result(3) [of obs t d t'] that(2)
      send_alerts_sends [of "qd_alerts d" s interf "qa_alert_body (fst s)"]
    by (auto simp: qa_act_def)
qed

end
