(* ===== verification/Planning.thy ===== *)
theory Planning
  imports Cnp Llm Supply_Agent Demand_Agent Inventory_Agent Equipment_Agent Quality_Agent
begin

text \<open>
  \<open>mas/agents/planning_agent.py\<close> with \<open>planning_sub/alert_collector.py\<close> and
  \<open>mas/intelligence/operational_decision_card.py\<close>: the planning agent collects the alerts of
  its inbox, decides whether to open a contract net round, and runs the round: call for
  proposals, collection, ranking, strategy, clamp, decision card, execution of the accepted
  proposals. The participants are the five domain agents, as a list of members.
\<close>

section \<open>Alerts\<close>

definition collect_inbox_alerts :: "agent_message list \<Rightarrow> dict list" where
  "collect_inbox_alerts msgs =
     map (\<lambda>m. [(''sender'', PStr (h_sender (m_header m))), (''intent'', PStr (intent_value (m_intent m))),
               (''severity'', dget_or (m_body m) ''severity'' (PStr ''LOW'')),
               (''summary'', dget_or (m_body m) ''summary'' (PStr '''')), (''body'', PDict (m_body m))])
       (filter (\<lambda>m. m_intent m \<in> {ALERT, STOCK_ALERT, DEMAND_CHANGE}) msgs)"

definition summarize_alerts :: "dict list \<Rightarrow> string" where
  "summarize_alerts alerts =
     (if alerts = [] then ''steady-state monitoring''
      else py_join '' | '' (map (\<lambda>a. py_str (dget_or a ''sender'' (PStr ''?'')) @ '': ''
             @ utf8_take 40 (py_str (dget_or a ''summary'' (PStr '''')))) (take 3 alerts)))"

section \<open>The decision card\<close>

definition empty_card :: "string \<Rightarrow> dict" where
  "empty_card reason =
     [(''schema'', PStr ''operational_decision_card/v1''), (''issue_title'', PStr reason), (''targets'', PDict []),
      (''severity'', PStr ''INFO''), (''impact_scope'', PStr ''''), (''priority_rank'', PInt 0), (''responses'', PList []),
      (''constraints'', PList []), (''immediate_checks'', PList []), (''owner_role'', PStr ''PA''),
      (''review_at'', PStr ''''), (''evidence_refs'', PDict []), (''recommended_actions'', PList [])]"

record response_option =
  rp_label :: string
  rp_benefit :: string
  rp_risk :: string

definition response_dict :: "response_option \<Rightarrow> pyval" where
  "response_dict r = PDict [(''label'', PStr (rp_label r)), (''expected_benefit'', PStr (rp_benefit r)), (''risk'', PStr (rp_risk r))]"

record decision_card =
  dc_issue_title :: string
  dc_targets :: dict
  dc_impact_scope :: string
  dc_responses :: "response_option list"
  dc_constraints :: "string list"
  dc_evidence_refs :: dict

definition card_dict :: "decision_card \<Rightarrow> dict" where
  "card_dict c =
     [(''schema'', PStr ''operational_decision_card/v1''), (''issue_title'', PStr (dc_issue_title c)),
      (''targets'', PDict (dc_targets c)), (''severity'', PStr ''HIGH''), (''impact_scope'', PStr (dc_impact_scope c)),
      (''priority_rank'', PInt 1), (''responses'', PList (map response_dict (dc_responses c))),
      (''constraints'', PList (map PStr (dc_constraints c))),
      (''immediate_checks'', PList [PStr (utf8 [0xCD5C, 0xC6B0, 0xC120, 0x20, 0xC81C, 0xC548, 0x20, 0x63, 0x6F, 0x6D, 0x70, 0x61, 0x72, 0x69, 0x73, 0x6F, 0x6E, 0x20, 0xD544, 0xB4DC, 0x20, 0xD655, 0xC778]), PStr (utf8 [0xB77C, 0xC778, 0x20, 0xC18D, 0xB3C4, 0x20, 0xD55C, 0xACC4])]),
      (''owner_role'', PStr ''PA''), (''review_at'', PStr ''cycle+10''), (''evidence_refs'', PDict (dc_evidence_refs c))]"

definition comparison_of :: "dict \<Rightarrow> dict result" where
  "comparison_of p = as_dict (py_or (dget_none p ''comparison'') (PDict []))"

definition shown :: "dict \<Rightarrow> string \<Rightarrow> string" where
  "shown d k = py_str (dget_or d k (PStr ''-''))"

fun card_alternatives :: "nat \<Rightarrow> dict list \<Rightarrow> response_option list result" where
  "card_alternatives i [] = Inr []"
| "card_alternatives i (p # ps) =
     bindR (comparison_of p) (\<lambda>c. bindR (card_alternatives (Suc i) ps) (\<lambda>rs.
       Inr (\<lparr> rp_label = (utf8 [0xB300, 0xC548]) @ show_nat i @ '': '' @ py_str (dget_or p ''agent'' (PStr ''?'')),
              rp_benefit = (utf8 [0xD6A8, 0xACFC, 0x20]) @ shown c ''expected_effect'', rp_risk = (utf8 [0xBE44, 0xC6A9, 0x20]) @ shown c ''expected_cost'' \<rparr> # rs)))"

definition from_cnp_strategy :: "string \<Rightarrow> dict list \<Rightarrow> dict \<Rightarrow> dict \<Rightarrow> dict result" where
  "from_cnp_strategy situation proposals strategy snapshot =
     (case proposals of
        [] \<Rightarrow> Inr (empty_card ''no_proposals'')
      | best # others \<Rightarrow>
          bindR (comparison_of best) (\<lambda>comp.
          bindR (as_dict (py_or (case dget_none snapshot ''manufacturing_context'' of
                     PDict mc \<Rightarrow> dget_none mc ''identifiers'' | _ \<Rightarrow> PDict []) (PDict []))) (\<lambda>ids.
          bindR (card_alternatives 2 (take 2 others)) (\<lambda>alts.
            let first = \<lparr> rp_label = py_str (dget_or best ''agent'' (PStr ''?'')) @ (utf8 [0x20, 0xC81C, 0xC548]),
                          rp_benefit = (utf8 [0xD6A8, 0xACFC, 0xC9C0, 0xC218, 0x20]) @ shown comp ''expected_effect'',
                          rp_risk = (utf8 [0xD488, 0xC9C8, 0xB9AC, 0xC2A4, 0xD06C, 0x20]) @ shown comp ''quality_risk'' \<rparr>;
                card = \<lparr> dc_issue_title = (if situation \<noteq> [] then utf8_take 120 situation else (utf8 [0x43, 0x4E, 0x50, 0x20, 0xD611, 0xC0C1])),
                   dc_targets = [(''site_id'', dget_or ids ''site_id'' (PStr '''')), (''line_id'', dget_or ids ''line_id'' (PStr '''')),
                                 (''shift'', PStr (py_str (dget_or snapshot ''shift'' (PStr ''''))))],
                   dc_impact_scope = (utf8 [0x4F, 0x45, 0x45, 0xB7, 0xD488, 0xC9C8, 0xB7, 0xB0A9, 0xAE30, 0x20, 0x28, 0xC81C, 0xC548, 0x20]) @ show_nat (length proposals) @ (utf8 [0xAC74, 0x29]),
                   dc_responses = first # alts,
                   dc_constraints = [(utf8 [0xC18D, 0xB3C4, 0x20]) @ shown strategy ''target_speed_pct'' @ ''%'', (utf8 [0xAC80, 0xC0AC, 0x20]) @ shown strategy ''inspection_mode''],
                   dc_evidence_refs = [(''cnp_id'', dget_none strategy ''cnp_id''), (''best_agent'', dget_none best ''agent'')] \<rparr>;
                out = card_dict card
            in Inr (dset ''recommended_actions'' (dget_or out ''responses'' (PList [])) out)))))"

section \<open>The agent\<close>

record planning_obs =
  pb_cycle :: pyval
  pb_avg_oee :: pyval
  pb_fg_stock :: pyval
  pb_total_produced :: pyval
  pb_scrap_count :: pyval
  pb_shift :: pyval
  pb_alerts :: "dict list"
  pb_stations :: pyval
  pb_business_events :: pyval
  pb_identifiers :: dict
  pb_line_kpi :: pyval
  pb_context_validation :: pyval

record planning_decision =
  pd_action :: string
  pd_initiate_cnp :: bool
  pd_alerts_processed :: nat
  pd_priority :: string
  pd_cnp_reason :: "string option"

record planning_agent = "planning_decision base_agent" +
  pa_llm :: "llm option"
  pa_cnp_count :: nat
  pa_last_cnp_cycle :: pyval
  pa_strategy_log :: "dict list"
  pa_pending_alerts :: "dict list"

definition new_planning_agent :: "llm option \<Rightarrow> (nat \<Rightarrow> string) \<Rightarrow> (nat \<Rightarrow> string) \<Rightarrow> planning_agent" where
  "new_planning_agent client uuids now = base_agent.extend (new_base_agent ''PA'' ''Planning Agent'' uuids now)
     (planning_agent.fields client 0 (PInt 0) [] [])"

definition pa_sense :: "dict \<Rightarrow> planning_agent wired \<Rightarrow> (planning_obs \<times> planning_agent wired) result" where
  "pa_sense snap s =
     (let (msgs, s1) = pop_inbox s;
          alerts = collect_inbox_alerts msgs;
          mctx = dict_or_empty (dget_none snap ''manufacturing_context'');
          kpi = dict_or_empty (dget_none mctx ''kpi_slices'')
      in Inr (\<lparr> pb_cycle = dget_or snap ''cycle'' (PInt 0), pb_avg_oee = dget_or snap ''avg_oee'' (PFloat 1),
                pb_fg_stock = dget_or snap ''fg_stock'' (PInt 0), pb_total_produced = dget_or snap ''total_produced'' (PInt 0),
                pb_scrap_count = dget_or snap ''scrap_count'' (PInt 0), pb_shift = dget_or snap ''shift'' (PStr ''''),
                pb_alerts = alerts, pb_stations = dget_or snap ''stations'' (PDict []),
                pb_business_events = py_or (dget_none snap ''business_events'') (PList []),
                pb_identifiers = dict_or_empty (dget_none mctx ''identifiers''), pb_line_kpi = dget_none kpi ''line'',
                pb_context_validation = py_or (dget_none snap ''manufacturing_context_validation'') (PList []) \<rparr>,
              with_agent (\<lambda>a. a\<lparr>pa_pending_alerts := alerts\<rparr>) s1))"

definition severity_count :: "string \<Rightarrow> dict list \<Rightarrow> nat" where
  "severity_count sev alerts = length (filter (\<lambda>a. dget_none a ''severity'' = PStr sev) alerts)"

definition cycles_since_cnp :: "pyval \<Rightarrow> planning_agent \<Rightarrow> real result" where
  "cycles_since_cnp cyc a = bindR (py_num cyc) (\<lambda>c. bindR (py_num (pa_last_cnp_cycle a)) (\<lambda>l. Inr (c - l)))"

text \<open>The trigger, with the short circuits of \<open>or\<close> and \<open>and\<close>.\<close>

definition should_cnp :: "planning_obs \<Rightarrow> planning_agent \<Rightarrow> bool result" where
  "should_cnp obs a =
     (if severity_count ''CRITICAL'' (pb_alerts obs) \<ge> 1 \<or> severity_count ''HIGH'' (pb_alerts obs) \<ge> 2 then Inr True
      else bindR (py_num (pb_avg_oee obs)) (\<lambda>oee.
        if oee < 65 / 100 then bindR (cycles_since_cnp (pb_cycle obs) a) (\<lambda>n. Inr (n > 30)) else Inr False))"

definition pa_trigger :: "planning_obs \<Rightarrow> planning_agent \<Rightarrow> bool result" where
  "pa_trigger obs a =
     bindR (should_cnp obs a) (\<lambda>should.
       if should then bindR (cycles_since_cnp (pb_cycle obs) a) (\<lambda>n. Inr (n > 10)) else Inr False)"

definition pa_reason :: "planning_obs \<Rightarrow> planning_agent wired \<Rightarrow> (planning_decision option \<times> planning_agent wired) result" where
  "pa_reason obs s =
     (let alerts = pb_alerts obs;
          crit = severity_count ''CRITICAL'' alerts; high = severity_count ''HIGH'' alerts;
          d = \<lparr> pd_action = ''monitor'', pd_initiate_cnp = False, pd_alerts_processed = length alerts,
                pd_priority = ''LOW'', pd_cnp_reason = None \<rparr>
      in bindR (pa_trigger obs (fst s)) (\<lambda>trigger.
         if trigger then
           (let why = summarize_alerts alerts
            in bindR (fmt_pct_val 1 (pb_avg_oee obs)) (\<lambda>oee.
                 Inr (Some (d\<lparr> pd_initiate_cnp := True, pd_action := ''cnp'',
                               pd_priority := (if crit > 0 then ''CRITICAL'' else ''HIGH''), pd_cnp_reason := Some why \<rparr>),
                      log_reasoning (''[CNP] trigger critical='' @ show_nat crit @ '' high='' @ show_nat high
                        @ '' oee='' @ oee @ '' reason='' @ why) s)))
         else if alerts \<noteq> [] then
           Inr (Some (d\<lparr> pd_action := ''adjust'', pd_priority := ''MEDIUM'' \<rparr>),
                fold (\<lambda>a. log_reasoning (''[ALERT] '' @ py_str (dget_or a ''sender'' (PStr ''?'')) @ '': ''
                       @ py_str (dget_or a ''summary'' (PStr '''')))) alerts s)
         else bindR (py_num (pb_avg_oee obs)) (\<lambda>x.
              bindR (fmt_pct_val 1 (pb_avg_oee obs)) (\<lambda>oee.
                Inr (None, log_reasoning
                  (if x \<ge> 85 / 100 then ''factory stable oee='' @ oee @ '' produced='' @ py_str (pb_total_produced obs)
                   else ''monitoring oee='' @ oee @ '' target=85%'') s)))))"

definition pa_act :: "planning_decision option \<Rightarrow> planning_agent wired \<Rightarrow> (string list \<times> planning_agent wired) result" where
  "pa_act dec s = (case dec of
      None \<Rightarrow> Inr ([], s)
    | Some d \<Rightarrow> Inr (if pd_action d = ''adjust'' then [''alerts reviewed: '' @ show_nat (pd_alerts_processed d)] else [], s))"

section \<open>The participants\<close>

datatype member = M_EA equipment_agent | M_QA quality_agent | M_SA supply_agent | M_DA demand_agent | M_IA inventory_agent

fun member_id :: "member \<Rightarrow> string" where
  "member_id (M_EA a) = ag_id a"
| "member_id (M_QA a) = ag_id a"
| "member_id (M_SA a) = ag_id a"
| "member_id (M_DA a) = ag_id a"
| "member_id (M_IA a) = ag_id a"

fun member_bid :: "member \<Rightarrow> dict" where
  "member_bid (M_EA a) = ea_handle_cfp a"
| "member_bid (M_QA a) = qa_handle_cfp a"
| "member_bid (M_SA a) = sa_handle_cfp a"
| "member_bid (M_DA a) = da_handle_cfp a"
| "member_bid (M_IA a) = ia_handle_cfp a"

text \<open>Executing touches the member alone; a raise is caught and logged by the caller.\<close>

fun member_execute :: "dict \<Rightarrow> member \<Rightarrow> member result" where
  "member_execute p (M_EA a) = bindR (ea_execute_accepted p (a, None)) (\<lambda>s. Inr (M_EA (fst s)))"
| "member_execute p (M_QA a) = bindR (qa_execute_accepted p (a, None)) (\<lambda>s. Inr (M_QA (fst s)))"
| "member_execute p (M_SA a) = bindR (sa_execute_accepted p (a, None)) (\<lambda>s. Inr (M_SA (fst s)))"
| "member_execute p (M_DA a) = bindR (da_execute_accepted p (a, None)) (\<lambda>s. Inr (M_DA (fst s)))"
| "member_execute p (M_IA a) = bindR (ia_execute_accepted p (a, None)) (\<lambda>s. Inr (M_IA (fst s)))"

section \<open>One round\<close>

text \<open>
  What a round reads from outside: the session's identifier and clock, the time at each
  expiry check, the identifiers of the call's message, and the language model's surroundings.
\<close>

record cnp_world =
  cw_uuid :: string
  cw_start :: real
  cw_times :: "nat \<Rightarrow> real"
  cw_msg_uuid :: string
  cw_msg_time :: string
  cw_remote :: remote
  cw_loads :: "string \<Rightarrow> string + pyval"
  cw_call_clock :: call_clock

definition KPI_WEIGHTS :: kpi_weights where
  "KPI_WEIGHTS = [(''quality'', 30 / 100), (''delivery'', 25 / 100), (''cost'', 25 / 100), (''safety'', 20 / 100)]"

definition broadcast_cfp ::
  "(broker \<Rightarrow> broker) \<Rightarrow> cnp_world \<Rightarrow> cnp_session \<Rightarrow> string \<Rightarrow> dict \<Rightarrow> planning_agent wired \<Rightarrow> planning_agent wired" where
  "broadcast_cfp interf w session situation summary s =
     (fst s, map_option (\<lambda>b.
        snd (publish interf (create_message (ag_id (fst s)) ''ALL'' CFP
               (dset ''snapshot_summary'' (PDict summary) (to_cfp_body situation session))
               (Some (cs_conversation_id session)) (cw_msg_uuid w) (cw_msg_time w) (cw_msg_uuid w)) None b)) (snd s))"

text \<open>One participant's proposal: speed clamped, then evaluated; a raise skips it.\<close>

definition take_proposal :: "cnp_session \<Rightarrow> dict \<Rightarrow> dict \<Rightarrow> dict result" where
  "take_proposal session constraints raw =
     bindR (speed_or_100 (proposed_speed raw)) (\<lambda>sp0.
       let sp = max (cc_speed_min_pct (cs_constraints session)) (min (cc_speed_max_pct (cs_constraints session)) sp0)
       in evaluate_proposal (Some constraints) (Some KPI_WEIGHTS) (dset ''speed_recommendation'' (PInt sp) raw))"

text \<open>The collection loop: \<open>None\<close> when the session's deadline passed.\<close>

fun collect_proposals ::
  "cnp_world \<Rightarrow> string \<Rightarrow> nat \<Rightarrow> cnp_session \<Rightarrow> dict \<Rightarrow> member list \<Rightarrow> dict list \<Rightarrow> dict list option" where
  "collect_proposals w me i session constraints [] acc = Some acc"
| "collect_proposals w me i session constraints (m # ms) acc =
     (if member_id m = me then collect_proposals w me i session constraints ms acc
      else if is_expired (cw_times w i) session then None
      else collect_proposals w me (Suc i) session constraints ms
             (if member_bid m = [] then acc
              else case take_proposal session constraints (member_bid m) of Inr p \<Rightarrow> acc @ [p] | Inl _ \<Rightarrow> acc))"

definition build_strategy_rules :: "nat \<Rightarrow> dict list \<Rightarrow> dict" where
  "build_strategy_rules cnp_id proposals =
     (let best = (case proposals of p # _ \<Rightarrow> p | [] \<Rightarrow> []) in
      [(''cnp_id'', PInt (int cnp_id)), (''decision'', PStr ''rule_based''),
       (''target_speed_pct'', dget_or best ''speed_recommendation'' (PInt 100)),
       (''inspection_mode'', dget_or best ''inspection_mode'' (PStr ''standard'')),
       (''best_agent'', dget_or best ''agent'' (PStr '''')), (''best_score'', dget_or best ''total_score'' (PInt 0)),
       (''comparison_score'', dget_or best ''comparison_score'' (PInt 0)),
       (''business_score'', dget_or best ''business_score'' (PInt 0)),
       (''constraint_penalty'', dget_or best ''constraint_penalty'' (PInt 0)),
       (''proposals_count'', PInt (int (length proposals))),
       (''rationale'', PStr ''rule-ranked manufacturing proposal selected'')])"

definition build_strategy_llm :: "cnp_world \<Rightarrow> nat \<Rightarrow> dict list \<Rightarrow> dict \<Rightarrow> llm \<Rightarrow> dict \<times> llm" where
  "build_strategy_llm w cnp_id proposals snapshot c =
     (case build_llm_context snapshot of
        Inl _ \<Rightarrow> (build_strategy_rules cnp_id proposals, c)
      | Inr context \<Rightarrow>
          (case llm_evaluate (cw_remote w) (cw_loads w) (cw_call_clock w) context proposals c of
             (Inr (Some st), c1) \<Rightarrow> (if st \<noteq> [] then dset ''cnp_id'' (PInt (int cnp_id)) st
                                    else build_strategy_rules cnp_id proposals, c1)
           | (_, c1) \<Rightarrow> (build_strategy_rules cnp_id proposals, c1)))"

definition build_strategy :: "cnp_world \<Rightarrow> dict list \<Rightarrow> dict \<Rightarrow> planning_agent \<Rightarrow> dict \<times> planning_agent" where
  "build_strategy w proposals snapshot a =
     (case pa_llm a of
        Some c \<Rightarrow> if lc_enabled c
                 then (let (st, c1) = build_strategy_llm w (pa_cnp_count a) proposals snapshot c in (st, a\<lparr>pa_llm := Some c1\<rparr>))
                 else (build_strategy_rules (pa_cnp_count a) proposals, a)
      | None \<Rightarrow> (build_strategy_rules (pa_cnp_count a) proposals, a))"

definition proposal_for :: "string \<Rightarrow> dict list \<Rightarrow> dict option" where
  "proposal_for aid proposals = find (\<lambda>p. dget_none p ''agent'' = PStr aid) proposals"

definition execute_accepted :: "string \<Rightarrow> dict list \<Rightarrow> member list \<Rightarrow> member list" where
  "execute_accepted me proposals =
     map (\<lambda>m. if member_id m = me then m else case proposal_for (member_id m) proposals of
         None \<Rightarrow> m
       | Some p \<Rightarrow> (case member_execute p m of Inr m' \<Rightarrow> m' | Inl _ \<Rightarrow> m))"

text \<open>The strategy of the ranked proposals, before anything is executed.\<close>

definition settle_strategy ::
  "cnp_world \<Rightarrow> cnp_session \<Rightarrow> string \<Rightarrow> dict list \<Rightarrow> dict \<Rightarrow> planning_agent \<Rightarrow> dict result \<times> planning_agent" where
  "settle_strategy w session situation proposals snapshot a =
     (let (st0, a1) = build_strategy w proposals snapshot a
      in (bindR (clamp_strategy session st0) (\<lambda>st1.
          bindR (from_cnp_strategy situation proposals st1 snapshot) (\<lambda>card.
            let st2 = dset ''operational_decision_card'' (PDict card) st1
            in bindR (build_pa_report_lines st2 proposals) (\<lambda>lines.
                 Inr (dset ''pa_report_lines'' (PList (map PStr lines)) st2)))),
          a1))"

definition snapshot_summary :: "dict \<Rightarrow> dict" where
  "snapshot_summary snapshot = [(''avg_oee'', dget_or snapshot ''avg_oee'' (PInt 0)),
     (''fg_stock'', dget_or snapshot ''fg_stock'' (PInt 0)), (''scrap'', dget_or snapshot ''scrap_count'' (PInt 0))]"

definition begin_cnp :: "dict \<Rightarrow> planning_agent wired \<Rightarrow> planning_agent wired" where
  "begin_cnp snapshot = with_agent (\<lambda>a. a\<lparr> pa_cnp_count := Suc (pa_cnp_count a),
     pa_last_cnp_cycle := dget_or snapshot ''cycle'' (PInt 0) \<rparr>)"

definition conclude_cnp :: "dict list \<Rightarrow> dict \<Rightarrow> string \<Rightarrow> planning_agent wired \<Rightarrow> planning_agent wired" where
  "conclude_cnp proposals strategy cid s =
     log_reasoning (''[CNP#'' @ show_nat (pa_cnp_count (fst s)) @ ''] best='' @ py_str (dget_none (hd proposals) ''agent'')
         @ '' score='' @ fmt_fixed 3 (score_at (hd proposals) ''total_score'') @ '' conv='' @ cid)
       (with_agent (\<lambda>a. a\<lparr>pa_strategy_log := pa_strategy_log a @ [strategy]\<rparr>) s)"

text \<open>
  The round: its outcome (a strategy, \<open>None\<close> without proposals, or the exception that leaves
  the method) and the state it leaves behind, which an exception does not undo.
\<close>

definition initiate_cnp ::
  "(broker \<Rightarrow> broker) \<Rightarrow> cnp_world \<Rightarrow> dict \<Rightarrow> planning_agent wired \<times> member list
   \<Rightarrow> dict option result \<times> planning_agent wired \<times> member list" where
  "initiate_cnp interf w snapshot st =
     (let (s, members) = st;
          s1 = begin_cnp snapshot s;
          (cid, session) = begin_session (cw_uuid w) (cw_start w) (new_session None);
          situation = summarize_alerts (pa_pending_alerts (fst s1));
          constraints = constraints_dict (cs_constraints session);
          s2 = broadcast_cfp interf w session situation (snapshot_summary snapshot) s1
      in case collect_proposals w (ag_id (fst s2)) 0 session constraints members [] of
           None \<Rightarrow> (Inr None,
             log_reasoning (''[CNP#'' @ show_nat (pa_cnp_count (fst s2)) @ ''] collection timeout'') s2, members)
         | Some [] \<Rightarrow> (Inr None, s2, members)
         | Some collected \<Rightarrow>
             (case rank_proposals_by_comparison (Some constraints) (map PDict collected) of
                Inl e \<Rightarrow> (Inl e, s2, members)
              | Inr proposals \<Rightarrow>
                  (case settle_strategy w session situation proposals snapshot (fst s2) of
                     (Inl e, a) \<Rightarrow> (Inl e, (a, snd s2), members)
                   | (Inr strategy, a) \<Rightarrow>
                       (Inr (Some strategy), conclude_cnp proposals strategy cid (a, snd s2),
                        execute_accepted (ag_id a) proposals members))))"

definition planning_decision_dict :: "planning_decision \<Rightarrow> dict" where
  "planning_decision_dict d =
     [(''type'', PStr ''planning_assessment''), (''action'', PStr (pd_action d)), (''initiate_cnp'', PBool (pd_initiate_cnp d)),
      (''speed_adjustments'', PDict []), (''alerts_processed'', PInt (int (pd_alerts_processed d))),
      (''priority'', PStr (pd_priority d))] @ (case pd_cnp_reason d of None \<Rightarrow> [] | Some r \<Rightarrow> [(''cnp_reason'', PStr r)])"

definition pa_status :: "planning_agent wired \<Rightarrow> dict" where
  "pa_status s = (let a = fst s in
     dset ''sub_agent_views'' (PDict
        [(''PA-ORCH'', PDict [(''role'', PStr ''planning orchestrator''), (''cnp_rounds_total'', PInt (int (pa_cnp_count a))),
            (''strategies_on_record'', PInt (int (length (pa_strategy_log a)))),
            (''pending_alerts'', PInt (int (length (pa_pending_alerts a))))]),
         (''PA-ALERT'', PDict [(''role'', PStr ''alert collector''), (''last_cnp_cycle'', pa_last_cnp_cycle a)]),
         (''PA-RANK'', PDict [(''role'', PStr ''recommendation ranker'')]),
         (''PA-EVAL'', PDict [(''role'', PStr ''constraint and scoring evaluator'')]),
         (''PA-REPORT'', PDict [(''role'', PStr ''report generator'')])])
       (dset ''pending_alerts_n'' (PInt (int (length (pa_pending_alerts a))))
         (dset ''recent_strategies'' (PList (map PDict (last_n 4 (pa_strategy_log a))))
           (dset ''last_cnp_cycle'' (pa_last_cnp_cycle a)
             (dset ''cnp_rounds'' (PInt (int (pa_cnp_count a))) (base_agent_status planning_decision_dict s))))))"

end
