(* ===== verification/Mfg_Context.thy ===== *)
theory Mfg_Context
  imports Plant_Data Py_Text
begin

text \<open>
  \<open>mas/domain/manufacturing_context.py\<close> (the standard manufacturing context: identifiers,
  time axes and KPI slices built from a snapshot, and its contract check) and
  \<open>mas/domain/agent_snapshot.py\<close> (the snapshot an agent senses carries that context). The
  time of ingestion is supplied by the caller.
\<close>

section \<open>The contract's data\<close>

definition CONTEXT_CONTRACT_VERSION :: string where "CONTEXT_CONTRACT_VERSION = ''2.0''"

definition CONTEXT_REQUIRED_SECTIONS :: "string list" where
  "CONTEXT_REQUIRED_SECTIONS =
     [''contract_version'', ''identifiers'', ''temporal'', ''kpi_slices'', ''plant'', ''summary'']"

definition ROLE_CONTEXT_FIELDS :: "(string \<times> string list) list" where
  "ROLE_CONTEXT_FIELDS =
     (let common = [''plant'', ''identifiers'', ''temporal'', ''summary'', ''kpi_slices'']
      in [(''EA'', common), (''QA'', common), (''SA'', common), (''DA'', common), (''IA'', common),
          (''PA'', common @ [''meta''])])"

record identifier_contract =
  ic_site_id :: string
  ic_plant_id :: string
  ic_line_id :: string
  ic_cell_id :: string
  ic_station_ids :: "string list"
  ic_equipment_ids :: "string list"
  ic_material_skus :: "string list"
  ic_lot_ids :: "string list"
  ic_order_ids :: "string list"
  ic_shift_code :: string

record temporal_axes =
  tx_logical_clock_cycle :: int
  tx_sim_time_sec :: "real option"
  tx_event_time_utc_iso :: "string option"
  tx_ingest_time_utc_iso :: "string option"
  tx_display_clock :: "string option"

record kpi_slice_bundle =
  ks_line :: dict
  ks_by_station :: "(string \<times> dict) list"
  ks_by_shift :: dict
  ks_by_sku :: "(string \<times> dict) list"

record plant_ref =
  pr_schema_version :: string
  pr_site_id :: string
  pr_plant_id :: string
  pr_line_id :: string
  pr_cell_id :: string
  pr_snapshot_kind :: string

record factory_summary =
  fs_avg_oee :: "real option"
  fs_fg_stock :: int
  fs_total_produced :: int
  fs_scrap_count :: int
  fs_rework_count :: int
  fs_shift :: string

record manufacturing_context =
  mc_contract_version :: string
  mc_identifiers :: identifier_contract
  mc_temporal :: temporal_axes
  mc_kpi_slices :: kpi_slice_bundle
  mc_plant :: plant_ref
  mc_summary :: factory_summary
  mc_meta :: dict

definition opt_val :: "('a \<Rightarrow> pyval) \<Rightarrow> 'a option \<Rightarrow> pyval" where
  "opt_val f x = (case x of None \<Rightarrow> PNone | Some y \<Rightarrow> f y)"

definition str_list :: "string list \<Rightarrow> pyval" where
  "str_list xs = PList (map PStr xs)"

section \<open>Serialisation\<close>

definition context_to_dict :: "manufacturing_context \<Rightarrow> dict" where
  "context_to_dict c =
     (let i = mc_identifiers c; t = mc_temporal c; k = mc_kpi_slices c; p = mc_plant c; s = mc_summary c in
      [(''contract_version'', PStr (mc_contract_version c)),
       (''identifiers'', PDict
          [(''site_id'', PStr (ic_site_id i)), (''plant_id'', PStr (ic_plant_id i)), (''line_id'', PStr (ic_line_id i)),
           (''cell_id'', PStr (ic_cell_id i)), (''station_ids'', str_list (ic_station_ids i)),
           (''equipment_ids'', str_list (ic_equipment_ids i)), (''material_skus'', str_list (ic_material_skus i)),
           (''lot_ids'', str_list (ic_lot_ids i)), (''order_ids'', str_list (ic_order_ids i)),
           (''shift_code'', PStr (ic_shift_code i))]),
       (''temporal'', PDict
          [(''logical_clock_cycle'', PInt (tx_logical_clock_cycle t)), (''sim_time_sec'', opt_val PFloat (tx_sim_time_sec t)),
           (''event_time_utc_iso'', opt_val PStr (tx_event_time_utc_iso t)),
           (''ingest_time_utc_iso'', opt_val PStr (tx_ingest_time_utc_iso t)),
           (''display_clock'', opt_val PStr (tx_display_clock t))]),
       (''kpi_slices'', PDict
          [(''line'', PDict (ks_line k)), (''by_station'', PDict (map (\<lambda>(n, d). (n, PDict d)) (ks_by_station k))),
           (''by_shift'', PDict (ks_by_shift k)), (''by_sku'', PDict (map (\<lambda>(n, d). (n, PDict d)) (ks_by_sku k)))]),
       (''plant'', PDict
          [(''schema_version'', PStr (pr_schema_version p)), (''site_id'', PStr (pr_site_id p)),
           (''plant_id'', PStr (pr_plant_id p)), (''line_id'', PStr (pr_line_id p)), (''cell_id'', PStr (pr_cell_id p)),
           (''snapshot_kind'', PStr (pr_snapshot_kind p))]),
       (''summary'', PDict
          [(''avg_oee'', opt_val PFloat (fs_avg_oee s)), (''fg_stock'', PInt (fs_fg_stock s)),
           (''total_produced'', PInt (fs_total_produced s)), (''scrap_count'', PInt (fs_scrap_count s)),
           (''rework_count'', PInt (fs_rework_count s)), (''shift'', PStr (fs_shift s))]),
       (''meta'', PDict (mc_meta c))])"

section \<open>Building the context\<close>

definition opt_float :: "pyval \<Rightarrow> real option" where
  "opt_float v = (case py_float v of Inr x \<Rightarrow> Some x | Inl _ \<Rightarrow> None)"

definition station_kpi_slice :: "dict \<Rightarrow> dict" where
  "station_kpi_slice row =
     filter (\<lambda>(k, v). v \<noteq> PNone)
       [(''station_id'', dget_none row ''station_id''),
        (''oee'', if is_dict (dget_none row ''oee'') then dget_none row ''oee'' else PNone),
        (''yield'', dget_none row ''yield''), (''state'', dget_none row ''state'')]"

definition sorted_keys :: "dict \<Rightarrow> string list" where
  "sorted_keys d = sort_key (map of_char :: string \<Rightarrow> nat list) (map fst d)"

definition str_or :: "dict \<Rightarrow> string \<Rightarrow> string \<Rightarrow> string" where
  "str_or d k dflt = py_str (py_or (dget_none d k) (PStr dflt))"

definition int_or_zero :: "dict \<Rightarrow> string \<Rightarrow> int result" where
  "int_or_zero d k = py_int (py_or (dget_none d k) (PInt 0))"

definition context_identifiers :: "dict \<Rightarrow> dict \<Rightarrow> identifier_contract" where
  "context_identifiers snap ph =
     (let stations = dict_or_empty (dget_none snap ''stations'');
          sids = sorted_keys stations;
          row = (\<lambda>sid. dict_or_empty (dget_none stations sid));
          raw_lots = py_or (py_or (dget_none snap ''lot_ids'') (dget_none ph ''lot_ids'')) (PList [])
      in \<lparr> ic_site_id = str_or ph ''site_id'' DEFAULT_SITE_ID, ic_plant_id = str_or ph ''plant_id'' DEFAULT_PLANT_ID,
           ic_line_id = str_or ph ''line_id'' DEFAULT_LINE_ID, ic_cell_id = str_or ph ''cell_id'' DEFAULT_CELL_ID,
           ic_station_ids = sids,
           ic_equipment_ids = map (\<lambda>sid. let rid = dget_none (row sid) ''resource_id''
                                         in if py_truthy rid then py_str rid else sid) sids,
           ic_material_skus = sorted_keys (dict_or_empty (dget_none snap ''materials'')),
           ic_lot_ids = map py_str (list_or_empty raw_lots),
           ic_order_ids = concat (map (\<lambda>ov. case ov of
               PDict d \<Rightarrow> (if dget_none d ''id'' \<noteq> PNone then [py_str (dget_none d ''id'')] else []) | _ \<Rightarrow> [])
             (list_or_empty (dget_none snap ''orders''))),
           ic_shift_code = str_or snap ''shift'' ''-'' \<rparr>)"

definition context_temporal :: "dict \<Rightarrow> dict \<Rightarrow> string option \<Rightarrow> temporal_axes result" where
  "context_temporal snap ph ingest =
     bindR (py_int (py_or (py_or (dget_none snap ''cycle'') (dget_none ph ''logical_clock_cycle'')) (PInt 0))) (\<lambda>logical.
       let ev0 = dget_none ph ''event_time_utc_iso'';
           ev = (if ev0 = PNone then dget_none snap ''event_time_utc_iso'' else ev0)
       in Inr \<lparr> tx_logical_clock_cycle = logical, tx_sim_time_sec = opt_float (dget_none ph ''sim_time_sec''),
                tx_event_time_utc_iso = (if py_truthy ev then Some (py_str ev) else None),
                tx_ingest_time_utc_iso = ingest,
                tx_display_clock = (case dget_none snap ''clock'' of PStr c \<Rightarrow> Some c | _ \<Rightarrow> None) \<rparr>)"

definition context_by_station :: "dict \<Rightarrow> (string \<times> dict) list" where
  "context_by_station snap =
     (let stations = dict_or_empty (dget_none snap ''stations'')
      in map (\<lambda>sid. (sid, station_kpi_slice (dict_or_empty (dget_none stations sid)))) (sorted_keys stations))"

definition context_by_sku :: "dict \<Rightarrow> (string \<times> dict) list" where
  "context_by_sku snap =
     concat (map (\<lambda>(name, mv). case mv of
         PDict m \<Rightarrow> [(name, [(''stock'', dget_none m ''stock''), (''days_supply'', dget_none m ''days_supply''),
                            (''needs_reorder'', dget_none m ''needs_reorder''),
                            (''sku'', py_or (dget_none m ''sku'') (PStr name))])]
       | _ \<Rightarrow> []) (dict_or_empty (dget_none snap ''materials'')))"

definition from_factory_snapshot :: "dict \<Rightarrow> string option \<Rightarrow> manufacturing_context result" where
  "from_factory_snapshot snap ingest =
     (let ph = dict_or_empty (dget_none snap ''plant''); ids = context_identifiers snap ph;
          schema = str_or ph ''schema_version'' PLANT_SCHEMA_VERSION
      in bindR (context_temporal snap ph ingest) (\<lambda>temporal.
         bindR (int_or_zero snap ''fg_stock'') (\<lambda>fg.
         bindR (int_or_zero snap ''total_produced'') (\<lambda>total.
         bindR (int_or_zero snap ''scrap_count'') (\<lambda>scrap.
         bindR (int_or_zero snap ''rework_count'') (\<lambda>rework.
           let avg = opt_float (dget_none snap ''avg_oee'');
               line = [(''avg_oee'', opt_val PFloat avg), (''fg_stock'', PInt fg), (''total_produced'', PInt total),
                       (''scrap_count'', PInt scrap), (''rework_count'', PInt rework),
                       (''total_demand'', dget_none snap ''total_demand''),
                       (''total_delivered'', dget_none snap ''total_delivered'')];
               by_shift = [(''shift_code'', PStr (ic_shift_code ids)),
                           (''shift_skill'', opt_val PFloat (opt_float (dget_none snap ''shift_skill'')))]
           in Inr \<lparr> mc_contract_version = CONTEXT_CONTRACT_VERSION, mc_identifiers = ids, mc_temporal = temporal,
                mc_kpi_slices = \<lparr> ks_line = line, ks_by_station = context_by_station snap, ks_by_shift = by_shift,
                                  ks_by_sku = context_by_sku snap \<rparr>,
                mc_plant = \<lparr> pr_schema_version = schema, pr_site_id = ic_site_id ids, pr_plant_id = ic_plant_id ids,
                             pr_line_id = ic_line_id ids, pr_cell_id = ic_cell_id ids,
                             pr_snapshot_kind = str_or ph ''snapshot_kind'' ''simulation'' \<rparr>,
                mc_summary = \<lparr> fs_avg_oee = avg, fs_fg_stock = fg, fs_total_produced = total, fs_scrap_count = scrap,
                               fs_rework_count = rework, fs_shift = ic_shift_code ids \<rparr>,
                mc_meta = [(''orders_n'', PInt (int (length (list_or_empty (dget_none snap ''orders''))))),
                           (''wip_buffers_n'', PInt (int (length (list_or_empty (dget_none snap ''wip''))))),
                           (''plant_schema_version'', PStr schema)] \<rparr>))))))"

section \<open>The contract check\<close>

definition py_repr :: "pyval \<Rightarrow> string" where
  "py_repr v = (case v of PStr s \<Rightarrow> [CHR 0x27] @ s @ [CHR 0x27] | _ \<Rightarrow> py_str v)"

definition is_list_val :: "pyval \<Rightarrow> bool" where
  "is_list_val v \<longleftrightarrow> (case v of PList _ \<Rightarrow> True | _ \<Rightarrow> False)"

definition check_identifiers :: "pyval \<Rightarrow> string list" where
  "check_identifiers v = (case v of
      PDict i \<Rightarrow>
        map (\<lambda>k. ''identifiers.'' @ k @ '' is required'')
          (filter (\<lambda>k. \<not> py_truthy (dget_none i k)) [''site_id'', ''plant_id'', ''line_id'', ''cell_id'', ''shift_code''])
        @ map (\<lambda>k. ''identifiers.'' @ k @ '' must be a list'')
          (filter (\<lambda>k. \<not> is_list_val (dget_none i k))
            [''station_ids'', ''equipment_ids'', ''material_skus'', ''lot_ids'', ''order_ids''])
    | _ \<Rightarrow> [''identifiers must be an object''])"

definition check_temporal :: "pyval \<Rightarrow> string list" where
  "check_temporal v = (case v of
      PDict t \<Rightarrow> (if dget t ''logical_clock_cycle'' = None then [''temporal.logical_clock_cycle is required''] else [])
    | _ \<Rightarrow> [''temporal must be an object''])"

definition check_kpi_slices :: "pyval \<Rightarrow> string list" where
  "check_kpi_slices v = (case v of
      PDict k \<Rightarrow> map (\<lambda>n. ''kpi_slices.'' @ n @ '' must be an object'')
        (filter (\<lambda>n. \<not> is_dict (dget_none k n)) [''line'', ''by_station'', ''by_shift'', ''by_sku''])
    | _ \<Rightarrow> [''kpi_slices must be an object''])"

definition validate_context_dict :: "pyval \<Rightarrow> string list" where
  "validate_context_dict v = (case v of
      PDict payload \<Rightarrow>
        map (\<lambda>k. ''missing section: '' @ k) (filter (\<lambda>k. dget payload k = None) CONTEXT_REQUIRED_SECTIONS)
        @ (if dget_none payload ''contract_version'' \<noteq> PStr CONTEXT_CONTRACT_VERSION
           then [''unsupported contract_version: '' @ py_repr (dget_none payload ''contract_version'')] else [])
        @ check_identifiers (dget_none payload ''identifiers'')
        @ check_temporal (dget_none payload ''temporal'')
        @ check_kpi_slices (dget_none payload ''kpi_slices'')
    | _ \<Rightarrow> [''context must be a dict''])"

definition build_agent_context_view :: "dict \<Rightarrow> string \<Rightarrow> bool \<Rightarrow> dict" where
  "build_agent_context_view payload agent_id include_validation =
     (let fields = (case map_of ROLE_CONTEXT_FIELDS agent_id of Some fs \<Rightarrow> fs | None \<Rightarrow> CONTEXT_REQUIRED_SECTIONS);
          view = concat (map (\<lambda>k. case dget payload k of Some v \<Rightarrow> [(k, v)] | None \<Rightarrow> []) fields);
          kpi = dict_or_empty (dget_none payload ''kpi_slices'');
          by_station = PDict (dict_or_empty (dget_none kpi ''by_station''));
          by_sku = PDict (dict_or_empty (dget_none kpi ''by_sku''));
          focus = (if agent_id = ''EA'' then [(''station_health'', by_station)]
                   else if agent_id = ''QA'' then [(''quality_hotspots'', by_station)]
                   else if agent_id \<in> {''SA'', ''IA''} then [(''material_buffers'', by_sku)]
                   else if agent_id = ''DA'' then [(''delivery_summary'', dget_none payload ''summary'')]
                   else if agent_id = ''PA'' then [(''line_kpi'', dget_none kpi ''line''), (''stations'', by_station), (''materials'', by_sku)]
                   else []);
          view1 = dset ''role_focus'' (PDict focus) view
      in if include_validation then dset ''contract_validation'' (str_list (validate_context_dict (PDict payload))) view1
         else view1)"

section \<open>The snapshot an agent senses\<close>

definition enrich_snapshot_for_agents :: "dict \<Rightarrow> string \<Rightarrow> dict" where
  "enrich_snapshot_for_agents snap ingest =
     (case from_factory_snapshot snap (Some ingest) of
        Inr ctx \<Rightarrow>
          dset ''manufacturing_context_validation'' (str_list (validate_context_dict (PDict (context_to_dict ctx))))
            (dset ''manufacturing_context'' (PDict (context_to_dict ctx)) snap)
      | Inl _ \<Rightarrow>
          dset ''manufacturing_context_validation'' (str_list [''adapter_failed''])
            (dset ''manufacturing_context'' (PDict [(''contract_version'', PStr ''error''), (''error'', PStr ''adapter_failed'')]) snap))"

section \<open>Non-empty text\<close>

lemma show_nat_nonempty [simp]: "show_nat n \<noteq> []"
  by (subst show_nat.simps) simp

lemma py_str_truthy: "py_truthy v \<Longrightarrow> py_str v \<noteq> []"
  by (cases v) (auto simp: show_int_def repr_float_def fmt_fixed_def Let_def split: option.splits)

lemma str_or_nonempty: "dflt \<noteq> [] \<Longrightarrow> str_or d k dflt \<noteq> []"
  by (auto simp: str_or_def py_or_def dest: py_str_truthy)

text \<open>Every context built from a snapshot satisfies the contract it is checked against.\<close>

lemma built_context_valid:
  assumes "from_factory_snapshot snap ingest = Inr ctx"
  shows "validate_context_dict (PDict (context_to_dict ctx)) = []"
proof -
  let ?d = "context_to_dict ctx" and ?ph = "dict_or_empty (dget_none snap ''plant'')"
  have v: "mc_contract_version ctx = CONTEXT_CONTRACT_VERSION" and i: "mc_identifiers ctx = context_identifiers snap ?ph"
    using assms by (auto simp: from_factory_snapshot_def bindR_Inr_iff Let_def)
  have ne: "ic_site_id (mc_identifiers ctx) \<noteq> []" "ic_plant_id (mc_identifiers ctx) \<noteq> []" "ic_line_id (mc_identifiers ctx) \<noteq> []"
      "ic_cell_id (mc_identifiers ctx) \<noteq> []" "ic_shift_code (mc_identifiers ctx) \<noteq> []"
    unfolding i by (simp_all add: context_identifiers_def Let_def str_or_nonempty DEFAULT_SITE_ID_def
        DEFAULT_PLANT_ID_def DEFAULT_LINE_ID_def DEFAULT_CELL_ID_def)
  have s: "filter (\<lambda>k. dget ?d k = None) CONTEXT_REQUIRED_SECTIONS = []"
    by (simp add: CONTEXT_REQUIRED_SECTIONS_def context_to_dict_def dget_def Let_def)
  have c: "dget_none ?d ''contract_version'' = PStr CONTEXT_CONTRACT_VERSION"
    by (simp add: context_to_dict_def dget_none_def dget_or_def v Let_def)
  have ids: "check_identifiers (dget_none ?d ''identifiers'') = []"
    using ne by (simp add: context_to_dict_def dget_none_def dget_or_def check_identifiers_def is_list_val_def str_list_def Let_def)
  have t: "check_temporal (dget_none ?d ''temporal'') = []"
    by (simp add: context_to_dict_def dget_none_def dget_or_def check_temporal_def dget_def Let_def)
  have k: "check_kpi_slices (dget_none ?d ''kpi_slices'') = []"
    by (simp add: context_to_dict_def dget_none_def dget_or_def check_kpi_slices_def Let_def)
  show ?thesis using s c ids t k by (simp add: validate_context_dict_def)
qed

end
