(* ===== verification/Planning_Laws.thy ===== *)
theory Planning_Laws
  imports Planning Cnp_Laws Mfg_Context
begin

text \<open>
  What the planning agent guarantees: when it opens a contract net round, that a round
  always concludes with a strategy inside the session's limits, that every participant is
  heard when the deadline does not pass, and what the language model client keeps in its
  logs.
\<close>

section \<open>Evaluated proposals\<close>

lemma dget_none_of: "dget d k = Some v \<Longrightarrow> dget_none d k = v"
  by (simp add: dget_none_def dget_or_dget)

lemma py_or_dict [simp]: "as_dict (py_or (PDict d) (PDict [])) = Inr d"
  by (simp add: py_or_def)

lemma normalized_numbers:
  "k \<in> {''expected_effect'', ''expected_cost'', ''quality_risk'', ''confidence'', ''constraint_violation''}
    \<Longrightarrow> \<exists>x. dget (normalize_comparison_metrics raw) k = Some (PFloat x)"
  by (auto simp: normalize_comparison_metrics_def Let_def dget_def float_default_def)

lemma normalized_float:
  assumes "k \<in> {''expected_effect'', ''expected_cost'', ''quality_risk'', ''confidence'', ''constraint_violation''}"
  shows "\<exists>y. float_or (normalize_comparison_metrics raw) k z = Inr y"
proof -
  obtain x where "dget (normalize_comparison_metrics raw) k = Some (PFloat x)" using normalized_numbers [OF assms] ..
  then show ?thesis by (simp add: float_or_def dget_none_of py_or_def)
qed

lemma comparison_score_total: "\<exists>x. comparison_score (normalize_comparison_metrics raw) = Inr x"
proof -
  have "(\<exists>a. float_or (normalize_comparison_metrics raw) ''expected_effect'' (1 / 2) = Inr a)
      \<and> (\<exists>b. float_or (normalize_comparison_metrics raw) ''expected_cost'' (1 / 2) = Inr b)
      \<and> (\<exists>c. float_or (normalize_comparison_metrics raw) ''quality_risk'' (3 / 10) = Inr c)
      \<and> (\<exists>d. float_or (normalize_comparison_metrics raw) ''confidence'' (7 / 10) = Inr d)"
    by (intro conjI normalized_float) simp_all
  then obtain a b c d where "float_or (normalize_comparison_metrics raw) ''expected_effect'' (1 / 2) = Inr a"
      "float_or (normalize_comparison_metrics raw) ''expected_cost'' (1 / 2) = Inr b"
      "float_or (normalize_comparison_metrics raw) ''quality_risk'' (3 / 10) = Inr c"
      "float_or (normalize_comparison_metrics raw) ''confidence'' (7 / 10) = Inr d" by blast
  then show ?thesis by (simp add: comparison_score_def)
qed

text \<open>
  What ranking, the strategy and the reports need of a proposal: its speed is an integer of
  the session's range, its agent is one of \<open>A\<close>, its comparison block is a normalised one, its sub-scores convert.
\<close>

definition sound_proposal :: "pyval set \<Rightarrow> dict \<Rightarrow> bool" where
  "sound_proposal A p \<longleftrightarrow>
     (\<exists>a\<in>A. dget p ''agent'' = Some a)
     \<and> (\<exists>sp. dget p ''speed_recommendation'' = Some (PInt sp) \<and> 40 \<le> sp \<and> sp \<le> 100)
     \<and> (\<exists>raw. dget p ''comparison'' = Some (PDict (normalize_comparison_metrics raw)))
     \<and> (\<exists>x. dget p ''total_score'' = Some (PFloat x))
     \<and> (\<exists>b. business_score DEFAULT_KPI_WEIGHTS (dict_or_empty (dget_none p ''scores'')) = Inr b)"

lemma evaluated_fields:
  assumes "evaluate_proposal c w raw = Inr p"
  shows "dget p ''comparison'' = Some (PDict (normalize_comparison_metrics raw))"
    and "\<exists>x. dget p ''total_score'' = Some (PFloat x)"
    and "k \<notin> {''comparison'', ''total_score'', ''constraint_status'', ''constraint_penalty'', ''comparison_score'', ''business_score''}
      \<Longrightarrow> dget p k = dget raw k"
proof -
  obtain b c' v nt where p: "p = dset ''total_score'' (PFloat (py_round 4 (final_score b c' v)))
               (dset ''constraint_status'' (PStr nt)
               (dset ''constraint_penalty'' (PFloat (py_round 4 v))
               (dset ''comparison_score'' (PFloat (py_round 4 c'))
               (dset ''business_score'' (PFloat (py_round 4 b)) (merge_into_proposal raw)))))"
    using assms by (auto simp: evaluate_proposal_def Let_def bindR_Inr_iff)
  show "dget p ''comparison'' = Some (PDict (normalize_comparison_metrics raw))"
    "\<exists>x. dget p ''total_score'' = Some (PFloat x)"
    "k \<notin> {''comparison'', ''total_score'', ''constraint_status'', ''constraint_penalty'', ''comparison_score'', ''business_score''}
      \<Longrightarrow> dget p k = dget raw k"
    by (auto simp: p merge_into_proposal_def)
qed

lemma KPI_is_default: "KPI_WEIGHTS = DEFAULT_KPI_WEIGHTS"
  by (simp add: KPI_WEIGHTS_def DEFAULT_KPI_WEIGHTS_def)

lemma penalty_total:
  assumes "dget p ''speed_recommendation'' = Some (PInt sp)" "40 \<le> sp"
    and "dget p ''comparison'' = Some (PDict (normalize_comparison_metrics raw))"
  shows "\<exists>v. constraint_penalty p (Some (constraints_dict default_constraints)) = Inr v"
proof -
  have sp: "py_or (py_or (dget_none p ''speed_recommendation'') x) y = PInt sp" for x y
    using assms(1,2) by (simp add: dget_none_of py_or_def)
  have lim: "int_or (constraints_dict default_constraints) ''speed_min_pct'' 40 = Inr 40"
      "int_or (constraints_dict default_constraints) ''speed_max_pct'' 100 = Inr 100"
      "constraints_dict default_constraints \<noteq> []"
    by (simp_all add: constraints_dict_def default_constraints_def int_or_def dget_none_def dget_or_def py_or_def)
  obtain v where "float_or (normalize_comparison_metrics raw) ''constraint_violation'' 0 = Inr v"
    using normalized_float [of "''constraint_violation''"] by auto
  then show ?thesis
    by (simp add: constraint_penalty_def score_against_constraints_def lim sp Let_def dget_none_of [OF assms(3)])
qed

lemma evaluate_total:
  assumes "dget raw ''speed_recommendation'' = Some (PInt sp)" "40 \<le> sp"
    and "w = None \<or> w = Some KPI_WEIGHTS"
    and b: "business_score DEFAULT_KPI_WEIGHTS (dict_or_empty (dget_none raw ''scores'')) = Inr b"
  shows "\<exists>p. evaluate_proposal (Some (constraints_dict default_constraints)) w raw = Inr p"
proof -
  let ?out = "merge_into_proposal raw"
  have w: "(case w of Some w \<Rightarrow> if w \<noteq> [] then w else DEFAULT_KPI_WEIGHTS | None \<Rightarrow> DEFAULT_KPI_WEIGHTS) = DEFAULT_KPI_WEIGHTS"
    using assms(3) by (auto simp: KPI_is_default)
  have s: "dget_none ?out ''scores'' = dget_none raw ''scores''" by (simp add: merge_into_proposal_def dget_none_def)
  have c: "dget_none ?out ''comparison'' = PDict (normalize_comparison_metrics raw)"
    by (simp add: merge_into_proposal_def dget_none_def)
  obtain v where v: "constraint_penalty ?out (Some (constraints_dict default_constraints)) = Inr v"
    using penalty_total [of ?out sp raw] assms(1,2) by (auto simp: merge_into_proposal_def)
  obtain x where x: "comparison_score (normalize_comparison_metrics raw) = Inr x" using comparison_score_total by blast
  show ?thesis unfolding evaluate_proposal_def Let_def w s c dict_or_empty.simps b x v bindR_simps
    by (simp add: case_prod_unfold)
qed

lemma evaluated_sound:
  assumes "evaluate_proposal c w raw = Inr p" "w = None \<or> w = Some KPI_WEIGHTS"
    and "dget raw ''speed_recommendation'' = Some (PInt sp)" "40 \<le> sp" "sp \<le> 100" "dget raw ''agent'' = Some a" "a \<in> A"
  shows "sound_proposal A p"
proof -
  have w: "(case w of Some w \<Rightarrow> if w \<noteq> [] then w else DEFAULT_KPI_WEIGHTS | None \<Rightarrow> DEFAULT_KPI_WEIGHTS) = DEFAULT_KPI_WEIGHTS"
    using assms(2) by (auto simp: KPI_is_default)
  have s: "dget_none (merge_into_proposal raw) ''scores'' = dget_none raw ''scores''"
    by (simp add: merge_into_proposal_def dget_none_def)
  obtain b where b: "business_score DEFAULT_KPI_WEIGHTS (dict_or_empty (dget_none raw ''scores'')) = Inr b"
    using assms(1) by (auto simp: evaluate_proposal_def Let_def w s bindR_Inr_iff)
  have "dget p ''scores'' = dget raw ''scores''" "dget p ''speed_recommendation'' = dget raw ''speed_recommendation''"
      "dget p ''agent'' = dget raw ''agent''"
    using evaluated_fields(3) [OF assms(1)] by auto
  then show ?thesis
    using evaluated_fields(1,2) [OF assms(1)] assms(3-7) b
    by (auto simp: sound_proposal_def dget_none_def dget_or_dget)
qed

section \<open>Collection and ranking\<close>

definition open_session :: "cnp_world \<Rightarrow> cnp_session" where
  "open_session w = snd (begin_session (cw_uuid w) (cw_start w) (new_session None))"

lemma open_session_constraints [simp]: "cs_constraints (open_session w) = default_constraints"
  by (simp add: open_session_def begin_session_def new_session_def Let_def)

lemma default_limits [simp]: "cc_speed_min_pct default_constraints = 40" "cc_speed_max_pct default_constraints = 100"
  by (simp_all add: default_constraints_def)

lemma taken_sound:
  assumes "take_proposal (open_session w) c raw = Inr p" "dget raw ''agent'' = Some a" "a \<in> A"
  shows "sound_proposal A p"
proof -
  obtain sp0 where "evaluate_proposal (Some c) (Some KPI_WEIGHTS)
      (dset ''speed_recommendation'' (PInt (max 40 (min 100 sp0))) raw) = Inr p"
    using assms by (auto simp: take_proposal_def bindR_Inr_iff Let_def)
  then show ?thesis by (rule evaluated_sound) (use assms(2,3) in auto)
qed

lemma bid_agent: "dget (member_bid m) ''agent'' = Some (PStr (member_id m))"
  by (cases m) (simp_all add: sa_handle_cfp_def da_handle_cfp_def ia_handle_cfp_def ea_handle_cfp_def qa_handle_cfp_def
      merge_into_proposal_def dget_def Let_def dset_def)

lemma bid_not_empty [simp]: "member_bid m \<noteq> []"
  using bid_agent [of m] by (auto simp: dget_def)

lemma collected_sound:
  assumes "collect_proposals w me i (open_session v) c ms acc = Some ps" "\<forall>p\<in>set acc. sound_proposal A p"
    and "\<forall>m\<in>set ms. PStr (member_id m) \<in> A"
  shows "\<forall>p\<in>set ps. sound_proposal A p"
  using assms
proof (induction ms arbitrary: i acc)
  case (Cons m ms)
  show ?case
  proof (cases "member_id m = me")
    case False
    have t: "\<forall>p\<in>set (case take_proposal (open_session v) c (member_bid m) of Inr p \<Rightarrow> acc @ [p] | Inl _ \<Rightarrow> acc). sound_proposal A p"
      using taken_sound [of v c "member_bid m", OF _ bid_agent] Cons.prems(2,3) by (auto split: sum.split)
    show ?thesis
      using Cons.IH [OF _ t, of "Suc i"] Cons.IH [OF _ Cons.prems(2), of "Suc i"] Cons.prems(1,3) False
      by (auto split: if_splits)
  qed (use Cons in auto)
qed simp

lemma dicts_of_map [simp]: "dicts_of (map PDict ps) = ps"
  by (induction ps) auto

lemma ranked_sound:
  assumes "\<forall>p\<in>set ps. sound_proposal A p" "ps \<noteq> []"
  shows "\<exists>ranked. rank_proposals_by_comparison (Some (constraints_dict default_constraints)) (map PDict ps) = Inr ranked
     \<and> ranked \<noteq> [] \<and> length ranked = length ps \<and> (\<forall>p\<in>set ranked. sound_proposal A p)"
proof -
  let ?ev = "evaluate_proposal (Some (constraints_dict default_constraints)) None"
  have one: "\<exists>q. ?ev p = Inr q \<and> sound_proposal A q" if p: "p \<in> set ps" for p
  proof -
    obtain sp b where "dget p ''speed_recommendation'' = Some (PInt sp)" "40 \<le> sp" "sp \<le> 100"
        "business_score DEFAULT_KPI_WEIGHTS (dict_or_empty (dget_none p ''scores'')) = Inr b"
      using assms(1) p unfolding sound_proposal_def by blast
    moreover obtain a where "dget p ''agent'' = Some a" "a \<in> A"
      using assms(1) p unfolding sound_proposal_def by blast
    ultimately show ?thesis using evaluate_total [of p sp None b] evaluated_sound [of _ None p _ sp a] by blast
  qed
  then obtain g where g: "\<And>p. p \<in> set ps \<Longrightarrow> ?ev p = Inr (g p) \<and> sound_proposal A (g p)" by metis
  have m: "mapR ?ev ps = Inr (map g ps)" by (rule mapR_all_Inr) (simp add: g)
  have s: "set (sorted_desc rank_key_of (map g ps)) = g ` set ps" by (simp add: proposal_ranking.rank_set)
  show ?thesis using g assms(2)
    by (simp add: rank_proposals_by_comparison_def m s proposal_ranking.rank_length proposal_ranking.rank_nonempty)
qed

section \<open>The strategy\<close>

definition speed_set :: "pyval set \<Rightarrow> dict \<Rightarrow> bool" where
  "speed_set A st \<longleftrightarrow> (\<exists>a\<in>A. dget st ''best_agent'' = Some a) \<and> (\<exists>sp. dget st ''target_speed_pct'' = Some (PInt sp) \<and> 40 \<le> sp \<and> sp \<le> 100)"

lemma speed_set_dset [simp]: "k \<notin> {''target_speed_pct'', ''best_agent''} \<Longrightarrow> speed_set A (dset k v st) = speed_set A st"
  by (auto simp: speed_set_def)

lemma speed_set_dsetdefault [simp]: "k \<notin> {''target_speed_pct'', ''best_agent''} \<Longrightarrow> speed_set A (dsetdefault k v st) = speed_set A st"
  using dget_dsetdefault_other [of _ k v st] by (auto simp: speed_set_def)

lemma merge_keeps_speed:
  assumes "speed_set A numeric" shows "speed_set A (merge_numeric_and_rationale numeric part)"
proof -
  let ?step = "\<lambda>(k, v) out. if k \<in> set NUMERIC_KEYS then out
                     else if k = ''target_speed_pct'' \<or> k = ''best_score'' then out else dset k v out"
  have f: "speed_set A (fold ?step kvs d) = speed_set A d" for kvs d
  proof (induction kvs arbitrary: d)
    case (Cons kv kvs)
    have "speed_set A (?step kv d) = speed_set A d" by (cases kv) (simp add: NUMERIC_KEYS_def)
    then show ?case using Cons.IH by simp
  qed simp
  show ?thesis
  proof (cases part)
    case None
    then show ?thesis using assms by (simp add: merge_numeric_and_rationale_def)
  next
    case (Some kvs)
    then show ?thesis using assms f by (cases kvs) (simp_all add: merge_numeric_and_rationale_def del: fold.simps)
  qed
qed

lemma numeric_speed:
  assumes "cnp_numeric_strategy ps = Inr st" "ps \<noteq> []" "\<forall>p\<in>set ps. sound_proposal A p"
  shows "speed_set A st"
proof -
  obtain ks where ks: "mapR (\<lambda>p. bindR (total_score_or_0 p) (\<lambda>k. Inr (k, p))) ps = Inr ks"
    using assms(1,2) by (auto simp: cnp_numeric_strategy_def bindR_Inr_iff)
  have k: "snd ` set ks \<subseteq> set ps" "ks \<noteq> []"
    using ks assms(2) by (induction ps arbitrary: ks) (fastforce simp: bindR_Inr_iff)+
  let ?best = "snd (hd (sorted_desc fst ks))"
  have "?best \<in> set ps" using numeric_ranking.rank_best(1) [OF k(2)] k(1) by blast
  then obtain a where "dget_or ?best ''agent'' (PStr []) = a" "a \<in> A"
    using assms(3) by (auto simp: sound_proposal_def dget_or_dget)
  then show ?thesis using assms(1,2) ks
    by (auto simp: cnp_numeric_strategy_def bindR_Inr_iff Let_def speed_set_def dget_def)
qed

lemma llm_evaluate_speed:
  assumes "llm_evaluate remote loads k ctx ps c = (Inr (Some st), c1)" "\<forall>p\<in>set ps. sound_proposal A p"
  shows "speed_set A st"
proof -
  have ne: "ps \<noteq> []" using assms(1) by (auto simp: llm_evaluate_def)
  then obtain numeric where n: "cnp_numeric_strategy ps = Inr numeric"
    using assms(1) by (cases "cnp_numeric_strategy ps") (auto simp: llm_evaluate_def)
  have sp: "speed_set A (merge_numeric_and_rationale numeric part)" for part
    by (rule merge_keeps_speed [OF numeric_speed [OF n ne assms(2)]])
  have "numeric \<noteq> []" using assms(1) ne n by (auto simp: llm_evaluate_def)
  then obtain rat c2 where
    "bindR (case rat of None \<Rightarrow> Inr None
        | Some v \<Rightarrow> if py_truthy v then bindR (as_dict v) (\<lambda>d. Inr (Some d)) else Inr None) (\<lambda>part.
      Inr (Some (dset ''prompt_suite_version'' (PStr PROMPT_SUITE_VERSION)
        (dset ''decision'' (PStr (if lc_enabled c \<and> part \<noteq> None then ''hybrid_solver_llm'' else ''solver_only''))
          (merge_numeric_and_rationale numeric part))))) = Inr (Some st)"
    using assms(1) ne n by (auto simp: llm_evaluate_def split: sum.splits)
  then obtain part d where "st = dset ''prompt_suite_version'' (PStr PROMPT_SUITE_VERSION)
      (dset ''decision'' d (merge_numeric_and_rationale numeric part))"
    unfolding bindR_Inr_iff by blast
  then show ?thesis using sp by simp
qed

lemma rules_speed:
  assumes "\<forall>p\<in>set ps. sound_proposal A p" "ps \<noteq> []" shows "speed_set A (build_strategy_rules n ps)"
proof -
  obtain p ps' where ps: "ps = p # ps'" using assms(2) by (cases ps) auto
  then obtain sp where "dget p ''speed_recommendation'' = Some (PInt sp)" "40 \<le> sp" "sp \<le> 100"
    using assms(1) by (auto simp: sound_proposal_def)
  moreover obtain a where "dget p ''agent'' = Some a" "a \<in> A" using assms(1) ps by (auto simp: sound_proposal_def)
  ultimately show ?thesis by (auto simp: build_strategy_rules_def ps Let_def speed_set_def dget_def dget_or_def)
qed

lemma llm_strategy_speed:
  assumes "\<forall>p\<in>set ps. sound_proposal A p" "ps \<noteq> []" shows "speed_set A (fst (build_strategy_llm w n ps snap c))"
proof (cases "build_llm_context snap")
  case Inl
  then show ?thesis using rules_speed [OF assms] by (simp add: build_strategy_llm_def)
next
  case (Inr ctx)
  obtain r c1 where r: "llm_evaluate (cw_remote w) (cw_loads w) (cw_call_clock w) ctx ps c = (r, c1)"
    by (cases "llm_evaluate (cw_remote w) (cw_loads w) (cw_call_clock w) ctx ps c")
  have s: "speed_set A st" if "r = Inr (Some st)" for st using llm_evaluate_speed [OF _ assms(1)] r that by blast
  show ?thesis using Inr r s rules_speed [OF assms]
    by (simp add: build_strategy_llm_def split: sum.split option.split)
qed

lemma strategy_speed:
  assumes "\<forall>p\<in>set ps. sound_proposal A p" "ps \<noteq> []" shows "speed_set A (fst (build_strategy w ps snap a))"
proof (cases "pa_llm a")
  case None
  then show ?thesis using rules_speed [OF assms] by (simp add: build_strategy_def)
next
  case (Some c)
  then show ?thesis using rules_speed [OF assms] llm_strategy_speed [OF assms]
    by (simp add: build_strategy_def Let_def case_prod_unfold)
qed

lemma strategy_keeps_agent:
  "snd (build_strategy w ps snap a) = a\<lparr>pa_llm := pa_llm (snd (build_strategy w ps snap a))\<rparr>"
  by (cases "pa_llm a") (simp_all add: build_strategy_def Let_def case_prod_unfold)

text \<open>The clamp leaves such a strategy's speed alone and decides the approval.\<close>

lemma clamp_speed_set:
  assumes "speed_set A st"
  shows "\<exists>st' sp. clamp_strategy (open_session w) st = Inr st' \<and> dget st' ''target_speed_pct'' = Some (PInt sp)
     \<and> dget st ''target_speed_pct'' = Some (PInt sp) \<and> 40 \<le> sp \<and> sp \<le> 100
     \<and> dget st' ''approval_required'' = Some (PBool (sp < 70 \<or> full_inspection (dget_or st ''inspection_mode'' (PStr ''''))))
     \<and> (\<forall>k. k \<notin> {''target_speed_pct'', ''constraints_applied'', ''protocol_version'', ''conversation_id'', ''approval_required''}
          \<longrightarrow> dget st' k = dget st k)"
proof -
  obtain sp where sp: "dget st ''target_speed_pct'' = Some (PInt sp)" "40 \<le> sp" "sp \<le> 100"
    using assms by (auto simp: speed_set_def)
  have i: "speed_or_100 (dget_or st ''target_speed_pct'' (PInt 100)) = Inr sp" and m: "max 40 (min 100 sp) = sp"
    using sp by (simp_all add: speed_or_100_def except_type_value_def dget_or_dget)
  show ?thesis using sp(2,3) by (simp add: clamp_strategy_def i m Let_def sp(1))
qed

section \<open>The decision card and the report\<close>

lemma comparison_of_sound: "sound_proposal A p \<Longrightarrow> \<exists>raw. comparison_of p = Inr (normalize_comparison_metrics raw)"
  unfolding sound_proposal_def comparison_of_def by (auto simp: dget_none_of)

lemma alternatives_total: "\<forall>p\<in>set ps. sound_proposal A p \<Longrightarrow> \<exists>rs. card_alternatives i ps = Inr rs"
proof (induction ps arbitrary: i)
  case (Cons p ps)
  obtain raw where c: "comparison_of p = Inr (normalize_comparison_metrics raw)"
    using comparison_of_sound [of A p] Cons.prems by auto
  obtain rs where "card_alternatives (Suc i) ps = Inr rs" using Cons by auto
  then show ?case by (simp add: c)
qed simp

definition has_identifiers :: "dict \<Rightarrow> bool" where
  "has_identifiers snap \<longleftrightarrow> (\<exists>d. as_dict (py_or (case dget_none snap ''manufacturing_context'' of
       PDict mc \<Rightarrow> dget_none mc ''identifiers'' | _ \<Rightarrow> PDict []) (PDict [])) = Inr d)"

lemma enriched_has_identifiers: "has_identifiers (enrich_snapshot_for_agents snap ingest)"
proof (cases "from_factory_snapshot snap (Some ingest)")
  case (Inl e)
  then show ?thesis
    by (simp add: has_identifiers_def enrich_snapshot_for_agents_def dget_none_def dget_or_def [of "_ # _"] py_or_def)
next
  case (Inr ctx)
  have "\<exists>d. dget_none (context_to_dict ctx) ''identifiers'' = PDict d"
    by (simp add: context_to_dict_def Let_def dget_none_def dget_or_def)
  then show ?thesis using Inr
    by (auto simp: has_identifiers_def enrich_snapshot_for_agents_def dget_none_def)
qed

lemma card_total:
  assumes "\<forall>p\<in>set ps. sound_proposal A p" "has_identifiers snap"
  shows "\<exists>card. from_cnp_strategy situation ps st snap = Inr card"
proof (cases ps)
  case Nil
  then show ?thesis by (simp add: from_cnp_strategy_def)
next
  case (Cons p ps')
  obtain raw where c: "comparison_of p = Inr (normalize_comparison_metrics raw)"
    using comparison_of_sound [of A p] assms(1) Cons by auto
  have "\<forall>q\<in>set (take 2 ps'). sound_proposal A q" using assms(1) Cons by (auto dest: in_set_takeD)
  then obtain rs where a: "card_alternatives 2 (take 2 ps') = Inr rs" using alternatives_total by blast
  obtain d where d: "as_dict (py_or (case dget_none snap ''manufacturing_context'' of
       PDict mc \<Rightarrow> dget_none mc ''identifiers'' | _ \<Rightarrow> PDict []) (PDict [])) = Inr d"
    using assms(2) unfolding has_identifiers_def by blast
  show ?thesis by (simp add: from_cnp_strategy_def Cons c a d Let_def)
qed

lemma report_total:
  assumes "\<forall>p\<in>set ps. sound_proposal A p"
  shows "\<exists>lines. build_pa_report_lines st ps = Inr lines"
proof (cases ps)
  case Nil
  then show ?thesis by (simp add: build_pa_report_lines_def Let_def dget_none_def dget_or_def)
next
  case (Cons p ps')
  then obtain raw where c: "dget_none p ''comparison'' = PDict (normalize_comparison_metrics raw)"
    using assms by (auto simp: sound_proposal_def dest: dget_none_of)
  obtain x where "dget (normalize_comparison_metrics raw) ''confidence'' = Some (PFloat x)"
    using normalized_numbers [of "''confidence''"] by auto
  then have "fmt_fixed_val 2 (dget_or (normalize_comparison_metrics raw) ''confidence'' (PInt 0)) = Inr (fmt_fixed 2 x)"
    by (simp add: dget_or_dget)
  then show ?thesis by (simp add: build_pa_report_lines_def Cons Let_def c)
qed

lemma settle_total:
  assumes "\<forall>p\<in>set ps. sound_proposal A p" "ps \<noteq> []" "has_identifiers snap"
  shows "\<exists>st sp card lines. settle_strategy w (open_session v) situation ps snap a
           = (Inr st, a\<lparr>pa_llm := pa_llm (snd (build_strategy w ps snap a))\<rparr>)
       \<and> dget st ''target_speed_pct'' = Some (PInt sp)
       \<and> dget (fst (build_strategy w ps snap a)) ''target_speed_pct'' = Some (PInt sp) \<and> 40 \<le> sp \<and> sp \<le> 100
       \<and> dget st ''approval_required'' = Some (PBool (sp < 70 \<or> full_inspection (dget_or st ''inspection_mode'' (PStr ''''))))
       \<and> dget st ''operational_decision_card'' = Some (PDict card) \<and> dget st ''pa_report_lines'' = Some (PList lines)
       \<and> (\<forall>k. k \<notin> {''target_speed_pct'', ''constraints_applied'', ''protocol_version'', ''conversation_id'', ''approval_required'',
                    ''operational_decision_card'', ''pa_report_lines''}
            \<longrightarrow> dget st k = dget (fst (build_strategy w ps snap a)) k)"
proof -
  define st0 where "st0 = fst (build_strategy w ps snap a)"
  have s0: "speed_set A st0" unfolding st0_def by (rule strategy_speed [OF assms(1,2)])
  obtain st1 sp where st1: "clamp_strategy (open_session v) st0 = Inr st1" "dget st1 ''target_speed_pct'' = Some (PInt sp)"
      "dget st0 ''target_speed_pct'' = Some (PInt sp)" "40 \<le> sp" "sp \<le> 100"
      "dget st1 ''approval_required'' = Some (PBool (sp < 70 \<or> full_inspection (dget_or st0 ''inspection_mode'' (PStr ''''))))"
      "\<forall>k. k \<notin> {''target_speed_pct'', ''constraints_applied'', ''protocol_version'', ''conversation_id'', ''approval_required''}
          \<longrightarrow> dget st1 k = dget st0 k"
    using clamp_speed_set [OF s0] by blast
  obtain card where card: "from_cnp_strategy situation ps st1 snap = Inr card" using card_total [OF assms(1,3)] by blast
  let ?st2 = "dset ''operational_decision_card'' (PDict card) st1"
  obtain lines where lines: "build_pa_report_lines ?st2 ps = Inr lines" using report_total [OF assms(1)] by blast
  let ?st = "dset ''pa_report_lines'' (PList (map PStr lines)) ?st2"
  have b: "build_strategy w ps snap a = (st0, a\<lparr>pa_llm := pa_llm (snd (build_strategy w ps snap a))\<rparr>)"
    unfolding st0_def using strategy_keeps_agent [of w ps snap a] by (metis prod.collapse)
  have e: "settle_strategy w (open_session v) situation ps snap a
      = (Inr ?st, a\<lparr>pa_llm := pa_llm (snd (build_strategy w ps snap a))\<rparr>)"
    unfolding settle_strategy_def by (subst b) (simp add: st1(1) card lines)
  have m: "dget_or st1 ''inspection_mode'' x = dget_or st0 ''inspection_mode'' x" for x
    using st1(7) by (simp add: dget_or_dget)
  show ?thesis
    by (rule exI [of _ ?st], rule exI [of _ sp], rule exI [of _ card], rule exI [of _ "map PStr lines"])
       (simp add: e m st0_def [symmetric] st1)
qed

section \<open>One round\<close>

definition bidders :: "string \<Rightarrow> member list \<Rightarrow> member list" where
  "bidders me ms = filter (\<lambda>m. member_id m \<noteq> me) ms"

lemma member_execute_id: "member_execute p m = Inr m' \<Longrightarrow> member_id m' = member_id m"
proof (cases m)
  case (M_EA a)
  assume "member_execute p m = Inr m'"
  then obtain s where s: "ea_execute_accepted p (a, None) = Inr s" "m' = M_EA (fst s)"
    using M_EA by (auto simp: bindR_Inr_iff)
  then have "ag_id (fst s) = ag_id a"
    unfolding ea_execute_accepted_def bindR_Inr_iff
    by (elim exE conjE, elim foldR_invariant) (auto simp: bindR_Inr_iff log_reasoning_def with_agent_def)
  then show ?thesis using s M_EA by simp
next
  case (M_QA a)
  assume "member_execute p m = Inr m'"
  then show ?thesis using M_QA
    by (auto simp: qa_execute_accepted_def bindR_Inr_iff log_reasoning_def set_mode_def with_agent_def split: pyval.splits)
qed (auto simp: sa_execute_accepted_def da_execute_accepted_def ia_execute_accepted_def log_reasoning_def with_agent_def)

lemma execute_accepted_ids: "map member_id (execute_accepted me ps ms) = map member_id ms"
  by (auto simp: execute_accepted_def split: option.split sum.split dest: member_execute_id)

text \<open>Only the bidders matter to the collection.\<close>

lemma collect_bidders:
  "collect_proposals w me i v c ms acc = Some ps \<Longrightarrow> collect_proposals w me i v c (bidders me ms) acc = Some ps"
  by (induction ms arbitrary: i acc) (auto simp: bidders_def split: if_splits)

lemma begin_session_id: "fst (begin_session (cw_uuid w) (cw_start w) (new_session None)) = cs_conversation_id (open_session w)"
  by (simp add: open_session_def begin_session_def Let_def)

lemma begin_cnp_fields [simp]:
  "ag_id (fst (begin_cnp snap s)) = ag_id (fst s)"
  "pa_cnp_count (fst (begin_cnp snap s)) = Suc (pa_cnp_count (fst s))"
  "pa_last_cnp_cycle (fst (begin_cnp snap s)) = dget_or snap ''cycle'' (PInt 0)"
  "pa_strategy_log (fst (begin_cnp snap s)) = pa_strategy_log (fst s)"
  "pa_pending_alerts (fst (begin_cnp snap s)) = pa_pending_alerts (fst s)"
  "pa_llm (fst (begin_cnp snap s)) = pa_llm (fst s)"
  by (simp_all add: begin_cnp_def with_agent_def)

lemma broadcast_agent [simp]: "fst (broadcast_cfp interf w v t summary s) = fst s"
  by (simp add: broadcast_cfp_def)

lemma round_silent:
  assumes "collect_proposals w (ag_id (fst s)) 0 (open_session w) (constraints_dict default_constraints) ms [] \<in> {None, Some []}"
  shows "\<exists>s'. initiate_cnp interf w snap (s, ms) = (Inr None, s', ms) \<and> ag_id (fst s') = ag_id (fst s)
     \<and> pa_cnp_count (fst s') = Suc (pa_cnp_count (fst s)) \<and> pa_last_cnp_cycle (fst s') = dget_or snap ''cycle'' (PInt 0)
     \<and> pa_strategy_log (fst s') = pa_strategy_log (fst s)"
proof -
  let ?s2 = "broadcast_cfp interf w (open_session w) (summarize_alerts (pa_pending_alerts (fst s))) (snapshot_summary snap) (begin_cnp snap s)"
  consider (expired) "collect_proposals w (ag_id (fst s)) 0 (open_session w) (constraints_dict default_constraints) ms [] = None"
    | (none) "collect_proposals w (ag_id (fst s)) 0 (open_session w) (constraints_dict default_constraints) ms [] = Some []"
    using assms by auto
  then show ?thesis
  proof cases
    case expired
    then have "initiate_cnp interf w snap (s, ms) = (Inr None,
        log_reasoning (''[CNP#'' @ show_nat (Suc (pa_cnp_count (fst s))) @ ''] collection timeout'') ?s2, ms)"
      by (simp add: initiate_cnp_def Let_def case_prod_unfold flip: open_session_def)
    then show ?thesis by (simp add: log_reasoning_def with_agent_def)
  next
    case none
    then have "initiate_cnp interf w snap (s, ms) = (Inr None, ?s2, ms)"
      by (simp add: initiate_cnp_def Let_def case_prod_unfold flip: open_session_def)
    then show ?thesis by simp
  qed
qed

lemma round_settled:
  assumes "collect_proposals w (ag_id (fst s)) 0 (open_session w) (constraints_dict default_constraints) ms [] = Some ps"
    and "ps \<noteq> []" "has_identifiers snap"
  shows "\<exists>st s' ranked sp card lines a. initiate_cnp interf w snap (s, ms)
         = (Inr (Some st), s', execute_accepted (ag_id (fst s)) ranked ms)
     \<and> ag_id (fst s') = ag_id (fst s)
     \<and> pa_cnp_count (fst s') = Suc (pa_cnp_count (fst s)) \<and> pa_last_cnp_cycle (fst s') = dget_or snap ''cycle'' (PInt 0)
     \<and> pa_strategy_log (fst s') = pa_strategy_log (fst s) @ [st]
     \<and> dget st ''target_speed_pct'' = Some (PInt sp) \<and> 40 \<le> sp \<and> sp \<le> 100
     \<and> dget st ''approval_required'' = Some (PBool (sp < 70 \<or> full_inspection (dget_or st ''inspection_mode'' (PStr ''''))))
     \<and> dget st ''operational_decision_card'' = Some (PDict card) \<and> dget st ''pa_report_lines'' = Some (PList lines)
     \<and> dget st ''best_agent'' = Some (PStr a) \<and> a \<in> member_id ` set (bidders (ag_id (fst s)) ms)
     \<and> (pa_llm (fst s) = None \<longrightarrow> dget st ''proposals_count'' = Some (PInt (int (length ps))))"
proof -
  let ?A = "PStr ` member_id ` set (bidders (ag_id (fst s)) ms)"
  let ?s2 = "broadcast_cfp interf w (open_session w) (summarize_alerts (pa_pending_alerts (fst s))) (snapshot_summary snap) (begin_cnp snap s)"
  let ?a = "fst (begin_cnp snap s)"
  have "\<forall>p\<in>set ps. sound_proposal ?A p"
    using collected_sound [OF collect_bidders [OF assms(1)]] by (auto simp: bidders_def)
  then obtain ranked where r: "rank_proposals_by_comparison (Some (constraints_dict default_constraints)) (map PDict ps) = Inr ranked"
      "ranked \<noteq> []" "length ranked = length ps" "\<forall>p\<in>set ranked. sound_proposal ?A p"
    using ranked_sound assms(2) by blast
  let ?b = "build_strategy w ranked snap ?a" and ?sit = "summarize_alerts (pa_pending_alerts (fst s))"
  obtain st sp card lines where st: "settle_strategy w (open_session w) ?sit ranked snap ?a
        = (Inr st, ?a\<lparr>pa_llm := pa_llm (snd ?b)\<rparr>)"
      "dget st ''target_speed_pct'' = Some (PInt sp)" "40 \<le> sp" "sp \<le> 100"
      "dget st ''approval_required'' = Some (PBool (sp < 70 \<or> full_inspection (dget_or st ''inspection_mode'' (PStr ''''))))"
      "dget st ''operational_decision_card'' = Some (PDict card)" "dget st ''pa_report_lines'' = Some (PList lines)"
      "\<forall>k. k \<notin> {''target_speed_pct'', ''constraints_applied'', ''protocol_version'', ''conversation_id'', ''approval_required'',
                    ''operational_decision_card'', ''pa_report_lines''} \<longrightarrow> dget st k = dget (fst ?b) k"
    using settle_total [OF r(4,2) assms(3), of w w ?sit ?a] by (elim exE conjE) (rule that; assumption)
  obtain a where a: "a \<in> member_id ` set (bidders (ag_id (fst s)) ms)" "dget (fst ?b) ''best_agent'' = Some (PStr a)"
    using strategy_speed [OF r(4,2), of w snap ?a] by (auto simp: speed_set_def)
  have n: "dget (fst ?b) ''proposals_count'' = Some (PInt (int (length ps)))" if "pa_llm (fst s) = None"
    using that r(3) by (simp add: build_strategy_def build_strategy_rules_def Let_def dget_def)
  obtain p ps' where ps: "ps = p # ps'" using assms(2) by (cases ps) auto
  have e: "initiate_cnp interf w snap (s, ms) = (Inr (Some st),
      conclude_cnp ranked st (cs_conversation_id (open_session w)) (?a\<lparr>pa_llm := pa_llm (snd ?b)\<rparr>, snd ?s2),
      execute_accepted (ag_id (fst s)) ranked ms)"
    using assms(1) r(1) st(1)
    by (simp add: initiate_cnp_def Let_def case_prod_unfold ps begin_session_id flip: open_session_def)
  show ?thesis
    unfolding e using st(2-8) a n by (auto simp: conclude_cnp_def log_reasoning_def with_agent_def)
qed

text \<open>
  C7 (\<open>round_always_concludes\<close>): whatever the participants bid, whatever the language model
  answers or fails with, and whatever the times of the expiry checks, a contract net round
  on an enriched snapshot raises nothing. It counts itself and its cycle, keeps every
  participant, and ends either without a strategy, leaving the participants and the
  strategy log as they were, or with one that is appended to the log, whose speed lies in
  40 to 100, whose approval flag is set exactly below 70 or for full inspection, which
  names one of the other participants as the winner, and which carries a decision card and
  report lines.
\<close>

theorem round_always_concludes:
  "\<exists>out s' ms'. initiate_cnp interf w (enrich_snapshot_for_agents snap ingest) (s, ms) = (Inr out, s', ms')
     \<and> pa_cnp_count (fst s') = Suc (pa_cnp_count (fst s))
     \<and> pa_last_cnp_cycle (fst s') = dget_or snap ''cycle'' (PInt 0)
     \<and> map member_id ms' = map member_id ms
     \<and> (case out of
          None \<Rightarrow> ms' = ms \<and> pa_strategy_log (fst s') = pa_strategy_log (fst s)
        | Some st \<Rightarrow> pa_strategy_log (fst s') = pa_strategy_log (fst s) @ [st]
            \<and> (\<exists>sp a card lines. dget st ''target_speed_pct'' = Some (PInt sp) \<and> 40 \<le> sp \<and> sp \<le> 100
                \<and> dget st ''approval_required''
                    = Some (PBool (sp < 70 \<or> full_inspection (dget_or st ''inspection_mode'' (PStr ''''))))
                \<and> dget st ''best_agent'' = Some (PStr a) \<and> a \<in> member_id ` set ms \<and> a \<noteq> ag_id (fst s)
                \<and> dget st ''operational_decision_card'' = Some (PDict card)
                \<and> dget st ''pa_report_lines'' = Some (PList lines)))"
proof -
  let ?c = "collect_proposals w (ag_id (fst s)) 0 (open_session w) (constraints_dict default_constraints) ms []"
  let ?snap = "enrich_snapshot_for_agents snap ingest"
  have cyc: "dget_or ?snap ''cycle'' x = dget_or snap ''cycle'' x" for x
    by (simp add: enrich_snapshot_for_agents_def split: sum.split)
  show ?thesis
  proof (cases "?c \<in> {None, Some []}")
    case True
    then show ?thesis using round_silent [OF True, of interf ?snap] cyc
      by (elim exE conjE) (rule exI [of _ None], simp)
  next
    case False
    then obtain ps where "?c = Some ps" "ps \<noteq> []" by auto
    from round_settled [OF this enriched_has_identifiers, of interf snap ingest] show ?thesis
      by (elim exE conjE) (rule exI, rule exI, rule exI, intro conjI, assumption,
          auto simp: cyc execute_accepted_ids bidders_def)
  qed
qed

section \<open>Every participant is heard\<close>

lemma bid_scores: "\<exists>b. business_score DEFAULT_KPI_WEIGHTS (dict_or_empty (dget_none (member_bid m) ''scores'')) = Inr b"
proof -
  define P where "P v \<longleftrightarrow> (\<exists>q d c s. v = PDict [(''quality'', PFloat q), (''delivery'', PFloat d), (''cost'', PFloat c),
      (''safety'', PFloat s)])" for v
  have [simp]: "P (PDict [(''quality'', PFloat q), (''delivery'', PFloat d), (''cost'', PFloat c), (''safety'', PFloat s)])"
    for q d c s by (simp add: P_def)
  have "\<exists>v. dget (member_bid m) ''scores'' = Some v \<and> P v"
    by (cases m) (simp_all add: sa_handle_cfp_def da_handle_cfp_def ia_handle_cfp_def ea_handle_cfp_def qa_handle_cfp_def
      merge_into_proposal_def dget_def [of "_ # _"] Let_def)
  then have "\<exists>q d c s. dget (member_bid m) ''scores''
      = Some (PDict [(''quality'', PFloat q), (''delivery'', PFloat d), (''cost'', PFloat c), (''safety'', PFloat s)])"
    by (auto simp: P_def)
  then show ?thesis by (auto simp: business_score_def DEFAULT_KPI_WEIGHTS_def dget_or_def dest: dget_none_of)
qed

lemma bid_speed: "\<exists>sp. speed_or_100 (proposed_speed (member_bid m)) = Inr sp"
proof -
  have "\<exists>sp. proposed_speed (member_bid m) = PInt sp"
    by (cases m) (simp_all add: sa_handle_cfp_def da_handle_cfp_def ia_handle_cfp_def ea_handle_cfp_def qa_handle_cfp_def
      merge_into_proposal_def proposed_speed_def dget_or_def [of "_ # _"] Let_def)
  then show ?thesis by (auto simp: speed_or_100_def except_type_value_def)
qed

lemma bid_taken: "\<exists>p. take_proposal (open_session v) (constraints_dict default_constraints) (member_bid m) = Inr p"
proof -
  obtain sp where sp: "speed_or_100 (proposed_speed (member_bid m)) = Inr sp" using bid_speed by blast
  let ?raw = "dset ''speed_recommendation'' (PInt (max 40 (min 100 sp))) (member_bid m)"
  have "dget_none ?raw ''scores'' = dget_none (member_bid m) ''scores''" by (simp add: dget_none_def)
  then obtain b where "business_score DEFAULT_KPI_WEIGHTS (dict_or_empty (dget_none ?raw ''scores'')) = Inr b"
    using bid_scores [of m] by auto
  then have "\<exists>p. evaluate_proposal (Some (constraints_dict default_constraints)) (Some KPI_WEIGHTS) ?raw = Inr p"
    by (intro evaluate_total [of _ "max 40 (min 100 sp)"]) auto
  then show ?thesis by (simp add: take_proposal_def sp)
qed

lemma collected_all:
  assumes "\<forall>i. \<not> is_expired (cw_times w i) (open_session v)"
  shows "\<exists>ps. collect_proposals w me i (open_session v) (constraints_dict default_constraints) ms acc = Some ps
     \<and> length ps = length acc + length (bidders me ms)"
proof (induction ms arbitrary: i acc)
  case (Cons m ms)
  obtain p where "take_proposal (open_session v) (constraints_dict default_constraints) (member_bid m) = Inr p"
    using bid_taken by blast
  then show ?case using Cons.IH [of i acc] Cons.IH [of "Suc i" "acc @ [p]"] assms by (simp add: bidders_def)
qed (simp add: bidders_def)

text \<open>
  \<open>undisturbed_round_settles\<close>: a round with at least one other participant and no expiry
  check past the deadline always produces a strategy. None of the domain agents' bids is
  dropped: without a language model the strategy counts one proposal per other participant.
\<close>

theorem undisturbed_round_settles:
  assumes "\<forall>i. \<not> is_expired (cw_times w i) (open_session w)"
    and "\<exists>m\<in>set ms. member_id m \<noteq> ag_id (fst s)"
  shows "\<exists>st s' ms'. initiate_cnp interf w (enrich_snapshot_for_agents snap ingest) (s, ms) = (Inr (Some st), s', ms')
     \<and> (pa_llm (fst s) = None \<longrightarrow>
          dget st ''proposals_count'' = Some (PInt (int (length (filter (\<lambda>m. member_id m \<noteq> ag_id (fst s)) ms)))))"
proof -
  obtain ps where ps: "collect_proposals w (ag_id (fst s)) 0 (open_session w) (constraints_dict default_constraints) ms [] = Some ps"
      "length ps = length (bidders (ag_id (fst s)) ms)"
    using collected_all [OF assms(1)] by fastforce
  have "bidders (ag_id (fst s)) ms \<noteq> []" using assms(2) by (auto simp: bidders_def filter_empty_conv)
  then have "ps \<noteq> []" using ps(2) by auto
  from round_settled [OF ps(1) this enriched_has_identifiers, of interf snap ingest] show ?thesis
    using ps(2) by (elim exE conjE) (rule exI, rule exI, rule exI, rule conjI, assumption, simp add: bidders_def)
qed

definition demo_world :: cnp_world where
  "demo_world = \<lparr> cw_uuid = ''4f1c9b1d-2a'', cw_start = 100, cw_times = (\<lambda>i. 100 + of_nat (min i 9)), cw_msg_uuid = ''m-1'',
     cw_msg_time = ''10:00'', cw_remote = (\<lambda>_ _. Failed ''off''), cw_loads = (\<lambda>_. Inl ''no''),
     cw_call_clock = \<lparr> ck_t0 = 0, ck_audit = 0, ck_t1 = 1 \<rparr> \<rparr>"

definition demo_members :: "member list" where
  "demo_members = [M_EA (new_equipment_agent (\<lambda>n. ''id'') (\<lambda>n. ''t'')), M_QA (new_quality_agent (\<lambda>n. ''id'') (\<lambda>n. ''t'')),
     M_SA (new_supply_agent (\<lambda>n. ''id'') (\<lambda>n. ''t'')), M_DA (new_demand_agent (\<lambda>n. ''id'') (\<lambda>n. ''t'')),
     M_IA (new_inventory_agent (\<lambda>n. ''id'') (\<lambda>n. ''t''))]"

definition demo_planner :: "planning_agent wired" where
  "demo_planner = (new_planning_agent None (\<lambda>n. ''id'') (\<lambda>n. ''t''), None)"

lemmas demo_ids = demo_members_def demo_planner_def new_planning_agent_def new_equipment_agent_def new_quality_agent_def
  new_supply_agent_def new_demand_agent_def new_inventory_agent_def new_base_agent_def

theorem undisturbed_round_settles_witness:
  "\<exists>st s' ms'. initiate_cnp id demo_world (enrich_snapshot_for_agents [(''cycle'', PInt 12)] ''t'') (demo_planner, demo_members)
     = (Inr (Some st), s', ms') \<and> dget st ''proposals_count'' = Some (PInt 5)"
proof -
  have a: "\<forall>i. \<not> is_expired (cw_times demo_world i) (open_session demo_world)"
    by (simp add: is_expired_def new_session_def default_constraints_def open_session_def begin_session_def Let_def demo_world_def)
  have l: "pa_llm (fst demo_planner) = None" by (simp add: demo_ids planning_agent.defs base_agent.defs)
  have f: "filter (\<lambda>m. member_id m \<noteq> ag_id (fst demo_planner)) demo_members = demo_members"
    by (simp add: demo_ids planning_agent.defs base_agent.defs equipment_agent.defs quality_agent.defs supply_agent.defs
        demand_agent.defs inventory_agent.defs)
  have "set (filter (\<lambda>m. member_id m \<noteq> ag_id (fst demo_planner)) demo_members) \<noteq> {}"
    unfolding f by (simp add: demo_members_def)
  then have "\<exists>m\<in>set demo_members. member_id m \<noteq> ag_id (fst demo_planner)" by auto
  from undisturbed_round_settles [OF a this, of id "[(''cycle'', PInt 12)]" "''t''"] show ?thesis
    using l unfolding f by (simp add: demo_members_def)
qed

section \<open>The client's logs\<close>

lemma failed_call: "lc_enabled c \<Longrightarrow> llm_call loads (Failed e) k x c = (None, record_failure e k c)"
  by (simp add: llm_call_def)

lemma record_failure_fields [simp]:
  "lc_enabled (record_failure e k c) = lc_enabled c"
  "length (lc_call_log (record_failure e k c)) = Suc (length (lc_call_log c))"
  "tu_errors (lc_usage (record_failure e k c)) = Suc (tu_errors (lc_usage c))"
  "lc_audit_log (record_failure e k c) = lc_audit_log c"
  by (simp_all add: record_failure_def)

text \<open>
  \<open>failed_calls_pile_up\<close>: a successful request cuts the client's call log back to at most
  200 entries and its audit log to 300, but a failed one appends without a bound: after
  \<open>n\<close> failing requests in a row the call log has grown by \<open>n\<close> entries and the error counter
  by \<open>n\<close>, while nothing is returned.
\<close>

theorem failed_calls_pile_up:
  assumes "lc_enabled c"
  shows "length (lc_call_log (((\<lambda>c. snd (llm_call loads (Failed e) k x c)) ^^ n) c)) = length (lc_call_log c) + n
     \<and> tu_errors (lc_usage (((\<lambda>c. snd (llm_call loads (Failed e) k x c)) ^^ n) c)) = tu_errors (lc_usage c) + n
     \<and> fst (llm_call loads (Failed e) k x c) = None
     \<and> (\<forall>u content v. loads content = Inr v \<longrightarrow>
          fst (llm_call loads (Reply u content) k x c) = Some v
        \<and> length (lc_call_log (snd (llm_call loads (Reply u content) k x c))) \<le> 200
        \<and> length (lc_audit_log (snd (llm_call loads (Reply u content) k x c))) \<le> 300)"
proof -
  let ?f = "\<lambda>c. snd (llm_call loads (Failed e) k x c)"
  have n: "lc_enabled ((?f ^^ n) c) \<and> length (lc_call_log ((?f ^^ n) c)) = length (lc_call_log c) + n
      \<and> tu_errors (lc_usage ((?f ^^ n) c)) = tu_errors (lc_usage c) + n"
    by (induction n) (auto simp: assms failed_call)
  have s: "fst (llm_call loads (Reply u content) k x c) = Some v
      \<and> length (lc_call_log (snd (llm_call loads (Reply u content) k x c))) \<le> 200
      \<and> length (lc_audit_log (snd (llm_call loads (Reply u content) k x c))) \<le> 300"
    if "loads content = Inr v" for u content v
    using assms that by (simp add: llm_call_def Let_def audit_def count_usage_def audit_trail.push_bounded call_trail.push_bounded)
  show ?thesis using n s by (simp add: failed_call assms)
qed

theorem failed_calls_pile_up_witness:
  "length (lc_call_log (((\<lambda>c. snd (llm_call (\<lambda>_. Inl ''bad'') (Failed ''timeout'')
       \<lparr> ck_t0 = 0, ck_audit = 0, ck_t1 = 30 \<rparr> [] c)) ^^ 1000) (new_llm (Some ''key'') [] True None ''model'' None))) = 1000"
proof -
  have "lc_enabled (new_llm (Some ''key'') [] True None ''model'' None)"
      "lc_call_log (new_llm (Some ''key'') [] True None ''model'' None) = []"
    by (simp_all add: new_llm_def)
  then show ?thesis using failed_calls_pile_up [of "new_llm (Some ''key'') [] True None ''model'' None"] by simp
qed

end
