(* ===== verification/Agent_Laws.thy ===== *)
theory Agent_Laws
  imports Supply_Agent Demand_Agent Inventory_Agent Equipment_Agent Quality_Agent Factory_Laws
begin

text \<open>
  What the five domain agents guarantee over whole cycles: the contract of every cycle, the
  supply agent's purchasing decision and the demand agent's delivery alarm from the snapshot
  they sense, and the decisions of the inventory and the equipment agents.
\<close>

section \<open>Every cycle\<close>

text \<open>The outcome of a cycle that decided \<open>d\<close>, \<open>n\<close> being the number of its alerts.\<close>

definition cycle_ok ::
  "('d \<Rightarrow> nat) \<Rightarrow> ('d, 'z) base_agent_scheme wired \<Rightarrow> 'd option \<Rightarrow> ('d, 'z) base_agent_scheme wired \<Rightarrow> bool" where
  "cycle_ok n s d s' \<longleftrightarrow> ag_state (fst s') = AG_IDLE \<and> ag_cycle_count (fst s') = Suc (ag_cycle_count (fst s))
     \<and> ag_decisions (fst s') = (case d of None \<Rightarrow> ag_decisions (fst s) | Some d \<Rightarrow> push_decision d (ag_decisions (fst s)))
     \<and> length (ag_decisions (fst s')) \<le> 100 \<and> length (ag_reasoning_log (fst s')) \<le> 50
     \<and> (\<exists>ms. ag_outbox (fst s') = ag_outbox (fst s) @ ms
          \<and> length ms = (case d of None \<Rightarrow> 0 | Some d \<Rightarrow> n d) \<and> (\<forall>m\<in>set ms. pa_alert (ag_id (fst s)) m))"

definition small_logs :: "('d, 'z) base_agent_scheme wired \<Rightarrow> bool" where
  "small_logs s \<longleftrightarrow> length (ag_decisions (fst s)) \<le> 100 \<and> length (ag_reasoning_log (fst s)) \<le> 50"

definition demo_supply_agent :: "supply_agent wired" where
  "demo_supply_agent = (new_supply_agent (\<lambda>n. ''id'') (\<lambda>n. ''t''), None)"

definition demo_materials :: dict where
  "demo_materials = [(''materials'', PDict [(''bolt'', PDict [(''stock'', PInt 10), (''safety_stock'', PInt 30),
      (''days_supply'', PFloat 2), (''needs_reorder'', PBool True)]),
     (''oil'', PDict [(''stock'', PInt 25), (''safety_stock'', PInt 30),
      (''days_supply'', PFloat 5), (''needs_reorder'', PBool False)])])]"

text \<open>
  C10 (\<open>agents_keep_their_contract\<close>): whichever of the five domain agents runs a cycle, if the
  cycle completes then the agent is idle again, has counted it, has stored the decision it
  took (and nothing otherwise) in logs that stay within their bounds, and has sent exactly
  one alert message to the planning agent per alert of the decision.
\<close>

theorem agents_keep_their_contract:
  assumes "small_logs sa" "small_logs da" "small_logs ia" "small_logs ea" "small_logs qa"
  shows "(run_cycle sa_sense sa_reason (sa_act interf) snap sa = Inr (d1, sa') \<longrightarrow> cycle_ok (\<lambda>d. length (sd_alerts d)) sa d1 sa')
    \<and> (run_cycle da_sense da_reason (da_act interf) snap da = Inr (d2, da') \<longrightarrow> cycle_ok (\<lambda>d. length (dd_alerts d)) da d2 da')
    \<and> (run_cycle ia_sense ia_reason (ia_act interf) snap ia = Inr (d3, ia') \<longrightarrow> cycle_ok (\<lambda>d. length (id_alerts d)) ia d3 ia')
    \<and> (run_cycle ea_sense ea_reason (ea_act interf) snap ea = Inr (d4, ea') \<longrightarrow> cycle_ok (\<lambda>d. length (ed_alerts d)) ea d4 ea')
    \<and> (run_cycle qa_sense qa_reason (qa_act interf) snap qa = Inr (d5, qa') \<longrightarrow> cycle_ok (\<lambda>d. length (qd_alerts d)) qa d5 qa')"
proof (intro conjI impI)
  show "cycle_ok (\<lambda>d. length (sd_alerts d)) sa d1 sa'" if "run_cycle sa_sense sa_reason (sa_act interf) snap sa = Inr (d1, sa')"
    using supply_loop.run_cycle_contract [OF that] assms(1) by (simp add: cycle_ok_def small_logs_def)
  show "cycle_ok (\<lambda>d. length (dd_alerts d)) da d2 da'" if "run_cycle da_sense da_reason (da_act interf) snap da = Inr (d2, da')"
    using demand_loop.run_cycle_contract [OF that] assms(2) by (simp add: cycle_ok_def small_logs_def)
  show "cycle_ok (\<lambda>d. length (id_alerts d)) ia d3 ia'" if "run_cycle ia_sense ia_reason (ia_act interf) snap ia = Inr (d3, ia')"
    using inventory_loop.run_cycle_contract [OF that] assms(3) by (simp add: cycle_ok_def small_logs_def)
  show "cycle_ok (\<lambda>d. length (ed_alerts d)) ea d4 ea'" if "run_cycle ea_sense ea_reason (ea_act interf) snap ea = Inr (d4, ea')"
    using equipment_loop.run_cycle_contract [OF that] assms(4) by (simp add: cycle_ok_def small_logs_def)
  show "cycle_ok (\<lambda>d. length (qd_alerts d)) qa d5 qa'" if "run_cycle qa_sense qa_reason (qa_act interf) snap qa = Inr (d5, qa')"
    using quality_loop.run_cycle_contract [OF that] assms(5) by (simp add: cycle_ok_def small_logs_def)
qed

section \<open>Well-typed snapshots\<close>

text \<open>
  What the agents take for granted of a snapshot's rows: numbers where they compare or
  format, the keys they index. On such a snapshot every agent completes its cycle.
\<close>

definition material_row_ok :: "pyval \<Rightarrow> bool" where
  "material_row_ok v \<longleftrightarrow> (case v of PDict d \<Rightarrow> is_num (dget_or d ''stock'' (PInt 0)) \<and> is_num (dget_or d ''safety_stock'' (PInt 0))
     \<and> is_num (dget_or d ''days_supply'' (PInt 999)) | _ \<Rightarrow> False)"

definition order_row_ok :: "pyval \<Rightarrow> bool" where
  "order_row_ok v \<longleftrightarrow> (case v of PDict d \<Rightarrow> is_num (dget_or d ''qty'' (PInt 0)) \<and> is_num (dget_or d ''delivered'' (PInt 0))
     \<and> is_num (dget_or d ''remaining'' (PInt 0)) \<and> {''id'', ''customer'', ''remaining''} \<subseteq> dom (dget d) | _ \<Rightarrow> False)"

definition wip_row_ok :: "pyval \<Rightarrow> bool" where
  "wip_row_ok v \<longleftrightarrow> (case v of PDict d \<Rightarrow> (\<exists>i j. dget d ''from'' = Some (PInt i) \<and> dget d ''to'' = Some (PInt j))
     \<and> is_num (dget_or d ''util'' (PInt 0)) | _ \<Rightarrow> False)"

definition sensor_row_ok :: "pyval \<Rightarrow> bool" where
  "sensor_row_ok v \<longleftrightarrow> (case v of PDict d \<Rightarrow> (\<forall>k\<in>{''value'', ''ma'', ''slope'', ''std''}. \<exists>x. dget d k = Some (PFloat x)) | _ \<Rightarrow> False)"

definition station_row_ok :: "pyval \<Rightarrow> bool" where
  "station_row_ok v \<longleftrightarrow> (case v of PDict d \<Rightarrow>
       (\<exists>ss. dget d ''sensors'' = Some (PDict ss) \<and> (\<forall>row\<in>set ss. sensor_row_ok (snd row)))
     \<and> (\<exists>od x y. dget d ''oee'' = Some (PDict od) \<and> dget od ''oee'' = Some (PFloat x) \<and> dget od ''quality'' = Some (PFloat y))
     \<and> (\<exists>t. dget d ''type'' = Some (PStr t)) \<and> (\<exists>x. dget d ''tool_life_pct'' = Some (PFloat x))
     \<and> (\<exists>m. dget d ''mtbf'' = Some m \<and> (m = PNone \<or> is_num m)) | _ \<Rightarrow> False)"

definition snapshot_ok :: "dict \<Rightarrow> bool" where
  "snapshot_ok snap \<longleftrightarrow>
     (\<exists>ms. dget snap ''materials'' = Some (PDict ms) \<and> (\<forall>row\<in>set ms. material_row_ok (snd row)))
     \<and> (\<exists>os. dget snap ''orders'' = Some (PList os) \<and> (\<forall>o'\<in>set os. order_row_ok o'))
     \<and> (\<exists>ws. dget snap ''wip'' = Some (PList ws) \<and> (\<forall>w\<in>set ws. wip_row_ok w))
     \<and> (\<exists>ss. dget snap ''stations'' = Some (PDict ss) \<and> (\<forall>row\<in>set ss. station_row_ok (snd row)))
     \<and> (\<forall>k\<in>{''cycle'', ''total_produced'', ''scrap_count'', ''fg_stock''}. is_num (dget_or snap k (PInt 0)))
     \<and> dget snap ''manufacturing_context'' = None"

lemma numE: "is_num v \<Longrightarrow> (\<And>x. py_num v = Inr x \<Longrightarrow> P) \<Longrightarrow> P"
  by (cases v) auto

lemma dget_orI: "dget d k = Some v \<Longrightarrow> dget_or d k x = v"
  by (simp add: dget_or_def dget_def)

lemma num_at_total: "is_num (dget_or d k (PInt 0)) \<Longrightarrow> \<exists>x. num_at d k y = Inr x"
  by (cases "map_of d k") (auto simp: num_at_def dget_or_def elim: numE)

lemma fmt_fixed_val_total: "is_num v \<Longrightarrow> \<exists>t. fmt_fixed_val n v = Inr t"
  by (cases v) auto

lemma fmt_pct_val_total: "is_num v \<Longrightarrow> \<exists>t. fmt_pct_val n v = Inr t"
  by (cases v) (auto simp: fmt_pct_val_def)

text \<open>A loop completes when every step completes, under an invariant of its state.\<close>

lemma foldR_total:
  assumes "I s" and "\<And>x t. x \<in> set xs \<Longrightarrow> I t \<Longrightarrow> \<exists>t'. f x t = Inr t' \<and> I t'"
  shows "\<exists>s'. foldR f xs s = Inr s' \<and> I s'"
  using assms
proof (induction xs arbitrary: s)
  case Nil
  then show ?case by simp
next
  case (Cons x xs)
  obtain t' where t: "f x s = Inr t'" "I t'" using Cons.prems by fastforce
  have "\<exists>s'. foldR f xs t' = Inr s' \<and> I s'"
    by (rule Cons.IH [OF t(2)]) (use Cons.prems(2) in auto)
  then show ?case using t(1) by simp
qed

lemma run_cycle_total:
  assumes "\<And>s. \<exists>obs s'. sense snap s = Inr (obs, s') \<and> Q obs"
    and "\<And>obs s. Q obs \<Longrightarrow> \<exists>d s'. reason obs s = Inr (d, s')"
    and "\<And>d s. \<exists>as s'. act d s = Inr (as, s')"
  shows "\<exists>d s'. run_cycle sense reason act snap s = Inr (d, s')"
proof -
  obtain obs s1 where 1: "sense snap (set_agent_state AG_SENSING (begin_cycle snap s)) = Inr (obs, s1)" "Q obs"
    using assms(1) by blast
  obtain d s2 where 2: "reason obs (set_agent_state AG_REASONING s1) = Inr (d, s2)" using assms(2) [OF 1(2)] by blast
  obtain as s3 where 3: "act d (set_agent_state AG_ACTING (store_decision d s2)) = Inr (as, s3)" using assms(3) by blast
  show ?thesis by (simp add: run_cycle_def 1(1) 2 3)
qed

lemma act_total:
  shows "\<exists>as s'. sa_act i d1 s1 = Inr (as, s')" and "\<exists>as s'. da_act i d2 s2 = Inr (as, s')"
    and "\<exists>as s'. ia_act i d3 s3 = Inr (as, s')" and "\<exists>as s'. ea_act i d4 s4 = Inr (as, s')"
    and "\<exists>as s'. qa_act i d5 s5 = Inr (as, s')"
  by (simp_all add: sa_act_def da_act_def ia_act_def ea_act_def qa_act_def with_agent_def split: option.split)

lemma material_class_total: "py_num dos = Inr d \<Longrightarrow> \<exists>c. material_class st ss dos needs = Inr c"
  by (auto simp: material_class_def)

lemma supply_total:
  assumes "dget snap ''materials'' = Some (PDict ms)" "\<forall>row\<in>set ms. material_row_ok (snd row)"
  shows "\<exists>d s'. run_cycle sa_sense sa_reason (sa_act interf) snap s = Inr (d, s')"
proof (rule run_cycle_total [where Q = "\<lambda>obs. \<forall>m\<in>set (so_reorder_needed obs). is_num (mo_days_supply m)"])
  fix s :: "supply_agent wired"
  let ?I = "\<lambda>os. \<forall>m\<in>set (so_reorder_needed (fst os)). is_num (mo_days_supply m)"
  have step: "\<exists>t'. sa_sense_material row t = Inr t' \<and> ?I t'" if "row \<in> set ms" "?I t" for row t
  proof -
    obtain name v where row: "row = (name, v)" by (rule prod.exhaust)
    obtain obs u where t: "t = (obs, u)" by (rule prod.exhaust)
    have "material_row_ok v" using assms(2) that(1) by (auto simp: row)
    then obtain md where v: "v = PDict md" and n: "is_num (dget_or md ''stock'' (PInt 0))"
        "is_num (dget_or md ''safety_stock'' (PInt 0))" and n3: "is_num (dget_or md ''days_supply'' (PInt 999))"
      by (cases v) (simp_all add: material_row_ok_def)
    obtain st ss ds where x: "py_num (dget_or md ''stock'' (PInt 0)) = Inr st"
        "py_num (dget_or md ''safety_stock'' (PInt 0)) = Inr ss"
        "py_num (dget_or md ''days_supply'' (PInt 999)) = Inr ds"
      using n n3 by (meson numE)
    obtain c where "material_class st ss (dget_or md ''days_supply'' (PInt 999)) (dget_or md ''needs_reorder'' (PBool False)) = Inr c"
      using material_class_total [OF x(3)] by blast
    then show ?thesis using that(2) n3 by (auto simp: row t v x sa_sense_material_def Let_def)
  qed
  have "\<exists>s'. foldR sa_sense_material ms (\<lparr> so_status = [], so_shortages = [], so_reorder_needed = [] \<rparr>, s) = Inr s' \<and> ?I s'"
    by (rule foldR_total) (use step in auto)
  then show "\<exists>obs s'. sa_sense snap s = Inr (obs, s') \<and> (\<forall>m\<in>set (so_reorder_needed obs). is_num (mo_days_supply m))"
    using assms(1) by (auto simp: sa_sense_def dict_at_def dget_orI)
next
  fix obs :: supply_obs and s :: "supply_agent wired"
  assume q: "\<forall>m\<in>set (so_reorder_needed obs). is_num (mo_days_supply m)"
  have "\<exists>ds. foldR sa_reason_reorder (so_reorder_needed obs) (fold sa_reason_shortage (so_shortages obs)
      (\<lparr> sd_reorders = [], sd_alerts = [], sd_priority = ''LOW'' \<rparr>, s)) = Inr ds \<and> True"
  proof (rule foldR_total)
    fix m and t :: "supply_decision \<times> supply_agent wired"
    assume "m \<in> set (so_reorder_needed obs)"
    then obtain x where "fmt_fixed_val 1 (mo_days_supply m) = Inr x" using q fmt_fixed_val_total by blast
    then show "\<exists>t'. sa_reason_reorder m t = Inr t' \<and> True" by (cases t) (simp add: sa_reason_reorder_def)
  qed simp
  then show "\<exists>d s'. sa_reason obs s = Inr (d, s')" by (auto simp: sa_reason_def)
qed (rule act_total)

lemma demand_total:
  assumes ok: "dget snap ''orders'' = Some (PList os)" "\<forall>v\<in>set os. order_row_ok v"
    and num: "\<forall>k\<in>{''cycle'', ''total_produced'', ''fg_stock''}. is_num (dget_or snap k (PInt 0))"
  shows "\<exists>d s'. run_cycle da_sense da_reason (da_act interf) snap s = Inr (d, s')"
proof (rule run_cycle_total [where Q = "\<lambda>obs. \<forall>u\<in>set (dn_urgent obs). {''id'', ''customer'', ''remaining''} \<subseteq> dom (dget u)"])
  fix s :: "demand_agent wired"
  let ?fg = "dget_or snap ''fg_stock'' (PInt 0)"
  let ?I = "\<lambda>obs. \<forall>u\<in>set (dn_urgent obs). {''id'', ''customer'', ''remaining''} \<subseteq> dom (dget u)"
  obtain fg where fg: "py_num ?fg = Inr fg" using num by (auto elim: numE)
  have step: "\<exists>t'. da_sense_order ?fg v t = Inr t' \<and> ?I t'" if "v \<in> set os" "?I t" for v t
  proof -
    have "order_row_ok v" using ok(2) that(1) by blast
    then obtain d where v: "v = PDict d" and n: "is_num (dget_or d ''qty'' (PInt 0))"
        "is_num (dget_or d ''delivered'' (PInt 0))" "is_num (dget_or d ''remaining'' (PInt 0))"
      and k: "{''id'', ''customer'', ''remaining''} \<subseteq> dom (dget d)"
      by (cases v) (auto simp: order_row_ok_def)
    obtain q dl rem where x: "py_num (dget_or d ''qty'' (PInt 0)) = Inr q" "py_num (dget_or d ''delivered'' (PInt 0)) = Inr dl"
        "py_num (dget_or d ''remaining'' (PInt 0)) = Inr rem"
      using n by (meson numE)
    obtain i c where ic: "dget d ''id'' = Some i" "dget d ''customer'' = Some c" using k by auto
    show ?thesis using that(2) k by (auto simp: da_sense_order_def v x fg item_at_def ic Let_def)
  qed
  obtain obs1 where f: "foldR (da_sense_order ?fg) os empty_demand_obs = Inr obs1" "?I obs1"
    using foldR_total [of ?I empty_demand_obs os "da_sense_order ?fg"] step by (auto simp: empty_demand_obs_def)
  obtain cyc tp where n: "num_at snap ''cycle'' 0 = Inr cyc" "num_at snap ''total_produced'' 0 = Inr tp"
    using num num_at_total by (metis insertCI)
  show "\<exists>obs s'. da_sense snap s = Inr (obs, s') \<and> ?I obs"
    using f(2) by (auto simp: da_sense_def dget_orI [OF ok(1)] f(1) n Let_def)
next
  fix obs :: demand_obs and s :: "demand_agent wired"
  assume q: "\<forall>u\<in>set (dn_urgent obs). {''id'', ''customer'', ''remaining''} \<subseteq> dom (dget u)"
  have "\<exists>c. mapR da_schedule_change us = Inr c" if "set us \<subseteq> set (dn_urgent obs)" for us
    using that
  proof (induction us)
    case Nil
    then show ?case by simp
  next
    case (Cons u us)
    then obtain c where c: "mapR da_schedule_change us = Inr c" by auto
    have "{''id'', ''customer'', ''remaining''} \<subseteq> dom (dget u)" using q Cons.prems by auto
    then obtain x y z where "dget u ''id'' = Some x" "dget u ''customer'' = Some y" "dget u ''remaining'' = Some z" by auto
    then have "\<exists>a. da_schedule_change u = Inr a" by (simp add: da_schedule_change_def item_at_def)
    then show ?case using c by auto
  qed
  then obtain c where "mapR da_schedule_change (dn_urgent obs) = Inr c" by blast
  then show "\<exists>d s'. da_reason obs s = Inr (d, s')"
    by (simp add: da_reason_def Let_def case_prod_unfold)
qed (rule act_total)

lemma inventory_total:
  assumes wip: "dget snap ''wip'' = Some (PList ws)" "\<forall>w\<in>set ws. wip_row_ok w"
    and st: "dget snap ''stations'' = Some (PDict ss)" "\<forall>row\<in>set ss. station_row_ok (snd row)"
    and num: "\<forall>k\<in>{''scrap_count'', ''total_produced''}. is_num (dget_or snap k (PInt 0))"
  shows "\<exists>d s'. run_cycle ia_sense ia_reason (ia_act interf) snap s = Inr (d, s')"
proof (rule run_cycle_total [where Q = "\<lambda>obs. \<forall>w\<in>set (io_wip_alerts obs). is_num (wa_util w)"])
  fix s :: "inventory_agent wired"
  let ?I = "\<lambda>os. \<forall>w\<in>set (io_wip_alerts (fst os)). is_num (wa_util w)"
  have buffer: "\<exists>t'. ia_sense_buffer w t = Inr t' \<and> ?I t'" if "w \<in> set ws" "?I t" for w t
  proof -
    obtain obs u where t: "t = (obs, u)" by (rule prod.exhaust)
    have "wip_row_ok w" using wip(2) that(1) by blast
    then obtain d i j where w: "w = PDict d" "dget d ''from'' = Some (PInt i)" "dget d ''to'' = Some (PInt j)"
        "is_num (dget_or d ''util'' (PInt 0))"
      by (cases w) (auto simp: wip_row_ok_def)
    obtain x where "py_num (dget_or d ''util'' (PInt 0)) = Inr x" using w(4) by (rule numE)
    then show ?thesis using that(2) w(4) by (auto simp: t w(1-3) ia_sense_buffer_def item_at_def Let_def)
  qed
  have station: "\<exists>t'. ia_sense_station row t = Inr t' \<and> True" if "row \<in> set ss" for row t
  proof -
    obtain sid v where row: "row = (sid, v)" by (rule prod.exhaust)
    obtain tab m b where t: "t = (tab, m, b)" by (rule prod_cases3)
    have "station_row_ok v" using st(2) that by (auto simp: row)
    then obtain d od x where d: "v = PDict d" "dget d ''oee'' = Some (PDict od)" "dget od ''oee'' = Some (PFloat x)"
      by (cases v) (auto simp: station_row_ok_def)
    then have "num_at od ''oee'' 1 = Inr x" "dict_at d ''oee'' = Inr od" by (simp_all add: num_at_def dict_at_def dget_orI)
    then show ?thesis by (simp add: ia_sense_station_def row t d(1))
  qed
  obtain scrap tot where n: "num_at snap ''scrap_count'' 0 = Inr scrap" "num_at snap ''total_produced'' 0 = Inr tot"
    using num num_at_total by (metis insertCI)
  let ?o = "\<lparr> io_wip_levels = [], io_bottleneck = None, io_fg_stock = dget_or snap ''fg_stock'' (PInt 0),
     io_throughput = dget_or snap ''total_produced'' (PInt 0), io_scrap_rate = scrap / max 1 (tot + scrap),
     io_station_utilization = [], io_wip_alerts = [] \<rparr>"
  obtain obs1 s1 where f: "foldR ia_sense_buffer ws (?o, s) = Inr (obs1, s1)" "?I (obs1, s1)"
    using foldR_total [of ?I "(?o, s)" ws ia_sense_buffer] buffer by auto
  obtain tab m b where g: "foldR ia_sense_station ss ([], 1, None) = Inr (tab, m, b)"
    using foldR_total [of "\<lambda>_. True" "([], 1, None)" ss ia_sense_station] station by auto
  show "\<exists>obs s'. ia_sense snap s = Inr (obs, s') \<and> (\<forall>w\<in>set (io_wip_alerts obs). is_num (wa_util w))"
    using f(2) by (simp add: ia_sense_def n dget_orI [OF wip(1)] dict_at_def dget_orI [OF st(1)] f(1) g Let_def)
next
  fix obs :: inventory_obs and s :: "inventory_agent wired"
  assume q: "\<forall>w\<in>set (io_wip_alerts obs). is_num (wa_util w)"
  have "\<exists>ds. foldR ia_reason_wip (io_wip_alerts obs) (\<lparr> id_wip_actions = [], id_alerts = [], id_priority = ''LOW'' \<rparr>, s) = Inr ds \<and> True"
  proof (rule foldR_total)
    fix w and t :: "inventory_decision \<times> inventory_agent wired"
    assume "w \<in> set (io_wip_alerts obs)"
    then obtain x where "fmt_pct_val 0 (wa_util w) = Inr x" using q fmt_pct_val_total by blast
    then show "\<exists>t'. ia_reason_wip w t = Inr t' \<and> True" by (cases t) (simp add: ia_reason_wip_def Let_def)
  qed simp
  then show "\<exists>d s'. ia_reason obs s = Inr (d, s')" by (auto simp: ia_reason_def Let_def case_prod_unfold)
qed (rule act_total)

lemma equipment_total:
  assumes st: "dget snap ''stations'' = Some (PDict ss)" "\<forall>row\<in>set ss. station_row_ok (snd row)"
    and mc: "kpi_context snap = Inr ctx"
  shows "\<exists>d s'. run_cycle ea_sense ea_reason (ea_act interf) snap s = Inr (d, s')"
proof (rule run_cycle_total [where Q = "\<lambda>_. True"])
  fix s :: "equipment_agent wired"
  have sensor: "\<exists>t'. ea_sense_sensor sid ty row t = Inr t' \<and> True" if ok: "sensor_row_ok (snd row)" for sid ty row t
  proof -
    obtain name v where row: "row = (name, v)" by (rule prod.exhaust)
    obtain k obs u where t: "t = ((k, obs), u)" by (metis surj_pair)
    obtain d a b c e where d: "v = PDict d" "dget d ''value'' = Some (PFloat a)" "dget d ''ma'' = Some (PFloat b)"
        "dget d ''slope'' = Some (PFloat c)" "dget d ''std'' = Some (PFloat e)"
      using ok by (cases v) (auto simp: row sensor_row_ok_def)
    then have "num_at d ''value'' x = Inr a" "num_at d ''ma'' x = Inr b" "num_at d ''slope'' x = Inr c" "num_at d ''std'' x = Inr e" for x
      by (simp_all add: num_at_def dget_orI)
    then show ?thesis by (simp add: ea_sense_sensor_def row t d(1) Let_def case_prod_unfold)
  qed
  have station: "\<exists>t'. ea_sense_station row t = Inr t' \<and> True" if "row \<in> set ss" for row t
  proof -
    obtain sid v where row: "row = (sid, v)" by (rule prod.exhaust)
    obtain obs u where t: "t = (obs, u)" by (rule prod.exhaust)
    have "station_row_ok v" using st(2) that by (auto simp: row)
    then obtain d xs ty x m where d: "v = PDict d" "dget d ''sensors'' = Some (PDict xs)" "\<forall>row\<in>set xs. sensor_row_ok (snd row)"
        "dget d ''type'' = Some (PStr ty)" "dget d ''tool_life_pct'' = Some (PFloat x)" "dget d ''mtbf'' = Some m" "m = PNone \<or> is_num m"
      by (cases v) (auto simp: station_row_ok_def)
    obtain sty where ty: "station_type_of d = Inr sty"
      using d(4) by (cases "ty = []") (simp_all add: station_type_of_def dget_none_def dget_orI py_or_def)
    obtain mt where mt: "mtbf_seconds d = Inr mt"
      using d(6,7) by (cases m) (auto simp: mtbf_seconds_def except_type_value_def)
    define k0 where "k0 = ((\<lparr> ek_health = 100, ek_max_anomaly = 0, ek_worst = '''' \<rparr>, obs), u)"
    obtain k1 o1 u1 where f: "foldR (ea_sense_sensor sid sty) xs k0 = Inr ((k1, o1), u1)"
      using foldR_total [of "\<lambda>_. True" k0 xs "ea_sense_sensor sid sty"] sensor d(3) by (metis surj_pair)
    have n: "num_at d ''tool_life_pct'' 100 = Inr x" "dict_at d ''sensors'' = Inr xs"
      using d(2,5) by (simp_all add: num_at_def dict_at_def dget_orI)
    show ?thesis using f by (simp add: ea_sense_station_def row t d(1) ty mt n k0_def Let_def)
  qed
  obtain obs1 s1 where f: "foldR ea_sense_station ss (empty_equipment_obs, with_agent (\<lambda>a. a\<lparr>ea_by_station := []\<rparr>) s) = Inr (obs1, s1)"
    using foldR_total [of "\<lambda>_. True" _ ss ea_sense_station] station by (metis surj_pair)
  show "\<exists>obs s'. ea_sense snap s = Inr (obs, s') \<and> True"
    using f by (simp add: ea_sense_def dict_at_def dget_orI [OF st(1)] mc)
next
  fix obs :: equipment_obs and s :: "equipment_agent wired"
  show "\<exists>d s'. ea_reason obs s = Inr (d, s')" by (simp add: ea_reason_def Let_def case_prod_unfold)
qed (rule act_total)

text \<open>
  The quality agent completes when no sensor of the snapshot has a specification limit: its
  Cpk table stays as it was.
\<close>

definition untracked :: "dict \<Rightarrow> bool" where
  "untracked stations \<longleftrightarrow> (\<forall>(sid, v)\<in>set stations. \<forall>(name, _)\<in>set (dict_or_empty (dget_none (dict_or_empty v) ''sensors'')).
     map_of spec_limits (sid @ ''.'' @ name) = None)"

lemma quality_sense_untracked:
  assumes st: "dget snap ''stations'' = Some (PDict ss)" "\<forall>row\<in>set ss. station_row_ok (snd row)" "untracked ss"
  shows "\<exists>obs s'. qa_sense snap s = Inr (obs, s') \<and> qo_cpk_status obs = [] \<and> qa_cpk_history (fst s') = qa_cpk_history (fst s)"
proof -
  let ?I = "\<lambda>os. qo_cpk_status (fst os) = [] \<and> qa_cpk_history (fst (snd os)) = qa_cpk_history (fst s)"
  have sensor: "\<exists>t'. qa_sense_sensor sid row t = Inr t' \<and> ?I t'"
    if ok: "sensor_row_ok (snd row)" "map_of spec_limits (sid @ ''.'' @ fst row) = None" "?I t" for sid row t
  proof -
    obtain name v where row: "row = (name, v)" by (rule prod.exhaust)
    obtain obs u where t: "t = (obs, u)" by (rule prod.exhaust)
    obtain d a where d: "v = PDict d" "dget d ''value'' = Some (PFloat a)"
      using ok(1) by (cases v) (auto simp: row sensor_row_ok_def)
    then have "num_at d ''value'' 0 = Inr a" by (simp add: num_at_def dget_orI)
    then show ?thesis using ok(2,3) by (simp add: qa_sense_sensor_def row t d(1) Let_def with_agent_def)
  qed
  have station: "\<exists>t'. qa_sense_station row t = Inr t' \<and> ?I t'" if "row \<in> set ss" "?I t" for row t
  proof -
    obtain sid v where row: "row = (sid, v)" by (rule prod.exhaust)
    obtain obs u where t: "t = (obs, u)" by (rule prod.exhaust)
    have "station_row_ok v" using st(2) that by (auto simp: row)
    then obtain d xs od y where d: "v = PDict d" "dget d ''sensors'' = Some (PDict xs)" "\<forall>row\<in>set xs. sensor_row_ok (snd row)"
        "dget d ''oee'' = Some (PDict od)" "dget od ''quality'' = Some (PFloat y)"
      by (cases v) (auto simp: station_row_ok_def)
    have lim: "map_of spec_limits (sid @ ''.'' @ fst x) = None" if "x \<in> set xs" for x
      using st(3) \<open>row \<in> set ss\<close> that d(1,2) by (fastforce simp: untracked_def row dget_none_def dget_orI)
    define o0 where "o0 = (obs\<lparr>qo_yield_by_station := AList.update sid (py_round 1 (y * 100)) (qo_yield_by_station obs)\<rparr>, u)"
    have "?I o0" using that(2) by (simp add: o0_def t)
    then obtain o1 u1 where f: "foldR (qa_sense_sensor sid) xs o0 = Inr (o1, u1)" "?I (o1, u1)"
      using foldR_total [of ?I o0 xs "qa_sense_sensor sid"] sensor d(3) lim by (metis (no_types, lifting) surj_pair)
    have n: "dict_at d ''sensors'' = Inr xs" "dict_at d ''oee'' = Inr od" "num_at od ''quality'' 1 = Inr y"
      using d(2,4,5) by (simp_all add: num_at_def dict_at_def dget_orI)
    show ?thesis using f by (simp add: qa_sense_station_def row t d(1) n o0_def)
  qed
  define o0 where "o0 = (empty_quality_obs (py_or (dget_none snap ''business_events'') (PList [])), s)"
  have "?I o0" by (simp add: o0_def empty_quality_obs_def)
  then obtain obs1 s1 where f: "foldR qa_sense_station ss o0 = Inr (obs1, s1)" "?I (obs1, s1)"
    using foldR_total [of ?I o0 ss qa_sense_station] station by (metis (no_types, lifting) surj_pair)
  show ?thesis
    using f by (simp add: qa_sense_def dict_at_def dget_orI [OF st(1)] o0_def summarize_spc_def min_of_dicts_def Let_def with_agent_def)
qed

lemma quality_reason_total: "\<exists>d s'. qa_reason obs s = Inr (d, s')"
  by (simp add: qa_reason_def Let_def case_prod_unfold)

lemma quality_total:
  assumes "dget snap ''stations'' = Some (PDict ss)" "\<forall>row\<in>set ss. station_row_ok (snd row)" "untracked ss"
  shows "\<exists>d s'. run_cycle qa_sense qa_reason (qa_act interf) snap s = Inr (d, s')"
proof (rule run_cycle_total [where Q = "\<lambda>_. True"])
  show "\<exists>obs s'. qa_sense snap s = Inr (obs, s') \<and> True" for s
    using quality_sense_untracked [OF assms, of s] by blast
qed (rule quality_reason_total act_total)+

definition demo_agents :: "demand_agent wired \<times> inventory_agent wired \<times> equipment_agent wired \<times> quality_agent wired" where
  "demo_agents = ((new_demand_agent (\<lambda>n. ''id'') (\<lambda>n. ''t''), None), (new_inventory_agent (\<lambda>n. ''id'') (\<lambda>n. ''t''), None),
     (new_equipment_agent (\<lambda>n. ''id'') (\<lambda>n. ''t''), None), (new_quality_agent (\<lambda>n. ''id'') (\<lambda>n. ''t''), None))"

theorem agents_keep_their_contract_witness:
  "\<exists>d s'. run_cycle sa_sense sa_reason (sa_act id) demo_materials demo_supply_agent = Inr (d, s')
     \<and> cycle_ok (\<lambda>d. length (sd_alerts d)) demo_supply_agent d s'"
proof -
  obtain da ia ea qa where ag: "demo_agents = (da, ia, ea, qa)" by (metis prod_cases4)
  have sm: "small_logs demo_supply_agent" "small_logs da" "small_logs ia" "small_logs ea" "small_logs qa"
    using ag by (auto simp: demo_agents_def demo_supply_agent_def small_logs_def new_supply_agent_def new_demand_agent_def
        new_inventory_agent_def new_equipment_agent_def new_quality_agent_def new_base_agent_def base_agent.defs)
  obtain rows where rows: "dget demo_materials ''materials'' = Some (PDict rows)" "\<forall>row\<in>set rows. material_row_ok (snd row)"
    by (simp add: demo_materials_def dget_or_def dget_def material_row_ok_def)
  obtain d s' where r: "run_cycle sa_sense sa_reason (sa_act id) demo_materials demo_supply_agent = Inr (d, s')"
    using supply_total [OF rows, of id demo_supply_agent] by blast
  with agents_keep_their_contract [OF sm, of id demo_materials d s'] show ?thesis by blast
qed

section \<open>Supply\<close>

text \<open>The two classes of material a snapshot shows, read directly off its rows.\<close>

definition mat_num :: "string \<Rightarrow> pyval \<Rightarrow> real" where
  "mat_num k v = (case bindR (as_dict v) (\<lambda>d. py_num (dget_or d k (PInt 0))) of Inr x \<Rightarrow> x | Inl _ \<Rightarrow> 0)"

definition emergency :: "string \<times> pyval \<Rightarrow> bool" where
  "emergency row \<longleftrightarrow> mat_num ''stock'' (snd row) \<le> mat_num ''safety_stock'' (snd row) / 2"

definition wants_reorder :: "string \<times> pyval \<Rightarrow> bool" where
  "wants_reorder row \<longleftrightarrow> \<not> emergency row
     \<and> (py_truthy (dget_or (dict_or_empty (snd row)) ''needs_reorder'' (PBool False))
        \<or> mat_num ''stock'' (snd row) \<le> mat_num ''safety_stock'' (snd row))"

lemma material_class_texts:
  "(utf8 [0xC704, 0xD5D8]) \<noteq> (utf8 [0xBD80, 0xC871])" "(utf8 [0xC704, 0xD5D8]) \<noteq> (utf8 [0xC8FC, 0xC758])" "(utf8 [0xC704, 0xD5D8]) \<noteq> (utf8 [0xCDA9, 0xBD84])" "(utf8 [0xBD80, 0xC871]) \<noteq> (utf8 [0xC8FC, 0xC758])" "(utf8 [0xBD80, 0xC871]) \<noteq> (utf8 [0xCDA9, 0xBD84])"
  by (simp_all add: text_eval)

lemma sense_material_step:
  assumes "sa_sense_material row (obs, s) = Inr (obs', s')"
  shows "map mo_material (so_shortages obs') = map mo_material (so_shortages obs) @ (if emergency row then [fst row] else [])"
    and "map mo_material (so_reorder_needed obs') = map mo_material (so_reorder_needed obs) @ (if wants_reorder row then [fst row] else [])"
proof -
  obtain name v where row: "row = (name, v)" by (rule prod.exhaust)
  obtain md stock ss status where b: "as_dict v = Inr md" "py_num (dget_or md ''stock'' (PInt 0)) = Inr stock"
      "py_num (dget_or md ''safety_stock'' (PInt 0)) = Inr ss"
      "material_class stock ss (dget_or md ''days_supply'' (PInt 999)) (dget_or md ''needs_reorder'' (PBool False)) = Inr status"
      "map mo_material (so_shortages obs') = map mo_material (so_shortages obs) @ (if status = (utf8 [0xC704, 0xD5D8]) then [name] else [])"
      "map mo_material (so_reorder_needed obs') = map mo_material (so_reorder_needed obs) @ (if status = (utf8 [0xBD80, 0xC871]) then [name] else [])"
    using assms by (auto simp: row sa_sense_material_def bindR_Inr_iff Let_def)
  have v: "v = PDict md" using b(1) by (cases v) simp_all
  have n: "mat_num ''stock'' v = stock" "mat_num ''safety_stock'' v = ss"
    using b(1-3) by (simp_all add: mat_num_def bindR_def)
  have st: "(status = (utf8 [0xC704, 0xD5D8])) = emergency row" "(status = (utf8 [0xBD80, 0xC871])) = wants_reorder row"
    using b(4) material_class_texts n
    by (auto simp: material_class_def emergency_def wants_reorder_def row v bindR_Inr_iff split: if_split_asm)
  show "map mo_material (so_shortages obs') = map mo_material (so_shortages obs) @ (if emergency row then [fst row] else [])"
    "map mo_material (so_reorder_needed obs') = map mo_material (so_reorder_needed obs) @ (if wants_reorder row then [fst row] else [])"
    using b(5,6) by (simp_all add: st row)
qed

lemma sense_materials_fold:
  "foldR sa_sense_material rows (obs, s) = Inr (obs', s') \<Longrightarrow>
     map mo_material (so_shortages obs') = map mo_material (so_shortages obs) @ map fst (filter emergency rows)
     \<and> map mo_material (so_reorder_needed obs') = map mo_material (so_reorder_needed obs) @ map fst (filter wants_reorder rows)"
proof (induction rows arbitrary: obs s)
  case Nil
  then show ?case by simp
next
  case (Cons row rows)
  obtain obs1 s1 where 1: "sa_sense_material row (obs, s) = Inr (obs1, s1)"
      "foldR sa_sense_material rows (obs1, s1) = Inr (obs', s')"
    using Cons.prems by (auto simp: bindR_Inr_iff)
  show ?case using Cons.IH [OF 1(2)] sense_material_step [OF 1(1)] by simp
qed

lemma reorder_log_kept:
  assumes "sa_sense snap s = Inr (obs, s1)" shows "sa_reorder_log (fst s1) = sa_reorder_log (fst s)"
proof -
  obtain rows obs0 obs1 s0 where f: "foldR sa_sense_material rows (obs0, s) = Inr (obs1, s0)"
      and s1: "sa_reorder_log (fst s1) = sa_reorder_log (fst s0)"
    using assms by (auto simp: sa_sense_def bindR_Inr_iff with_agent_def)
  have "sa_reorder_log (fst (snd (obs1, s0))) = sa_reorder_log (fst s)"
    by (rule foldR_invariant [OF f]) (auto simp: sa_sense_material_def bindR_Inr_iff Let_def with_agent_def)
  then show ?thesis by (simp add: s1)
qed

lemma send_keeps_log [simp]: "sa_reorder_log (fst (send_alerts interf body als s)) = sa_reorder_log (fst s)"
  by (induction als arbitrary: s) (simp_all add: send_message_def Let_def)

lemma sa_reason_keeps_log:
  assumes "sa_reason obs s = Inr (dec, s')" shows "sa_reorder_log (fst s') = sa_reorder_log (fst s)"
proof -
  let ?P = "\<lambda>ds. sa_reorder_log (fst (snd ds)) = sa_reorder_log (fst s)"
  let ?d0 = "\<lparr> sd_reorders = [], sd_alerts = [], sd_priority = ''LOW'' \<rparr>"
  obtain d1 s1 where 1: "fold sa_reason_shortage (so_shortages obs) (?d0, s) = (d1, s1)" by (rule prod.exhaust)
  have p1: "?P (d1, s1)" unfolding 1 [symmetric]
    by (rule fold_invariant [where Q = "\<lambda>_. True"]) (auto simp: sa_reason_shortage_def log_reasoning_def with_agent_def)
  obtain d2 s2 where 2: "foldR sa_reason_reorder (so_reorder_needed obs) (d1, s1) = Inr (d2, s2)"
      and s': "sa_reorder_log (fst s') = sa_reorder_log (fst s2)"
    using assms 1 by (auto simp: sa_reason_def bindR_Inr_iff log_reasoning_def with_agent_def split: if_split_asm)
  have "?P (d2, s2)"
    by (rule foldR_invariant [OF 2]) (use p1 in \<open>auto simp: sa_reason_reorder_def bindR_Inr_iff log_reasoning_def with_agent_def\<close>)
  then show ?thesis by (simp add: s')
qed

text \<open>
  C17 (\<open>supply_orders_what_is_short\<close>): a completed cycle of the supply agent over any snapshot
  decides by the rows of its materials alone: it places an emergency order for exactly the
  materials at or below half their safety stock, then a regular order for those below the
  safety stock or flagged for reorder, in the order of the snapshot; without such materials
  it takes no decision. The priority is CRITICAL iff there is an emergency, every emergency
  sends one CRITICAL alert, and the orders are appended to the order log.
\<close>

theorem supply_orders_what_is_short:
  assumes run: "run_cycle sa_sense sa_reason (sa_act interf) snap s = Inr (dec, s')"
    and rows: "dget_or snap ''materials'' (PDict []) = PDict rows"
  defines "em \<equiv> map fst (filter emergency rows)" and "reg \<equiv> map fst (filter wants_reorder rows)"
  shows "(dec = None \<longleftrightarrow> em = [] \<and> reg = [])
    \<and> (\<forall>d. dec = Some d \<longrightarrow> map ro_material (sd_reorders d) = em @ reg \<and> length (sd_alerts d) = length em
         \<and> (\<forall>al\<in>set (sd_alerts d). al_severity al = ''CRITICAL'')
         \<and> sd_priority d = (if em \<noteq> [] then ''CRITICAL'' else ''MEDIUM''))
    \<and> sa_reorder_log (fst s') = sa_reorder_log (fst s) @ (case dec of None \<Rightarrow> [] | Some d \<Rightarrow> sd_reorders d)"
proof -
  let ?s0 = "set_agent_state AG_SENSING (begin_cycle snap s)"
  obtain obs s1 s2 as s3 where e: "sa_sense snap ?s0 = Inr (obs, s1)"
      "sa_reason obs (set_agent_state AG_REASONING s1) = Inr (dec, s2)"
      "sa_act interf dec (set_agent_state AG_ACTING (store_decision dec s2)) = Inr (as, s3)"
      and s': "s' = set_agent_state AG_IDLE s3"
    using run by (auto simp: run_cycle_def bindR_Inr_iff)
  obtain obs0 s0' where f: "foldR sa_sense_material rows (\<lparr> so_status = [], so_shortages = [], so_reorder_needed = [] \<rparr>, ?s0) = Inr (obs, s0')"
    using e(1) rows by (auto simp: sa_sense_def dict_at_def bindR_Inr_iff)
  have obs: "map mo_material (so_shortages obs) = em" "map mo_material (so_reorder_needed obs) = reg"
    using sense_materials_fold [OF f] by (simp_all add: em_def reg_def)
  then have nil: "so_shortages obs = [] \<longleftrightarrow> em = []" "so_reorder_needed obs = [] \<longleftrightarrow> reg = []"
      "length (so_shortages obs) = length em" by (auto simp flip: length_map [of mo_material])
  note r = sa_reason_result [OF e(2)]
  have log: "sa_reorder_log (fst s2) = sa_reorder_log (fst s)"
    using reorder_log_kept [OF e(1)] sa_reason_keeps_log [OF e(2)]
    by (simp add: set_agent_state_def begin_cycle_def with_agent_def)
  have log3: "sa_reorder_log (fst s3) = sa_reorder_log (fst s) @ (case dec of None \<Rightarrow> [] | Some d \<Rightarrow> sd_reorders d)"
    using e(3) log send_keeps_log by (auto simp: sa_act_def store_decision_def set_agent_state_def with_agent_def split: option.splits)
  show ?thesis
    using r(2,3) obs nil log3 by (auto simp: s' set_agent_state_def with_agent_def)
qed

theorem supply_orders_what_is_short_witness:
  "\<exists>d s'. run_cycle sa_sense sa_reason (sa_act id) demo_materials demo_supply_agent = Inr (Some d, s')
     \<and> map ro_material (sd_reorders d) = [''bolt'', ''oil''] \<and> sd_priority d = ''CRITICAL'' \<and> length (sd_alerts d) = 1"
proof -
  obtain rows where rows: "demo_materials = [(''materials'', PDict rows)]" "map fst (filter emergency rows) = [''bolt'']"
      "map fst (filter wants_reorder rows) = [''oil'']" "\<forall>row\<in>set rows. material_row_ok (snd row)"
    by (simp add: demo_materials_def emergency_def wants_reorder_def mat_num_def bindR_def dget_or_def dget_def material_row_ok_def)
  have g: "dget demo_materials ''materials'' = Some (PDict rows)" by (simp add: rows(1) dget_def)
  obtain dec s' where r: "run_cycle sa_sense sa_reason (sa_act id) demo_materials demo_supply_agent = Inr (dec, s')"
    using supply_total [OF g rows(4), of id demo_supply_agent] by blast
  have "dget_or demo_materials ''materials'' (PDict []) = PDict rows" by (simp add: rows(1) dget_or_def dget_def)
  note c = supply_orders_what_is_short [OF r this, unfolded rows(2,3)]
  then obtain d where d: "dec = Some d" by (cases dec) auto
  show ?thesis using r c unfolding d by auto
qed

section \<open>Demand\<close>

lemma da_sense_rates:
  assumes "foldR (da_sense_order fg) (map (\<lambda>o'. PDict (order_snapshot o')) os) obs = Inr obs'"
  shows "dn_total_demand obs' = dn_total_demand obs + of_int (\<Sum>o'\<leftarrow>os. co_quantity o')"
    and "dn_total_delivered obs' = dn_total_delivered obs + of_int (\<Sum>o'\<leftarrow>os. co_delivered o')"
    and "dn_on_time_rate obs' = dn_on_time_rate obs"
proof -
  have "dn_total_demand obs' = dn_total_demand obs + of_int (\<Sum>o'\<leftarrow>os. co_quantity o')
      \<and> dn_total_delivered obs' = dn_total_delivered obs + of_int (\<Sum>o'\<leftarrow>os. co_delivered o')
      \<and> dn_on_time_rate obs' = dn_on_time_rate obs"
    using assms
  proof (induction os arbitrary: obs)
    case Nil
    then show ?case by simp
  next
    case (Cons o' os)
    obtain obs1 where 1: "da_sense_order fg (PDict (order_snapshot o')) obs = Inr obs1"
        "foldR (da_sense_order fg) (map (\<lambda>o'. PDict (order_snapshot o')) os) obs1 = Inr obs'"
      using Cons.prems by (auto simp: bindR_Inr_iff)
    have "dn_total_demand obs1 = dn_total_demand obs + of_int (co_quantity o')
        \<and> dn_total_delivered obs1 = dn_total_delivered obs + of_int (co_delivered o')
        \<and> dn_on_time_rate obs1 = dn_on_time_rate obs"
      using 1(1) by (auto simp: da_sense_order_def order_snapshot_def dget_or_def bindR_Inr_iff Let_def split: if_splits)
    then show ?case using Cons.IH [OF 1(2)] by simp
  qed
  then show "dn_total_demand obs' = dn_total_demand obs + of_int (\<Sum>o'\<leftarrow>os. co_quantity o')"
    "dn_total_delivered obs' = dn_total_delivered obs + of_int (\<Sum>o'\<leftarrow>os. co_delivered o')"
    "dn_on_time_rate obs' = dn_on_time_rate obs" by simp_all
qed

lemma da_sense_rate:
  assumes sense: "da_sense snap s = Inr (obs, s')" and orders: "dget_or snap ''orders'' (PList []) = PList os"
  obtains obs1 where "foldR (da_sense_order (dget_or snap ''fg_stock'' (PInt 0))) os empty_demand_obs = Inr obs1"
    and "dn_on_time_rate obs = (if dn_total_demand obs1 > 0 then dn_total_delivered obs1 / dn_total_demand obs1
        else dn_on_time_rate obs1)"
proof -
  obtain obs1 where f: "foldR (da_sense_order (dget_or snap ''fg_stock'' (PInt 0))) os empty_demand_obs = Inr obs1"
    using sense by (auto simp only: da_sense_def orders as_list.simps bindR_simps bindR_Inr_iff)
  define obs2 where "obs2 = (if dn_total_demand obs1 > 0
     then obs1\<lparr>dn_on_time_rate := dn_total_delivered obs1 / dn_total_demand obs1\<rparr> else obs1)"
  obtain cyc where cyc: "num_at snap ''cycle'' 0 = Inr cyc"
    using sense by (cases "num_at snap ''cycle'' 0") (simp_all add: da_sense_def orders f Let_def)
  have "\<exists>c. obs = obs2\<lparr>dn_capacity_utilization := c\<rparr>"
  proof (cases "cyc > 0")
    case True
    then obtain tp where tp: "num_at snap ''total_produced'' 0 = Inr tp"
      using sense by (cases "num_at snap ''total_produced'' 0") (simp_all add: da_sense_def orders f Let_def cyc)
    show ?thesis
      using sense True by (auto simp: da_sense_def orders f Let_def cyc tp simp flip: obs2_def)
  next
    case False
    have "obs = obs2\<lparr>dn_capacity_utilization := dn_capacity_utilization obs2\<rparr>"
      using sense False by (simp add: da_sense_def orders f Let_def cyc flip: obs2_def)
    then show ?thesis by blast
  qed
  then have "dn_on_time_rate obs = dn_on_time_rate obs2" by auto
  then show thesis using that [OF f] by (simp add: obs2_def)
qed

lemma send_keeps_capacity [simp]: "da_capacity_util (fst (send_alerts interf body als s)) = da_capacity_util (fst s)"
  by (induction als arbitrary: s) (simp_all add: send_message_def Let_def)

text \<open>
  C28 (\<open>late_deliveries_alerted\<close>): when the orders of the snapshot have delivered less than 85
  per cent of the ordered quantity, a completed cycle of the demand agent decides with
  priority CRITICAL and sends at least one CRITICAL alert. In every alert it sends, the field
  named on_time_rate carries the capacity utilisation instead.
\<close>

theorem late_deliveries_alerted:
  assumes run: "run_cycle da_sense da_reason (da_act interf) snap s = Inr (dec, s')"
    and orders: "dget_or snap ''orders'' (PList []) = PList (map (\<lambda>o'. PDict (order_snapshot o')) os)"
    and late: "0 < (\<Sum>o'\<leftarrow>os. co_quantity o')" "100 * (\<Sum>o'\<leftarrow>os. co_delivered o') < 85 * (\<Sum>o'\<leftarrow>os. co_quantity o')"
  shows "\<exists>d ms. dec = Some d \<and> dd_priority d = ''CRITICAL''
    \<and> ag_outbox (fst s') = ag_outbox (fst s) @ ms
    \<and> (\<exists>m\<in>set ms. dget (m_body m) ''severity'' = Some (PStr ''CRITICAL''))
    \<and> (\<forall>m\<in>set ms. dget (m_body m) ''on_time_rate'' = Some (PFloat (da_capacity_util (fst s'))))"
proof -
  let ?s0 = "set_agent_state AG_SENSING (begin_cycle snap s)"
  obtain obs s1 s2 as s3 where e: "da_sense snap ?s0 = Inr (obs, s1)"
      "da_reason obs (set_agent_state AG_REASONING s1) = Inr (dec, s2)"
      "da_act interf dec (set_agent_state AG_ACTING (store_decision dec s2)) = Inr (as, s3)"
      and s': "s' = set_agent_state AG_IDLE s3"
    using run by (auto simp: run_cycle_def bindR_Inr_iff)
  let ?q = "\<Sum>o'\<leftarrow>os. co_quantity o'" and ?d = "\<Sum>o'\<leftarrow>os. co_delivered o'"
  obtain obs1 where f: "foldR (da_sense_order (dget_or snap ''fg_stock'' (PInt 0))) (map (\<lambda>o'. PDict (order_snapshot o')) os)
        empty_demand_obs = Inr obs1"
      and rate: "dn_on_time_rate obs = (if dn_total_demand obs1 > 0 then dn_total_delivered obs1 / dn_total_demand obs1
        else dn_on_time_rate obs1)"
    by (rule da_sense_rate [OF e(1) orders])
  have "dn_on_time_rate obs = of_int ?d / of_int ?q"
    using rate da_sense_rates [OF f] late(1) by (simp add: empty_demand_obs_def)
  also have "\<dots> < 85 / 100"
  proof -
    have "real_of_int (100 * ?d) < real_of_int (85 * ?q)" "0 < real_of_int ?q"
      using late unfolding of_int_less_iff by simp_all
    then show ?thesis by (simp add: divide_less_eq)
  qed
  finally have otr: "dn_on_time_rate obs < 85 / 100" .
  then obtain d where dec: "dec = Some d" using da_reason_result(2) [OF e(2)] by (cases dec) auto
  note r = da_reason_result(3) [OF e(2) dec]
  have cap: "da_capacity_util (fst s2) = da_capacity_util (fst s3)"
    using e(3) by (auto simp: dec da_act_def store_decision_def set_agent_state_def with_agent_def)
  let ?t = "set_agent_state AG_ACTING (store_decision dec s2)"
  obtain ms where ms: "ag_outbox (fst s3) = ag_outbox (fst ?t) @ ms" "map m_body ms = map (da_alert_body (fst ?t)) (dd_alerts d)"
    using send_alerts_bodies [of interf "da_alert_body (fst ?t)" "dd_alerts d" ?t] e(3) by (auto simp: dec da_act_def)
  have sets: "m_body ` set ms = da_alert_body (fst ?t) ` set (dd_alerts d)" using arg_cong [OF ms(2), of set] by simp
  then have body: "m_body m \<in> da_alert_body (fst ?t) ` set (dd_alerts d)" if "m \<in> set ms" for m using that by blast
  obtain al where al: "al \<in> set (dd_alerts d)" "al_severity al = ''CRITICAL''" using r otr by auto
  then obtain m where m: "m \<in> set ms" "m_body m = da_alert_body (fst ?t) al"
    using sets by (metis (no_types, lifting) imageE imageI)
  have out: "ag_outbox (fst s') = ag_outbox (fst s) @ ms"
    using ms(1) da_sense_quiet [OF e(1)] da_reason_result(1) [OF e(2)]
    by (simp add: s' dec quiet_def set_agent_state_def begin_cycle_def store_decision_def with_agent_def)
  have otr_field: "dget (m_body m) ''on_time_rate'' = Some (PFloat (da_capacity_util (fst s')))" if "m \<in> set ms" for m
    using body [OF that] cap
    by (auto simp: da_alert_body_def dget_def s' dec set_agent_state_def store_decision_def with_agent_def)
  have "dget (m_body m) ''severity'' = Some (PStr ''CRITICAL'')" by (simp add: m(2) al(2) da_alert_body_def dget_def)
  then show ?thesis using dec r otr out m(1) otr_field by auto
qed

definition demo_order :: customer_order where
  "demo_order = \<lparr> co_id = ''PO-1'', co_customer = ''HMC'', co_part = ''P'', co_quantity = 400,
     co_due_date = ''2026-04-10'', co_priority = URGENT, co_delivered = 0 \<rparr>"

definition demo_demand_agent :: "demand_agent wired" where
  "demo_demand_agent = (new_demand_agent (\<lambda>n. ''id'') (\<lambda>n. ''t''), None)"

theorem late_deliveries_alerted_witness:
  "\<exists>d s' ms. run_cycle da_sense da_reason (da_act id) [(''orders'', PList [PDict (order_snapshot demo_order)])] demo_demand_agent
       = Inr (Some d, s')
     \<and> ag_outbox (fst s') = ag_outbox (fst demo_demand_agent) @ ms
     \<and> (\<exists>m\<in>set ms. dget (m_body m) ''severity'' = Some (PStr ''CRITICAL'') \<and> dget (m_body m) ''on_time_rate'' = Some (PFloat (da_capacity_util (fst s'))))"
proof -
  let ?snap = "[(''orders'', PList [PDict (order_snapshot demo_order)])]"
  have ok: "dget ?snap ''orders'' = Some (PList [PDict (order_snapshot demo_order)])"
      "\<forall>v\<in>set [PDict (order_snapshot demo_order)]. order_row_ok v"
      "\<forall>k\<in>{''cycle'', ''total_produced'', ''fg_stock''}. is_num (dget_or ?snap k (PInt 0))"
    by (auto simp: dget_def dget_or_def order_row_ok_def order_snapshot_def)
  obtain dec s' where r: "run_cycle da_sense da_reason (da_act id) ?snap demo_demand_agent = Inr (dec, s')"
    using demand_total [OF ok, of id demo_demand_agent] by blast
  have o: "dget_or ?snap ''orders'' (PList []) = PList (map (\<lambda>o'. PDict (order_snapshot o')) [demo_order])"
    by (simp add: dget_or_def)
  have q: "0 < (\<Sum>o'\<leftarrow>[demo_order]. co_quantity o')"
      "100 * (\<Sum>o'\<leftarrow>[demo_order]. co_delivered o') < 85 * (\<Sum>o'\<leftarrow>[demo_order]. co_quantity o')"
    by (simp_all add: demo_order_def)
  from late_deliveries_alerted [OF r o q] r show ?thesis by blast
qed

section \<open>Inventory\<close>

text \<open>
  C29 (\<open>overload_reported_as_medium\<close>): the inventory agent decides exactly when a buffer is over
  capacity, the bottleneck is slow or the scrap rate exceeds 5 per cent; it sends a HIGH
  alert when a buffer is over capacity, but as the priorities are compared as texts a slow
  bottleneck lowers the priority of the decision from HIGH to MEDIUM.
\<close>

theorem overload_reported_as_medium:
  assumes "ia_reason obs s = Inr (dec, s')"
  defines "n \<equiv> length (filter over_capacity (io_wip_alerts obs))"
  shows "(dec = None \<longleftrightarrow> n = 0 \<and> \<not> slow_bottleneck obs \<and> io_scrap_rate obs \<le> SCRAP_RATE_THRESHOLD)
    \<and> (\<forall>d. dec = Some d \<longrightarrow> length (id_wip_actions d) = n
        \<and> (n > 0 \<longrightarrow> (\<exists>al\<in>set (id_alerts d). al_severity al = ''HIGH''))
        \<and> id_priority d = (if slow_bottleneck obs then ''MEDIUM'' else if n > 0 then ''HIGH'' else ''LOW''))"
  using ia_reason_result [OF assms(1)] by (auto simp: n_def)

definition demo_overload :: inventory_obs where
  "demo_overload = \<lparr> io_wip_levels = [], io_bottleneck = Some ''WC-01'', io_fg_stock = PInt 0, io_throughput = PInt 0,
     io_scrap_rate = 0, io_station_utilization = [(''WC-01'', 1 / 2)],
     io_wip_alerts = [\<lparr> wa_buffer = ''b'', wa_count = PInt 29, wa_util = PFloat (97 / 100), wa_status = (utf8 [0xACFC, 0xC801]) \<rparr>] \<rparr>"

definition demo_inventory_agent :: "inventory_agent wired" where
  "demo_inventory_agent = (new_inventory_agent (\<lambda>n. ''id'') (\<lambda>n. ''t''), None)"

theorem overload_reported_as_medium_witness:
  "\<exists>d s'. ia_reason demo_overload demo_inventory_agent = Inr (Some d, s') \<and> id_priority d = ''MEDIUM''
     \<and> (\<exists>al\<in>set (id_alerts d). al_severity al = ''HIGH'')"
proof -
  have f: "filter over_capacity (io_wip_alerts demo_overload) = io_wip_alerts demo_overload" "slow_bottleneck demo_overload"
      "io_wip_alerts demo_overload \<noteq> []"
    by (simp_all add: demo_overload_def over_capacity_def slow_bottleneck_def BOTTLENECK_OEE_THRESHOLD_def)
  have "\<exists>ds. ia_reason demo_overload demo_inventory_agent = Inr ds"
    by (simp add: ia_reason_def demo_overload_def ia_reason_wip_def fmt_pct_val_def Let_def case_prod_unfold)
  then obtain dec s' where r: "ia_reason demo_overload demo_inventory_agent = Inr (dec, s')" by auto
  from overload_reported_as_medium [OF r] f obtain d where "dec = Some d" by (cases dec) auto
  with overload_reported_as_medium [OF r] f r show ?thesis by auto
qed

section \<open>Equipment\<close>

text \<open>
  C30 (\<open>equipment_warning_is_silent\<close>): the equipment agent decides exactly when an alarm is
  critical or a tool is urgent. When every alarm is a mere warning (anomaly above 0.7 but not
  above 0.9) and no tool is urgent, it has collected a priority HIGH and a speed reduction
  for every warning, and then returns no decision: nothing is sent and nothing is stored.
\<close>

theorem equipment_warning_is_silent:
  assumes "ea_reason obs s = Inr (dec, s')"
  shows "(dec = None \<longleftrightarrow> filter critical_alarm (eo_alarms obs) = [] \<and> filter urgent_tool (eo_tool_warnings obs) = [])
    \<and> (filter critical_alarm (eo_alarms obs) = [] \<longrightarrow> filter urgent_tool (eo_tool_warnings obs) = [] \<longrightarrow>
       filter warning_alarm (eo_alarms obs) \<noteq> [] \<longrightarrow>
         ed_priority (fst (ea_assess obs s)) = ''HIGH''
         \<and> length (ed_speed (fst (ea_assess obs s))) = length (filter warning_alarm (eo_alarms obs))
         \<and> dec = None \<and> ag_outbox (fst s') = ag_outbox (fst s) \<and> ag_decisions (fst s') = ag_decisions (fst s))"
proof -
  obtain d1 s1 where 1: "ea_assess obs s = (d1, s1)" by (rule prod.exhaust)
  note r = ea_assess_result [OF 1]
  have w: "filter (\<lambda>x. critical_alarm x \<or> warning_alarm x) xs = filter warning_alarm xs"
    if "filter critical_alarm xs = []" for xs
    using that by (intro filter_cong) (auto simp: filter_empty_conv)
  show ?thesis
    using ea_reason_result(1,2) [OF assms] r w [of "eo_alarms obs"] by (auto simp: 1 quiet_def same_base_def)
qed

definition demo_warning :: equipment_obs where
  "demo_warning = \<lparr> eo_station_health = [], eo_alarms = [\<lparr> lm_station = ''WC-05'', lm_sensor = ''spindle_vib'',
     lm_value = 2, lm_anomaly = 8 / 10, lm_trend = ''up'' \<rparr>], eo_tool_warnings = [], eo_trend_alerts = [],
     eo_kpi_by_station_ctx = None, eo_business_events_tail = PList [] \<rparr>"

definition demo_equipment_agent :: "equipment_agent wired" where
  "demo_equipment_agent = (new_equipment_agent (\<lambda>n. ''id'') (\<lambda>n. ''t''), None)"

theorem equipment_warning_is_silent_witness:
  "\<exists>s'. ea_reason demo_warning demo_equipment_agent = Inr (None, s')
     \<and> ed_priority (fst (ea_assess demo_warning demo_equipment_agent)) = ''HIGH''
     \<and> length (ed_speed (fst (ea_assess demo_warning demo_equipment_agent))) = 1"
proof -
  have f: "filter critical_alarm (eo_alarms demo_warning) = []" "filter urgent_tool (eo_tool_warnings demo_warning) = []"
      "filter warning_alarm (eo_alarms demo_warning) = eo_alarms demo_warning" "length (eo_alarms demo_warning) = 1"
    by (simp_all add: demo_warning_def critical_alarm_def warning_alarm_def ea_thresholds)
  have "\<exists>ds. ea_reason demo_warning demo_equipment_agent = Inr ds"
    by (simp add: ea_reason_def Let_def case_prod_unfold)
  then obtain dec s' where r: "ea_reason demo_warning demo_equipment_agent = Inr (dec, s')" by auto
  from equipment_warning_is_silent [OF r] f r show ?thesis by auto
qed

end
