(* ===== verification/Plant_Agents.thy ===== *)
theory Plant_Agents
  imports Agent_Laws
begin

text \<open>
  The agents on the plant's own snapshots: in every reachable factory the snapshot has the
  shape the agents take for granted, so that each of them completes its cycle; and none of
  its sensors has a specification limit in the quality agent's table.
\<close>

section \<open>The line keeps its sensors\<close>

definition sensor_keys :: "work_center list \<Rightarrow> (string \<times> string list) list" where
  "sensor_keys ws = map (\<lambda>w. (wc_id w, map fst (wc_sensors w))) ws"

lemma wc_step_sensors: "wc_step w w' \<Longrightarrow> map fst (wc_sensors w') = map fst (wc_sensors w)"
proof (induction rule: wc_step.induct)
  case (ws_cycle sf amb w r rds w' r')
  show ?case
  proof (cases "wc_state w \<in> {BREAKDOWN, MAINTENANCE, SETUP}")
    case True
    then show ?thesis using ws_cycle execute_cycle_stopped by simp
  next
    case False
    then show ?thesis using execute_cycle_running(3) [OF ws_cycle] by simp
  qed
qed (auto simp: record_quality_def trigger_breakdown_def complete_repair_def start_setup_def complete_setup_def
  set_speed_def case_prod_unfold comp_def)

lemma wc_steps_sensors: "wc_step\<^sup>*\<^sup>* w w' \<Longrightarrow> map fst (wc_sensors w') = map fst (wc_sensors w)"
  by (induction rule: rtranclp_induct) (auto dest: wc_step_sensors)

lemma run_cycle_line:
  assumes "factory_run_cycle f r = (c, f', r')"
  shows "map wc_id (f_line f') = map wc_id (f_line f) \<and> list_all2 (wc_step\<^sup>*\<^sup>*) (f_line f) (f_line f')"
proof -
  obtain p0 si f1 r1 where sc: "start_cycle f r = (p0, si, f1, r1)" by (metis prod_cases4)
  let ?st = "\<lparr> lr_product = p0, lr_readings = [], lr_factory = f1, lr_rng = r1 \<rparr>"
  obtain line st where rl: "run_line (effective_factor si) 0 (f_line f1) ?st = (line, st)" by fastforce
  note s = start_cycle_facts [OF sc]
  have l: "map wc_id line = map wc_id (f_line f) \<and> list_all2 (wc_step\<^sup>*\<^sup>*) (f_line f) line"
    using run_line_facts [OF rl] s(1,3) by simp
  have "f_line f' = line"
    using assms by (auto simp: factory_run_cycle_def sc rl complete_product_def factory_emit_def Let_def
        case_prod_unfold split: if_splits)
  then show ?thesis using l by simp
qed

lemma sensor_keys_run:
  "map wc_id ws' = map wc_id ws \<Longrightarrow> list_all2 (wc_step\<^sup>*\<^sup>*) ws ws' \<Longrightarrow> sensor_keys ws' = sensor_keys ws"
  by (rotate_tac, induction rule: list_all2_induct) (auto simp: sensor_keys_def dest: wc_steps_sensors)

lemma factory_sensor_keys: "factory_reachable f \<Longrightarrow> sensor_keys (f_line f) = sensor_keys create_production_line"
proof (induction rule: factory_reachable.induct)
  case (fr_new uuids walls r f r')
  then have "f_line f = create_production_line" by (auto simp: new_factory_def Let_def case_prod_unfold)
  then show ?case by simp
next
  case (fr_step f f')
  from fr_step.hyps(2) have "sensor_keys (f_line f') = sensor_keys (f_line f)"
  proof (rule factory_stepE)
    fix r c r' assume "factory_run_cycle f r = (c, f', r')"
    from run_cycle_line [OF this] show ?thesis by (auto intro: sensor_keys_run)
  next
    fix i w assume a: "f' = f\<lparr>f_line := (f_line f)[i := w]\<rparr>" "i < length (f_line f)"
      "wc_step (f_line f ! i) w" "wc_id w = wc_id (f_line f ! i)"
    then show ?thesis
      by (simp add: sensor_keys_def map_update_id wc_step_sensors)
  next
    fix m k assume "f' = f\<lparr>f_materials := AList.update k m (f_materials f)\<rparr>"
    then show ?thesis by simp
  qed simp_all
  then show ?case using fr_step.IH by simp
qed

lemma line_keys_untracked:
  "\<forall>(sid, names)\<in>set (sensor_keys create_production_line). \<forall>n\<in>set names. map_of spec_limits (sid @ ''.'' @ n) = None"
  by (simp add: sensor_keys_def create_production_line_def create_blanking_press_def create_forming_press_def
      create_spot_welder_def create_heat_treatment_def create_cnc_machine_def create_assembly_station_def
      new_work_center_def spec_limits_def text_eval)

section \<open>The shape of the snapshot\<close>

lemma sensor_row: "sensor_row_ok (PDict (enrich_sensor_row sid n (sensor_snapshot x) cyc t))"
  by (simp add: sensor_row_ok_def enrich_sensor_row_def sensor_snapshot_def dset_def dget_def)

lemma station_row: "station_row_ok (PDict (station_snapshot f w))"
proof -
  have s: "\<forall>row\<in>set (enrich_station_sensors sid (map (\<lambda>(n, s). (n, PDict (sensor_snapshot s))) ss) cyc t). sensor_row_ok (snd row)"
    for sid ss cyc t
    by (auto simp: enrich_station_sensors_def sensor_row)
  have m: "\<exists>m. (case wc_mtbf w of None \<Rightarrow> PNone | Some m \<Rightarrow> PFloat (py_round 1 m)) = m \<and> (m = PNone \<or> is_num m)"
    by (cases "wc_mtbf w") simp_all
  show ?thesis using s m
    by (simp add: station_row_ok_def station_snapshot_def wc_get_status_def oee_to_dict_def dset_def dget_def)
qed

lemma material_row: "0 < mt_consumption m \<Longrightarrow> material_row_ok (PDict (material_snapshot k m))"
  by (simp add: material_row_ok_def material_snapshot_def dget_or_def days_of_supply_def Let_def)

lemma material_rows:
  "\<forall>km\<in>set ms. 0 < mt_consumption (snd km)
   \<Longrightarrow> \<forall>row\<in>set (map (\<lambda>(k, m). (k, PDict (material_snapshot k m))) ms). material_row_ok (snd row)"
  by (simp add: case_prod_unfold material_row)

lemma order_row: "order_row_ok (PDict (order_snapshot od))"
  by (simp add: order_row_ok_def order_snapshot_def dget_or_def dget_def dom_def)

lemma wip_row: "wip_row_ok (PDict (wip_snapshot b))"
  by (simp add: wip_row_ok_def wip_snapshot_def dget_or_def dget_def)

lemma snapshot_lookups:
  "dget (get_snapshot f) ''stations'' = Some (PDict (map (\<lambda>w. (wc_id w, PDict (station_snapshot f w))) (f_line f)))"
  "dget (get_snapshot f) ''materials'' = Some (PDict (map (\<lambda>(k, m). (k, PDict (material_snapshot k m))) (f_materials f)))"
  "dget (get_snapshot f) ''orders'' = Some (PList (map (\<lambda>od. PDict (order_snapshot od)) (f_orders f)))"
  "dget (get_snapshot f) ''wip'' = Some (PList (map (\<lambda>b. PDict (wip_snapshot b)) (f_wip f)))"
  "dget (get_snapshot f) ''cycle'' = Some (PInt (int (f_cycle f)))"
  "dget (get_snapshot f) ''fg_stock'' = Some (PInt (f_fg_stock f))"
  "dget (get_snapshot f) ''total_produced'' = Some (PInt (int (f_total_produced f)))"
  "dget (get_snapshot f) ''scrap_count'' = Some (PInt (int (f_scrap f)))"
  "dget (get_snapshot f) ''manufacturing_context'' = None"
  by (simp_all add: get_snapshot_def dget_def Let_def)

lemma kpi_context_none: "dget snap ''manufacturing_context'' = None \<Longrightarrow> kpi_context snap = Inr None"
  by (simp add: kpi_context_def dget_none_def dget_or_def dget_def)

lemma factory_snapshot_ok:
  assumes "\<forall>km\<in>set (f_materials f). 0 < mt_consumption (snd km)"
  shows "snapshot_ok (get_snapshot f)"
  using assms
  using material_rows [OF assms]
  by (simp add: snapshot_ok_def snapshot_lookups dget_orI station_row order_row wip_row)

lemma stations_untracked:
  assumes "factory_reachable f"
  shows "untracked (map (\<lambda>w. (wc_id w, PDict (station_snapshot f w))) (f_line f))"
proof -
  have k: "map_of spec_limits (wc_id w @ ''.'' @ n) = None" if "w \<in> set (f_line f)" "n \<in> fst ` set (wc_sensors w)" for w n
  proof -
    have "(wc_id w, map fst (wc_sensors w)) \<in> set (sensor_keys (f_line f))" using that(1) by (simp add: sensor_keys_def)
    then have "\<forall>n\<in>set (map fst (wc_sensors w)). map_of spec_limits (wc_id w @ ''.'' @ n) = None"
      using line_keys_untracked by (auto simp only: factory_sensor_keys [OF assms])
    then show ?thesis using that(2) by auto
  qed
  let ?rows = "\<lambda>w. enrich_station_sensors (wc_id w) (map (\<lambda>(n, s). (n, PDict (sensor_snapshot s))) (wc_sensors w)) (f_cycle f) (f_sim_time f)"
  have rows: "dict_or_empty (dget_none (station_snapshot f w) ''sensors'') = ?rows w" for w
    by (simp add: station_snapshot_def wc_get_status_def dset_def dget_none_def dget_or_def)
  have names: "fst row \<in> fst ` set (wc_sensors w)" if "row \<in> set (?rows w)" for row w
    using that by (force simp: enrich_station_sensors_def)
  have row: "case row of (name, _) \<Rightarrow> map_of spec_limits (wc_id w @ ''.'' @ name) = None"
    if "w \<in> set (f_line f)" "row \<in> set (?rows w)" for w row
    using k [OF that(1) names [OF that(2)]] by (simp add: case_prod_unfold)
  show ?thesis
    unfolding untracked_def using row by (simp add: rows ball_simps)
qed

text \<open>
  \<open>agents_accept_plant_snapshots\<close>: in every reachable factory whose materials are consumed
  at all, each of the five agents, in whatever state it is, completes a cycle on the
  factory's snapshot: no lookup, comparison or format of the snapshot's dynamic values can
  raise.
\<close>

theorem agents_accept_plant_snapshots:
  assumes "factory_reachable f" "\<forall>km\<in>set (f_materials f). 0 < mt_consumption (snd km)"
  shows "(\<exists>d s'. run_cycle sa_sense sa_reason (sa_act interf) (get_snapshot f) sa = Inr (d, s'))
    \<and> (\<exists>d s'. run_cycle da_sense da_reason (da_act interf) (get_snapshot f) da = Inr (d, s'))
    \<and> (\<exists>d s'. run_cycle ia_sense ia_reason (ia_act interf) (get_snapshot f) ia = Inr (d, s'))
    \<and> (\<exists>d s'. run_cycle ea_sense ea_reason (ea_act interf) (get_snapshot f) ea = Inr (d, s'))
    \<and> (\<exists>d s'. run_cycle qa_sense qa_reason (qa_act interf) (get_snapshot f) qa = Inr (d, s'))"
proof (intro conjI)
  let ?snap = "get_snapshot f"
  note ok = factory_snapshot_ok [OF assms(2)] and look = snapshot_lookups [of f]
  have st: "\<forall>row\<in>set (map (\<lambda>w. (wc_id w, PDict (station_snapshot f w))) (f_line f)). station_row_ok (snd row)"
    by (auto simp: station_row)
  have num: "is_num (dget_or ?snap k (PInt 0))" if "k \<in> {''cycle'', ''total_produced'', ''fg_stock'', ''scrap_count''}" for k
    using that ok by (auto simp: snapshot_ok_def)
  show "\<exists>d s'. run_cycle sa_sense sa_reason (sa_act interf) ?snap sa = Inr (d, s')"
    by (rule supply_total [OF look(2) material_rows [OF assms(2)]])
  show "\<exists>d s'. run_cycle da_sense da_reason (da_act interf) ?snap da = Inr (d, s')"
    by (rule demand_total [OF look(3)]) (use num in \<open>auto simp: order_row\<close>)
  show "\<exists>d s'. run_cycle ia_sense ia_reason (ia_act interf) ?snap ia = Inr (d, s')"
    by (rule inventory_total [OF look(4) _ look(1) st]) (use num in \<open>auto simp: wip_row\<close>)
  show "\<exists>d s'. run_cycle ea_sense ea_reason (ea_act interf) ?snap ea = Inr (d, s')"
    by (rule equipment_total [OF look(1) st kpi_context_none [OF look(9)]])
  show "\<exists>d s'. run_cycle qa_sense qa_reason (qa_act interf) ?snap qa = Inr (d, s')"
    by (rule quality_total [OF look(1) st stations_untracked [OF assms(1)]])
qed

lemma demo_factory_consumes: "\<forall>km\<in>set (f_materials demo_factory). 0 < mt_consumption (snd km)"
  by (simp add: demo_factory_def new_factory_def Let_def case_prod_unfold initial_materials_def new_material_def)

theorem agents_accept_plant_snapshots_witness:
  "\<exists>d s'. run_cycle sa_sense sa_reason (sa_act id) (get_snapshot demo_factory) demo_supply_agent = Inr (d, s')"
  using agents_accept_plant_snapshots [OF demo_factory_reachable demo_factory_consumes] by blast

section \<open>What the quality agent cannot see\<close>




lemma qa_send_keeps_cpk [simp]: "qa_cpk_history (fst (send_alerts interf body als s)) = qa_cpk_history (fst s)"
  by (induction als arbitrary: s) (simp_all add: send_message_def Let_def)




end
