(* ===== verification/Router.thy ===== *)
theory Router
  imports Agent_Base Signals
begin

text \<open>
  \<open>mas/intelligence/decision_router.py\<close>: safety interlocks, threshold rules and the choice
  to consult the language model before an agent reasons; with the \<open>Action\<close> and
  \<open>ThinkResult\<close> types of \<open>mas/protocol/agentic_loop.py\<close>. The language model client is a
  parameter (its answers come from a remote service); the performance counter and the wall
  clock are supplied by the caller.
\<close>

section \<open>Actions\<close>

datatype action_type = AT_TOOL_CALL | AT_SEND_MESSAGE | AT_UPDATE_STATE | AT_LOG | AT_NOOP

record action =
  ax_type :: action_type
  ax_tool_name :: string
  ax_tool_kwargs :: dict
  ax_message :: "agent_message option"
  ax_state_update :: dict
  ax_log_msg :: string
  ax_log_level :: string

record think_result =
  tr_actions :: "action list"
  tr_reasoning :: string
  tr_source :: string

definition log_action :: "string \<Rightarrow> string \<Rightarrow> action" where
  "log_action msg level = \<lparr> ax_type = AT_LOG, ax_tool_name = '''', ax_tool_kwargs = [], ax_message = None,
     ax_state_update = [], ax_log_msg = msg, ax_log_level = level \<rparr>"

section \<open>State\<close>

definition vibration_emergency :: real where "vibration_emergency = 55 / 10"
definition vibration_critical :: real where "vibration_critical = 45 / 10"
definition oil_temp_critical :: real where "oil_temp_critical = 75"
definition material_buffer_critical_h :: real where "material_buffer_critical_h = 1"

definition RULES :: dict where
  "RULES =
     [(''vibration_emergency'', PFloat vibration_emergency), (''vibration_critical'', PFloat vibration_critical),
      (''vibration_warning'', PFloat (35 / 10)), (''oil_temp_critical'', PFloat oil_temp_critical),
      (''oil_temp_warning'', PFloat 60), (''speed_min'', PInt 40), (''speed_max'', PInt 100),
      (''cpk_critical'', PFloat (67 / 100)), (''cpk_warning'', PFloat 1), (''sl_critical'', PFloat (90 / 100)),
      (''material_buffer_critical_h'', PFloat material_buffer_critical_h), (''material_buffer_warning_h'', PFloat 3)]"

record decision_record =
  dr_timestamp :: real
  dr_agent_id :: string
  dr_route :: string
  dr_rule_name :: string
  dr_reasoning :: string
  dr_latency_ms :: real

record router_metrics =
  rm_rule :: nat
  rm_llm :: nat
  rm_fallbacks :: nat
  rm_total_latency :: real

record llm_client =
  llm_enabled :: bool
  llm_analyze :: "dict \<Rightarrow> dict list \<Rightarrow> string \<Rightarrow> dict option"

record router =
  rt_llm :: "llm_client option"
  rt_scope :: string
  rt_per_agent_assist :: bool
  rt_metrics :: router_metrics
  rt_log :: "decision_record list"

definition new_router :: "llm_client option \<Rightarrow> string \<Rightarrow> bool \<Rightarrow> router" where
  "new_router llm scope assist = \<lparr> rt_llm = llm, rt_scope = scope, rt_per_agent_assist = assist,
     rt_metrics = \<lparr> rm_rule = 0, rm_llm = 0, rm_fallbacks = 0, rm_total_latency = 0 \<rparr>, rt_log = [] \<rparr>"

definition metrics_record :: "string \<Rightarrow> real \<Rightarrow> router_metrics \<Rightarrow> router_metrics" where
  "metrics_record rte lat m =
     (let m1 = (if rte = ''rule'' then m\<lparr>rm_rule := Suc (rm_rule m)\<rparr>
                else if rte = ''llm'' then m\<lparr>rm_llm := Suc (rm_llm m)\<rparr> else m)
      in m1\<lparr>rm_total_latency := rm_total_latency m1 + lat\<rparr>)"

definition router_metrics_dict :: "router_metrics \<Rightarrow> dict" where
  "router_metrics_dict m =
     (let total = rm_rule m + rm_llm m; d = of_nat (max total 1) in
      [(''rule_decisions'', PInt (int (rm_rule m))), (''llm_decisions'', PInt (int (rm_llm m))),
       (''llm_fallbacks'', PInt (int (rm_fallbacks m))), (''total_decisions'', PInt (int total)),
       (''rule_pct'', PFloat (py_round 1 (of_nat (rm_rule m) / d * 100))),
       (''llm_pct'', PFloat (py_round 1 (of_nat (rm_llm m) / d * 100))),
       (''avg_latency_ms'', PFloat (py_round 2 (rm_total_latency m / d)))])"

definition push_decision_record :: "decision_record \<Rightarrow> decision_record list \<Rightarrow> decision_record list" where
  "push_decision_record = push_trim 300 150"

text \<open>The clock of one routing: counter at entry, counter when recording, wall clock.\<close>

record route_clock =
  rk_t0 :: real
  rk_t1 :: real
  rk_now :: real

definition router_record :: "route_clock \<Rightarrow> string \<Rightarrow> string \<Rightarrow> string \<Rightarrow> string \<Rightarrow> router \<Rightarrow> router" where
  "router_record c rte aid rule reasoning r =
     (let latency = (rk_t1 c - rk_t0 c) * 1000
      in r\<lparr> rt_metrics := metrics_record rte latency (rt_metrics r),
            rt_log := push_decision_record \<lparr> dr_timestamp = rk_now c, dr_agent_id = aid, dr_route = rte,
              dr_rule_name = rule, dr_reasoning = reasoning, dr_latency_ms = py_round 2 latency \<rparr> (rt_log r) \<rparr>)"

section \<open>Rules\<close>

definition rule_result :: "string \<Rightarrow> string \<Rightarrow> think_result" where
  "rule_result msg reasoning = \<lparr> tr_actions = [log_action msg ''ALERT''], tr_reasoning = reasoning, tr_source = ''rule'' \<rparr>"

definition check_safety_rules :: "dict \<Rightarrow> think_result option result" where
  "check_safety_rules snap =
     bindR (num_at snap ''vibration'' 0) (\<lambda>vib.
       if vib \<ge> vibration_emergency then
         Inr (Some (rule_result
           ((utf8 [0x5B, 0xBE44, 0xC0C1, 0xC815, 0xC9C0, 0x5D, 0x20, 0xC9C4, 0xB3D9, 0x20]) @ fmt_fixed 1 vib @ (utf8 [0x6D, 0x6D, 0x2F, 0x73, 0x20, 0x2265, 0x20]) @ repr_float vibration_emergency)
           (''Safety interlock: vibration '' @ fmt_fixed 1 vib @ '' >= emergency threshold'')))
       else bindR (num_at snap ''oil_temp'' 0) (\<lambda>oil.
         if oil \<ge> oil_temp_critical then
           Inr (Some (rule_result
             ((utf8 [0x5B, 0xC720, 0xC628, 0xC704, 0xD5D8, 0x5D, 0x20]) @ fmt_fixed 0 oil @ (utf8 [0xB0, 0x43, 0x20, 0x2265, 0x20]) @ repr_float oil_temp_critical @ (utf8 [0xB0, 0x43]))
             (''Safety interlock: oil temp '' @ fmt_fixed 0 oil @ '' >= critical'')))
         else Inr None))"

definition ea_rules :: "dict \<Rightarrow> think_result option result" where
  "ea_rules snap =
     bindR (num_at snap ''vibration'' 0) (\<lambda>vib.
       if vib \<ge> vibration_critical then
         Inr (Some (rule_result
           ((utf8 [0x52, 0x75, 0x6C, 0x65, 0x3A, 0x20, 0xC9C4, 0xB3D9, 0x20]) @ fmt_fixed 1 vib @ (utf8 [0x20, 0x2265, 0x20]) @ repr_float vibration_critical @ (utf8 [0x20, 0x2192, 0x20, 0xC989, 0xC2DC, 0x20, 0xAC10, 0xC18D]))
           (''Threshold rule: vib '' @ fmt_fixed 1 vib @ '' >= critical, force speed reduction'')))
       else Inr None)"

definition sa_rules :: "dict \<Rightarrow> think_result option result" where
  "sa_rules snap =
     bindR (num_at snap ''material_buffer_hours'' 99) (\<lambda>buf.
       if buf < material_buffer_critical_h then
         Inr (Some (rule_result
           ((utf8 [0x52, 0x75, 0x6C, 0x65, 0x3A, 0x20, 0xC790, 0xC7AC, 0x20, 0xBC84, 0xD37C, 0x20]) @ fmt_fixed 1 buf @ ''h < '' @ repr_float material_buffer_critical_h @ (utf8 [0x68, 0x20, 0x2192, 0x20, 0xAE34, 0xAE09, 0x20, 0xBCF4, 0xCDA9]))
           (''Threshold rule: material buffer critical ('' @ fmt_fixed 1 buf @ ''h)'')))
       else Inr None)"

definition check_threshold_rules :: "string \<Rightarrow> dict \<Rightarrow> think_result option result" where
  "check_threshold_rules aid snap =
     (if aid = ''EA'' then ea_rules snap else if aid = ''SA'' then sa_rules snap else Inr None)"

section \<open>Consulting the language model\<close>

text \<open>An alert of an observation: a message object, a dictionary, or something else.\<close>

datatype alert_item = AlertMsg agent_message | AlertDict dict | AlertOther pyval

text \<open>\<open>sensed.get("new_alerts") or sensed.get("alerts") or []\<close> is the argument \<open>alerts\<close>.\<close>

definition alert_types :: "alert_item list \<Rightarrow> pyval list" where
  "alert_types alerts = concat (map (\<lambda>a. case a of
      AlertMsg m \<Rightarrow> [dget_or (m_body m) ''type'' (PStr '''')]
    | AlertDict d \<Rightarrow> [dget_or d ''type'' (PStr '''')]
    | AlertOther _ \<Rightarrow> []) alerts)"

definition should_use_llm_pa :: "alert_item list \<Rightarrow> bool" where
  "should_use_llm_pa alerts \<longleftrightarrow> \<not> length alerts < 2 \<and> 2 \<le> length (remdups (alert_types alerts))"

definition alert_severity :: "alert_item \<Rightarrow> string" where
  "alert_severity a = (case a of
      AlertDict d \<Rightarrow> py_upper (py_str (py_or (dget_or d ''severity'' (PStr '''')) (PStr '''')))
    | AlertMsg m \<Rightarrow> py_upper (py_str (py_or (dget_or (m_body m) ''severity'' (PStr '''')) (PStr '''')))
    | AlertOther _ \<Rightarrow> '''')"

definition should_use_llm_non_pa :: "alert_item list \<Rightarrow> bool" where
  "should_use_llm_non_pa alerts \<longleftrightarrow>
     (if length alerts < 2 then False
      else if list_ex (\<lambda>s. s \<in> {''CRITICAL'', ''HIGH''}) (map alert_severity alerts) then True
      else 3 \<le> length alerts)"

definition should_route_to_llm :: "string \<Rightarrow> alert_item list \<Rightarrow> router \<Rightarrow> bool" where
  "should_route_to_llm aid alerts r = (case rt_llm r of
      None \<Rightarrow> False
    | Some llm \<Rightarrow>
        (if \<not> llm_enabled llm then False
         else if aid = ''PA'' then should_use_llm_pa alerts
         else if rt_scope r \<noteq> ''all_gated'' \<or> \<not> rt_per_agent_assist r then False
         else if aid \<notin> {''EA'', ''QA'', ''SA'', ''DA'', ''IA''} then False
         else should_use_llm_non_pa alerts))"

definition alert_dicts :: "alert_item list \<Rightarrow> dict list" where
  "alert_dicts alerts = concat (map (\<lambda>a. case a of
      AlertMsg m \<Rightarrow> [[(''sender'', PStr (h_sender (m_header m))), (''type'', dget_or (m_body m) ''type'' (PStr '''')),
                     (''summary'', dget_or (m_body m) ''summary'' (PStr ''''))]]
    | AlertDict d \<Rightarrow> [d]
    | AlertOther _ \<Rightarrow> []) alerts)"

definition route_to_llm :: "alert_item list \<Rightarrow> dict \<Rightarrow> string \<Rightarrow> router \<Rightarrow> think_result option result" where
  "route_to_llm alerts snap aid r = (case rt_llm r of
      None \<Rightarrow> Inr None
    | Some llm \<Rightarrow>
        (if \<not> llm_enabled llm then Inr None
         else (case llm_analyze llm snap (alert_dicts alerts) aid of
             None \<Rightarrow> Inr None
           | Some ans \<Rightarrow>
               (if ans = [] then Inr None
                else bindR (as_list (dget_or ans ''immediate_actions'' (PList []))) (\<lambda>texts.
                  Inr (Some \<lparr>
                    tr_actions = map (\<lambda>t. log_action ((utf8 [0x4C, 0x4C, 0x4D, 0x20, 0x2192, 0x20]) @ py_str t) ''INFO'') texts,
                    tr_reasoning = ''['' @ aid @ ''] LLM analysis: severity=''
                      @ py_str (dget_or ans ''severity'' (PStr ''MEDIUM'')) @ '', CNP=''
                      @ py_str (dget_or ans ''should_initiate_cnp'' (PBool False)) @ ''. ''
                      @ py_str (dget_or ans ''reasoning'' (PStr '''')),
                    tr_source = ''llm'' \<rparr>))))))"

section \<open>Routing\<close>

definition route :: "route_clock \<Rightarrow> string \<Rightarrow> alert_item list \<Rightarrow> dict \<Rightarrow> router \<Rightarrow> (think_result option \<times> router) result" where
  "route c aid alerts snap r =
     bindR (check_safety_rules snap) (\<lambda>safety. case safety of
         Some tr \<Rightarrow> Inr (Some tr, router_record c ''rule'' aid ''safety_interlock'' (tr_reasoning tr) r)
       | None \<Rightarrow> bindR (check_threshold_rules aid snap) (\<lambda>threshold. case threshold of
           Some tr \<Rightarrow> Inr (Some tr, router_record c ''rule'' aid ''threshold'' (tr_reasoning tr) r)
         | None \<Rightarrow>
             (if should_route_to_llm aid alerts r then
                bindR (route_to_llm alerts snap aid r) (\<lambda>ans. case ans of
                    Some tr \<Rightarrow> Inr (Some tr, router_record c ''llm'' aid ''strategic_decision'' (tr_reasoning tr) r)
                  | None \<Rightarrow> Inr (None, r\<lparr>rt_metrics := (rt_metrics r)\<lparr>rm_fallbacks := Suc (rm_fallbacks (rt_metrics r))\<rparr>\<rparr>))
              else Inr (None, r))))"

definition router_status :: "router \<Rightarrow> dict" where
  "router_status r =
     [(''rules'', PDict RULES), (''llm_router_scope'', PStr (rt_scope r)),
      (''llm_per_agent_assist'', PBool (rt_per_agent_assist r)),
      (''metrics'', PDict (router_metrics_dict (rt_metrics r))),
      (''recent_decisions'', PList (map (\<lambda>d. PDict [(''agent'', PStr (dr_agent_id d)), (''route'', PStr (dr_route d)),
         (''rule'', PStr (dr_rule_name d)), (''latency_ms'', PFloat (dr_latency_ms d))]) (last_n 10 (rt_log r))))]"

interpretation router_log: bounded_log push_decision_record 300 150
  unfolding push_decision_record_def by (simp add: bounded_log_push_trim)

end
