(* ===== verification/Protocol.thy ===== *)
theory Protocol
  imports Router Mfg_Context Planning
begin

text \<open>
  \<open>mas/protocol/agent_protocol.py\<close> and \<open>mas/protocol/sra_langgraph.py\<close>: one cycle of an
  agent with the router before its reasoning, as a sequential method and as a graph of five
  nodes. The graph library runs the nodes along the edges; whether it is installed and
  enabled is an argument. What an agent's own method leaves behind when it raises is not
  modelled: it is the field \<open>am_left\<close> of the agent's methods. The text of the enriched
  snapshot's time of ingestion and the router's clock are supplied per attempt.
\<close>

section \<open>An agent's methods, and outcomes that keep the state\<close>

datatype sra_method = M_SENSE | M_REASON | M_ACT

record ('o, 'd, 'a) agent_methods =
  am_sense :: "dict \<Rightarrow> 'a \<Rightarrow> ('o \<times> 'a) result"
  am_reason :: "'o \<Rightarrow> 'a \<Rightarrow> ('d option \<times> 'a) result"
  am_act :: "'d option \<Rightarrow> 'a \<Rightarrow> (string list \<times> 'a) result"
  am_alerts :: "'o \<Rightarrow> dict list"
  am_left :: "sra_method \<Rightarrow> py_error \<Rightarrow> 'a \<Rightarrow> 'a"

text \<open>A raise carries the state it leaves.\<close>

type_synonym ('x, 's) outcome = "(py_error \<times> 's) + ('x \<times> 's)"

definition bindO :: "('x, 's) outcome \<Rightarrow> ('x \<Rightarrow> 's \<Rightarrow> ('y, 's) outcome) \<Rightarrow> ('y, 's) outcome" where
  "bindO r f = (case r of Inl z \<Rightarrow> Inl z | Inr (x, s) \<Rightarrow> f x s)"

lemma bindO_simps [simp]:
  "bindO (Inl z) f = Inl z" "bindO (Inr (x, s)) f = f x s"
  by (simp_all add: bindO_def)

text \<open>The state of a cycle: the agent with its broker, the router, and the log's owner.\<close>

type_synonym ('a, 'l) sra = "'a \<times> router option \<times> 'l"

record sra_clock =
  sw_ingest :: string
  sw_route :: route_clock

type_synonym 'l log_fn = "string \<Rightarrow> string \<Rightarrow> string \<Rightarrow> 'l \<Rightarrow> 'l"

definition run_method ::
  "('o, 'd, 'a) agent_methods \<Rightarrow> sra_method \<Rightarrow> ('a \<Rightarrow> ('x \<times> 'a) result) \<Rightarrow> ('a, 'l) sra \<Rightarrow> ('x, ('a, 'l) sra) outcome" where
  "run_method m name f st = (let (s, r, l) = st in
     case f s of Inl e \<Rightarrow> Inl (e, am_left m name e s, r, l) | Inr (x, s') \<Rightarrow> Inr (x, s', r, l))"

section \<open>The router's answer\<close>

definition apply_think_action ::
  "(broker \<Rightarrow> broker) \<Rightarrow> 'l log_fn option \<Rightarrow> action \<Rightarrow> ('d, 'z) base_agent_scheme wired \<times> 'l
   \<Rightarrow> ('d, 'z) base_agent_scheme wired \<times> 'l" where
  "apply_think_action interf log_fn ax sl = (let (s, l) = sl in
     if ax_type ax = AT_LOG \<and> ax_log_msg ax \<noteq> [] then
       (s, case log_fn of None \<Rightarrow> l
           | Some f \<Rightarrow> f (ag_id (fst s)) (ax_log_msg ax) (if ax_log_level ax \<noteq> [] then ax_log_level ax else ''INFO'') l)
     else if ax_type ax = AT_SEND_MESSAGE then
       (case ax_message ax of None \<Rightarrow> (s, l) | Some msg \<Rightarrow> ((fst s, map_option (deliver interf msg) (snd s)), l))
     else (s, l))"

definition apply_think_result ::
  "(broker \<Rightarrow> broker) \<Rightarrow> 'l log_fn option \<Rightarrow> think_result \<Rightarrow> ('d, 'z) base_agent_scheme wired \<times> 'l
   \<Rightarrow> ('d, 'z) base_agent_scheme wired \<times> 'l" where
  "apply_think_result interf log_fn tr sl = fold (apply_think_action interf log_fn) (tr_actions tr) sl"

definition consult_router ::
  "(broker \<Rightarrow> broker) \<Rightarrow> 'l log_fn option \<Rightarrow> route_clock \<Rightarrow> dict list \<Rightarrow> dict
   \<Rightarrow> (('d, 'z) base_agent_scheme wired, 'l) sra \<Rightarrow> (unit, (('d, 'z) base_agent_scheme wired, 'l) sra) outcome" where
  "consult_router interf log_fn c alerts enriched st = (let (s, r, l) = st in
     case r of
       None \<Rightarrow> Inr ((), st)
     | Some router \<Rightarrow>
         (case route c (ag_id (fst s)) (map AlertDict alerts) enriched router of
            Inl e \<Rightarrow> Inl (e, st)
          | Inr (None, router') \<Rightarrow> Inr ((), s, Some router', l)
          | Inr (Some tr, router') \<Rightarrow>
              (let (s', l') = apply_think_result interf log_fn tr (s, l) in Inr ((), s', Some router', l'))))"

section \<open>The sequential cycle\<close>

definition on_agent :: "('a \<Rightarrow> 'a) \<Rightarrow> ('a, 'l) sra \<Rightarrow> ('a, 'l) sra" where
  "on_agent f st = (f (fst st), snd st)"

definition enrich_step :: "dict \<Rightarrow> 's \<Rightarrow> (dict, 's) outcome" where
  "enrich_step snap st = (case enrich_snapshot_for_router snap of Inl e \<Rightarrow> Inl (e, st) | Inr d \<Rightarrow> Inr (d, st))"

definition run_sra_sequential ::
  "(broker \<Rightarrow> broker) \<Rightarrow> ('o, 'd, ('d, 'z) base_agent_scheme wired) agent_methods \<Rightarrow> 'l log_fn option \<Rightarrow> sra_clock
   \<Rightarrow> dict \<Rightarrow> (('d, 'z) base_agent_scheme wired, 'l) sra
   \<Rightarrow> ('d option, (('d, 'z) base_agent_scheme wired, 'l) sra) outcome" where
  "run_sra_sequential interf m log_fn w snapshot st =
     (let snap = enrich_snapshot_for_agents snapshot (sw_ingest w);
          st0 = on_agent (\<lambda>s. set_agent_state AG_SENSING (begin_cycle snap s)) st
      in bindO (run_method m M_SENSE (am_sense m snap) st0) (\<lambda>obs st1.
         bindO (enrich_step snap st1) (\<lambda>enriched st2.
         bindO (consult_router interf log_fn (sw_route w) (am_alerts m obs) enriched
                  (on_agent (set_agent_state AG_REASONING) st2)) (\<lambda>_ st3.
         bindO (run_method m M_REASON (am_reason m obs) st3) (\<lambda>d st4.
         bindO (run_method m M_ACT (am_act m d) (on_agent (\<lambda>s. set_agent_state AG_ACTING (store_decision d s)) st4)) (\<lambda>_ st5.
           Inr (d, on_agent (set_agent_state AG_IDLE) st5)))))))"

section \<open>The graph\<close>

datatype node = N_START | N_SENSE | N_ENRICH | N_ROUTER | N_REASON | N_ACT | N_END

definition sra_edges :: "(node \<times> node) list" where
  "sra_edges = [(N_START, N_SENSE), (N_SENSE, N_ENRICH), (N_ENRICH, N_ROUTER), (N_ROUTER, N_REASON),
     (N_REASON, N_ACT), (N_ACT, N_END)]"

text \<open>The values the nodes hand on; a key not yet written is \<open>None\<close>.\<close>

record ('o, 'd) graph_state =
  gs_snapshot :: dict
  gs_observations :: "'o option"
  gs_enriched :: "dict option"
  gs_decision :: "'d option option"

fun run_node ::
  "(broker \<Rightarrow> broker) \<Rightarrow> ('o, 'd, ('d, 'z) base_agent_scheme wired) agent_methods \<Rightarrow> 'l log_fn option \<Rightarrow> sra_clock
   \<Rightarrow> node \<Rightarrow> ('o, 'd) graph_state \<Rightarrow> (('d, 'z) base_agent_scheme wired, 'l) sra
   \<Rightarrow> (('o, 'd) graph_state, (('d, 'z) base_agent_scheme wired, 'l) sra) outcome" where
  "run_node interf m log_fn w N_SENSE g st =
     bindO (run_method m M_SENSE (am_sense m (gs_snapshot g))
         (on_agent (\<lambda>s. set_agent_state AG_SENSING (begin_cycle (gs_snapshot g) s)) st))
       (\<lambda>obs st1. Inr (g\<lparr>gs_observations := Some obs\<rparr>, st1))"
| "run_node interf m log_fn w N_ENRICH g st =
     bindO (enrich_step (gs_snapshot g) st) (\<lambda>enriched st1. Inr (g\<lparr>gs_enriched := Some enriched\<rparr>, st1))"
| "run_node interf m log_fn w N_ROUTER g st =
     bindO (consult_router interf log_fn (sw_route w)
         (case gs_observations g of None \<Rightarrow> [] | Some obs \<Rightarrow> am_alerts m obs)
         (case gs_enriched g of None \<Rightarrow> [] | Some enriched \<Rightarrow> enriched)
         (on_agent (set_agent_state AG_REASONING) st))
       (\<lambda>_ st1. Inr (g, st1))"
| "run_node interf m log_fn w N_REASON g st = (case gs_observations g of
       None \<Rightarrow> Inl (KeyError, st)
     | Some obs \<Rightarrow> bindO (run_method m M_REASON (am_reason m obs) st)
         (\<lambda>d st1. Inr (g\<lparr>gs_decision := Some d\<rparr>, on_agent (store_decision d) st1)))"
| "run_node interf m log_fn w N_ACT g st =
     bindO (run_method m M_ACT (am_act m (case gs_decision g of None \<Rightarrow> None | Some d \<Rightarrow> d))
         (on_agent (set_agent_state AG_ACTING) st))
       (\<lambda>_ st1. Inr (g, on_agent (set_agent_state AG_IDLE) st1))"
| "run_node interf m log_fn w _ g st = Inr (g, st)"

text \<open>The graph library follows the edges from the start; \<open>fuel\<close> bounds the number of steps.\<close>

fun invoke_graph ::
  "nat \<Rightarrow> (node \<times> node) list \<Rightarrow> (node \<Rightarrow> 'g \<Rightarrow> 's \<Rightarrow> ('g, 's) outcome) \<Rightarrow> node \<Rightarrow> 'g \<Rightarrow> 's \<Rightarrow> ('g, 's) outcome option" where
  "invoke_graph 0 edges run n g st = None"
| "invoke_graph (Suc fuel) edges run n g st =
     (case map_of edges n of
        None \<Rightarrow> Some (Inr (g, st))
      | Some n' \<Rightarrow> (case run n' g st of
            Inl z \<Rightarrow> Some (Inl z)
          | Inr (g', st') \<Rightarrow> invoke_graph fuel edges run n' g' st'))"

definition invoke_sra_graph ::
  "(broker \<Rightarrow> broker) \<Rightarrow> ('o, 'd, ('d, 'z) base_agent_scheme wired) agent_methods \<Rightarrow> 'l log_fn option \<Rightarrow> sra_clock
   \<Rightarrow> dict \<Rightarrow> (('d, 'z) base_agent_scheme wired, 'l) sra
   \<Rightarrow> ('d option, (('d, 'z) base_agent_scheme wired, 'l) sra) outcome option" where
  "invoke_sra_graph interf m log_fn w snapshot st =
     map_option (\<lambda>r. bindO r (\<lambda>g st'. Inr (case gs_decision g of None \<Rightarrow> None | Some d \<Rightarrow> d, st')))
       (invoke_graph 25 sra_edges (run_node interf m log_fn w) N_START
         \<lparr> gs_snapshot = enrich_snapshot_for_agents snapshot (sw_ingest w), gs_observations = None,
           gs_enriched = None, gs_decision = None \<rparr> st)"

text \<open>The environment variable \<open>MAS_USE_LANGGRAPH\<close>.\<close>

definition use_langgraph :: "string option \<Rightarrow> bool" where
  "use_langgraph v = (py_lower (py_strip (case v of None \<Rightarrow> ''1'' | Some s \<Rightarrow> s)) \<notin> {''0'', ''false'', ''no'', ''off''})"

text \<open>
  A raise in the graph falls back to the sequential cycle, on the state the graph left and
  with a new clock.
\<close>

definition run_cycle_with_router ::
  "string option \<Rightarrow> bool \<Rightarrow> (broker \<Rightarrow> broker) \<Rightarrow> ('o, 'd, ('d, 'z) base_agent_scheme wired) agent_methods
   \<Rightarrow> 'l log_fn option \<Rightarrow> sra_clock \<Rightarrow> sra_clock \<Rightarrow> dict \<Rightarrow> (('d, 'z) base_agent_scheme wired, 'l) sra
   \<Rightarrow> ('d option, (('d, 'z) base_agent_scheme wired, 'l) sra) outcome" where
  "run_cycle_with_router env installed interf m log_fn w1 w2 snapshot st =
     (if use_langgraph env \<and> installed then
        (case invoke_sra_graph interf m log_fn w1 snapshot st of
           Some (Inr r) \<Rightarrow> Inr r
         | Some (Inl (e, st')) \<Rightarrow> run_sra_sequential interf m log_fn w2 snapshot st'
         | None \<Rightarrow> run_sra_sequential interf m log_fn w2 snapshot st)
      else run_sra_sequential interf m log_fn w2 snapshot st)"

section \<open>The six agents\<close>

definition supply_methods :: "(broker \<Rightarrow> broker) \<Rightarrow> (sra_method \<Rightarrow> py_error \<Rightarrow> supply_agent wired \<Rightarrow> supply_agent wired)
    \<Rightarrow> (supply_obs, supply_decision, supply_agent wired) agent_methods" where
  "supply_methods interf left = \<lparr> am_sense = sa_sense, am_reason = sa_reason, am_act = sa_act interf,
     am_alerts = (\<lambda>_. []), am_left = left \<rparr>"

definition demand_methods :: "(broker \<Rightarrow> broker) \<Rightarrow> (sra_method \<Rightarrow> py_error \<Rightarrow> demand_agent wired \<Rightarrow> demand_agent wired)
    \<Rightarrow> (demand_obs, demand_decision, demand_agent wired) agent_methods" where
  "demand_methods interf left = \<lparr> am_sense = da_sense, am_reason = da_reason, am_act = da_act interf,
     am_alerts = (\<lambda>_. []), am_left = left \<rparr>"

definition inventory_methods :: "(broker \<Rightarrow> broker) \<Rightarrow> (sra_method \<Rightarrow> py_error \<Rightarrow> inventory_agent wired \<Rightarrow> inventory_agent wired)
    \<Rightarrow> (inventory_obs, inventory_decision, inventory_agent wired) agent_methods" where
  "inventory_methods interf left = \<lparr> am_sense = ia_sense, am_reason = ia_reason, am_act = ia_act interf,
     am_alerts = (\<lambda>_. []), am_left = left \<rparr>"

definition equipment_methods :: "(broker \<Rightarrow> broker) \<Rightarrow> (sra_method \<Rightarrow> py_error \<Rightarrow> equipment_agent wired \<Rightarrow> equipment_agent wired)
    \<Rightarrow> (equipment_obs, equipment_decision, equipment_agent wired) agent_methods" where
  "equipment_methods interf left = \<lparr> am_sense = ea_sense, am_reason = ea_reason, am_act = ea_act interf,
     am_alerts = (\<lambda>_. []), am_left = left \<rparr>"

definition quality_methods :: "(broker \<Rightarrow> broker) \<Rightarrow> (sra_method \<Rightarrow> py_error \<Rightarrow> quality_agent wired \<Rightarrow> quality_agent wired)
    \<Rightarrow> (quality_obs, quality_decision, quality_agent wired) agent_methods" where
  "quality_methods interf left = \<lparr> am_sense = qa_sense, am_reason = qa_reason, am_act = qa_act interf,
     am_alerts = (\<lambda>_. []), am_left = left \<rparr>"

definition planning_methods :: "(sra_method \<Rightarrow> py_error \<Rightarrow> planning_agent wired \<Rightarrow> planning_agent wired)
    \<Rightarrow> (planning_obs, planning_decision, planning_agent wired) agent_methods" where
  "planning_methods left = \<lparr> am_sense = pa_sense, am_reason = pa_reason, am_act = pa_act,
     am_alerts = pb_alerts, am_left = left \<rparr>"

end
