(* ===== verification/Protocol_Laws.thy ===== *)
theory Protocol_Laws
  imports Protocol Plant_Agents Planning_Laws
begin

text \<open>
  Laws of the agent cycle: the graph and the sequential method agree, the router's language
  model route is never taken, and a critical alert in the planning agent's inbox opens a
  contract net round exactly when the cool-down has passed.
\<close>

section \<open>Two ways to run a cycle\<close>

lemma bindO_assoc: "bindO (bindO r f) g = bindO r (\<lambda>x s. bindO (f x s) g)"
  by (simp add: bindO_def split: sum.split prod.split)

lemma bindO_Inl_iff: "bindO r f = Inl z \<longleftrightarrow> r = Inl z \<or> (\<exists>x s. r = Inr (x, s) \<and> f x s = Inl z)"
  by (auto simp: bindO_def split: sum.split prod.split)

lemma bindO_Inr_iff: "bindO r f = Inr y \<longleftrightarrow> (\<exists>x s. r = Inr (x, s) \<and> f x s = Inr y)"
  by (auto simp: bindO_def split: sum.split prod.split)

lemma on_agent_compose: "on_agent f (on_agent g st) = on_agent (\<lambda>s. f (g s)) st"
  by (simp add: on_agent_def)

lemma invoke_graph_numeral [simp]:
  "invoke_graph (numeral k) edges run n g st = (case map_of edges n of
        None \<Rightarrow> Some (Inr (g, st))
      | Some n' \<Rightarrow> (case run n' g st of
            Inl z \<Rightarrow> Some (Inl z)
          | Inr (g', st') \<Rightarrow> invoke_graph (pred_numeral k) edges run n' g' st'))"
  by (simp add: numeral_eq_Suc)

lemma graph_run:
  "invoke_sra_graph interf m log_fn w snapshot st = Some (run_sra_sequential interf m log_fn w snapshot st)"
  unfolding invoke_sra_graph_def run_sra_sequential_def Let_def
  by (simp add: sra_edges_def bindO_def on_agent_compose split: sum.split)


section \<open>The language model route\<close>

definition state_of :: "('x, 's) outcome \<Rightarrow> 's" where
  "state_of out = (case out of Inl z \<Rightarrow> snd z | Inr z \<Rightarrow> snd z)"

lemma state_of_simps [simp]: "state_of (Inl (e, s)) = s" "state_of (Inr (x, s)) = s"
  by (simp_all add: state_of_def)

lemma state_of_bindO:
  "I (state_of r) \<Longrightarrow> (\<And>x s. r = Inr (x, s) \<Longrightarrow> I s \<Longrightarrow> I (state_of (f x s))) \<Longrightarrow> I (state_of (bindO r f))"
  by (auto simp: bindO_def state_of_def split: sum.splits prod.splits)

text \<open>The router has made rule decisions only: its client and its two model counters are as they were.\<close>

fun llm_idle :: "router option \<Rightarrow> router option \<Rightarrow> bool" where
  "llm_idle None r' \<longleftrightarrow> r' = None"
| "llm_idle (Some r) r' \<longleftrightarrow> (\<exists>x. r' = Some x \<and> rt_llm x = rt_llm r \<and> rm_llm (rt_metrics x) = rm_llm (rt_metrics r)
     \<and> rm_fallbacks (rt_metrics x) = rm_fallbacks (rt_metrics r))"

lemma llm_idle_refl [simp]: "llm_idle r r"
  by (cases r) auto

lemma llm_idle_trans: "llm_idle a b \<Longrightarrow> llm_idle b c \<Longrightarrow> llm_idle a c"
  by (cases a; cases b; cases c) auto

lemma rule_record_idle:
  "llm_idle (Some r) (Some (router_record c ''rule'' aid rule reasoning r))"
  by (simp add: router_record_def metrics_record_def Let_def)

text \<open>Alerts without a \<open>type\<close> are one type to the router; no alert is none.\<close>

definition typeless :: "dict list \<Rightarrow> bool" where
  "typeless alerts \<longleftrightarrow> (\<forall>d\<in>set alerts. dget d ''type'' = None)"

lemma typeless_one_type: "typeless alerts \<Longrightarrow> length (remdups (alert_types (map AlertDict alerts))) \<le> 1"
proof -
  assume "typeless alerts"
  then have "set (alert_types (map AlertDict alerts)) \<subseteq> {PStr []}"
    by (auto simp: typeless_def alert_types_def dget_or_dget)
  then have "card (set (alert_types (map AlertDict alerts))) \<le> 1"
    using card_mono [of "{PStr []}"] by fastforce
  then show ?thesis by (simp add: length_remdups_card_conv)
qed

lemma no_llm_route:
  assumes "alerts = [] \<or> aid = ''PA'' \<and> typeless alerts"
  shows "\<not> should_route_to_llm aid (map AlertDict alerts) r"
proof (cases "alerts = []")
  case True
  then show ?thesis
    by (simp add: should_route_to_llm_def should_use_llm_pa_def should_use_llm_non_pa_def split: option.split)
next
  case False
  then have aid: "aid = ''PA''" and one: "length (remdups (alert_types (map AlertDict alerts))) \<le> 1"
    using assms typeless_one_type [of alerts] by blast+
  have "\<not> should_use_llm_pa (map AlertDict alerts)" using one by (simp add: should_use_llm_pa_def)
  then show ?thesis by (simp add: should_route_to_llm_def aid split: option.split)
qed

lemma route_idle:
  assumes "alerts = [] \<or> aid = ''PA'' \<and> typeless alerts"
    and "route c aid (map AlertDict alerts) snap r = Inr (tr, r')"
  shows "llm_idle (Some r) (Some r')"
  using assms(2) no_llm_route [OF assms(1), of r] rule_record_idle
  by (auto simp: route_def bindR_Inr_iff split: option.splits if_splits)

lemma apply_result_agent: "ag_id (fst (fst (apply_think_result interf log_fn tr (s, l)))) = ag_id (fst s)"
proof -
  have "ag_id (fst (fst (fold (apply_think_action interf log_fn) axs (s, l)))) = ag_id (fst s)" for axs
    by (induction axs arbitrary: s l) (auto simp: apply_think_action_def split: option.split)
  then show ?thesis by (simp add: apply_think_result_def)
qed

lemma consult_idle:
  assumes "alerts = [] \<or> ag_id (fst (fst st)) = ''PA'' \<and> typeless alerts"
  shows "llm_idle (fst (snd st)) (fst (snd (state_of (consult_router interf log_fn c alerts en st))))
     \<and> ag_id (fst (fst (state_of (consult_router interf log_fn c alerts en st)))) = ag_id (fst (fst st))"
proof -
  obtain s r l where st: "st = (s, r, l)" by (cases st)
  show ?thesis
  proof (cases r)
    case None
    then show ?thesis by (simp add: consult_router_def st)
  next
    case (Some router)
    show ?thesis
    proof (cases "route c (ag_id (fst s)) (map AlertDict alerts) en router")
      case Inl
      then show ?thesis by (simp add: consult_router_def st Some)
    next
      case (Inr x)
      obtain tr r' where x: "x = (tr, r')" by (cases x)
      have "llm_idle (Some router) (Some r')" using route_idle assms Inr by (auto simp: x st)
      then show ?thesis using Inr
        by (auto simp: consult_router_def st Some x case_prod_unfold Let_def apply_result_agent split: option.split)
    qed
  qed
qed

text \<open>An invariant of the agent's identity and of the idle route, through every outcome of a cycle.\<close>

definition idle_since :: "string \<Rightarrow> router option \<Rightarrow> (('d, 'z) base_agent_scheme wired, 'l) sra \<Rightarrow> bool" where
  "idle_since aid r st \<longleftrightarrow> ag_id (fst (fst st)) = aid \<and> llm_idle r (fst (snd st))"

lemma idle_on_agent: "(\<And>s. ag_id (fst (f s)) = ag_id (fst s)) \<Longrightarrow> idle_since aid r (on_agent f st) = idle_since aid r st"
  by (simp add: idle_since_def on_agent_def)

lemma idle_steps:
  "idle_since aid r (on_agent (set_agent_state x) st) = idle_since aid r st"
  "idle_since aid r (on_agent (\<lambda>s. set_agent_state x (store_decision d s)) st) = idle_since aid r st"
  by (rule idle_on_agent; simp add: set_agent_state_def store_decision_def with_agent_def split: option.split)+

lemma run_method_value: "run_method m n f st = Inr (x, st') \<Longrightarrow> \<exists>s s'. f s = Inr (x, s')"
  by (auto simp: run_method_def split: prod.splits sum.splits)

lemma idle_run_method:
  assumes "idle_since aid r st" "\<And>e s. ag_id (fst (am_left m n e s)) = ag_id (fst s)"
    and "\<And>x s s'. f s = Inr (x, s') \<Longrightarrow> ag_id (fst s) = aid \<Longrightarrow> ag_id (fst s') = aid"
  shows "idle_since aid r (state_of (run_method m n f st))"
proof -
  obtain s q l where st: "st = (s, q, l)" by (cases st)
  show ?thesis
  proof (cases "f s")
    case Inl
    then show ?thesis using assms(1,2) by (simp add: run_method_def st idle_since_def)
  next
    case (Inr y)
    then obtain x s' where "f s = Inr (x, s')" by (cases y) auto
    then show ?thesis using assms(1) assms(3) [of s x s'] by (simp add: run_method_def st idle_since_def)
  qed
qed

lemma idle_consult:
  assumes "idle_since aid r st" "alerts = [] \<or> aid = ''PA'' \<and> typeless alerts"
  shows "idle_since aid r (state_of (consult_router interf log_fn c alerts en st))"
  using assms consult_idle [of alerts st interf log_fn c en] by (auto simp: idle_since_def elim: llm_idle_trans)

lemma idle_enrich: "idle_since aid r st \<Longrightarrow> idle_since aid r (state_of (enrich_step snap st))"
  by (simp add: enrich_step_def split: sum.split)

context agent_loop
begin

lemma same_id: "same_base s s' \<Longrightarrow> ag_id (fst s') = ag_id (fst s)"
  by (simp add: same_base_def)

lemma sequential_idle:
  assumes m: "am_sense m = sense" "am_reason m = reason" "am_act m = act"
    and left: "\<And>n e s. ag_id (fst (am_left m n e s)) = ag_id (fst s)"
    and al: "\<And>snap s obs s'. sense snap s = Inr (obs, s') \<Longrightarrow> am_alerts m obs = [] \<or> aid = ''PA'' \<and> typeless (am_alerts m obs)"
    and st: "idle_since aid r st"
  shows "idle_since aid r (state_of (run_sra_sequential interf m log_fn w snap st))"
proof -
  let ?snap = "enrich_snapshot_for_agents snap (sw_ingest w)"
  let ?st0 = "on_agent (\<lambda>s. set_agent_state AG_SENSING (begin_cycle ?snap s)) st"
  have st0: "idle_since aid r ?st0"
    using st by (subst idle_on_agent) (simp_all add: set_agent_state_def begin_cycle_def with_agent_def)
  have sense_id: "ag_id (fst s') = aid" if "sense ?snap s = Inr (x, s')" "ag_id (fst s) = aid" for s x s'
    using sense_quiet [OF that(1)] that(2) by (simp add: quiet_def same_base_def)
  have reason_id: "ag_id (fst s') = aid" if "reason obs s = Inr (x, s')" "ag_id (fst s) = aid" for obs s x s'
    using reason_quiet [OF that(1)] that(2) by (simp add: quiet_def same_base_def)
  have act_id: "ag_id (fst s') = aid"
    if d: "reason obs t = Inr (d, t')" and a: "act d s = Inr (x, s')" and i: "ag_id (fst s) = aid" for obs t d t' s x s'
  proof (cases d)
    case None
    then show ?thesis using act_none a i by (simp add: sends_alerts_def same_base_def)
  next
    case (Some y)
    then show ?thesis using act_some [of obs t y t' s x s'] d a i by (simp add: sends_alerts_def same_base_def)
  qed
  have reason_id2: "ag_id a' = ag_id a" if "reason obs (a, b) = Inr (x, a', b')" "aid = ag_id a" for obs a b x a' b'
    using reason_id [OF that(1)] that(2) by simp
  have act_id2: "ag_id a' = ag_id a"
    if "reason obs t = Inr (d, t')" "act d (a, b) = Inr (x, a', b')" "aid = ag_id a" for obs t d t' a b x a' b'
    using act_id [OF that(1,2)] that(3) by simp
  show ?thesis unfolding run_sra_sequential_def Let_def m
  proof (rule state_of_bindO [where I = "idle_since aid r", OF idle_run_method [OF st0 left sense_id]], assumption, assumption)
    fix obs st1
    assume s1: "run_method m M_SENSE (sense ?snap) ?st0 = Inr (obs, st1)" and i1: "idle_since aid r st1"
    then have a: "am_alerts m obs = [] \<or> aid = ''PA'' \<and> typeless (am_alerts m obs)"
      using al by (auto simp: run_method_def Let_def split: prod.splits sum.splits)
    show "idle_since aid r (state_of (bindO (enrich_step ?snap st1) (\<lambda>en st2.
        bindO (consult_router interf log_fn (sw_route w) (am_alerts m obs) en (on_agent (set_agent_state AG_REASONING) st2)) (\<lambda>_ st3.
        bindO (run_method m M_REASON (reason obs) st3) (\<lambda>d st4.
        bindO (run_method m M_ACT (act d) (on_agent (\<lambda>s. set_agent_state AG_ACTING (store_decision d s)) st4)) (\<lambda>_ st5.
           Inr (d, on_agent (set_agent_state AG_IDLE) st5)))))))"
      by (intro state_of_bindO [where I = "idle_since aid r"] idle_enrich i1 idle_consult a idle_run_method left)
         (auto simp: idle_steps dest!: run_method_value dest: reason_id2 act_id2)
  qed
qed

end

interpretation planning_loop: agent_loop pa_sense pa_reason pa_act "\<lambda>_. 0"
proof
  show "quiet s s'" if "pa_sense snap s = Inr (obs, s')" for snap s obs s'
    using that quiet_pop_inbox [of s]
    by (auto simp: pa_sense_def Let_def case_prod_unfold quiet_def same_base_def with_agent_def)
  have f: "quiet s (fold (\<lambda>a. log_reasoning (g a)) als s)" for als s and g :: "dict \<Rightarrow> string"
  proof (induction als arbitrary: s)
    case (Cons a als)
    show ?case using quiet_trans [OF quiet_log Cons.IH] by simp
  qed simp
  show "quiet s s'" if "pa_reason obs s = Inr (r, s')" for obs s r s'
    using that by (auto simp: f pa_reason_def Let_def bindR_Inr_iff split: if_splits)
  show "sends_alerts 0 s s'" if "pa_act None s = Inr (as, s')" for s as s'
    using that by (simp add: pa_act_def sends_alerts_def same_base_def)
  show "sends_alerts 0 s s'" if "pa_reason obs t = Inr (Some d, t')" "pa_act (Some d) s = Inr (as, s')" for obs t d t' s as s'
    using that(2) by (simp add: pa_act_def sends_alerts_def same_base_def)
qed

lemma pa_sense_typeless: "pa_sense snap s = Inr (obs, s') \<Longrightarrow> typeless (pb_alerts obs)"
  by (auto simp: pa_sense_def Let_def case_prod_unfold typeless_def collect_inbox_alerts_def dget_def)

lemma router_cycle_idle:
  assumes seq: "\<And>w st. idle_since aid r st \<Longrightarrow> idle_since aid r (state_of (run_sra_sequential interf m log_fn w snap st))"
    and st: "idle_since aid r st"
  shows "idle_since aid r (state_of (run_cycle_with_router env installed interf m log_fn w1 w2 snap st))"
  using seq [OF st, of w1] seq [OF st, of w2] seq [of _ w2]
  by (auto simp: run_cycle_with_router_def graph_run split: sum.split)

text \<open>
  C14 (\<open>llm_routing_is_dead\<close>): the router never consults the language model. In every cycle of
  every agent, with the graph or without, on any snapshot and whether it completes or
  raises, the router keeps its client and its two counters of model decisions and of
  fallbacks. The observations of the five domain agents have no \<open>alerts\<close>, and the planning
  agent's alerts carry no \<open>type\<close>, of which the router wants two different ones.
\<close>

theorem llm_routing_is_dead:
  assumes "\<And>n e s. ag_id (fst (sl n e s)) = ag_id (fst s)" "\<And>n e s. ag_id (fst (dl n e s)) = ag_id (fst s)"
    "\<And>n e s. ag_id (fst (il n e s)) = ag_id (fst s)" "\<And>n e s. ag_id (fst (el n e s)) = ag_id (fst s)"
    "\<And>n e s. ag_id (fst (ql n e s)) = ag_id (fst s)" "\<And>n e s. ag_id (fst (pl n e s)) = ag_id (fst s)"
    and "ag_id (fst p) = ''PA''"
  shows "llm_idle r (fst (snd (state_of (run_cycle_with_router env installed interf (supply_methods interf sl) log_fn w1 w2 snap (s, r, l)))))
    \<and> llm_idle r (fst (snd (state_of (run_cycle_with_router env installed interf (demand_methods interf dl) log_fn w1 w2 snap (d, r, l)))))
    \<and> llm_idle r (fst (snd (state_of (run_cycle_with_router env installed interf (inventory_methods interf il) log_fn w1 w2 snap (i, r, l)))))
    \<and> llm_idle r (fst (snd (state_of (run_cycle_with_router env installed interf (equipment_methods interf el) log_fn w1 w2 snap (e, r, l)))))
    \<and> llm_idle r (fst (snd (state_of (run_cycle_with_router env installed interf (quality_methods interf ql) log_fn w1 w2 snap (q, r, l)))))
    \<and> llm_idle r (fst (snd (state_of (run_cycle_with_router env installed interf (planning_methods pl) log_fn w1 w2 snap (p, r, l)))))"
proof -
  have i: "idle_since (ag_id (fst a)) r (a, r, l)" for a :: "('x, 'y) base_agent_scheme wired"
    by (simp add: idle_since_def)
  note run = router_cycle_idle [OF _ i, unfolded idle_since_def, THEN conjunct2]
  show ?thesis
    by (intro conjI run supply_loop.sequential_idle [unfolded idle_since_def] demand_loop.sequential_idle [unfolded idle_since_def]
        inventory_loop.sequential_idle [unfolded idle_since_def] equipment_loop.sequential_idle [unfolded idle_since_def]
        quality_loop.sequential_idle [unfolded idle_since_def] planning_loop.sequential_idle [unfolded idle_since_def])
       (simp_all add: supply_methods_def demand_methods_def inventory_methods_def equipment_methods_def quality_methods_def
          planning_methods_def assms pa_sense_typeless)
qed

definition demo_router :: router where
  "demo_router = new_router (Some \<lparr> llm_enabled = True, llm_analyze = (\<lambda>_ _ _. Some [(''severity'', PStr ''HIGH'')]) \<rparr>) ''all_gated'' True"

definition demo_clock :: sra_clock where
  "demo_clock = \<lparr> sw_ingest = ''t'', sw_route = \<lparr> rk_t0 = 0, rk_t1 = 1, rk_now = 2 \<rparr> \<rparr>"

theorem llm_routing_is_dead_witness:
  "\<exists>x. fst (snd (state_of (run_cycle_with_router None True id (planning_methods (\<lambda>_ _ s. s)) None demo_clock demo_clock
      [(''avg_oee'', PFloat (1 / 2))] (demo_planner, Some demo_router, ())))) = Some x \<and> rm_llm (rt_metrics x) = 0"
proof -
  have p: "ag_id (fst demo_planner) = ''PA''"
    by (simp add: demo_planner_def new_planning_agent_def new_base_agent_def planning_agent.defs base_agent.defs)
  have "llm_idle (Some demo_router) (fst (snd (state_of (run_cycle_with_router None True id (planning_methods (\<lambda>_ _ s. s)) None
      demo_clock demo_clock [(''avg_oee'', PFloat (1 / 2))] (demo_planner, Some demo_router, ())))))"
    by (rule llm_routing_is_dead [of "\<lambda>_ _ s. s" "\<lambda>_ _ s. s" "\<lambda>_ _ s. s" "\<lambda>_ _ s. s" "\<lambda>_ _ s. s" "\<lambda>_ _ s. s" demo_planner,
        OF refl refl refl refl refl refl p, THEN conjunct2, THEN conjunct2, THEN conjunct2, THEN conjunct2, THEN conjunct2])
  then show ?thesis by (auto simp: demo_router_def new_router_def)
qed

section \<open>From an alert to a round\<close>

lemma route_total:
  assumes "enrich_snapshot_for_router snap = Inr en" "alerts = [] \<or> aid = ''PA'' \<and> typeless alerts"
  shows "\<exists>tr r'. route c aid (map AlertDict alerts) en r = Inr (tr, r')"
proof -
  obtain vib oil buf where f: "dget en ''vibration'' = Some (PFloat vib)" "dget en ''oil_temp'' = Some (PFloat oil)"
      "dget en ''material_buffer_hours'' = Some (PFloat buf)"
    using enriched_fields [OF assms(1)] by blast
  have "\<exists>x. check_safety_rules en = Inr x" "\<exists>x. ea_rules en = Inr x" "\<exists>x. sa_rules en = Inr x"
    by (simp_all add: check_safety_rules_def ea_rules_def sa_rules_def num_at_def dget_or_dget f)
  then have "\<exists>s. check_safety_rules en = Inr s" "\<exists>t. check_threshold_rules aid en = Inr t"
    by (auto simp: check_threshold_rules_def)
  then obtain s t where "check_safety_rules en = Inr s" "check_threshold_rules aid en = Inr t" by blast
  then show ?thesis using no_llm_route [OF assms(2), of r] by (simp add: route_def split: option.split)
qed

text \<open>What a consultation leaves of the agent: everything but its broker's queues.\<close>

lemma apply_rule_result: "apply_think_result interf log_fn (rule_result msg reasoning) (s, l)
   = (s, case log_fn of None \<Rightarrow> l | Some f \<Rightarrow> if msg \<noteq> [] then f (ag_id (fst s)) msg ''ALERT'' l else l)"
  by (auto simp: apply_think_result_def apply_think_action_def rule_result_def log_action_def split: option.split)

lemma route_rule_result:
  assumes "alerts = [] \<or> aid = ''PA'' \<and> typeless alerts"
    and "route c aid (map AlertDict alerts) en r = Inr (Some tr, r')"
  shows "\<exists>msg reasoning. tr = rule_result msg reasoning"
proof -
  have s: "\<exists>msg reasoning. tr = rule_result msg reasoning" if "check_safety_rules en = Inr (Some tr)"
    using that by (auto simp: check_safety_rules_def bindR_Inr_iff split: if_splits)
  have t: "\<exists>msg reasoning. tr = rule_result msg reasoning" if "check_threshold_rules aid en = Inr (Some tr)"
    using that by (auto simp: check_threshold_rules_def ea_rules_def sa_rules_def bindR_Inr_iff split: if_splits)
  show ?thesis using assms(2) no_llm_route [OF assms(1), of r] s t
    by (auto simp: route_def bindR_Inr_iff split: option.splits)
qed

lemma consult_agent:
  assumes "enrich_snapshot_for_router snap = Inr en" "alerts = [] \<or> ag_id (fst s) = ''PA'' \<and> typeless alerts"
  shows "\<exists>r' l'. consult_router interf log_fn c alerts en (s, r, l) = Inr ((), s, r', l')"
proof (cases r)
  case None
  then show ?thesis by (simp add: consult_router_def)
next
  case (Some router)
  obtain tr r' where rt: "route c (ag_id (fst s)) (map AlertDict alerts) en router = Inr (tr, r')"
    using route_total [OF assms, of c router] by blast
  show ?thesis
  proof (cases tr)
    case None
    then show ?thesis using rt by (simp add: consult_router_def Some)
  next
    case (Some t)
    obtain msg reasoning where "t = rule_result msg reasoning"
      using route_rule_result [OF assms(2)] rt Some by blast
    then show ?thesis using rt by (simp add: consult_router_def \<open>r = Some router\<close> Some apply_rule_result)
  qed
qed

lemma inbox_popped: "agent_inbox (snd (pop_inbox s)) = []"
  by (cases "snd s") (auto simp: agent_inbox_def pop_inbox_def update_conv' split: option.splits)

lemma inbox_kept [simp]:
  "agent_inbox (log_reasoning x s) = agent_inbox s" "agent_inbox (set_agent_state y s) = agent_inbox s"
  "agent_inbox (store_decision d s) = agent_inbox s" "agent_inbox (begin_cycle snap s) = agent_inbox s"
  by (auto simp: agent_inbox_def log_reasoning_def set_agent_state_def store_decision_def begin_cycle_def with_agent_def
      split: option.split)

lemma inbox_kept_log_all: "agent_inbox (fold (\<lambda>a. log_reasoning (g a)) als s) = agent_inbox s"
  by (induction als arbitrary: s) auto

lemma log_all_fields:
  "pa_pending_alerts (fst (fold (\<lambda>a. log_reasoning (g a)) als s)) = pa_pending_alerts (fst s)"
  "ag_id (fst (fold (\<lambda>a. log_reasoning (g a)) als s)) = ag_id (fst s)"
  "pa_cnp_count (fst (fold (\<lambda>a. log_reasoning (g a)) als s)) = pa_cnp_count (fst s)"
  by (induction als arbitrary: s) (auto simp: log_reasoning_def with_agent_def)

lemma inbox_pending: "agent_inbox (with_agent (\<lambda>a. a\<lparr>pa_pending_alerts := x\<rparr>) s) = agent_inbox s"
  by (cases "snd s") (simp_all add: agent_inbox_def with_agent_def)

lemma pa_sense_result:
  assumes "pa_sense snap s = Inr (obs, s1)"
  shows "pb_alerts obs = collect_inbox_alerts (agent_inbox s)" "pb_cycle obs = dget_or snap ''cycle'' (PInt 0)"
    "pb_avg_oee obs = dget_or snap ''avg_oee'' (PFloat 1)" "agent_inbox s1 = []"
    "fst s1 = (fst s)\<lparr>pa_pending_alerts := collect_inbox_alerts (agent_inbox s)\<rparr>"
proof -
  have p: "pop_inbox s = (agent_inbox s, snd (pop_inbox s))" "fst (snd (pop_inbox s)) = fst s" by (simp_all add: pop_inbox_def)
  have e: "s1 = with_agent (\<lambda>a. a\<lparr>pa_pending_alerts := collect_inbox_alerts (agent_inbox s)\<rparr>) (snd (pop_inbox s))"
    using assms by (subst (asm) pa_sense_def, subst (asm) p(1)) (simp add: Let_def)
  show "pb_alerts obs = collect_inbox_alerts (agent_inbox s)" "pb_cycle obs = dget_or snap ''cycle'' (PInt 0)"
    "pb_avg_oee obs = dget_or snap ''avg_oee'' (PFloat 1)"
    using assms by (auto simp: pa_sense_def Let_def case_prod_unfold p(1) [THEN arg_cong, of fst, simplified])
  show "agent_inbox s1 = []" by (simp add: e inbox_pending inbox_popped)
  show "fst s1 = (fst s)\<lparr>pa_pending_alerts := collect_inbox_alerts (agent_inbox s)\<rparr>"
    by (simp add: e with_agent_def p(2))
qed

lemma fmt_pct_num: "py_num v = Inr x \<Longrightarrow> \<exists>t. fmt_pct_val n v = Inr t"
  by (cases v) (auto simp: fmt_pct_val_def)

lemma critical_counted:
  assumes "m \<in> set ms" "m_intent m = ALERT" "dget (m_body m) ''severity'' = Some (PStr ''CRITICAL'')"
  shows "1 \<le> severity_count ''CRITICAL'' (collect_inbox_alerts ms)" "collect_inbox_alerts ms \<noteq> []"
proof -
  let ?a = "[(''sender'', PStr (h_sender (m_header m))), (''intent'', PStr (intent_value (m_intent m))),
               (''severity'', dget_or (m_body m) ''severity'' (PStr ''LOW'')),
               (''summary'', dget_or (m_body m) ''summary'' (PStr [])), (''body'', PDict (m_body m))]"
  have a: "?a \<in> set (collect_inbox_alerts ms)"
    using assms(1,2) unfolding collect_inbox_alerts_def by (simp, intro image_eqI [where x = m]) simp_all
  have "dget_none ?a ''severity'' = PStr ''CRITICAL''" using assms(3) by (simp add: dget_none_def dget_or_def dget_def)
  then have "?a \<in> set (filter (\<lambda>a. dget_none a ''severity'' = PStr ''CRITICAL'') (collect_inbox_alerts ms))" using a by simp
  then show "1 \<le> severity_count ''CRITICAL'' (collect_inbox_alerts ms)"
    unfolding severity_count_def by (metis One_nat_def Suc_leI length_pos_if_in_set)
  show "collect_inbox_alerts ms \<noteq> []" using a by auto
qed

lemma planning_cycle:
  assumes crit: "m \<in> set (agent_inbox s)" "m_intent m = ALERT" "dget (m_body m) ''severity'' = Some (PStr ''CRITICAL'')"
    and cyc: "dget_or snap ''cycle'' (PInt 0) = PInt c" and last: "pa_last_cnp_cycle (fst s) = PInt k"
    and oee: "py_num (dget_or snap ''avg_oee'' (PFloat 1)) = Inr oee"
    and en: "enrich_snapshot_for_router (enrich_snapshot_for_agents snap (sw_ingest w)) = Inr en"
    and pa: "ag_id (fst s) = ''PA''"
  shows "\<exists>d s' r' l'. run_sra_sequential interf (planning_methods pl) log_fn w snap (s, r, l) = Inr (Some d, s', r', l')
     \<and> pd_initiate_cnp d = (c - k > 10) \<and> pd_priority d = (if c - k > 10 then ''CRITICAL'' else ''MEDIUM'')
     \<and> agent_inbox s' = [] \<and> ag_state (fst s') = AG_IDLE \<and> pa_pending_alerts (fst s') = collect_inbox_alerts (agent_inbox s)
     \<and> ag_id (fst s') = ''PA'' \<and> pa_cnp_count (fst s') = pa_cnp_count (fst s)"
proof -
  let ?snap = "enrich_snapshot_for_agents snap (sw_ingest w)" and ?al = "collect_inbox_alerts (agent_inbox s)"
  let ?s0 = "set_agent_state AG_SENSING (begin_cycle ?snap s)"
  have same: "dget_or ?snap k v = dget_or snap k v" if "k \<in> {''cycle'', ''avg_oee''}" for k v
    using that by (auto simp: enrich_snapshot_for_agents_def split: sum.split)
  obtain obs s1 where s1: "pa_sense ?snap ?s0 = Inr (obs, s1)" by (simp add: pa_sense_def Let_def case_prod_unfold)
  have s0: "agent_inbox ?s0 = agent_inbox s" "pa_last_cnp_cycle (fst ?s0) = PInt k" "ag_id (fst ?s0) = ''PA''"
    using last pa by (simp_all, simp_all add: set_agent_state_def begin_cycle_def with_agent_def)
  note res = pa_sense_result [OF s1, unfolded s0(1)]
  have a1: "1 \<le> severity_count ''CRITICAL'' (pb_alerts obs)" "pb_alerts obs \<noteq> []"
    using critical_counted [OF crit] by (simp_all add: res(1))
  have cyc1: "pb_cycle obs = PInt c" and oee1: "py_num (pb_avg_oee obs) = Inr oee"
    using same cyc oee by (simp_all add: res(2,3))
  let ?s2 = "set_agent_state AG_REASONING s1"
  have id1: "ag_id (fst ?s2) = ''PA''" and last1: "pa_last_cnp_cycle (fst ?s2) = PInt k"
      and pend1: "pa_pending_alerts (fst ?s2) = ?al" and count1: "pa_cnp_count (fst ?s2) = pa_cnp_count (fst s)"
    using res(5) s0(2,3) by (simp_all add: set_agent_state_def with_agent_def begin_cycle_def)
  have box1: "agent_inbox ?s2 = []" by (simp add: res(4))
  have ty: "pb_alerts obs = [] \<or> ag_id (fst ?s2) = ''PA'' \<and> typeless (pb_alerts obs)"
    using pa_sense_typeless [OF s1] id1 by blast
  obtain r' l' where co: "consult_router interf log_fn (sw_route w) (pb_alerts obs) en (?s2, r, l) = Inr ((), ?s2, r', l')"
    using consult_agent [OF en ty, of interf log_fn "sw_route w" r l] by blast
  have tr: "pa_trigger obs (fst ?s2) = Inr (c - k > 10)"
    using a1 by (simp add: pa_trigger_def should_cnp_def cycles_since_cnp_def cyc1 last1 flip: of_int_diff)
  obtain pct where pct: "fmt_pct_val 1 (pb_avg_oee obs) = Inr pct" using fmt_pct_num [OF oee1] by blast
  have "\<exists>d s3. pa_reason obs ?s2 = Inr (Some d, s3) \<and> pd_initiate_cnp d = (c - k > 10)
      \<and> pd_priority d = (if c - k > 10 then ''CRITICAL'' else ''MEDIUM'')
      \<and> agent_inbox s3 = [] \<and> pa_pending_alerts (fst s3) = ?al
      \<and> ag_id (fst s3) = ''PA'' \<and> pa_cnp_count (fst s3) = pa_cnp_count (fst s)" (is "?goal")
  proof (cases "c - k > 10")
    case True
    obtain tx why where "pa_reason obs ?s2 = Inr (Some \<lparr> pd_action = ''cnp'', pd_initiate_cnp = True,
        pd_alerts_processed = length (pb_alerts obs), pd_priority = ''CRITICAL'', pd_cnp_reason = why \<rparr>, log_reasoning tx ?s2)"
      using True a1(1) by (simp add: pa_reason_def Let_def tr pct [simplified])
    moreover have "pa_pending_alerts (fst (log_reasoning tx ?s2)) = ?al" "ag_id (fst (log_reasoning tx ?s2)) = ''PA''"
        "pa_cnp_count (fst (log_reasoning tx ?s2)) = pa_cnp_count (fst s)"
      using pend1 id1 count1 by (simp_all add: log_reasoning_def with_agent_def)
    ultimately show ?goal using True box1 by - (rule exI, rule exI, rule conjI, assumption, simp)
  next
    case False
    obtain g where g: "pa_reason obs ?s2 = Inr (Some \<lparr> pd_action = ''adjust'', pd_initiate_cnp = False,
        pd_alerts_processed = length (pb_alerts obs), pd_priority = ''MEDIUM'', pd_cnp_reason = None \<rparr>,
        fold (\<lambda>a. log_reasoning (g a)) (pb_alerts obs) ?s2)"
      using False a1(2) by (simp add: pa_reason_def Let_def tr)
    then show ?goal using False box1 pend1 id1 count1
      by - (rule exI, rule exI, rule conjI, assumption, simp add: inbox_kept_log_all log_all_fields)
  qed
  then obtain d s3 where re: "pa_reason obs ?s2 = Inr (Some d, s3)" "pd_initiate_cnp d = (c - k > 10)"
      "pd_priority d = (if c - k > 10 then ''CRITICAL'' else ''MEDIUM'')" "agent_inbox s3 = []" "pa_pending_alerts (fst s3) = ?al"
      "ag_id (fst s3) = ''PA''" "pa_cnp_count (fst s3) = pa_cnp_count (fst s)"
    by blast
  obtain as where ac: "pa_act (Some d) (set_agent_state AG_ACTING (store_decision (Some d) s3))
      = Inr (as, set_agent_state AG_ACTING (store_decision (Some d) s3))" by (simp add: pa_act_def)
  have e: "run_sra_sequential interf (planning_methods pl) log_fn w snap (s, r, l)
      = Inr (Some d, set_agent_state AG_IDLE (set_agent_state AG_ACTING (store_decision (Some d) s3)), r', l')"
    by (simp add: run_sra_sequential_def Let_def planning_methods_def run_method_def on_agent_def enrich_step_def s1 en co re(1) ac)
  show ?thesis unfolding e using re
    by (simp, simp add: set_agent_state_def store_decision_def with_agent_def)
qed

lemma router_enrichment_survives:
  assumes "enrich_snapshot_for_router snap = Inr en"
  shows "\<exists>en'. enrich_snapshot_for_router (enrich_snapshot_for_agents snap t) = Inr en'"
proof -
  let ?s = "enrich_snapshot_for_agents snap t"
  have same: "dget_none ?s k = dget_none snap k" if "k \<in> {''stations'', ''materials''}" for k
    using that by (auto simp: enrich_snapshot_for_agents_def dget_none_def split: sum.split)
  have p: "press_sensors ?s = press_sensors snap" by (simp add: press_sensors_def sub_dict_def same)
  have m: "sub_dict ?s ''materials'' = sub_dict snap ''materials''" by (simp add: sub_dict_def same)
  obtain x xa xb xc where "press_sensors snap = Inr x" "sensor_figure (dget_none x ''vibration'') = Inr xa"
      "sensor_figure (dget_none x ''oil_temp'') = Inr xb" "sub_dict snap ''materials'' = Inr xc"
    using assms by (auto simp: enrich_snapshot_for_router_def bindR_Inr_iff)
  then show ?thesis by (simp add: enrich_snapshot_for_router_def p m Let_def)
qed

lemma planning_router_cycle:
  assumes "ag_id (fst s) = ''PA''" "pa_last_cnp_cycle (fst s) = PInt k"
    and "m \<in> set (agent_inbox s)" "m_intent m = ALERT" "dget (m_body m) ''severity'' = Some (PStr ''CRITICAL'')"
    and "dget_or snap ''cycle'' (PInt 0) = PInt c" "py_num (dget_or snap ''avg_oee'' (PFloat 1)) = Inr oee"
    and "enrich_snapshot_for_router snap = Inr en"
  shows "\<exists>d s' r' l'. run_cycle_with_router env installed interf (planning_methods pl) log_fn w1 w2 snap (s, r, l)
        = Inr (Some d, s', r', l')
     \<and> pd_initiate_cnp d = (c - k > 10) \<and> pd_priority d = (if c - k > 10 then ''CRITICAL'' else ''MEDIUM'')
     \<and> agent_inbox s' = [] \<and> ag_state (fst s') = AG_IDLE \<and> pa_pending_alerts (fst s') = collect_inbox_alerts (agent_inbox s)
     \<and> ag_id (fst s') = ''PA'' \<and> pa_cnp_count (fst s') = pa_cnp_count (fst s)"
proof -
  have seq: "\<exists>d s' r' l'. run_sra_sequential interf (planning_methods pl) log_fn w snap (s, r, l) = Inr (Some d, s', r', l')
     \<and> pd_initiate_cnp d = (c - k > 10) \<and> pd_priority d = (if c - k > 10 then ''CRITICAL'' else ''MEDIUM'')
     \<and> agent_inbox s' = [] \<and> ag_state (fst s') = AG_IDLE \<and> pa_pending_alerts (fst s') = collect_inbox_alerts (agent_inbox s)
     \<and> ag_id (fst s') = ''PA'' \<and> pa_cnp_count (fst s') = pa_cnp_count (fst s)" for w
  proof -
    obtain en' where "enrich_snapshot_for_router (enrich_snapshot_for_agents snap (sw_ingest w)) = Inr en'"
      using router_enrichment_survives [OF assms(8)] by blast
    then show ?thesis by (rule planning_cycle [OF assms(3-5) assms(6) assms(2) assms(7) _ assms(1)])
  qed
  show ?thesis
  proof (cases "use_langgraph env \<and> installed")
    case True
    then show ?thesis using seq [of w1] by (auto simp: run_cycle_with_router_def graph_run)
  next
    case False
    have "run_cycle_with_router env installed interf (planning_methods pl) log_fn w1 w2 snap (s, r, l)
        = run_sra_sequential interf (planning_methods pl) log_fn w2 snap (s, r, l)"
      using False by (simp only: run_cycle_with_router_def if_False)
    then show ?thesis using seq [of w2] by simp
  qed
qed

text \<open>
  C9 (\<open>critical_alert_opens_round\<close>): if a CRITICAL alert is waiting in the planning agent's
  inbox, the agent's next cycle completes with a decision and empties the inbox; the
  decision opens a contract net round, with priority CRITICAL, exactly when more than ten
  cycles have passed since the last round. An alert that arrives earlier is consumed all
  the same and opens none.
\<close>

theorem critical_alert_opens_round:
  assumes "ag_id (fst s) = ''PA''" "pa_last_cnp_cycle (fst s) = PInt k"
    and "m \<in> set (agent_inbox s)" "m_intent m = ALERT" "dget (m_body m) ''severity'' = Some (PStr ''CRITICAL'')"
    and "dget_or snap ''cycle'' (PInt 0) = PInt c" "py_num (dget_or snap ''avg_oee'' (PFloat 1)) = Inr oee"
    and "enrich_snapshot_for_router snap = Inr en"
  shows "\<exists>d s' r' l'. run_cycle_with_router env installed interf (planning_methods pl) log_fn w1 w2 snap (s, r, l)
        = Inr (Some d, s', r', l')
     \<and> pd_initiate_cnp d = (c - k > 10) \<and> pd_priority d = (if c - k > 10 then ''CRITICAL'' else ''MEDIUM'')
     \<and> agent_inbox s' = [] \<and> ag_state (fst s') = AG_IDLE \<and> pa_pending_alerts (fst s') = collect_inbox_alerts (agent_inbox s)"
  using planning_router_cycle [OF assms, of env installed interf pl log_fn w1 w2 r l] by blast

definition demo_alert :: agent_message where
  "demo_alert = create_message ''SA'' ''PA'' ALERT [(''severity'', PStr ''CRITICAL''), (''summary'', PStr ''steel'')] None ''u'' ''t'' ''c''"

definition alerted_planner :: "planning_agent wired" where
  "alerted_planner = (fst demo_planner, Some ((new_broker 100 of_nat)\<lparr>b_refs := [(''PA'', [demo_alert])]\<rparr>))"

theorem critical_alert_opens_round_witness:
  "\<exists>d st'. run_cycle_with_router None True id (planning_methods (\<lambda>_ _ s. s)) None demo_clock demo_clock
      [(''cycle'', PInt 25), (''avg_oee'', PFloat (7 / 10))] (alerted_planner, Some demo_router, ()) = Inr (Some d, st')
     \<and> pd_initiate_cnp d"
proof -
  have a: "ag_id (fst alerted_planner) = ''PA''" "pa_last_cnp_cycle (fst alerted_planner) = PInt 0"
    by (simp_all add: alerted_planner_def demo_planner_def new_planning_agent_def new_base_agent_def planning_agent.defs base_agent.defs)
  have m: "demo_alert \<in> set (agent_inbox alerted_planner)"
    using a(1) by (simp add: agent_inbox_def alerted_planner_def)
  have b: "m_intent demo_alert = ALERT" "dget (m_body demo_alert) ''severity'' = Some (PStr ''CRITICAL'')"
    by (simp_all add: demo_alert_def create_message_def Let_def dget_def)
  have c: "dget_or [(''cycle'', PInt 25), (''avg_oee'', PFloat (7 / 10))] ''cycle'' (PInt 0) = PInt 25"
      "py_num (dget_or [(''cycle'', PInt 25), (''avg_oee'', PFloat (7 / 10))] ''avg_oee'' (PFloat 1)) = Inr (7 / 10)"
    by (simp_all add: dget_or_def)
  have e: "\<exists>en. enrich_snapshot_for_router [(''cycle'', PInt 25), (''avg_oee'', PFloat (7 / 10))] = Inr en"
    by (simp add: enrich_snapshot_for_router_def press_sensors_def sub_dict_def dget_none_def dget_or_def [of "_ # _"]
        dget_or_def [of "[]"] py_or_def sensor_figure_def Let_def)
  then obtain en where e: "enrich_snapshot_for_router [(''cycle'', PInt 25), (''avg_oee'', PFloat (7 / 10))] = Inr en" ..
  show ?thesis
    using critical_alert_opens_round [OF a m b c e, of None True id "\<lambda>_ _ s. s" None demo_clock demo_clock "Some demo_router" "()"]
    by auto
qed

section \<open>The graph ends\<close>




end
