(* ===== verification/Plant_Protocol.thy ===== *)
theory Plant_Protocol
  imports Protocol_Laws
begin

text \<open>
  The agent cycle on the plant's own snapshots: the router only observes a domain agent,
  the enriched snapshot of a reachable factory satisfies every agent and the router, so
  every turn completes.
\<close>

section \<open>The router only observes\<close>

lemma sequential_of_cycle:
  assumes "am_sense m = sense" "am_reason m = reason" "am_act m = act" "\<And>obs. am_alerts m obs = []"
    and en: "enrich_snapshot_for_router (enrich_snapshot_for_agents snap (sw_ingest w)) = Inr en"
    and run: "run_cycle sense reason act (enrich_snapshot_for_agents snap (sw_ingest w)) s = Inr (d, s')"
  shows "\<exists>r' l'. run_sra_sequential interf m log_fn w snap (s, r, l) = Inr (d, s', r', l') \<and> llm_idle r r'"
proof -
  let ?snap = "enrich_snapshot_for_agents snap (sw_ingest w)"
  obtain obs s1 s2 as s3 where e: "sense ?snap (set_agent_state AG_SENSING (begin_cycle ?snap s)) = Inr (obs, s1)"
      "reason obs (set_agent_state AG_REASONING s1) = Inr (d, s2)"
      "act d (set_agent_state AG_ACTING (store_decision d s2)) = Inr (as, s3)" "s' = set_agent_state AG_IDLE s3"
    using run by (auto simp: run_cycle_def bindR_Inr_iff)
  obtain r' l' where c: "consult_router interf log_fn (sw_route w) [] en (set_agent_state AG_REASONING s1, r, l)
      = Inr ((), set_agent_state AG_REASONING s1, r', l')"
    using consult_agent [OF en, of "[]" "set_agent_state AG_REASONING s1" interf log_fn "sw_route w" r l] by auto
  have "llm_idle r r'"
    using consult_idle [of "[]" "(set_agent_state AG_REASONING s1, r, l)" interf log_fn "sw_route w" en] by (simp add: c)
  moreover have "run_sra_sequential interf m log_fn w snap (s, r, l) = Inr (d, s', r', l')"
    by (simp add: run_sra_sequential_def Let_def run_method_def on_agent_def enrich_step_def assms(1-4) en e c)
  ultimately show ?thesis by blast
qed

text \<open>The same for the protocol's entry point: the first clock's ingestion text is used when the graph is.\<close>

definition cycle_clock :: "string option \<Rightarrow> bool \<Rightarrow> sra_clock \<Rightarrow> sra_clock \<Rightarrow> sra_clock" where
  "cycle_clock env installed w1 w2 = (if use_langgraph env \<and> installed then w1 else w2)"

lemma router_cycle_of_cycle:
  assumes "am_sense m = sense" "am_reason m = reason" "am_act m = act" "\<And>obs. am_alerts m obs = []"
    and "enrich_snapshot_for_router snap = Inr en"
    and "run_cycle sense reason act (enrich_snapshot_for_agents snap (sw_ingest (cycle_clock env installed w1 w2))) s = Inr (d, s')"
  shows "\<exists>r' l'. run_cycle_with_router env installed interf m log_fn w1 w2 snap (s, r, l) = Inr (d, s', r', l') \<and> llm_idle r r'"
proof -
  let ?w = "cycle_clock env installed w1 w2"
  obtain en' where en': "enrich_snapshot_for_router (enrich_snapshot_for_agents snap (sw_ingest ?w)) = Inr en'"
    using router_enrichment_survives [OF assms(5)] by blast
  obtain r' l' where q: "run_sra_sequential interf m log_fn ?w snap (s, r, l) = Inr (d, s', r', l')" "llm_idle r r'"
    using sequential_of_cycle [OF assms(1-4) en' assms(6), of interf log_fn r l] by blast
  have "run_cycle_with_router env installed interf m log_fn w1 w2 snap (s, r, l) = Inr (d, s', r', l')"
  proof (cases "use_langgraph env \<and> installed")
    case True
    then show ?thesis using q(1) by (simp add: run_cycle_with_router_def graph_run cycle_clock_def)
  next
    case False
    then have "run_cycle_with_router env installed interf m log_fn w1 w2 snap (s, r, l)
        = run_sra_sequential interf m log_fn w2 snap (s, r, l)" by (simp only: run_cycle_with_router_def if_False)
    then show ?thesis using q(1) False by (simp add: cycle_clock_def)
  qed
  then show ?thesis using q(2) by blast
qed

section \<open>Plant snapshots\<close>

lemma plant_enriched_lookups:
  "dget (enrich_snapshot_for_agents snap t) k = dget snap k" if "k \<notin> {''manufacturing_context'', ''manufacturing_context_validation''}"
  using that by (auto simp: enrich_snapshot_for_agents_def split: sum.split)

lemma enriched_kpi: "\<exists>ctx. kpi_context (enrich_snapshot_for_agents snap t) = Inr ctx"
proof (cases "from_factory_snapshot snap (Some t)")
  case (Inl e)
  then show ?thesis by (simp add: kpi_context_def enrich_snapshot_for_agents_def dget_none_def dget_or_def [of "_ # _"] py_or_def)
next
  case (Inr c)
  have "\<exists>k. dget_none (context_to_dict c) ''kpi_slices'' = PDict k"
    by (simp add: context_to_dict_def Let_def dget_none_def dget_or_def)
  then show ?thesis using Inr by (auto simp: kpi_context_def enrich_snapshot_for_agents_def dget_none_def)
qed

lemma sub_dict_known: "dget d k = Some (PDict x) \<Longrightarrow> sub_dict d k = Inr x"
  by (simp add: sub_dict_def dget_none_of)

lemma plant_router_ok: "\<exists>en. enrich_snapshot_for_router (get_snapshot f) = Inr en"
proof -
  let ?sts = "map (\<lambda>w. (wc_id w, PDict (station_snapshot f w))) (f_line f)"
  have sts: "sub_dict (get_snapshot f) ''stations'' = Inr ?sts" by (rule sub_dict_known [OF snapshot_lookups(1)])
  have row: "\<exists>ss. dget_none (station_snapshot f w) ''sensors'' = PDict ss \<and> (\<forall>r\<in>set ss. sensor_row_ok (snd r))" for w
    using station_row [of f w] by (auto simp: station_row_ok_def dest: dget_none_of)
  have p: "\<exists>ss. press_sensors (get_snapshot f) = Inr ss \<and> (\<forall>r\<in>set ss. sensor_row_ok (snd r))"
  proof (cases "map_of ?sts ''WC-01''")
    case None
    then have "sub_dict ?sts ''WC-01'' = Inr []" by (simp add: sub_dict_def dget_none_def dget_or_def py_or_def)
    moreover have "sub_dict [] ''sensors'' = Inr []" by (simp add: sub_dict_def dget_none_def dget_or_def py_or_def)
    ultimately show ?thesis by (simp add: press_sensors_def sts)
  next
    case (Some v)
    then have "(''WC-01'', v) \<in> set ?sts" by (rule map_of_SomeD)
    then obtain w where v: "v = PDict (station_snapshot f w)" by auto
    then have s1: "sub_dict ?sts ''WC-01'' = Inr (station_snapshot f w)"
      using Some by (intro sub_dict_known) (simp add: dget_def)
    obtain ss where "dget_none (station_snapshot f w) ''sensors'' = PDict ss" "\<forall>r\<in>set ss. sensor_row_ok (snd r)"
      using row by blast
    then show ?thesis by (simp add: press_sensors_def sts s1) (simp add: sub_dict_def)
  qed
  then obtain ss where ss: "press_sensors (get_snapshot f) = Inr ss" "\<forall>r\<in>set ss. sensor_row_ok (snd r)" by blast
  have fig: "\<exists>x. sensor_figure (dget_none ss k) = Inr x" for k
  proof (cases "map_of ss k")
    case None
    then show ?thesis by (simp add: dget_none_def dget_or_def sensor_figure_def py_or_def)
  next
    case (Some v)
    then have "sensor_row_ok v" using ss(2) map_of_SomeD [OF Some] by fastforce
    then show ?thesis using Some by (cases v) (auto simp: sensor_row_ok_def dget_none_def dget_or_def sensor_figure_def)
  qed
  obtain a b where ab: "sensor_figure (dget_none ss ''vibration'') = Inr a" "sensor_figure (dget_none ss ''oil_temp'') = Inr b"
    using fig by blast
  show ?thesis by (simp add: enrich_snapshot_for_router_def ss(1) ab sub_dict_known [OF snapshot_lookups(2)] Let_def)
qed

lemma snapshot_oee: "\<exists>x. py_num (dget_or (get_snapshot f) ''avg_oee'' v) = Inr x"
  by (simp add: get_snapshot_def Let_def dget_or_def [of "_ # _"])

text \<open>
  C6 (\<open>plant_cycles_complete\<close>): on the snapshot of a reachable factory whose materials are
  consumed at all, the protocol's cycle of each of the five domain agents completes, in
  whatever state the agent and the router are, with the graph or without: no lookup,
  comparison or format of a dynamic value raises. And the router only observes: decision
  and agent are those of the base agent's own cycle on the enriched snapshot.
\<close>

theorem plant_cycles_complete:
  assumes "factory_reachable f" "\<forall>km\<in>set (f_materials f). 0 < mt_consumption (snd km)"
  shows "(\<exists>d s' r' l'. run_cycle_with_router env installed interf (supply_methods interf sl) log_fn w1 w2 (get_snapshot f) (sa, r, l)
        = Inr (d, s', r', l') \<and> run_cycle sa_sense sa_reason (sa_act interf)
            (enrich_snapshot_for_agents (get_snapshot f) (sw_ingest (cycle_clock env installed w1 w2))) sa = Inr (d, s'))
    \<and> (\<exists>d s' r' l'. run_cycle_with_router env installed interf (demand_methods interf dl) log_fn w1 w2 (get_snapshot f) (da, r, l)
        = Inr (d, s', r', l') \<and> run_cycle da_sense da_reason (da_act interf)
            (enrich_snapshot_for_agents (get_snapshot f) (sw_ingest (cycle_clock env installed w1 w2))) da = Inr (d, s'))
    \<and> (\<exists>d s' r' l'. run_cycle_with_router env installed interf (inventory_methods interf il) log_fn w1 w2 (get_snapshot f) (ia, r, l)
        = Inr (d, s', r', l') \<and> run_cycle ia_sense ia_reason (ia_act interf)
            (enrich_snapshot_for_agents (get_snapshot f) (sw_ingest (cycle_clock env installed w1 w2))) ia = Inr (d, s'))
    \<and> (\<exists>d s' r' l'. run_cycle_with_router env installed interf (equipment_methods interf el) log_fn w1 w2 (get_snapshot f) (ea, r, l)
        = Inr (d, s', r', l') \<and> run_cycle ea_sense ea_reason (ea_act interf)
            (enrich_snapshot_for_agents (get_snapshot f) (sw_ingest (cycle_clock env installed w1 w2))) ea = Inr (d, s'))
    \<and> (\<exists>d s' r' l'. run_cycle_with_router env installed interf (quality_methods interf ql) log_fn w1 w2 (get_snapshot f) (qa, r, l)
        = Inr (d, s', r', l') \<and> run_cycle qa_sense qa_reason (qa_act interf)
            (enrich_snapshot_for_agents (get_snapshot f) (sw_ingest (cycle_clock env installed w1 w2))) qa = Inr (d, s'))"
proof -
  let ?snap = "enrich_snapshot_for_agents (get_snapshot f) (sw_ingest (cycle_clock env installed w1 w2))"
  have look: "dget ?snap ''stations'' = Some (PDict (map (\<lambda>w. (wc_id w, PDict (station_snapshot f w))) (f_line f)))"
      "dget ?snap ''materials'' = Some (PDict (map (\<lambda>(k, m). (k, PDict (material_snapshot k m))) (f_materials f)))"
      "dget ?snap ''orders'' = Some (PList (map (\<lambda>od. PDict (order_snapshot od)) (f_orders f)))"
      "dget ?snap ''wip'' = Some (PList (map (\<lambda>b. PDict (wip_snapshot b)) (f_wip f)))"
    by (simp_all add: plant_enriched_lookups snapshot_lookups)
  have num: "is_num (dget_or ?snap k (PInt 0))" if "k \<in> {''cycle'', ''total_produced'', ''fg_stock'', ''scrap_count''}" for k
    using that by (auto simp: dget_or_dget plant_enriched_lookups snapshot_lookups)
  have st: "\<forall>row\<in>set (map (\<lambda>w. (wc_id w, PDict (station_snapshot f w))) (f_line f)). station_row_ok (snd row)"
    by (auto simp: station_row)
  obtain kc where kc: "kpi_context ?snap = Inr kc" using enriched_kpi by blast
  obtain en where en: "enrich_snapshot_for_router (get_snapshot f) = Inr en" using plant_router_ok by blast
  obtain d1 s1 where 1: "run_cycle sa_sense sa_reason (sa_act interf) ?snap sa = Inr (d1, s1)"
    using supply_total [OF look(2) material_rows [OF assms(2)]] by blast
  obtain d2 s2 where 2: "run_cycle da_sense da_reason (da_act interf) ?snap da = Inr (d2, s2)"
    using demand_total [OF look(3), of interf da] num by (auto simp: order_row)
  obtain d3 s3 where 3: "run_cycle ia_sense ia_reason (ia_act interf) ?snap ia = Inr (d3, s3)"
    using inventory_total [OF look(4) _ look(1) st, of interf ia] num by (auto simp: wip_row)
  obtain d4 s4 where 4: "run_cycle ea_sense ea_reason (ea_act interf) ?snap ea = Inr (d4, s4)"
    using equipment_total [OF look(1) st kc] by blast
  obtain d5 s5 where 5: "run_cycle qa_sense qa_reason (qa_act interf) ?snap qa = Inr (d5, s5)"
    using quality_total [OF look(1) st stations_untracked [OF assms(1)]] by blast
  note go = router_cycle_of_cycle [OF _ _ _ _ en]
  have 11: "\<exists>r' l'. run_cycle_with_router env installed interf (supply_methods interf sl) log_fn w1 w2 (get_snapshot f) (sa, r, l)
      = Inr (d1, s1, r', l')"
    using go [OF _ _ _ _ 1, of "supply_methods interf sl" interf log_fn r l] by (auto simp: supply_methods_def)
  have 22: "\<exists>r' l'. run_cycle_with_router env installed interf (demand_methods interf dl) log_fn w1 w2 (get_snapshot f) (da, r, l)
      = Inr (d2, s2, r', l')"
    using go [OF _ _ _ _ 2, of "demand_methods interf dl" interf log_fn r l] by (auto simp: demand_methods_def)
  have 33: "\<exists>r' l'. run_cycle_with_router env installed interf (inventory_methods interf il) log_fn w1 w2 (get_snapshot f) (ia, r, l)
      = Inr (d3, s3, r', l')"
    using go [OF _ _ _ _ 3, of "inventory_methods interf il" interf log_fn r l] by (auto simp: inventory_methods_def)
  have 44: "\<exists>r' l'. run_cycle_with_router env installed interf (equipment_methods interf el) log_fn w1 w2 (get_snapshot f) (ea, r, l)
      = Inr (d4, s4, r', l')"
    using go [OF _ _ _ _ 4, of "equipment_methods interf el" interf log_fn r l] by (auto simp: equipment_methods_def)
  have 55: "\<exists>r' l'. run_cycle_with_router env installed interf (quality_methods interf ql) log_fn w1 w2 (get_snapshot f) (qa, r, l)
      = Inr (d5, s5, r', l')"
    using go [OF _ _ _ _ 5, of "quality_methods interf ql" interf log_fn r l] by (auto simp: quality_methods_def)
  show ?thesis
    using 1 11 2 22 3 33 4 44 5 55 by (intro conjI) blast+
qed

theorem plant_cycles_complete_witness:
  "\<exists>d s' r' l'. run_cycle_with_router None True id (supply_methods id (\<lambda>_ _ s. s)) None demo_clock demo_clock
     (get_snapshot demo_factory) (demo_supply_agent, Some demo_router, ()) = Inr (d, s', r', l')"
proof -
  have "\<exists>d s' r' l'. run_cycle_with_router None True id (supply_methods id (\<lambda>_ _ s. s)) None demo_clock demo_clock
     (get_snapshot demo_factory) (demo_supply_agent, Some demo_router, ()) = Inr (d, s', r', l')
    \<and> run_cycle sa_sense sa_reason (sa_act id) (enrich_snapshot_for_agents (get_snapshot demo_factory)
        (sw_ingest (cycle_clock None True demo_clock demo_clock))) demo_supply_agent = Inr (d, s')"
    by (rule plant_cycles_complete [OF demo_factory_reachable demo_factory_consumes, THEN conjunct1])
  then show ?thesis by blast
qed

end
