(* ===== verification/Runtime.thy ===== *)
theory Runtime
  imports Protocol Factory
begin

text \<open>
  \<open>mas/runtime/factory_runtime.py\<close>: the loop that runs the plant, throws random events at
  it and gives each agent its turn. The threads are the steps of one state: the environment
  tick, the event generator, one turn of a domain agent, one turn of the planning agent and
  the reader of the log buffer; each body is one atomic step. Sleeping, the display
  functions and the transports are not modelled; what a tick pushes to them is its output.
  \<open>random.choice\<close> raises on an empty sequence: a plant has stations, sensors and materials,
  and on an empty list the model leaves the state alone.
\<close>

section \<open>The log buffer\<close>

type_synonym log_entry = "string \<times> string \<times> string \<times> string"

record log_buffer =
  lb_entries :: "log_entry list"
  lb_clock :: "nat \<Rightarrow> string"
  lb_tick :: nat

definition push_line :: "log_entry \<Rightarrow> log_entry list \<Rightarrow> log_entry list" where
  "push_line = push_trim 500 500"

definition rt_log :: "log_buffer log_fn" where
  "rt_log aid msg level l =
     l\<lparr> lb_entries := push_line (lb_clock l (lb_tick l), aid, msg, level) (lb_entries l), lb_tick := Suc (lb_tick l) \<rparr>"

definition pop_logs :: "log_buffer \<Rightarrow> log_entry list \<times> log_buffer" where
  "pop_logs l = (lb_entries l, l\<lparr>lb_entries := []\<rparr>)"

interpretation runtime_log: bounded_log push_line 500 500
  unfolding push_line_def by (simp add: bounded_log_push_trim)

section \<open>State\<close>

definition AGENT_INTERVALS :: "(string \<times> nat) list" where
  "AGENT_INTERVALS = [(''EA'', 2), (''QA'', 3), (''SA'', 5), (''DA'', 4), (''IA'', 3), (''PA'', 2)]"

definition CUSTOMERS :: "string list" where
  "CUSTOMERS = [(utf8 [0xD604, 0xB300, 0xC790, 0xB3D9, 0xCC28]), (utf8 [0xAE30, 0xC544, 0xC790, 0xB3D9, 0xCC28]), (utf8 [0x47, 0x4D, 0xCF54, 0xB9AC, 0xC544]), (utf8 [0xB974, 0xB178, 0xCF54, 0xB9AC, 0xC544]), (utf8 [0xD55C, 0xAD6D, 0x47, 0x4D])]"

definition STATION_SHORT :: "(string \<times> string) list" where
  "STATION_SHORT = [(''WC-01'', (utf8 [0xBE14, 0xB7AD, 0xD0B9])), (''WC-02'', (utf8 [0xD3EC, 0xBC0D])), (''WC-03'', (utf8 [0xC6A9, 0xC811])),
     (''WC-04'', (utf8 [0xC5F4, 0xCC98, 0xB9AC])), (''WC-05'', ''CNC''), (''WC-06'', (utf8 [0xC870, 0xB9BD]))]"

definition station_short :: "string \<Rightarrow> string" where
  "station_short sid = (case map_of STATION_SHORT sid of Some n \<Rightarrow> n | None \<Rightarrow> sid)"

record runtime =
  ru_factory :: factory
  ru_broker :: broker
  ru_members :: "member list"
  ru_planner :: planning_agent
  ru_router :: "router option"
  ru_snapshot :: "dict option"
  ru_log :: log_buffer
  ru_total_events :: nat
  ru_cnp_count :: nat
  ru_cnp_in_progress :: bool
  ru_last_push :: real
  ru_order_counter :: nat

definition new_runtime ::
  "factory \<Rightarrow> broker \<Rightarrow> member list \<Rightarrow> planning_agent \<Rightarrow> router option \<Rightarrow> (nat \<Rightarrow> string) \<Rightarrow> runtime" where
  "new_runtime f b ms pa r clk = \<lparr> ru_factory = f, ru_broker = b, ru_members = ms, ru_planner = pa, ru_router = r,
     ru_snapshot = None, ru_log = \<lparr> lb_entries = [], lb_clock = clk, lb_tick = 0 \<rparr>, ru_total_events = 0, ru_cnp_count = 0,
     ru_cnp_in_progress = False, ru_last_push = 0, ru_order_counter = length (f_orders f) \<rparr>"

definition say :: "string \<Rightarrow> string \<Rightarrow> string \<Rightarrow> runtime \<Rightarrow> runtime" where
  "say aid msg level rt = rt\<lparr>ru_log := rt_log aid msg level (ru_log rt)\<rparr>"

definition count_event :: "runtime \<Rightarrow> runtime" where
  "count_event rt = rt\<lparr>ru_total_events := Suc (ru_total_events rt)\<rparr>"

definition with_factory :: "(factory \<Rightarrow> factory) \<Rightarrow> runtime \<Rightarrow> runtime" where
  "with_factory g rt = rt\<lparr>ru_factory := g (ru_factory rt)\<rparr>"

section \<open>The environment tick\<close>

definition rand_uniform :: "real \<Rightarrow> real \<Rightarrow> rng \<Rightarrow> real \<times> rng" where
  "rand_uniform a b r = (let (u, r') = rand_random r in (a + (b - a) * u, r'))"

fun recover_sensors :: "(string \<times> sensor) list \<Rightarrow> rng \<Rightarrow> (string \<times> sensor) list \<times> rng" where
  "recover_sensors [] r = ([], r)"
| "recover_sensors ((n, s) # ss) r =
     (let (u, r1) = rand_random r;
          (s', r2) = (if u < 5 / 100 then (let (v, r2) = rand_uniform (1 / 100) (5 / 100) r1 in (recover v s, r2)) else (s, r1));
          (ss', r3) = recover_sensors ss r2
      in ((n, s') # ss', r3))"

definition tend_station :: "work_center \<Rightarrow> log_buffer \<Rightarrow> rng \<Rightarrow> work_center \<times> log_buffer \<times> rng" where
  "tend_station w l r =
     (let (ss, r1) = recover_sensors (wc_sensors w) r; w1 = w\<lparr>wc_sensors := ss\<rparr>
      in if wc_state w1 = BREAKDOWN then
           (let (u, r2) = rand_random r1
            in if u < 1 / 10 then (complete_repair w1,
                  rt_log ''EA'' (station_short (wc_id w1) @ (utf8 [0x20, 0xC218, 0xB9AC, 0x20, 0xC644, 0xB8CC])) ''SUCCESS'' l, r2)
               else (w1, l, r2))
         else (w1, l, r1))"

fun tend_line :: "work_center list \<Rightarrow> log_buffer \<Rightarrow> rng \<Rightarrow> work_center list \<times> log_buffer \<times> rng" where
  "tend_line [] l r = ([], l, r)"
| "tend_line (w # ws) l r =
     (let (w', l1, r1) = tend_station w l r; (ws', l2, r2) = tend_line ws l1 r1 in (w' # ws', l2, r2))"

definition arrival_text :: "material \<Rightarrow> int \<Rightarrow> string" where
  "arrival_text m qty = mt_name m @ (utf8 [0x20, 0xC785, 0xACE0, 0x20, 0x2B]) @ show_int qty"

fun refill_materials ::
  "(string \<times> material) list \<Rightarrow> log_buffer \<times> nat \<Rightarrow> rng \<Rightarrow> (string \<times> material) list \<times> (log_buffer \<times> nat) \<times> rng" where
  "refill_materials [] le r = ([], le, r)"
| "refill_materials ((k, m) # ms) le r =
     (let (m', le1, r1) =
        (if mt_stock m < mt_safety_stock m then
           (let (u, r1) = rand_random r
            in if u < 15 / 100 then
                 (let (qty, r2) = rand_randint 200 600 r1
                  in (m\<lparr>mt_stock := mt_stock m + qty\<rparr>,
                      (rt_log ''SA'' (arrival_text m qty) ''EVENT'' (fst le), Suc (snd le)), r2))
               else (m, le, r1))
         else (m, le, r));
          (ms', le2, r2) = refill_materials ms le1 r1
      in ((k, m') # ms', le2, r2))"

definition apply_dynamics :: "runtime \<Rightarrow> rng \<Rightarrow> runtime \<times> rng" where
  "apply_dynamics rt r =
     (let f = ru_factory rt;
          (line, l1, r1) = tend_line (f_line f) (ru_log rt) r;
          (ms, (l2, n), r2) = refill_materials (f_materials f) (l1, ru_total_events rt) r1
      in (rt\<lparr> ru_factory := f\<lparr> f_line := line, f_materials := ms \<rparr>, ru_log := l2, ru_total_events := n \<rparr>, r2))"

definition factory_tick_event :: "dict \<Rightarrow> dict" where
  "factory_tick_event snap = map (\<lambda>k. (k, dget_none snap k)) [''cycle'', ''clock'', ''avg_oee'', ''fg_stock'', ''shift'']"

definition sensor_values :: "dict \<Rightarrow> dict result" where
  "sensor_values sd = bindR (as_dict (dget_or sd ''sensors'' (PDict []))) (\<lambda>ss.
     mapR (\<lambda>(n, s). bindR (as_dict s) (\<lambda>s. bindR (item_at s ''value'') (\<lambda>v. Inr (n, v)))) ss)"

definition sensors_payload :: "dict \<Rightarrow> dict result" where
  "sensors_payload snap =
     bindR (item_at snap ''cycle'') (\<lambda>c.
     bindR (as_dict (dget_or snap ''stations'' (PDict []))) (\<lambda>sts.
     bindR (mapR (\<lambda>(sid, sd). bindR (as_dict sd) (\<lambda>sd. bindR (sensor_values sd) (\<lambda>vs. Inr (sid, PDict vs)))) sts) (\<lambda>vals.
       Inr [(''cycle'', c), (''stations'', PDict vals)])))"

text \<open>
  The tick; its output is what it pushes. \<open>api\<close>: an API server is attached. \<open>mqtt\<close>: the
  attached bridge has a \<open>publish_dict\<close> method. The repository's \<open>MQTTBridge\<close> has none: the
  attribute error is swallowed and nothing is pushed, which is \<open>mqtt = False\<close>.
\<close>

definition env_tick :: "bool \<Rightarrow> bool \<Rightarrow> real \<Rightarrow> runtime \<Rightarrow> rng \<Rightarrow> (string \<times> dict) list \<times> runtime \<times> rng" where
  "env_tick api mqtt now rt r =
     (let (res, f, r1) = factory_run_cycle (ru_factory rt) r;
          snap = get_snapshot f;
          rt1 = rt\<lparr> ru_factory := f, ru_snapshot := Some snap \<rparr>;
          (out1, rt2) = (if api \<and> now - ru_last_push rt1 \<ge> 3 / 2
             then ([(''factory_tick'', factory_tick_event snap)], rt1\<lparr>ru_last_push := now\<rparr>) else ([], rt1));
          p = cr_product res;
          rt3 = (if p_status p = SCRAP
             then say ''QA'' ((utf8 [0xD3D0, 0xAE30, 0x3A, 0x20]) @ p_serial p @ '' at ''
                    @ station_short (''WC-'' @ pad_nat 2 (Suc (p_current_station p)))) ''WARN'' rt2
             else rt2);
          (rt4, r2) = apply_dynamics rt3 r1;
          out2 = (if mqtt then (case sensors_payload snap of Inr d \<Rightarrow> [(''factory/sensors'', d)] | Inl _ \<Rightarrow> []) else [])
      in (out1 @ out2, rt4, r2))"

section \<open>The event generator\<close>

datatype runtime_event = E_BREAKDOWN | E_NEW_ORDER | E_TOOL_WEAR_SPIKE | E_QUALITY_DRIFT | E_MATERIAL_ARRIVAL
  | E_SPEED_RECOVERY | E_AMBIENT_CHANGE

definition event_weights :: "(runtime_event \<times> real) list" where
  "event_weights = [(E_BREAKDOWN, 8 / 100), (E_NEW_ORDER, 18 / 100), (E_TOOL_WEAR_SPIKE, 12 / 100),
     (E_QUALITY_DRIFT, 15 / 100), (E_MATERIAL_ARRIVAL, 15 / 100), (E_SPEED_RECOVERY, 12 / 100), (E_AMBIENT_CHANGE, 20 / 100)]"

text \<open>\<open>random.choices\<close>: bisection of the cumulative weights, but for the last.\<close>

fun cumulate :: "real \<Rightarrow> real list \<Rightarrow> real list" where
  "cumulate acc [] = []"
| "cumulate acc (x # xs) = (acc + x) # cumulate (acc + x) xs"

definition choose_event :: "rng \<Rightarrow> runtime_event \<times> rng" where
  "choose_event r =
     (let (u, r') = rand_random r; cum = cumulate 0 (map snd event_weights); x = u * last cum
      in (fst (event_weights ! length (filter (\<lambda>c. c \<le> x) (butlast cum))), r'))"

definition rand_index :: "nat \<Rightarrow> rng \<Rightarrow> nat \<times> rng" where
  "rand_index n r = (let (i, r') = rand_randint 0 (int n - 1) r in (nat i, r'))"

definition update_station :: "nat \<Rightarrow> work_center \<Rightarrow> runtime \<Rightarrow> runtime" where
  "update_station i w = with_factory (\<lambda>f. f\<lparr>f_line := (f_line f)[i := w]\<rparr>)"

definition event_breakdown :: "runtime \<Rightarrow> rng \<Rightarrow> runtime \<times> rng" where
  "event_breakdown rt r =
     (let (i, r1) = rand_index (length (f_line (ru_factory rt))) r; w = f_line (ru_factory rt) ! i
      in if wc_state w = RUNNING then
           (let (t, r2) = rand_uniform 300 1200 r1
            in (count_event (say ''EA'' ((utf8 [0x5B, 0xC815, 0xC9C0, 0x5D, 0x20]) @ station_short (wc_id w) @ (utf8 [0x20, 0xACE0, 0xC7A5, 0x20, 0xBC1C, 0xC0DD, 0x20, 0x28, 0xC608, 0xC0C1, 0xBCF5, 0xAD6C, 0x20])
                  @ fmt_fixed 0 (t / 60) @ (utf8 [0xBD84, 0x29])) ''ALERT'' (update_station i (trigger_breakdown t w) rt)), r2))
         else (rt, r1))"

definition event_new_order :: "runtime \<Rightarrow> rng \<Rightarrow> runtime \<times> rng" where
  "event_new_order rt r =
     (let n = Suc (ru_order_counter rt);
          (i, r1) = rand_index (length CUSTOMERS) r; customer = CUSTOMERS ! i;
          (qty, r2) = rand_randint 100 500 r1;
          (u, r3) = rand_random r2; pri = (if u < 2 / 10 then URGENT else NORMAL_PRIO);
          od = \<lparr> co_id = ''PO-NEW-'' @ pad_nat 3 n, co_customer = customer, co_part = ''BRK-PAD-2026A'', co_quantity = qty,
                 co_due_date = ''2026-04-15'', co_priority = pri, co_delivered = 0 \<rparr>
      in (count_event (say ''DA'' ((utf8 [0xC2E0, 0xADDC, 0x20, 0xC8FC, 0xBB38, 0x3A, 0x20]) @ customer @ '' +'' @ show_int qty @ (utf8 [0xAC1C, 0x20, 0x28])
             @ (if pri = URGENT then (utf8 [0xAE34, 0xAE09]) else (utf8 [0xC77C, 0xBC18])) @ '')'') ''EVENT''
           ((with_factory (\<lambda>f. f\<lparr>f_orders := f_orders f @ [od]\<rparr>) rt)\<lparr>ru_order_counter := n\<rparr>)), r3))"

definition event_tool_wear :: "runtime \<Rightarrow> rng \<Rightarrow> runtime \<times> rng" where
  "event_tool_wear rt r =
     (let (i, r1) = rand_index (length (f_line (ru_factory rt))) r; w = f_line (ru_factory rt) ! i;
          (spike, r2) = rand_uniform 50 200 r1; t = wc_tool w
      in (count_event (say ''EA'' (station_short (wc_id w) @ (utf8 [0x20, 0xACF5, 0xAD6C, 0x20, 0xAE09, 0xB9C8, 0xBAA8, 0x20, 0x2B]) @ fmt_fixed 0 spike @ (utf8 [0xD68C, 0xBD84])) ''WARN''
            (update_station i (w\<lparr>wc_tool := t\<lparr>t_current_life := t_current_life t + py_trunc spike\<rparr>\<rparr>) rt)), r2))"

definition event_quality_drift :: "runtime \<Rightarrow> rng \<Rightarrow> runtime \<times> rng" where
  "event_quality_drift rt r =
     (let (i, r1) = rand_index (length (f_line (ru_factory rt))) r; w = f_line (ru_factory rt) ! i;
          (j, r2) = rand_index (length (wc_sensors w)) r1; (n, s) = wc_sensors w ! j;
          (drift, r3) = rand_uniform (1 / 10) (5 / 10) r2
      in (count_event (say ''QA'' (station_short (wc_id w) @ '' '' @ s_name s @ (utf8 [0x20, 0xB4DC, 0xB9AC, 0xD504, 0xD2B8, 0x20, 0x2B]) @ fmt_fixed 2 drift) ''WARN''
            (update_station i (w\<lparr>wc_sensors := (wc_sensors w)[j := (n, inject_shock drift s)]\<rparr>) rt)), r3))"

definition event_material_arrival :: "runtime \<Rightarrow> rng \<Rightarrow> runtime \<times> rng" where
  "event_material_arrival rt r =
     (let ms = f_materials (ru_factory rt); (i, r1) = rand_index (length ms) r; (k, m) = ms ! i;
          (qty, r2) = rand_randint 300 800 r1
      in (count_event (say ''SA'' (arrival_text m qty) ''EVENT''
            (with_factory (\<lambda>f. f\<lparr>f_materials := ms[i := (k, m\<lparr>mt_stock := mt_stock m + qty\<rparr>)]\<rparr>) rt)), r2))"

definition event_speed_recovery :: "runtime \<Rightarrow> rng \<Rightarrow> runtime \<times> rng" where
  "event_speed_recovery rt r =
     (let (i, r1) = rand_index (length (f_line (ru_factory rt))) r; w = f_line (ru_factory rt) ! i; old = wc_speed_pct w
      in if old < 100 then
           (let (d, r2) = rand_randint 5 15 r1; w' = set_speed (min 100 (old + d)) w
            in (count_event (say ''EA'' (station_short (wc_id w) @ (utf8 [0x20, 0xC18D, 0xB3C4, 0xBCF5, 0xC6D0, 0x20]) @ show_int old @ (utf8 [0x25, 0x2192])
                  @ show_int (wc_speed_pct w') @ ''%'') ''EVENT'' (update_station i w' rt)), r2))
         else (rt, r1))"

definition event_ambient :: "runtime \<Rightarrow> rng \<Rightarrow> runtime \<times> rng" where
  "event_ambient rt r =
     (let (g, r1) = rand_gauss 0 (3 / 2) r; t = max 15 (min 38 (f_ambient (ru_factory rt) + g))
      in (count_event (say ''SYS'' ((utf8 [0xD658, 0xACBD, 0xC628, 0xB3C4, 0x20, 0xBCC0, 0xD654, 0x3A, 0x20]) @ fmt_fixed 1 t @ (utf8 [0xB0, 0x43])) ''INFO''
            (with_factory (\<lambda>f. f\<lparr>f_ambient := t\<rparr>) rt)), r1))"

fun apply_event :: "runtime_event \<Rightarrow> runtime \<Rightarrow> rng \<Rightarrow> runtime \<times> rng" where
  "apply_event E_BREAKDOWN rt r = (if f_line (ru_factory rt) = [] then (rt, r) else event_breakdown rt r)"
| "apply_event E_NEW_ORDER rt r = event_new_order rt r"
| "apply_event E_TOOL_WEAR_SPIKE rt r = (if f_line (ru_factory rt) = [] then (rt, r) else event_tool_wear rt r)"
| "apply_event E_QUALITY_DRIFT rt r =
     (if f_line (ru_factory rt) = [] \<or> (\<exists>w\<in>set (f_line (ru_factory rt)). wc_sensors w = []) then (rt, r)
      else event_quality_drift rt r)"
| "apply_event E_MATERIAL_ARRIVAL rt r = (if f_materials (ru_factory rt) = [] then (rt, r) else event_material_arrival rt r)"
| "apply_event E_SPEED_RECOVERY rt r = (if f_line (ru_factory rt) = [] then (rt, r) else event_speed_recovery rt r)"
| "apply_event E_AMBIENT_CHANGE rt r = event_ambient rt r"

definition event_step :: "runtime \<Rightarrow> rng \<Rightarrow> runtime \<times> rng" where
  "event_step rt r = (let (ev, r1) = choose_event r in apply_event ev rt r1)"

section \<open>The agents' turns\<close>

text \<open>
  What a turn reads from outside: the switch and presence of the graph library, the clocks
  of its two possible attempts, the text of an exception, and what a raising method leaves.
\<close>

record crash =
  cr_supply :: "sra_method \<Rightarrow> py_error \<Rightarrow> supply_agent wired \<Rightarrow> supply_agent wired"
  cr_demand :: "sra_method \<Rightarrow> py_error \<Rightarrow> demand_agent wired \<Rightarrow> demand_agent wired"
  cr_inventory :: "sra_method \<Rightarrow> py_error \<Rightarrow> inventory_agent wired \<Rightarrow> inventory_agent wired"
  cr_equipment :: "sra_method \<Rightarrow> py_error \<Rightarrow> equipment_agent wired \<Rightarrow> equipment_agent wired"
  cr_quality :: "sra_method \<Rightarrow> py_error \<Rightarrow> quality_agent wired \<Rightarrow> quality_agent wired"
  cr_planning :: "sra_method \<Rightarrow> py_error \<Rightarrow> planning_agent wired \<Rightarrow> planning_agent wired"

record turn_world =
  tn_env :: "string option"
  tn_installed :: bool
  tn_first :: sra_clock
  tn_second :: sra_clock
  tn_error_text :: "py_error \<Rightarrow> string"
  tn_crash :: crash

text \<open>The line a completed turn leaves in the log.\<close>

definition report_cycle :: "string \<Rightarrow> dict option \<Rightarrow> string list \<Rightarrow> log_buffer \<Rightarrow> log_buffer" where
  "report_cycle aid d reasoning l =
     (let info = (if reasoning \<noteq> [] then rt_log aid (last reasoning) ''INFO'' l else l)
      in case d of
           None \<Rightarrow> info
         | Some d \<Rightarrow>
             (let pri = dget_or d ''priority'' (PStr ''LOW'')
              in if pri \<in> {PStr ''CRITICAL'', PStr ''HIGH''} then
                   rt_log aid (py_str (dget_or d ''type'' (PStr '''')) @ '' ['' @ py_str pri @ '']'') ''ALERT'' l
                 else if pri = PStr ''MEDIUM'' then
                   rt_log aid (if reasoning \<noteq> [] then last reasoning else '''') ''WARN'' l
                 else info))"

definition broker_of :: "'a wired \<Rightarrow> runtime \<Rightarrow> broker" where
  "broker_of s rt = (case snd s of Some b \<Rightarrow> b | None \<Rightarrow> ru_broker rt)"

definition take_turn ::
  "(broker \<Rightarrow> broker) \<Rightarrow> turn_world \<Rightarrow> ('o, 'd, ('d, 'z) base_agent_scheme wired) agent_methods \<Rightarrow> ('d \<Rightarrow> dict) \<Rightarrow> dict
   \<Rightarrow> ('d, 'z) base_agent_scheme \<Rightarrow> runtime \<Rightarrow> ('d, 'z) base_agent_scheme \<times> runtime" where
  "take_turn interf w m to_dict snap a rt =
     (case run_cycle_with_router (tn_env w) (tn_installed w) interf m (Some rt_log) (tn_first w) (tn_second w) snap
             ((a, Some (ru_broker rt)), ru_router rt, ru_log rt) of
        Inl (e, s, r, l) \<Rightarrow> (fst s, rt\<lparr> ru_broker := broker_of s rt, ru_router := r,
            ru_log := rt_log (ag_id a) ((utf8 [0xC624, 0xB958, 0x3A, 0x20]) @ tn_error_text w e) ''ERROR'' l \<rparr>)
      | Inr (d, s, r, l) \<Rightarrow> (fst s, rt\<lparr> ru_broker := broker_of s rt, ru_router := r,
            ru_log := report_cycle (ag_id a) (map_option to_dict d) (ag_reasoning_log (fst s)) l \<rparr>))"

fun member_turn :: "(broker \<Rightarrow> broker) \<Rightarrow> turn_world \<Rightarrow> dict \<Rightarrow> member \<Rightarrow> runtime \<Rightarrow> member \<times> runtime" where
  "member_turn interf w snap (M_SA a) rt =
     (let (a', rt') = take_turn interf w (supply_methods interf (cr_supply (tn_crash w))) supply_decision_dict snap a rt in (M_SA a', rt'))"
| "member_turn interf w snap (M_DA a) rt =
     (let (a', rt') = take_turn interf w (demand_methods interf (cr_demand (tn_crash w))) demand_decision_dict snap a rt in (M_DA a', rt'))"
| "member_turn interf w snap (M_IA a) rt =
     (let (a', rt') = take_turn interf w (inventory_methods interf (cr_inventory (tn_crash w))) inventory_decision_dict snap a rt in (M_IA a', rt'))"
| "member_turn interf w snap (M_EA a) rt =
     (let (a', rt') = take_turn interf w (equipment_methods interf (cr_equipment (tn_crash w))) equipment_decision_dict snap a rt in (M_EA a', rt'))"
| "member_turn interf w snap (M_QA a) rt =
     (let (a', rt') = take_turn interf w (quality_methods interf (cr_quality (tn_crash w))) quality_decision_dict snap a rt in (M_QA a', rt'))"

text \<open>Without a snapshot (or with an empty one) there is no turn.\<close>

definition agent_turn :: "(broker \<Rightarrow> broker) \<Rightarrow> turn_world \<Rightarrow> nat \<Rightarrow> runtime \<Rightarrow> runtime" where
  "agent_turn interf w i rt =
     (case ru_snapshot rt of
        None \<Rightarrow> rt
      | Some snap \<Rightarrow> if snap = [] then rt
          else (let (m, rt') = member_turn interf w snap (ru_members rt ! i) rt
                in rt'\<lparr>ru_members := (ru_members rt)[i := m]\<rparr>))"

section \<open>The planning agent's turn\<close>

definition set_line_speed :: "pyval \<Rightarrow> factory \<Rightarrow> factory result" where
  "set_line_speed v f = (case v of PInt sp \<Rightarrow> Inr (f\<lparr>f_line := map (set_speed sp) (f_line f)\<rparr>) | _ \<Rightarrow> Inl TypeError)"

definition say_last_reasoning :: "runtime \<Rightarrow> runtime" where
  "say_last_reasoning rt =
     (let log = ag_reasoning_log (ru_planner rt) in if log \<noteq> [] then say ''PA'' (last log) ''INFO'' rt else rt)"

text \<open>The round the planning agent opens: the flag, the strategy's speed on every station.\<close>

definition open_round ::
  "(broker \<Rightarrow> broker) \<Rightarrow> turn_world \<Rightarrow> cnp_world \<Rightarrow> string \<Rightarrow> dict \<Rightarrow> planning_decision \<Rightarrow> runtime \<Rightarrow> runtime" where
  "open_round interf w cw ingest snap d rt =
     (let rt1 = say ''PA'' (''CNP #'' @ show_nat (Suc (pa_cnp_count (ru_planner rt))) @ (utf8 [0x20, 0xC2DC, 0xC791, 0x3A, 0x20])
                  @ (case pd_cnp_reason d of Some why \<Rightarrow> why | None \<Rightarrow> '''')) ''CNP'' (rt\<lparr>ru_cnp_in_progress := True\<rparr>);
          failed = (\<lambda>e rt. say ''PA'' ((utf8 [0xC624, 0xB958, 0x3A, 0x20]) @ tn_error_text w e) ''ERROR'' rt)
      in case initiate_cnp interf cw (enrich_snapshot_for_agents snap ingest)
                ((ru_planner rt1, Some (ru_broker rt1)), ru_members rt1) of
           (out, s, ms) \<Rightarrow>
             (let rt2 = rt1\<lparr> ru_planner := fst s, ru_broker := broker_of s rt1, ru_members := ms \<rparr>
              in case out of
                   Inl e \<Rightarrow> failed e rt2
                 | Inr None \<Rightarrow> rt2\<lparr>ru_cnp_in_progress := False\<rparr>
                 | Inr (Some st) \<Rightarrow>
                     (let rt3 = rt2\<lparr>ru_cnp_count := pa_cnp_count (fst s)\<rparr>;
                          speed = dget_or st ''target_speed_pct'' (PInt 100)
                      in case set_line_speed speed (ru_factory rt3) of
                           Inl e \<Rightarrow> failed e rt3
                         | Inr f \<Rightarrow> (say ''PA'' ((utf8 [0x5B, 0xC644, 0xB8CC, 0x5D, 0x20, 0x43, 0x4E, 0x50, 0x20, 0x23]) @ show_nat (pa_cnp_count (fst s)) @ (utf8 [0x20, 0x2014, 0x20, 0xC18D, 0xB3C4, 0x20])
                               @ py_str speed @ ''%'') ''SUCCESS'' (rt3\<lparr>ru_factory := f\<rparr>))\<lparr>ru_cnp_in_progress := False\<rparr>)))"

definition planner_turn ::
  "(broker \<Rightarrow> broker) \<Rightarrow> turn_world \<Rightarrow> cnp_world \<Rightarrow> string \<Rightarrow> runtime \<Rightarrow> runtime" where
  "planner_turn interf w cw ingest rt =
     (case ru_snapshot rt of
        None \<Rightarrow> rt
      | Some snap \<Rightarrow> if snap = [] then rt
          else (case run_cycle_with_router (tn_env w) (tn_installed w) interf (planning_methods (cr_planning (tn_crash w)))
                     (Some rt_log) (tn_first w) (tn_second w) snap
                     ((ru_planner rt, Some (ru_broker rt)), ru_router rt, ru_log rt) of
                  Inl (e, s, r, l) \<Rightarrow> say ''PA'' ((utf8 [0xC624, 0xB958, 0x3A, 0x20]) @ tn_error_text w e) ''ERROR''
                     (rt\<lparr> ru_planner := fst s, ru_broker := broker_of s rt, ru_router := r, ru_log := l \<rparr>)
                | Inr (d, s, r, l) \<Rightarrow>
                    (let rt1 = rt\<lparr> ru_planner := fst s, ru_broker := broker_of s rt, ru_router := r, ru_log := l \<rparr>
                     in case d of
                          Some d \<Rightarrow> if pd_initiate_cnp d \<and> \<not> ru_cnp_in_progress rt1
                                    then open_round interf w cw ingest snap d rt1 else say_last_reasoning rt1
                        | None \<Rightarrow> say_last_reasoning rt1)))"

section \<open>Interleavings\<close>

text \<open>\<open>random()\<close> draws from the half-open unit interval; the event generator relies on it.\<close>

inductive runtime_step :: "runtime \<Rightarrow> runtime \<Rightarrow> bool" where
  rs_tick: "env_tick api mqtt now rt r = (out, rt', r') \<Longrightarrow> runtime_step rt rt'"
| rs_event: "\<forall>i. 0 \<le> unif_tape r i \<and> unif_tape r i < 1 \<Longrightarrow> event_step rt r = (rt', r') \<Longrightarrow> runtime_step rt rt'"
| rs_agent: "i < length (ru_members rt) \<Longrightarrow> runtime_step rt (agent_turn interf w i rt)"
| rs_planner: "runtime_step rt (planner_turn interf w cw ingest rt)"
| rs_logs: "pop_logs (ru_log rt) = (ls, l) \<Longrightarrow> runtime_step rt (rt\<lparr>ru_log := l\<rparr>)"

inductive runtime_reachable :: "runtime \<Rightarrow> bool" where
  rr_new: "new_factory uuids walls r = (f, r') \<Longrightarrow> runtime_reachable (new_runtime f b ms pa router clk)"
| rr_step: "runtime_reachable rt \<Longrightarrow> runtime_step rt rt' \<Longrightarrow> runtime_reachable rt'"

inductive_cases runtime_stepE: "runtime_step rt rt'"

end
