(* ===== verification/Runtime_Steps.thy ===== *)
theory Runtime_Steps
  imports Runtime Plant_Protocol
begin

text \<open>
  The steps of a runtime one by one: what the maintenance of the line, the random events, a
  turn of an agent and a contract net round keep, over any set of factories the plant stays
  in; the result of a round as the runtime sees it. Both runtimes use these lemmas.
\<close>

section \<open>Stations and lines\<close>

lemma wc_step_id: "wc_step w w' \<Longrightarrow> wc_id w' = wc_id w"
proof (induction rule: wc_step.induct)
  case (ws_cycle sf amb w r rds w' r')
  show ?case
  proof (cases "wc_state w \<in> {BREAKDOWN, MAINTENANCE, SETUP}")
    case True
    then show ?thesis using ws_cycle execute_cycle_stopped by simp
  next
    case False
    then show ?thesis using execute_cycle_running [OF ws_cycle] by simp
  qed
qed (simp_all add: record_quality_def trigger_breakdown_def complete_repair_def start_setup_def complete_setup_def set_speed_def)

text \<open>
  What a running plant keeps. A predicate on factories that every factory operation other
  than a whole production cycle preserves, and that bounds the material stocks from below,
  is preserved by events, by the maintenance of the line and by the agents' turns, whichever
  runtime drives them.
\<close>

definition stocked :: "(string \<times> material) list \<Rightarrow> bool" where
  "stocked ms \<longleftrightarrow> (\<forall>km\<in>set ms. 0 \<le> mt_stock (snd km))"

locale plant_keeper =
  fixes R :: "factory \<Rightarrow> bool"
  assumes touch: "R f \<Longrightarrow> factory_step f f' \<Longrightarrow> f_cycle f' = f_cycle f \<Longrightarrow> R f'"
    and kept_stock: "R f \<Longrightarrow> stocked (f_materials f)"

context plant_keeper
begin

lemma reach_station:
  assumes "wc_step\<^sup>*\<^sup>* w w'" "R f" "i < length (f_line f)" "f_line f ! i = w"
  shows "R (f\<lparr>f_line := (f_line f)[i := w']\<rparr>)"
  using assms
proof (induction rule: rtranclp_induct)
  case base
  then show ?case by auto
next
  case (step y z)
  let ?f = "f\<lparr>f_line := (f_line f)[i := y]\<rparr>"
  have "factory_step ?f (?f\<lparr>f_line := (f_line ?f)[i := z]\<rparr>)"
    using step.hyps(2) step.prems(2) by (intro fs_station) (simp_all add: wc_step_id)
  from touch [OF step.IH [OF step.prems] this] show ?case by simp
qed

lemma reach_line:
  assumes "R f" "list_all2 (wc_step\<^sup>*\<^sup>*) (f_line f) ws"
  shows "R (f\<lparr>f_line := ws\<rparr>)"
proof -
  have len: "length ws = length (f_line f)" using assms(2) by (simp add: list_all2_lengthD)
  have "k \<le> length ws \<Longrightarrow> R (f\<lparr>f_line := take k ws @ drop k (f_line f)\<rparr>)" for k
  proof (induction k)
    case 0
    then show ?case using assms(1) by simp
  next
    case (Suc k)
    let ?f = "f\<lparr>f_line := take k ws @ drop k (f_line f)\<rparr>"
    have at: "f_line ?f ! k = f_line f ! k" using Suc.prems len by (simp add: nth_append)
    have "wc_step\<^sup>*\<^sup>* (f_line f ! k) (ws ! k)" using assms(2) Suc.prems len by (simp add: list_all2_nthD)
    then have "R (?f\<lparr>f_line := (f_line ?f)[k := ws ! k]\<rparr>)"
      using Suc at len by (intro reach_station) simp_all
    moreover have "(take k ws @ drop k (f_line f))[k := ws ! k] = take (Suc k) ws @ drop (Suc k) (f_line f)"
      using Suc.prems len Cons_nth_drop_Suc [of k "f_line f", symmetric]
      by (simp add: list_update_append take_Suc_conv_app_nth)
    ultimately show ?case by simp
  qed
  from this [of "length ws"] show ?thesis using len by simp
qed

lemma reach_materials: "R f \<Longrightarrow> stocked ms \<Longrightarrow> R (f\<lparr>f_materials := ms\<rparr>)"
  by (rule touch, assumption, rule fs_materials) (simp_all add: stocked_def)

end

section \<open>The tick and the events\<close>

lemma recover_keys: "map fst (fst (recover_sensors ss r)) = map fst ss"
  by (induction ss arbitrary: r) (auto simp: Let_def case_prod_unfold)

lemma recover_sensors_keys: "recover_sensors ss r = (ss', r') \<Longrightarrow> map fst ss' = map fst ss"
  using recover_keys [of ss r] by simp

lemma tend_station_steps: "tend_station w l r = (w', l', r') \<Longrightarrow> wc_step\<^sup>*\<^sup>* w w'"
proof -
  assume t: "tend_station w l r = (w', l', r')"
  obtain ss r1 where ss: "recover_sensors (wc_sensors w) r = (ss, r1)" by fastforce
  let ?w1 = "w\<lparr>wc_sensors := ss\<rparr>"
  have 1: "wc_step w ?w1" using recover_sensors_keys [OF ss] by (rule ws_sensors)
  have "w' = ?w1 \<or> w' = complete_repair ?w1"
    using t by (auto simp: tend_station_def ss Let_def case_prod_unfold split: if_splits)
  then show ?thesis using 1 ws_repair [of ?w1] by (auto intro: rtranclp.rtrancl_into_rtrancl)
qed

lemma tend_line_steps: "tend_line ws l r = (ws', l', r') \<Longrightarrow> list_all2 (wc_step\<^sup>*\<^sup>*) ws ws'"
proof (induction ws arbitrary: l r ws' l' r')
  case (Cons w ws)
  obtain w1 l1 r1 where 1: "tend_station w l r = (w1, l1, r1)" by (rule prod_cases3)
  obtain ws2 l2 r2 where 2: "tend_line ws l1 r1 = (ws2, l2, r2)" by (rule prod_cases3)
  show ?case using Cons.prems Cons.IH [OF 2] tend_station_steps [OF 1] by (auto simp: 1 2)
qed simp

lemma refill_stock: "refill_materials ms le r = (ms', le', r') \<Longrightarrow> stocked ms \<Longrightarrow> stocked ms'"
proof (induction ms arbitrary: le r ms' le' r')
  case (Cons km ms)
  obtain k m where km: "km = (k, m)" by (rule prod.exhaust)
  let ?one = "if mt_stock m < mt_safety_stock m then
           (let (u, r1) = rand_random r
            in if u < 15 / 100 then
                 (let (qty, r2) = rand_randint 200 600 r1
                  in (m\<lparr>mt_stock := mt_stock m + qty\<rparr>,
                      (rt_log ''SA'' (arrival_text m qty) ''EVENT'' (fst le), Suc (snd le)), r2))
               else (m, le, r1))
         else (m, le, r)"
  obtain m1 le1 r1 where 1: "?one = (m1, le1, r1)" by (rule prod_cases3)
  obtain ms2 le2 r2 where 2: "refill_materials ms le1 r1 = (ms2, le2, r2)" by (rule prod_cases3)
  have m: "0 \<le> mt_stock m" using Cons.prems(2) by (simp add: stocked_def km)
  have "m1 = m \<or> m1 = m\<lparr>mt_stock := mt_stock m + fst (rand_randint 200 600 (snd (rand_random r)))\<rparr>"
    using 1 by (simp add: Let_def case_prod_unfold split: if_splits)
  then have "0 \<le> mt_stock m1"
    using m rand_randint_bounds(1) [of 200 600 "snd (rand_random r)"] by auto
  moreover have "stocked ms2" using Cons.IH [OF 2] Cons.prems(2) by (simp add: stocked_def)
  moreover have "ms' = (k, m1) # ms2" using Cons.prems(1) unfolding km refill_materials.simps 1 by (simp add: 2)
  ultimately show ?case by (simp add: stocked_def)
qed (simp add: stocked_def)

text \<open>What every step keeps; the flag is down between the steps.\<close>

definition rt_ok :: "(factory \<Rightarrow> bool) \<Rightarrow> runtime \<Rightarrow> bool" where
  "rt_ok R rt \<longleftrightarrow> R (ru_factory rt) \<and> length (lb_entries (ru_log rt)) \<le> 500 \<and> \<not> ru_cnp_in_progress rt"

lemma rt_log_bounded [simp]: "length (lb_entries (rt_log aid msg level l)) \<le> 500"
  by (simp add: rt_log_def runtime_log.push_bounded)

lemma rt_ok_say [simp]: "rt_ok R rt \<Longrightarrow> rt_ok R (say aid msg level rt)"
  by (simp add: rt_ok_def say_def)

lemma say_fields [simp]:
  "ru_factory (say aid msg level rt) = ru_factory rt" "ru_planner (say aid msg level rt) = ru_planner rt"
  "ru_broker (say aid msg level rt) = ru_broker rt" "ru_members (say aid msg level rt) = ru_members rt"
  "ru_snapshot (say aid msg level rt) = ru_snapshot rt" "ru_cnp_count (say aid msg level rt) = ru_cnp_count rt"
  "ru_cnp_in_progress (say aid msg level rt) = ru_cnp_in_progress rt"
  "length (lb_entries (ru_log (say aid msg level rt))) \<le> 500"
  by (simp_all add: say_def)

lemma rt_ok_count [simp]: "rt_ok R (count_event rt) = rt_ok R rt"
  by (simp add: rt_ok_def count_event_def)

lemma rt_ok_factory: "rt_ok R rt \<Longrightarrow> R (g (ru_factory rt)) \<Longrightarrow> rt_ok R (with_factory g rt)"
  by (simp add: rt_ok_def with_factory_def)

lemma tend_line_log: "tend_line ws l r = (ws', l', r') \<Longrightarrow> length (lb_entries l) \<le> 500 \<Longrightarrow> length (lb_entries l') \<le> 500"
proof (induction ws arbitrary: l r ws' l' r')
  case (Cons w ws)
  obtain w1 l1 r1 where 1: "tend_station w l r = (w1, l1, r1)" by (rule prod_cases3)
  obtain ws2 l2 r2 where 2: "tend_line ws l1 r1 = (ws2, l2, r2)" by (rule prod_cases3)
  have "length (lb_entries l1) \<le> 500"
    using 1 Cons.prems(2) by (auto simp: tend_station_def Let_def case_prod_unfold split: if_splits)
  from Cons.IH [OF 2 this] show ?case using Cons.prems(1) by (auto simp: 1 2)
qed simp

lemma refill_log: "length (lb_entries (fst le)) \<le> 500 \<Longrightarrow> length (lb_entries (fst (fst (snd (refill_materials ms le r))))) \<le> 500"
  by (induction ms arbitrary: le r) (auto simp: Let_def case_prod_unfold)

context plant_keeper
begin

lemma dynamics_ok: "apply_dynamics rt r = (rt', r') \<Longrightarrow> rt_ok R rt \<Longrightarrow> rt_ok R rt'"
proof -
  assume d: "apply_dynamics rt r = (rt', r')" and ok: "rt_ok R rt"
  let ?f = "ru_factory rt"
  obtain line l1 r1 where 1: "tend_line (f_line ?f) (ru_log rt) r = (line, l1, r1)" by (rule prod_cases3)
  obtain ms le r2 where 2: "refill_materials (f_materials ?f) (l1, ru_total_events rt) r1 = (ms, le, r2)" by (rule prod_cases3)
  have f: "R ?f" and l: "length (lb_entries (ru_log rt)) \<le> 500" using ok by (simp_all add: rt_ok_def)
  have "R (?f\<lparr>f_line := line\<rparr>)" by (rule reach_line [OF f tend_line_steps [OF 1]])
  from reach_materials [OF this refill_stock [OF 2 kept_stock [OF f]]]
  have "R (?f\<lparr>f_line := line, f_materials := ms\<rparr>)" .
  moreover have "length (lb_entries (fst le)) \<le> 500"
    using refill_log [of "(l1, ru_total_events rt)" "f_materials ?f" r1] tend_line_log [OF 1 l] by (simp add: 2)
  moreover have "rt' = rt\<lparr> ru_factory := ?f\<lparr>f_line := line, f_materials := ms\<rparr>, ru_log := fst le, ru_total_events := snd le \<rparr>"
    using d by (simp add: apply_dynamics_def Let_def 1 2 case_prod_unfold)
  ultimately show ?thesis using ok by (simp add: rt_ok_def)
qed

lemma station_event_ok:
  assumes "rt_ok R rt" "i < length (f_line (ru_factory rt))" "wc_step (f_line (ru_factory rt) ! i) w"
  shows "rt_ok R (update_station i w rt)"
  unfolding update_station_def using assms(1)
  by (rule rt_ok_factory) (use assms in \<open>auto simp: rt_ok_def intro: reach_station\<close>)

end

lemma rand_index_less: "0 < n \<Longrightarrow> fst (rand_index n r) < n"
  using rand_randint_bounds [of 0 "int n - 1" r] by (auto simp: rand_index_def Let_def case_prod_unfold)

lemma uniform_lower: "\<forall>i. 0 \<le> unif_tape r i \<and> unif_tape r i < 1 \<Longrightarrow> a \<le> b \<Longrightarrow> a \<le> fst (rand_uniform a b r)"
  by (simp add: rand_uniform_def rand_random_def Let_def)

lemma tape_kept [simp]:
  "unif_tape (snd (rand_random r)) = unif_tape r" "unif_tape (snd (rand_randint a b r)) = unif_tape r"
  "unif_tape (snd (rand_index n r)) = unif_tape r" "unif_tape (snd (rand_uniform x y r)) = unif_tape r"
  by (simp_all add: rand_random_def rand_randint_def rand_index_def rand_uniform_def Let_def case_prod_unfold)

lemma line_index: "f_line f \<noteq> [] \<Longrightarrow> fst (rand_index (length (f_line f)) r) < length (f_line f)"
  by (simp add: rand_index_less)

context plant_keeper
begin

lemma event_ok:
  assumes ok: "rt_ok R rt" and tape: "\<forall>i. 0 \<le> unif_tape r i \<and> unif_tape r i < 1" and ev: "apply_event ev rt r = (rt', r')"
  shows "rt_ok R rt'"
proof -
  let ?f = "ru_factory rt"
  have f: "R ?f" using ok by (simp add: rt_ok_def)
  note st = station_event_ok [OF ok]
  show ?thesis
  proof (cases ev)
    case E_BREAKDOWN
    show ?thesis
    proof (cases "f_line ?f = []")
      case False
      show ?thesis using ev ok st [OF line_index [OF False] ws_breakdown]
        by (auto simp: E_BREAKDOWN False event_breakdown_def Let_def case_prod_unfold split: if_splits)
    qed (use ev ok E_BREAKDOWN in auto)
  next
    case E_NEW_ORDER
    let ?qty = "fst (rand_randint 100 500 (snd (rand_index (length CUSTOMERS) r)))"
    have q: "0 \<le> ?qty" using rand_randint_bounds(1) [of 100 500 "snd (rand_index (length CUSTOMERS) r)"] by simp
    have o: "rt_ok R ((with_factory (\<lambda>f. f\<lparr>f_orders := f_orders f @ [od]\<rparr>) rt)\<lparr>ru_order_counter := n\<rparr>)"
      if "co_quantity od = ?qty" "co_delivered od = 0" for od n
      using ok touch [OF f fs_order [of od ?f]] that q by (simp add: rt_ok_def with_factory_def)
    show ?thesis using ev unfolding E_NEW_ORDER apply_event.simps event_new_order_def Let_def
      by (auto simp: case_prod_unfold intro!: rt_ok_say o)
  next
    case E_TOOL_WEAR_SPIKE
    show ?thesis
    proof (cases "f_line ?f = []")
      case False
      have "0 \<le> py_trunc (fst (rand_uniform 50 200 (snd (rand_index (length (f_line ?f)) r))))"
        using uniform_lower [of "snd (rand_index (length (f_line ?f)) r)" 50 200] tape by (simp add: py_trunc_def)
      from st [OF line_index [OF False] ws_tool [OF this]] ev ok show ?thesis
        by (auto simp: E_TOOL_WEAR_SPIKE False event_tool_wear_def Let_def case_prod_unfold)
    qed (use ev ok E_TOOL_WEAR_SPIKE in auto)
  next
    case E_QUALITY_DRIFT
    show ?thesis
    proof (cases "f_line ?f = [] \<or> (\<exists>w\<in>set (f_line ?f). wc_sensors w = [])")
      case False
      let ?i = "fst (rand_index (length (f_line ?f)) r)" let ?w = "f_line ?f ! ?i"
      have i: "?i < length (f_line ?f)" using False line_index by blast
      have k: "map fst ((wc_sensors ?w)[j := (fst (wc_sensors ?w ! j), s)]) = map fst (wc_sensors ?w)" for j s
        by (simp add: map_update) (metis list_update_beyond list_update_id linorder_not_le length_map nth_map)
      show ?thesis using ev ok st [OF i ws_sensors [OF k]]
        by (auto simp: E_QUALITY_DRIFT False event_quality_drift_def Let_def case_prod_unfold)
    next
      case True
      then show ?thesis using ev ok by (simp add: E_QUALITY_DRIFT)
    qed
  next
    case E_MATERIAL_ARRIVAL
    show ?thesis
    proof (cases "f_materials ?f = []")
      case False
      let ?ms = "f_materials ?f" let ?i = "fst (rand_index (length ?ms) r)"
      let ?q = "fst (rand_randint 300 800 (snd (rand_index (length ?ms) r)))"
      have "?i < length ?ms" using False by (simp add: rand_index_less)
      then have "0 \<le> mt_stock (snd (?ms ! ?i))" using kept_stock [OF f] by (simp add: stocked_def)
      moreover have "0 \<le> ?q" using rand_randint_bounds(1) [of 300 800 "snd (rand_index (length ?ms) r)"] by simp
      ultimately have "stocked (?ms[?i := (fst (?ms ! ?i), (snd (?ms ! ?i))\<lparr>mt_stock := mt_stock (snd (?ms ! ?i)) + ?q\<rparr>)])"
        using kept_stock [OF f] by (auto simp: stocked_def dest!: set_update_subset_insert [THEN subsetD])
      from rt_ok_factory [OF ok, of "\<lambda>f. f\<lparr>f_materials := _\<rparr>", OF reach_materials [OF f this]] show ?thesis
        using ev by (auto simp: E_MATERIAL_ARRIVAL False event_material_arrival_def Let_def case_prod_unfold)
    qed (use ev ok E_MATERIAL_ARRIVAL in auto)
  next
    case E_SPEED_RECOVERY
    show ?thesis
    proof (cases "f_line ?f = []")
      case False
      show ?thesis using ev ok st [OF line_index [OF False] ws_speed]
        by (auto simp: E_SPEED_RECOVERY False event_speed_recovery_def Let_def case_prod_unfold split: if_splits)
    qed (use ev ok E_SPEED_RECOVERY in auto)
  next
    case E_AMBIENT_CHANGE
    have "rt_ok R (with_factory (\<lambda>f. f\<lparr>f_ambient := t\<rparr>) rt)" for t
      by (rule rt_ok_factory [OF ok]) (rule touch [OF f fs_ambient], simp)
    then show ?thesis using ev by (auto simp: E_AMBIENT_CHANGE event_ambient_def Let_def case_prod_unfold)
  qed
qed

lemma event_step_ok:
  "rt_ok R rt \<Longrightarrow> \<forall>i. 0 \<le> unif_tape r i \<and> unif_tape r i < 1 \<Longrightarrow> event_step rt r = (rt', r') \<Longrightarrow> rt_ok R rt'"
  using event_ok [of rt "snd (choose_event r)" "fst (choose_event r)" rt' r']
  by (simp add: event_step_def case_prod_unfold) (simp add: choose_event_def Let_def case_prod_unfold)

end

section \<open>The turns\<close>

lemma apply_result_log:
  assumes "I l" "\<And>aid msg lv l. I l \<Longrightarrow> I (g aid msg lv l)"
  shows "I (snd (apply_think_result interf (Some g) tr (s, l)))"
proof -
  have "I (snd (fold (apply_think_action interf (Some g)) axs (s, l)))" for axs
    using assms(1)
  proof (induction axs arbitrary: s l)
    case (Cons ax axs)
    obtain s1 l1 where 1: "apply_think_action interf (Some g) ax (s, l) = (s1, l1)" by (rule prod.exhaust)
    have "I (snd (apply_think_action interf (Some g) ax (s, l)))"
      by (simp add: apply_think_action_def Cons.prems assms(2) split: option.split)
    then have "I l1" by (simp add: 1)
    from Cons.IH [OF this] show ?case by (simp add: 1)
  qed simp
  then show ?thesis by (simp add: apply_think_result_def)
qed

lemma consult_log:
  assumes "I (snd (snd st))" "\<And>aid msg lv l. I l \<Longrightarrow> I (g aid msg lv l)"
  shows "I (snd (snd (state_of (consult_router interf (Some g) c alerts en st))))"
proof -
  obtain s r l where st: "st = (s, r, l)" by (rule prod_cases3)
  have a: "I (snd (apply_think_result interf (Some g) tr (s, l)))" for tr
  proof (rule apply_result_log [where I = I])
    show "I l" using assms(1) by (simp add: st)
  qed (rule assms(2))
  show ?thesis
  proof (cases r)
    case None
    then show ?thesis using assms(1) by (simp add: consult_router_def st)
  next
    case (Some router)
    show ?thesis
    proof (cases "route c (ag_id (fst s)) (map AlertDict alerts) en router")
      case Inl
      then show ?thesis using assms(1) by (simp add: consult_router_def st Some)
    next
      case (Inr x)
      obtain tr r' where x: "x = (tr, r')" by (rule prod.exhaust)
      show ?thesis using assms(1) Inr a
        by (cases tr) (simp_all add: consult_router_def st Some x case_prod_unfold Let_def)
    qed
  qed
qed

lemma method_log: "snd (state_of (run_method m n f st)) = snd st"
  by (cases st) (auto simp: run_method_def state_of_def split: sum.split)

lemma enrich_state: "state_of (enrich_step snap st) = st"
  by (simp add: enrich_step_def split: sum.split)

lemma on_agent_log [simp]: "snd (on_agent f st) = snd st"
  by (simp add: on_agent_def)

lemma sequential_log:
  assumes "I (snd (snd st))" "\<And>aid msg lv l. I l \<Longrightarrow> I (g aid msg lv l)"
  shows "I (snd (snd (state_of (run_sra_sequential interf m (Some g) w snap st))))"
  unfolding run_sra_sequential_def Let_def
  by (rule state_of_bindO [where I = "\<lambda>st. I (snd (snd st))"], simp add: method_log assms(1),
      rule state_of_bindO [where I = "\<lambda>st. I (snd (snd st))"], simp add: enrich_state,
      rule state_of_bindO [where I = "\<lambda>st. I (snd (snd st))"], rule consult_log, simp, erule assms(2),
      rule state_of_bindO [where I = "\<lambda>st. I (snd (snd st))"], simp add: method_log,
      rule state_of_bindO [where I = "\<lambda>st. I (snd (snd st))"], simp add: method_log, simp)

lemma router_cycle_log:
  assumes "I (snd (snd st))" "\<And>aid msg lv l. I l \<Longrightarrow> I (g aid msg lv l)"
  shows "I (snd (snd (state_of (run_cycle_with_router env installed interf m (Some g) w1 w2 snap st))))"
proof -
  have q: "I (snd (snd (state_of (run_sra_sequential interf m (Some g) w snap s))))" if "I (snd (snd s))" for w s
    using that assms(2) by (rule sequential_log)
  show ?thesis
  proof (cases "use_langgraph env \<and> installed")
    case True
    show ?thesis
    proof (cases "run_sra_sequential interf m (Some g) w1 snap st")
      case (Inl z)
      then have "I (snd (snd (snd z)))" using q [OF assms(1), of w1] by (simp add: state_of_def)
      from q [OF this, of w2] show ?thesis using True Inl
        by (simp add: run_cycle_with_router_def graph_run case_prod_unfold)
    next
      case (Inr z)
      then show ?thesis using True q [OF assms(1), of w1] by (simp add: run_cycle_with_router_def graph_run)
    qed
  next
    case False
    then have "run_cycle_with_router env installed interf m (Some g) w1 w2 snap st = run_sra_sequential interf m (Some g) w2 snap st"
      by (simp only: run_cycle_with_router_def if_False)
    then show ?thesis using q [OF assms(1)] by simp
  qed
qed

lemma cycle_log_bounded:
  assumes "length (lb_entries l) \<le> 500"
  shows "length (lb_entries (snd (snd (state_of (run_cycle_with_router env installed interf m (Some rt_log) w1 w2 snap (s, r, l)))))) \<le> 500"
  by (rule router_cycle_log [where I = "\<lambda>l. length (lb_entries l) \<le> 500"]) (simp_all add: assms)

lemma report_bounded: "length (lb_entries l) \<le> 500 \<Longrightarrow> length (lb_entries (report_cycle aid d reasoning l)) \<le> 500"
  by (simp add: report_cycle_def Let_def split: option.split)

lemma take_turn_ok: "rt_ok R rt \<Longrightarrow> rt_ok R (snd (take_turn interf w m to_dict snap a rt))"
proof -
  assume ok: "rt_ok R rt"
  let ?run = "run_cycle_with_router (tn_env w) (tn_installed w) interf m (Some rt_log) (tn_first w) (tn_second w) snap
             ((a, Some (ru_broker rt)), ru_router rt, ru_log rt)"
  have l: "length (lb_entries (snd (snd (state_of ?run)))) \<le> 500"
    using ok by (intro cycle_log_bounded) (simp add: rt_ok_def)
  show ?thesis
  proof (cases ?run)
    case (Inl z)
    then show ?thesis using ok by (cases z) (simp add: take_turn_def rt_ok_def)
  next
    case (Inr z)
    then show ?thesis using ok l by (cases z) (simp add: take_turn_def rt_ok_def report_bounded)
  qed
qed

lemma member_turn_ok: "rt_ok R rt \<Longrightarrow> rt_ok R (snd (member_turn interf w snap m rt))"
  by (cases m) (simp_all add: Let_def case_prod_unfold take_turn_ok)

lemma agent_turn_ok: "rt_ok R rt \<Longrightarrow> rt_ok R (agent_turn interf w i rt)"
  using member_turn_ok [of R rt interf w _ "ru_members rt ! i"]
  by (simp add: agent_turn_def rt_ok_def Let_def case_prod_unfold split: option.split)

text \<open>No expiry check passes the deadline, and somebody else than the initiator takes part.\<close>

definition undisturbed :: "cnp_world \<Rightarrow> string \<Rightarrow> member list \<Rightarrow> bool" where
  "undisturbed cw me ms \<longleftrightarrow> (\<forall>i. \<not> is_expired (cw_times cw i) (open_session cw)) \<and> (\<exists>m\<in>set ms. member_id m \<noteq> me)"

text \<open>A round, as the runtime sees it: it never raises, and its strategy sets an integer speed.\<close>

lemma round_for_runtime:
  "\<exists>out s' ms'. initiate_cnp interf cw (enrich_snapshot_for_agents snap ingest) (s, ms) = (Inr out, s', ms')
     \<and> (\<forall>st. out = Some st \<longrightarrow> (\<exists>sp. dget st ''target_speed_pct'' = Some (PInt sp) \<and> 40 \<le> sp \<and> sp \<le> 100))
     \<and> (undisturbed cw (ag_id (fst s)) ms \<longrightarrow> out \<noteq> None) \<and> pa_cnp_count (fst s') = Suc (pa_cnp_count (fst s))"
proof -
  let ?c = "collect_proposals cw (ag_id (fst s)) 0 (open_session cw) (constraints_dict default_constraints) ms []"
  have all: "\<exists>ps. ?c = Some ps \<and> ps \<noteq> []"
    if u: "undisturbed cw (ag_id (fst s)) ms"
  proof -
    have e: "\<forall>i. \<not> is_expired (cw_times cw i) (open_session cw)" and m: "\<exists>m\<in>set ms. member_id m \<noteq> ag_id (fst s)"
      using u by (simp_all add: undisturbed_def)
    obtain ps where "?c = Some ps" "length ps = length (bidders (ag_id (fst s)) ms)"
      using collected_all [OF e, of "ag_id (fst s)" 0 ms "[]"] by auto
    moreover have "bidders (ag_id (fst s)) ms \<noteq> []" using m by (auto simp: bidders_def filter_empty_conv)
    ultimately show ?thesis by (metis length_0_conv)
  qed
  show ?thesis
  proof (cases "?c \<in> {None, Some []}")
    case True
    obtain s' where "initiate_cnp interf cw (enrich_snapshot_for_agents snap ingest) (s, ms) = (Inr None, s', ms)"
        "pa_cnp_count (fst s') = Suc (pa_cnp_count (fst s))"
      using round_silent [OF True] by blast
    then show ?thesis using all True by (intro exI [of _ None]) auto
  next
    case False
    then obtain ps where ps: "?c = Some ps" "ps \<noteq> []" by auto
    show ?thesis using round_settled [OF ps enriched_has_identifiers, of interf snap ingest]
      by (elim exE conjE) (rule exI, rule exI, rule exI, rule conjI, assumption, simp)
  qed
qed

lemma open_round_result:
  obtains (silent) s ms rt1 where
      "open_round interf w cw ingest snap d rt = rt1\<lparr> ru_planner := fst s, ru_broker := broker_of s rt1, ru_members := ms,
          ru_cnp_in_progress := False \<rparr>"
      "ru_factory rt1 = ru_factory rt" "length (lb_entries (ru_log rt1)) \<le> 500"
      "\<not> undisturbed cw (ag_id (ru_planner rt)) (ru_members rt)"
  | (settled) s ms rt1 sp tx where
      "open_round interf w cw ingest snap d rt = (say ''PA'' tx ''SUCCESS'' (rt1\<lparr> ru_planner := fst s, ru_broker := broker_of s rt1,
          ru_members := ms, ru_cnp_count := pa_cnp_count (fst s),
          ru_factory := (ru_factory rt)\<lparr>f_line := map (set_speed sp) (f_line (ru_factory rt))\<rparr> \<rparr>))\<lparr>ru_cnp_in_progress := False\<rparr>"
      "40 \<le> sp" "sp \<le> 100" "pa_cnp_count (fst s) = Suc (pa_cnp_count (ru_planner rt))"
proof -
  let ?rt1 = "say ''PA'' (''CNP #'' @ show_nat (Suc (pa_cnp_count (ru_planner rt))) @ (utf8 [0x20, 0xC2DC, 0xC791, 0x3A, 0x20])
                  @ (case pd_cnp_reason d of Some why \<Rightarrow> why | None \<Rightarrow> '''')) ''CNP'' (rt\<lparr>ru_cnp_in_progress := True\<rparr>)"
  have f1: "ru_factory ?rt1 = ru_factory rt" "ru_planner ?rt1 = ru_planner rt" "ru_broker ?rt1 = ru_broker rt"
      "ru_members ?rt1 = ru_members rt" "length (lb_entries (ru_log ?rt1)) \<le> 500"
    by (simp_all add: say_def)
  obtain out s ms where r: "initiate_cnp interf cw (enrich_snapshot_for_agents snap ingest)
        ((ru_planner rt, Some (ru_broker rt)), ru_members rt) = (Inr out, s, ms)"
      "\<forall>st. out = Some st \<longrightarrow> (\<exists>sp. dget st ''target_speed_pct'' = Some (PInt sp) \<and> 40 \<le> sp \<and> sp \<le> 100)"
      "undisturbed cw (ag_id (ru_planner rt)) (ru_members rt) \<longrightarrow> out \<noteq> None"
      "pa_cnp_count (fst s) = Suc (pa_cnp_count (ru_planner rt))"
    using round_for_runtime [of interf cw snap ingest "(ru_planner rt, Some (ru_broker rt))" "ru_members rt"]
    by (elim exE conjE) (rule that, auto)
  show ?thesis
  proof (cases out)
    case None
    have "open_round interf w cw ingest snap d rt = ?rt1\<lparr> ru_planner := fst s, ru_broker := broker_of s ?rt1, ru_members := ms,
          ru_cnp_in_progress := False \<rparr>"
      unfolding open_round_def Let_def f1 r(1) None by simp
    moreover have "\<not> undisturbed cw (ag_id (ru_planner rt)) (ru_members rt)" using r(3) None by simp
    ultimately show ?thesis by (rule silent [OF _ f1(1) f1(5)])
  next
    case (Some st)
    then obtain sp where sp: "dget st ''target_speed_pct'' = Some (PInt sp)" "40 \<le> sp" "sp \<le> 100" using r(2) by blast
    have v: "dget_or st ''target_speed_pct'' (PInt 100) = PInt sp" using sp(1) by (simp add: dget_or_dget)
    have "open_round interf w cw ingest snap d rt = (say ''PA'' ((utf8 [0x5B, 0xC644, 0xB8CC, 0x5D, 0x20, 0x43, 0x4E, 0x50, 0x20, 0x23]) @ show_nat (pa_cnp_count (fst s))
            @ (utf8 [0x20, 0x2014, 0x20, 0xC18D, 0xB3C4, 0x20]) @ show_int sp @ ''%'') ''SUCCESS'' (?rt1\<lparr> ru_planner := fst s, ru_broker := broker_of s ?rt1,
          ru_members := ms, ru_cnp_count := pa_cnp_count (fst s),
          ru_factory := (ru_factory rt)\<lparr>f_line := map (set_speed sp) (f_line (ru_factory rt))\<rparr> \<rparr>))\<lparr>ru_cnp_in_progress := False\<rparr>"
      unfolding open_round_def Let_def f1 r(1) Some by (simp add: v set_line_speed_def)
    then show ?thesis by (rule settled [OF _ sp(2,3) r(4)])
  qed
qed

section \<open>Safety of the runtime\<close>

context plant_keeper
begin

lemma line_at_speed: "R f \<Longrightarrow> R (f\<lparr>f_line := map (set_speed sp) (f_line f)\<rparr>)"
  by (rule reach_line) (auto simp: list_all2_conv_all_nth intro: r_into_rtranclp ws_speed)

lemma open_round_ok: "rt_ok R rt \<Longrightarrow> rt_ok R (open_round interf w cw ingest snap d rt)"
proof -
  assume ok: "rt_ok R rt"
  show ?thesis
  proof (cases rule: open_round_result [of interf w cw ingest snap d rt])
    case (silent s ms rt1)
    then show ?thesis using ok by (simp add: rt_ok_def)
  next
    case (settled s ms rt1 sp tx)
    then show ?thesis using ok by (simp add: rt_ok_def line_at_speed)
  qed
qed

lemma say_last_reasoning_ok: "rt_ok R rt \<Longrightarrow> rt_ok R (say_last_reasoning rt)"
  by (simp add: say_last_reasoning_def Let_def)

lemma planner_turn_ok: "rt_ok R rt \<Longrightarrow> rt_ok R (planner_turn interf w cw ingest rt)"
proof -
  assume ok: "rt_ok R rt"
  let ?run = "\<lambda>snap. run_cycle_with_router (tn_env w) (tn_installed w) interf (planning_methods (cr_planning (tn_crash w)))
       (Some rt_log) (tn_first w) (tn_second w) snap ((ru_planner rt, Some (ru_broker rt)), ru_router rt, ru_log rt)"
  show ?thesis
  proof (cases "ru_snapshot rt")
    case (Some snap)
    have l: "length (lb_entries (snd (snd (state_of (?run snap))))) \<le> 500"
      using ok by (intro cycle_log_bounded) (simp add: rt_ok_def)
    obtain x s r lg where st: "state_of (?run snap) = (s, r, lg)" by (rule prod_cases3)
    let ?rt1 = "rt\<lparr> ru_planner := fst s, ru_broker := broker_of s rt, ru_router := r, ru_log := lg \<rparr>"
    have ok1: "rt_ok R ?rt1" using ok l by (simp add: rt_ok_def st)
    show ?thesis
    proof (cases "?run snap")
      case (Inl z)
      obtain e where z: "z = (e, s, r, lg)" using st by (cases z) (simp add: Inl state_of_def)
      show ?thesis unfolding planner_turn_def Some option.case Inl z sum.case prod.case
        using ok ok1 by simp
    next
      case (Inr z)
      obtain d where z: "z = (d, s, r, lg)" using st by (cases z) (simp add: Inr state_of_def)
      show ?thesis unfolding planner_turn_def Some option.case Inr z sum.case prod.case
        using ok ok1 open_round_ok [OF ok1] say_last_reasoning_ok [OF ok1]
        by (simp add: Let_def split: option.split)
    qed
  qed (simp add: planner_turn_def ok)
qed

end

end
