(* ===== verification/Runtime_Laws.thy ===== *)
theory Runtime_Laws
  imports Runtime_Steps
begin

text \<open>
  Laws of the running plant: every interleaving of ticks, events and agent turns keeps the
  factory reachable, the log bounded and the round flag down; a critical alert ends with the
  whole line at a speed inside the session's limits.
\<close>

section \<open>Safety of the runtime\<close>

interpretation plant: plant_keeper factory_reachable
proof
  show "factory_reachable f'" if "factory_reachable f" "factory_step f f'" for f f' using that by (rule fr_step)
  show "stocked (f_materials f)" if "factory_reachable f" for f
    using factory_reachable_inv [OF that] by (auto simp: factory_bal_def stocked_def)
qed

lemma tick_ok: "env_tick api mqtt now rt r = (out, rt', r') \<Longrightarrow> rt_ok factory_reachable rt \<Longrightarrow> rt_ok factory_reachable rt'"
proof -
  assume t: "env_tick api mqtt now rt r = (out, rt', r')" and ok: "rt_ok factory_reachable rt"
  obtain res f r1 where 1: "factory_run_cycle (ru_factory rt) r = (res, f, r1)" by (rule prod_cases3)
  have f: "factory_reachable f" using ok fr_step [OF _ fs_cycle [OF 1]] by (simp add: rt_ok_def)
  let ?rt1 = "rt\<lparr> ru_factory := f, ru_snapshot := Some (get_snapshot f) \<rparr>"
  have a: "rt_ok factory_reachable ?rt1" "rt_ok factory_reachable (?rt1\<lparr>ru_last_push := now\<rparr>)" using ok f by (simp_all add: rt_ok_def)
  show ?thesis using t a unfolding env_tick_def 1 Let_def
    by (auto simp: case_prod_unfold split: if_splits intro: rt_ok_say plant.dynamics_ok)
qed

lemma runtime_step_ok: "runtime_step rt rt' \<Longrightarrow> rt_ok factory_reachable rt \<Longrightarrow> rt_ok factory_reachable rt'"
proof (induction rule: runtime_step.induct)
  case (rs_tick api mqtt now rt r out rt' r')
  then show ?case by (rule tick_ok)
next
  case (rs_event r rt rt' r')
  from plant.event_step_ok [OF rs_event(3,1,2)] show ?case .
next
  case (rs_agent i rt interf w)
  then show ?case by (simp add: agent_turn_ok)
next
  case (rs_planner rt interf w cw ingest)
  then show ?case by (rule plant.planner_turn_ok)
next
  case (rs_logs rt ls l)
  then show ?case by (auto simp: pop_logs_def rt_ok_def)
qed

lemma runtime_reachable_ok: "runtime_reachable rt \<Longrightarrow> rt_ok factory_reachable rt"
proof (induction rule: runtime_reachable.induct)
  case (rr_new uuids walls r f r' b ms pa router clk)
  then show ?case by (simp add: rt_ok_def new_runtime_def fr_new)
next
  case (rr_step rt rt')
  then show ?case using runtime_step_ok by simp
qed

definition demo_runtime :: runtime where
  "demo_runtime = new_runtime demo_factory (the (snd alerted_planner)) demo_members (fst demo_planner) (Some demo_router) (\<lambda>_. ''12:00:00'')"

lemma demo_runtime_reachable: "runtime_reachable demo_runtime"
  unfolding demo_runtime_def demo_factory_def by (rule rr_new) (rule prod.collapse [symmetric])





text \<open>
  C1 (\<open>runtime_safe\<close>): however ticks, random events, agent turns, contract net rounds, failing
  turns and log readers interleave, the plant is one that factory operations alone can
  reach: no stock is negative, what was produced is either in the warehouse or delivered,
  every station runs at 40 to 110 percent. The log buffer never exceeds 500 entries, and
  between two steps the round flag is down, so that no crash blocks the next round for good.
\<close>

theorem runtime_safe:
  assumes "runtime_reachable rt"
  shows "factory_reachable (ru_factory rt) \<and> length (lb_entries (ru_log rt)) \<le> 500 \<and> \<not> ru_cnp_in_progress rt
    \<and> 0 \<le> f_fg_stock (ru_factory rt)
    \<and> f_fg_stock (ru_factory rt) + sum_list (map co_delivered (f_orders (ru_factory rt))) = int (f_total_produced (ru_factory rt))
    \<and> (\<forall>km\<in>set (f_materials (ru_factory rt)). 0 \<le> mt_stock (snd km))
    \<and> (\<forall>w\<in>set (f_line (ru_factory rt)). 40 \<le> wc_speed_pct w \<and> wc_speed_pct w \<le> 110)"
proof -
  have ok: "factory_reachable (ru_factory rt)" "length (lb_entries (ru_log rt)) \<le> 500" "\<not> ru_cnp_in_progress rt"
    using runtime_reachable_ok [OF assms] by (simp_all add: rt_ok_def)
  then have inv: "factory_inv (ru_factory rt)" by (simp add: factory_reachable_inv)
  have "\<forall>w\<in>set (f_line (ru_factory rt)). 40 \<le> wc_speed_pct w \<and> wc_speed_pct w \<le> 110"
    using inv wc_reachable_wf by (auto simp: factory_bal_def wc_wf_def)
  with ok inv show ?thesis by (auto simp: factory_bal_def)
qed

theorem runtime_safe_witness: "\<not> ru_cnp_in_progress (fst (event_step demo_runtime demo_rng))"
proof -
  have "runtime_step demo_runtime (fst (event_step demo_runtime demo_rng))"
    by (rule rs_event [of demo_rng _ _ "snd (event_step demo_runtime demo_rng)"]) (simp_all add: demo_rng_def)
  from runtime_safe [OF rr_step [OF demo_runtime_reachable this]] show ?thesis by blast
qed







end
