(* ===== verification/Tool_Models.thy ===== *)
theory Tool_Models
  imports Business
begin

text \<open>
  \<open>mas/tools/mock_models.py\<close> and the helper functions of \<open>mas/tools/ai_tools.py\<close>: the
  numeric models behind the agents' tools. \<open>max(0, x)\<close> is the integer 0 when nothing is
  positive, and stays an integer when it is rounded. Numbers computed from integer
  arguments only are represented as floats of the same value.
\<close>

definition pos_part :: "real \<Rightarrow> real" where
  "pos_part x = max 0 x"

text \<open>\<open>round(max(0, x), n)\<close>.\<close>

definition round_pos :: "nat \<Rightarrow> real \<Rightarrow> pyval" where
  "round_pos n x = (if x > 0 then PFloat (py_round n x) else PInt 0)"

section \<open>Measurements\<close>

record measurement_spec =
  mp_name :: string
  mp_unit :: string
  mp_nominal :: real
  mp_usl :: real
  mp_lsl :: real

definition MEASUREMENT_SPECS :: "(string \<times> measurement_spec) list" where
  "MEASUREMENT_SPECS =
     [(''thickness'', \<lparr> mp_name = (utf8 [0xB450, 0xAED8]), mp_unit = ''mm'', mp_nominal = 23 / 10, mp_usl = 235 / 100, mp_lsl = 225 / 100 \<rparr>),
      (''burr_height'', \<lparr> mp_name = (utf8 [0xBC84, 0x20, 0xB192, 0xC774]), mp_unit = ''mm'', mp_nominal = 0, mp_usl = 15 / 100, mp_lsl = 0 \<rparr>),
      (''flatness'', \<lparr> mp_name = (utf8 [0xD3C9, 0xD0C4, 0xB3C4]), mp_unit = ''mm'', mp_nominal = 0, mp_usl = 1 / 10, mp_lsl = 0 \<rparr>)]"

definition measured :: "measurement_spec \<Rightarrow> real \<Rightarrow> measurement" where
  "measured s v = \<lparr> ms_name = mp_name s, ms_value = py_round 3 v, ms_unit = mp_unit s, ms_nominal = mp_nominal s,
     ms_usl = mp_usl s, ms_lsl = mp_lsl s \<rparr>"

definition generate_measurements :: "real \<Rightarrow> real \<Rightarrow> rng \<Rightarrow> (string \<times> measurement) list \<times> rng" where
  "generate_measurements vibration_level weld_deviation r =
     (let vib = pos_part ((vibration_level - 3) / (5 / 2)); weld = pos_part (weld_deviation * 3);
          (thickness, r1) = rand_gauss (23 / 10 + vib * (18 / 1000)) (6 / 1000 + vib * (12 / 1000)) r;
          (burr, r2) = rand_gauss (20 / 1000 + vib * (1 / 10) + weld * (3 / 100))
             (1 / 100 + vib * (25 / 1000) + weld * (1 / 100)) r1;
          (flat, r3) = rand_gauss (12 / 1000 + vib * (6 / 100) + weld * (2 / 100))
             (6 / 1000 + vib * (18 / 1000) + weld * (8 / 1000)) r2
      in (map (\<lambda>(k, s). (k, measured s (if k = ''thickness'' then thickness
             else if k = ''burr_height'' then \<bar>burr\<bar> else \<bar>flat\<bar>))) MEASUREMENT_SPECS, r3))"

definition wrap_measurements :: "(string \<times> measurement) list \<Rightarrow> dict" where
  "wrap_measurements = map (\<lambda>(k, m). (k, PDict
     [(''value'', PFloat (ms_value m)), (''unit'', PStr (ms_unit m)), (''in_spec'', PBool (ms_in_spec m)),
      (''margin_pct'', PFloat (ms_margin_pct m)), (''nominal'', PFloat (ms_nominal m))]))"

section \<open>Process capability\<close>

definition CPK_INSUFFICIENT_DATA :: real where "CPK_INSUFFICIENT_DATA = 99"

definition sample_sigma :: "real list \<Rightarrow> real" where
  "sample_sigma xs = (let m = list_avg xs in sqrt (sum_list (map (\<lambda>x. (x - m) ^ 2) xs) / of_nat (length xs - 1)))"

text \<open>The limits are only looked at when there is a spread to compare them with.\<close>

definition calculate_cpk :: "pyval list \<Rightarrow> pyval \<Rightarrow> pyval \<Rightarrow> real result" where
  "calculate_cpk values usl lsl =
     (if length values < 5 then Inr CPK_INSUFFICIENT_DATA
      else bindR (mapR py_num values) (\<lambda>xs.
        let mean = list_avg xs; sigma = sample_sigma xs
        in if sigma < 1 / 10 ^ 9 then Inr CPK_INSUFFICIENT_DATA
           else bindR (py_num usl) (\<lambda>u. bindR (py_num lsl) (\<lambda>l.
             Inr (py_round 2 (min ((u - mean) / (3 * sigma)) ((mean - l) / (3 * sigma))))))))"

section \<open>Predictions\<close>

definition defect_odds :: "real \<Rightarrow> real \<Rightarrow> real \<Rightarrow> real \<Rightarrow> real" where
  "defect_odds vibration oil_temp slope burr =
     (let p = 5 / 100 + pos_part ((vibration - 5 / 2) / (7 / 2)) * (40 / 100) + pos_part ((oil_temp - 50) / 35) * (10 / 100)
            + pos_part (slope * 5) * (20 / 100) + pos_part ((burr - 5 / 100) / (1 / 10)) * (25 / 100)
      in min (max p 0) (99 / 100))"

definition predict_defect_probability :: "real \<Rightarrow> real \<Rightarrow> real \<Rightarrow> real \<Rightarrow> dict" where
  "predict_defect_probability vibration oil_temp slope burr =
     (let vib = (vibration - 5 / 2) / (7 / 2); temp = (oil_temp - 50) / 35; trend = slope * 5;
          bs = (burr - 5 / 100) / (1 / 10);
          prob = defect_odds vibration oil_temp slope burr;
          confidence = min (95 / 100) (60 / 100 + pos_part vib * (20 / 100) + pos_part bs * (15 / 100))
      in [(''defect_probability'', PFloat (py_round 3 prob)), (''confidence'', PFloat (py_round 3 confidence)),
          (''risk_level'', PStr (if prob > 30 / 100 then ''HIGH'' else if prob > 15 / 100 then ''MEDIUM'' else ''LOW'')),
          (''factors'', PDict [(''vibration'', round_pos 3 vib), (''temperature'', round_pos 3 temp),
             (''trend'', round_pos 3 trend), (''burr'', round_pos 3 bs)])])"

definition calculate_oee :: "real \<Rightarrow> real \<Rightarrow> real \<Rightarrow> real \<Rightarrow> real \<Rightarrow> dict result" where
  "calculate_oee produced good planned downtime_min shift_min =
     (if shift_min = 0 then Inl ZeroDivisionError
      else (let availability = pos_part ((shift_min - downtime_min) / shift_min);
                performance = min 1 (produced / max planned 1); quality = good / max produced 1
            in Inr [(''availability'', round_pos 4 ((shift_min - downtime_min) / shift_min)),
                    (''performance'', PFloat (py_round 4 performance)), (''quality_rate'', PFloat (py_round 4 quality)),
                    (''oee'', PFloat (py_round 4 (availability * performance * quality)))]))"

definition maintenance :: "int \<Rightarrow> string \<Rightarrow> string \<Rightarrow> dict" where
  "maintenance minutes urgency act = [(''minutes'', PInt minutes), (''urgency'', PStr urgency), (''action'', PStr act)]"

definition estimate_maintenance :: "real \<Rightarrow> real \<Rightarrow> dict" where
  "estimate_maintenance vibration slope =
     (if vibration > 5 \<or> slope > 15 / 100 then maintenance 45 ''CRITICAL'' (utf8 [0xC989, 0xC2DC, 0x20, 0xC815, 0xC9C0])
      else if vibration > 4 \<or> slope > 10 / 100 then maintenance 30 ''HIGH'' (utf8 [0xACC4, 0xD68D, 0x20, 0xC815, 0xBE44, 0x20, 0xAD8C, 0xACE0])
      else if vibration > 7 / 2 then maintenance 20 ''MEDIUM'' (utf8 [0xB2E4, 0xC74C, 0x20, 0xAD50, 0xB300, 0x20, 0xC2DC, 0x20, 0xC810, 0xAC80])
      else maintenance 0 ''LOW'' (utf8 [0xC815, 0xC0C1]))"

definition predict_capacity_factor :: "real \<Rightarrow> real \<Rightarrow> real \<Rightarrow> dict" where
  "predict_capacity_factor vibration slope speed_pct =
     (let degradation = pos_part ((vibration - 5 / 2) / 5) * (15 / 100); penalty = pos_part (slope * (8 / 10));
          capacity = max (3 / 10) (speed_pct / 100 - degradation - penalty);
          reliability = max (5 / 10) (1 - degradation * 2 - penalty)
      in [(''capacity_factor'', PFloat (py_round 3 capacity)), (''reliability'', PFloat (py_round 3 reliability)),
          (''degradation'', PFloat (py_round 3 degradation)), (''trend_penalty'', PFloat (py_round 3 penalty))])"

definition cpk_yield :: "real \<Rightarrow> real" where
  "cpk_yield cpk = (if cpk \<ge> 50 then 95 / 100 else if cpk \<ge> 133 / 100 then 98 / 100 else if cpk \<ge> 1 then 92 / 100
     else max (70 / 100) (85 / 100 - (1 - cpk) * (3 / 10)))"

definition predict_yield_factor :: "real \<Rightarrow> real \<Rightarrow> dict" where
  "predict_yield_factor cpk_worst prob =
     (let y = cpk_yield cpk_worst * (1 - prob * (1 / 2));
          std = max (1 / 100) ((1 - y) * (3 / 10) + prob * (1 / 10))
      in [(''predicted_yield'', PFloat (py_round 3 y)), (''yield_std'', PFloat (py_round 4 std)),
          (''cpk_yield'', PFloat (py_round 3 (cpk_yield cpk_worst)))])"

definition compute_leadtime_params :: "real \<Rightarrow> real \<Rightarrow> real \<Rightarrow> dict" where
  "compute_leadtime_params capacity yield base_takt =
     (let rate = yield * capacity; lt_mean = max 1 (1 / max rate (1 / 10));
          lt_std = max (1 / 10) (lt_mean * (1 - min capacity yield) * (8 / 10))
      in [(''leadtime_mean'', PFloat (py_round 3 lt_mean)), (''leadtime_std'', PFloat (py_round 4 lt_std)),
          (''effective_takt_sec'', PFloat (py_round 1 (base_takt / max capacity (3 / 10)))),
          (''effective_rate'', PFloat (py_round 3 rate))])"

section \<open>Forecast and safety stock\<close>

definition half_trend :: "real list \<Rightarrow> real" where
  "half_trend xs = (let h = length xs div 2 in
     (sum_list (drop h xs) / of_nat (max (length xs - h) 1) - sum_list (take h xs) / of_nat (max h 1)) / of_nat (max h 1))"

fun forecast_values :: "nat \<Rightarrow> nat \<Rightarrow> real \<Rightarrow> real \<Rightarrow> rng \<Rightarrow> pyval list \<times> rng" where
  "forecast_values 0 i avg trend r = ([], r)"
| "forecast_values (Suc n) i avg trend r =
     (let (g, r1) = rand_gauss 0 (max 1 (avg * (1 / 10))) r; v = round_pos 1 (avg + trend * (of_nat i + 1) + g);
          (vs, r2) = forecast_values n (Suc i) avg trend r1
      in (v # vs, r2))"

definition demand_forecast :: "real list \<Rightarrow> int \<Rightarrow> rng \<Rightarrow> dict \<times> rng" where
  "demand_forecast history horizon r =
     (if length history < 3 then
        (let avg = (if history = [] then 1 else sum_list history / of_nat (max (length history) 1))
         in ([(''forecast'', PList (replicate (nat horizon) (PFloat avg))), (''trend'', PFloat 0), (''confidence'', PFloat (1 / 2))], r))
      else
        (let recent = last_n 10 history; avg = list_avg recent;
             trend = (if length history \<ge> 5 then half_trend recent else 0);
             (vs, r') = forecast_values (nat horizon) 0 avg trend r;
             std = sqrt (sum_list (map (\<lambda>x. (x - avg) ^ 2) recent) / of_nat (length recent))
         in ([(''forecast'', PList vs), (''trend'', PFloat (py_round 3 trend)), (''mean'', PFloat (py_round 2 avg)),
              (''std'', PFloat (py_round 3 std)),
              (''confidence'', PFloat (py_round 2 (min (95 / 100) (1 / 2 + of_nat (length history) * (3 / 100)))))], r')))"

definition ss_variance :: "real \<Rightarrow> real \<Rightarrow> real \<Rightarrow> real \<Rightarrow> real" where
  "ss_variance leadtime_mean demand_std avg_demand leadtime_std =
     leadtime_mean * demand_std ^ 2 + avg_demand ^ 2 * leadtime_std ^ 2"

definition safety_stock_formula :: "pyval \<Rightarrow> pyval \<Rightarrow> pyval \<Rightarrow> pyval \<Rightarrow> pyval \<Rightarrow> dict result" where
  "safety_stock_formula z_v lt_v sd_v d_v ls_v =
     bindR (py_num z_v) (\<lambda>z. bindR (py_num lt_v) (\<lambda>lt. bindR (py_num sd_v) (\<lambda>sd.
     bindR (py_num d_v) (\<lambda>d. bindR (py_num ls_v) (\<lambda>ls.
       let variance = ss_variance lt sd d ls; ss = z * sqrt (max 0 variance)
       in Inr [(''safety_stock'', PInt (round_half_even ss)), (''variance'', PFloat (py_round 4 variance)),
            (''formula'', PStr (''SS = '' @ py_str z_v @ (utf8 [0x20, 0xD7, 0x20, 0x221A, 0x28]) @ py_str lt_v @ (utf8 [0xD7]) @ py_str sd_v @ (utf8 [0xB2, 0x20, 0x2B, 0x20])
               @ py_str d_v @ (utf8 [0xB2, 0xD7]) @ py_str ls_v @ (utf8 [0xB2, 0x29]))),
            (''z_score'', z_v)])))))"

end
