(* ===== verification/Tools.thy ===== *)
theory Tools
  imports Tool_Models
begin

text \<open>
  \<open>mas/tools/ai_tools.py\<close>: the registry of the agents' tools. A tool is called with keyword
  arguments; whatever its function raises becomes an error result. The clocks around a call
  and the text of an exception are arguments of the call; the locks make each update atomic.
\<close>

section \<open>Tools\<close>

record tool_parameter =
  tp_name :: string
  tp_type :: string
  tp_description :: string
  tp_required :: bool
  tp_default :: pyval

record tool_metrics =
  tm_calls :: nat
  tm_latency_ms :: real
  tm_errors :: nat
  tm_last_called :: real

definition new_tool_metrics :: tool_metrics where
  "new_tool_metrics = \<lparr> tm_calls = 0, tm_latency_ms = 0, tm_errors = 0, tm_last_called = 0 \<rparr>"

definition tm_avg_latency :: "tool_metrics \<Rightarrow> real" where
  "tm_avg_latency m = py_round 2 (tm_latency_ms m / of_nat (max (tm_calls m) 1))"

definition tool_metrics_to_dict :: "tool_metrics \<Rightarrow> dict" where
  "tool_metrics_to_dict m = [(''call_count'', PInt (int (tm_calls m))), (''avg_latency_ms'', PFloat (tm_avg_latency m)),
     (''errors'', PInt (int (tm_errors m)))]"

text \<open>The function of a tool, on its keyword arguments and the random tape.\<close>

type_synonym tool_fn = "dict \<Rightarrow> rng \<Rightarrow> dict result \<times> rng"

record ai_tool =
  tl_name :: string
  tl_description :: string
  tl_category :: string
  tl_version :: string
  tl_owner :: string
  tl_parameters :: "tool_parameter list"
  tl_fn :: tool_fn
  tl_metrics :: tool_metrics

record call_times =
  ct_elapsed :: real
  ct_now :: real
  ct_error_text :: "py_error \<Rightarrow> string"

definition ai_tool_call :: "call_times \<Rightarrow> dict \<Rightarrow> ai_tool \<Rightarrow> rng \<Rightarrow> dict \<times> ai_tool \<times> rng" where
  "ai_tool_call ct kw t r = (case tl_fn t kw r of
      (Inr v, r') \<Rightarrow> ([(''status'', PStr ''ok''), (''tool'', PStr (tl_name t)), (''result'', PDict v),
          (''latency_ms'', PFloat (py_round 2 (ct_elapsed ct)))],
        t\<lparr>tl_metrics := (tl_metrics t)\<lparr> tm_calls := Suc (tm_calls (tl_metrics t)),
            tm_latency_ms := tm_latency_ms (tl_metrics t) + ct_elapsed ct, tm_last_called := ct_now ct \<rparr>\<rparr>, r')
    | (Inl e, r') \<Rightarrow> ([(''status'', PStr ''error''), (''tool'', PStr (tl_name t)), (''error'', PStr (ct_error_text ct e))],
        t\<lparr>tl_metrics := (tl_metrics t)\<lparr>tm_errors := Suc (tm_errors (tl_metrics t))\<rparr>\<rparr>, r'))"

definition parameter_schema :: "tool_parameter \<Rightarrow> dict" where
  "parameter_schema p = [(''name'', PStr (tp_name p)), (''type'', PStr (tp_type p)), (''description'', PStr (tp_description p)),
     (''required'', PBool (tp_required p)), (''default'', tp_default p)]"

definition get_schema :: "ai_tool \<Rightarrow> dict" where
  "get_schema t = [(''name'', PStr (tl_name t)), (''description'', PStr (tl_description t)), (''category'', PStr (tl_category t)),
     (''version'', PStr (tl_version t)), (''owner_agent'', PStr (tl_owner t)),
     (''parameters'', PList (map (\<lambda>p. PDict (parameter_schema p)) (tl_parameters t))),
     (''metrics'', PDict (tool_metrics_to_dict (tl_metrics t)))]"

section \<open>Keyword arguments\<close>

text \<open>
  Python binds the keyword arguments to the parameters of the function: an unknown keyword
  or a missing parameter without default is a type error.
\<close>

definition bind_arguments :: "(string \<times> pyval option) list \<Rightarrow> dict \<Rightarrow> pyval list result" where
  "bind_arguments ps kw =
     (if list_ex (\<lambda>(k, v). k \<notin> set (map fst ps)) kw then Inl TypeError
      else mapR (\<lambda>(n, dflt). case dget kw n of Some v \<Rightarrow> Inr v
             | None \<Rightarrow> (case dflt of Some v \<Rightarrow> Inr v | None \<Rightarrow> Inl TypeError)) ps)"

definition required :: "string list \<Rightarrow> (string \<times> pyval option) list" where
  "required = map (\<lambda>n. (n, None))"

text \<open>A function of numbers.\<close>

definition on_numbers :: "(string \<times> pyval option) list \<Rightarrow> (real list \<Rightarrow> dict result) \<Rightarrow> tool_fn" where
  "on_numbers ps f kw r = (bindR (bind_arguments ps kw) (\<lambda>vs. bindR (mapR py_num vs) f), r)"

definition vision_fn :: tool_fn where
  "vision_fn kw r = (case bindR (bind_arguments [(''vibration_level'', None), (''weld_deviation'', Some (PFloat 0))] kw) (mapR py_num) of
      Inl e \<Rightarrow> (Inl e, r)
    | Inr xs \<Rightarrow> (let (m, r') = generate_measurements (xs ! 0) (xs ! 1) r in (Inr (wrap_measurements m), r')))"

fun history_of :: "pyval \<Rightarrow> pyval list result" where
  "history_of (PList xs) = Inr xs"
| "history_of (PStr []) = Inr []"
| "history_of (PDict []) = Inr []"
| "history_of _ = Inl TypeError"

definition forecast_fn :: tool_fn where
  "forecast_fn kw r = (case bindR (bind_arguments [(''demand_history'', None), (''horizon'', Some (PInt 10))] kw) (\<lambda>vs.
        bindR (history_of (vs ! 0)) (\<lambda>hs. bindR (mapR py_num hs) (\<lambda>xs.
        bindR (case vs ! 1 of PInt i \<Rightarrow> Inr i | PBool b \<Rightarrow> Inr (if b then 1 else 0) | _ \<Rightarrow> Inl TypeError) (\<lambda>h. Inr (xs, h))))) of
      Inl e \<Rightarrow> (Inl e, r)
    | Inr (xs, h) \<Rightarrow> (let (d, r') = demand_forecast xs h r in (Inr d, r')))"

definition spc_fn :: tool_fn where
  "spc_fn kw r = (bindR (bind_arguments (required [''values'', ''usl'', ''lsl'']) kw) (\<lambda>vs.
     bindR (history_of (vs ! 0)) (\<lambda>hs. bindR (calculate_cpk hs (vs ! 1) (vs ! 2)) (\<lambda>c. Inr [(''cpk'', PFloat c)]))), r)"

definition safety_stock_fn :: tool_fn where
  "safety_stock_fn kw r = (bindR (bind_arguments
       (required [''z_score'', ''leadtime_mean'', ''demand_std'', ''avg_demand'', ''leadtime_std'']) kw) (\<lambda>vs.
     safety_stock_formula (vs ! 0) (vs ! 1) (vs ! 2) (vs ! 3) (vs ! 4)), r)"

section \<open>The built-in tools\<close>

definition param :: "string \<Rightarrow> string \<Rightarrow> string \<Rightarrow> tool_parameter" where
  "param n ty d = \<lparr> tp_name = n, tp_type = ty, tp_description = d, tp_required = True, tp_default = PNone \<rparr>"

definition optional :: "string \<Rightarrow> string \<Rightarrow> string \<Rightarrow> pyval \<Rightarrow> tool_parameter" where
  "optional n ty d v = \<lparr> tp_name = n, tp_type = ty, tp_description = d, tp_required = False, tp_default = v \<rparr>"

definition make_tool :: "string \<Rightarrow> string \<Rightarrow> string \<Rightarrow> string \<Rightarrow> string \<Rightarrow> tool_parameter list \<Rightarrow> tool_fn \<Rightarrow> ai_tool" where
  "make_tool n d c v owner ps f = \<lparr> tl_name = n, tl_description = d, tl_category = c, tl_version = v, tl_owner = owner,
     tl_parameters = ps, tl_fn = f, tl_metrics = new_tool_metrics \<rparr>"

definition vision_inspection :: ai_tool where
  "vision_inspection = make_tool ''vision_inspection'' (utf8 [0xBE44, 0xC804, 0x20, 0xCE74, 0xBA54, 0xB77C, 0x20, 0xAE30, 0xBC18, 0x20, 0xC81C, 0xD488, 0x20, 0xCE58, 0xC218, 0x20, 0xCE21, 0xC815, 0x20, 0x28, 0xB450, 0xAED8, 0x2C, 0x20, 0xBC84, 0x2C, 0x20, 0xD3C9, 0xD0C4, 0xB3C4, 0x29]) ''inspection'' ''1.0.0'' ''QA''
     [param ''vibration_level'' ''float'' (utf8 [0xD604, 0xC7AC, 0x20, 0xD504, 0xB808, 0xC2A4, 0x20, 0xC9C4, 0xB3D9, 0xAC12, 0x20, 0x28, 0x6D, 0x6D, 0x2F, 0x73, 0x29]),
      optional ''weld_deviation'' ''float'' (utf8 [0xC6A9, 0xC811, 0x20, 0xC804, 0xB958, 0x20, 0xD3B8, 0xCC28, 0xC728]) (PFloat 0)] vision_fn"

definition defect_prediction :: ai_tool where
  "defect_prediction = make_tool ''defect_prediction'' (utf8 [0xC13C, 0xC11C, 0x20, 0xB370, 0xC774, 0xD130, 0x20, 0xAE30, 0xBC18, 0x20, 0xBD88, 0xB7C9, 0x20, 0xD655, 0xB960, 0x20, 0xC608, 0xCE21, 0x20, 0x28, 0x58, 0x47, 0x42, 0x6F, 0x6F, 0x73, 0x74, 0x2F, 0x4C, 0x53, 0x54, 0x4D, 0x29]) ''prediction'' ''2.1.0'' ''QA''
     [param ''vibration'' ''float'' (utf8 [0xD504, 0xB808, 0xC2A4, 0x20, 0xC9C4, 0xB3D9, 0xAC12]), param ''oil_temp'' ''float'' (utf8 [0xC720, 0xC555, 0xC720, 0x20, 0xC628, 0xB3C4]),
      param ''vibration_trend_slope'' ''float'' (utf8 [0xC9C4, 0xB3D9, 0x20, 0xCD94, 0xC138, 0x20, 0xAE30, 0xC6B8, 0xAE30]), param ''recent_burr_mean'' ''float'' (utf8 [0xCD5C, 0xADFC, 0x20, 0x35, 0xAC1C, 0x20, 0xBC84, 0x20, 0xB192, 0xC774, 0x20, 0xD3C9, 0xADE0])]
     (on_numbers (required [''vibration'', ''oil_temp'', ''vibration_trend_slope'', ''recent_burr_mean''])
        (\<lambda>xs. Inr (predict_defect_probability (xs ! 0) (xs ! 1) (xs ! 2) (xs ! 3))))"

definition predictive_maintenance :: ai_tool where
  "predictive_maintenance = make_tool ''predictive_maintenance'' (utf8 [0xC124, 0xBE44, 0x20, 0xC9C4, 0xB3D9, 0x2F, 0xCD94, 0xC138, 0x20, 0xAE30, 0xBC18, 0x20, 0xC815, 0xBE44, 0x20, 0xC2DC, 0xAE30, 0xB7, 0xAE34, 0xAE09, 0xB3C4, 0x20, 0xC608, 0xCE21]) ''prediction'' ''1.2.0'' ''EA''
     [param ''vibration'' ''float'' (utf8 [0xD604, 0xC7AC, 0x20, 0xC9C4, 0xB3D9, 0xAC12]), param ''trend_slope'' ''float'' (utf8 [0xC9C4, 0xB3D9, 0x20, 0xCD94, 0xC138, 0x20, 0xAE30, 0xC6B8, 0xAE30])]
     (on_numbers (required [''vibration'', ''trend_slope'']) (\<lambda>xs. Inr (estimate_maintenance (xs ! 0) (xs ! 1))))"

definition demand_forecast_tool :: ai_tool where
  "demand_forecast_tool = make_tool ''demand_forecast'' (utf8 [0xACFC, 0xAC70, 0x20, 0xC218, 0xC694, 0x20, 0xD328, 0xD134, 0x20, 0xAE30, 0xBC18, 0x20, 0xD5A5, 0xD6C4, 0x20, 0xC218, 0xC694, 0x20, 0xC608, 0xCE21, 0x20, 0x28, 0x41, 0x52, 0x49, 0x4D, 0x41, 0x2F, 0x50, 0x72, 0x6F, 0x70, 0x68, 0x65, 0x74, 0x29]) ''prediction'' ''1.0.0'' ''DA''
     [param ''demand_history'' ''list'' (utf8 [0xCD5C, 0xADFC, 0x20, 0xC218, 0xC694, 0x20, 0xC774, 0xB825, 0x20, 0x28, 0xC22B, 0xC790, 0x20, 0xB9AC, 0xC2A4, 0xD2B8, 0x29]),
      optional ''horizon'' ''int'' (utf8 [0xC608, 0xCE21, 0x20, 0xAE30, 0xAC04, 0x20, 0x28, 0xC0AC, 0xC774, 0xD074, 0x20, 0xC218, 0x29]) (PInt 10)] forecast_fn"

definition capacity_estimation :: ai_tool where
  "capacity_estimation = make_tool ''capacity_estimation'' (utf8 [0xC124, 0xBE44, 0x20, 0xC0C1, 0xD0DC, 0x20, 0xAE30, 0xBC18, 0x20, 0xC0DD, 0xC0B0, 0xB2A5, 0xB825, 0x20, 0xACC4, 0xC218, 0x20, 0xC608, 0xCE21]) ''prediction'' ''1.1.0'' ''EA''
     [param ''vibration'' ''float'' (utf8 [0xD604, 0xC7AC, 0x20, 0xC9C4, 0xB3D9, 0xAC12]), param ''vib_slope'' ''float'' (utf8 [0xC9C4, 0xB3D9, 0x20, 0xCD94, 0xC138, 0x20, 0xAE30, 0xC6B8, 0xAE30]),
      param ''speed_pct'' ''int'' (utf8 [0xD604, 0xC7AC, 0x20, 0xB77C, 0xC778, 0x20, 0xC18D, 0xB3C4, 0x20, 0x28, 0x25, 0x29])]
     (on_numbers (required [''vibration'', ''vib_slope'', ''speed_pct''])
        (\<lambda>xs. Inr (predict_capacity_factor (xs ! 0) (xs ! 1) (xs ! 2))))"

definition yield_prediction :: ai_tool where
  "yield_prediction = make_tool ''yield_prediction'' (utf8 [0xD488, 0xC9C8, 0x20, 0xB370, 0xC774, 0xD130, 0x20, 0xAE30, 0xBC18, 0x20, 0xC218, 0xC728, 0x20, 0xACC4, 0xC218, 0x20, 0xC608, 0xCE21]) ''prediction'' ''1.0.0'' ''QA''
     [param ''cpk_worst'' ''float'' (utf8 [0xCD5C, 0xC545, 0x20, 0x43, 0x70, 0x6B, 0x20, 0xAC12]), param ''defect_prob'' ''float'' (utf8 [0xBD88, 0xB7C9, 0x20, 0xC608, 0xCE21, 0x20, 0xD655, 0xB960])]
     (on_numbers (required [''cpk_worst'', ''defect_prob'']) (\<lambda>xs. Inr (predict_yield_factor (xs ! 0) (xs ! 1))))"

definition spc_analysis :: ai_tool where
  "spc_analysis = make_tool ''spc_analysis'' (utf8 [0x53, 0x50, 0x43, 0x20, 0xACF5, 0xC815, 0xB2A5, 0xB825, 0xC9C0, 0xC218, 0x20, 0x43, 0x70, 0x6B, 0x20, 0xACC4, 0xC0B0]) ''analysis'' ''1.0.0'' ''QA''
     [param ''values'' ''list'' (utf8 [0xCE21, 0xC815, 0xAC12, 0x20, 0xB9AC, 0xC2A4, 0xD2B8]), param ''usl'' ''float'' (utf8 [0xADDC, 0xACA9, 0x20, 0xC0C1, 0xD55C]), param ''lsl'' ''float'' (utf8 [0xADDC, 0xACA9, 0x20, 0xD558, 0xD55C])] spc_fn"

definition leadtime_estimation :: ai_tool where
  "leadtime_estimation = make_tool ''leadtime_estimation'' (utf8 [0xAC00, 0xC6A9, 0xB2A5, 0xB825, 0xB7, 0xC218, 0xC728, 0x20, 0xAE30, 0xBC18, 0x20, 0xC2E4, 0xD6A8, 0x20, 0xB9AC, 0xB4DC, 0xD0C0, 0xC784, 0x20, 0xBC0F, 0x20, 0xBCC0, 0xB3D9, 0xC131, 0x20, 0xACC4, 0xC0B0]) ''optimization'' ''1.0.0'' ''IA''
     [param ''capacity_factor'' ''float'' (utf8 [0xC124, 0xBE44, 0x20, 0xAC00, 0xC6A9, 0xB2A5, 0xB825, 0x20, 0xACC4, 0xC218]), param ''yield_factor'' ''float'' (utf8 [0xC218, 0xC728, 0x20, 0xACC4, 0xC218]),
      optional ''base_takt_sec'' ''float'' (utf8 [0xAE30, 0xBCF8, 0x20, 0xD0DD, 0xD2B8, 0xD0C0, 0xC784, 0x20, 0x28, 0xCD08, 0x29]) (PFloat 45)]
     (on_numbers (required [''capacity_factor'', ''yield_factor''] @ [(''base_takt_sec'', Some (PFloat 45))])
        (\<lambda>xs. Inr (compute_leadtime_params (xs ! 0) (xs ! 1) (xs ! 2))))"

definition oee_calculator :: ai_tool where
  "oee_calculator = make_tool ''oee_calculator'' (utf8 [0xC885, 0xD569, 0xC124, 0xBE44, 0xD6A8, 0xC728, 0x28, 0x4F, 0x45, 0x45, 0x29, 0x20, 0xC0B0, 0xCD9C]) ''analysis'' ''1.0.0'' ''PA''
     [param ''produced'' ''int'' (utf8 [0xCD1D, 0x20, 0xC0DD, 0xC0B0, 0xB7C9]), param ''good'' ''int'' (utf8 [0xC591, 0xD488, 0x20, 0xC218]), param ''planned'' ''int'' (utf8 [0xACC4, 0xD68D, 0x20, 0xC218, 0xB7C9]),
      param ''downtime_min'' ''float'' (utf8 [0xB2E4, 0xC6B4, 0xD0C0, 0xC784, 0x20, 0x28, 0xBD84, 0x29])]
     (on_numbers (required [''produced'', ''good'', ''planned'', ''downtime_min''] @ [(''shift_min'', Some (PFloat 480))])
        (\<lambda>xs. calculate_oee (xs ! 0) (xs ! 1) (xs ! 2) (xs ! 3) (xs ! 4)))"

definition safety_stock_calc :: ai_tool where
  "safety_stock_calc = make_tool ''safety_stock_calc'' (utf8 [0xC548, 0xC804, 0xC7AC, 0xACE0, 0x20, 0xACF5, 0xC2DD, 0x20, 0xACC4, 0xC0B0, 0x3A, 0x20, 0x53, 0x53, 0x20, 0x3D, 0x20, 0x7A, 0x20, 0xD7, 0x20, 0x221A, 0x28, 0x4C, 0x54, 0xD7, 0x3C3, 0x5F, 0x44, 0xB2, 0x20, 0x2B, 0x20, 0x64, 0xB2, 0xD7, 0x3C3, 0x5F, 0x4C, 0x54, 0xB2, 0x29]) ''optimization'' ''1.0.0'' ''IA''
     [param ''z_score'' ''float'' (utf8 [0xC11C, 0xBE44, 0xC2A4, 0xB808, 0xBCA8, 0x20, 0x7A, 0xAC12, 0x20, 0x28, 0x31, 0x2E, 0x36, 0x34, 0x35, 0x3D, 0x39, 0x35, 0x25, 0x29]), param ''leadtime_mean'' ''float'' (utf8 [0xD3C9, 0xADE0, 0x20, 0xB9AC, 0xB4DC, 0xD0C0, 0xC784]),
      param ''demand_std'' ''float'' (utf8 [0xC218, 0xC694, 0x20, 0xD45C, 0xC900, 0xD3B8, 0xCC28]), param ''avg_demand'' ''float'' (utf8 [0xD3C9, 0xADE0, 0x20, 0xC218, 0xC694]),
      param ''leadtime_std'' ''float'' (utf8 [0xB9AC, 0xB4DC, 0xD0C0, 0xC784, 0x20, 0xD45C, 0xC900, 0xD3B8, 0xCC28])] safety_stock_fn"

section \<open>The registry\<close>

record tool_registry =
  tg_tools :: "(string \<times> ai_tool) list"
  tg_log :: "dict list"

definition register_tool :: "ai_tool \<Rightarrow> tool_registry \<Rightarrow> tool_registry" where
  "register_tool t g = g\<lparr>tg_tools := AList.update (tl_name t) t (tg_tools g)\<rparr>"

definition builtin_tools :: "ai_tool list" where
  "builtin_tools = [vision_inspection, defect_prediction, predictive_maintenance, demand_forecast_tool, capacity_estimation,
     yield_prediction, spc_analysis, leadtime_estimation, oee_calculator, safety_stock_calc]"

definition new_registry :: tool_registry where
  "new_registry = fold register_tool builtin_tools \<lparr> tg_tools = [], tg_log = [] \<rparr>"

definition get_tool :: "string \<Rightarrow> tool_registry \<Rightarrow> ai_tool option" where
  "get_tool n g = map_of (tg_tools g) n"

definition list_tools :: "tool_registry \<Rightarrow> dict list" where
  "list_tools g = map (\<lambda>(_, t). get_schema t) (tg_tools g)"

definition list_by_agent :: "string \<Rightarrow> tool_registry \<Rightarrow> dict list" where
  "list_by_agent aid g = map (\<lambda>(_, t). get_schema t) (filter (\<lambda>(_, t). tl_owner t = aid) (tg_tools g))"

definition push_call_log :: "dict \<Rightarrow> dict list \<Rightarrow> dict list" where
  "push_call_log = push_trim 500 250"

definition registry_call :: "call_times \<Rightarrow> string \<Rightarrow> dict \<Rightarrow> tool_registry \<Rightarrow> rng \<Rightarrow> dict \<times> tool_registry \<times> rng" where
  "registry_call ct n kw g r = (case map_of (tg_tools g) n of
      None \<Rightarrow> ([(''status'', PStr ''error''), (''error'', PStr (''Tool '' @ [CHR 0x27] @ n @ [CHR 0x27] @ '' not found''))], g, r)
    | Some t \<Rightarrow>
        (let (res, t', r') = ai_tool_call ct kw t r
         in (res, g\<lparr> tg_tools := AList.update n t' (tg_tools g),
               tg_log := push_call_log [(''tool'', PStr n), (''status'', dget_none res ''status''),
                 (''latency_ms'', dget_or res ''latency_ms'' (PInt 0)), (''timestamp'', PFloat (ct_now ct))] (tg_log g) \<rparr>, r')))"

definition total_calls :: "tool_registry \<Rightarrow> nat" where
  "total_calls g = sum_list (map (\<lambda>(_, t). tm_calls (tl_metrics t)) (tg_tools g))"

definition total_errors :: "tool_registry \<Rightarrow> nat" where
  "total_errors g = sum_list (map (\<lambda>(_, t). tm_errors (tl_metrics t)) (tg_tools g))"

definition registry_metrics :: "tool_registry \<Rightarrow> dict" where
  "registry_metrics g = [(''total_tools'', PInt (int (length (tg_tools g)))), (''total_calls'', PInt (int (total_calls g))),
     (''total_errors'', PInt (int (total_errors g))),
     (''tools'', PDict (map (\<lambda>(n, t). (n, PDict (tool_metrics_to_dict (tl_metrics t)))) (tg_tools g)))]"

interpretation tool_log: bounded_log push_call_log 500 250
  unfolding push_call_log_def by (simp add: bounded_log_push_trim)

end
