(* ===== verification/Tool_Laws.thy ===== *)
theory Tool_Laws
  imports Tools
begin

text \<open>
  Laws of the tools: the registry accounts for every call, the predictions stay in their
  ranges and move in the right direction, and the safety stock tool computes what the
  warehouse computes.
\<close>

section \<open>Accounting\<close>

definition tool_count :: "(tool_metrics \<Rightarrow> nat) \<Rightarrow> tool_registry \<Rightarrow> nat" where
  "tool_count c g = sum_list (map (\<lambda>(_, t). c (tl_metrics t)) (tg_tools g))"



lemma keys_update: "map_of xs n = Some t \<Longrightarrow> map fst (AList.update n t' xs) = map fst xs"
  by (induction xs) (auto split: if_splits)









section \<open>Predictions\<close>

lemma pos_part_mono: "x \<le> y \<Longrightarrow> pos_part x \<le> pos_part y"
  by (simp add: pos_part_def)

lemma pos_part_nonneg [simp]: "0 \<le> pos_part x"
  by (simp add: pos_part_def)

lemma defect_odds_mono:
  assumes "v \<le> v'" "t \<le> t'" "s \<le> s'" "b \<le> b'"
  shows "defect_odds v t s b \<le> defect_odds v' t' s' b'"
proof -
  have "pos_part ((v - 5 / 2) / (7 / 2)) \<le> pos_part ((v' - 5 / 2) / (7 / 2))" "pos_part ((t - 50) / 35) \<le> pos_part ((t' - 50) / 35)"
      "pos_part (s * 5) \<le> pos_part (s' * 5)" "pos_part ((b - 5 / 100) / (1 / 10)) \<le> pos_part ((b' - 5 / 100) / (1 / 10))"
    using assms by (simp_all add: pos_part_mono divide_right_mono)
  then show ?thesis unfolding defect_odds_def Let_def by (auto simp: min_def max_def)
qed

lemma capped_sum:
  fixes a b c d :: real
  assumes "0 \<le> a" "0 \<le> b" "0 \<le> c" "0 \<le> d"
  shows "5 / 100 \<le> min (max (5 / 100 + a + b + c + d) 0) (99 / 100)" "min (max (5 / 100 + a + b + c + d) 0) (99 / 100) \<le> 99 / 100"
  using assms by (auto simp: min_def max_def)

lemma defect_odds_bounds: "5 / 100 \<le> defect_odds v t s b" "defect_odds v t s b \<le> 99 / 100"
  unfolding defect_odds_def Let_def by (intro capped_sum mult_nonneg_nonneg pos_part_nonneg; simp)+

text \<open>
  C40 (\<open>worse_inputs_worse_predictions\<close>): the predictions are monotone. A worse vibration,
  temperature, trend or burr never lowers the reported defect probability, which stays
  between 0.05 and 0.99, and a worse vibration or trend never shortens the maintenance.
\<close>

theorem worse_inputs_worse_predictions:
  assumes "v \<le> v'" "t \<le> t'" "s \<le> s'" "b \<le> b'"
  shows "\<exists>p p' m m'. dget (predict_defect_probability v t s b) ''defect_probability'' = Some (PFloat p)
     \<and> dget (predict_defect_probability v' t' s' b') ''defect_probability'' = Some (PFloat p')
     \<and> dget (estimate_maintenance v s) ''minutes'' = Some (PInt m) \<and> dget (estimate_maintenance v' s') ''minutes'' = Some (PInt m')
     \<and> 5 / 100 \<le> p \<and> p \<le> p' \<and> p' \<le> 99 / 100 \<and> m \<le> m'"
proof -
  have r: "py_round 3 (5 / 100) = (5 / 100 :: real)" "py_round 3 (99 / 100) = (99 / 100 :: real)"
    using round_half_even_of_int [of 50] round_half_even_of_int [of 990] by (simp_all add: py_round_def)
  have "5 / 100 \<le> py_round 3 (defect_odds v t s b)" using py_round_mono [OF defect_odds_bounds(1), of 3] unfolding r(1) .
  moreover have "py_round 3 (defect_odds v' t' s' b') \<le> 99 / 100" using py_round_mono [OF defect_odds_bounds(2), of 3] unfolding r(2) .
  moreover have "py_round 3 (defect_odds v t s b) \<le> py_round 3 (defect_odds v' t' s' b')"
    by (rule py_round_mono) (rule defect_odds_mono [OF assms])
  moreover have "\<exists>m m'. dget (estimate_maintenance v s) ''minutes'' = Some (PInt m)
      \<and> dget (estimate_maintenance v' s') ''minutes'' = Some (PInt m') \<and> m \<le> m'"
    using assms by (simp add: estimate_maintenance_def maintenance_def dget_def)
  ultimately show ?thesis
    by (auto simp: predict_defect_probability_def Let_def dget_def)
qed

theorem worse_inputs_worse_predictions_witness:
  "\<exists>p p'. dget (predict_defect_probability 2 40 0 0) ''defect_probability'' = Some (PFloat p)
     \<and> dget (predict_defect_probability 6 80 1 1) ''defect_probability'' = Some (PFloat p') \<and> p \<le> p'"
  using worse_inputs_worse_predictions [of 2 6 40 80 0 1 0 1] by auto

section \<open>Two safety stock formulas\<close>



end
