(* ===== verification/Mqtt.thy ===== *)
theory Mqtt
  imports Business
begin

text \<open>
  \<open>mas/messaging/mqtt_bridge.py\<close>: topics, wildcard matching and the bridge with its local
  fallback. The MQTT client library is a parameter: whether it is installed, whether its
  connection and its publications succeed. So are the serialiser, and the callbacks, of which
  only their identity and whether they raise matters; a callback does not call the bridge.
  What a step sends to the client and which callbacks it runs is its output.
\<close>

section \<open>Topics\<close>

definition QOS_SENSOR :: int where "QOS_SENSOR = 0"
definition QOS_ALERT :: int where "QOS_ALERT = 1"
definition QOS_CNP :: int where "QOS_CNP = 2"

definition TOPIC_PREFIX :: string where "TOPIC_PREFIX = ''factory/line3''"

definition PRESS_TOPICS :: "string list" where
  "PRESS_TOPICS = map (\<lambda>n. TOPIC_PREFIX @ ''/press-01/'' @ n) [''vibration'', ''oil_temp'', ''hydraulic_pressure'', ''motor_current'']"

definition WELD_TOPICS :: "string list" where
  "WELD_TOPICS = map (\<lambda>n. TOPIC_PREFIX @ ''/weld-01/'' @ n) [''weld_current'', ''weld_voltage'', ''wire_feed'', ''gas_flow'']"

definition QUALITY_TOPIC :: string where "QUALITY_TOPIC = TOPIC_PREFIX @ ''/quality/inspection''"
definition INVENTORY_TOPIC :: string where "INVENTORY_TOPIC = TOPIC_PREFIX @ ''/inventory/snapshot''"
definition MAS_ALERT_TOPIC :: string where "MAS_ALERT_TOPIC = ''mas/alerts''"
definition MAS_CNP_TOPIC :: string where "MAS_CNP_TOPIC = ''mas/cnp''"
definition MAS_AGENT_STATUS :: string where "MAS_AGENT_STATUS = ''mas/agents''"
definition MAS_TOOLS_TOPIC :: string where "MAS_TOOLS_TOPIC = ''mas/tools''"

definition AGENT_SUBSCRIPTIONS :: "(string \<times> string list) list" where
  "AGENT_SUBSCRIPTIONS =
     [(''EA'', [TOPIC_PREFIX @ ''/press-01/#'']), (''QA'', [TOPIC_PREFIX @ ''/weld-01/#'', QUALITY_TOPIC]),
      (''SA'', [TOPIC_PREFIX @ ''/inventory/snapshot'']), (''DA'', []), (''IA'', [INVENTORY_TOPIC]),
      (''PA'', [MAS_ALERT_TOPIC @ ''/#'', MAS_CNP_TOPIC @ ''/#'', MAS_AGENT_STATUS @ ''/+/status''])]"

text \<open>\<open>s.split("/")\<close>.\<close>

fun split_levels :: "string \<Rightarrow> string list" where
  "split_levels [] = [[]]"
| "split_levels (c # cs) = (if c = CHR ''/'' then [] # split_levels cs
     else (case split_levels cs of l # ls \<Rightarrow> (c # l) # ls | [] \<Rightarrow> [[c]]))"

text \<open>The loop of \<open>_topic_matches\<close> over the levels of the pattern.\<close>

fun match_levels :: "string list \<Rightarrow> string list \<Rightarrow> bool" where
  "match_levels [] ts \<longleftrightarrow> ts = []"
| "match_levels (p # ps) ts \<longleftrightarrow>
     (if p = ''#'' then True
      else (case ts of [] \<Rightarrow> False
            | t # ts' \<Rightarrow> if p \<noteq> ''+'' \<and> p \<noteq> t then False else match_levels ps ts'))"

definition topic_matches :: "string \<Rightarrow> string \<Rightarrow> bool" where
  "topic_matches pattern topic \<longleftrightarrow> pattern = topic \<or> match_levels (split_levels pattern) (split_levels topic)"

definition topic_qos :: "string \<Rightarrow> int" where
  "topic_qos topic = (if py_in_str ''cnp'' topic then QOS_CNP else if py_in_str ''alert'' topic then QOS_ALERT else QOS_SENSOR)"

section \<open>State\<close>

record mqtt_metrics =
  mm_published :: nat
  mm_received :: nat
  mm_errors :: nat
  mm_reconnects :: nat
  mm_topics_active :: nat
  mm_last_publish :: real
  mm_bytes_sent :: nat
  mm_bytes_received :: nat

definition new_mqtt_metrics :: mqtt_metrics where
  "new_mqtt_metrics = \<lparr> mm_published = 0, mm_received = 0, mm_errors = 0, mm_reconnects = 0, mm_topics_active = 0,
     mm_last_publish = 0, mm_bytes_sent = 0, mm_bytes_received = 0 \<rparr>"

definition mqtt_metrics_to_dict :: "mqtt_metrics \<Rightarrow> dict" where
  "mqtt_metrics_to_dict m = [(''published'', PInt (int (mm_published m))), (''received'', PInt (int (mm_received m))),
     (''errors'', PInt (int (mm_errors m))), (''reconnects'', PInt (int (mm_reconnects m))),
     (''topics_active'', PInt (int (mm_topics_active m))), (''bytes_sent'', PInt (int (mm_bytes_sent m))),
     (''bytes_received'', PInt (int (mm_bytes_received m)))]"

text \<open>Subscriptions and local callbacks map a pattern to its callbacks, in insertion order.\<close>

record mqtt_bridge =
  mb_host :: string
  mb_port :: nat
  mb_enabled :: bool
  mb_connected :: bool
  mb_fallback_reason :: string
  mb_subscriptions :: "(string \<times> nat list) list"
  mb_local :: "(string \<times> nat list) list"
  mb_metrics :: mqtt_metrics

text \<open>\<open>None\<close> for a connection that succeeds, the text of the exception otherwise.\<close>

definition try_connect :: "bool \<Rightarrow> string option \<Rightarrow> mqtt_bridge \<Rightarrow> mqtt_bridge" where
  "try_connect installed failure b =
     (if \<not> installed then b\<lparr>mb_fallback_reason := (utf8 [0x70, 0x61, 0x68, 0x6F, 0x2D, 0x6D, 0x71, 0x74, 0x74, 0x20, 0xBBF8, 0xC124, 0xCE58, 0x20, 0x28, 0x70, 0x69, 0x70, 0x20, 0x69, 0x6E, 0x73, 0x74, 0x61, 0x6C, 0x6C, 0x20, 0x70, 0x61, 0x68, 0x6F, 0x2D, 0x6D, 0x71, 0x74, 0x74, 0x29])\<rparr>
      else (case failure of
          None \<Rightarrow> b\<lparr> mb_enabled := True, mb_connected := True \<rparr>
        | Some e \<Rightarrow> b\<lparr> mb_fallback_reason := (utf8 [0x4D, 0x51, 0x54, 0x54, 0x20, 0xBE0C, 0xB85C, 0xCEE4, 0x20, 0xC5F0, 0xACB0, 0x20, 0xC2E4, 0xD328, 0x20, 0x28]) @ mb_host b @ '':'' @ show_nat (mb_port b) @ ''): '' @ e,
                       mb_enabled := False \<rparr>))"

definition new_bridge :: "string \<Rightarrow> nat \<Rightarrow> bool \<Rightarrow> string option \<Rightarrow> mqtt_bridge" where
  "new_bridge host port installed failure = try_connect installed failure
     \<lparr> mb_host = host, mb_port = port, mb_enabled = False, mb_connected = False, mb_fallback_reason = [],
       mb_subscriptions = [], mb_local = [], mb_metrics = new_mqtt_metrics \<rparr>"

datatype mqtt_out = Subscribe string int | Send string string int | Run nat string

text \<open>The world around a step: serialiser, failing sends, raising callbacks, clock.\<close>

record mqtt_world =
  mw_dumps :: "dict \<Rightarrow> string"
  mw_send_fails :: "string \<Rightarrow> bool"
  mw_raises :: "nat \<Rightarrow> string \<Rightarrow> bool"
  mw_now :: real

definition with_metrics :: "(mqtt_metrics \<Rightarrow> mqtt_metrics) \<Rightarrow> mqtt_bridge \<Rightarrow> mqtt_bridge" where
  "with_metrics f b = b\<lparr>mb_metrics := f (mb_metrics b)\<rparr>"

definition count_error :: "mqtt_bridge \<Rightarrow> mqtt_bridge" where
  "count_error = with_metrics (\<lambda>m. m\<lparr>mm_errors := Suc (mm_errors m)\<rparr>)"

section \<open>Delivery\<close>

fun run_callbacks :: "mqtt_world \<Rightarrow> string \<Rightarrow> nat list \<Rightarrow> mqtt_bridge \<Rightarrow> mqtt_out list \<times> mqtt_bridge" where
  "run_callbacks w topic [] b = ([], b)"
| "run_callbacks w topic (cb # cbs) b =
     (let (out, b') = run_callbacks w topic cbs (if mw_raises w cb topic then count_error b else b)
      in (Run cb topic # out, b'))"

text \<open>The loop over the patterns.\<close>

fun dispatch :: "mqtt_world \<Rightarrow> string \<Rightarrow> (string \<times> nat list) list \<Rightarrow> mqtt_bridge \<Rightarrow> mqtt_out list \<times> mqtt_bridge" where
  "dispatch w topic [] b = ([], b)"
| "dispatch w topic ((pattern, cbs) # rest) b =
     (let (out1, b1) = (if topic_matches pattern topic then run_callbacks w topic cbs b else ([], b));
          (out2, b2) = dispatch w topic rest b1
      in (out1 @ out2, b2))"

definition deliver_local :: "mqtt_world \<Rightarrow> string \<Rightarrow> mqtt_bridge \<Rightarrow> mqtt_out list \<times> mqtt_bridge" where
  "deliver_local w topic b =
     (let b1 = with_metrics (\<lambda>m. m\<lparr>mm_published := Suc (mm_published m)\<rparr>) b in dispatch w topic (mb_local b1) b1)"

definition mqtt_publish :: "mqtt_world \<Rightarrow> string \<Rightarrow> dict \<Rightarrow> int option \<Rightarrow> mqtt_bridge \<Rightarrow> mqtt_out list \<times> mqtt_bridge" where
  "mqtt_publish w topic data qos b =
     (let q = (case qos of Some q \<Rightarrow> q | None \<Rightarrow> topic_qos topic); payload = mw_dumps w data
      in if mb_enabled b \<and> mb_connected b then
           (if mw_send_fails w topic then deliver_local w topic (count_error b)
            else ([Send topic payload q],
                  with_metrics (\<lambda>m. m\<lparr> mm_published := Suc (mm_published m), mm_bytes_sent := mm_bytes_sent m + length payload,
                    mm_last_publish := mw_now w \<rparr>) b))
         else deliver_local w topic b)"

text \<open>The callbacks of the client library.\<close>

definition on_connect :: "mqtt_bridge \<Rightarrow> mqtt_out list \<times> mqtt_bridge" where
  "on_connect b =
     (map (\<lambda>(t, _). Subscribe t (topic_qos t)) (mb_subscriptions b),
      with_metrics (\<lambda>m. m\<lparr>mm_topics_active := mm_topics_active m + length (mb_subscriptions b)\<rparr>) (b\<lparr>mb_connected := True\<rparr>))"

definition on_disconnect :: "mqtt_bridge \<Rightarrow> mqtt_bridge" where
  "on_disconnect b = with_metrics (\<lambda>m. m\<lparr>mm_reconnects := Suc (mm_reconnects m)\<rparr>) (b\<lparr>mb_connected := False\<rparr>)"

definition mqtt_on_message :: "mqtt_world \<Rightarrow> string \<Rightarrow> string \<Rightarrow> mqtt_bridge \<Rightarrow> mqtt_out list \<times> mqtt_bridge" where
  "mqtt_on_message w topic payload b =
     (let b1 = with_metrics (\<lambda>m. m\<lparr> mm_received := Suc (mm_received m), mm_bytes_received := mm_bytes_received m + length payload \<rparr>) b
      in dispatch w topic (mb_subscriptions b1) b1)"

section \<open>Subscribing\<close>

definition add_callback :: "string \<Rightarrow> nat \<Rightarrow> (string \<times> nat list) list \<Rightarrow> (string \<times> nat list) list" where
  "add_callback pattern cb ss = (case map_of ss pattern of
      None \<Rightarrow> ss @ [(pattern, [cb])]
    | Some cbs \<Rightarrow> AList.update pattern (cbs @ [cb]) ss)"

definition mqtt_subscribe :: "string \<Rightarrow> nat \<Rightarrow> mqtt_bridge \<Rightarrow> mqtt_out list \<times> mqtt_bridge" where
  "mqtt_subscribe pattern cb b =
     (let b1 = b\<lparr> mb_subscriptions := add_callback pattern cb (mb_subscriptions b), mb_local := add_callback pattern cb (mb_local b) \<rparr>
      in if mb_enabled b \<and> mb_connected b
         then ([Subscribe pattern (topic_qos pattern)],
               with_metrics (\<lambda>m. m\<lparr>mm_topics_active := length (mb_subscriptions b1)\<rparr>) b1)
         else ([], b1))"

section \<open>Publishing helpers\<close>

text \<open>A reading as the sensor helpers see it: value, unit and status.\<close>

definition publish_readings ::
  "string \<Rightarrow> mqtt_world \<Rightarrow> (string \<times> pyval \<times> string \<times> string) list \<Rightarrow> real \<Rightarrow> mqtt_bridge \<Rightarrow> mqtt_out list \<times> mqtt_bridge" where
  "publish_readings machine w readings sim_time b =
     fold (\<lambda>(n, v, unit, status) (out, b).
         let (o', b') = mqtt_publish w (TOPIC_PREFIX @ ''/'' @ machine @ ''/'' @ n)
               [(''sensor'', PStr n), (''value'', v), (''unit'', PStr unit), (''status'', PStr status), (''timestamp'', PFloat sim_time)]
               (Some QOS_SENSOR) b
         in (out @ o', b')) readings ([], b)"

definition publish_press_sensors where "publish_press_sensors = publish_readings ''press-01''"
definition publish_weld_sensors where "publish_weld_sensors = publish_readings ''weld-01''"

definition publish_quality_result ::
  "mqtt_world \<Rightarrow> string \<Rightarrow> string \<Rightarrow> (string \<times> measurement) list \<Rightarrow> dict \<Rightarrow> mqtt_bridge \<Rightarrow> mqtt_out list \<times> mqtt_bridge" where
  "publish_quality_result w serial verdict measurements cpk = mqtt_publish w QUALITY_TOPIC
     [(''serial'', PStr serial), (''verdict'', PStr verdict),
      (''measurements'', PDict (map (\<lambda>(k, m). (k, PDict [(''value'', PFloat (ms_value m)), (''in_spec'', PBool (ms_in_spec m)),
           (''margin_pct'', PFloat (ms_margin_pct m))])) measurements)),
      (''cpk'', PDict cpk)] (Some QOS_ALERT)"

definition publish_inventory :: "mqtt_world \<Rightarrow> dict \<Rightarrow> mqtt_bridge \<Rightarrow> mqtt_out list \<times> mqtt_bridge" where
  "publish_inventory w snapshot = mqtt_publish w INVENTORY_TOPIC snapshot (Some QOS_ALERT)"

definition publish_alert :: "mqtt_world \<Rightarrow> string \<Rightarrow> string \<Rightarrow> dict \<Rightarrow> mqtt_bridge \<Rightarrow> mqtt_out list \<times> mqtt_bridge" where
  "publish_alert w aid alert_type data = mqtt_publish w (MAS_ALERT_TOPIC @ ''/'' @ aid)
     (dmerge [(''agent'', PStr aid), (''type'', PStr alert_type)] data) (Some QOS_ALERT)"

definition publish_cnp :: "mqtt_world \<Rightarrow> string \<Rightarrow> dict \<Rightarrow> mqtt_bridge \<Rightarrow> mqtt_out list \<times> mqtt_bridge" where
  "publish_cnp w phase data = mqtt_publish w (MAS_CNP_TOPIC @ ''/'' @ phase) data (Some QOS_CNP)"

definition publish_agent_status :: "mqtt_world \<Rightarrow> string \<Rightarrow> dict \<Rightarrow> mqtt_bridge \<Rightarrow> mqtt_out list \<times> mqtt_bridge" where
  "publish_agent_status w aid status = mqtt_publish w (MAS_AGENT_STATUS @ ''/'' @ aid @ ''/status'') status (Some QOS_SENSOR)"

definition publish_tool_call :: "mqtt_world \<Rightarrow> string \<Rightarrow> string \<Rightarrow> dict \<Rightarrow> mqtt_bridge \<Rightarrow> mqtt_out list \<times> mqtt_bridge" where
  "publish_tool_call w aid tool res = mqtt_publish w (MAS_TOOLS_TOPIC @ ''/'' @ tool)
     (dmerge [(''agent'', PStr aid), (''tool'', PStr tool)] res) (Some QOS_SENSOR)"

definition mqtt_status :: "mqtt_bridge \<Rightarrow> dict" where
  "mqtt_status b =
     [(''enabled'', PBool (mb_enabled b)), (''connected'', PBool (mb_connected b)),
      (''mode'', PStr (if mb_enabled b then ''MQTT (Mosquitto)'' else ''Local fallback ('' @ mb_fallback_reason b @ '')'')),
      (''broker'', PStr (if mb_enabled b then mb_host b @ '':'' @ show_nat (mb_port b) else ''N/A'')),
      (''subscriptions'', PInt (int (length (mb_subscriptions b)))), (''metrics'', PDict (mqtt_metrics_to_dict (mb_metrics b)))]"

end
