(* ===== verification/Scenario.thy ===== *)
theory Scenario
  imports Business Py_Text "HOL-Library.Char_ord" "HOL-Library.List_Lexorder"
begin

text \<open>
  \<open>mas/scenario/loader.py\<close>: a scenario file as a configuration, and \<open>run_scenario\<close>'s use of
  one. The YAML reader is a parameter: what it returns for a file is a value, or it raises.
  The configuration keeps the values as they stand in the file; only what the environment
  computes with has to be a number. Mappings have text keys.
\<close>

section \<open>Sensors\<close>

record sensor_config =
  sk_baseline :: pyval
  sk_noise_std :: pyval
  sk_drift_rate :: pyval

definition sensor_config_of :: "real \<Rightarrow> real \<Rightarrow> real \<Rightarrow> sensor_config" where
  "sensor_config_of b n d = \<lparr> sk_baseline = PFloat b, sk_noise_std = PFloat n, sk_drift_rate = PFloat d \<rparr>"

definition sensor_config_from_dict :: "pyval \<Rightarrow> sensor_config \<Rightarrow> sensor_config result" where
  "sensor_config_from_dict v dflt = bindR (as_dict v) (\<lambda>d. Inr
     \<lparr> sk_baseline = dget_or d ''baseline'' (sk_baseline dflt), sk_noise_std = dget_or d ''noise_std'' (sk_noise_std dflt),
       sk_drift_rate = dget_or d ''drift_rate'' (sk_drift_rate dflt) \<rparr>)"

definition press_defaults :: "(string \<times> sensor_config) list" where
  "press_defaults = [(''vibration'', sensor_config_of (18 / 10) (15 / 100) (10 / 100)),
     (''oil_temp'', sensor_config_of 42 (5 / 10) (3 / 100)),
     (''hydraulic_pressure'', sensor_config_of 180 2 (- 8 / 100)),
     (''motor_current'', sensor_config_of 45 1 (2 / 100))]"

definition weld_defaults :: "(string \<times> sensor_config) list" where
  "weld_defaults = [(''weld_current'', sensor_config_of 280 5 0), (''weld_voltage'', sensor_config_of 28 (3 / 10) 0),
     (''wire_feed'', sensor_config_of 12 (2 / 10) 0), (''gas_flow'', sensor_config_of 18 (5 / 10) 0)]"

text \<open>\<open>_get(raw, section, key)\<close>: the value two levels down, or \<open>None\<close>.\<close>

definition get_nested :: "dict \<Rightarrow> string \<Rightarrow> string \<Rightarrow> pyval" where
  "get_nested d k1 k2 = (case dget_or d k1 PNone of PDict d' \<Rightarrow> dget_or d' k2 PNone | _ \<Rightarrow> PNone)"

text \<open>\<open>name in raw\<close>, on whatever \<open>raw\<close> is.\<close>

fun contains_name :: "string \<Rightarrow> pyval \<Rightarrow> bool result" where
  "contains_name n (PDict d) = Inr (n \<in> fst ` set d)"
| "contains_name n (PList xs) = Inr (PStr n \<in> set xs)"
| "contains_name n (PStr s) = Inr (py_in_str n s)"
| "contains_name n _ = Inl TypeError"

text \<open>\<open>raw[name]\<close>: only a mapping has text keys.\<close>

fun subscript :: "pyval \<Rightarrow> string \<Rightarrow> pyval result" where
  "subscript (PDict d) k = item_at d k"
| "subscript _ k = Inl TypeError"

definition load_sensor :: "pyval \<Rightarrow> string \<times> sensor_config \<Rightarrow> (string \<times> sensor_config) result" where
  "load_sensor raw nd = (case nd of (n, dflt) \<Rightarrow>
     bindR (contains_name n raw) (\<lambda>there.
       if there then bindR (subscript raw n) (\<lambda>v. bindR (sensor_config_from_dict v dflt) (\<lambda>c. Inr (n, c)))
       else Inr (n, dflt)))"

definition load_sensors :: "dict \<Rightarrow> string \<Rightarrow> (string \<times> sensor_config) list \<Rightarrow> (string \<times> sensor_config) list result" where
  "load_sensors raw section defaults = mapR (load_sensor (py_or (get_nested raw ''sensors'' section) (PDict []))) defaults"

section \<open>Event probabilities\<close>

record event_probabilities =
  ep_new_order :: pyval
  ep_vibration_spike :: pyval
  ep_equipment_stabilize :: pyval
  ep_material_arrival :: pyval
  ep_agv_change :: pyval
  ep_speed_recovery :: pyval
  ep_drift_recovery_prob :: pyval
  ep_drift_spike_prob :: pyval
  ep_urgent_order_ratio :: pyval
  ep_spike_magnitude :: "pyval list"

definition event_probabilities_from :: "dict \<Rightarrow> event_probabilities" where
  "event_probabilities_from d =
     \<lparr> ep_new_order = dget_or d ''new_order'' (PFloat (20 / 100)),
       ep_vibration_spike = dget_or d ''vibration_spike'' (PFloat (15 / 100)),
       ep_equipment_stabilize = dget_or d ''equipment_stabilize'' (PFloat (15 / 100)),
       ep_material_arrival = dget_or d ''material_arrival'' (PFloat (10 / 100)),
       ep_agv_change = dget_or d ''agv_change'' (PFloat (10 / 100)),
       ep_speed_recovery = dget_or d ''speed_recovery'' (PFloat (10 / 100)),
       ep_drift_recovery_prob = dget_or d ''drift_recovery_prob'' (PFloat (10 / 100)),
       ep_drift_spike_prob = dget_or d ''drift_spike_prob'' (PFloat (5 / 100)),
       ep_urgent_order_ratio = dget_or d ''urgent_order_ratio'' (PFloat (40 / 100)),
       ep_spike_magnitude = (case dget_or d ''spike_magnitude'' (PList [PFloat (3 / 10), PFloat (12 / 10)]) of
           PList xs \<Rightarrow> xs | _ \<Rightarrow> [PFloat (3 / 10), PFloat (12 / 10)]) \<rparr>"

definition default_probabilities :: event_probabilities where
  "default_probabilities = event_probabilities_from []"

definition event_probabilities_from_dict :: "pyval \<Rightarrow> event_probabilities result" where
  "event_probabilities_from_dict v =
     (if \<not> py_truthy v then Inr default_probabilities
      else bindR (as_dict v) (\<lambda>d. Inr (event_probabilities_from d)))"

fun accumulate :: "real \<Rightarrow> (string \<times> pyval) list \<Rightarrow> (string \<times> real) list result" where
  "accumulate acc [] = Inr []"
| "accumulate acc ((n, p) # ps) =
     bindR (py_num p) (\<lambda>x. bindR (accumulate (acc + x) ps) (\<lambda>rest. Inr ((n, acc + x) # rest)))"

definition cumulative_thresholds :: "event_probabilities \<Rightarrow> (string \<times> real) list result" where
  "cumulative_thresholds e = accumulate 0
     [(''new_order'', ep_new_order e), (''vibration_spike'', ep_vibration_spike e),
      (''equipment_stabilize'', ep_equipment_stabilize e), (''material_arrival'', ep_material_arrival e),
      (''agv_change'', ep_agv_change e), (''speed_recovery'', ep_speed_recovery e)]"

section \<open>Initial orders\<close>

record initial_order =
  oi_order_id :: pyval
  oi_customer :: pyval
  oi_quantity :: pyval
  oi_due_date :: pyval
  oi_priority :: pyval

definition load_initial_order :: "pyval \<Rightarrow> initial_order result" where
  "load_initial_order o' =
     bindR (subscript o' ''order_id'') (\<lambda>i. bindR (subscript o' ''customer'') (\<lambda>c. bindR (subscript o' ''quantity'') (\<lambda>q.
     bindR (as_dict o') (\<lambda>d. Inr
       \<lparr> oi_order_id = i, oi_customer = c, oi_quantity = q, oi_due_date = dget_or d ''due_date'' (PStr ''2026-04-05''),
         oi_priority = dget_or d ''priority'' (PStr ''NORMAL'') \<rparr>))))"

text \<open>
  Iterating over what the file holds: the members of a list; the keys of a mapping and the
  characters of a text are texts, whose subscript raises; anything else is not iterable.
\<close>

fun load_initial_orders :: "pyval \<Rightarrow> initial_order list result" where
  "load_initial_orders (PList xs) = mapR load_initial_order xs"
| "load_initial_orders (PDict d) = (if d = [] then Inr [] else Inl TypeError)"
| "load_initial_orders (PStr s) = (if s = [] then Inr [] else Inl TypeError)"
| "load_initial_orders _ = Inl TypeError"

definition default_orders :: "initial_order list" where
  "default_orders =
     [\<lparr> oi_order_id = PStr ''CO-001'', oi_customer = PStr (utf8 [0xD604, 0xB300, 0xC790, 0xB3D9, 0xCC28]), oi_quantity = PInt 500,
        oi_due_date = PStr ''2026-04-04'', oi_priority = PStr ''NORMAL'' \<rparr>,
      \<lparr> oi_order_id = PStr ''CO-002'', oi_customer = PStr (utf8 [0xAE30, 0xC544, 0xC790, 0xB3D9, 0xCC28]), oi_quantity = PInt 300,
        oi_due_date = PStr ''2026-04-05'', oi_priority = PStr ''NORMAL'' \<rparr>]"

section \<open>The configuration\<close>

record scenario_config =
  cf_name :: pyval
  cf_description :: pyval
  cf_press_sensors :: "(string \<times> sensor_config) list"
  cf_weld_sensors :: "(string \<times> sensor_config) list"
  cf_warehouse_stock :: pyval
  cf_warehouse_safety_stock :: pyval
  cf_service_level_target :: pyval
  cf_demand_std :: pyval
  cf_leadtime_mean :: pyval
  cf_leadtime_std :: pyval
  cf_avg_demand_per_cycle :: pyval
  cf_material_steel_stock :: pyval
  cf_material_weld_wire :: pyval
  cf_material_shield_gas :: pyval
  cf_material_restock_threshold :: pyval
  cf_initial_orders :: "initial_order list"
  cf_order_quantities :: pyval
  cf_shipment_interval :: pyval
  cf_shipment_batch_size :: pyval
  cf_takt_sec :: pyval
  cf_agent_intervals :: "(string \<times> pyval) list"
  cf_event_interval_range :: "pyval list"
  cf_events :: event_probabilities
  cf_max_cycles :: pyval
  cf_summary_interval :: pyval

text \<open>\<open>raw.get(name, {}) or {}\<close>, as the mapping its lookups need.\<close>

definition section_of :: "dict \<Rightarrow> string \<Rightarrow> dict result" where
  "section_of raw name = as_dict (py_or (dget_or raw name (PDict [])) (PDict []))"

definition load_intervals :: "dict \<Rightarrow> (string \<times> pyval) list" where
  "load_intervals ai = map (\<lambda>(a, n). (a, dget_or ai a (PFloat n)))
     [(''EA'', 2), (''QA'', 3), (''SA'', 5), (''DA'', 4), (''IA'', 3), (''PA'', 2)]"

definition scenario_from_dict :: "pyval \<Rightarrow> scenario_config result" where
  "scenario_from_dict v =
     bindR (as_dict v) (\<lambda>raw.
     bindR (load_sensors raw ''press'' press_defaults) (\<lambda>press.
     bindR (load_sensors raw ''weld'' weld_defaults) (\<lambda>weld.
     bindR (section_of raw ''warehouse'') (\<lambda>wh.
     bindR (section_of raw ''materials'') (\<lambda>mat.
     bindR (section_of raw ''demand'') (\<lambda>dem.
     bindR (load_initial_orders (dget_or dem ''initial_orders'' (PList []))) (\<lambda>orders.
     bindR (section_of raw ''runtime'') (\<lambda>run.
     bindR (section_of run ''agent_intervals'') (\<lambda>ai.
     bindR (event_probabilities_from_dict (dget_or raw ''events'' (PDict []))) (\<lambda>events.
     bindR (section_of raw ''execution'') (\<lambda>ex. Inr
       \<lparr> cf_name = dget_or raw ''name'' (PStr ''default''),
         cf_description = dget_or raw ''description'' (PStr ''''),
         cf_press_sensors = press,
         cf_weld_sensors = weld,
         cf_warehouse_stock = dget_or wh ''stock'' (PInt 120),
         cf_warehouse_safety_stock = dget_or wh ''safety_stock'' (PInt 45),
         cf_service_level_target = dget_or wh ''service_level_target'' (PFloat (95 / 100)),
         cf_demand_std = dget_or wh ''demand_std'' (PFloat 8),
         cf_leadtime_mean = dget_or wh ''leadtime_mean'' (PFloat (9 / 2)),
         cf_leadtime_std = dget_or wh ''leadtime_std'' (PFloat 2),
         cf_avg_demand_per_cycle = dget_or wh ''avg_demand_per_cycle'' (PFloat 4),
         cf_material_steel_stock = dget_or mat ''steel_stock'' (PInt 850),
         cf_material_weld_wire = dget_or mat ''weld_wire'' (PFloat (25 / 2)),
         cf_material_shield_gas = dget_or mat ''shield_gas'' (PFloat 95),
         cf_material_restock_threshold = dget_or mat ''restock_threshold'' (PInt 50),
         cf_initial_orders = (if orders = [] then default_orders else orders),
         cf_order_quantities = dget_or dem ''order_quantities'' (PList (map PInt [30, 50, 80, 100, 150])),
         cf_shipment_interval = dget_or dem ''shipment_interval'' (PInt 2),
         cf_shipment_batch_size = dget_or dem ''shipment_batch_size'' (PInt 3),
         cf_takt_sec = dget_or run ''takt_sec'' (PFloat (5 / 2)),
         cf_agent_intervals = load_intervals ai,
         cf_event_interval_range = (case dget_or run ''event_interval_range'' (PList [PInt 10, PInt 30]) of
             PList xs \<Rightarrow> xs | _ \<Rightarrow> [PInt 10, PInt 30]),
         cf_events = events,
         cf_max_cycles = dget_or ex ''max_cycles'' (PInt 0),
         cf_summary_interval = dget_or run ''summary_interval'' (PInt 20) \<rparr>)))))))))))"

definition scenario_to_dict :: "scenario_config \<Rightarrow> dict" where
  "scenario_to_dict c =
     [(''name'', cf_name c), (''description'', cf_description c), (''warehouse_stock'', cf_warehouse_stock c),
      (''warehouse_safety_stock'', cf_warehouse_safety_stock c), (''service_level_target'', cf_service_level_target c),
      (''demand_std'', cf_demand_std c), (''leadtime_mean'', cf_leadtime_mean c), (''leadtime_std'', cf_leadtime_std c),
      (''takt_sec'', cf_takt_sec c), (''max_cycles'', cf_max_cycles c),
      (''event_interval_range'', PList (cf_event_interval_range c)),
      (''events'', PDict [(''new_order'', ep_new_order (cf_events c)), (''vibration_spike'', ep_vibration_spike (cf_events c)),
         (''urgent_order_ratio'', ep_urgent_order_ratio (cf_events c)),
         (''spike_magnitude'', PList (ep_spike_magnitude (cf_events c)))])]"

section \<open>Files\<close>

text \<open>A path as the loader finds it: no file, a file the reader rejects, or the value it holds.\<close>

datatype scenario_file = Missing | Unreadable | Holds pyval

datatype load_error = ImportError | FileNotFound | YamlError | Malformed py_error

definition load_scenario :: "bool \<Rightarrow> scenario_file \<Rightarrow> load_error + scenario_config" where
  "load_scenario yaml file =
     (if \<not> yaml then Inl ImportError
      else (case file of
          Missing \<Rightarrow> Inl FileNotFound
        | Unreadable \<Rightarrow> Inl YamlError
        | Holds v \<Rightarrow> (case scenario_from_dict (py_or v (PDict [])) of
              Inl e \<Rightarrow> Inl (Malformed e) | Inr c \<Rightarrow> Inr c)))"

text \<open>One file of the directory: its name, path, stem and content.\<close>

type_synonym listed_file = "string \<times> string \<times> string \<times> scenario_file"

definition list_entry :: "listed_file \<Rightarrow> dict" where
  "list_entry = (\<lambda>(file, path, stem, content).
     (case content of
        Holds v \<Rightarrow> (case as_dict (py_or v (PDict [])) of
            Inr raw \<Rightarrow> [(''file'', PStr file), (''path'', PStr path), (''name'', dget_or raw ''name'' (PStr stem)),
                       (''description'', dget_or raw ''description'' (PStr ''''))]
          | Inl _ \<Rightarrow> [(''file'', PStr file), (''path'', PStr path), (''name'', PStr stem), (''description'', PStr (utf8 [0x28, 0xD30C, 0xC2F1, 0x20, 0xC624, 0xB958, 0x29]))])
      | _ \<Rightarrow> [(''file'', PStr file), (''path'', PStr path), (''name'', PStr stem), (''description'', PStr (utf8 [0x28, 0xD30C, 0xC2F1, 0x20, 0xC624, 0xB958, 0x29]))]))"

text \<open>\<open>None\<close> for a directory that does not exist.\<close>

definition list_scenarios :: "bool \<Rightarrow> listed_file list option \<Rightarrow> dict list" where
  "list_scenarios yaml dir =
     (if \<not> yaml then [] else (case dir of None \<Rightarrow> [] | Some fs \<Rightarrow> map list_entry (sort_key fst fs)))"

end
