(* ===== verification/Scenario_Laws.thy ===== *)
theory Scenario_Laws
  imports Scenario
begin

text \<open>
  Laws of the scenario loader: exactly which files load, what every loaded configuration
  has, and which error an ill-formed file ends with.
\<close>

section \<open>Well-formed files\<close>

definition absent_or_dict :: "pyval \<Rightarrow> bool" where
  "absent_or_dict v \<longleftrightarrow> py_truthy v \<longrightarrow> is_dict v"

definition section_ok :: "dict \<Rightarrow> string \<Rightarrow> bool" where
  "section_ok d k \<longleftrightarrow> absent_or_dict (dget_or d k (PDict []))"

definition section_dict :: "dict \<Rightarrow> string \<Rightarrow> dict" where
  "section_dict d k = dict_or_empty (py_or (dget_or d k (PDict [])) (PDict []))"

text \<open>A sensor section may be anything falsy, a mapping whose known sensors are mappings, or a list or text without their names.\<close>

fun sensors_ok :: "string list \<Rightarrow> pyval \<Rightarrow> bool" where
  "sensors_ok ns (PDict d) \<longleftrightarrow> (\<forall>n\<in>set ns. case dget d n of None \<Rightarrow> True | Some v \<Rightarrow> is_dict v)"
| "sensors_ok ns (PList xs) \<longleftrightarrow> (\<forall>n\<in>set ns. PStr n \<notin> set xs)"
| "sensors_ok ns (PStr s) \<longleftrightarrow> (\<forall>n\<in>set ns. \<not> py_in_str n s)"
| "sensors_ok ns v \<longleftrightarrow> ns = []"

fun order_entry_ok :: "pyval \<Rightarrow> bool" where
  "order_entry_ok (PDict d) \<longleftrightarrow> dget d ''order_id'' \<noteq> None \<and> dget d ''customer'' \<noteq> None \<and> dget d ''quantity'' \<noteq> None"
| "order_entry_ok v \<longleftrightarrow> False"

fun orders_ok :: "pyval \<Rightarrow> bool" where
  "orders_ok (PList xs) \<longleftrightarrow> (\<forall>x\<in>set xs. order_entry_ok x)"
| "orders_ok (PDict d) \<longleftrightarrow> d = []"
| "orders_ok (PStr s) \<longleftrightarrow> s = []"
| "orders_ok v \<longleftrightarrow> False"

definition scenario_ok :: "dict \<Rightarrow> bool" where
  "scenario_ok raw \<longleftrightarrow>
     sensors_ok (map fst press_defaults) (py_or (get_nested raw ''sensors'' ''press'') (PDict []))
   \<and> sensors_ok (map fst weld_defaults) (py_or (get_nested raw ''sensors'' ''weld'') (PDict []))
   \<and> section_ok raw ''warehouse'' \<and> section_ok raw ''materials'' \<and> section_ok raw ''demand''
   \<and> orders_ok (dget_or (section_dict raw ''demand'') ''initial_orders'' (PList []))
   \<and> section_ok raw ''runtime'' \<and> section_ok (section_dict raw ''runtime'') ''agent_intervals''
   \<and> absent_or_dict (dget_or raw ''events'' (PDict [])) \<and> section_ok raw ''execution''"

section \<open>The stages\<close>

text \<open>
  A stage succeeds exactly when its part is well-formed; then its result has a property,
  otherwise its error is one of a given set.
\<close>

definition stage :: "bool \<Rightarrow> ('a \<Rightarrow> bool) \<Rightarrow> py_error set \<Rightarrow> 'a result \<Rightarrow> bool" where
  "stage ok Q E r \<longleftrightarrow> (case r of Inl e \<Rightarrow> \<not> ok \<and> e \<in> E | Inr x \<Rightarrow> ok \<and> Q x)"

lemma stageI: "(\<And>e. r = Inl e \<Longrightarrow> \<not> ok \<and> e \<in> E) \<Longrightarrow> (\<And>x. r = Inr x \<Longrightarrow> ok \<and> Q x) \<Longrightarrow> stage ok Q E r"
  by (simp add: stage_def split: sum.split)

lemma stage_bind:
  assumes "stage ok Q E r" "E \<subseteq> F" "\<And>x. Q x \<Longrightarrow> stage ok' Q' F (f x)"
  shows "stage (ok \<and> ok') Q' F (bindR r f)"
proof (cases r)
  case (Inl e)
  then show ?thesis using assms(1,2) by (auto simp: stage_def)
next
  case (Inr x)
  then show ?thesis using assms(1) assms(3) [of x] by (simp add: stage_def)
qed

lemma stage_last:
  assumes "stage ok Q E r" "E \<subseteq> F" "\<And>x. Q x \<Longrightarrow> Q' (g x)"
  shows "stage ok Q' F (bindR r (\<lambda>x. Inr (g x)))"
  using assms by (auto simp: stage_def split: sum.splits)

lemma as_dict_cases: "as_dict v = (if is_dict v then Inr (dict_or_empty v) else Inl AttributeError)"
  by (cases v) simp_all

lemma section_of_stage: "stage (section_ok raw k) (\<lambda>d. d = section_dict raw k) {AttributeError} (section_of raw k)"
  by (auto simp: stage_def section_of_def section_ok_def absent_or_dict_def section_dict_def as_dict_cases py_or_def)

lemma mapR_stage:
  assumes "\<And>x. x \<in> set xs \<Longrightarrow> stage (ok x) (Q x) E (f x)"
  shows "stage (\<forall>x\<in>set xs. ok x) (\<lambda>ys. list_all2 Q xs ys) E (mapR f xs)"
  using assms
proof (induction xs)
  case Nil
  then show ?case by (simp add: stage_def)
next
  case (Cons x xs)
  have s: "stage (ok x) (Q x) E (f x)" "stage (\<forall>x\<in>set xs. ok x) (\<lambda>ys. list_all2 Q xs ys) E (mapR f xs)"
    using Cons by simp_all
  then show ?case by (auto simp: stage_def bindR_def split: sum.splits)
qed

lemma load_sensor_stage:
  "stage (sensors_ok [n] raw) (\<lambda>nc. fst nc = n) {AttributeError, TypeError} (load_sensor raw (n, dflt))"
proof (cases raw)
  case (PDict d)
  show ?thesis
  proof (cases "dget d n")
    case None
    then have "n \<notin> fst ` set d" by (simp add: dget_def map_of_eq_None_iff)
    then show ?thesis by (simp add: PDict None stage_def load_sensor_def)
  next
    case (Some v)
    then have "n \<in> fst ` set d" unfolding dget_def by (metis map_of_eq_None_iff option.distinct(1))
    then show ?thesis
      by (simp add: PDict Some stage_def load_sensor_def item_at_def sensor_config_from_dict_def as_dict_cases)
  qed
qed (simp_all add: stage_def load_sensor_def)

lemma sensors_ok_all: "sensors_ok ns raw \<longleftrightarrow> (\<forall>n\<in>set ns. sensors_ok [n] raw)"
  by (cases raw) (auto simp: neq_Nil_conv)

lemma load_sensors_stage:
  "stage (sensors_ok (map fst ds) (py_or (get_nested raw ''sensors'' section) (PDict [])))
     (\<lambda>cs. map fst cs = map fst ds) {AttributeError, TypeError} (load_sensors raw section ds)"
proof -
  let ?v = "py_or (get_nested raw ''sensors'' section) (PDict [])"
  have "stage (\<forall>x\<in>set ds. sensors_ok [fst x] ?v) (\<lambda>ys. list_all2 (\<lambda>x nc. fst nc = fst x) ds ys) {AttributeError, TypeError}
      (mapR (load_sensor ?v) ds)"
    by (rule mapR_stage) (use load_sensor_stage in \<open>metis prod.collapse\<close>)
  moreover have "list_all2 (\<lambda>x nc. fst nc = fst x) ds ys \<Longrightarrow> map fst ys = map fst ds" for ys
    by (induction rule: list_all2_induct) simp_all
  ultimately show ?thesis
    by (auto simp: stage_def load_sensors_def sensors_ok_all [of "map fst ds"] split: sum.splits)
qed

lemma load_order_stage:
  "stage (order_entry_ok v) (\<lambda>_. True) {KeyError, TypeError} (load_initial_order v)"
  by (cases v) (auto simp: stage_def load_initial_order_def item_at_def split: option.split)

lemma load_orders_stage: "stage (orders_ok v) (\<lambda>_. True) {KeyError, TypeError} (load_initial_orders v)"
proof (cases v)
  case (PList xs)
  have "stage (\<forall>x\<in>set xs. order_entry_ok x) (\<lambda>ys. list_all2 (\<lambda>_ _. True) xs ys) {KeyError, TypeError} (mapR load_initial_order xs)"
    by (rule mapR_stage) (rule load_order_stage)
  then show ?thesis by (auto simp: PList stage_def split: sum.splits)
qed (simp_all add: stage_def)

lemma events_stage:
  "stage (absent_or_dict v) (\<lambda>_. True) {AttributeError} (event_probabilities_from_dict v)"
  by (auto simp: stage_def event_probabilities_from_dict_def absent_or_dict_def as_dict_cases)

text \<open>A mapping in the orders list without one of the three required keys ends the load.\<close>

lemma missing_key: "order_entry_ok (PDict d) \<or> load_initial_order (PDict d) = Inl KeyError"
  by (auto simp: load_initial_order_def item_at_def split: option.split)

section \<open>The loader\<close>

text \<open>
  C33 (\<open>scenario_loading\<close>): a scenario mapping loads if and only if it is well-formed: every
  section is missing, empty or a mapping, the configured sensors are mappings, and every
  initial order is a mapping with its identifier, customer and quantity. Otherwise the load
  raises an attribute, key or type error. A loaded configuration has every sensor of the
  press and of the welder, an interval for each of the six agents, and at least one order.
\<close>

theorem scenario_loading:
  "case scenario_from_dict (PDict raw) of
     Inl e \<Rightarrow> \<not> scenario_ok raw \<and> e \<in> {AttributeError, KeyError, TypeError}
   | Inr c \<Rightarrow> scenario_ok raw \<and> map fst (cf_press_sensors c) = map fst press_defaults
       \<and> map fst (cf_weld_sensors c) = map fst weld_defaults
       \<and> map fst (cf_agent_intervals c) = [''EA'', ''QA'', ''SA'', ''DA'', ''IA'', ''PA'']
       \<and> cf_initial_orders c \<noteq> []"
proof -
  let ?Q = "\<lambda>c. map fst (cf_press_sensors c) = map fst press_defaults
       \<and> map fst (cf_weld_sensors c) = map fst weld_defaults
       \<and> map fst (cf_agent_intervals c) = [''EA'', ''QA'', ''SA'', ''DA'', ''IA'', ''PA''] \<and> cf_initial_orders c \<noteq> []"
  have "stage (scenario_ok raw) ?Q {AttributeError, KeyError, TypeError} (scenario_from_dict (PDict raw))"
    unfolding scenario_from_dict_def as_dict.simps bindR_simps scenario_ok_def
    by (rule stage_bind [OF load_sensors_stage], simp, rule stage_bind [OF load_sensors_stage], simp,
        rule stage_bind [OF section_of_stage], simp, rule stage_bind [OF section_of_stage], simp,
        rule stage_bind [OF section_of_stage], simp, hypsubst, rule stage_bind [OF load_orders_stage], simp,
        rule stage_bind [OF section_of_stage], simp, hypsubst, rule stage_bind [OF section_of_stage], simp,
        rule stage_bind [OF events_stage], simp, rule stage_last [OF section_of_stage], simp,
        simp add: load_intervals_def default_orders_def)
  then show ?thesis by (simp add: stage_def)
qed

end
