(* ===== verification/Scenario_Runtime.thy ===== *)
theory Scenario_Runtime
  imports Scenario Runtime Tools
begin

text \<open>
  \<open>run_scenario.py\<close> up to the start of the threads and \<open>mas/runtime/scenario_runtime.py\<close>:
  the batch runtime that drives a scenario environment. Its log, maintenance, events and
  turns are those of \<open>factory_runtime.py\<close>, over the environment's factory; its own are the
  tick with the warehouse, the demand order of a new-order event, the intervals and the
  results. The progress display, the result file and the sleeping are not modelled.
\<close>

section \<open>From a configuration to an environment\<close>

text \<open>The numbers the environment computes with; \<open>None\<close> when a value is of another type.\<close>

fun as_int :: "pyval \<Rightarrow> int option" where
  "as_int (PInt i) = Some i"
| "as_int _ = None"

fun as_real :: "pyval \<Rightarrow> real option" where
  "as_real (PInt i) = Some (of_int i)"
| "as_real (PFloat x) = Some x"
| "as_real _ = None"

fun as_text :: "pyval \<Rightarrow> string option" where
  "as_text (PStr s) = Some s"
| "as_text _ = None"

definition sensor_baselines :: "(string \<times> sensor_config) list \<Rightarrow> (string \<times> real) list option" where
  "sensor_baselines cs = those (map (\<lambda>(n, c). map_option (Pair n) (as_real (sk_baseline c))) cs)"

definition environment_settings :: "scenario_config \<Rightarrow> env_scenario option" where
  "environment_settings c =
     Option.bind (as_int (cf_warehouse_stock c)) (\<lambda>stock.
     Option.bind (as_int (cf_warehouse_safety_stock c)) (\<lambda>ss.
     Option.bind (as_real (cf_service_level_target c)) (\<lambda>sl.
     Option.bind (as_real (cf_demand_std c)) (\<lambda>ds.
     Option.bind (as_real (cf_leadtime_mean c)) (\<lambda>lm.
     Option.bind (as_real (cf_leadtime_std c)) (\<lambda>ls.
     Option.bind (as_real (cf_avg_demand_per_cycle c)) (\<lambda>ad.
     Option.bind (as_int (cf_material_steel_stock c)) (\<lambda>steel.
     Option.bind (sensor_baselines (cf_press_sensors c)) (\<lambda>bs.
     Option.bind (as_int (cf_shipment_interval c)) (\<lambda>si.
     Option.bind (as_int (cf_shipment_batch_size c)) (\<lambda>sb. Some
       \<lparr> sc_warehouse_stock = stock, sc_warehouse_safety_stock = ss, sc_service_level_target = sl,
         sc_demand_std = ds, sc_leadtime_mean = lm, sc_leadtime_std = ls, sc_avg_demand_per_cycle = ad,
         sc_material_steel_stock = steel, sc_press_baselines = bs, sc_shipment_interval = si,
         sc_shipment_batch_size = sb \<rparr>)))))))))))"

section \<open>The scenario runner\<close>

text \<open>\<open>--cycles\<close>, the file's limit, or one hundred.\<close>

definition run_limit :: "int \<Rightarrow> scenario_config \<Rightarrow> int option" where
  "run_limit cycles c =
     (if cycles > 0 then Some cycles else map_option (\<lambda>m. if m \<le> 0 then 100 else m) (as_int (cf_max_cycles c)))"

definition scenario_production_order :: production_order where
  "scenario_production_order = \<lparr> po_id = ''PO-2026-SCENARIO-001'', po_part_number = ''BRK-PAD-2026A'',
     po_part_name = (utf8 [0xBE0C, 0xB808, 0xC774, 0xD06C, 0x20, 0xD328, 0xB4DC, 0x20, 0xBE0C, 0xB798, 0xD0B7]), po_target_qty = 9999, po_material_spec = (utf8 [0x53, 0x50, 0x43, 0x43, 0x20, 0xAC15, 0xD310, 0x20, 0x32, 0x2E, 0x33, 0x74, 0x20, 0x78, 0x20, 0x38, 0x35, 0x30, 0x6D, 0x6D]),
     po_material_lot = ''LOT-MTL-SCENARIO-01'', po_customer = (utf8 [0xC2DC, 0xB098, 0xB9AC, 0xC624, 0x20, 0xD14C, 0xC2A4, 0xD2B8]), po_due_date = (utf8 [0xC5F0, 0xC18D, 0xC0DD, 0xC0B0]),
     po_produced = 0, po_good = 0, po_defect = 0, po_suspect = 0 \<rparr>"

definition customer_order_of :: "initial_order \<Rightarrow> demand_order option" where
  "customer_order_of o' =
     Option.bind (as_text (oi_order_id o')) (\<lambda>i. Option.bind (as_text (oi_customer o')) (\<lambda>c.
     Option.bind (as_int (oi_quantity o')) (\<lambda>q. Option.bind (as_text (oi_due_date o')) (\<lambda>d. Some
       \<lparr> do_id = i, do_customer = c, do_quantity = q, do_due_date = d,
         do_priority = (if oi_priority o' = PStr ''URGENT'' then DP_URGENT else DP_NORMAL),
         do_fulfilled = 0, do_status = OPEN \<rparr>))))"

definition prepare_environment ::
  "scenario_config \<Rightarrow> (nat \<Rightarrow> string) \<Rightarrow> (nat \<Rightarrow> string) \<Rightarrow> rng \<Rightarrow> (manufacturing_env \<times> rng) option" where
  "prepare_environment c uuids walls r =
     Option.bind (environment_settings c) (\<lambda>sc.
     Option.bind (those (map customer_order_of (cf_initial_orders c))) (\<lambda>orders.
       (let (e, r1) = new_manufacturing_env sc uuids walls r;
            e1 = load_order scenario_production_order e;
            e2 = e1\<lparr>me_demand := fold dm_add_order orders (me_demand e1)\<rparr>;
            w = (me_warehouse e2)\<lparr> wh_demand_std := sc_demand_std sc, wh_leadtime_mean := sc_leadtime_mean sc,
                  wh_leadtime_std := sc_leadtime_std sc, wh_avg_demand := sc_avg_demand_per_cycle sc,
                  wh_service_level_target := sc_service_level_target sc \<rparr>
        in Some (e2\<lparr>me_warehouse := snd (recalculate_safety_stock w)\<rparr>, r1))))"

section \<open>State\<close>

text \<open>
  The environment's factory and the one the shared operations work on are the same object;
  \<open>with_core\<close> and \<open>with_env\<close> keep the two components equal.
\<close>

record agent_runtime =
  ar_core :: runtime
  ar_env :: manufacturing_env
  ar_total_cycles :: nat
  ar_ss_breach_cycles :: nat

definition with_core :: "(runtime \<Rightarrow> runtime) \<Rightarrow> agent_runtime \<Rightarrow> agent_runtime" where
  "with_core g a = (let c = g (ar_core a) in a\<lparr> ar_core := c, ar_env := (ar_env a)\<lparr>me_factory := ru_factory c\<rparr> \<rparr>)"

definition with_env :: "manufacturing_env \<Rightarrow> agent_runtime \<Rightarrow> agent_runtime" where
  "with_env e a = a\<lparr> ar_env := e, ar_core := (ar_core a)\<lparr>ru_factory := me_factory e\<rparr> \<rparr>"

definition new_agent_runtime ::
  "manufacturing_env \<Rightarrow> broker \<Rightarrow> member list \<Rightarrow> planning_agent \<Rightarrow> router option \<Rightarrow> (nat \<Rightarrow> string) \<Rightarrow> agent_runtime" where
  "new_agent_runtime e b ms pa r clk =
     \<lparr> ar_core = new_runtime (me_factory e) b ms pa r clk, ar_env = e, ar_total_cycles = 0, ar_ss_breach_cycles = 0 \<rparr>"

definition scenario_agent_interval :: "scenario_config \<Rightarrow> string \<Rightarrow> real result" where
  "scenario_agent_interval c aid = (case map_of (cf_agent_intervals c) aid of
      Some v \<Rightarrow> py_float v
    | None \<Rightarrow> Inr (case map_of AGENT_INTERVALS aid of Some n \<Rightarrow> of_nat n | None \<Rightarrow> 3))"

definition scenario_takt :: "scenario_config \<Rightarrow> real result" where
  "scenario_takt c = bindR (py_float (cf_takt_sec c)) (\<lambda>x. Inr (max (1 / 10) x))"

section \<open>The tick\<close>

definition scenario_say :: "string \<Rightarrow> string \<Rightarrow> string \<Rightarrow> agent_runtime \<Rightarrow> agent_runtime" where
  "scenario_say aid msg level = with_core (say aid msg level)"

text \<open>A finished unit goes to the warehouse, then the demand orders are served.\<close>

definition book_unit :: "product \<Rightarrow> manufacturing_env \<Rightarrow> manufacturing_env" where
  "book_unit p e =
     (let e1 = (if p_status p = GOOD then on_good_finished_unit e else e);
          e2 = env_process_shipments (int (f_cycle (me_factory e1))) e1
      in e2\<lparr>me_warehouse := wh_record_snapshot (me_warehouse e2)\<rparr>)"

definition publish_snapshot :: "agent_runtime \<Rightarrow> dict \<times> agent_runtime" where
  "publish_snapshot a =
     (let snap = get_merged_snapshot (ar_env a)
      in (snap, a\<lparr> ar_core := (ar_core a)\<lparr>ru_snapshot := Some snap\<rparr>, ar_total_cycles := f_cycle (me_factory (ar_env a)),
                   ar_ss_breach_cycles := ar_ss_breach_cycles a + (if wh_ss_breach (me_warehouse (ar_env a)) then 1 else 0) \<rparr>))"

definition say_scrapped :: "product \<Rightarrow> agent_runtime \<Rightarrow> agent_runtime" where
  "say_scrapped p a = (if p_status p = SCRAP
     then scenario_say ''QA'' ((utf8 [0xD3D0, 0xAE30, 0x3A, 0x20]) @ p_serial p @ '' at ''
            @ station_short (''WC-'' @ pad_nat 2 (Suc (p_current_station p)))) ''WARN'' a
     else a)"

definition scenario_dynamics :: "agent_runtime \<Rightarrow> rng \<Rightarrow> agent_runtime \<times> rng" where
  "scenario_dynamics a r = (let (c, r') = apply_dynamics (ar_core a) r in (with_core (\<lambda>_. c) a, r'))"

definition scenario_tick :: "bool \<Rightarrow> agent_runtime \<Rightarrow> rng \<Rightarrow> (string \<times> dict) list \<times> agent_runtime \<times> rng" where
  "scenario_tick mqtt a r =
     (let (res, f, r1) = factory_run_cycle (ru_factory (ar_core a)) r;
          p = cr_product res;
          a1 = with_env (book_unit p ((ar_env a)\<lparr>me_factory := f\<rparr>)) a;
          (snap, a2) = publish_snapshot a1;
          (a3, r2) = scenario_dynamics (say_scrapped p a2) r1;
          out = (if mqtt then (case sensors_payload snap of Inr d \<Rightarrow> [(''factory/sensors'', d)] | Inl _ \<Rightarrow> []) else [])
      in (out, a3, r2))"

section \<open>Events and turns\<close>

text \<open>A new-order event also places the order with the demand model.\<close>

definition demand_order_for :: "customer_order \<Rightarrow> nat \<Rightarrow> demand_order" where
  "demand_order_for od n =
     \<lparr> do_id = ''SIM-'' @ pad_nat 3 n, do_customer = co_customer od, do_quantity = co_quantity od,
       do_due_date = ''2026-04-15'', do_priority = (if co_priority od = URGENT then DP_URGENT else DP_NORMAL),
       do_fulfilled = 0, do_status = OPEN \<rparr>"

definition scenario_event :: "runtime_event \<Rightarrow> agent_runtime \<Rightarrow> rng \<Rightarrow> agent_runtime \<times> rng" where
  "scenario_event ev a r =
     (let (c, r') = apply_event ev (ar_core a) r; a1 = with_core (\<lambda>_. c) a; e = ar_env a1
      in (if ev = E_NEW_ORDER
          then a1\<lparr>ar_env := e\<lparr>me_demand := dm_add_order (demand_order_for (last (f_orders (ru_factory c))) (ru_order_counter c))
                 (me_demand e)\<rparr>\<rparr>
          else a1, r'))"

definition scenario_event_step :: "agent_runtime \<Rightarrow> rng \<Rightarrow> agent_runtime \<times> rng" where
  "scenario_event_step a r = (let (ev, r1) = choose_event r in scenario_event ev a r1)"

definition scenario_agent_turn :: "(broker \<Rightarrow> broker) \<Rightarrow> turn_world \<Rightarrow> nat \<Rightarrow> agent_runtime \<Rightarrow> agent_runtime" where
  "scenario_agent_turn interf w i = with_core (agent_turn interf w i)"

definition scenario_planner_turn ::
  "(broker \<Rightarrow> broker) \<Rightarrow> turn_world \<Rightarrow> cnp_world \<Rightarrow> string \<Rightarrow> agent_runtime \<Rightarrow> agent_runtime" where
  "scenario_planner_turn interf w cw ingest = with_core (planner_turn interf w cw ingest)"

section \<open>Results\<close>

text \<open>The figures of the final report; the registry and the router may be missing.\<close>

definition get_results :: "real \<Rightarrow> real \<Rightarrow> tool_registry option \<Rightarrow> agent_runtime \<Rightarrow> dict" where
  "get_results uptime now tools a =
     (let w = me_warehouse (ar_env a); bm = metrics_to_dict now (b_metrics (ru_broker (ar_core a))) in
      [(''total_cycles'', PInt (int (ar_total_cycles a))), (''total_events'', PInt (int (ru_total_events (ar_core a)))),
       (''cnp_count'', PInt (int (ru_cnp_count (ar_core a)))), (''uptime_sec'', PFloat (py_round 1 uptime)),
       (''warehouse'', PDict [(''final_stock'', PInt (wh_stock w)), (''safety_stock'', PInt (wh_safety_stock w)),
          (''service_level'', PFloat (wh_service_level w)), (''total_shipped'', PInt (wh_total_shipped w)),
          (''total_requested'', PInt (wh_total_requested w)), (''ss_breach_count'', PInt (int (ar_ss_breach_cycles a)))]),
       (''broker'', PDict [(''total_published'', dget_or bm ''total_published'' (PInt 0)),
          (''total_delivered'', dget_or bm ''total_delivered'' (PInt 0)),
          (''avg_latency_ms'', dget_or bm ''avg_latency_ms'' (PFloat 0)),
          (''total_dlq'', dget_or bm ''total_dlq'' (PInt 0))]),
       (''tools'', PDict (case tools of Some t \<Rightarrow> registry_metrics t | None \<Rightarrow> [])),
       (''decision_router'', PDict (case ru_router (ar_core a) of Some r \<Rightarrow> router_metrics_dict (rt_metrics r) | None \<Rightarrow> []))])"

section \<open>Interleavings\<close>

inductive scenario_step :: "agent_runtime \<Rightarrow> agent_runtime \<Rightarrow> bool" where
  ss_tick: "scenario_tick mqtt a r = (out, a', r') \<Longrightarrow> scenario_step a a'"
| ss_event: "\<forall>i. 0 \<le> unif_tape r i \<and> unif_tape r i < 1 \<Longrightarrow> scenario_event_step a r = (a', r') \<Longrightarrow> scenario_step a a'"
| ss_agent: "i < length (ru_members (ar_core a)) \<Longrightarrow> scenario_step a (scenario_agent_turn interf w i a)"
| ss_planner: "scenario_step a (scenario_planner_turn interf w cw ingest a)"

inductive scenario_reachable :: "scenario_config \<Rightarrow> agent_runtime \<Rightarrow> bool" where
  sr_start: "prepare_environment c uuids walls r = Some (e, r') \<Longrightarrow>
     scenario_reachable c (new_agent_runtime e b ms pa router clk)"
| sr_step: "scenario_reachable c a \<Longrightarrow> scenario_step a a' \<Longrightarrow> scenario_reachable c a'"

end
