(* ===== verification/Scenario_Runtime_Laws.thy ===== *)
theory Scenario_Runtime_Laws
  imports Scenario_Runtime Scenario_Laws Runtime_Steps
begin

text \<open>
  Laws of the scenario runtime: the accounts of the warehouse under every interleaving, the
  double booking of a finished unit, and the settings of a scenario file that nothing reads.
\<close>

section \<open>The plant of a scenario\<close>

text \<open>
  Between two ticks the factory's own shelf is empty: a unit either went to a factory order
  or was taken off by the environment. Everything but a tick keeps the counts.
\<close>

definition scenario_factory :: "nat \<Rightarrow> nat \<Rightarrow> factory \<Rightarrow> bool" where
  "scenario_factory p n f \<longleftrightarrow> f_total_produced f = p \<and> f_cycle f = n \<and> f_fg_stock f = 0 \<and> (\<exists>d\<ge>0. factory_bal d f)"

lemma bal_stocked: "factory_bal d f \<Longrightarrow> stocked (f_materials f)"
  by (auto simp: factory_bal_def stocked_def)

interpretation scenario_plant: plant_keeper "scenario_factory p n" for p n
proof
  fix f f' assume f: "scenario_factory p n f" and st: "factory_step f f'" and c: "f_cycle f' = f_cycle f"
  obtain d where d: "0 \<le> d" "factory_bal d f" using f by (auto simp: scenario_factory_def)
  have "factory_bal d f'" by (rule factory_step_inv [OF st d(2)])
  moreover have "f_total_produced f' = f_total_produced f \<and> f_fg_stock f' = f_fg_stock f"
    using st
  proof (cases rule: factory_step.cases)
    case (fs_cycle r res r')
    then show ?thesis using c factory_run_cycle_facts [OF fs_cycle d(2)] by simp
  qed simp_all
  ultimately show "scenario_factory p n f'" using f c d(1) by (auto simp: scenario_factory_def)
next
  show "stocked (f_materials f)" if "scenario_factory p n f" for f
    using that bal_stocked by (auto simp: scenario_factory_def)
qed

section \<open>The warehouse\<close>

definition booked :: "manufacturing_env \<Rightarrow> int" where
  "booked e = wh_stock (me_warehouse e) + wh_total_shipped (me_warehouse e)"

lemma ship_order_booked:
  "wh_stock (snd (env_ship_order sc cyc d w)) + wh_total_shipped (snd (env_ship_order sc cyc d w)) = wh_stock w + wh_total_shipped w"
  by (simp add: env_ship_order_def wh_ship_def Let_def)

lemma ship_loop_booked:
  "wh_stock (snd (env_ship_loop sc cyc ds w)) + wh_total_shipped (snd (env_ship_loop sc cyc ds w)) = wh_stock w + wh_total_shipped w"
  by (induction ds arbitrary: w) (simp_all add: Let_def case_prod_unfold ship_order_booked)

lemma shipments_booked [simp]:
  "booked (env_process_shipments cyc e) = booked e" "me_factory (env_process_shipments cyc e) = me_factory e"
  by (simp_all add: env_process_shipments_def booked_def Let_def case_prod_unfold ship_loop_booked)

text \<open>A tick's bookings: a good unit adds one to the warehouse and leaves the shelf.\<close>

lemma book_unit_facts:
  "booked (book_unit p e) = booked e + (if p_status p = GOOD then 1 else 0)"
  "me_factory (book_unit p e) = (if p_status p = GOOD \<and> f_fg_stock (me_factory e) > 0
     then (me_factory e)\<lparr>f_fg_stock := f_fg_stock (me_factory e) - 1\<rparr> else me_factory e)"
proof -
  have r: "booked (e\<lparr>me_warehouse := wh_record_snapshot (me_warehouse e)\<rparr>) = booked e" for e
    by (simp add: booked_def wh_record_snapshot_def)
  have g: "booked (on_good_finished_unit e) = booked e + 1"
    by (simp add: booked_def on_good_finished_unit_def wh_receive_def Let_def)
  show "booked (book_unit p e) = booked e + (if p_status p = GOOD then 1 else 0)"
    by (simp add: book_unit_def Let_def r g)
  show "me_factory (book_unit p e) = (if p_status p = GOOD \<and> f_fg_stock (me_factory e) > 0
     then (me_factory e)\<lparr>f_fg_stock := f_fg_stock (me_factory e) - 1\<rparr> else me_factory e)"
    by (simp add: book_unit_def Let_def on_good_finished_unit_def)
qed

section \<open>The invariant\<close>

definition scenario_inv :: "int \<Rightarrow> agent_runtime \<Rightarrow> bool" where
  "scenario_inv s0 a \<longleftrightarrow> me_factory (ar_env a) = ru_factory (ar_core a)
     \<and> rt_ok (scenario_factory (f_total_produced (ru_factory (ar_core a))) (ar_total_cycles a)) (ar_core a)
     \<and> booked (ar_env a) = s0 + int (f_total_produced (ru_factory (ar_core a)))
     \<and> ar_ss_breach_cycles a \<le> ar_total_cycles a"

lemma with_core_inv:
  assumes "scenario_inv s0 a" "\<And>p n. rt_ok (scenario_factory p n) (ar_core a) \<Longrightarrow> rt_ok (scenario_factory p n) (g (ar_core a))"
  shows "scenario_inv s0 (with_core g a)"
proof -
  let ?p = "f_total_produced (ru_factory (ar_core a))"
  have "rt_ok (scenario_factory ?p (ar_total_cycles a)) (g (ar_core a))"
    using assms by (simp add: scenario_inv_def)
  moreover from this have "f_total_produced (ru_factory (g (ar_core a))) = ?p"
    by (simp add: rt_ok_def scenario_factory_def)
  ultimately show ?thesis using assms(1) by (simp add: scenario_inv_def with_core_def Let_def booked_def)
qed

lemma scenario_say_inv: "scenario_inv s0 a \<Longrightarrow> scenario_inv s0 (scenario_say aid msg level a)"
  unfolding scenario_say_def by (rule with_core_inv) simp_all

lemma scenario_dynamics_inv: "scenario_inv s0 a \<Longrightarrow> scenario_dynamics a r = (a', r') \<Longrightarrow> scenario_inv s0 a'"
proof -
  assume i: "scenario_inv s0 a" and d: "scenario_dynamics a r = (a', r')"
  obtain c q where c: "apply_dynamics (ar_core a) r = (c, q)" by (rule prod.exhaust)
  have "a' = with_core (\<lambda>_. c) a" using d by (simp add: scenario_dynamics_def c)
  moreover have "scenario_inv s0 (with_core (\<lambda>_. c) a)"
    by (rule with_core_inv [OF i]) (rule scenario_plant.dynamics_ok [OF c])
  ultimately show ?thesis by simp
qed

text \<open>The books after the production cycle, before the maintenance of the line.\<close>

lemma tick_books:
  assumes i: "scenario_inv s0 a" and run: "factory_run_cycle (ru_factory (ar_core a)) r = (res, f, r1)"
  defines "e \<equiv> book_unit (cr_product res) ((ar_env a)\<lparr>me_factory := f\<rparr>)"
  shows "scenario_factory (f_total_produced f) (Suc (ar_total_cycles a)) (me_factory e)"
    "booked e = booked (ar_env a) + (int (f_total_produced f) - int (f_total_produced (ru_factory (ar_core a))))"
    "f_cycle (me_factory e) = Suc (ar_total_cycles a)" "f_total_produced (me_factory e) = f_total_produced f"
    "f_orders (me_factory e) = f_orders f"
proof -
  let ?f0 = "ru_factory (ar_core a)"
  obtain d where d: "0 \<le> d" "factory_bal d ?f0" "f_fg_stock ?f0 = 0" "f_cycle ?f0 = ar_total_cycles a"
    using i by (auto simp: scenario_inv_def rt_ok_def scenario_factory_def)
  note c = factory_run_cycle_facts [OF run d(2)]
  have bal: "factory_bal d f" and fg: "0 \<le> f_fg_stock f" "f_fg_stock f \<le> (if p_status (cr_product res) = GOOD then 1 else 0)"
    using c d(3) by (simp_all add: factory_bal_def)
  have prod: "f_total_produced f = f_total_produced ?f0 + (if p_status (cr_product res) = GOOD then 1 else 0)"
    and cyc: "f_cycle f = Suc (ar_total_cycles a)"
    using c d(4) by (simp_all add: cycle_outcome_def)
  have "booked ((ar_env a)\<lparr>me_factory := f\<rparr>) = booked (ar_env a)" by (simp add: booked_def)
  then show "booked e = booked (ar_env a) + (int (f_total_produced f) - int (f_total_produced ?f0))"
    by (simp add: e_def book_unit_facts prod)
  show me: "f_cycle (me_factory e) = Suc (ar_total_cycles a)" "f_total_produced (me_factory e) = f_total_produced f"
    "f_orders (me_factory e) = f_orders f"
    by (simp_all add: e_def book_unit_facts cyc)
  show "scenario_factory (f_total_produced f) (Suc (ar_total_cycles a)) (me_factory e)"
  proof (cases "f_fg_stock f = 0")
    case True
    then show ?thesis using bal d(1) cyc by (auto simp: e_def book_unit_facts scenario_factory_def)
  next
    case False
    then have "p_status (cr_product res) = GOOD" "f_fg_stock f = 1" using fg by (auto split: if_splits)
    moreover from this have "factory_bal (d + 1) (f\<lparr>f_fg_stock := 0\<rparr>)" using bal by (simp add: factory_bal_def)
    ultimately show ?thesis using d(1) cyc
      by (auto simp: e_def book_unit_facts scenario_factory_def intro!: exI [of _ "d + 1"])
  qed
qed

lemma scenario_tick_inv: "scenario_tick mqtt a r = (out, a', r') \<Longrightarrow> scenario_inv s0 a \<Longrightarrow> scenario_inv s0 a'"
proof -
  assume t: "scenario_tick mqtt a r = (out, a', r')" and i: "scenario_inv s0 a"
  obtain res f r1 where run: "factory_run_cycle (ru_factory (ar_core a)) r = (res, f, r1)" by (rule prod_cases3)
  let ?e = "book_unit (cr_product res) ((ar_env a)\<lparr>me_factory := f\<rparr>)"
  note b = tick_books [OF i run]
  obtain snap a2 where p: "publish_snapshot (with_env ?e a) = (snap, a2)" by (rule prod.exhaust)
  have "scenario_inv s0 a2"
    using p b i by (auto simp: publish_snapshot_def with_env_def scenario_inv_def rt_ok_def Let_def)
  then have s: "scenario_inv s0 (say_scrapped (cr_product res) a2)" by (simp add: say_scrapped_def scenario_say_inv)
  obtain a3 r2 where d: "scenario_dynamics (say_scrapped (cr_product res) a2) r1 = (a3, r2)" by (rule prod.exhaust)
  have "a' = a3" using t by (simp add: scenario_tick_def run p d Let_def)
  then show ?thesis using scenario_dynamics_inv [OF s d] by simp
qed

lemma scenario_event_inv:
  "scenario_inv s0 a \<Longrightarrow> \<forall>i. 0 \<le> unif_tape r i \<and> unif_tape r i < 1 \<Longrightarrow> scenario_event_step a r = (a', r') \<Longrightarrow> scenario_inv s0 a'"
proof -
  assume i: "scenario_inv s0 a" and tape: "\<forall>i. 0 \<le> unif_tape r i \<and> unif_tape r i < 1"
    and ev: "scenario_event_step a r = (a', r')"
  obtain k r1 where k: "choose_event r = (k, r1)" by (rule prod.exhaust)
  obtain c q where c: "apply_event k (ar_core a) r1 = (c, q)" by (rule prod.exhaust)
  have st: "event_step (ar_core a) r = (c, q)" by (simp add: event_step_def k c)
  have w: "scenario_inv s0 (with_core (\<lambda>_. c) a)"
    by (rule with_core_inv [OF i]) (rule scenario_plant.event_step_ok [OF _ tape st])
  have "a' = with_core (\<lambda>_. c) a \<or> (\<exists>m. a' = (with_core (\<lambda>_. c) a)\<lparr>ar_env := (ar_env (with_core (\<lambda>_. c) a))\<lparr>me_demand := m\<rparr>\<rparr>)"
    using ev by (auto simp: scenario_event_step_def scenario_event_def k c Let_def split: if_splits)
  then show ?thesis using w by (auto simp: scenario_inv_def booked_def)
qed

lemma scenario_step_inv: "scenario_step a a' \<Longrightarrow> scenario_inv s0 a \<Longrightarrow> scenario_inv s0 a'"
proof (induction rule: scenario_step.induct)
  case (ss_tick mqtt a r out a' r')
  then show ?case by (rule scenario_tick_inv)
next
  case (ss_event r a a' r')
  from scenario_event_inv [OF ss_event(3,1,2)] show ?case .
next
  case (ss_agent i a interf w)
  then show ?case unfolding scenario_agent_turn_def by (auto intro: with_core_inv agent_turn_ok)
next
  case (ss_planner a interf w cw ingest)
  then show ?case unfolding scenario_planner_turn_def by (rule with_core_inv) (rule scenario_plant.planner_turn_ok)
qed

section \<open>The start\<close>

lemma set_baseline_keys:
  "map fst (fold (\<lambda>(name, b) ss. case map_of ss name of
      Some s \<Rightarrow> AList.update name (s\<lparr> s_baseline := b, s_value := b \<rparr>) ss | None \<Rightarrow> ss) bs ss) = map fst ss"
proof (induction bs arbitrary: ss)
  case (Cons nb bs)
  obtain n b where nb: "nb = (n, b)" by (rule prod.exhaust)
  have "n \<in> set (map fst ss)" if "map_of ss n = Some s" for s
    using that by (metis map_of_eq_None_iff option.distinct(1) set_map)
  then show ?case using Cons.IH by (auto simp: nb AList.update_keys split: option.split)
qed simp

lemma scenario_materials_reachable:
  assumes "factory_reachable f" "0 \<le> sc_material_steel_stock sc"
  shows "factory_reachable (apply_scenario_materials sc f)"
proof (cases "map_of (f_materials f) (utf8 [0xAC15, 0xD310])")
  case None
  then show ?thesis using assms(1) by (simp add: apply_scenario_materials_def)
next
  case (Some m)
  have "factory_step f (apply_scenario_materials sc f)"
    unfolding apply_scenario_materials_def Some option.case by (rule fs_material) (simp add: assms(2))
  then show ?thesis by (rule fr_step [OF assms(1)])
qed

lemma scenario_sensors_reachable: "factory_reachable f \<Longrightarrow> factory_reachable (apply_scenario_sensors sc f)"
proof (cases "f_line f")
  case (Cons press rest)
  assume f: "factory_reachable f"
  let ?ss = "fold (\<lambda>(name, b) ss. case map_of ss name of
              Some s \<Rightarrow> AList.update name (s\<lparr> s_baseline := b, s_value := b \<rparr>) ss | None \<Rightarrow> ss)
            (sc_press_baselines sc) (wc_sensors press)"
  have "factory_step f (f\<lparr>f_line := (f_line f)[0 := press\<lparr>wc_sensors := ?ss\<rparr>]\<rparr>)"
    by (rule fs_station) (use Cons in \<open>simp_all add: ws_sensors set_baseline_keys\<close>)
  from fr_step [OF f this] show ?thesis by (simp add: apply_scenario_sensors_def Cons)
qed (simp add: apply_scenario_sensors_def)

lemma scenario_frame [simp]:
  "f_cycle (apply_scenario_sensors sc f) = f_cycle f" "f_cycle (apply_scenario_materials sc f) = f_cycle f"
  "f_orders (apply_scenario_sensors sc f) = f_orders f" "f_orders (apply_scenario_materials sc f) = f_orders f"
  by (simp_all add: apply_scenario_sensors_def apply_scenario_materials_def split: list.split option.split)

lemma delivered_nonneg: "\<forall>od\<in>set os. order_ok od \<Longrightarrow> 0 \<le> sum_list (map co_delivered os)"
  by (induction os) (auto simp: order_ok_def)

lemma fresh_factory:
  assumes "factory_bal 0 f" "f_cycle f = 0"
  shows "scenario_factory 0 0 f"
proof -
  have "0 \<le> sum_list (map co_delivered (f_orders f))" by (rule delivered_nonneg) (use assms(1) in \<open>simp add: factory_bal_def\<close>)
  then show ?thesis using assms by (auto simp: scenario_factory_def factory_bal_def intro!: exI [of _ 0])
qed

lemma new_env_facts:
  assumes "new_manufacturing_env sc uuids walls r = (e, r')"
  shows "0 \<le> sc_material_steel_stock sc \<Longrightarrow> factory_reachable (me_factory e)" "f_cycle (me_factory e) = 0"
    "booked e = sc_warehouse_stock sc"
proof -
  obtain f r1 where n: "new_factory uuids walls r = (f, r1)" by (rule prod.exhaust)
  have e: "me_factory e = apply_scenario_sensors sc (apply_scenario_materials sc f)"
    "wh_stock (me_warehouse e) = sc_warehouse_stock sc" "wh_total_shipped (me_warehouse e) = 0"
    using assms by (auto simp: new_manufacturing_env_def n new_warehouse_def)
  show "factory_reachable (me_factory e)" if "0 \<le> sc_material_steel_stock sc"
    unfolding e by (rule scenario_sensors_reachable, rule scenario_materials_reachable) (rule fr_new [OF n], rule that)
  show "f_cycle (me_factory e) = 0" by (simp add: e new_factory_inv(2) [OF n])
  show "booked e = sc_warehouse_stock sc" by (simp add: booked_def e)
qed

lemma settings_fields:
  assumes "environment_settings c = Some sc"
  shows "cf_warehouse_stock c = PInt (sc_warehouse_stock sc)" "cf_material_steel_stock c = PInt (sc_material_steel_stock sc)"
proof -
  have i: "as_int v = Some k \<Longrightarrow> v = PInt k" for v k by (cases v) simp_all
  show "cf_warehouse_stock c = PInt (sc_warehouse_stock sc)" "cf_material_steel_stock c = PInt (sc_material_steel_stock sc)"
    using assms by (auto simp: environment_settings_def bind_eq_Some_conv dest!: i)
qed

lemma prepared_facts:
  assumes "prepare_environment c uuids walls r = Some (e, r')" "cf_material_steel_stock c = PInt k" "0 \<le> k"
  shows "\<exists>n. cf_warehouse_stock c = PInt n \<and> booked e = n" "scenario_factory 0 0 (me_factory e)"
proof -
  obtain sc os where sc: "environment_settings c = Some sc" "those (map customer_order_of (cf_initial_orders c)) = Some os"
    using assms(1) by (auto simp: prepare_environment_def bind_eq_Some_conv)
  obtain e0 q where n: "new_manufacturing_env sc uuids walls r = (e0, q)" by (rule prod.exhaust)
  have e: "me_factory e = me_factory e0" "booked e = booked e0"
    using assms(1) by (auto simp: prepare_environment_def sc n Let_def case_prod_unfold load_order_def
        recalculate_safety_stock_def booked_def)
  have "0 \<le> sc_material_steel_stock sc" using settings_fields(2) [OF sc(1)] assms(2,3) by simp
  from new_env_facts(1) [OF n this] have "factory_bal 0 (me_factory e0)" by (rule factory_reachable_inv)
  then show "scenario_factory 0 0 (me_factory e)" unfolding e by (rule fresh_factory) (rule new_env_facts(2) [OF n])
  show "\<exists>n. cf_warehouse_stock c = PInt n \<and> booked e = n"
    using settings_fields(1) [OF sc(1)] new_env_facts(3) [OF n] e(2) by simp
qed

lemma scenario_reachable_inv:
  assumes "scenario_reachable c a" "cf_material_steel_stock c = PInt k" "0 \<le> k"
  shows "\<exists>n. cf_warehouse_stock c = PInt n \<and> scenario_inv n a"
  using assms
proof (induction rule: scenario_reachable.induct)
  case (sr_start c uuids walls r e r' b ms pa router clk)
  obtain n where n: "cf_warehouse_stock c = PInt n" "booked e = n" using prepared_facts(1) [OF sr_start] by blast
  have f: "scenario_factory 0 0 (me_factory e)" by (rule prepared_facts(2) [OF sr_start])
  have "scenario_inv n (new_agent_runtime e b ms pa router clk)"
    using n(2) f by (auto simp: scenario_inv_def new_agent_runtime_def new_runtime_def rt_ok_def scenario_factory_def)
  with n(1) show ?case by blast
next
  case (sr_step c a a')
  then show ?case using scenario_step_inv by blast
qed

section \<open>The accounts\<close>

lemma scenario_dynamics_frame [simp]:
  "f_orders (ru_factory (fst (apply_dynamics rt r))) = f_orders (ru_factory rt)"
  "f_total_produced (ru_factory (fst (apply_dynamics rt r))) = f_total_produced (ru_factory rt)"
  by (simp_all add: apply_dynamics_def Let_def case_prod_unfold)

lemma bal_deliveries:
  assumes "factory_bal d f" "0 \<le> d"
  shows "0 \<le> sum_list (map co_delivered (f_orders f)) \<and> sum_list (map co_delivered (f_orders f)) \<le> int (f_total_produced f)"
  using assms delivered_nonneg [of "f_orders f"] by (auto simp: factory_bal_def)

definition default_scenario :: scenario_config where
  "default_scenario = projr (scenario_from_dict (PDict []))"

lemma default_scenario_fields:
  "cf_material_steel_stock default_scenario = PInt 850" "cf_warehouse_stock default_scenario = PInt 120"
  "cf_initial_orders default_scenario = default_orders" "environment_settings default_scenario \<noteq> None"
  by (simp_all add: default_scenario_def scenario_from_dict_def load_sensors_def get_nested_def dget_or_def py_or_def
      press_defaults_def weld_defaults_def load_sensor_def section_of_def event_probabilities_from_dict_def
      environment_settings_def sensor_baselines_def sensor_config_of_def)

lemma default_prepared: "\<exists>e r'. prepare_environment default_scenario uuids walls r = Some (e, r')"
proof -
  obtain sc where "environment_settings default_scenario = Some sc" using default_scenario_fields(4) by blast
  moreover have "those (map customer_order_of default_orders) \<noteq> None"
    by (simp add: default_orders_def customer_order_of_def)
  ultimately show ?thesis
    by (auto simp: prepare_environment_def default_scenario_fields(3) Let_def case_prod_unfold)
qed

definition demo_env :: manufacturing_env where
  "demo_env = fst (the (prepare_environment default_scenario (\<lambda>_. ''u'') (\<lambda>_. ''t'') demo_rng))"

definition demo_batch :: agent_runtime where
  "demo_batch = new_agent_runtime demo_env (the (snd alerted_planner)) demo_members (fst demo_planner) (Some demo_router) (\<lambda>_. ''12:00:00'')"

lemma demo_batch_reachable: "scenario_reachable default_scenario demo_batch"
proof -
  obtain e r' where p: "prepare_environment default_scenario (\<lambda>_. ''u'') (\<lambda>_. ''t'') demo_rng = Some (e, r')"
    using default_prepared by blast
  then show ?thesis unfolding demo_batch_def demo_env_def p by (simp add: sr_start [OF p])
qed

text \<open>
  C4 (\<open>scenario_accounts\<close>): under any interleaving of ticks, events, turns and rounds of a
  scenario, every good unit that was ever produced is in the finished goods warehouse or was
  shipped from it, on top of the configured stock; the factory's own shelf is empty between
  ticks; at most as many units as were produced went to the factory's own orders; stations
  run at 40 to 110 percent, breaches are counted at most once per cycle, the cycle counter is
  the factory's, the log is bounded and the round flag is down.
\<close>

theorem scenario_accounts:
  assumes "scenario_reachable c a" "cf_material_steel_stock c = PInt k" "0 \<le> k"
  shows "\<exists>n. cf_warehouse_stock c = PInt n
    \<and> wh_stock (me_warehouse (ar_env a)) + wh_total_shipped (me_warehouse (ar_env a))
        = n + int (f_total_produced (me_factory (ar_env a)))
    \<and> f_fg_stock (me_factory (ar_env a)) = 0
    \<and> 0 \<le> sum_list (map co_delivered (f_orders (me_factory (ar_env a))))
    \<and> sum_list (map co_delivered (f_orders (me_factory (ar_env a)))) \<le> int (f_total_produced (me_factory (ar_env a)))
    \<and> (\<forall>w\<in>set (f_line (me_factory (ar_env a))). 40 \<le> wc_speed_pct w \<and> wc_speed_pct w \<le> 110)
    \<and> ar_ss_breach_cycles a \<le> ar_total_cycles a \<and> ar_total_cycles a = f_cycle (me_factory (ar_env a))
    \<and> length (lb_entries (ru_log (ar_core a))) \<le> 500 \<and> \<not> ru_cnp_in_progress (ar_core a)"
proof -
  obtain n where n: "cf_warehouse_stock c = PInt n" "scenario_inv n a" using scenario_reachable_inv [OF assms] by blast
  let ?f = "me_factory (ar_env a)"
  have f: "?f = ru_factory (ar_core a)" "rt_ok (scenario_factory (f_total_produced ?f) (ar_total_cycles a)) (ar_core a)"
    and b: "booked (ar_env a) = n + int (f_total_produced ?f)" "ar_ss_breach_cycles a \<le> ar_total_cycles a"
    using n(2) by (auto simp: scenario_inv_def)
  then obtain d where d: "0 \<le> d" "factory_bal d ?f" "f_fg_stock ?f = 0" "f_cycle ?f = ar_total_cycles a"
    by (auto simp: rt_ok_def scenario_factory_def)
  have "\<forall>w\<in>set (f_line ?f). 40 \<le> wc_speed_pct w \<and> wc_speed_pct w \<le> 110"
    using d(2) wc_reachable_wf by (auto simp: factory_bal_def wc_wf_def)
  with n(1) b d f(2) bal_deliveries [OF d(2,1)] show ?thesis by (auto simp: booked_def rt_ok_def)
qed

theorem scenario_accounts_witness:
  "\<exists>n. wh_stock (me_warehouse (ar_env (fst (snd (scenario_tick True demo_batch demo_rng)))))
     + wh_total_shipped (me_warehouse (ar_env (fst (snd (scenario_tick True demo_batch demo_rng)))))
     = 120 + int n"
proof -
  obtain out a' r' where t: "scenario_tick True demo_batch demo_rng = (out, a', r')" by (rule prod_cases3)
  from scenario_accounts [OF sr_step [OF demo_batch_reachable ss_tick [OF t]] default_scenario_fields(1)] show ?thesis
    by (auto simp: t default_scenario_fields(2))
qed

text \<open>
  C36 (\<open>units_booked_twice\<close>): as long as one of the factory's own orders is open, a unit that a
  tick produces is delivered to that order and also enters the warehouse, from which the
  scenario's demand is served: both books grow by the production of the tick.
\<close>

theorem units_booked_twice:
  assumes "scenario_reachable c a" "cf_material_steel_stock c = PInt k" "0 \<le> k"
    and "scenario_tick mqtt a r = (out, a', r')"
    and "\<exists>od\<in>set (f_orders (me_factory (ar_env a))). \<not> co_is_complete od"
  shows "sum_list (map co_delivered (f_orders (me_factory (ar_env a')))) - sum_list (map co_delivered (f_orders (me_factory (ar_env a))))
      = int (f_total_produced (me_factory (ar_env a'))) - int (f_total_produced (me_factory (ar_env a)))
    \<and> wh_stock (me_warehouse (ar_env a')) + wh_total_shipped (me_warehouse (ar_env a'))
      - (wh_stock (me_warehouse (ar_env a)) + wh_total_shipped (me_warehouse (ar_env a)))
      = int (f_total_produced (me_factory (ar_env a'))) - int (f_total_produced (me_factory (ar_env a)))"
proof -
  obtain n where i: "scenario_inv n a" using scenario_reachable_inv [OF assms(1-3)] by blast
  have i': "scenario_inv n a'" by (rule scenario_tick_inv [OF assms(4) i])
  obtain res f r1 where run: "factory_run_cycle (ru_factory (ar_core a)) r = (res, f, r1)" by (rule prod_cases3)
  have same: "me_factory (ar_env a) = ru_factory (ar_core a)" using i by (simp add: scenario_inv_def)
  obtain d where d: "factory_bal d (ru_factory (ar_core a))" "f_fg_stock (ru_factory (ar_core a)) = 0"
    using i by (auto simp: scenario_inv_def rt_ok_def scenario_factory_def)
  have "f_fg_stock f = 0" using good_unit_leaves [OF run d] assms(5) by (simp add: same)
  moreover have "factory_bal d f" using factory_run_cycle_facts [OF run d(1)] by simp
  ultimately have f: "sum_list (map co_delivered (f_orders f)) - sum_list (map co_delivered (f_orders (ru_factory (ar_core a))))
      = int (f_total_produced f) - int (f_total_produced (ru_factory (ar_core a)))"
    using d by (simp add: factory_bal_def)
  have "f_orders (me_factory (ar_env a')) = f_orders f \<and> f_total_produced (me_factory (ar_env a')) = f_total_produced f"
    using assms(4) tick_books(4,5) [OF i run]
    by (auto simp: scenario_tick_def run Let_def case_prod_unfold publish_snapshot_def with_env_def scenario_dynamics_def
        with_core_def say_scrapped_def scenario_say_def)
  with f i i' show ?thesis by (simp add: same scenario_inv_def booked_def)
qed

lemma prepared_orders_open:
  assumes "prepare_environment c uuids walls r = Some (e, r')"
  shows "\<exists>od\<in>set (f_orders (me_factory e)). \<not> co_is_complete od"
proof -
  obtain f q where n: "new_factory uuids walls r = (f, q)" by (rule prod.exhaust)
  obtain os q' where o: "init_orders 0 order_customers r = (os, q')" by (rule prod.exhaust)
  have "f_orders f = os" using n by (auto simp: new_factory_def o Let_def case_prod_unfold)
  moreover have "f_orders (me_factory e) = f_orders f"
    using assms by (auto simp: prepare_environment_def bind_eq_Some_conv new_manufacturing_env_def n Let_def load_order_def)
  moreover have "os \<noteq> []" using init_orders_ok [OF o] by (auto simp: order_customers_def)
  moreover from this have "\<forall>od\<in>set os. \<not> co_is_complete od" using init_orders_ok [OF o] by (auto simp: co_is_complete_def)
  ultimately show ?thesis by (metis hd_in_set)
qed

theorem units_booked_twice_witness:
  "sum_list (map co_delivered (f_orders (me_factory (ar_env (fst (snd (scenario_tick True demo_batch demo_rng)))))))
     - sum_list (map co_delivered (f_orders (me_factory (ar_env demo_batch))))
   = wh_stock (me_warehouse (ar_env (fst (snd (scenario_tick True demo_batch demo_rng)))))
     + wh_total_shipped (me_warehouse (ar_env (fst (snd (scenario_tick True demo_batch demo_rng)))))
     - (wh_stock (me_warehouse (ar_env demo_batch)) + wh_total_shipped (me_warehouse (ar_env demo_batch)))"
proof -
  obtain out a' r' where t: "scenario_tick True demo_batch demo_rng = (out, a', r')" by (rule prod_cases3)
  obtain e q where "prepare_environment default_scenario (\<lambda>_. ''u'') (\<lambda>_. ''t'') demo_rng = Some (e, q)"
    using default_prepared by blast
  then have "\<exists>od\<in>set (f_orders (me_factory (ar_env demo_batch))). \<not> co_is_complete od"
    using prepared_orders_open by (simp add: demo_batch_def demo_env_def new_agent_runtime_def)
  from units_booked_twice [OF demo_batch_reachable default_scenario_fields(1) _ t this] show ?thesis by (simp add: t)
qed

section \<open>Settings without effect\<close>

lemma safety_stock_unused [simp]:
  "apply_scenario_materials (sc\<lparr>sc_warehouse_safety_stock := n\<rparr>) f = apply_scenario_materials sc f"
  "apply_scenario_sensors (sc\<lparr>sc_warehouse_safety_stock := n\<rparr>) f = apply_scenario_sensors sc f"
  by (simp_all add: apply_scenario_materials_def apply_scenario_sensors_def split: option.split list.split)

text \<open>
  C35 (\<open>dead_settings\<close>): the environment a scenario starts with does not depend on the file's
  safety stock (the runner recomputes it), on the noise and drift of the press sensors, on
  the weld sensors, weld wire, shielding gas, restock threshold and order quantities, or on
  any event probability.
\<close>

theorem dead_settings:
  "map_option (\<lambda>(e, r'). (me_factory e, me_warehouse e, me_demand e, me_production_order e, r'))
     (prepare_environment (c\<lparr> cf_warehouse_safety_stock := PInt n,
        cf_press_sensors := map (\<lambda>(name, s). (name, s\<lparr> sk_noise_std := noise name, sk_drift_rate := drift name \<rparr>)) (cf_press_sensors c),
        cf_weld_sensors := weld, cf_material_weld_wire := wire, cf_material_shield_gas := gas,
        cf_material_restock_threshold := threshold, cf_order_quantities := quantities, cf_events := events \<rparr>) uuids walls r)
   = map_option (\<lambda>(e, r'). (me_factory e, me_warehouse e, me_demand e, me_production_order e, r'))
     (prepare_environment (c\<lparr>cf_warehouse_safety_stock := PInt m\<rparr>) uuids walls r)"
  (is "map_option ?v (prepare_environment ?c uuids walls r) = map_option ?v (prepare_environment ?d uuids walls r)")
proof -
  have b: "sensor_baselines (cf_press_sensors ?c) = sensor_baselines (cf_press_sensors c)"
    by (simp add: sensor_baselines_def o_def case_prod_unfold)
  have s: "environment_settings ?c = map_option (\<lambda>sc. sc\<lparr>sc_warehouse_safety_stock := n\<rparr>) (environment_settings ?d)"
    using b by (simp add: environment_settings_def map_option_bind o_def)
  show ?thesis
  proof (cases "environment_settings ?d")
    case None
    then have "environment_settings ?c = None" using s by simp
    with None show ?thesis by (simp add: prepare_environment_def)
  next
    case (Some sc)
    then have "environment_settings ?c = Some (sc\<lparr>sc_warehouse_safety_stock := n\<rparr>)" using s by simp
    moreover have "cf_initial_orders ?c = cf_initial_orders ?d" by simp
    ultimately show ?thesis unfolding prepare_environment_def Some
      by (cases "those (map customer_order_of (cf_initial_orders ?d))")
        (simp_all add: new_manufacturing_env_def load_order_def
          recalculate_safety_stock_def ss_components_def Let_def case_prod_unfold)
  qed
qed

end
