(* ===== verification/Text_Layout.thy ===== *)
theory Text_Layout
  imports Py_Text
begin

text \<open>
  The length of a text in code points and the alignment of a field of an f-string:
  \<open>{s:<w}\<close>, \<open>{s:>w}\<close> and \<open>{s:^w}\<close>.
\<close>

definition code_points :: "string \<Rightarrow> nat" where
  "code_points s = length (filter (\<lambda>c. \<not> is_cont_byte c) s)"

definition align_left :: "nat \<Rightarrow> string \<Rightarrow> string" where
  "align_left w s = s @ replicate (w - code_points s) (CHR 0x20)"

definition align_right :: "nat \<Rightarrow> string \<Rightarrow> string" where
  "align_right w s = replicate (w - code_points s) (CHR 0x20) @ s"

definition align_center :: "nat \<Rightarrow> string \<Rightarrow> string" where
  "align_center w s = (let p = w - code_points s in replicate (p div 2) (CHR 0x20) @ s @ replicate (p - p div 2) (CHR 0x20))"

definition repeat_text :: "nat \<Rightarrow> string \<Rightarrow> string" where
  "repeat_text n s = concat (replicate n s)"

text \<open>A field is padded to its width and never cut.\<close>

lemma code_points_append [simp]: "code_points (s @ t) = code_points s + code_points t"
  by (simp add: code_points_def)

lemma code_points_blanks [simp]: "code_points (replicate n (CHR 0x20)) = n"
  by (simp add: code_points_def is_cont_byte_def)

lemma aligned_width:
  "code_points (align_left w s) = max w (code_points s)"
  "code_points (align_right w s) = max w (code_points s)"
  "code_points (align_center w s) = max w (code_points s)"
  by (simp_all add: align_left_def align_right_def align_center_def Let_def max_def)

lemma code_points_take: "code_points (utf8_take n s) = min n (code_points s)"
  by (induction n s rule: utf8_take.induct) (auto simp: code_points_def split: nat.split)

end
