(* ===== verification/Compare.thy ===== *)
theory Compare
  imports Scenario_Runtime Text_Layout
begin

text \<open>
  \<open>compare_results.py\<close>: the table, the analysis and the rows that put the result files of
  several runs side by side, and \<open>run_scenario.py\<close>'s result document, which such a file holds. A
  file is its name and what reading it gives: nothing (missing or malformed) or a value. Colours,
  the warning text of a file that could not be read and the writing of the report are output.
\<close>

section \<open>Result documents\<close>

definition run_results :: "scenario_config \<Rightarrow> int \<Rightarrow> int \<Rightarrow> string \<Rightarrow> dict \<Rightarrow> dict" where
  "run_results sc stock0 ss0 timestamp results =
     dset ''timestamp'' (PStr timestamp)
       (dset ''initial_state'' (PDict [(''stock'', PInt stock0), (''safety_stock'', PInt ss0)])
         (dset ''scenario'' (PDict (scenario_to_dict sc)) results))"

type_synonym result_file = "string \<times> pyval option"

fun read_dict :: "pyval option \<Rightarrow> dict option" where
  "read_dict (Some (PDict d)) = Some d"
| "read_dict _ = None"

definition loaded_results :: "result_file list \<Rightarrow> dict list" where
  "loaded_results fs = List.map_filter (\<lambda>(name, v). map_option (dset ''_file'' (PStr name)) (read_dict v)) fs"

section \<open>Fields\<close>

text \<open>\<open>r.get(section, {}).get(key, 0)\<close>.\<close>

definition section_value :: "string \<Rightarrow> string \<Rightarrow> dict \<Rightarrow> pyval result" where
  "section_value sec k r = bindR (dict_at r sec) (\<lambda>d. Inr (dget_or d k (PInt 0)))"

definition scenario_name :: "dict \<Rightarrow> pyval result" where
  "scenario_name r = bindR (dict_at r ''scenario'') (\<lambda>d. bindR (item_at r ''_file'') (\<lambda>f. Inr (dget_or d ''name'' f)))"

fun format_val :: "pyval \<Rightarrow> string \<Rightarrow> string" where
  "format_val PNone f = ''-''"
| "format_val (PFloat x) f = (if f = ''pct'' then fmt_pct 1 x else fmt_fixed 2 x)"
| "format_val v f = py_str v"

definition status_icon :: "real \<Rightarrow> real \<Rightarrow> real \<Rightarrow> bool \<Rightarrow> string" where
  "status_icon val good warn higher_is_better =
     (if higher_is_better then (if val \<ge> good then ''+'' else if val \<ge> warn then ''!'' else ''x'')
      else (if val \<le> good then ''+'' else if val \<le> warn then ''!'' else ''x''))"

section \<open>The table\<close>

datatype metric_tag = Plain | SL | Breach | DLQ

type_synonym metric = "string \<times> (dict \<Rightarrow> pyval result) \<times> metric_tag"

definition top_value :: "string \<Rightarrow> dict \<Rightarrow> pyval result" where
  "top_value k r = Inr (dget_or r k (PInt 0))"

definition formatted :: "string \<Rightarrow> (dict \<Rightarrow> pyval result) \<Rightarrow> dict \<Rightarrow> pyval result" where
  "formatted f g r = bindR (g r) (\<lambda>v. Inr (PStr (format_val v f)))"

definition METRICS_GROUPS :: "(string \<times> metric list) list" where
  "METRICS_GROUPS = [
     ((utf8 [0x5B, 0xC2DC, 0xC2A4, 0xD15C, 0x5D]), [
        ((utf8 [0xCD1D, 0x20, 0xC0AC, 0xC774, 0xD074]), top_value ''total_cycles'', Plain),
        ((utf8 [0xCD1D, 0x20, 0xC774, 0xBCA4, 0xD2B8]), top_value ''total_events'', Plain),
        ((utf8 [0x43, 0x4E, 0x50, 0x20, 0xD611, 0xC0C1]), top_value ''cnp_count'', Plain),
        ((utf8 [0xC2E4, 0xD589, 0x20, 0xC2DC, 0xAC04, 0x28, 0xCD08, 0x29]), top_value ''uptime_sec'', Plain)]),
     ((utf8 [0x5B, 0xC7AC, 0xACE0, 0xB7, 0xB0A9, 0xAE30, 0x5D]), [
        ((utf8 [0xCD5C, 0xC885, 0x20, 0xC7AC, 0xACE0]), section_value ''warehouse'' ''final_stock'', Plain),
        ((utf8 [0xC548, 0xC804, 0xC7AC, 0xACE0, 0x28, 0x53, 0x53, 0x29]), section_value ''warehouse'' ''safety_stock'', Plain),
        ((utf8 [0xB0A9, 0xAE30, 0x20, 0xB2EC, 0xC131, 0xB960]), formatted ''pct'' (section_value ''warehouse'' ''service_level''), SL),
        ((utf8 [0xCD1D, 0x20, 0xCD9C, 0xD558]), section_value ''warehouse'' ''total_shipped'', Plain),
        ((utf8 [0xCD1D, 0x20, 0xC694, 0xCCAD]), section_value ''warehouse'' ''total_requested'', Plain),
        ((utf8 [0x53, 0x53, 0x20, 0xC704, 0xBC18, 0x20, 0xD69F, 0xC218]), section_value ''warehouse'' ''ss_breach_count'', Breach)]),
     ((utf8 [0x5B, 0xD1B5, 0xC2E0, 0x5D]), [
        ((utf8 [0xBE0C, 0xB85C, 0xCEE4, 0x20, 0xBA54, 0xC2DC, 0xC9C0]), section_value ''broker'' ''total_published'', Plain),
        ((utf8 [0xD3C9, 0xADE0, 0x20, 0xC9C0, 0xC5F0, 0x28, 0x6D, 0x73, 0x29]), formatted '''' (section_value ''broker'' ''avg_latency_ms''), Plain),
        ((utf8 [0xC2E4, 0xD328, 0x28, 0x44, 0x4C, 0x51, 0x29]), section_value ''broker'' ''total_dlq'', DLQ)]),
     ((utf8 [0x5B, 0x41, 0x49, 0x20, 0xD310, 0xB2E8, 0x5D]), [
        ((utf8 [0x41, 0x49, 0x20, 0xB3C4, 0xAD6C, 0x20, 0xD638, 0xCD9C]), section_value ''tools'' ''total_calls'', Plain),
        ((utf8 [0xADDC, 0xCE59, 0x20, 0xAE30, 0xBC18, 0x20, 0xD310, 0xB2E8]), section_value ''decision_router'' ''rule_decisions'', Plain),
        ((utf8 [0x4C, 0x4C, 0x4D, 0x20, 0xAE30, 0xBC18, 0x20, 0xD310, 0xB2E8]), section_value ''decision_router'' ''llm_decisions'', Plain)])]"

definition icon_of :: "real \<Rightarrow> real \<Rightarrow> bool \<Rightarrow> string \<Rightarrow> string \<Rightarrow> dict \<Rightarrow> string result" where
  "icon_of good warn up sec k r =
     bindR (section_value sec k r) (\<lambda>v. bindR (py_num v) (\<lambda>x. Inr (status_icon x good warn up @ '' '')))"

fun tag_icon :: "metric_tag \<Rightarrow> dict \<Rightarrow> string result" where
  "tag_icon Plain r = Inr []"
| "tag_icon SL r = icon_of (95 / 100) (90 / 100) True ''warehouse'' ''service_level'' r"
| "tag_icon Breach r = icon_of 0 3 False ''warehouse'' ''ss_breach_count'' r"
| "tag_icon DLQ r = icon_of 0 2 False ''broker'' ''total_dlq'' r"

definition table_cell :: "(dict \<Rightarrow> pyval result) \<Rightarrow> metric_tag \<Rightarrow> dict \<Rightarrow> string result" where
  "table_cell extract tag r =
     bindR (extract r) (\<lambda>v. bindR (tag_icon tag r) (\<lambda>i.
       Inr ('' '' @ align_right 18 (i @ py_str v) @ (utf8 [0x20, 0x2502]))))"

definition table_row :: "dict list \<Rightarrow> metric \<Rightarrow> string result" where
  "table_row rs m = (case m of (label, extract, tag) \<Rightarrow>
     bindR (mapR (table_cell extract tag) rs) (\<lambda>cells.
       Inr (''    '' @ align_left 16 label @ (utf8 [0x20, 0x2502]) @ concat cells)))"

definition total_width :: "dict list \<Rightarrow> nat" where
  "total_width rs = 18 + 4 + 21 * length rs"

definition group_lines :: "dict list \<Rightarrow> string \<times> metric list \<Rightarrow> string list result" where
  "group_lines rs g = bindR (mapR (table_row rs) (snd g)) (\<lambda>rows.
     Inr ([''  '' @ fst g] @ rows @ [''  '' @ repeat_text (total_width rs - 2) (utf8 [0x2500])]))"

fun column_name :: "pyval \<Rightarrow> string result" where
  "column_name (PStr s) = Inr (if code_points s > 18 then utf8_take 16 s @ ''..'' else s)"
| "column_name _ = Inl TypeError"

definition header_line :: "dict list \<Rightarrow> string result" where
  "header_line rs = bindR (mapR (\<lambda>r. bindR (scenario_name r) column_name) rs) (\<lambda>names.
     Inr (''  '' @ align_left 18 (utf8 [0x4B, 0x50, 0x49, 0x20, 0xD56D, 0xBAA9]) @ (utf8 [0x20, 0x2502]) @ concat (map (\<lambda>n. '' '' @ align_center 19 n @ (utf8 [0x2502])) names)))"

section \<open>The analysis\<close>

text \<open>Comparing two values with \<open>>\<close> and \<open>==\<close>: numbers or texts. Lists are not compared by the model.\<close>

fun py_gt :: "pyval \<Rightarrow> pyval \<Rightarrow> bool result" where
  "py_gt (PStr a) (PStr b) = Inr (str_less b a)"
| "py_gt v w = bindR (py_num v) (\<lambda>x. bindR (py_num w) (\<lambda>y. Inr (x > y)))"

definition py_same :: "pyval \<Rightarrow> pyval \<Rightarrow> bool" where
  "py_same v w \<longleftrightarrow> (case (py_num v, py_num w) of (Inr x, Inr y) \<Rightarrow> x = y | _ \<Rightarrow> v = w)"

type_synonym score = "pyval \<times> pyval"

text \<open>\<open>max(xs, key=lambda x: x[1])\<close> and \<open>min\<close>: the first extreme element.\<close>

definition better :: "score \<Rightarrow> score \<Rightarrow> score result" where
  "better x best = bindR (py_gt (snd x) (snd best)) (\<lambda>g. Inr (if g then x else best))"

definition worse :: "score \<Rightarrow> score \<Rightarrow> score result" where
  "worse x best = bindR (py_gt (snd best) (snd x)) (\<lambda>g. Inr (if g then x else best))"

definition extreme :: "(score \<Rightarrow> score \<Rightarrow> score result) \<Rightarrow> score list \<Rightarrow> score result" where
  "extreme f xs = (case xs of [] \<Rightarrow> Inl ValueError | x # xs \<Rightarrow> foldR f xs x)"

definition scored :: "(dict \<Rightarrow> pyval result) \<Rightarrow> dict list \<Rightarrow> score list result" where
  "scored g rs = mapR (\<lambda>r. bindR (scenario_name r) (\<lambda>n. bindR (g r) (\<lambda>v. Inr (n, v)))) rs"

definition service_line :: "dict list \<Rightarrow> string list result" where
  "service_line rs = bindR (scored (section_value ''warehouse'' ''service_level'') rs) (\<lambda>s.
     bindR (extreme better s) (\<lambda>b. bindR (extreme worse s) (\<lambda>w.
       if py_same (snd b) (snd w) then Inr []
       else bindR (fmt_pct_val 1 (snd b)) (\<lambda>pb. bindR (fmt_pct_val 1 (snd w)) (\<lambda>pw.
         Inr [(utf8 [0xB0A9, 0xAE30, 0xC728, 0x20, 0xCD5C, 0xACE0, 0x3A, 0x20]) @ py_str (fst b) @ '' ('' @ pb @ (utf8 [0x29, 0x20, 0x7C, 0x20, 0xCD5C, 0xC800, 0x3A, 0x20]) @ py_str (fst w) @ '' ('' @ pw @ '')'']))))) "

definition most_line :: "string \<Rightarrow> string \<Rightarrow> (dict \<Rightarrow> pyval result) \<Rightarrow> dict list \<Rightarrow> string list result" where
  "most_line lead tail g rs = bindR (scored g rs) (\<lambda>s. bindR (extreme better s) (\<lambda>m.
     bindR (py_gt (snd m) (PInt 0)) (\<lambda>pos.
       Inr (if pos then [lead @ py_str (fst m) @ '' ('' @ py_str (snd m) @ tail] else []))))"

definition stock_line :: "dict list \<Rightarrow> string list result" where
  "stock_line rs = bindR (scored (section_value ''warehouse'' ''final_stock'') rs) (\<lambda>s.
     bindR (extreme worse s) (\<lambda>lo. bindR (extreme better s) (\<lambda>hi.
       Inr (if py_same (snd lo) (snd hi) then []
            else [(utf8 [0xCD5C, 0xC885, 0x20, 0xC7AC, 0xACE0, 0x20, 0xBC94, 0xC704, 0x3A, 0x20]) @ py_str (fst lo) @ ''('' @ py_str (snd lo) @ (utf8 [0xAC1C, 0x29, 0x20, 0x7E, 0x20])
                   @ py_str (fst hi) @ ''('' @ py_str (snd hi) @ (utf8 [0xAC1C, 0x29])]))))"

definition analyze_winners :: "dict list \<Rightarrow> string list result" where
  "analyze_winners rs =
     (if length rs < 2 then Inr []
      else bindR (service_line rs) (\<lambda>a.
           bindR (most_line (utf8 [0x43, 0x4E, 0x50, 0x20, 0xD611, 0xC0C1, 0x20, 0xCD5C, 0xB2E4, 0x3A, 0x20]) (utf8 [0xD68C, 0x29, 0x20, 0x2014, 0x20, 0xC704, 0xAE30, 0x20, 0xB300, 0xC751, 0x20, 0xBE48, 0xB3C4, 0x20, 0xC9C0, 0xD45C]) (top_value ''cnp_count'') rs) (\<lambda>b.
           bindR (most_line (utf8 [0x5B, 0xC8FC, 0xC758, 0x5D, 0x20, 0xC548, 0xC804, 0xC7AC, 0xACE0, 0x20, 0xC704, 0xBC18, 0x20, 0xCD5C, 0xB2E4, 0x3A, 0x20]) (utf8 [0xD68C, 0x29]) (section_value ''warehouse'' ''ss_breach_count'') rs) (\<lambda>c.
           bindR (stock_line rs) (\<lambda>d. Inr (a @ b @ c @ d))))))"

section \<open>The comparison\<close>

definition json_row :: "dict \<Rightarrow> dict result" where
  "json_row r =
     bindR (scenario_name r) (\<lambda>name. bindR (item_at r ''_file'') (\<lambda>file_name.
     bindR (section_value ''warehouse'' ''final_stock'' r) (\<lambda>stock. bindR (section_value ''warehouse'' ''safety_stock'' r) (\<lambda>ss.
     bindR (section_value ''warehouse'' ''service_level'' r) (\<lambda>sl. bindR (section_value ''warehouse'' ''ss_breach_count'' r) (\<lambda>br.
     bindR (section_value ''warehouse'' ''total_shipped'' r) (\<lambda>sh. bindR (section_value ''tools'' ''total_calls'' r) (\<lambda>tc.
       Inr [(''scenario'', name), (''file'', file_name), (''cycles'', dget_or r ''total_cycles'' (PInt 0)),
            (''events'', dget_or r ''total_events'' (PInt 0)), (''cnp'', dget_or r ''cnp_count'' (PInt 0)),
            (''final_stock'', stock), (''safety_stock'', ss), (''service_level'', sl), (''ss_breaches'', br),
            (''total_shipped'', sh), (''tool_calls'', tc)]))))))))"

definition comparison_report :: "dict list \<Rightarrow> string list result" where
  "comparison_report rs =
     bindR (header_line rs) (\<lambda>header. bindR (mapR (group_lines rs) METRICS_GROUPS) (\<lambda>groups. bindR (analyze_winners rs) (\<lambda>an.
     let rule = repeat_text (total_width rs) (utf8 [0x2550]) in
       Inr ([CHR 0x0A # rule, (utf8 [0x20, 0x20, 0xC2DC, 0xB098, 0xB9AC, 0xC624, 0x20, 0xACB0, 0xACFC, 0x20, 0xBE44, 0xAD50, 0x20, 0x28]) @ show_nat (length rs) @ (utf8 [0xAC74, 0x29]), rule, header,
             ''  '' @ repeat_text (total_width rs - 2) (utf8 [0x2500])]
            @ concat groups
            @ (if an = [] then [] else (CHR 0x0A # (utf8 [0x20, 0x20, 0xBD84, 0xC11D, 0x20, 0xACB0, 0xACFC, 0x3A])) # map (\<lambda>l. ''    '' @ l) an)
            @ [CHR 0x0A # rule]))))"

definition compare_files :: "result_file list \<Rightarrow> (string list \<times> dict list) option result" where
  "compare_files fs =
     (let rs = loaded_results fs in
      if rs = [] then Inr None
      else bindR (comparison_report rs) (\<lambda>ls. bindR (mapR json_row rs) (\<lambda>rows. Inr (Some (ls, rows)))))"

end
