(* ===== verification/Compare_Laws.thy ===== *)
theory Compare_Laws
  imports Compare Scenario_Runtime_Laws
begin

text \<open>
  Laws of the comparison: the result documents the runner writes are always comparable, the rows
  are the figures of the runs, and the analysis names runs with extreme figures.
\<close>

section \<open>Extreme elements\<close>








section \<open>What a run's document holds\<close>




section \<open>Comparing runs\<close>

























end
