(* ===== verification/Contract_Net.thy ===== *)
theory Contract_Net
  imports Messages Py_Text
begin

text \<open>
  \<open>mas/protocol/contract_net.py\<close>: the generic contract net object. It works with any initiator
  and participants that have the methods it calls: those are the record \<open>net_parties\<close> of functions
  on the parties' common state. Of the evaluation only the strategy is kept, as in the source; printing is not modelled.
\<close>

record 's net_parties =
  np_think :: "string \<Rightarrow> 's \<Rightarrow> unit result \<times> 's"
  np_broadcast_cfp :: "dict \<Rightarrow> string \<Rightarrow> 's \<Rightarrow> agent_message result \<times> 's"
  np_handle_cfp :: "string \<Rightarrow> agent_message \<Rightarrow> dict \<Rightarrow> 's \<Rightarrow> agent_message result \<times> 's"
  np_send_message :: "string \<Rightarrow> agent_message \<Rightarrow> 's \<Rightarrow> unit result \<times> 's"
  np_evaluate :: "agent_message list \<Rightarrow> dict \<Rightarrow> 's \<Rightarrow> dict result \<times> 's"
  np_send_accepts :: "dict \<Rightarrow> string \<Rightarrow> 's \<Rightarrow> agent_message list result \<times> 's"
  np_execute :: "string \<Rightarrow> agent_message \<Rightarrow> 's \<Rightarrow> pyval result \<times> 's"

text \<open>The participants are a dictionary keyed by identifier: the keys in order of first appearance.\<close>

record 's contract_net =
  cn_conversation :: string
  cn_participants :: "string list"
  cn_proposals :: "agent_message list"
  cn_state :: 's

definition new_contract_net :: "string \<Rightarrow> string list \<Rightarrow> 's \<Rightarrow> 's contract_net" where
  "new_contract_net conv ids s = \<lparr> cn_conversation = conv, cn_participants = fold (\<lambda>i is. if i \<in> set is then is else is @ [i]) ids [],
     cn_proposals = [], cn_state = s \<rparr>"

type_synonym ('s, 'a) net_run = "'s contract_net \<Rightarrow> 'a result \<times> 's contract_net"

definition bindN :: "('s, 'a) net_run \<Rightarrow> ('a \<Rightarrow> ('s, 'b) net_run) \<Rightarrow> ('s, 'b) net_run" where
  "bindN m f n = (case m n of (Inl e, n') \<Rightarrow> (Inl e, n') | (Inr a, n') \<Rightarrow> f a n')"

definition partyN :: "('s \<Rightarrow> 'a result \<times> 's) \<Rightarrow> ('s, 'a) net_run" where
  "partyN f n = (let (r, s) = f (cn_state n) in (r, n\<lparr>cn_state := s\<rparr>))"

definition keep_proposal :: "agent_message \<Rightarrow> ('s, unit) net_run" where
  "keep_proposal m n = (Inr (), n\<lparr>cn_proposals := cn_proposals n @ [m]\<rparr>)"

definition readN :: "('s contract_net \<Rightarrow> 'a) \<Rightarrow> ('s, 'a) net_run" where
  "readN f n = (Inr (f n), n)"

fun ask_participants :: "'s net_parties \<Rightarrow> agent_message \<Rightarrow> dict \<Rightarrow> string list \<Rightarrow> ('s, unit) net_run" where
  "ask_participants np cfp env_data [] = readN (\<lambda>_. ())"
| "ask_participants np cfp env_data (aid # aids) =
     bindN (partyN (np_handle_cfp np aid cfp env_data)) (\<lambda>p.
     bindN (keep_proposal p) (\<lambda>_.
     bindN (partyN (np_send_message np aid p)) (\<lambda>_. ask_participants np cfp env_data aids)))"

fun execute_accepts :: "'s net_parties \<Rightarrow> agent_message list \<Rightarrow> dict \<Rightarrow> ('s, dict) net_run" where
  "execute_accepts np [] res = readN (\<lambda>_. res)"
| "execute_accepts np (m # ms) res =
     (let rid = h_receiver (m_header m) in
      bindN (readN cn_participants) (\<lambda>ids.
        if rid \<in> set ids then bindN (partyN (np_execute np rid m)) (\<lambda>r. execute_accepts np ms (dset rid r res))
        else execute_accepts np ms res))"

definition opening_thought :: "int \<Rightarrow> string \<Rightarrow> string" where
  "opening_thought remaining due = (utf8 [0xC124, 0xBE44, 0x20, 0xACBD, 0xACE0, 0xC640, 0x20, 0xD488, 0xC9C8, 0x20, 0xC704, 0xD5D8, 0xC774, 0x20, 0xB3D9, 0xC2DC, 0xC5D0, 0x20, 0xAC10, 0xC9C0, 0xB418, 0xC5C8, 0xB2E4, 0x2E, 0x20, 0xC794, 0xC5EC, 0x20, 0xBAA9, 0xD45C, 0x20]) @ show_int remaining @ (utf8 [0xAC1C, 0x2C, 0x20, 0xB0A9, 0xAE30, 0x20]) @ due
     @ (utf8 [0x2E, 0x20, 0xC5D0, 0xC774, 0xC804, 0xD2B8, 0x20, 0xD611, 0xC758, 0xB97C, 0x20, 0xD1B5, 0xD574, 0x20, 0xCD5C, 0xC801, 0x20, 0xB300, 0xC751, 0xC744, 0x20, 0xACB0, 0xC815, 0xD55C, 0xB2E4, 0x2E])"

text \<open>\<open>execute\<close>; \<open>remaining\<close> and \<open>due\<close> are read from the environment's order.\<close>

definition contract_net_execute :: "'s net_parties \<Rightarrow> dict \<Rightarrow> dict \<Rightarrow> int \<Rightarrow> string \<Rightarrow> ('s, dict) net_run" where
  "contract_net_execute np context env_data remaining due =
     bindN (partyN (np_think np (opening_thought remaining due))) (\<lambda>_.
     bindN (readN cn_conversation) (\<lambda>conv.
     bindN (partyN (np_broadcast_cfp np context conv)) (\<lambda>cfp.
     bindN (readN cn_participants) (\<lambda>ids.
     bindN (ask_participants np cfp env_data ids) (\<lambda>_.
     bindN (readN cn_proposals) (\<lambda>ps.
     bindN (partyN (np_evaluate np ps env_data)) (\<lambda>strategy.
     bindN (partyN (np_think np (utf8 [0xD1B5, 0xD569, 0x20, 0xC804, 0xB7B5, 0xC744, 0x20, 0xD655, 0xC815, 0xD558, 0xACE0, 0x20, 0xAC01, 0x20, 0xC5D0, 0xC774, 0xC804, 0xD2B8, 0xC5D0, 0x20, 0xC2E4, 0xD589, 0x20, 0xC9C0, 0xC2DC, 0xB97C, 0x20, 0xC804, 0xC1A1, 0xD55C, 0xB2E4, 0x2E]))) (\<lambda>_.
     bindN (partyN (np_send_accepts np strategy conv)) (\<lambda>accepts.
     bindN (execute_accepts np accepts []) (\<lambda>res.
     readN (\<lambda>_. [(''strategy'', PDict strategy), (''execution_results'', PDict res), (''conversation_id'', PStr conv)])))))))))))"

section \<open>Laws\<close>

text \<open>A round asks every participant once, in order, and keeps each proposal; proposals of an earlier round stay.\<close>

definition asked_all :: "'s net_parties \<Rightarrow> bool" where
  "asked_all np \<longleftrightarrow> (\<forall>aid cfp d s. \<exists>m s'. np_handle_cfp np aid cfp d s = (Inr m, s') \<and> h_sender (m_header m) = aid)
     \<and> (\<forall>aid m s. \<exists>s'. np_send_message np aid m s = (Inr (), s'))"

lemma ask_collects:
  assumes "asked_all np"
  shows "\<exists>n' ps. ask_participants np cfp d aids n = (Inr (), n') \<and> cn_proposals n' = cn_proposals n @ ps
    \<and> map (\<lambda>m. h_sender (m_header m)) ps = aids \<and> cn_participants n' = cn_participants n \<and> cn_conversation n' = cn_conversation n"
proof (induction aids arbitrary: n)
  case (Cons aid aids)
  obtain m s where m: "np_handle_cfp np aid cfp d (cn_state n) = (Inr m, s)" "h_sender (m_header m) = aid"
    using assms unfolding asked_all_def by metis
  obtain s' where s': "np_send_message np aid m s = (Inr (), s')" using assms unfolding asked_all_def by blast
  let ?n = "n\<lparr>cn_state := s, cn_proposals := cn_proposals n @ [m], cn_state := s'\<rparr>"
  obtain n' ps where "ask_participants np cfp d aids ?n = (Inr (), n')" "cn_proposals n' = cn_proposals ?n @ ps"
      "map (\<lambda>m. h_sender (m_header m)) ps = aids" "cn_participants n' = cn_participants ?n" "cn_conversation n' = cn_conversation ?n"
    using Cons.IH [of ?n] by blast
  then show ?case using m(2)
    by (intro exI [of _ n'] exI [of _ "m # ps"]) (simp add: bindN_def partyN_def keep_proposal_def m(1) s')
qed (simp add: readN_def)

text \<open>Only participants execute, and each result is stored under the receiver of its message.\<close>

lemma results_of_participants:
  "execute_accepts np ms res n = (Inr res', n') \<Longrightarrow> fst ` set res' \<subseteq> fst ` set res \<union> set (cn_participants n)"
proof (induction ms arbitrary: res n)
  case (Cons m ms)
  show ?case
  proof (cases "h_receiver (m_header m) \<in> set (cn_participants n)")
    case True
    then obtain r s where e: "np_execute np (h_receiver (m_header m)) m (cn_state n) = (Inr r, s)"
        "execute_accepts np ms (dset (h_receiver (m_header m)) r res) (n\<lparr>cn_state := s\<rparr>) = (Inr res', n')"
      using Cons.prems by (auto simp: bindN_def readN_def partyN_def Let_def split: prod.splits sum.splits)
    from Cons.IH [OF e(2)] True show ?thesis by (auto simp: dset_def dom_update)
  next
    case False
    then show ?thesis using Cons.IH [of res n] Cons.prems by (simp add: bindN_def readN_def Let_def)
  qed
qed (auto simp: readN_def)

end
