(* ===== verification/Executor.thy ===== *)
theory Executor
  imports Tools Router Bounded_Log Text_Layout
begin

text \<open>
  \<open>mas/protocol/agentic_loop.py\<close>: the agent executor with its choice of tools. It drives any
  object with an agent's methods: those are the record \<open>exec_agent\<close> of functions on the agent's
  state. The decision router is the function \<open>routed\<close>; clocks are arguments. A cycle that raises
  leaves the executor as far as it got. What is published over MQTT and written to the runtime's
  log is output.
\<close>

section \<open>The agent\<close>

record 's exec_agent =
  xa_id :: string
  xa_sense :: "dict \<Rightarrow> 's \<Rightarrow> dict result \<times> 's"
  xa_pop_inbox :: "'s \<Rightarrow> agent_message list \<times> 's"
  xa_reason :: "dict \<Rightarrow> 's \<Rightarrow> pyval result \<times> 's"
  xa_act :: "pyval \<Rightarrow> 's \<Rightarrow> pyval result \<times> 's"
  xa_inspected :: "'s \<Rightarrow> pyval result"
  xa_recent_mean :: "('s \<Rightarrow> pyval) option"
  xa_send :: "agent_message \<Rightarrow> 's \<Rightarrow> 's"
  xa_update :: "dict \<Rightarrow> 's \<Rightarrow> unit result \<times> 's"

record agentic_step =
  ap_agent_id :: string
  ap_cycle :: nat
  ap_timestamp :: real
  ap_sensed :: dict
  ap_think :: think_result
  ap_results :: "dict list"
  ap_duration_ms :: real

datatype exec_out = Published string dict | Logged string string

record 's executor =
  ex_agent :: 's
  ex_registry :: "tool_registry option"
  ex_cycle :: nat
  ex_history :: "agentic_step list"
  ex_out :: "exec_out list"
  ex_rng :: rng

text \<open>A step that may raise.\<close>

type_synonym ('s, 'a) exec_run = "'s executor \<Rightarrow> 'a result \<times> 's executor"

definition bindX :: "('s, 'a) exec_run \<Rightarrow> ('a \<Rightarrow> ('s, 'b) exec_run) \<Rightarrow> ('s, 'b) exec_run" where
  "bindX m f x = (case m x of (Inl e, x') \<Rightarrow> (Inl e, x') | (Inr a, x') \<Rightarrow> f a x')"

definition returnX :: "'a \<Rightarrow> ('s, 'a) exec_run" where "returnX a x = (Inr a, x)"

definition liftX :: "'a result \<Rightarrow> ('s, 'a) exec_run" where "liftX r x = (r, x)"

definition agentX :: "('s \<Rightarrow> 'a result \<times> 's) \<Rightarrow> ('s, 'a) exec_run" where
  "agentX f x = (let (r, s) = f (ex_agent x) in (r, x\<lparr>ex_agent := s\<rparr>))"

section \<open>Sense\<close>

definition inbox_entry :: "agent_message \<Rightarrow> pyval" where
  "inbox_entry m = PDict [(''sender'', PStr (h_sender (m_header m))), (''intent'', PStr (intent_value (m_intent m))),
     (''summary'', dget_or (m_body m) ''summary'' (PStr ''''))]"

definition exec_sense :: "'s exec_agent \<Rightarrow> dict \<Rightarrow> ('s, dict) exec_run" where
  "exec_sense ag snap =
     bindX (agentX (xa_sense ag snap)) (\<lambda>sensed.
     bindX (agentX (\<lambda>s. let (ms, s') = xa_pop_inbox ag s in (Inr ms, s'))) (\<lambda>ms.
       returnX (if ms = [] then sensed else dset ''inbox_messages'' (PList (map inbox_entry ms)) sensed)))"

section \<open>Think\<close>

definition tool_action :: "string \<Rightarrow> dict \<Rightarrow> action" where
  "tool_action n kw = \<lparr> ax_type = AT_TOOL_CALL, ax_tool_name = n, ax_tool_kwargs = kw, ax_message = None,
     ax_state_update = [], ax_log_msg = '''', ax_log_level = ''INFO'' \<rparr>"

definition noop_action :: action where
  "noop_action = \<lparr> ax_type = AT_NOOP, ax_tool_name = '''', ax_tool_kwargs = [], ax_message = None,
     ax_state_update = [], ax_log_msg = '''', ax_log_level = ''INFO'' \<rparr>"

definition select_ea :: "dict \<Rightarrow> action list result" where
  "select_ea snap =
     (let vib = dget_or snap ''vibration'' (PInt 0); slope = dget_or snap ''vibration_slope'' (PInt 0) in
      bindR (py_num vib) (\<lambda>v.
      bindR (if v > 3 then Inr True else bindR (py_num slope) (\<lambda>s. Inr (s > 5 / 100))) (\<lambda>high.
        Inr (if high then
               [tool_action ''predictive_maintenance'' [(''vibration'', vib), (''trend_slope'', slope)],
                tool_action ''capacity_estimation'' [(''vibration'', vib), (''vib_slope'', slope),
                  (''speed_pct'', dget_or snap ''line_speed_pct'' (PInt 100))]]
             else []))))"

definition select_qa :: "pyval result \<Rightarrow> pyval \<Rightarrow> dict \<Rightarrow> action list result" where
  "select_qa inspected burr snap =
     bindR inspected (\<lambda>i. bindR (py_num i) (\<lambda>n.
       Inr (if n > 5 then
              [tool_action ''defect_prediction'' [(''vibration'', dget_or snap ''vibration'' (PInt 0)),
                 (''oil_temp'', dget_or snap ''oil_temp'' (PInt 42)),
                 (''vibration_trend_slope'', dget_or snap ''vibration_slope'' (PInt 0)), (''recent_burr_mean'', burr)]]
            else [])))"

text \<open>\<open>len(history) >= 5\<close> and \<open>history[-20:]\<close>: of a list or a text.\<close>

definition select_da :: "dict \<Rightarrow> action list result" where
  "select_da snap =
     bindR (as_dict (dget_or snap ''demand'' (PDict []))) (\<lambda>d.
     let calls = (\<lambda>h. [tool_action ''demand_forecast'' [(''demand_history'', h), (''horizon'', PInt 10)]]) in
     case dget_or d ''demand_history'' (PList []) of
       PList xs \<Rightarrow> Inr (if length xs \<ge> 5 then calls (PList (last_n 20 xs)) else [])
     | PDict xs \<Rightarrow> (if length xs \<ge> 5 then Inl TypeError else Inr [])
     | PStr s \<Rightarrow> (let n = code_points s
                  in Inr (if n \<ge> 5 then calls (PStr (drop (length (utf8_take (n - min n 20) s)) s)) else []))
     | _ \<Rightarrow> Inl TypeError)"

definition select_ia :: "dict \<Rightarrow> action list result" where
  "select_ia snap =
     bindR (as_dict (dget_or snap ''warehouse'' (PDict []))) (\<lambda>w.
     bindR (py_num (dget_or w ''safety_stock'' (PInt 0))) (\<lambda>ss.
     bindR (py_num (dget_or w ''stock'' (PInt 0))) (\<lambda>stock.
       Inr (if stock < ss * (3 / 2) then
              [tool_action ''safety_stock_calc'' [(''z_score'', PFloat (1645 / 1000)),
                 (''leadtime_mean'', dget_or w ''leadtime_mean'' (PFloat (9 / 2))),
                 (''demand_std'', dget_or w ''demand_std'' (PFloat 3)),
                 (''avg_demand'', dget_or w ''avg_demand_per_cycle'' (PFloat 4)),
                 (''leadtime_std'', dget_or w ''leadtime_std'' (PFloat 1))]]
            else []))))"

definition select_tools :: "bool \<Rightarrow> string \<Rightarrow> pyval result \<Rightarrow> pyval \<Rightarrow> dict \<Rightarrow> action list result" where
  "select_tools registry aid inspected burr snap =
     (if \<not> registry then Inr []
      else if aid = ''EA'' then select_ea snap
      else if aid = ''QA'' then select_qa inspected burr snap
      else if aid = ''DA'' then select_da snap
      else if aid = ''IA'' then select_ia snap
      else Inr [])"

definition exec_select :: "'s exec_agent \<Rightarrow> dict \<Rightarrow> ('s, action list) exec_run" where
  "exec_select ag snap x =
     (select_tools (ex_registry x \<noteq> None) (xa_id ag) (xa_inspected ag (ex_agent x))
        (case xa_recent_mean ag of Some f \<Rightarrow> f (ex_agent x) | None \<Rightarrow> PFloat (3 / 100)) snap, x)"

definition act_on_decision :: "'s exec_agent \<Rightarrow> dict \<Rightarrow> ('s, action list) exec_run" where
  "act_on_decision ag decision =
     (let name = dget_or decision ''action'' (PStr ''none'') in
      if name \<in> {PStr ''alert_pa'', PStr ''request_material''} then
        bindX (agentX (xa_act ag (PDict decision))) (\<lambda>r. bindX (liftX (as_dict r)) (\<lambda>d.
          returnX (if py_truthy (dget_none d ''sent_alert'') then [log_action ''Alert sent to PA'' ''ALERT''] else [])))
      else if name \<notin> {PStr ''none'', PStr ''monitor''} then
        bindX (agentX (xa_act ag (PDict decision))) (\<lambda>_. returnX [log_action (''Action: '' @ py_str name) ''INFO''])
      else returnX [])"

definition exec_think ::
  "'s exec_agent \<Rightarrow> (dict \<Rightarrow> dict \<Rightarrow> think_result option result) option \<Rightarrow> dict \<Rightarrow> dict \<Rightarrow> ('s, think_result) exec_run" where
  "exec_think ag routed sensed snap =
     bindX (liftX (case routed of None \<Rightarrow> Inr None | Some f \<Rightarrow> f sensed snap)) (\<lambda>tr. case tr of
        Some t \<Rightarrow> returnX t
      | None \<Rightarrow>
          bindX (agentX (xa_reason ag sensed)) (\<lambda>d. bindX (liftX (as_dict d)) (\<lambda>decision.
          bindX (act_on_decision ag decision) (\<lambda>acts. bindX (exec_select ag snap) (\<lambda>tools.
            returnX \<lparr> tr_actions = (if acts @ tools = [] then [noop_action] else acts @ tools),
              tr_reasoning = xa_id ag @ '' decision: '' @ py_str (dget_or decision ''action'' (PStr ''none'')), tr_source = ''rule'' \<rparr>)))))"

section \<open>Act\<close>

definition run_tool :: "bool \<Rightarrow> bool \<Rightarrow> call_times \<Rightarrow> string \<Rightarrow> action \<Rightarrow> tool_registry \<Rightarrow> ('s, dict list) exec_run" where
  "run_tool mqtt logging ct aid ax g x =
     (let (res, g', r') = registry_call ct (ax_tool_name ax) (ax_tool_kwargs ax) g (ex_rng x);
          pub = (if mqtt \<and> dget res ''status'' = Some (PStr ''ok'') then [Published (ax_tool_name ax) res] else []);
          lat = (case dget_or res ''latency_ms'' (PInt 0) of PFloat l \<Rightarrow> l | _ \<Rightarrow> 0);
          line = (if logging then [Logged (''Tool:'' @ ax_tool_name ax @ '' ['' @ py_str (dget_or res ''status'' (PStr ''?''))
                    @ ''] '' @ fmt_fixed 1 lat @ ''ms'') ''TOOL''] else [])
      in (Inr [res], x\<lparr> ex_registry := Some g', ex_rng := r', ex_out := ex_out x @ pub @ line \<rparr>))"

definition run_action :: "'s exec_agent \<Rightarrow> bool \<Rightarrow> bool \<Rightarrow> call_times \<Rightarrow> action \<Rightarrow> ('s, dict list) exec_run" where
  "run_action ag mqtt logging ct ax x =
     (case ax_type ax of
        AT_TOOL_CALL \<Rightarrow> (case ex_registry x of Some g \<Rightarrow> run_tool mqtt logging ct (xa_id ag) ax g x | None \<Rightarrow> (Inr [], x))
      | AT_SEND_MESSAGE \<Rightarrow> (case ax_message ax of
            Some m \<Rightarrow> (Inr [[(''type'', PStr ''message_sent''), (''receiver'', PStr (h_receiver (m_header m)))]],
                      x\<lparr>ex_agent := xa_send ag m (ex_agent x)\<rparr>)
          | None \<Rightarrow> (Inr [], x))
      | AT_UPDATE_STATE \<Rightarrow> bindX (agentX (xa_update ag (ax_state_update ax)))
            (\<lambda>_. returnX [[(''type'', PStr ''state_updated''), (''keys'', PList (map (\<lambda>(k, _). PStr k) (ax_state_update ax)))]]) x
      | AT_LOG \<Rightarrow> (Inr [[(''type'', PStr ''logged'')]],
            if logging then x\<lparr>ex_out := ex_out x @ [Logged (ax_log_msg ax) (ax_log_level ax)]\<rparr> else x)
      | AT_NOOP \<Rightarrow> (Inr [], x))"

fun exec_act :: "'s exec_agent \<Rightarrow> bool \<Rightarrow> bool \<Rightarrow> call_times \<Rightarrow> action list \<Rightarrow> ('s, dict list) exec_run" where
  "exec_act ag mqtt logging ct [] = returnX []"
| "exec_act ag mqtt logging ct (ax # axs) =
     bindX (run_action ag mqtt logging ct ax) (\<lambda>rs. bindX (exec_act ag mqtt logging ct axs) (\<lambda>rest. returnX (rs @ rest)))"

section \<open>A cycle\<close>

definition push_step :: "agentic_step \<Rightarrow> agentic_step list \<Rightarrow> agentic_step list" where
  "push_step = push_trim 100 50"

interpretation step_log: bounded_log push_step 100 50
  unfolding push_step_def by (simp add: bounded_log_push_trim)

definition executor_cycle ::
  "'s exec_agent \<Rightarrow> (dict \<Rightarrow> dict \<Rightarrow> think_result option result) option \<Rightarrow> bool \<Rightarrow> bool \<Rightarrow> call_times \<Rightarrow> real \<Rightarrow> real \<Rightarrow> dict
   \<Rightarrow> ('s, agentic_step) exec_run" where
  "executor_cycle ag routed mqtt logging ct now duration snap x0 =
     (let x1 = x0\<lparr>ex_cycle := Suc (ex_cycle x0)\<rparr> in
      bindX (exec_sense ag snap) (\<lambda>sensed.
      bindX (exec_think ag routed sensed snap) (\<lambda>t.
      bindX (exec_act ag mqtt logging ct (tr_actions t)) (\<lambda>rs x.
        (let st = \<lparr> ap_agent_id = xa_id ag, ap_cycle = ex_cycle x, ap_timestamp = now, ap_sensed = sensed, ap_think = t,
                    ap_results = rs, ap_duration_ms = duration \<rparr>
         in (Inr st, x\<lparr>ex_history := push_step st (ex_history x)\<rparr>))))) x1)"

definition exec_stats :: "'s exec_agent \<Rightarrow> 's executor \<Rightarrow> dict" where
  "exec_stats ag x =
     (let h = ex_history x in
      [(''agent_id'', PStr (xa_id ag)), (''total_cycles'', PInt (int (ex_cycle x))),
       (''tool_calls'', PInt (int (length (filter (\<lambda>a. ax_type a = AT_TOOL_CALL) (concat (map (\<lambda>s. tr_actions (ap_think s)) h)))))),
       (''avg_cycle_ms'', if h = [] then PInt 0 else PFloat (py_round 2 (list_avg (map ap_duration_ms h))))])"

end
