(* ===== verification/Executor_Laws.thy ===== *)
theory Executor_Laws
  imports Executor Tool_Laws Factory_Laws
begin

text \<open>
  Laws of the agent executor: on a numeric snapshot every tool it selects answers, so that its
  cycle completes whenever the agent's own methods do; a decision of \<open>None\<close> stops it.
\<close>

section \<open>Tools that answer\<close>

text \<open>A registry that still holds the functions of the built-in tools under their names.\<close>

definition equipped :: "tool_registry \<Rightarrow> bool" where
  "equipped g \<longleftrightarrow> (\<forall>t\<in>set builtin_tools. \<exists>t'. map_of (tg_tools g) (tl_name t) = Some t' \<and> tl_fn t' = tl_fn t)"

definition answers :: "action \<Rightarrow> bool" where
  "answers ax \<longleftrightarrow> ax_type ax = AT_TOOL_CALL
     \<and> (\<exists>t\<in>set builtin_tools. tl_name t = ax_tool_name ax \<and> (\<forall>r. \<exists>d. fst (tl_fn t (ax_tool_kwargs ax) r) = Inr d))"

lemma registry_call_equipped:
  assumes "equipped g" "registry_call ct n kw g r = (res, g', r')"
  shows "equipped g'"
proof (cases "map_of (tg_tools g) n")
  case None
  then show ?thesis using assms by (simp add: registry_call_def)
next
  case (Some t)
  obtain res1 t1 r1 where c: "ai_tool_call ct kw t r = (res1, t1, r1)" by (rule prod_cases3)
  have "tl_fn t1 = tl_fn t" using c by (auto simp: ai_tool_call_def split: prod.splits sum.splits)
  moreover have "tg_tools g' = AList.update n t1 (tg_tools g)" using assms(2) by (auto simp: registry_call_def Some c)
  ultimately show ?thesis using assms(1) Some by (auto simp: equipped_def update_conv')
qed

lemma answered:
  assumes "equipped g" "answers ax" "registry_call ct (ax_tool_name ax) (ax_tool_kwargs ax) g r = (res, g', r')"
  shows "dget res ''status'' = Some (PStr ''ok'')"
proof -
  obtain t where t: "t \<in> set builtin_tools" "tl_name t = ax_tool_name ax" "\<forall>r. \<exists>d. fst (tl_fn t (ax_tool_kwargs ax) r) = Inr d"
    using assms(2) by (auto simp: answers_def)
  then obtain t' where t': "map_of (tg_tools g) (ax_tool_name ax) = Some t'" "tl_fn t' = tl_fn t"
    using assms(1) by (auto simp: equipped_def)
  obtain d r1 where "tl_fn t (ax_tool_kwargs ax) r = (Inr d, r1)" using t(3) by (metis prod.collapse)
  then show ?thesis using assms(3) t' by (auto simp: registry_call_def ai_tool_call_def dget_def)
qed

lemma new_registry_equipped: "equipped new_registry"
  by (simp add: equipped_def new_registry_def builtin_tools_def register_tool_def vision_inspection_def defect_prediction_def
      predictive_maintenance_def demand_forecast_tool_def capacity_estimation_def yield_prediction_def spc_analysis_def
      leadtime_estimation_def oee_calculator_def safety_stock_calc_def make_tool_def)

section \<open>The selection\<close>

definition numeric_key :: "dict \<Rightarrow> string \<Rightarrow> bool" where
  "numeric_key d k \<longleftrightarrow> (case dget d k of Some v \<Rightarrow> is_num v | None \<Rightarrow> True)"

text \<open>A snapshot whose fields the selection reads hold numbers where they are present.\<close>

definition numeric_snapshot :: "dict \<Rightarrow> bool" where
  "numeric_snapshot snap \<longleftrightarrow> (\<forall>k\<in>{''vibration'', ''vibration_slope'', ''line_speed_pct'', ''oil_temp''}. numeric_key snap k)
     \<and> (\<exists>d xs. dget_or snap ''demand'' (PDict []) = PDict d \<and> dget_or d ''demand_history'' (PList []) = PList xs \<and> (\<forall>x\<in>set xs. is_num x))
     \<and> (\<exists>w. dget_or snap ''warehouse'' (PDict []) = PDict w
         \<and> (\<forall>k\<in>{''stock'', ''safety_stock'', ''leadtime_mean'', ''demand_std'', ''avg_demand_per_cycle'', ''leadtime_std''}. numeric_key w k))"

lemma numeric_get: "numeric_key d k \<Longrightarrow> is_num v \<Longrightarrow> \<exists>x. py_num (dget_or d k v) = Inr x"
  by (auto simp: numeric_key_def dget_or_dget py_num_total split: option.splits)

lemma mapR_numbers: "\<forall>x\<in>set xs. is_num x \<Longrightarrow> \<exists>ys. mapR py_num xs = Inr ys"
  by (induction xs) (auto simp: py_num_total)

lemma numbers_answer:
  assumes "\<forall>k\<in>set ks. \<exists>v x. dget kw k = Some v \<and> py_num v = Inr x" "\<forall>(k, v)\<in>set kw. k \<in> set ks"
  shows "\<exists>d. fst (on_numbers (required ks) (\<lambda>xs. Inr (f xs)) kw r) = Inr d"
proof -
  have "\<exists>ys. mapR (\<lambda>(n, dflt). case dget kw n of Some v \<Rightarrow> Inr v | None \<Rightarrow> (case dflt of Some v \<Rightarrow> Inr v | None \<Rightarrow> Inl TypeError))
      (map (\<lambda>n. (n, None)) ks) = Inr ys \<and> (\<exists>zs. mapR py_num ys = Inr zs)"
    using assms(1) by (induction ks) fastforce+
  moreover have "\<not> list_ex (\<lambda>(k, v). k \<notin> set (map fst (required ks))) kw"
    using assms(2) by (auto simp: required_def list_ex_iff)
  ultimately show ?thesis by (auto simp: on_numbers_def bind_arguments_def required_def)
qed

lemma builtin_members: "predictive_maintenance \<in> set builtin_tools" "capacity_estimation \<in> set builtin_tools"
  "defect_prediction \<in> set builtin_tools" "demand_forecast_tool \<in> set builtin_tools" "safety_stock_calc \<in> set builtin_tools"
  by (simp_all add: builtin_tools_def)

lemma answersI: "t \<in> set builtin_tools \<Longrightarrow> tl_name t = n \<Longrightarrow> (\<And>r. \<exists>d. fst (tl_fn t kw r) = Inr d) \<Longrightarrow> answers (tool_action n kw)"
  by (auto simp: answers_def tool_action_def)

lemma tool_fields:
  "tl_name predictive_maintenance = ''predictive_maintenance''" "tl_name capacity_estimation = ''capacity_estimation''"
  "tl_name defect_prediction = ''defect_prediction''" "tl_name demand_forecast_tool = ''demand_forecast''"
  "tl_name safety_stock_calc = ''safety_stock_calc''"
  by (simp_all add: predictive_maintenance_def capacity_estimation_def defect_prediction_def demand_forecast_tool_def
      safety_stock_calc_def make_tool_def)

lemma history_answers:
  assumes "\<forall>x\<in>set xs. is_num x"
  shows "answers (tool_action ''demand_forecast'' [(''demand_history'', PList xs), (''horizon'', PInt 10)])"
proof (rule answersI [OF builtin_members(4) tool_fields(4)])
  fix r
  obtain ys where "mapR py_num xs = Inr ys" using mapR_numbers [OF assms] by blast
  then show "\<exists>d. fst (tl_fn demand_forecast_tool [(''demand_history'', PList xs), (''horizon'', PInt 10)] r) = Inr d"
    by (simp add: demand_forecast_tool_def make_tool_def forecast_fn_def bind_arguments_def dget_def case_prod_unfold Let_def)
qed

lemma stock_answers:
  assumes "is_num a" "is_num b" "is_num c" "is_num d" "is_num e"
  shows "answers (tool_action ''safety_stock_calc'' [(''z_score'', a), (''leadtime_mean'', b), (''demand_std'', c),
    (''avg_demand'', d), (''leadtime_std'', e)])"
  using assms unfolding py_num_total
  by (intro answersI [OF builtin_members(5) tool_fields(5)])
     (auto simp: safety_stock_calc_def make_tool_def safety_stock_fn_def bind_arguments_def required_def dget_def
       safety_stock_formula_def Let_def)

lemma select_tools_answer:
  assumes "numeric_snapshot snap" "aid = ''QA'' \<longrightarrow> (\<exists>v. inspected = Inr v \<and> is_num v) \<and> is_num burr"
  shows "\<exists>axs. select_tools reg aid inspected burr snap = Inr axs \<and> (\<forall>ax\<in>set axs. answers ax)"
proof -
  have k: "is_num (dget_or snap k v)" if "k \<in> {''vibration'', ''vibration_slope'', ''line_speed_pct'', ''oil_temp''}" "is_num v" for k v
    using numeric_get [of snap k v] assms(1) that by (auto simp: numeric_snapshot_def py_num_total)
  have ea: "\<exists>axs. select_ea snap = Inr axs \<and> (\<forall>ax\<in>set axs. answers ax)"
  proof -
    let ?v = "dget_or snap ''vibration'' (PInt 0)" and ?s = "dget_or snap ''vibration_slope'' (PInt 0)"
    obtain v s where n: "py_num ?v = Inr v" "py_num ?s = Inr s" "\<exists>x. py_num (dget_or snap ''line_speed_pct'' (PInt 100)) = Inr x"
      using k [of "''vibration''" "PInt 0"] k [of "''vibration_slope''" "PInt 0"] k [of "''line_speed_pct''" "PInt 100"]
      by (auto simp: py_num_total)
    have "answers (tool_action ''predictive_maintenance'' [(''vibration'', ?v), (''trend_slope'', ?s)])"
      using n by (intro answersI [OF builtin_members(1) tool_fields(1)])
        (auto simp: predictive_maintenance_def make_tool_def dget_def intro!: numbers_answer)
    moreover have "answers (tool_action ''capacity_estimation'' [(''vibration'', ?v), (''vib_slope'', ?s),
         (''speed_pct'', dget_or snap ''line_speed_pct'' (PInt 100))])"
      using n by (intro answersI [OF builtin_members(2) tool_fields(2)])
        (auto simp: capacity_estimation_def make_tool_def dget_def intro!: numbers_answer)
    ultimately show ?thesis using n by (auto simp: select_ea_def Let_def)
  qed
  have qa: "\<exists>axs. select_qa inspected burr snap = Inr axs \<and> (\<forall>ax\<in>set axs. answers ax)" if q: "aid = ''QA''"
  proof -
    obtain i n where i: "inspected = Inr i" "py_num i = Inr n" "\<exists>x. py_num burr = Inr x"
      using assms(2) q by (auto simp: py_num_total)
    have "answers (tool_action ''defect_prediction'' [(''vibration'', dget_or snap ''vibration'' (PInt 0)),
        (''oil_temp'', dget_or snap ''oil_temp'' (PInt 42)),
        (''vibration_trend_slope'', dget_or snap ''vibration_slope'' (PInt 0)), (''recent_burr_mean'', burr)])"
      using i(3) k [of "''vibration''" "PInt 0"] k [of "''vibration_slope''" "PInt 0"] k [of "''oil_temp''" "PInt 42"]
      by (intro answersI [OF builtin_members(3) tool_fields(3)])
         (auto simp: defect_prediction_def make_tool_def dget_def py_num_total intro!: numbers_answer)
    then show ?thesis using i by (auto simp: select_qa_def)
  qed
  have da: "\<exists>axs. select_da snap = Inr axs \<and> (\<forall>ax\<in>set axs. answers ax)"
  proof -
    obtain d xs where d: "dget_or snap ''demand'' (PDict []) = PDict d" "dget_or d ''demand_history'' (PList []) = PList xs"
        "\<forall>x\<in>set xs. is_num x" using assms(1) by (auto simp: numeric_snapshot_def)
    have "answers (tool_action ''demand_forecast'' [(''demand_history'', PList (last_n 20 xs)), (''horizon'', PInt 10)])"
      using d(3) by (intro history_answers) (auto simp: last_n_def dest: in_set_dropD)
    then show ?thesis using d by (auto simp: select_da_def Let_def)
  qed
  have ia: "\<exists>axs. select_ia snap = Inr axs \<and> (\<forall>ax\<in>set axs. answers ax)"
  proof -
    obtain w where w: "dget_or snap ''warehouse'' (PDict []) = PDict w"
        "\<forall>k\<in>{''stock'', ''safety_stock'', ''leadtime_mean'', ''demand_std'', ''avg_demand_per_cycle'', ''leadtime_std''}. numeric_key w k"
      using assms(1) by (auto simp: numeric_snapshot_def)
    then have n: "is_num (dget_or w k v)" if "k \<in> {''stock'', ''safety_stock'', ''leadtime_mean'', ''demand_std'',
        ''avg_demand_per_cycle'', ''leadtime_std''}" "is_num v" for k v
      using numeric_get [of w k v] that by (auto simp: py_num_total)
    obtain s t where "py_num (dget_or w ''safety_stock'' (PInt 0)) = Inr s" "py_num (dget_or w ''stock'' (PInt 0)) = Inr t"
      using n [of "''stock''" "PInt 0"] n [of "''safety_stock''" "PInt 0"] by (auto simp: py_num_total)
    moreover have "answers (tool_action ''safety_stock_calc'' [(''z_score'', PFloat (1645 / 1000)),
        (''leadtime_mean'', dget_or w ''leadtime_mean'' (PFloat (9 / 2))), (''demand_std'', dget_or w ''demand_std'' (PFloat 3)),
        (''avg_demand'', dget_or w ''avg_demand_per_cycle'' (PFloat 4)), (''leadtime_std'', dget_or w ''leadtime_std'' (PFloat 1))])"
      by (intro stock_answers n) simp_all
    ultimately show ?thesis using w(1) by (simp add: select_ia_def)
  qed
  show ?thesis using ea qa da ia by (auto simp: select_tools_def)
qed


section \<open>A cycle\<close>

definition obliging :: "'s exec_agent \<Rightarrow> bool" where
  "obliging ag \<longleftrightarrow> (\<forall>e s. \<exists>d s'. xa_sense ag e s = (Inr d, s')) \<and> (\<forall>d s. \<exists>dec s'. xa_reason ag d s = (Inr (PDict dec), s'))
     \<and> (\<forall>d s. \<exists>d' s'. xa_act ag d s = (Inr (PDict d'), s'))
     \<and> (xa_id ag = ''QA'' \<longrightarrow> (\<forall>s. \<exists>v. xa_inspected ag s = Inr v \<and> is_num v)
         \<and> (\<forall>f. xa_recent_mean ag = Some f \<longrightarrow> (\<forall>s. is_num (f s))))"

text \<open>The steps that only the agent takes leave the executor's own fields alone.\<close>

definition own_fields :: "'s executor \<Rightarrow> tool_registry option \<times> nat \<times> agentic_step list \<times> rng" where
  "own_fields x = (ex_registry x, ex_cycle x, ex_history x, ex_rng x)"

lemma sense_completes:
  assumes "obliging ag"
  shows "\<exists>d x'. exec_sense ag snap x = (Inr d, x') \<and> own_fields x' = own_fields x"
proof -
  obtain d s where "xa_sense ag snap (ex_agent x) = (Inr d, s)" using assms unfolding obliging_def by blast
  then show ?thesis
    by (auto simp: exec_sense_def bindX_def agentX_def returnX_def own_fields_def case_prod_unfold Let_def)
qed

lemma decision_completes:
  assumes "obliging ag"
  shows "\<exists>axs x'. act_on_decision ag dec x = (Inr axs, x') \<and> own_fields x' = own_fields x \<and> (\<forall>ax\<in>set axs. ax_type ax = AT_LOG)"
proof -
  obtain d s where "xa_act ag (PDict dec) (ex_agent x) = (Inr (PDict d), s)" using assms unfolding obliging_def by blast
  then show ?thesis
    by (auto simp: act_on_decision_def bindX_def agentX_def liftX_def returnX_def own_fields_def log_action_def Let_def)
qed

lemma think_completes:
  assumes "obliging ag" "numeric_snapshot snap"
  shows "\<exists>t x'. exec_think ag None sensed snap x = (Inr t, x') \<and> own_fields x' = own_fields x
    \<and> (\<forall>ax\<in>set (tr_actions t). answers ax \<or> ax_type ax \<in> {AT_LOG, AT_NOOP})"
proof -
  obtain dec s where r: "xa_reason ag sensed (ex_agent x) = (Inr (PDict dec), s)" using assms(1) unfolding obliging_def by blast
  obtain axs x1 where a: "act_on_decision ag dec (x\<lparr>ex_agent := s\<rparr>) = (Inr axs, x1)" "own_fields x1 = own_fields (x\<lparr>ex_agent := s\<rparr>)"
      "\<forall>ax\<in>set axs. ax_type ax = AT_LOG" using decision_completes [OF assms(1)] by blast
  have "xa_id ag = ''QA'' \<longrightarrow> (\<exists>v. xa_inspected ag (ex_agent x1) = Inr v \<and> is_num v)
      \<and> is_num (case xa_recent_mean ag of Some f \<Rightarrow> f (ex_agent x1) | None \<Rightarrow> PFloat (3 / 100))"
    using assms(1) by (auto simp: obliging_def split: option.split)
  from select_tools_answer [OF assms(2) this] obtain tools where t: "exec_select ag snap x1 = (Inr tools, x1)" "\<forall>ax\<in>set tools. answers ax"
    by (auto simp: exec_select_def)
  show ?thesis using a(2,3) t(2)
    by (auto simp: exec_think_def bindX_def liftX_def agentX_def returnX_def r a(1) t(1) own_fields_def noop_action_def)
qed

lemma act_completes:
  assumes "\<forall>ax\<in>set axs. answers ax \<or> ax_type ax \<in> {AT_LOG, AT_NOOP}" "ex_registry x = Some g" "equipped g"
  shows "\<exists>rs x' g'. exec_act ag mqtt logging ct axs x = (Inr rs, x') \<and> ex_registry x' = Some g' \<and> equipped g'
    \<and> ex_cycle x' = ex_cycle x \<and> ex_history x' = ex_history x \<and> ex_agent x' = ex_agent x
    \<and> (\<forall>r\<in>set rs. dget r ''status'' \<in> {None, Some (PStr ''ok'')})
    \<and> length (filter (\<lambda>r. dget r ''status'' = Some (PStr ''ok'')) rs) = length (filter (\<lambda>ax. ax_type ax = AT_TOOL_CALL) axs)"
  using assms
proof (induction axs arbitrary: x g)
  case Nil
  then show ?case by (auto simp: returnX_def)
next
  case (Cons ax axs)
  have "\<exists>rs x1 g1. run_action ag mqtt logging ct ax x = (Inr rs, x1) \<and> ex_registry x1 = Some g1 \<and> equipped g1
      \<and> ex_cycle x1 = ex_cycle x \<and> ex_history x1 = ex_history x \<and> ex_agent x1 = ex_agent x
      \<and> (\<forall>r\<in>set rs. dget r ''status'' \<in> {None, Some (PStr ''ok'')})
      \<and> length (filter (\<lambda>r. dget r ''status'' = Some (PStr ''ok'')) rs) = (if ax_type ax = AT_TOOL_CALL then 1 else 0)"
  proof (cases "answers ax")
    case True
    obtain res g1 r1 where c: "registry_call ct (ax_tool_name ax) (ax_tool_kwargs ax) g (ex_rng x) = (res, g1, r1)" by (rule prod_cases3)
    show ?thesis using registry_call_equipped [OF Cons.prems(3) c] answered [OF Cons.prems(3) True c] True Cons.prems(2)
      by (simp add: run_action_def answers_def run_tool_def c Let_def)
  next
    case False
    then show ?thesis using Cons.prems by (auto simp: run_action_def dget_def)
  qed
  then obtain rs x1 g1 where r: "run_action ag mqtt logging ct ax x = (Inr rs, x1)" "ex_registry x1 = Some g1" "equipped g1"
      "ex_cycle x1 = ex_cycle x" "ex_history x1 = ex_history x" "ex_agent x1 = ex_agent x"
      "\<forall>r\<in>set rs. dget r ''status'' \<in> {None, Some (PStr ''ok'')}"
      "length (filter (\<lambda>r. dget r ''status'' = Some (PStr ''ok'')) rs) = (if ax_type ax = AT_TOOL_CALL then 1 else 0)" by blast
  from Cons.IH [OF _ r(2,3)] Cons.prems(1) obtain rest x' g' where i: "exec_act ag mqtt logging ct axs x1 = (Inr rest, x')"
      "ex_registry x' = Some g'" "equipped g'" "ex_cycle x' = ex_cycle x1" "ex_history x' = ex_history x1" "ex_agent x' = ex_agent x1"
      "\<forall>r\<in>set rest. dget r ''status'' \<in> {None, Some (PStr ''ok'')}"
      "length (filter (\<lambda>r. dget r ''status'' = Some (PStr ''ok'')) rest) = length (filter (\<lambda>ax. ax_type ax = AT_TOOL_CALL) axs)"
    by auto
  show ?case using i(2-) r(4-) by (auto simp: bindX_def r(1) i(1) returnX_def)
qed

text \<open>
  \<open>executor_completes\<close>: with the built-in tools, a snapshot whose fields are numbers and an
  agent whose methods return dictionaries, a cycle never raises: it counts, it records one step
  in a history of at most a hundred, every tool it selected answered with status ok, one result
  per call.
\<close>

theorem executor_completes:
  assumes "ex_registry x = Some g" "equipped g" "numeric_snapshot snap" "obliging ag"
  shows "\<exists>st x' g'. executor_cycle ag None mqtt logging ct now duration snap x = (Inr st, x')
    \<and> ex_cycle x' = Suc (ex_cycle x) \<and> ap_cycle st = ex_cycle x' \<and> last (ex_history x') = st \<and> length (ex_history x') \<le> 100
    \<and> ex_registry x' = Some g' \<and> equipped g'
    \<and> (\<forall>r\<in>set (ap_results st). dget r ''status'' \<in> {None, Some (PStr ''ok'')})
    \<and> length (filter (\<lambda>r. dget r ''status'' = Some (PStr ''ok'')) (ap_results st))
      = length (filter (\<lambda>ax. ax_type ax = AT_TOOL_CALL) (tr_actions (ap_think st)))"
proof -
  let ?x = "x\<lparr>ex_cycle := Suc (ex_cycle x)\<rparr>"
  obtain sensed x1 where s: "exec_sense ag snap ?x = (Inr sensed, x1)" "own_fields x1 = own_fields ?x"
    using sense_completes [OF assms(4)] by blast
  obtain t x2 where t: "exec_think ag None sensed snap x1 = (Inr t, x2)" "own_fields x2 = own_fields x1"
      "\<forall>ax\<in>set (tr_actions t). answers ax \<or> ax_type ax \<in> {AT_LOG, AT_NOOP}"
    using think_completes [OF assms(4,3)] by blast
  have o: "ex_registry x2 = Some g" "ex_cycle x2 = Suc (ex_cycle x)" "ex_history x2 = ex_history x"
    using s(2) t(2) assms(1) by (simp_all add: own_fields_def)
  obtain rs x3 g' where a: "exec_act ag mqtt logging ct (tr_actions t) x2 = (Inr rs, x3)" "ex_registry x3 = Some g'" "equipped g'"
      "ex_cycle x3 = ex_cycle x2" "ex_history x3 = ex_history x2" "\<forall>r\<in>set rs. dget r ''status'' \<in> {None, Some (PStr ''ok'')}"
      "length (filter (\<lambda>r. dget r ''status'' = Some (PStr ''ok'')) rs) = length (filter (\<lambda>ax. ax_type ax = AT_TOOL_CALL) (tr_actions t))"
    using act_completes [OF t(3) o(1) assms(2)] by blast
  show ?thesis using a(2,3,6,7) step_log.push_bounded step_log.push_last
    by (simp add: executor_cycle_def bindX_def s(1) t(1) a(1) a(4,5) o Let_def)
qed

text \<open>When the agent's \<open>reason\<close> returns \<open>None\<close> the cycle stops, counted but not recorded.\<close>

lemma executor_stops:
  assumes "\<And>e s. \<exists>d s'. xa_sense ag e s = (Inr d, s')" "\<And>d s. \<exists>s'. xa_reason ag d s = (Inr PNone, s')"
  shows "\<exists>x'. executor_cycle ag None mqtt logging ct now duration snap x = (Inl AttributeError, x')
    \<and> ex_cycle x' = Suc (ex_cycle x) \<and> ex_history x' = ex_history x"
proof -
  let ?x = "x\<lparr>ex_cycle := Suc (ex_cycle x)\<rparr>"
  obtain d s where "xa_sense ag snap (ex_agent ?x) = (Inr d, s)" using assms(1) by blast
  then obtain sensed x1 where s: "exec_sense ag snap ?x = (Inr sensed, x1)" "own_fields x1 = own_fields ?x"
    by (auto simp: exec_sense_def bindX_def agentX_def returnX_def own_fields_def case_prod_unfold Let_def)
  obtain s' where "xa_reason ag sensed (ex_agent x1) = (Inr PNone, s')" using assms(2) by blast
  then show ?thesis using s(2)
    by (auto simp: executor_cycle_def bindX_def s(1) exec_think_def liftX_def agentX_def own_fields_def Let_def)
qed

text \<open>A supply-like agent on an executor: its \<open>reason\<close> always alerts.\<close>

definition demo_agent :: "nat exec_agent" where
  "demo_agent = \<lparr> xa_id = ''IA'', xa_sense = (\<lambda>_ n. (Inr [], Suc n)), xa_pop_inbox = (\<lambda>n. ([], n)),
     xa_reason = (\<lambda>_ n. (Inr (PDict [(''action'', PStr ''alert_pa'')]), n)),
     xa_act = (\<lambda>_ n. (Inr (PDict [(''sent_alert'', PBool True)]), Suc n)), xa_inspected = (\<lambda>_. Inr (PInt 0)),
     xa_recent_mean = None, xa_send = (\<lambda>_ n. n), xa_update = (\<lambda>_ n. (Inr (), n)) \<rparr>"

theorem executor_completes_witness:
  "\<exists>st x'. executor_cycle demo_agent None True True \<lparr> ct_elapsed = 1, ct_now = 0, ct_error_text = (\<lambda>_. []) \<rparr> 0 1
      [(''warehouse'', PDict [(''stock'', PInt 3), (''safety_stock'', PInt 25)])]
      \<lparr> ex_agent = 0, ex_registry = Some new_registry, ex_cycle = 7, ex_history = [], ex_out = [], ex_rng = demo_rng \<rparr> = (Inr st, x')
    \<and> ex_cycle x' = 8"
proof -
  let ?snap = "[(''warehouse'', PDict [(''stock'', PInt 3), (''safety_stock'', PInt 25)])]"
  have "numeric_snapshot ?snap" by (auto simp: numeric_snapshot_def numeric_key_def dget_or_def dget_def)
  moreover have "obliging demo_agent" by (simp add: obliging_def demo_agent_def)
  ultimately show ?thesis
    using executor_completes [of "\<lparr> ex_agent = 0, ex_registry = Some new_registry, ex_cycle = 7, ex_history = [], ex_out = [], ex_rng = demo_rng \<rparr>"
      new_registry ?snap demo_agent] new_registry_equipped by fastforce
qed

end
