(* ===== verification/Settings.thy ===== *)
theory Settings
  imports Py_Values
begin

text \<open>
  \<open>mas/core/config.py\<close>: settings from environment variables and an optional \<open>.env\<close> file. The
  environment is an association list; the text of the file, if it can be read, is an argument.
  White space is ASCII white space. The cache around \<open>get_settings\<close> is not modelled.
\<close>

section \<open>The environment\<close>

type_synonym environ = "(string \<times> string) list"

definition getenv :: "environ \<Rightarrow> string \<Rightarrow> string option" where
  "getenv e k = map_of e k"

definition getenv_or :: "environ \<Rightarrow> string \<Rightarrow> string \<Rightarrow> string" where
  "getenv_or e k dflt = (case map_of e k of Some v \<Rightarrow> v | None \<Rightarrow> dflt)"

text \<open>\<open>str.splitlines\<close>, on the bytes of a text: the length of the line break a text starts with.\<close>

definition break_length :: "string \<Rightarrow> nat" where
  "break_length s =
     (if take 2 s = [CHR 0x0D, CHR 0x0A] then 2
      else if take 1 s \<in> set [[CHR 0x0A], [CHR 0x0B], [CHR 0x0C], [CHR 0x0D], [CHR 0x1C], [CHR 0x1D], [CHR 0x1E]] then 1
      else if take 2 s = [CHR 0xC2, CHR 0x85] then 2
      else if take 3 s \<in> set [[CHR 0xE2, CHR 0x80, CHR 0xA8], [CHR 0xE2, CHR 0x80, CHR 0xA9]] then 3 else 0)"

function split_lines :: "string \<Rightarrow> string \<Rightarrow> string list" where
  "split_lines acc s =
     (if s = [] then (if acc = [] then [] else [rev acc])
      else if break_length s > 0 then rev acc # split_lines [] (drop (break_length s) s)
      else split_lines (hd s # acc) (tl s))"
  by pat_completeness auto
termination by (relation "measure (\<lambda>(_, s). length s)") auto

declare split_lines.simps [simp del]

definition without_bom :: "string \<Rightarrow> string" where
  "without_bom s = (if take 3 s = [CHR 0xEF, CHR 0xBB, CHR 0xBF] then drop 3 s else s)"

text \<open>\<open>s.strip(c)\<close> for one character.\<close>

definition strip_char :: "char \<Rightarrow> string \<Rightarrow> string" where
  "strip_char c s = rev (dropWhile (\<lambda>x. x = c) (rev (dropWhile (\<lambda>x. x = c) s)))"

definition dotenv_entry :: "string \<Rightarrow> (string \<times> string) option" where
  "dotenv_entry line =
     (let s = py_strip line; key = py_strip (takeWhile (\<lambda>c. c \<noteq> CHR ''='') s);
          val = strip_char (CHR 0x27) (strip_char (CHR 0x22) (py_strip (tl (dropWhile (\<lambda>c. c \<noteq> CHR ''='') s))))
      in if s = [] \<or> hd s = CHR ''#'' \<or> CHR ''='' \<notin> set s \<or> key = [] then None else Some (key, val))"

definition load_entry :: "string \<Rightarrow> environ \<Rightarrow> environ" where
  "load_entry line e = (case dotenv_entry line of
      None \<Rightarrow> e
    | Some (k, v) \<Rightarrow> (case getenv e k of
          None \<Rightarrow> AList.update k v e
        | Some cur \<Rightarrow> if py_strip cur = [] then AList.update k v e else e))"

definition load_dotenv :: "string option \<Rightarrow> environ \<Rightarrow> environ" where
  "load_dotenv file e = (case file of None \<Rightarrow> e | Some t \<Rightarrow> fold load_entry (split_lines [] (without_bom t)) e)"

section \<open>Typed access\<close>

definition env_int :: "environ \<Rightarrow> string \<Rightarrow> int \<Rightarrow> int" where
  "env_int e k dflt = (case getenv e k of None \<Rightarrow> dflt
     | Some v \<Rightarrow> if v = [] then dflt else (case parse_int v of Some i \<Rightarrow> i | None \<Rightarrow> dflt))"

definition env_float :: "environ \<Rightarrow> string \<Rightarrow> real \<Rightarrow> real" where
  "env_float e k dflt = (case getenv e k of None \<Rightarrow> dflt
     | Some v \<Rightarrow> if v = [] then dflt else (case parse_float v of Some x \<Rightarrow> x | None \<Rightarrow> dflt))"

definition env_bool :: "environ \<Rightarrow> string \<Rightarrow> bool \<Rightarrow> bool" where
  "env_bool e k dflt = (case getenv e k of None \<Rightarrow> dflt
     | Some v \<Rightarrow> if v = [] then dflt else py_lower (py_strip v) \<in> {''1'', ''true'', ''yes'', ''on''})"

section \<open>Settings\<close>

record settings =
  st_api_host :: string
  st_api_port :: int
  st_takt_sec :: real
  st_llm_model :: string
  st_llm_domain_model :: string
  st_log_level :: string
  st_api_bearer_token :: string
  st_cors_origins :: string
  st_llm_router_scope :: string
  st_llm_per_agent_assist :: bool

definition VALID_LLM_ROUTER_SCOPES :: "string list" where
  "VALID_LLM_ROUTER_SCOPES = [''pa_only'', ''all_gated'']"

definition or_text :: "string \<Rightarrow> string \<Rightarrow> string" where
  "or_text s dflt = (if s = [] then dflt else s)"

definition build_settings :: "string option \<Rightarrow> environ \<Rightarrow> settings \<times> environ" where
  "build_settings file e0 =
     (let e = load_dotenv file e0;
          scope = py_lower (py_strip (or_text (getenv_or e ''MAS_LLM_ROUTER_SCOPE'' ''pa_only'') ''pa_only''))
      in (\<lparr> st_api_host = py_strip (or_text (getenv_or e ''MAS_API_HOST'' ''127.0.0.1'') ''127.0.0.1''),
            st_api_port = env_int e ''MAS_API_PORT'' 8787,
            st_takt_sec = env_float e ''MAS_TAKT_SEC'' 2,
            st_llm_model = or_text (py_strip (getenv_or e ''MAS_LLM_MODEL'' ''gpt-4o-mini'')) ''gpt-4o-mini'',
            st_llm_domain_model = py_strip (getenv_or e ''MAS_LLM_DOMAIN_MODEL'' ''''),
            st_log_level = or_text (py_strip (getenv_or e ''MAS_LOG_LEVEL'' ''INFO'')) ''INFO'',
            st_api_bearer_token = py_strip (getenv_or e ''MAS_API_BEARER_TOKEN'' ''''),
            st_cors_origins = or_text (py_strip (getenv_or e ''MAS_CORS_ORIGINS'' ''*'')) ''*'',
            st_llm_router_scope = (if scope \<in> set VALID_LLM_ROUTER_SCOPES then scope else ''pa_only''),
            st_llm_per_agent_assist = env_bool e ''MAS_LLM_PER_AGENT_ASSIST'' False \<rparr>, e))"

fun split_on :: "char \<Rightarrow> string \<Rightarrow> string list" where
  "split_on d [] = [[]]"
| "split_on d (c # cs) = (if c = d then [] # split_on d cs
     else (case split_on d cs of l # ls \<Rightarrow> (c # l) # ls | [] \<Rightarrow> [[c]]))"

definition cors_origin_list :: "settings \<Rightarrow> string list" where
  "cors_origin_list s = (let raw = py_strip (st_cors_origins s) in
     if raw = ''*'' then [''*''] else filter (\<lambda>o'. o' \<noteq> []) (map py_strip (split_on (CHR '','') raw)))"

section \<open>Laws\<close>

lemma load_entry_keeps: "getenv e k = Some v \<Longrightarrow> py_strip v \<noteq> [] \<Longrightarrow> getenv (load_entry line e) k = Some v"
  by (auto simp: load_entry_def getenv_def update_conv' split: option.splits prod.splits)

lemma load_dotenv_keeps: "getenv e k = Some v \<Longrightarrow> py_strip v \<noteq> [] \<Longrightarrow> getenv (load_dotenv file e) k = Some v"
proof -
  assume "getenv e k = Some v" "py_strip v \<noteq> []"
  then have "getenv (fold load_entry ls e) k = Some v" for ls
    by (induction ls arbitrary: e) (simp_all add: load_entry_keeps)
  then show ?thesis using \<open>getenv e k = Some v\<close> by (simp add: load_dotenv_def split: option.split)
qed

text \<open>
  \<open>shell_wins\<close>: a variable that the process environment sets to anything but white space is
  never changed by the \<open>.env\<close> file, whatever the file holds; and whatever both hold, the router
  scope is one of the two known ones and model name, log level and origins are not empty.
\<close>

theorem shell_wins:
  assumes "getenv e k = Some v" "py_strip v \<noteq> []"
  shows "getenv (snd (build_settings file e)) k = Some v
    \<and> st_llm_router_scope (fst (build_settings file e)) \<in> set VALID_LLM_ROUTER_SCOPES
    \<and> st_llm_model (fst (build_settings file e)) \<noteq> [] \<and> st_log_level (fst (build_settings file e)) \<noteq> []
    \<and> st_cors_origins (fst (build_settings file e)) \<noteq> []"
  using load_dotenv_keeps [OF assms]
  by (simp add: build_settings_def Let_def or_text_def VALID_LLM_ROUTER_SCOPES_def)

theorem shell_wins_witness:
  "getenv (snd (build_settings (Some ''MAS_LLM_ROUTER_SCOPE=all_gated'') [(''MAS_LLM_ROUTER_SCOPE'', ''pa_only'')])) ''MAS_LLM_ROUTER_SCOPE''
     = Some ''pa_only''"
  using shell_wins [of "[(''MAS_LLM_ROUTER_SCOPE'', ''pa_only'')]" "''MAS_LLM_ROUTER_SCOPE''" "''pa_only''"]
  by (simp add: getenv_def py_strip_def is_space_def)

end
