(* ===== verification/Dashboard.thy ===== *)
theory Dashboard
  imports Settings Text_Layout
begin

text \<open>
  The descriptive part of the monitoring document: the control layers, roles and paths of
  \<open>mas/intelligence/control_matrix.py\<close>, the areas and coverage of \<open>agent_domain_registry.py\<close>, the
  teams of \<open>multi_agent_teams.py\<close> and the overview \<open>mas_overview.py\<close> derives from the last two.
\<close>

section \<open>Control matrix\<close>

definition CONTROL_LAYERS :: "dict list" where
  "CONTROL_LAYERS = [[(''layer'', PStr ''L0''), (''name'', PStr (utf8 [0xD544, 0xB4DC, 0x20, 0xB7, 0x20, 0xC13C, 0xC11C, 0x2F, 0xC561, 0xCD94, 0xC5D0, 0xC774, 0xD130, 0x28, 0xC2DC, 0xBBAC, 0x29])),
    (''mechanism'', PStr (utf8 [0x46, 0x61, 0x63, 0x74, 0x6F, 0x72, 0x79, 0x2E, 0x72, 0x75, 0x6E, 0x5F, 0x63, 0x79, 0x63, 0x6C, 0x65, 0x2C, 0x20, 0x53, 0x74, 0x61, 0x74, 0x69, 0x6F, 0x6E, 0x20, 0xC13C, 0xC11C, 0xB7, 0xC0C1, 0xD0DC, 0x20, 0xBA38, 0xC2E0])), (''latency'', PStr (utf8 [0x3C, 0x20, 0x31, 0x30, 0x30, 0x6D, 0x73, 0xAE09, 0x28, 0xC2DC, 0xBBAC, 0x20, 0xD0DD, 0xD2B8, 0x29])), (''llm_role'', PStr (utf8 [0xC5C6, 0xC74C]))],
      [(''layer'', PStr ''L1''), (''name'', PStr (utf8 [0xC548, 0xC804, 0x20, 0xB7, 0x20, 0xC778, 0xD130, 0xB85D])), (''mechanism'', PStr (utf8 [0x48, 0x79, 0x62, 0x72, 0x69, 0x64, 0x44, 0x65, 0x63, 0x69, 0x73, 0x69, 0x6F, 0x6E, 0x52, 0x6F, 0x75, 0x74, 0x65, 0x72, 0x20, 0xC548, 0xC804, 0x20, 0xADDC, 0xCE59, 0x28, 0xC9C4, 0xB3D9, 0xB7, 0xC720, 0xC628, 0x20, 0xBE44, 0xC0C1, 0x29])),
        (''latency'', PStr (utf8 [0xC989, 0xC2DC])), (''llm_role'', PStr (utf8 [0xC5C6, 0xC74C, 0x20, 0x28, 0xC9C0, 0xC5F0, 0x20, 0xBD88, 0xAC00, 0x29]))],
      [(''layer'', PStr ''L2''), (''name'', PStr (utf8 [0xC784, 0xACC4, 0xB7, 0x53, 0x50, 0x43, 0xB7, 0x52, 0x4F, 0x50])), (''mechanism'', PStr (utf8 [0xC5D0, 0xC774, 0xC804, 0xD2B8, 0xBCC4, 0x20, 0xC784, 0xACC4, 0x20, 0xADDC, 0xCE59, 0x28, 0x45, 0x41, 0xB7, 0x53, 0x41, 0x20, 0xB4F1, 0x29, 0x2C, 0x20, 0xB3C4, 0xBA54, 0xC778, 0x20, 0xC810, 0xC218])),
        (''latency'', PStr (utf8 [0xC989, 0xC2DC, 0x7E, 0xC218, 0xBC31, 0x6D, 0x73])), (''llm_role'', PStr (utf8 [0xC5C6, 0xC74C]))],
      [(''layer'', PStr ''L3''), (''name'', PStr (utf8 [0xBA40, 0xD2F0, 0x20, 0xC5D0, 0xC774, 0xC804, 0xD2B8, 0x20, 0xD611, 0xC5C5])), (''mechanism'', PStr (utf8 [0xBE0C, 0xB85C, 0xCEE4, 0x20, 0x50, 0x75, 0x62, 0x2F, 0x53, 0x75, 0x62, 0x2C, 0x20, 0x43, 0x4E, 0x50, 0x28, 0xC81C, 0xC548, 0xB7, 0xC194, 0xBC84, 0x20, 0xC810, 0xC218, 0x29])),
        (''latency'', PStr (utf8 [0xD0DD, 0xD2B8, 0x20, 0xB2E8, 0xC704])), (''llm_role'', PStr (utf8 [0x43, 0x4E, 0x50, 0x20, 0xD6C4, 0x20, 0xADFC, 0xAC70, 0x20, 0xC11C, 0xC220, 0x28, 0xC120, 0xD0DD, 0x2C, 0x20, 0x50, 0x41, 0xB7, 0xC194, 0xBC84, 0x20, 0xACE0, 0xC815, 0x29]))],
      [(''layer'', PStr ''L4''), (''name'', PStr (utf8 [0xAD00, 0xCE21, 0x20, 0xB7, 0x20, 0xAC10, 0xC0AC])), (''mechanism'', PStr (utf8 [0x52, 0x45, 0x53, 0x54, 0x2F, 0x53, 0x53, 0x45, 0x2C, 0x20, 0xB300, 0xC2DC, 0xBCF4, 0xB4DC, 0x2C, 0x20, 0x4B, 0x50, 0x49])),
        (''latency'', PStr (utf8 [0xBE44, 0xB3D9, 0xAE30])), (''llm_role'', PStr (utf8 [0xC5C6, 0xC74C]))]]"

definition AGENT_ROLES :: "dict list" where
  "AGENT_ROLES = [[(''id'', PStr ''EA''), (''name'', PStr (utf8 [0xC124, 0xBE44])), (''primary'', PStr (utf8 [0xC608, 0xC9C0, 0xB7, 0xC9C4, 0xB3D9, 0x2F, 0xC720, 0xC628, 0x20, 0xC784, 0xACC4, 0x2C, 0x20, 0xC124, 0xBE44, 0x20, 0xC0C1, 0xD0DC])),
    (''llm_aux'', PStr (utf8 [0xB77C, 0xC6B0, 0xD130, 0x20, 0xBC94, 0xC704, 0xAC00, 0x20, 0x61, 0x6C, 0x6C, 0x5F, 0x67, 0x61, 0x74, 0x65, 0x64, 0x20, 0xC774, 0xACE0, 0x20, 0xBCF4, 0xC870, 0x20, 0xD65C, 0xC131, 0x20, 0xC2DC, 0x20, 0xBCF5, 0xD569, 0x20, 0xACBD, 0xBCF4, 0x20, 0xC0C1, 0xD669, 0xBD84, 0xC11D, 0x20, 0xD6C4, 0xBCF4]))],
      [(''id'', PStr ''QA''), (''name'', PStr (utf8 [0xD488, 0xC9C8])), (''primary'', PStr (utf8 [0x53, 0x50, 0x43, 0xB7, 0xBD88, 0xB7C9, 0xB7, 0xAD00, 0xB9AC, 0xB3C4])), (''llm_aux'', PStr (utf8 [0xB3D9, 0xC77C, 0x20, 0x28, 0xACE0, 0xC2EC, 0xAC01, 0xB3C4, 0x2B, 0xBCF5, 0xD569, 0x20, 0xACBD, 0xBCF4, 0x20, 0xC2DC, 0x29]))],
      [(''id'', PStr ''SA''), (''name'', PStr (utf8 [0xC790, 0xC7AC])), (''primary'', PStr (utf8 [0xBC84, 0xD37C, 0xB7, 0x52, 0x4F, 0x50, 0xB7, 0xBCF4, 0xCDA9])), (''llm_aux'', PStr (utf8 [0xB3D9, 0xC77C]))],
      [(''id'', PStr ''DA''), (''name'', PStr (utf8 [0xC218, 0xC694])), (''primary'', PStr (utf8 [0xC218, 0xC694, 0xB7, 0xB0A9, 0xAE30])), (''llm_aux'', PStr (utf8 [0xB3D9, 0xC77C]))],
      [(''id'', PStr ''IA''), (''name'', PStr (utf8 [0xC7AC, 0xACE0])), (''primary'', PStr (utf8 [0x57, 0x49, 0x50, 0xB7, 0xBCD1, 0xBAA9])), (''llm_aux'', PStr (utf8 [0xB3D9, 0xC77C]))],
      [(''id'', PStr ''PA''), (''name'', PStr (utf8 [0xACC4, 0xD68D])), (''primary'', PStr (utf8 [0x4F, 0x45, 0x45, 0xB7, 0x43, 0x4E, 0x50, 0x20, 0xC8FC, 0xAD00, 0xB7, 0xC804, 0xC5ED, 0x20, 0xC870, 0xC728])),
        (''llm_aux'', PStr (utf8 [0x2460, 0x20, 0x43, 0x4E, 0x50, 0x20, 0xADFC, 0xAC70, 0x20, 0xC11C, 0xC220, 0x20, 0x2461, 0x20, 0xBCF5, 0xD569, 0xACBD, 0xBCF4, 0x20, 0xC2DC, 0x20, 0x61, 0x6E, 0x61, 0x6C, 0x79, 0x7A, 0x65, 0x5F, 0x73, 0x69, 0x74, 0x75, 0x61, 0x74, 0x69, 0x6F, 0x6E, 0x20, 0x28, 0xB77C, 0xC6B0, 0xD130, 0x29]))]]"

definition LLM_PATHS :: "dict list" where
  "LLM_PATHS = [[(''path'', PStr ''A''), (''entry'', PStr ''PlanningAgent._build_strategy_llm''),
    (''api'', PStr ''LLMClient.evaluate_proposals / rationalize_cnp_decision''), (''when'', PStr (utf8 [0x43, 0x4E, 0x50, 0x20, 0xC81C, 0xC548, 0x20, 0xC218, 0xC9D1, 0x20, 0xD6C4, 0x20, 0xC194, 0xBC84, 0xAC00, 0x20, 0xC218, 0xCE58, 0x20, 0xD655, 0xC815])),
    (''effect'', PStr (utf8 [0xC218, 0xCE58, 0x20, 0xBCC0, 0xACBD, 0x20, 0xC5C6, 0xC74C, 0x2C, 0x20, 0xADFC, 0xAC70, 0xB7, 0xB9AC, 0xC2A4, 0xD06C, 0x20, 0xBB38, 0xC7A5, 0xB9CC]))],
      [(''path'', PStr ''B''), (''entry'', PStr ''HybridDecisionRouter._route_to_llm''),
        (''api'', PStr ''LLMClient.analyze_situation''), (''when'', PStr (utf8 [0xB77C, 0xC6B0, 0xD130, 0x20, 0xC815, 0xCC45, 0xB7, 0xACBD, 0xBCF4, 0x20, 0xBCF5, 0xC7A1, 0xB3C4, 0x20, 0xCDA9, 0xC871, 0x20, 0xC2DC])),
        (''effect'', PStr (utf8 [0xB85C, 0xADF8, 0xB7, 0xAD8C, 0xACE0, 0x20, 0x4A, 0x53, 0x4F, 0x4E, 0x2C, 0x20, 0xC124, 0xBE44, 0x20, 0xC9C1, 0xC811, 0x20, 0xBA85, 0xB839, 0x20, 0xC544, 0xB2D8]))]]"

definition router_summary :: "string \<Rightarrow> bool \<Rightarrow> string" where
  "router_summary scope assist =
     (if scope = ''pa_only'' then (utf8 [0xB77C, 0xC6B0, 0xD130, 0xC758, 0x20, 0x61, 0x6E, 0x61, 0x6C, 0x79, 0x7A, 0x65, 0x5F, 0x73, 0x69, 0x74, 0x75, 0x61, 0x74, 0x69, 0x6F, 0x6E, 0x20, 0xC740, 0x20, 0x50, 0x41, 0x20, 0xD2F1, 0xC5D0, 0xC11C, 0xB9CC, 0x20, 0xD6C4, 0xBCF4, 0x2E, 0x20, 0x43, 0x4E, 0x50, 0x20, 0xADFC, 0xAC70, 0x20, 0x4C, 0x4C, 0x4D, 0xC740, 0x20, 0xBCC4, 0xB3C4, 0x28, 0x50, 0x6C, 0x61, 0x6E, 0x6E, 0x69, 0x6E, 0x67, 0x41, 0x67, 0x65, 0x6E, 0x74, 0x29, 0x2E])
      else if scope = ''all_gated'' then
        (if assist then (utf8 [0xBE44, 0x20, 0x50, 0x41, 0x20, 0xC5D0, 0xC774, 0xC804, 0xD2B8, 0xB3C4, 0x20, 0xACE0, 0xC2EC, 0xAC01, 0xB7, 0xBCF5, 0xD569, 0x20, 0xACBD, 0xBCF4, 0x20, 0xC2DC, 0xC5D0, 0xB9CC, 0x20, 0xB3D9, 0xC77C, 0x20, 0x4C, 0x4C, 0x4D, 0x20, 0xACBD, 0xB85C, 0x20, 0xD6C4, 0xBCF4, 0x2E, 0x20, 0xAE30, 0xBCF8, 0xC740, 0x20, 0xADDC, 0xCE59, 0xB7, 0xC194, 0xBC84, 0x20, 0xC6B0, 0xC120, 0x2E])
         else (utf8 [0x61, 0x6C, 0x6C, 0x5F, 0x67, 0x61, 0x74, 0x65, 0x64, 0x20, 0xC774, 0xC9C0, 0xB9CC, 0x20, 0x70, 0x65, 0x72, 0x5F, 0x61, 0x67, 0x65, 0x6E, 0x74, 0x5F, 0x61, 0x73, 0x73, 0x69, 0x73, 0x74, 0x3D, 0x30, 0x20, 0xC774, 0xBBC0, 0xB85C, 0x20, 0xB77C, 0xC6B0, 0xD130, 0x20, 0x4C, 0x4C, 0x4D, 0x20, 0xD6C4, 0xBCF4, 0xB294, 0x20, 0x50, 0x41, 0x20, 0xC640, 0x20, 0xB3D9, 0xC77C, 0x20, 0xC870, 0xAC74, 0x2E]))
      else ''llm_router_scope='' @ scope)"

definition build_control_payload :: "settings \<Rightarrow> dict" where
  "build_control_payload st =
     [(''control_layers'', PList (map PDict CONTROL_LAYERS)), (''agent_roles'', PList (map PDict AGENT_ROLES)),
      (''llm_paths'', PList (map PDict LLM_PATHS)),
      (''runtime_policy'', PDict [(''llm_router_scope'', PStr (st_llm_router_scope st)),
         (''llm_per_agent_assist'', PBool (st_llm_per_agent_assist st)),
         (''router_summary'', PStr (router_summary (st_llm_router_scope st) (st_llm_per_agent_assist st)))])]"

section \<open>Coverage\<close>

definition FACTORY_AREAS :: "(string \<times> string) list" where
  "FACTORY_AREAS = [(''line'', (utf8 [0x36, 0xACF5, 0xC815, 0x20, 0xB77C, 0xC778, 0x20, 0x28, 0x57, 0x43, 0x2D, 0x30, 0x31, 0x7E, 0x30, 0x36, 0x29])),
      (''materials'', (utf8 [0xC6D0, 0xC790, 0xC7AC, 0xB7, 0xC18C, 0xBAA8, 0xD488])),
      (''orders'', (utf8 [0xACE0, 0xAC1D, 0x20, 0xC8FC, 0xBB38, 0xB7, 0xB0A9, 0xAE30])),
      (''wip'', (utf8 [0x57, 0x49, 0x50, 0x20, 0xBC84, 0xD37C])),
      (''fg'', (utf8 [0xC644, 0xC81C, 0xD488, 0xB7, 0xCD9C, 0xD558])),
      (''energy'', (utf8 [0xACF5, 0xC815, 0x20, 0xC5D0, 0xB108, 0xC9C0])),
      (''events'', (utf8 [0xB79C, 0xB364, 0x20, 0xC774, 0xBCA4, 0xD2B8, 0x28, 0xACE0, 0xC7A5, 0xB7, 0xC8FC, 0xBB38, 0x20, 0xB4F1, 0x29]))]"

definition area :: "string \<Rightarrow> string" where
  "area k = the (map_of FACTORY_AREAS k)"

definition AGENT_FACTORY_COVERAGE :: "dict list" where
  "AGENT_FACTORY_COVERAGE = [[(''id'', PStr ''EA''), (''name'', PStr (utf8 [0xC124, 0xBE44])), (''areas'', PList [PStr (area ''line''),
             PStr (area ''events'')]), (''primary_data'', PStr (utf8 [0x73, 0x74, 0x61, 0x74, 0x69, 0x6F, 0x6E, 0x73, 0x5B, 0x2A, 0x5D, 0x2E, 0x73, 0x65, 0x6E, 0x73, 0x6F, 0x72, 0x73, 0x2C, 0x20, 0xC0C1, 0xD0DC, 0xB7, 0x4F, 0x45, 0x45, 0xB7, 0x4D, 0x54, 0x42, 0x46, 0x2F, 0x4D, 0x54, 0x54, 0x52, 0xB7, 0xACF5, 0xAD6C])),
               (''intelligence'', PStr (utf8 [0xC720, 0xD615, 0xBCC4, 0x20, 0xC608, 0xC9C0, 0x20, 0xD328, 0xD0A4, 0xC9C0, 0x28, 0x50, 0x52, 0x45, 0x53, 0x53, 0x2F, 0x57, 0x45, 0x4C, 0x44, 0x2F, 0x48, 0x45, 0x41, 0x54, 0x2F, 0x43, 0x4E, 0x43, 0x2F, 0x41, 0x53, 0x53, 0x59, 0x29, 0x20, 0x2B, 0x20, 0xC774, 0xC0C1, 0xB7, 0x52, 0x55, 0x4C, 0x20, 0xD734, 0xB9AC, 0xC2A4, 0xD2F1])),
               (''coordination'', PStr (utf8 [0x50, 0x41, 0xB7, 0x43, 0x4E, 0x50, 0xC5D0, 0x20, 0xC124, 0xBE44, 0x20, 0xC81C, 0xC57D, 0xB7, 0xC18D, 0xB3C4, 0x20, 0xC81C, 0xC548]))],
      [(''id'', PStr ''QA''), (''name'', PStr (utf8 [0xD488, 0xC9C8])), (''areas'', PList [PStr (area ''line''),
             PStr (area ''fg'')]), (''primary_data'', PStr (utf8 [0xCE21, 0xC815, 0x20, 0xC774, 0xB825, 0xB7, 0x43, 0x70, 0x6B, 0xB7, 0xAD00, 0xB9AC, 0xB3C4, 0x20, 0xD55C, 0xACC4, 0xB7, 0xBD88, 0xB7C9, 0x20, 0xB85C, 0xADF8])),
               (''intelligence'', PStr (utf8 [0x53, 0x50, 0x43, 0xB7, 0xB7F0, 0x20, 0xADDC, 0xCE59, 0xB7, 0xACF5, 0xC815, 0x20, 0xAC04, 0x20, 0xC0C1, 0xAD00, 0x28, 0xC2DC, 0xBBAC, 0x29])), (''coordination'', PStr (utf8 [0xBD88, 0xB7C9, 0xB7, 0xB4DC, 0xB9AC, 0xD504, 0xD2B8, 0x20, 0xC2DC, 0x20, 0x50, 0x41, 0x20, 0xC54C, 0xB9BC]))],
      [(''id'', PStr ''SA''), (''name'', PStr (utf8 [0xC790, 0xC7AC])), (''areas'', PList [PStr (area ''materials'')]),
        (''primary_data'', PStr (utf8 [0x6D, 0x61, 0x74, 0x65, 0x72, 0x69, 0x61, 0x6C, 0x73, 0x5B, 0x2A, 0x5D, 0x20, 0xC7AC, 0xACE0, 0xB7, 0x52, 0x4F, 0x50, 0xB7, 0xB9AC, 0xB4DC, 0xD0C0, 0xC784, 0xB7, 0xACF5, 0xAE09, 0xC790])), (''intelligence'', PStr (utf8 [0xC18C, 0xBAA8, 0x20, 0xC608, 0xCE21, 0xB7, 0xBC1C, 0xC8FC, 0x20, 0xD544, 0xC694, 0x20, 0xD310, 0xB2E8])),
        (''coordination'', PStr (utf8 [0xBD80, 0xC871, 0x20, 0xC2DC, 0x20, 0x50, 0x41, 0xB7, 0xC0DD, 0xC0B0, 0x20, 0xC54C, 0xB9BC]))],
      [(''id'', PStr ''DA''), (''name'', PStr (utf8 [0xC218, 0xC694])), (''areas'', PList [PStr (area ''orders'')]),
        (''primary_data'', PStr (utf8 [0x6F, 0x72, 0x64, 0x65, 0x72, 0x73, 0x5B, 0x2A, 0x5D, 0x20, 0xC218, 0xB7C9, 0xB7, 0xB0A9, 0xAE30, 0xB7, 0xC6B0, 0xC120, 0xC21C, 0xC704])), (''intelligence'', PStr (utf8 [0xC218, 0xC694, 0x20, 0xBCC0, 0xB3D9, 0xB7, 0xAE34, 0xAE09, 0x20, 0xC8FC, 0xBB38, 0x20, 0xAC10, 0xC9C0])),
        (''coordination'', PStr (utf8 [0xB0A9, 0xAE30, 0x20, 0xC555, 0xB825, 0xC744, 0x20, 0x50, 0x41, 0xB7, 0x49, 0x41, 0xC5D0, 0x20, 0xBC18, 0xC601]))],
      [(''id'', PStr ''IA''), (''name'', PStr (utf8 [0xC7AC, 0xACE0])), (''areas'', PList [PStr (area ''wip''),
             PStr (area ''fg'')]), (''primary_data'', PStr (utf8 [0x57, 0x49, 0x50, 0x20, 0xBC84, 0xD37C, 0xB7, 0xC644, 0xC81C, 0xD488, 0x20, 0xC7AC, 0xACE0, 0xB7, 0xBCD1, 0xBAA9, 0x20, 0xD78C, 0xD2B8])), (''intelligence'', PStr (utf8 [0xD750, 0xB984, 0xB7, 0xC7AC, 0xACE0, 0x20, 0xC218, 0xC900, 0x20, 0xD3C9, 0xAC00])),
               (''coordination'', PStr (utf8 [0x50, 0x41, 0xC640, 0x20, 0xBB3C, 0xB7C9, 0xB7, 0xC18D, 0xB3C4, 0x20, 0xD611, 0xC758]))],
      [(''id'', PStr ''PA''), (''name'', PStr (utf8 [0xACC4, 0xD68D])), (''areas'', PList [PStr (area ''line''),
             PStr (area ''orders''),
             PStr (area ''materials''),
             PStr (area ''fg'')]), (''primary_data'', PStr (utf8 [0xC804, 0xC5ED, 0x20, 0xC2A4, 0xB0C5, 0xC0F7, 0xB7, 0xC5D0, 0xC774, 0xC804, 0xD2B8, 0x20, 0xC54C, 0xB9BC, 0xB7, 0x43, 0x4E, 0x50, 0x20, 0xC81C, 0xC548])),
               (''intelligence'', PStr (utf8 [0xADDC, 0xCE59, 0x20, 0xAE30, 0xBC18, 0x20, 0x43, 0x4E, 0x50, 0x20, 0x2B, 0x20, 0x28, 0xC120, 0xD0DD, 0x29, 0x20, 0x4C, 0x4C, 0x4D, 0x20, 0xADFC, 0xAC70, 0xB7, 0xC0C1, 0xD669, 0x20, 0xBD84, 0xC11D])), (''coordination'', PStr (utf8 [0x43, 0x46, 0x50, 0xB7, 0xC804, 0xB7B5, 0xB7, 0xB77C, 0xC778, 0x20, 0xC18D, 0xB3C4, 0x20, 0xCD5C, 0xC885, 0x20, 0xC870, 0xC815]))]]"

definition build_factory_coverage_payload :: dict where
  "build_factory_coverage_payload =
     [(''summary'', PStr (utf8 [0xACF5, 0xC7A5, 0xC740, 0x20, 0xB2E8, 0xC77C, 0x20, 0xC608, 0xC9C0, 0xBCF4, 0xC804, 0x20, 0xBAA8, 0xB378, 0xC774, 0x20, 0xC544, 0xB2C8, 0xB77C, 0x2C, 0x20, 0xC124, 0xBE44, 0xB7, 0xD488, 0xC9C8, 0xB7, 0xC790, 0xC7AC, 0xB7, 0xC218, 0xC694, 0xB7, 0xC7AC, 0xACE0, 0xB7, 0xACC4, 0xD68D, 0x20, 0x2A, 0x2A, 0x36, 0xC5ED, 0xD560, 0x2A, 0x2A, 0xB85C, 0x20, 0xBD84, 0xD560, 0xB418, 0xC5B4, 0x20, 0xB3D9, 0xC77C, 0x20, 0xC2A4, 0xB0C5, 0xC0F7, 0xB7, 0xBE0C, 0xB85C, 0xCEE4, 0x20, 0xC704, 0xC5D0, 0xC11C, 0x20, 0xD611, 0xC5C5, 0xD55C, 0xB2E4, 0x2E, 0x20, 0x45, 0x41, 0xB294, 0x20, 0x2A, 0x2A, 0xB77C, 0xC778, 0x20, 0xC790, 0xC0B0, 0x2A, 0x2A, 0x2C, 0x20, 0x50, 0x41, 0xB294, 0x20, 0x2A, 0x2A, 0xC804, 0xC5ED, 0x20, 0xC624, 0xCF00, 0xC2A4, 0xD2B8, 0xB808, 0xC774, 0xC158, 0x2A, 0x2A, 0x2E])),
      (''areas_reference'', PDict (map (\<lambda>(k, v). (k, PStr v)) FACTORY_AREAS)),
      (''agents'', PList (map PDict AGENT_FACTORY_COVERAGE))]"

section \<open>Teams\<close>

definition MULTI_AGENT_TEAMS :: "(string \<times> dict list) list" where
  "MULTI_AGENT_TEAMS = [(''EA'', [[(''id'', PStr ''EA-PdM-VIB''), (''name'', PStr (utf8 [0xC9C4, 0xB3D9, 0xB7, 0xBCA0, 0xC5B4, 0xB9C1])), (''focus'', PStr (utf8 [0xC2A4, 0xD399, 0xD2B8, 0xB7FC, 0xB7, 0xC774, 0xC0C1, 0xC810, 0xC218, 0xB7, 0xD2B8, 0xB80C, 0xB4DC]))],
        [(''id'', PStr ''EA-PdM-HYD''), (''name'', PStr (utf8 [0xC720, 0xC555, 0xB7, 0xC724, 0xD65C])), (''focus'', PStr (utf8 [0xC720, 0xC628, 0xB7, 0xC555, 0xB825, 0xB7, 0xB204, 0xC720, 0x20, 0xD328, 0xD134]))],
        [(''id'', PStr ''EA-PdM-TOOL''), (''name'', PStr (utf8 [0xACF5, 0xAD6C, 0xB7, 0xAE08, 0xD615])), (''focus'', PStr (utf8 [0xB9C8, 0xBAA8, 0x20, 0xAD6C, 0xAC04, 0xB7, 0xAD50, 0xCCB4, 0x20, 0xD0C0, 0xC774, 0xBC0D]))],
        [(''id'', PStr ''EA-LINE''), (''name'', PStr (utf8 [0xB77C, 0xC778, 0x20, 0xC870, 0xC728])), (''focus'', PStr (utf8 [0x57, 0x43, 0x20, 0xAC04, 0x20, 0xC6B0, 0xC120, 0xC21C, 0xC704, 0xB7, 0xAC10, 0xC18D, 0x20, 0xC5F0, 0xACC4]))]]),
      (''QA'', [[(''id'', PStr ''QA-SPC''), (''name'', PStr (utf8 [0x53, 0x50, 0x43, 0xB7, 0xAD00, 0xB9AC, 0xB3C4])), (''focus'', PStr (utf8 [0x43, 0x70, 0x6B, 0xB7, 0xD55C, 0xACC4, 0x20, 0xC774, 0xD0C8]))],
        [(''id'', PStr ''QA-RULE''), (''name'', PStr (utf8 [0xB7F0, 0x20, 0xADDC, 0xCE59])), (''focus'', PStr (utf8 [0x57, 0x65, 0x73, 0x74, 0x65, 0x72, 0x6E, 0x20, 0x45, 0x6C, 0x65, 0x63, 0x74, 0x72, 0x69, 0x63, 0xB958, 0x20, 0xD328, 0xD134]))],
        [(''id'', PStr ''QA-CORR''), (''name'', PStr (utf8 [0xACF5, 0xC815, 0x20, 0xC0C1, 0xAD00])), (''focus'', PStr (utf8 [0x57, 0x43, 0x20, 0xAC04, 0x20, 0xD488, 0xC9C8, 0x20, 0xC804, 0xD30C]))],
        [(''id'', PStr ''QA-ALERT''), (''name'', PStr (utf8 [0xACBD, 0xBCF4, 0x20, 0xB77C, 0xC6B0, 0xD305])), (''focus'', PStr (utf8 [0x50, 0x41, 0xB7, 0x45, 0x41, 0x20, 0xC54C, 0xB9BC, 0x20, 0xC870, 0xAC74]))]]),
      (''SA'', [[(''id'', PStr ''SA-ROP''), (''name'', PStr (utf8 [0x52, 0x4F, 0x50, 0xB7, 0xC548, 0xC804, 0xC7AC, 0xACE0])), (''focus'', PStr (utf8 [0xC7AC, 0xC8FC, 0xBB38, 0xC810, 0xB7, 0xC77C, 0xC218, 0xBD84]))],
        [(''id'', PStr ''SA-SUP''), (''name'', PStr (utf8 [0xACF5, 0xAE09, 0xC0AC])), (''focus'', PStr (utf8 [0xB9AC, 0xB4DC, 0xD0C0, 0xC784, 0xB7, 0xC2E0, 0xB8B0, 0xB3C4]))],
        [(''id'', PStr ''SA-SHOR''), (''name'', PStr (utf8 [0xBD80, 0xC871, 0x20, 0xC608, 0xCE21])), (''focus'', PStr (utf8 [0xC18C, 0xBAA8, 0xC728, 0xB7, 0xC785, 0xACE0, 0x20, 0xC774, 0xBCA4, 0xD2B8]))]]),
      (''DA'', [[(''id'', PStr ''DA-ORD''), (''name'', PStr (utf8 [0xC8FC, 0xBB38, 0xB7, 0xB0A9, 0xAE30])), (''focus'', PStr (utf8 [0xC794, 0xB7C9, 0xB7, 0xC6B0, 0xC120, 0xC21C, 0xC704]))],
        [(''id'', PStr ''DA-SURGE''), (''name'', PStr (utf8 [0xC218, 0xC694, 0x20, 0xBCC0, 0xB3D9])), (''focus'', PStr (utf8 [0xAE34, 0xAE09, 0xB7, 0xBC30, 0xCE58, 0x20, 0xBCC0, 0xD654]))],
        [(''id'', PStr ''DA-FCS''), (''name'', PStr (utf8 [0xC608, 0xCE21, 0x20, 0xBCF4, 0xC815])), (''focus'', PStr (utf8 [0xB2E8, 0xAE30, 0x20, 0xC218, 0xC694, 0x20, 0xD78C, 0xD2B8, 0x28, 0xC2DC, 0xBBAC, 0x29]))]]),
      (''IA'', [[(''id'', PStr ''IA-WIP''), (''name'', PStr (utf8 [0x57, 0x49, 0x50, 0xB7, 0xBC84, 0xD37C])), (''focus'', PStr (utf8 [0xAD6C, 0xAC04, 0xBCC4, 0x20, 0xC801, 0xCCB4]))],
        [(''id'', PStr ''IA-FG''), (''name'', PStr (utf8 [0xC644, 0xC81C, 0xD488])), (''focus'', PStr (utf8 [0x46, 0x47, 0xB7, 0xCD9C, 0xD558, 0x20, 0xC555, 0xB825]))],
        [(''id'', PStr ''IA-BN''), (''name'', PStr (utf8 [0xBCD1, 0xBAA9, 0x20, 0xD78C, 0xD2B8])), (''focus'', PStr (utf8 [0x4F, 0x45, 0x45, 0xB7, 0xD750, 0xB984, 0x20, 0xC5F0, 0xACC4]))]]),
      (''PA'', [[(''id'', PStr ''PA-ORCH''), (''name'', PStr (utf8 [0xC624, 0xCF00, 0xC2A4, 0xD2B8, 0xB808, 0xC774, 0xC158])), (''focus'', PStr (utf8 [0xC804, 0xC5ED, 0x20, 0x4B, 0x50, 0x49, 0xB7, 0xC18D, 0xB3C4, 0x20, 0xB808, 0xBC84]))],
        [(''id'', PStr ''PA-CNP''), (''name'', PStr (utf8 [0x43, 0x4E, 0x50, 0x20, 0xC0AC, 0xBB34, 0xAD6D])), (''focus'', PStr (utf8 [0x43, 0x46, 0x50, 0xB7, 0xC81C, 0xC548, 0xB7, 0xC194, 0xBC84]))],
        [(''id'', PStr ''PA-LLM''), (''name'', PStr (utf8 [0xC11C, 0xC220, 0xB7, 0xC0C1, 0xD669])), (''focus'', PStr (utf8 [0xADFC, 0xAC70, 0x20, 0xBB38, 0xC7A5, 0xB7, 0xBCF5, 0xD569, 0xACBD, 0xBCF4, 0x28, 0xC120, 0xD0DD, 0x29]))],
        [(''id'', PStr ''PA-POL''), (''name'', PStr (utf8 [0xC815, 0xCC45, 0xB7, 0xD55C, 0xACC4])), (''focus'', PStr (utf8 [0xADDC, 0xCE59, 0xB7, 0xC548, 0xC804, 0x20, 0xC0C1, 0xD55C]))]])]"

definition build_multi_agent_teams_payload :: dict where
  "build_multi_agent_teams_payload =
     [(''summary'', PStr (utf8 [0xAC01, 0x20, 0xC0C1, 0xC704, 0x20, 0xC5D0, 0xC774, 0xC804, 0xD2B8, 0x28, 0x45, 0x41, 0x7E, 0x50, 0x41, 0x29, 0xB294, 0x20, 0xB2E8, 0xC77C, 0x20, 0x69, 0x66, 0xBB38, 0xC774, 0x20, 0xC544, 0xB2C8, 0xB77C, 0x2C, 0x20, 0x2A, 0x2A, 0xB0B4, 0xBD80, 0x20, 0xC804, 0xBB38, 0x20, 0xC5ED, 0xD560, 0x28, 0xC11C, 0xBE0C, 0x20, 0xC5D0, 0xC774, 0xC804, 0xD2B8, 0x29, 0x2A, 0x2A, 0x20, 0xC758, 0x20, 0xD569, 0xC73C, 0xB85C, 0x20, 0xBCF8, 0xB2E4, 0x2E, 0x20, 0xD604, 0xC7AC, 0x20, 0xCF54, 0xB4DC, 0xB294, 0x20, 0xB300, 0xBD80, 0xBD84, 0x20, 0xD55C, 0x20, 0xD074, 0xB798, 0xC2A4, 0xB7, 0xBAA8, 0xB4C8, 0xC5D0, 0x20, 0xAD6C, 0xD604, 0xB418, 0xC5B4, 0x20, 0xC788, 0xC73C, 0xB098, 0x2C, 0x20, 0xCC45, 0xC784, 0xC740, 0x20, 0xC544, 0xB798, 0xC640, 0x20, 0xAC19, 0xC774, 0x20, 0xBD84, 0xB9AC, 0xD574, 0x20, 0xD655, 0xC7A5, 0xD55C, 0xB2E4, 0x2E])),
      (''teams'', PDict (map (\<lambda>(k, v). (k, PList (map PDict v))) MULTI_AGENT_TEAMS))]"

section \<open>Overview\<close>

text \<open>The line of a role: its first two areas and its intelligence, cut to 70 characters; without either, its data.\<close>

definition one_liner :: "dict \<Rightarrow> string" where
  "one_liner a =
     (let areas = map str_or_empty (list_or_empty (dget_none a ''areas''));
          short_areas = (if areas = [] then [] else py_join (utf8 [0x20, 0xB7, 0x20]) (take 2 areas));
          intel0 = py_strip (str_or_empty (dget_none a ''intelligence''));
          intel = (if code_points intel0 > 72 then utf8_take 69 intel0 @ (utf8 [0x2026]) else intel0)
      in if short_areas \<noteq> [] \<and> intel \<noteq> [] then (utf8 [0xB2F4, 0xB2F9, 0x20]) @ short_areas @ (utf8 [0x20, 0x2014, 0x20]) @ intel
         else if intel \<noteq> [] then intel else if short_areas \<noteq> [] then short_areas
         else utf8_take 80 (str_or_empty (dget_none a ''primary_data'')))"

definition role_dict :: "dict \<Rightarrow> dict" where
  "role_dict a =
     (let i = str_or_empty (dget_none a ''id'') in
      [(''id'', PStr i), (''name'', dget_none a ''name''), (''one_liner'', PStr (one_liner a)),
       (''collab'', py_or (dget_none a ''coordination'') (PStr '''')),
       (''sub_count'', PInt (case map_of MULTI_AGENT_TEAMS i of Some ts \<Rightarrow> int (length ts) | None \<Rightarrow> 0))])"

definition build_mas_overview_payload :: dict where
  "build_mas_overview_payload =
     [(''headline'', PStr (utf8 [0x36, 0xAC1C, 0x20, 0xC0C1, 0xC704, 0x20, 0xC5D0, 0xC774, 0xC804, 0xD2B8, 0x20, 0x2B, 0x20, 0xB0B4, 0xBD80, 0x20, 0xC804, 0xBB38, 0x20, 0xC5ED, 0xD560])),
      (''lead'', PStr (utf8 [0xAC19, 0xC740, 0x20, 0xACF5, 0xC7A5, 0x20, 0xC2A4, 0xB0C5, 0xC0F7, 0xACFC, 0x20, 0xBA54, 0xC2DC, 0xC9C0, 0x20, 0xBE0C, 0xB85C, 0xCEE4, 0x20, 0xC704, 0xC5D0, 0xC11C, 0x20, 0xB3D9, 0xC791, 0xD569, 0xB2C8, 0xB2E4, 0x2E, 0x20, 0xACC4, 0xD68D, 0x28, 0x50, 0x41, 0x29, 0xC774, 0x20, 0xC804, 0xC5ED, 0x20, 0xC870, 0xC728, 0xB7, 0x43, 0x4E, 0x50, 0x20, 0xD611, 0xC0C1, 0xC744, 0x20, 0xB9E1, 0xACE0, 0x2C, 0x20, 0xC124, 0xBE44, 0xB7, 0xD488, 0xC9C8, 0xB7, 0xC790, 0xC7AC, 0xB7, 0xC218, 0xC694, 0xB7, 0xC7AC, 0xACE0, 0x28, 0x45, 0x41, 0xB7, 0x51, 0x41, 0xB7, 0x53, 0x41, 0xB7, 0x44, 0x41, 0xB7, 0x49, 0x41, 0x29, 0xAC00, 0x20, 0xAC01, 0xAC01, 0x20, 0xB3C4, 0xBA54, 0xC778, 0x20, 0xC2E0, 0xD638, 0xB97C, 0x20, 0xC62C, 0xB9B0, 0x20, 0xB4A4, 0x20, 0x50, 0x41, 0xC640, 0x20, 0xBE0C, 0xB85C, 0xCEE4, 0x20, 0xBA54, 0xC2DC, 0xC9C0, 0xB85C, 0x20, 0xB9DE, 0xCDA5, 0xB2C8, 0xB2E4, 0x2E, 0x20, 0xAC01, 0x20, 0xC0C1, 0xC704, 0x20, 0xC5D0, 0xC774, 0xC804, 0xD2B8, 0xB294, 0x20, 0xB0B4, 0xBD80, 0x20, 0xC804, 0xBB38, 0x20, 0xC5ED, 0xD560, 0x28, 0xC11C, 0xBE0C, 0x29, 0xB85C, 0x20, 0xCABC, 0xAC1C, 0xC5B4, 0x20, 0xD655, 0xC7A5, 0xD560, 0x20, 0xC218, 0x20, 0xC788, 0xAC8C, 0x20, 0xC815, 0xC758, 0xB418, 0xC5B4, 0x20, 0xC788, 0xC2B5, 0xB2C8, 0xB2E4, 0x2E])),
      (''roles'', PList (map (\<lambda>a. PDict (role_dict a)) AGENT_FACTORY_COVERAGE)),
      (''collaboration'', PDict [(''title'', PStr (utf8 [0xD611, 0xC5C5, 0xC774, 0x20, 0xB3C4, 0xB294, 0x20, 0xBC29, 0xC2DD])), (''points'', PList [PDict [(''t'', PStr (utf8 [0xBA54, 0xC2DC, 0xC9C0])),
        (''d'', PStr (utf8 [0xC5D0, 0xC774, 0xC804, 0xD2B8, 0x20, 0xAC04, 0x20, 0xD1B5, 0xC2E0, 0xC740, 0x20, 0xBE0C, 0xB85C, 0xCEE4, 0x28, 0x50, 0x75, 0x62, 0x2F, 0x53, 0x75, 0x62, 0x29, 0xB85C, 0x20, 0xC804, 0xB2EC, 0xB418, 0xBA70, 0x2C, 0x20, 0xB300, 0xC2DC, 0xBCF4, 0xB4DC, 0xC758, 0x20, 0xBA54, 0xC2DC, 0xC9C0, 0x20, 0xC2A4, 0xD2B8, 0xB9BC, 0xB7, 0xD611, 0xC5C5, 0x20, 0xB9F5, 0xC774, 0x20, 0xAC19, 0xC740, 0x20, 0xD750, 0xB984, 0xC744, 0x20, 0xBCF4, 0xC5EC, 0x20, 0xC90D, 0xB2C8, 0xB2E4, 0x2E]))],
             PDict [(''t'', PStr (utf8 [0xD5C8, 0xBE0C])), (''d'', PStr (utf8 [0xB300, 0xBD80, 0xBD84, 0xC758, 0x20, 0x2018, 0xBCF4, 0xACE0, 0xB7, 0xC81C, 0xC548, 0x2019, 0xC740, 0x20, 0xC8FC, 0xBCC0, 0x20, 0xC5ED, 0xD560, 0x20, 0x2192, 0x20, 0x50, 0x41, 0x2C, 0x20, 0x2018, 0xC9C0, 0xC2DC, 0xB7, 0xC870, 0xC815, 0x2019, 0xC740, 0x20, 0x50, 0x41, 0x20, 0x2192, 0x20, 0xC8FC, 0xBCC0, 0x20, 0xC5ED, 0xD560, 0x20, 0xBC29, 0xD5A5, 0xC73C, 0xB85C, 0x20, 0xBAA8, 0xB378, 0xB9C1, 0xB418, 0xC5B4, 0x20, 0xC788, 0xC2B5, 0xB2C8, 0xB2E4, 0x2E]))],
             PDict [(''t'', PStr ''CNP''), (''d'', PStr (utf8 [0xACC4, 0xD68D, 0x28, 0x50, 0x41, 0x29, 0xC774, 0x20, 0x43, 0x6F, 0x6E, 0x74, 0x72, 0x61, 0x63, 0x74, 0x20, 0x4E, 0x65, 0x74, 0x20, 0x50, 0x72, 0x6F, 0x74, 0x6F, 0x63, 0x6F, 0x6C, 0xB85C, 0x20, 0x43, 0x46, 0x50, 0xB7, 0xC81C, 0xC548, 0xB7, 0xD3C9, 0xAC00, 0xB97C, 0x20, 0xC5F4, 0xC5B4, 0x20, 0xC18D, 0xB3C4, 0xB7, 0xB0A9, 0xAE30, 0x20, 0xB4F1, 0x20, 0xC804, 0xB7B5, 0xC744, 0x20, 0xD569, 0xC758, 0xD569, 0xB2C8, 0xB2E4, 0x2E]))],
             PDict [(''t'', PStr (utf8 [0xAD50, 0xCC28])), (''d'', PStr (utf8 [0xC124, 0xBE44, 0x2194, 0xD488, 0xC9C8, 0x2C, 0x20, 0xC218, 0xC694, 0x2194, 0xC7AC, 0xACE0, 0x2C, 0x20, 0xC790, 0xC7AC, 0x2194, 0xC7AC, 0xACE0, 0x20, 0xB4F1, 0xC740, 0x20, 0xB3C4, 0xBA54, 0xC778, 0xB07C, 0xB9AC, 0x20, 0xC9C1, 0xC811, 0x20, 0xC5F0, 0xACC4, 0xB418, 0xB294, 0x20, 0xD611, 0xC5C5, 0xC73C, 0xB85C, 0x20, 0xB530, 0xB85C, 0x20, 0xD45C, 0xC2DC, 0xD569, 0xB2C8, 0xB2E4, 0x2E]))]])]),
      (''implementation_note'', PStr (utf8 [0xAD6C, 0xD604, 0xC740, 0x20, 0xC0C1, 0xC704, 0x20, 0xC5D0, 0xC774, 0xC804, 0xD2B8, 0xB2F9, 0x20, 0xC8FC, 0xB85C, 0x20, 0xD558, 0xB098, 0xC758, 0x20, 0x50, 0x79, 0x74, 0x68, 0x6F, 0x6E, 0x20, 0xD074, 0xB798, 0xC2A4, 0x20, 0xC548, 0xC5D0, 0xC11C, 0x20, 0xC774, 0xB8E8, 0xC5B4, 0xC9C0, 0xBA70, 0x2C, 0x20, 0xC704, 0x20, 0xC11C, 0xBE0C, 0x20, 0xC5ED, 0xD560, 0xC740, 0x20, 0xCC45, 0xC784, 0x20, 0xBD84, 0xB9AC, 0xB7, 0xCD94, 0xD6C4, 0x20, 0xB9C8, 0xC774, 0xD06C, 0xB85C, 0xC11C, 0xBE44, 0xC2A4, 0x20, 0xBD84, 0xB9AC, 0xB97C, 0x20, 0xC704, 0xD55C, 0x20, 0xB17C, 0xB9AC, 0xC801, 0x20, 0xD300, 0x20, 0xB2E8, 0xC704, 0xC785, 0xB2C8, 0xB2E4, 0x2E]))]"

section \<open>Laws\<close>

text \<open>Coverage, teams and control matrix speak of the same six agents, in the same order, with distinct sub-roles.\<close>

lemma same_agents:
  "map (\<lambda>a. dget_none a ''id'') AGENT_FACTORY_COVERAGE = map PStr [''EA'', ''QA'', ''SA'', ''DA'', ''IA'', ''PA'']"
  "map (\<lambda>a. dget_none a ''id'') AGENT_ROLES = map PStr [''EA'', ''QA'', ''SA'', ''DA'', ''IA'', ''PA'']"
  "map fst MULTI_AGENT_TEAMS = [''EA'', ''QA'', ''SA'', ''DA'', ''IA'', ''PA'']"
  by (simp_all add: AGENT_FACTORY_COVERAGE_def AGENT_ROLES_def MULTI_AGENT_TEAMS_def dget_none_def dget_or_def)

lemma sub_roles_distinct: "distinct (map (\<lambda>a. dget_none a ''id'') (concat (map snd MULTI_AGENT_TEAMS)))"
  by (simp add: MULTI_AGENT_TEAMS_def dget_none_def dget_or_def)

end
