(* ===== verification/Collaboration.thy ===== *)
theory Collaboration
  imports Broker_Laws "HOL-Library.Multiset"
begin

text \<open>
  \<open>mas/intelligence/collaboration_view.py\<close>: who talked to whom, counted over the broker's recent
  messages, and the dashboard's map of the collaboration with its positions and links. The
  iteration order of the set of agent identifiers, unspecified in Python, is the argument
  \<open>order\<close>.
\<close>

section \<open>Activity\<close>

type_synonym edge_counts = "((string \<times> string) \<times> nat) list"

definition bump :: "string \<times> string \<Rightarrow> edge_counts \<Rightarrow> edge_counts" where
  "bump k cs = AList.update k (case map_of cs k of Some n \<Rightarrow> Suc n | None \<Rightarrow> 1) cs"

text \<open>The pairs one message counts for.\<close>

definition edge_keys :: "string list \<Rightarrow> agent_message \<Rightarrow> (string \<times> string) list" where
  "edge_keys order m =
     (let s = h_sender (m_header m); r = h_receiver (m_header m)
      in if s \<notin> set AGENT_IDS then []
         else if r \<in> set AGENT_IDS then [(s, r)]
         else if r = ''ALL'' then map (Pair s) (filter (\<lambda>a. a \<noteq> s) order)
         else [])"

definition edge_counts_of :: "string list \<Rightarrow> nat \<Rightarrow> agent_message list \<Rightarrow> edge_counts" where
  "edge_counts_of order limit msgs = fold (\<lambda>m cs. fold bump (edge_keys order m) cs) (last_n limit msgs) []"

definition ranked_edges :: "edge_counts \<Rightarrow> edge_counts" where
  "ranked_edges cs = sort_key (\<lambda>(_, n). - int n) cs"

definition aggregate_edge_activity :: "string list \<Rightarrow> nat \<Rightarrow> agent_message list \<Rightarrow> edge_counts \<times> nat" where
  "aggregate_edge_activity order limit msgs =
     (let cs = edge_counts_of order limit msgs in (take 24 (ranked_edges cs), sum_list (map snd cs)))"

section \<open>The map\<close>

record collaboration_edge =
  ce_from :: string
  ce_to :: string
  ce_label :: string
  ce_kind :: string
  ce_curve :: bool

definition collaboration_link :: "string \<Rightarrow> string \<Rightarrow> string \<Rightarrow> string \<Rightarrow> bool \<Rightarrow> collaboration_edge" where
  "collaboration_link a b label kind curve = \<lparr> ce_from = a, ce_to = b, ce_label = label, ce_kind = kind, ce_curve = curve \<rparr>"

definition COLLABORATION_EDGES :: "collaboration_edge list" where
  "COLLABORATION_EDGES =
     [collaboration_link ''EA'' ''PA'' (utf8 [0xC124, 0xBE44, 0x20, 0xC774, 0xC0C1, 0xB7, 0x52, 0x55, 0x4C, 0x20, 0x2192, 0x20, 0xC18D, 0xB3C4, 0xB7, 0xC81C, 0xC57D]) ''sense_to_plan'' False,
      collaboration_link ''QA'' ''PA'' (utf8 [0x53, 0x50, 0x43, 0xB7, 0xBD88, 0xB7C9, 0x20, 0x2192, 0x20, 0xC804, 0xC5ED, 0x20, 0xACBD, 0xBCF4]) ''sense_to_plan'' False,
      collaboration_link ''SA'' ''PA'' (utf8 [0x52, 0x4F, 0x50, 0xB7, 0xBD80, 0xC871, 0x20, 0x2192, 0x20, 0xC0DD, 0xC0B0, 0x20, 0xC870, 0xC815]) ''sense_to_plan'' False,
      collaboration_link ''DA'' ''PA'' (utf8 [0xB0A9, 0xAE30, 0xB7, 0xC218, 0xC694, 0x20, 0xAE09, 0xBCC0, 0x20, 0x2192, 0x20, 0xC6B0, 0xC120, 0xC21C, 0xC704]) ''sense_to_plan'' False,
      collaboration_link ''IA'' ''PA'' (utf8 [0x57, 0x49, 0x50, 0xB7, 0x46, 0x47, 0x20, 0x2192, 0x20, 0xBB3C, 0xB7C9, 0xB7, 0xC18D, 0xB3C4, 0x20, 0xD611, 0xC758]) ''sense_to_plan'' False,
      collaboration_link ''PA'' ''EA'' (utf8 [0xB77C, 0xC778, 0x20, 0xC18D, 0xB3C4, 0xB7, 0xC9C0, 0xC2DC]) ''plan_to_act'' False,
      collaboration_link ''PA'' ''QA'' (utf8 [0xAC80, 0xC0AC, 0xB7, 0xAD00, 0xB9AC, 0xB3C4, 0x20, 0xD55C, 0xACC4, 0x20, 0xD78C, 0xD2B8]) ''plan_to_act'' False,
      collaboration_link ''PA'' ''SA'' (utf8 [0xBC1C, 0xC8FC, 0xB7, 0xC785, 0xACE0, 0x20, 0xC774, 0xBCA4, 0xD2B8]) ''plan_to_act'' False,
      collaboration_link ''PA'' ''DA'' (utf8 [0xC2A4, 0xCF00, 0xC904, 0xB7, 0xB0A9, 0xAE30, 0x20, 0xBC18, 0xC601]) ''plan_to_act'' False,
      collaboration_link ''PA'' ''IA'' (utf8 [0xBC84, 0xD37C, 0xB7, 0xCD9C, 0xD558, 0x20, 0xBAA9, 0xD45C]) ''plan_to_act'' False,
      collaboration_link ''EA'' ''QA'' (utf8 [0xB77C, 0xC778, 0x20, 0xC0C1, 0xD0DC, 0x20, 0x2194, 0x20, 0xD488, 0xC9C8, 0x20, 0xC0C1, 0xAD00]) ''cross'' True,
      collaboration_link ''DA'' ''IA'' (utf8 [0xC218, 0xC694, 0x20, 0x2194, 0x20, 0xC7AC, 0xACE0, 0x20, 0xC555, 0xB825]) ''cross'' True,
      collaboration_link ''SA'' ''IA'' (utf8 [0xC790, 0xC7AC, 0x20, 0x2194, 0x20, 0x57, 0x49, 0x50, 0x20, 0xD750, 0xB984]) ''cross'' True]"

definition ring :: "string list" where "ring = [''EA'', ''QA'', ''SA'', ''DA'', ''IA'']"

definition node_at :: "real \<Rightarrow> real \<Rightarrow> int \<Rightarrow> pyval" where
  "node_at x y r = PDict [(''x'', PFloat x), (''y'', PFloat y), (''r'', PInt r)]"

definition node_positions :: dict where
  "node_positions = (''PA'', node_at 240 178 34) #
     map (\<lambda>i. (ring ! i, (let ang = (- 90 + of_nat i * (360 / of_nat (length ring))) * pi / 180
        in node_at (py_round 1 (240 + 132 * cos ang)) (py_round 1 (178 + 132 * sin ang)) 30))) [0..<length ring]"

text \<open>The count a link of the map shows: looked up among the listed pairs only.\<close>

definition recent_count :: "edge_counts \<Rightarrow> collaboration_edge \<Rightarrow> nat" where
  "recent_count activity e = (case map_of activity (ce_from e, ce_to e) of Some n \<Rightarrow> n | None \<Rightarrow> 0)"

definition edge_dict :: "edge_counts \<Rightarrow> collaboration_edge \<Rightarrow> dict" where
  "edge_dict activity e =
     [(''from'', PStr (ce_from e)), (''to'', PStr (ce_to e)), (''label'', PStr (ce_label e)), (''kind'', PStr (ce_kind e))]
     @ (if ce_curve e then [(''curve'', PBool True)] else [])
     @ [(''recent_count'', PInt (int (recent_count activity e)))]"

definition build_collaboration_payload :: "string list \<Rightarrow> broker option \<Rightarrow> dict" where
  "build_collaboration_payload order br =
     (let (activity, total) = (case br of None \<Rightarrow> ([], 0) | Some b \<Rightarrow> aggregate_edge_activity order 600 (message_log b))
      in [(''summary'', PStr ((utf8 [0xC911, 0xC559, 0xC740, 0x20, 0xACC4, 0xD68D, 0x28, 0x50, 0x41, 0x29, 0x2C, 0x20, 0xC8FC, 0xBCC0, 0xC740, 0x20, 0xB098, 0xBA38, 0xC9C0, 0x20, 0xC5ED, 0xD560, 0xC785, 0xB2C8, 0xB2E4, 0x2E, 0x20])
              @ (utf8 [0x2192, 0xACC4, 0xD68D, 0x28, 0xCCAD, 0xB85D, 0x29, 0xB7, 0xACC4, 0xD68D, 0x2192, 0x28, 0xBCF4, 0xB77C, 0x29, 0x20, 0xC120, 0xC740, 0x20, 0xC548, 0xCABD, 0x2F, 0xBC14, 0xAE65, 0xCABD, 0xC73C, 0xB85C, 0x20, 0xB098, 0xB258, 0xC5B4, 0x20, 0xACB9, 0xCE68, 0xC744, 0x20, 0xC904, 0xC600, 0xC2B5, 0xB2C8, 0xB2E4, 0x2E, 0x20])
              @ (utf8 [0xACE1, 0xC120, 0xC740, 0x20, 0xAD50, 0xCC28, 0x20, 0xD611, 0xC5C5, 0x2C, 0x20, 0xAD75, 0xAE30, 0xB294, 0x20, 0xCD5C, 0xADFC, 0x20, 0xBA54, 0xC2DC, 0xC9C0, 0x20, 0xBE48, 0xB3C4, 0xC785, 0xB2C8, 0xB2E4, 0x2E, 0x20, 0xAE34, 0x20, 0xC124, 0xBA85, 0xC740, 0x20, 0xC544, 0xB798, 0x20, 0xD45C, 0xB97C, 0x20, 0xBCF4, 0xC138, 0xC694, 0x2E]))),
          (''view_box'', PStr ''0 0 480 360''), (''nodes'', PDict node_positions),
          (''edges'', PList (map (\<lambda>e. PDict (edge_dict activity e)) COLLABORATION_EDGES)),
          (''edge_activity'', PList (map (\<lambda>((a, b), n). PDict [(''from'', PStr a), (''to'', PStr b), (''count'', PInt (int n))]) activity)),
          (''edge_activity_total'', PInt (int total)),
          (''edge_activity_max_on_map'', PInt (int (fold max (map (recent_count activity) COLLABORATION_EDGES) 0)))])"

section \<open>Counting\<close>

text \<open>The counts are those of the pairs of all recent messages.\<close>

definition recent_pairs :: "string list \<Rightarrow> nat \<Rightarrow> agent_message list \<Rightarrow> (string \<times> string) list" where
  "recent_pairs order limit msgs = concat (map (edge_keys order) (last_n limit msgs))"

lemma fold_concat: "fold (\<lambda>m cs. fold f (g m) cs) ms = fold f (concat (map g ms))"
  by (induction ms) (simp_all add: fun_eq_iff)

lemma edge_counts_pairs: "edge_counts_of order limit msgs = fold bump (recent_pairs order limit msgs) []"
  by (simp add: edge_counts_of_def recent_pairs_def fold_concat)

definition tallies :: "edge_counts \<Rightarrow> (string \<times> string) list \<Rightarrow> bool" where
  "tallies cs ks \<longleftrightarrow> distinct (map fst cs) \<and>
     (\<forall>k. map_of cs k = (if k \<in> set ks then Some (count (mset ks) k) else None))"

lemma tallies_bump: "tallies cs ks \<Longrightarrow> tallies (bump k cs) (ks @ [k])"
  by (auto simp: tallies_def bump_def update_conv' distinct_update not_in_iff)

lemma fold_bump_tallies: "tallies cs ks \<Longrightarrow> tallies (fold bump ks' cs) (ks @ ks')"
proof (induction ks' arbitrary: cs ks)
  case (Cons k ks')
  from Cons.IH [OF tallies_bump [OF Cons.prems, of k]] show ?case by simp
qed simp

lemma counts_tallies: "tallies (edge_counts_of order limit msgs) (recent_pairs order limit msgs)"
  using fold_bump_tallies [of "[]" "[]" "recent_pairs order limit msgs"]
  by (simp add: edge_counts_pairs tallies_def)

lemma sum_bump: "sum_list (map snd (bump k cs)) = Suc (sum_list (map snd cs))" if "distinct (map fst cs)"
  using that
proof (induction cs)
  case (Cons a cs)
  obtain k' n where a: "a = (k', n)" by (rule prod.exhaust)
  show ?case
  proof (cases "k = k'")
    case True
    then show ?thesis by (simp add: bump_def a)
  next
    case False
    then have "bump k (a # cs) = a # bump k cs" by (simp add: bump_def a)
    then show ?thesis using Cons by simp
  qed
qed (simp add: bump_def)

lemma sum_fold_bump: "distinct (map fst cs) \<Longrightarrow> sum_list (map snd (fold bump ks cs)) = sum_list (map snd cs) + length ks"
proof (induction ks arbitrary: cs)
  case (Cons k ks)
  have "distinct (map fst (bump k cs))" using Cons.prems by (simp add: bump_def distinct_update)
  from Cons.IH [OF this] show ?case using Cons.prems by (simp add: sum_bump)
qed simp

lemma ranked_perm: "mset (ranked_edges cs) = mset cs"
  by (simp add: ranked_edges_def)

lemma ranked_map_of:
  assumes d: "distinct (map fst cs)"
  shows "map_of (ranked_edges cs) = map_of cs"
proof -
  have "mset (map fst (ranked_edges cs)) = mset (map fst cs)" by (simp only: mset_map ranked_perm)
  then have "distinct (map fst (ranked_edges cs))" using d mset_eq_imp_distinct_iff by blast
  moreover have "set (ranked_edges cs) = set cs" by (rule mset_eq_setD) (rule ranked_perm)
  ultimately show ?thesis using d map_of_inject_set by blast
qed

lemma ranked_descending:
  assumes "i < j" "j < length cs"
  shows "snd (ranked_edges cs ! j) \<le> snd (ranked_edges cs ! i)"
proof -
  have "sorted (map (\<lambda>(_, n). - int n) (ranked_edges cs))" by (simp add: ranked_edges_def)
  moreover have "length (ranked_edges cs) = length cs" by (simp add: ranked_edges_def)
  ultimately show ?thesis using assms sorted_nth_mono [of "map (\<lambda>(_, n). - int n) (ranked_edges cs)" i j]
    by (simp add: case_prod_unfold)
qed

text \<open>
  \<open>collaboration_counts\<close>: over the recent messages of the broker the counted pairs are exactly
  the sender and receiver of each message between agents, and the sender with each other agent
  of a broadcast; the total is the number of all of them. A link of the map shows its true count,
  or none at all although there is traffic: then at least 24 other pairs are as busy.
\<close>

theorem collaboration_counts:
  "snd (aggregate_edge_activity order limit msgs) = length (recent_pairs order limit msgs)
   \<and> (recent_count (fst (aggregate_edge_activity order limit msgs)) e = count (mset (recent_pairs order limit msgs)) (ce_from e, ce_to e)
      \<or> recent_count (fst (aggregate_edge_activity order limit msgs)) e = 0
        \<and> length (fst (aggregate_edge_activity order limit msgs)) = 24
        \<and> list_all (\<lambda>(_, n). count (mset (recent_pairs order limit msgs)) (ce_from e, ce_to e) \<le> n)
            (fst (aggregate_edge_activity order limit msgs)))"
proof -
  let ?cs = "edge_counts_of order limit msgs" let ?ks = "recent_pairs order limit msgs" let ?e = "(ce_from e, ce_to e)"
  let ?r = "ranked_edges ?cs"
  have t: "distinct (map fst ?cs)" "map_of ?cs ?e = (if ?e \<in> set ?ks then Some (count (mset ?ks) ?e) else None)"
    using counts_tallies by (auto simp: tallies_def)
  have total: "sum_list (map snd ?cs) = length ?ks"
    using sum_fold_bump [of "[]" ?ks] by (simp add: edge_counts_pairs)
  have r: "map_of ?r ?e = map_of ?cs ?e" by (simp add: ranked_map_of [OF t(1)])
  have dr: "map_of (take 24 ?r @ drop 24 ?r) ?e = map_of ?cs ?e" using r by simp
  show ?thesis
  proof (cases "map_of (take 24 ?r) ?e")
    case (Some n)
    then have "map_of ?cs ?e = Some n" using dr by (simp only: map_of_append map_add_find_right)
    then have "n = count (mset ?ks) ?e" using t(2) by (simp split: if_splits)
    then show ?thesis by (simp add: aggregate_edge_activity_def Let_def total recent_count_def Some)
  next
    case None
    show ?thesis
    proof (cases "?e \<in> set ?ks")
      case False
      then show ?thesis
        by (simp add: aggregate_edge_activity_def Let_def total recent_count_def None count_eq_zero_iff [THEN iffD2])
    next
      case True
      have "map_of (drop 24 ?r) ?e = map_of ?cs ?e" using dr None by (simp only: map_of_append map_add_def option.case)
      then have "map_of (drop 24 ?r) ?e = Some (count (mset ?ks) ?e)" using True t(2) by simp
      then have "(?e, count (mset ?ks) ?e) \<in> set (drop 24 ?r)" by (rule map_of_SomeD)
      then obtain j where j: "j < length (drop 24 ?r)" "drop 24 ?r ! j = (?e, count (mset ?ks) ?e)"
        by (metis in_set_conv_nth)
      then have jr: "24 + j < length ?r" "?r ! (24 + j) = (?e, count (mset ?ks) ?e)" by simp_all
      have len: "length ?r = length ?cs" by (simp add: ranked_edges_def)
      have "count (mset ?ks) ?e \<le> snd (?r ! i)" if "i < 24" for i
        using ranked_descending [of i "24 + j" ?cs] jr len that by simp
      then have "list_all (\<lambda>(_, n). count (mset ?ks) ?e \<le> n) (take 24 ?r)"
        using jr(1) by (auto simp: list_all_length case_prod_unfold)
      then show ?thesis using jr(1) by (simp add: aggregate_edge_activity_def Let_def total recent_count_def None)
    qed
  qed
qed

end
