(* ===== verification/Api.thy ===== *)
theory Api
  imports Runtime Dashboard Collaboration Equipment_Models
begin

text \<open>
  \<open>mas/api/server.py\<close>: the objects a running process binds, the answers of the read endpoints,
  the optional bearer check in front of them, and the event stream with one bounded queue per
  client. The web framework, the socket, the server thread and the HTML page are not modelled. Nothing the answers are built from raises,
  except where the model has a \<open>result\<close>.
\<close>

section \<open>Authorisation\<close>

record http_request =
  rq_path :: string
  rq_authorization :: string
  rq_token :: "string option"

definition bearer_matches :: "string \<Rightarrow> string \<Rightarrow> bool" where
  "bearer_matches token auth \<longleftrightarrow> prefix ''Bearer '' auth \<and> py_strip (drop 7 auth) = token"

definition authorized :: "settings \<Rightarrow> http_request \<Rightarrow> bool" where
  "authorized st rq \<longleftrightarrow>
     (let token = st_api_bearer_token st in
      token = [] \<or> rq_path rq \<in> {''/'', ''/docs'', ''/openapi.json'', ''/redoc''} \<or> \<not> prefix ''/api'' (rq_path rq)
      \<or> rq_token rq = Some token \<or> bearer_matches token (rq_authorization rq))"

section \<open>The bound objects\<close>

text \<open>What \<open>bind\<close> connects; \<open>ab_agents\<close> are the answers of \<open>get_agent_status\<close>, agent by agent.\<close>

record api_bindings =
  ab_broker :: "broker option"
  ab_llm :: "llm option"
  ab_env :: "factory option"
  ab_agents :: "(string \<times> dict) list"
  ab_runtime :: "(nat \<times> nat \<times> real) option"
  ab_router :: "router option"

definition unbound :: api_bindings where
  "unbound = \<lparr> ab_broker = None, ab_llm = None, ab_env = None, ab_agents = [], ab_runtime = None, ab_router = None \<rparr>"

fun member_status :: "broker \<Rightarrow> member \<Rightarrow> string \<times> dict" where
  "member_status b (M_EA a) = (ag_id a, ea_status (a, Some b))"
| "member_status b (M_QA a) = (ag_id a, qa_status (a, Some b))"
| "member_status b (M_SA a) = (ag_id a, sa_status (a, Some b))"
| "member_status b (M_DA a) = (ag_id a, da_status (a, Some b))"
| "member_status b (M_IA a) = (ag_id a, ia_status (a, Some b))"

text \<open>\<open>main.py\<close> binds everything a plant runtime has.\<close>

definition bind_runtime :: "runtime \<Rightarrow> llm \<Rightarrow> real \<Rightarrow> api_bindings" where
  "bind_runtime rt c uptime =
     \<lparr> ab_broker = Some (ru_broker rt), ab_llm = Some c, ab_env = Some (ru_factory rt),
       ab_agents = map (member_status (ru_broker rt)) (ru_members rt)
         @ [(ag_id (ru_planner rt), pa_status (ru_planner rt, Some (ru_broker rt)))],
       ab_runtime = Some (ru_total_events rt, ru_cnp_count rt, uptime), ab_router = ru_router rt \<rparr>"

section \<open>The read endpoints\<close>

definition runtime_events :: "api_bindings \<Rightarrow> nat" where
  "runtime_events b = (case ab_runtime b of Some (n, _, _) \<Rightarrow> n | None \<Rightarrow> 0)"

definition runtime_rounds :: "api_bindings \<Rightarrow> nat" where
  "runtime_rounds b = (case ab_runtime b of Some (_, n, _) \<Rightarrow> n | None \<Rightarrow> 0)"

definition api_status :: "string \<Rightarrow> real \<Rightarrow> api_bindings \<Rightarrow> dict" where
  "api_status version uptime b =
     [(''system'', PStr ''Manufacturing MAS v5.0''), (''version'', PStr version),
      (''factory_bound'', PBool (ab_env b \<noteq> None)),
      (''cycle'', PInt (case ab_env b of Some f \<Rightarrow> int (f_cycle f) | None \<Rightarrow> 0)),
      (''uptime_sec'', PFloat (py_round 1 uptime)), (''total_events'', PInt (int (runtime_events b))),
      (''cnp_count'', PInt (int (runtime_rounds b)))]"

definition STATION_IDS :: "string list" where
  "STATION_IDS = map (\<lambda>i. ''WC-'' @ pad_nat 2 i) [1..<7]"

definition PROFILE_SCHEMA_VERSION :: string where "PROFILE_SCHEMA_VERSION = ''mas.manufacturing.v1''"

definition manufacturing_profile :: dict where
  "manufacturing_profile = [(''schema_version'', PStr PROFILE_SCHEMA_VERSION), (''agent_ids'', PList (map PStr AGENT_IDS)),
     (''station_ids'', PList (map PStr STATION_IDS))]"

definition api_factory :: "api_bindings \<Rightarrow> dict" where
  "api_factory b = (case ab_env b of Some f \<Rightarrow> get_snapshot f | None \<Rightarrow> [])"

definition api_kpi :: "api_bindings \<Rightarrow> dict" where
  "api_kpi b = (case ab_env b of Some f \<Rightarrow> get_kpi_summary f | None \<Rightarrow> [])"

definition api_agents :: "api_bindings \<Rightarrow> dict" where
  "api_agents b = map (\<lambda>(aid, d). (aid, PDict d)) (ab_agents b)"

definition api_router :: "api_bindings \<Rightarrow> dict" where
  "api_router b = (case ab_router b of Some r \<Rightarrow> router_status r | None \<Rightarrow> [(''enabled'', PBool False)])"

definition api_messages :: "api_bindings \<Rightarrow> dict" where
  "api_messages b = (case ab_broker b of
      Some br \<Rightarrow> [(''messages'', PList (map (\<lambda>a. PDict (envelope_to_dict (b_store br ! a))) (last_n 100 (b_log br)))),
                 (''total'', PInt (int (length (b_log br))))]
    | None \<Rightarrow> [(''messages'', PList []), (''total'', PInt 0)])"

definition api_broker :: "real \<Rightarrow> api_bindings \<Rightarrow> dict" where
  "api_broker now b = (case ab_broker b of Some br \<Rightarrow> broker_status now br | None \<Rightarrow> [])"

definition api_llm :: "api_bindings \<Rightarrow> dict" where
  "api_llm b = (case ab_llm b of Some c \<Rightarrow> llm_status c | None \<Rightarrow> [(''enabled'', PBool False)])"

section \<open>The monitoring document\<close>

definition pipeline_step :: "int \<Rightarrow> string \<Rightarrow> string \<Rightarrow> pyval" where
  "pipeline_step n name detail = PDict [(''step'', PInt n), (''name'', PStr name), (''detail'', PStr detail)]"

definition data_flow :: dict where
  "data_flow = [(''pipeline'', PList
     [pipeline_step 1 (utf8 [0xACF5, 0xC7A5, 0x20, 0xD658, 0xACBD, 0x20, 0xD2F1]) (utf8 [0xACF5, 0xC815, 0xB7, 0xC13C, 0xC11C, 0xB7, 0xC5D0, 0xB108, 0xC9C0, 0xB7, 0xC7AC, 0xACE0, 0xB7, 0xCD9C, 0xD558, 0xB7, 0xC2DC, 0xBBAC, 0x20, 0xC2DC, 0xACC4, 0x20, 0xAC31, 0xC2E0]),
      pipeline_step 2 (utf8 [0xC5D0, 0xC774, 0xC804, 0xD2B8, 0x20, 0xB8E8, 0xD504, 0x20, 0x28, 0x36, 0xC885, 0x29]) (utf8 [0xD0DD, 0xD2B8, 0xB9C8, 0xB2E4, 0x20, 0xAD00, 0xCE21, 0x20, 0x2192, 0x20, 0xD310, 0xB2E8, 0x20, 0x2192, 0x20, 0xD589, 0xB3D9, 0x20, 0xB7, 0x20, 0xBE0C, 0xB85C, 0xCEE4, 0xB85C, 0x20, 0xBA54, 0xC2DC, 0xC9C0, 0x20, 0xAD50, 0xD658]),
      pipeline_step 3 (utf8 [0xD310, 0xB2E8, 0x20, 0xB77C, 0xC6B0, 0xD130]) (utf8 [0xC548, 0xC804, 0xB7, 0xC784, 0xACC4, 0x20, 0xADDC, 0xCE59, 0x20, 0xC6B0, 0xC120, 0x2C, 0x20, 0xD544, 0xC694, 0x20, 0xC2DC, 0x20, 0xC0C1, 0xD669, 0x20, 0xBD84, 0xC11D, 0x20, 0xACBD, 0xB85C]),
      pipeline_step 4 (utf8 [0x43, 0x4E, 0x50, 0x20, 0xD611, 0xC0C1, 0x20, 0x28, 0xACC4, 0xD68D, 0x29]) (utf8 [0xC81C, 0xC548, 0x20, 0xC218, 0xC9D1, 0x20, 0x2192, 0x20, 0xC815, 0xADDC, 0xD654, 0xB7, 0xC810, 0xC218, 0x20, 0x2192, 0x20, 0xC194, 0xBC84, 0xB85C, 0x20, 0xC804, 0xB7B5, 0x20, 0xD655, 0xC815]),
      pipeline_step 5 (utf8 [0xAD00, 0xCE21, 0xB7, 0xB300, 0xC2DC, 0xBCF4, 0xB4DC]) (utf8 [0x52, 0x45, 0x53, 0x54, 0x20, 0xD3F4, 0xB9C1, 0x20, 0x2B, 0x20, 0x53, 0x53, 0x45, 0xB85C, 0x20, 0xD2F1, 0xB7, 0xBA54, 0xC2DC, 0xC9C0, 0x20, 0xBC18, 0xC601])])]"

definition context_section :: "(py_error \<Rightarrow> string) \<Rightarrow> string \<Rightarrow> dict \<Rightarrow> dict \<times> string list" where
  "context_section error_text ingest snap =
     (if snap = [] then ([], [])
      else (case from_factory_snapshot snap (Some ingest) of
          Inl e \<Rightarrow> ([], [error_text e])
        | Inr c \<Rightarrow> (context_to_dict c, validate_context_dict (PDict (context_to_dict c)))))"

definition router_section :: "dict \<Rightarrow> dict" where
  "router_section snap =
     (let enriched = (if snap = [] then [] else (case enrich_snapshot_for_router snap of Inr d \<Rightarrow> d | Inl _ \<Rightarrow> []))
      in [(''vibration_mm_s'', dget_none enriched ''vibration''), (''oil_temp_c'', dget_none enriched ''oil_temp''),
          (''material_buffer_hours'', dget_none enriched ''material_buffer_hours'')])"

definition factory_section :: "dict \<Rightarrow> dict" where
  "factory_section snap =
     map (\<lambda>k. (k, dget_none snap k)) [''cycle'', ''clock'', ''shift'', ''avg_oee'', ''fg_stock'', ''total_produced'', ''scrap_count'']
     @ [(''stations_count'', PInt (int (length (dict_or_empty (dget_none snap ''stations'')))))]"

definition decision_router_section :: "api_bindings \<Rightarrow> dict" where
  "decision_router_section b = (case ab_router b of
      Some r \<Rightarrow> dset ''enabled'' (PBool True) (router_status r) | None \<Rightarrow> [(''enabled'', PBool False)])"

definition monitoring_payload ::
  "settings \<Rightarrow> string list \<Rightarrow> (py_error \<Rightarrow> string) \<Rightarrow> string \<Rightarrow> real \<Rightarrow> api_bindings \<Rightarrow> dict" where
  "monitoring_payload st order error_text ingest now b =
     (let snap = api_factory b; (mctx, validation) = context_section error_text ingest snap; agents = api_agents b
      in [(''timestamp'', PFloat now), (''manufacturing_context'', PDict mctx),
          (''manufacturing_context_validation'', PList (map PStr validation)), (''mas_overview'', PDict build_mas_overview_payload),
          (''collaboration_view'', PDict (build_collaboration_payload order (ab_broker b))),
          (''factory_coverage'', PDict build_factory_coverage_payload), (''multi_agent_teams'', PDict build_multi_agent_teams_payload),
          (''control_matrix'', PDict (build_control_payload st)), (''equipment_catalog'', PList (map PDict model_catalog)),
          (''equipment_monitoring'', py_or (dget_none (dict_or_empty (dget_none agents ''EA'')) ''equipment_by_station'') (PDict [])),
          (''data_flow'', PDict data_flow), (''factory'', PDict (factory_section snap)),
          (''router_snapshot'', PDict (router_section snap)), (''agents'', PDict agents), (''broker'', PDict (api_broker now b)),
          (''llm'', PDict (api_llm b)), (''decision_router'', PDict (decision_router_section b)),
          (''runtime'', PDict [(''uptime_sec'', case ab_runtime b of Some (_, _, u) \<Rightarrow> PFloat (py_round 1 u) | None \<Rightarrow> PInt 0),
             (''total_events'', PInt (int (runtime_events b))), (''cnp_count'', PInt (int (runtime_rounds b)))])])"

section \<open>Requests\<close>

text \<open>The answers of the read endpoints by path; \<open>None\<close> for any other path.\<close>

record api_world =
  aw_version :: string
  aw_uptime :: real
  aw_now :: real
  aw_ingest :: string
  aw_order :: "string list"
  aw_error_text :: "py_error \<Rightarrow> string"

definition api_get :: "settings \<Rightarrow> api_world \<Rightarrow> api_bindings \<Rightarrow> string \<Rightarrow> dict option" where
  "api_get st w b = map_of
     [(''/api/status'', api_status (aw_version w) (aw_uptime w) b),
      (''/api/manufacturing/profile'', manufacturing_profile), (''/api/factory'', api_factory b),
      (''/api/kpi'', api_kpi b), (''/api/agents'', api_agents b),
      (''/api/monitoring'', monitoring_payload st (aw_order w) (aw_error_text w) (aw_ingest w) (aw_now w) b),
      (''/api/router'', api_router b), (''/api/messages'', api_messages b), (''/api/broker'', api_broker (aw_now w) b),
      (''/api/llm'', api_llm b)]"

text \<open>
  The guard in front of every route; \<open>None\<close> is left to the other routes (page, documentation,
  questions, stream).
\<close>

definition serve :: "settings \<Rightarrow> api_world \<Rightarrow> api_bindings \<Rightarrow> http_request \<Rightarrow> (nat \<times> dict) option" where
  "serve st w b rq =
     (if \<not> authorized st rq then Some (401, [(''detail'', PStr ''Unauthorized'')])
      else map_option (Pair 200) (api_get st w b (rq_path rq)))"

section \<open>The event stream\<close>

text \<open>One queue of at most 200 events per connected client.\<close>

definition SSE_QUEUE :: int where "SSE_QUEUE = 200"

type_synonym sse_queues = "(nat \<times> dict list) list"

definition sse_offer :: "dict \<Rightarrow> dict list \<Rightarrow> dict list" where
  "sse_offer ev q = (case q_put_nowait SSE_QUEUE ev q of Inr q' \<Rightarrow> q' | Inl _ \<Rightarrow> q)"

definition broadcast_event :: "dict \<Rightarrow> sse_queues \<Rightarrow> sse_queues" where
  "broadcast_event ev = map (\<lambda>(c, q). (c, sse_offer ev q))"

definition push_event :: "string \<Rightarrow> dict \<Rightarrow> sse_queues \<Rightarrow> sse_queues" where
  "push_event ty data = broadcast_event (dmerge [(''type'', PStr ty)] data)"

definition message_event :: "envelope \<Rightarrow> dict" where
  "message_event e =
     (let m = e_message e in
      [(''type'', PStr ''message''), (''sender'', PStr (h_sender (m_header m))), (''receiver'', PStr (h_receiver (m_header m))),
       (''intent'', PStr (intent_value (m_intent m))), (''topic'', PStr (topic_value (e_topic e))),
       (''summary'', dget_or (m_body m) ''summary'' (PStr '''')), (''timestamp'', PStr (h_timestamp (m_header m)))])"

definition on_broker_message :: "envelope \<Rightarrow> sse_queues \<Rightarrow> sse_queues" where
  "on_broker_message e = broadcast_event (message_event e)"

definition sse_connect :: "nat \<Rightarrow> sse_queues \<Rightarrow> sse_queues" where
  "sse_connect c qs = qs @ [(c, [])]"

text \<open>One turn of a client's generator: an event, or a heartbeat after a second without one.\<close>

definition sse_next :: "nat \<Rightarrow> sse_queues \<Rightarrow> dict option \<times> sse_queues" where
  "sse_next c qs = (case map_of qs c of
      None \<Rightarrow> (None, qs)
    | Some q \<Rightarrow> (case q_get_nowait q of
          Inl _ \<Rightarrow> (None, qs) | Inr (ev, q') \<Rightarrow> (Some ev, AList.update c q' qs)))"

definition sse_close :: "nat \<Rightarrow> sse_queues \<Rightarrow> sse_queues" where
  "sse_close c qs = filter (\<lambda>(c', _). c' \<noteq> c) qs"

end
