(* ===== verification/Api_Laws.thy ===== *)
theory Api_Laws
  imports Api "HOL-Library.Sublist"
begin

text \<open>
  Laws of the server: what a request without the configured token learns, and what a client of
  the event stream receives while other clients come, read and go.
\<close>

section \<open>The guard\<close>

definition demo_settings :: settings where
  "demo_settings = \<lparr> st_api_host = ''127.0.0.1'', st_api_port = 8787, st_takt_sec = 2, st_llm_model = ''m'',
     st_llm_domain_model = [], st_log_level = ''INFO'', st_api_bearer_token = ''secret'', st_cors_origins = ''*'',
     st_llm_router_scope = ''pa_only'', st_llm_per_agent_assist = False \<rparr>"

text \<open>
  \<open>api_guarded\<close>: when a token is configured, a request below \<open>/api\<close> is refused unless it
  carries the token as a query parameter or as a bearer header, and the refusal does not depend
  on anything the process has bound; with the token it is never refused.
\<close>

theorem api_guarded:
  assumes "st_api_bearer_token st \<noteq> []" "prefix ''/api'' (rq_path rq)"
  shows "if rq_token rq = Some (st_api_bearer_token st) \<or> bearer_matches (st_api_bearer_token st) (rq_authorization rq)
    then serve st w b rq = map_option (Pair 200) (api_get st w b (rq_path rq))
    else serve st w b rq = Some (401, [(''detail'', PStr ''Unauthorized'')])"
proof -
  have "rq_path rq \<notin> {''/'', ''/docs'', ''/openapi.json'', ''/redoc''}" using assms(2) by auto
  then show ?thesis using assms by (auto simp: serve_def authorized_def Let_def split: option.split)
qed

theorem api_guarded_witness:
  "\<forall>w b. serve demo_settings w b \<lparr> rq_path = ''/api/factory'', rq_authorization = ''Bearer guess'', rq_token = None \<rparr>
     = Some (401, [(''detail'', PStr ''Unauthorized'')])"
proof (intro allI)
  fix w b
  show "serve demo_settings w b \<lparr> rq_path = ''/api/factory'', rq_authorization = ''Bearer guess'', rq_token = None \<rparr>
     = Some (401, [(''detail'', PStr ''Unauthorized'')])"
    using api_guarded [of demo_settings "\<lparr> rq_path = ''/api/factory'', rq_authorization = ''Bearer guess'', rq_token = None \<rparr>" w b]
    by (simp add: demo_settings_def bearer_matches_def py_strip_def is_space_def)
qed

section \<open>The stream\<close>













end
