(* ===== verification/Monitoring.thy ===== *)
theory Monitoring
  imports Api Llm Text_Layout
begin

text \<open>
  \<open>mas/intelligence/monitoring_qa.py\<close> and the \<open>/api/ask\<close> endpoint of \<open>mas/api/server.py\<close>:
  answers to a free-text question about the current monitoring document, by the language model
  or, when there is none or it fails, by keyword rules. The serialiser of the context is the
  argument \<open>dumps\<close>; the model's reply is an argument, as in \<open>Llm\<close>.
\<close>

section \<open>Text\<close>

text \<open>\<open>_truncate(s, n)\<close>.\<close>

definition qa_truncate :: "pyval \<Rightarrow> nat \<Rightarrow> string" where
  "qa_truncate v n = (if v = PNone then []
     else (let t = py_strip (py_str v) in if code_points t \<le> n then t else utf8_take (n - 1) t @ (utf8 [0x2026])))"

text \<open>The pattern \<open>a.?b\<close>: \<open>b\<close> directly after \<open>a\<close> or one character later; and alternatives of words.\<close>

definition drop_point :: "string \<Rightarrow> string" where
  "drop_point s = dropWhile is_cont_byte (tl s)"

definition matches_gap :: "string \<Rightarrow> string \<Rightarrow> string \<Rightarrow> bool" where
  "matches_gap a b s \<longleftrightarrow> take (length a) s = a
     \<and> (let r = drop (length a) s in take (length b) r = b
        \<or> r \<noteq> [] \<and> hd r \<noteq> CHR 0x0A \<and> take (length b) (drop_point r) = b)"

definition search_gap :: "string \<Rightarrow> string \<Rightarrow> string \<Rightarrow> bool" where
  "search_gap a b s = list_ex (\<lambda>n. matches_gap a b (drop n s)) [0..<Suc (length s)]"

definition search_words :: "string list \<Rightarrow> string \<Rightarrow> bool" where
  "search_words ws s = list_ex (\<lambda>w. py_in_str (py_lower w) (py_lower s)) ws"

definition wants_status :: "string \<Rightarrow> bool" where
  "wants_status = search_words [(utf8 [0xC0C1, 0xD0DC]), (utf8 [0xC5B4, 0xB54C]), (utf8 [0xC5B4, 0xB5BB, 0xAC8C]), (utf8 [0xC9C0, 0xAE08]), (utf8 [0xD604, 0xC7AC]), (utf8 [0xC694, 0xC57D]), (utf8 [0xAC1C, 0xC694]), (utf8 [0xC804, 0xBC18])]"

definition wants_oee :: "string \<Rightarrow> bool" where
  "wants_oee q \<longleftrightarrow> search_words [''OEE''] q \<or> search_gap (utf8 [0xC124, 0xBE44]) (utf8 [0xD6A8, 0xC728]) q \<or> search_gap (utf8 [0xAC00, 0xB3D9]) (utf8 [0xD6A8, 0xC728]) q"

definition wants_broker :: "string \<Rightarrow> bool" where
  "wants_broker q \<longleftrightarrow> search_words [(utf8 [0xBE0C, 0xB85C, 0xCEE4]), (utf8 [0xC9C0, 0xC5F0]), ''latency''] q \<or> search_gap (utf8 [0xBA54, 0xC2DC, 0xC9C0]) (utf8 [0xBC1C, 0xD589]) q"

definition wants_cnp :: "string \<Rightarrow> bool" where
  "wants_cnp = search_words [''CNP'', (utf8 [0xD611, 0xC0C1]), (utf8 [0xC81C, 0xC548])]"

definition wants_sensor :: "string \<Rightarrow> bool" where
  "wants_sensor = search_words [(utf8 [0xC9C4, 0xB3D9]), (utf8 [0xC720, 0xC628]), (utf8 [0xC628, 0xB3C4]), (utf8 [0xC13C, 0xC11C]), (utf8 [0xBC84, 0xD37C])]"

section \<open>The context\<close>

definition pick :: "dict \<Rightarrow> (string \<times> string) list \<Rightarrow> dict" where
  "pick d ks = map (\<lambda>(k, k'). (k, dget_none d k')) ks"

definition same_keys :: "string list \<Rightarrow> (string \<times> string) list" where
  "same_keys ks = map (\<lambda>k. (k, k)) ks"

definition slim_agent :: "dict \<Rightarrow> dict" where
  "slim_agent a = [(''state'', dget_none a ''state''), (''last_reasoning'', PStr (qa_truncate (dget_none a ''last_reasoning'') 280)),
     (''cycle_count'', dget_none a ''cycle_count''), (''inbox_size'', dget_none a ''inbox_size'')]"

definition qa_context :: "dict \<Rightarrow> dict" where
  "qa_context mon =
     (let sub = (\<lambda>k. dict_or_empty (dget_none mon k)) in
      [(''factory'', PDict (pick (sub ''factory'')
          (same_keys [''cycle'', ''clock'', ''shift'', ''avg_oee'', ''fg_stock'', ''total_produced'', ''scrap_count'']))),
       (''router_snapshot'', PDict (sub ''router_snapshot'')),
       (''broker'', PDict (pick (dict_or_empty (dget_none (sub ''broker'') ''metrics''))
          [(''published'', ''total_published''), (''avg_latency_ms'', ''avg_latency_ms'')])),
       (''agents'', PDict (map (\<lambda>(aid, a). (aid, PDict (slim_agent (dict_or_empty a)))) (filter (\<lambda>(_, a). is_dict a) (sub ''agents'')))),
       (''runtime'', PDict (pick (sub ''runtime'') [(''cnp_rounds_total'', ''cnp_count''), (''events'', ''total_events'')])),
       (''mas_headline'', dget_none (sub ''mas_overview'') ''headline'')])"

section \<open>The rules\<close>

definition shown_field :: "dict \<Rightarrow> string \<Rightarrow> string" where
  "shown_field d k = py_str (dget_or d k (PStr ''-''))"

fun percent_of :: "pyval \<Rightarrow> string option" where
  "percent_of (PInt i) = Some (fmt_fixed 1 (of_int i * 100) @ ''%'')"
| "percent_of (PFloat x) = Some (fmt_fixed 1 (x * 100) @ ''%'')"
| "percent_of (PBool b) = Some (fmt_fixed 1 (if b then 100 else 0) @ ''%'')"
| "percent_of _ = None"

definition status_lines :: "dict \<Rightarrow> dict \<Rightarrow> string list" where
  "status_lines f ag =
     (let oee = (case percent_of (dget_none f ''avg_oee'') of Some s \<Rightarrow> s | None \<Rightarrow> (utf8 [0xC54C, 0x20, 0xC218, 0x20, 0xC5C6, 0xC74C]));
          active = map fst (filter (\<lambda>(_, a). case a of PDict d \<Rightarrow> dget_none d ''state'' \<notin> {PNone, PStr (utf8 [0xB300, 0xAE30])} | _ \<Rightarrow> False) ag);
          parts = map (\<lambda>(aid, a). aid @ '':'' @ shown_field (dict_or_empty a) ''state'') (take 6 ag)
      in [(utf8 [0xC2A4, 0xB0C5, 0xC0F7, 0x20, 0xAE30, 0xC900, 0x3A, 0x20, 0xAD50, 0xB300, 0x20]) @ shown_field f ''shift'' @ (utf8 [0x2C, 0x20, 0xC2DC, 0xACC4, 0x20]) @ shown_field f ''clock'' @ (utf8 [0x2C, 0x20, 0xC0AC, 0xC774, 0xD074, 0x20])
            @ shown_field f ''cycle'' @ (utf8 [0x2C, 0x20, 0xD3C9, 0xADE0, 0x20, 0x4F, 0x45, 0x45, 0x28, 0xC2A4, 0xB0C5, 0xC0F7, 0x29, 0x20]) @ oee @ ''.'',
          (utf8 [0xC644, 0xC81C, 0xD488, 0x20, 0xC7AC, 0xACE0, 0x20]) @ shown_field f ''fg_stock'' @ (utf8 [0x2C, 0x20, 0xB204, 0xC801, 0x20, 0xC0DD, 0xC0B0, 0x20]) @ shown_field f ''total_produced''
            @ (utf8 [0x2C, 0x20, 0xD3D0, 0xAE30, 0x20]) @ shown_field f ''scrap_count'' @ ''.'']
         @ (if active \<noteq> [] then [(utf8 [0xD65C, 0xC131, 0xC5D0, 0x20, 0xAC00, 0xAE4C, 0xC6B4, 0x20, 0xC5D0, 0xC774, 0xC804, 0xD2B8, 0x3A, 0x20]) @ py_join '', '' active @ ''.''] else [])
         @ (if parts \<noteq> [] then [(utf8 [0xC5D0, 0xC774, 0xC804, 0xD2B8, 0x20, 0xC0C1, 0xD0DC, 0x20, 0xC694, 0xC57D, 0x20, 0x2014, 0x20]) @ py_join (utf8 [0x20, 0xB7, 0x20]) parts @ ''.''] else []))"

definition heuristic_lines :: "string \<Rightarrow> dict \<Rightarrow> string list" where
  "heuristic_lines q ctx =
     (let sub = (\<lambda>k. dict_or_empty (dget_none ctx k)); f = sub ''factory''; br = sub ''broker''; rs = sub ''router_snapshot'' in
      (if wants_status q then status_lines f (sub ''agents'') else [])
      @ (if wants_oee q \<and> \<not> wants_status q
         then (case percent_of (dget_none f ''avg_oee'') of Some s \<Rightarrow> [(utf8 [0xD3C9, 0xADE0, 0x20, 0x4F, 0x45, 0x45, 0x28, 0xC2A4, 0xB0C5, 0xC0F7, 0x29, 0x3A, 0x20]) @ s @ ''.''] | None \<Rightarrow> []) else [])
      @ (if wants_broker q
         then [(utf8 [0xBE0C, 0xB85C, 0xCEE4, 0x3A, 0x20, 0xB204, 0xC801, 0x20, 0xBC1C, 0xD589, 0x20]) @ shown_field br ''published'' @ (utf8 [0x2C, 0x20, 0xD3C9, 0xADE0, 0x20, 0xC9C0, 0xC5F0, 0x20]) @ shown_field br ''avg_latency_ms'' @ '' ms.''] else [])
      @ (if wants_cnp q
         then [(utf8 [0xB204, 0xC801, 0x20, 0x43, 0x4E, 0x50, 0x20, 0xD611, 0xC0C1, 0x20, 0xD69F, 0xC218, 0x28, 0xB7F0, 0xD0C0, 0xC784, 0x29, 0x3A, 0x20]) @ shown_field (sub ''runtime'') ''cnp_rounds_total'' @ ''.''] else [])
      @ (if wants_sensor q
         then [(utf8 [0xB77C, 0xC6B0, 0xD130, 0x20, 0xC2A4, 0xB0C5, 0xC0F7, 0x3A, 0x20, 0xC9C4, 0xB3D9, 0x20]) @ shown_field rs ''vibration_mm_s'' @ (utf8 [0x20, 0x6D, 0x6D, 0x2F, 0x73, 0x2C, 0x20, 0xC720, 0xC628, 0x20]) @ shown_field rs ''oil_temp_c''
            @ (utf8 [0x20, 0xB0, 0x43, 0x2C, 0x20, 0xC790, 0xC7AC, 0xBC84, 0xD37C, 0x20]) @ shown_field rs ''material_buffer_hours'' @ '' h.''] else []))"

definition heuristic_answer :: "string \<Rightarrow> dict \<Rightarrow> string" where
  "heuristic_answer q ctx =
     (let ls = heuristic_lines q ctx in py_join [CHR 0x0A]
        (if ls = [] then [(utf8 [0xC9C8, 0xBB38, 0xC744, 0x20, 0xB354, 0x20, 0xAD6C, 0xCCB4, 0xC801, 0xC73C, 0xB85C, 0x20, 0xD574, 0x20, 0xC8FC, 0xC138, 0xC694, 0x2E, 0x20, 0xC608, 0x3A, 0x20, 0xAB, 0xD604, 0xC7AC, 0x20, 0xC0C1, 0xD0DC, 0x20, 0xC5B4, 0xB54C, 0x3F, 0xBB, 0x2C, 0x20, 0xAB, 0x4F, 0x45, 0x45, 0xB294, 0x3F, 0xBB, 0x2C, 0x20, 0xAB, 0xBE0C, 0xB85C, 0xCEE4, 0x20, 0xC9C0, 0xC5F0, 0xC740, 0x3F, 0xBB, 0x20])
              @ (utf8 [0x4F, 0x50, 0x45, 0x4E, 0x41, 0x49, 0x5F, 0x41, 0x50, 0x49, 0x5F, 0x4B, 0x45, 0x59, 0xAC00, 0x20, 0xC788, 0xC73C, 0xBA74, 0x20, 0xAC19, 0xC740, 0x20, 0xC2A4, 0xB0C5, 0xC0F7, 0xC73C, 0xB85C, 0x20, 0xC790, 0xC5F0, 0xC5B4, 0x20, 0xB2F5, 0xBCC0, 0xC774, 0x20, 0xAC00, 0xB2A5, 0xD569, 0xB2C8, 0xB2E4, 0x2E])]
         else ls @ [(utf8 [0x28, 0x4C, 0x4C, 0x4D, 0x20, 0xBBF8, 0xC5F0, 0xACB0, 0x20, 0xC2DC, 0x20, 0xADDC, 0xCE59, 0x20, 0xAE30, 0xBC18, 0x20, 0xC694, 0xC57D, 0xC785, 0xB2C8, 0xB2E4, 0x2E, 0x20, 0xD0A4, 0x20, 0xC124, 0xC815, 0x20, 0xC2DC, 0x20, 0xBB38, 0xC7A5, 0xD615, 0xC73C, 0xB85C, 0x20, 0xBCF4, 0xAC15, 0xB429, 0xB2C8, 0xB2E4, 0x2E, 0x29])]))"

section \<open>Answers\<close>

definition history_line :: "dict \<Rightarrow> string option" where
  "history_line h =
     (let role = py_lower (py_strip (py_str (dget_or h ''role'' (PStr '''')))); content = qa_truncate (dget_none h ''content'') 1200
      in if content = [] then None
         else if role = ''user'' then Some ((utf8 [0xC0AC, 0xC6A9, 0xC790, 0x3A, 0x20]) @ content)
         else if role = ''assistant'' then Some ((utf8 [0xB3C4, 0xC6B0, 0xBBF8, 0x3A, 0x20]) @ content) else None)"

definition history_block :: "pyval list option \<Rightarrow> string" where
  "history_block history = (case history of None \<Rightarrow> [] | Some hs \<Rightarrow>
     (let ls = List.map_filter (\<lambda>h. case h of PDict d \<Rightarrow> history_line d | _ \<Rightarrow> None) (last_n 8 hs)
      in if ls = [] then []
         else (utf8 [0x23, 0x23, 0x20, 0xC774, 0xC804, 0x20, 0xB300, 0xD654, 0x20, 0x28, 0xCC38, 0xACE0, 0xB9CC, 0x2C, 0x20, 0xC218, 0xCE58, 0xB294, 0x20, 0xC544, 0xB798, 0x20, 0xCD5C, 0xC2E0, 0x20, 0xC2A4, 0xB0C5, 0xC0F7, 0x20, 0xC6B0, 0xC120, 0x29]) @ [CHR 0x0A] @ py_join [CHR 0x0A] ls @ [CHR 0x0A, CHR 0x0A]))"

definition qa_prompt :: "(dict \<Rightarrow> string) \<Rightarrow> pyval list option \<Rightarrow> dict \<Rightarrow> string \<Rightarrow> string" where
  "qa_prompt dumps history ctx q =
     history_block history @ (utf8 [0x23, 0x23, 0x20, 0xD604, 0xC7AC, 0x20, 0xC2A4, 0xB0C5, 0xC0F7, 0x20, 0x28, 0x4A, 0x53, 0x4F, 0x4E, 0x29]) @ [CHR 0x0A] @ ''```json'' @ [CHR 0x0A] @ dumps ctx @ [CHR 0x0A] @ ''```'' @ [CHR 0x0A, CHR 0x0A]
     @ (utf8 [0x23, 0x23, 0x20, 0xC774, 0xBC88, 0x20, 0xC0AC, 0xC6A9, 0xC790, 0x20, 0xC9C8, 0xBB38]) @ [CHR 0x0A] @ q"

definition answer_question ::
  "(dict \<Rightarrow> string) \<Rightarrow> (string \<Rightarrow> reply) \<Rightarrow> call_clock \<Rightarrow> dict \<Rightarrow> string \<Rightarrow> pyval list option \<Rightarrow> llm option \<Rightarrow> dict \<times> llm option" where
  "answer_question dumps remote k mon question history llm =
     (let q0 = py_strip question in
      if q0 = [] then ([(''answer'', PStr ''''), (''mode'', PStr ''none''), (''error'', PStr (utf8 [0xC9C8, 0xBB38, 0xC774, 0x20, 0xBE44, 0xC5B4, 0x20, 0xC788, 0xC2B5, 0xB2C8, 0xB2E4, 0x2E]))], llm)
      else
        (let q = (if code_points q0 > 4000 then utf8_take 3997 q0 @ (utf8 [0x2026]) else q0); ctx = qa_context mon;
             enabled = (case llm of Some c \<Rightarrow> lc_enabled c | None \<Rightarrow> False);
             rules = [(''answer'', PStr (heuristic_answer q ctx)), (''mode'', PStr ''heuristic''),
                      (''hint'', if enabled then PNone else PStr (utf8 [0x4F, 0x50, 0x45, 0x4E, 0x41, 0x49, 0x5F, 0x41, 0x50, 0x49, 0x5F, 0x4B, 0x45, 0x59, 0xB97C, 0x20, 0xC124, 0xC815, 0xD558, 0xBA74, 0x20, 0xC790, 0xC5F0, 0xC5B4, 0xB85C, 0x20, 0xB354, 0x20, 0xC815, 0xAD50, 0xD558, 0xAC8C, 0x20, 0xB2F5, 0xD569, 0xB2C8, 0xB2E4, 0x2E]))]
         in case llm of
              Some c \<Rightarrow> (if lc_enabled c then
                  (let (text, c') = complete_text (remote (qa_prompt dumps history ctx q)) k c
                   in (case text of
                         Some t \<Rightarrow> [(''answer'', PStr t), (''mode'', PStr ''llm''), (''model'', PStr (lc_model c))]
                       | None \<Rightarrow> rules, Some c'))
                else (rules, llm))
            | None \<Rightarrow> (rules, llm)))"

text \<open>The endpoint: the body of the request, if it is a mapping, gives question and history.\<close>

definition clean_turn :: "pyval \<Rightarrow> pyval option" where
  "clean_turn v = (case v of
      PDict d \<Rightarrow>
        (let role = dget_none d ''role''; c = utf8_take 2000 (py_str (dget_or d ''content'' (PStr '''')))
         in if role \<in> {PStr ''user'', PStr ''assistant''} \<and> c \<noteq> [] then Some (PDict [(''role'', role), (''content'', PStr c)]) else None)
    | _ \<Rightarrow> None)"

definition clean_history :: "pyval \<Rightarrow> pyval list option" where
  "clean_history raw = (case raw of
      PList xs \<Rightarrow> (let hs = List.map_filter clean_turn (last_n 12 xs) in if hs = [] then None else Some hs)
    | _ \<Rightarrow> None)"

definition post_ask ::
  "(dict \<Rightarrow> string) \<Rightarrow> (string \<Rightarrow> reply) \<Rightarrow> call_clock \<Rightarrow> dict \<Rightarrow> dict \<Rightarrow> llm option \<Rightarrow> dict \<times> llm option" where
  "post_ask dumps remote k mon body llm =
     answer_question dumps remote k mon (py_strip (py_str (dget_or body ''question'' (PStr '''')))) (clean_history (dget_none body ''history'')) llm"

section \<open>Laws\<close>

lemma py_join_nonempty: "xs \<noteq> [] \<Longrightarrow> \<exists>x\<in>set xs. x \<noteq> [] \<Longrightarrow> py_join sep xs \<noteq> []"
  by (induction sep xs rule: py_join.induct) auto

lemma heuristic_nonempty: "heuristic_answer q ctx \<noteq> []"
proof -
  have "(utf8 [0x28, 0x4C, 0x4C, 0x4D, 0x20, 0xBBF8, 0xC5F0, 0xACB0, 0x20, 0xC2DC, 0x20, 0xADDC, 0xCE59, 0x20, 0xAE30, 0xBC18, 0x20, 0xC694, 0xC57D, 0xC785, 0xB2C8, 0xB2E4, 0x2E, 0x20, 0xD0A4, 0x20, 0xC124, 0xC815, 0x20, 0xC2DC, 0x20, 0xBB38, 0xC7A5, 0xD615, 0xC73C, 0xB85C, 0x20, 0xBCF4, 0xAC15, 0xB429, 0xB2C8, 0xB2E4, 0x2E, 0x29]) \<noteq> []"
      "(utf8 [0xC9C8, 0xBB38, 0xC744, 0x20, 0xB354, 0x20, 0xAD6C, 0xCCB4, 0xC801, 0xC73C, 0xB85C, 0x20, 0xD574, 0x20, 0xC8FC, 0xC138, 0xC694, 0x2E, 0x20, 0xC608, 0x3A, 0x20, 0xAB, 0xD604, 0xC7AC, 0x20, 0xC0C1, 0xD0DC, 0x20, 0xC5B4, 0xB54C, 0x3F, 0xBB, 0x2C, 0x20, 0xAB, 0x4F, 0x45, 0x45, 0xB294, 0x3F, 0xBB, 0x2C, 0x20, 0xAB, 0xBE0C, 0xB85C, 0xCEE4, 0x20, 0xC9C0, 0xC5F0, 0xC740, 0x3F, 0xBB, 0x20]) \<noteq> []"
    by (simp_all add: utf8_def utf8_char_def)
  then show ?thesis unfolding heuristic_answer_def Let_def by (intro py_join_nonempty) auto
qed

text \<open>
  \<open>every_question_answered\<close>: every question that is not blank gets a non-empty answer: the
  model's text when it is connected and replies with one, otherwise the text of the keyword rules, which
  depends on the question and the monitoring document only. A failing model changes nothing
  but its own logs.
\<close>

theorem every_question_answered:
  assumes "py_strip question \<noteq> []"
  shows "\<exists>text mode rest. fst (answer_question dumps remote k mon question history llm) = (''answer'', PStr text) # (''mode'', PStr mode) # rest
    \<and> text \<noteq> [] \<and> mode \<in> {''llm'', ''heuristic''}
    \<and> (mode = ''heuristic'' \<longleftrightarrow> (case llm of None \<Rightarrow> True | Some c \<Rightarrow> \<not> lc_enabled c
         \<or> fst (complete_text (remote (qa_prompt dumps history (qa_context mon)
               (if code_points (py_strip question) > 4000 then utf8_take 3997 (py_strip question) @ (utf8 [0x2026]) else py_strip question))) k c) = None))"
proof -
  have t: "fst (complete_text r k c) = Some x \<Longrightarrow> x \<noteq> []" for r c x
    by (auto simp: complete_text_def Let_def split: if_splits reply.splits)
  show ?thesis using assms heuristic_nonempty t
    by (cases llm) (auto simp: answer_question_def Let_def case_prod_unfold split: option.split)
qed

theorem every_question_answered_witness:
  "\<forall>dumps remote k. \<exists>text rest. fst (answer_question dumps remote k [] ''OEE'' None None)
     = (''answer'', PStr text) # (''mode'', PStr ''heuristic'') # rest \<and> text \<noteq> []"
proof (intro allI)
  fix dumps :: "dict \<Rightarrow> string" and remote :: "string \<Rightarrow> reply" and k
  have "py_strip ''OEE'' \<noteq> []" by (simp add: py_strip_def is_space_def)
  from every_question_answered [OF this, of dumps remote k "[]" None None]
  show "\<exists>text rest. fst (answer_question dumps remote k [] ''OEE'' None None)
     = (''answer'', PStr text) # (''mode'', PStr ''heuristic'') # rest \<and> text \<noteq> []" by auto
qed

end
